(* ===== verification/Prelude.thy ===== *)
theory Prelude
  imports Main "HOL-Library.Multiset"
begin

text \<open>
  Shared vocabulary of the development: the parts of the JavaScript language and standard
  library that the sources use, as executable functions, with the lemmas every component
  relies on.

  \<^item> strings: a JavaScript string is a \<^typ>\<open>string\<close>; a literal character outside ASCII is written
    as its UTF-8 bytes.  Trimming and case mapping are those of ASCII text;
  \<^item> \<open>Map\<close>: an insertion-ordered association list (\<open>jm_get\<close>, \<open>jm_set\<close>, \<open>jm_delete\<close>), with its
    contract as the locale \<open>js_map\<close>;
  \<^item> \<open>Array.prototype.sort\<close>: a stable sort by an integer-valued comparator (\<open>js_sort\<close>), with the
    locale \<open>js_comparator\<close> of consistent comparators, under which the result is the unique
    stable sorted rearrangement;
  \<^item> \<open>xs.map(x => x.id === id ? f(x) : x)\<close>: \<open>update_by\<close>, with the locale \<open>keyed_update\<close> of
    updates that keep the key;
  \<^item> \<open>undefined\<close> as \<^const>\<open>None\<close>, a raised error as \<^const>\<open>Inl\<close>.
\<close>

named_theorems jm_simps \<open>simplification rules for insertion-ordered maps\<close>
named_theorems sort_simps \<open>set, length and multiset of a sorted list\<close>

section \<open>Strings\<close>

type_synonym jstr = string

definition js_ws :: "char \<Rightarrow> bool" where
  "js_ws c \<longleftrightarrow> (let n = of_char c :: nat in n = 32 \<or> (9 \<le> n \<and> n \<le> 13))"

definition js_trim_start :: "jstr \<Rightarrow> jstr" where
  "js_trim_start s = dropWhile js_ws s"

definition js_trim :: "jstr \<Rightarrow> jstr" where
  "js_trim s = rev (dropWhile js_ws (rev (js_trim_start s)))"

definition js_blank :: "jstr \<Rightarrow> bool" where
  "js_blank s \<longleftrightarrow> js_trim s = []"

definition lower_char :: "char \<Rightarrow> char" where
  "lower_char c = (let n = of_char c :: nat in if 65 \<le> n \<and> n \<le> 90 then char_of (n + 32) else c)"

definition upper_char :: "char \<Rightarrow> char" where
  "upper_char c = (let n = of_char c :: nat in if 97 \<le> n \<and> n \<le> 122 then char_of (n - 32) else c)"

definition js_toLowerCase :: "jstr \<Rightarrow> jstr" where
  "js_toLowerCase s = map lower_char s"

definition js_toUpperCase :: "jstr \<Rightarrow> jstr" where
  "js_toUpperCase s = map upper_char s"

definition is_digit :: "char \<Rightarrow> bool" where
  "is_digit c \<longleftrightarrow> (let n = of_char c :: nat in 48 \<le> n \<and> n \<le> 57)"

fun js_startsWith :: "jstr \<Rightarrow> jstr \<Rightarrow> bool" where
  "js_startsWith s [] = True"
| "js_startsWith [] (p # ps) = False"
| "js_startsWith (c # s) (p # ps) = (c = p \<and> js_startsWith s ps)"

definition js_endsWith :: "jstr \<Rightarrow> jstr \<Rightarrow> bool" where
  "js_endsWith s p = js_startsWith (rev s) (rev p)"

fun js_includes :: "jstr \<Rightarrow> jstr \<Rightarrow> bool" where
  "js_includes [] p = js_startsWith [] p"
| "js_includes (c # s) p = (js_startsWith (c # s) p \<or> js_includes s p)"

fun js_join :: "jstr \<Rightarrow> jstr list \<Rightarrow> jstr" where
  "js_join sep [] = []"
| "js_join sep [x] = x"
| "js_join sep (x # y # xs) = x @ sep @ js_join sep (y # xs)"

text \<open>\<open>s.split(c)\<close> for a separator of one character.\<close>

fun split_on :: "char \<Rightarrow> jstr \<Rightarrow> jstr list" where
  "split_on c [] = [[]]"
| "split_on c (x # xs) =
     (if x = c then [] # split_on c xs
      else (case split_on c xs of [] \<Rightarrow> [[x]] | h # t \<Rightarrow> (x # h) # t))"

definition digit_char :: "nat \<Rightarrow> char" where
  "digit_char n = char_of (48 + n mod 10)"

fun nat_str :: "nat \<Rightarrow> jstr" where
  "nat_str n = (if n < 10 then [digit_char n] else nat_str (n div 10) @ [digit_char n])"

declare nat_str.simps [simp del]

definition int_str :: "int \<Rightarrow> jstr" where
  "int_str i = (if i < 0 then CHR ''-'' # nat_str (nat (- i)) else nat_str (nat i))"

text \<open>\<open>parseInt(s, 10)\<close>: leading white space, a sign, then as many digits as there are; \<^const>\<open>None\<close> is \<open>NaN\<close>.\<close>

definition digit_val :: "char \<Rightarrow> nat" where
  "digit_val c = of_char c - 48"

definition digits_val :: "jstr \<Rightarrow> nat" where
  "digits_val ds = foldl (\<lambda>n c. 10 * n + digit_val c) 0 ds"

definition parse_digits :: "jstr \<Rightarrow> nat option" where
  "parse_digits s = (let ds = takeWhile is_digit s in if ds = [] then None else Some (digits_val ds))"

definition js_parseInt :: "jstr \<Rightarrow> int option" where
  "js_parseInt s =
     (case js_trim_start s of
        [] \<Rightarrow> None
      | c # r \<Rightarrow>
         if c = CHR ''-'' then map_option (\<lambda>n. - int n) (parse_digits r)
         else if c = CHR ''+'' then map_option int (parse_digits r)
         else map_option int (parse_digits (c # r)))"

text \<open>Punctuation outside ASCII that the sources use in user-facing strings.\<close>

definition u_middot :: jstr where "u_middot = [CHR 0xC2, CHR 0xB7]"
definition u_mdash :: jstr where "u_mdash = [CHR 0xE2, CHR 0x80, CHR 0x94]"
definition u_hellip :: jstr where "u_hellip = [CHR 0xE2, CHR 0x80, CHR 0xA6]"
definition u_rarr :: jstr where "u_rarr = [CHR 0xE2, CHR 0x86, CHR 0x92]"

text \<open>The order of \<open>Array.prototype.sort\<close> without a comparison function, on strings.\<close>

fun str_cmp :: "jstr \<Rightarrow> jstr \<Rightarrow> int" where
  "str_cmp [] [] = 0"
| "str_cmp [] (b # bs) = -1"
| "str_cmp (a # as) [] = 1"
| "str_cmp (a # as) (b # bs) = (if a = b then str_cmp as bs else int (of_char a) - int (of_char b))"

lemma split_on_whole: "c \<notin> set a \<Longrightarrow> split_on c a = [a]"
  by (induction a) auto

lemma split_on_step: "c \<notin> set a \<Longrightarrow> split_on c (a @ c # b) = a # split_on c b"
  by (induction a) auto

lemma digit_char_facts: "is_digit (digit_char n)" "digit_val (digit_char n) = n mod 10" "\<not> js_ws (digit_char n)"
    "digit_char n \<noteq> CHR ''-''" "digit_char n \<noteq> CHR ''+''"
proof -
  have c: "(of_char (digit_char n) :: nat) = 48 + n mod 10" by (simp add: digit_char_def of_char_of)
  then show "is_digit (digit_char n)" "digit_val (digit_char n) = n mod 10" "\<not> js_ws (digit_char n)"
    by (simp_all add: is_digit_def digit_val_def js_ws_def)
  have "d \<noteq> digit_char n" if "(of_char d :: nat) < 48" for d using c that by fastforce
  then show "digit_char n \<noteq> CHR ''-''" "digit_char n \<noteq> CHR ''+''" by (force, force)
qed

lemma nat_str_digits: "list_all is_digit (nat_str n)" and nat_str_nonempty: "nat_str n \<noteq> []"
  and digits_val_nat_str: "digits_val (nat_str n) = n"
proof -
  have "list_all is_digit (nat_str n) \<and> nat_str n \<noteq> [] \<and> digits_val (nat_str n) = n"
  proof (induction n rule: nat_str.induct)
    case (1 n)
    show ?case
    proof (cases "n < 10")
      case True
      then show ?thesis by (simp add: nat_str.simps [of n] digit_char_facts digits_val_def)
    next
      case False
      then show ?thesis using 1 by (simp add: nat_str.simps [of n] digit_char_facts digits_val_def)
    qed
  qed
  then show "list_all is_digit (nat_str n)" "nat_str n \<noteq> []" "digits_val (nat_str n) = n" by simp_all
qed

lemma nat_str_Cons: "\<exists>m r. nat_str n = digit_char m # r"
proof (induction n rule: nat_str.induct)
  case (1 n)
  then show ?case by (cases "n < 10") (auto simp: nat_str.simps [of n])
qed

lemma js_parseInt_nat_str:
  assumes "t = [] \<or> \<not> is_digit (hd t)" shows "js_parseInt (nat_str n @ t) = Some (int n)"
proof -
  have "takeWhile is_digit t = []" using assms by (cases t) auto
  then have tw: "takeWhile is_digit (nat_str n @ t) = nat_str n"
    using nat_str_digits [of n] by (simp add: takeWhile_append list_all_iff)
  then have p: "parse_digits (nat_str n @ t) = Some n"
    using nat_str_nonempty [of n] by (simp add: parse_digits_def digits_val_nat_str)
  obtain m r where mr: "nat_str n = digit_char m # r" using nat_str_Cons by blast
  then have "js_trim_start (nat_str n @ t) = digit_char m # r @ t"
    by (simp add: js_trim_start_def digit_char_facts)
  then show ?thesis using p mr by (simp add: js_parseInt_def digit_char_facts)
qed

lemma js_startsWith_prefix: "js_startsWith s p \<longleftrightarrow> (\<exists>t. s = p @ t)"
  by (induction s p rule: js_startsWith.induct) auto

lemma js_endsWith_suffix: "js_endsWith s p \<longleftrightarrow> (\<exists>t. s = t @ p)"
  unfolding js_endsWith_def js_startsWith_prefix
  by (metis rev_append rev_rev_ident)

lemma js_includes_iff: "js_includes s p \<longleftrightarrow> (\<exists>a b. s = a @ p @ b)"
proof (induction s p rule: js_includes.induct)
  case (1 p)
  then show ?case by (auto simp: js_startsWith_prefix)
next
  case (2 c s p)
  show ?case
  proof
    assume "js_includes (c # s) p"
    then consider (here) "js_startsWith (c # s) p" | (later) "js_includes s p"
      by auto
    then show "\<exists>a b. c # s = a @ p @ b"
    proof cases
      case here
      then show ?thesis by (metis append_Nil js_startsWith_prefix)
    next
      case later
      with 2 show ?thesis by (metis append_Cons)
    qed
  next
    assume "\<exists>a b. c # s = a @ p @ b"
    then obtain a b where ab: "c # s = a @ p @ b" by blast
    show "js_includes (c # s) p"
    proof (cases a)
      case Nil
      with ab have "js_startsWith (c # s) p" by (auto simp: js_startsWith_prefix)
      then show ?thesis by simp
    next
      case (Cons x a')
      with ab have "s = a' @ p @ b" by simp
      with 2 show ?thesis by auto
    qed
  qed
qed

lemma js_includes_Nil [simp]: "js_includes s []"
  by (cases s) auto

lemma js_trim_blank_iff: "js_blank s \<longleftrightarrow> list_all js_ws s"
proof -
  have "js_blank s \<longleftrightarrow> (\<forall>c \<in> set (dropWhile js_ws s). js_ws c)"
    by (simp add: js_blank_def js_trim_def js_trim_start_def)
  also have "\<dots> \<longleftrightarrow> (\<forall>c \<in> set s. js_ws c)"
    by (induction s) auto
  finally show ?thesis by (simp add: list_all_iff)
qed

lemma js_blank_Nil [simp]: "js_blank []"
  by (simp add: js_trim_blank_iff)

section \<open>Insertion-ordered maps\<close>

type_synonym ('k, 'v) jmap = "('k \<times> 'v) list"

definition jm_get :: "('k, 'v) jmap \<Rightarrow> 'k \<Rightarrow> 'v option" where
  "jm_get m k = map_of m k"

fun jm_set :: "'k \<Rightarrow> 'v \<Rightarrow> ('k, 'v) jmap \<Rightarrow> ('k, 'v) jmap" where
  "jm_set k v [] = [(k, v)]"
| "jm_set k v ((k', v') # m) = (if k = k' then (k, v) # m else (k', v') # jm_set k v m)"

definition jm_delete :: "'k \<Rightarrow> ('k, 'v) jmap \<Rightarrow> ('k, 'v) jmap" where
  "jm_delete k m = filter (\<lambda>(k', v). k' \<noteq> k) m"

definition jm_keys :: "('k, 'v) jmap \<Rightarrow> 'k list" where
  "jm_keys m = map fst m"

definition jm_values :: "('k, 'v) jmap \<Rightarrow> 'v list" where
  "jm_values m = map snd m"

definition jm_wf :: "('k, 'v) jmap \<Rightarrow> bool" where
  "jm_wf m \<longleftrightarrow> distinct (jm_keys m)"

text \<open>The contract of \<open>Map\<close>: lookup after each operation, and that the key order is the order of
  first insertion.\<close>

locale js_map =
  fixes empty :: "'m"
    and upd :: "'k \<Rightarrow> 'v \<Rightarrow> 'm \<Rightarrow> 'm"
    and del :: "'k \<Rightarrow> 'm \<Rightarrow> 'm"
    and get :: "'m \<Rightarrow> 'k \<Rightarrow> 'v option"
    and keys :: "'m \<Rightarrow> 'k list"
    and wf :: "'m \<Rightarrow> bool"
  assumes get_empty: "get empty k = None"
    and get_upd: "get (upd k v m) k' = (if k' = k then Some v else get m k')"
    and get_del: "get (del k m) k' = (if k' = k then None else get m k')"
    and keys_get: "k \<in> set (keys m) \<longleftrightarrow> get m k \<noteq> None"
    and keys_upd: "keys (upd k v m) = (if k \<in> set (keys m) then keys m else keys m @ [k])"
    and keys_del: "keys (del k m) = filter (\<lambda>k'. k' \<noteq> k) (keys m)"
    and wf_empty: "wf empty"
    and wf_upd: "wf m \<Longrightarrow> wf (upd k v m)"
    and wf_del: "wf m \<Longrightarrow> wf (del k m)"
begin

lemma keys_empty: "keys empty = []"
proof -
  have "k \<notin> set (keys empty)" for k by (simp add: keys_get get_empty)
  then show ?thesis by (metis list.set_intros(1) neq_Nil_conv)
qed

lemma get_upd_same: "get (upd k v m) k = Some v"
  by (simp add: get_upd)

lemma get_upd_other: "k' \<noteq> k \<Longrightarrow> get (upd k v m) k' = get m k'"
  by (simp add: get_upd)

lemma get_del_same: "get (del k m) k = None"
  by (simp add: get_del)

lemma get_del_other: "k' \<noteq> k \<Longrightarrow> get (del k m) k' = get m k'"
  by (simp add: get_del)

lemma set_keys_upd: "set (keys (upd k v m)) = insert k (set (keys m))"
  by (auto simp: keys_upd)

lemma set_keys_del: "set (keys (del k m)) = set (keys m) - {k}"
  by (auto simp: keys_del)

text \<open>An update of a present key keeps every key in its place.\<close>

lemma keys_upd_present: "get m k = Some w \<Longrightarrow> keys (upd k v m) = keys m"
  by (simp add: keys_upd keys_get)

lemma del_absent: "get m k = None \<Longrightarrow> get (del k m) = get m"
  by (rule ext) (simp add: get_del)

end

lemma jm_keys_set: "jm_keys (jm_set k v m) = (if k \<in> set (jm_keys m) then jm_keys m else jm_keys m @ [k])"
  by (induction k v m rule: jm_set.induct) (auto simp: jm_keys_def)

lemma jm_get_set: "jm_get (jm_set k v m) k' = (if k' = k then Some v else jm_get m k')"
  by (induction k v m rule: jm_set.induct) (auto simp: jm_get_def)

lemma jm_keys_delete: "jm_keys (jm_delete k m) = filter (\<lambda>k'. k' \<noteq> k) (jm_keys m)"
  by (induction m) (auto simp: jm_keys_def jm_delete_def)

lemma jm_get_delete: "jm_get (jm_delete k m) k' = (if k' = k then None else jm_get m k')"
  by (induction m) (auto simp: jm_get_def jm_delete_def)

lemma jm_keys_get: "k \<in> set (jm_keys m) \<longleftrightarrow> jm_get m k \<noteq> None"
  unfolding jm_get_def jm_keys_def by (metis map_of_eq_None_iff list.set_map)

lemma jm_wf_set: "jm_wf m \<Longrightarrow> jm_wf (jm_set k v m)"
  by (auto simp: jm_wf_def jm_keys_set)

lemma jm_wf_delete: "jm_wf m \<Longrightarrow> jm_wf (jm_delete k m)"
  by (simp add: jm_wf_def jm_keys_delete)

interpretation jm: js_map "[]" jm_set jm_delete jm_get jm_keys jm_wf
  by unfold_locales
     (auto simp: jm_get_set jm_get_delete jm_keys_get jm_keys_set jm_keys_delete jm_wf_set jm_wf_delete,
      auto simp: jm_get_def jm_wf_def jm_keys_def)

lemmas jm_facts [jm_simps] =
  jm.get_empty jm.get_upd jm.get_del jm.set_keys_upd jm.set_keys_del jm.wf_empty jm.wf_upd jm.wf_del

lemma jm_get_values: "jm_get m k = Some v \<Longrightarrow> v \<in> set (jm_values m)"
  by (auto simp: jm_get_def jm_values_def dest!: map_of_SomeD intro: rev_image_eqI)

lemma jm_values_set: "set (jm_values (jm_set k v m)) \<subseteq> insert v (set (jm_values m))"
  by (induction k v m rule: jm_set.induct) (auto simp: jm_values_def)

lemma jm_values_delete: "set (jm_values (jm_delete k m)) \<subseteq> set (jm_values m)"
  by (auto simp: jm_values_def jm_delete_def)

lemma jm_delete_absent: "jm_get m k = None \<Longrightarrow> jm_delete k m = m"
  by (induction m) (auto simp: jm_get_def jm_delete_def split: if_splits)

section \<open>Stable sorting\<close>

fun js_insert :: "('a \<Rightarrow> 'a \<Rightarrow> int) \<Rightarrow> 'a \<Rightarrow> 'a list \<Rightarrow> 'a list" where
  "js_insert cmp x [] = [x]"
| "js_insert cmp x (y # ys) = (if cmp x y \<le> 0 then x # y # ys else y # js_insert cmp x ys)"

fun js_sort :: "('a \<Rightarrow> 'a \<Rightarrow> int) \<Rightarrow> 'a list \<Rightarrow> 'a list" where
  "js_sort cmp [] = []"
| "js_sort cmp (x # xs) = js_insert cmp x (js_sort cmp xs)"

lemma mset_js_insert [sort_simps]: "mset (js_insert cmp x ys) = add_mset x (mset ys)"
  by (induction ys) auto

lemma mset_js_sort [sort_simps]: "mset (js_sort cmp xs) = mset xs"
  by (induction xs) (auto simp: mset_js_insert)

lemma set_js_sort [sort_simps]: "set (js_sort cmp xs) = set xs"
  by (metis mset_js_sort set_mset_mset)

lemma length_js_sort [sort_simps]: "length (js_sort cmp xs) = length xs"
  by (metis mset_js_sort size_mset)

lemma set_js_insert [sort_simps]: "set (js_insert cmp x ys) = insert x (set ys)"
  by (metis mset_js_insert set_mset_add_mset_insert set_mset_mset)

text \<open>A consistent comparator: a total preorder read off the sign of \<open>cmp x y\<close>.\<close>

locale js_comparator =
  fixes cmp :: "'a \<Rightarrow> 'a \<Rightarrow> int"
  assumes total: "cmp x y \<le> 0 \<or> cmp y x \<le> 0"
    and trans: "cmp x y \<le> 0 \<Longrightarrow> cmp y z \<le> 0 \<Longrightarrow> cmp x z \<le> 0"
begin

lemma refl: "cmp x x \<le> 0"
  using total by blast

lemma sorted_insert:
  "sorted_wrt (\<lambda>x y. cmp x y \<le> 0) ys \<Longrightarrow> sorted_wrt (\<lambda>x y. cmp x y \<le> 0) (js_insert cmp x ys)"
proof (induction ys)
  case Nil
  then show ?case by simp
next
  case (Cons y ys)
  show ?case
  proof (cases "cmp x y \<le> 0")
    case True
    with Cons.prems show ?thesis by (auto intro: trans)
  next
    case False
    then have "cmp y x \<le> 0" using total by blast
    with Cons False show ?thesis by (auto simp: set_js_insert)
  qed
qed

lemma sorted_sort: "sorted_wrt (\<lambda>x y. cmp x y \<le> 0) (js_sort cmp xs)"
  by (induction xs) (auto intro: sorted_insert)

definition eqv :: "'a \<Rightarrow> 'a \<Rightarrow> bool" where
  "eqv x y \<longleftrightarrow> cmp x y \<le> 0 \<and> cmp y x \<le> 0"

lemma filter_insert_eqv:
  "filter (eqv z) (js_insert cmp x ys) = (if eqv z x then x # filter (eqv z) ys else filter (eqv z) ys)"
proof (induction ys)
  case Nil
  then show ?case by simp
next
  case (Cons y ys)
  have "\<not> (eqv z x \<and> eqv z y)" if "\<not> cmp x y \<le> 0"
    using that trans by (auto simp: eqv_def)
  with Cons show ?case by auto
qed

text \<open>Elements the comparator does not separate keep their order.\<close>

lemma stable: "filter (eqv z) (js_sort cmp xs) = filter (eqv z) xs"
  by (induction xs) (auto simp: filter_insert_eqv)

lemma insert_least: "\<forall>y \<in> set ys. cmp x y \<le> 0 \<Longrightarrow> js_insert cmp x ys = x # ys"
  by (cases ys) auto

lemma sort_sorted: "sorted_wrt (\<lambda>x y. cmp x y \<le> 0) xs \<Longrightarrow> js_sort cmp xs = xs"
  by (induction xs) (auto simp: insert_least)

lemma sort_idem: "js_sort cmp (js_sort cmp xs) = js_sort cmp xs"
  by (rule sort_sorted) (rule sorted_sort)

text \<open>A sorted list is determined by its classes of equivalent elements, so every stable sorting
  algorithm returns what \<open>js_sort\<close> returns.\<close>

lemma sorted_stable_unique:
  assumes "sorted_wrt (\<lambda>x y. cmp x y \<le> 0) xs" and "sorted_wrt (\<lambda>x y. cmp x y \<le> 0) ys"
    and "\<And>z. filter (eqv z) xs = filter (eqv z) ys"
  shows "xs = ys"
  using assms
proof (induction xs arbitrary: ys)
  case Nil
  show ?case
  proof (rule ccontr)
    assume "[] \<noteq> ys"
    then obtain y ys' where "ys = y # ys'" by (cases ys) auto
    with Nil.prems(3) [of y] show False by (simp add: eqv_def refl)
  qed
next
  case (Cons x xs)
  have xx: "eqv x x" by (simp add: eqv_def refl)
  have "filter (eqv x) ys = x # filter (eqv x) xs"
    using Cons.prems(3) [of x] xx by simp
  then have "x \<in> set (filter (eqv x) ys)" by simp
  then have x_in: "x \<in> set ys" by simp
  then obtain y ys' where ys: "ys = y # ys'" by (cases ys) auto
  have "y \<in> set (x # xs)"
  proof -
    have "filter (eqv y) ys = y # filter (eqv y) ys'" by (simp add: ys eqv_def refl)
    then have "y \<in> set (filter (eqv y) (x # xs))" using Cons.prems(3) [of y] by simp
    then show ?thesis using filter_is_subset by fast
  qed
  then have le1: "cmp x y \<le> 0" using Cons.prems(1) refl by auto
  have le2: "cmp y x \<le> 0" using Cons.prems(2) x_in refl by (auto simp: ys)
  have yx: "y = x"
  proof -
    have "eqv x y" using le1 le2 by (simp add: eqv_def)
    then have "filter (eqv x) ys = y # filter (eqv x) ys'" by (simp add: ys)
    with \<open>filter (eqv x) ys = x # filter (eqv x) xs\<close> show ?thesis by simp
  qed
  have "xs = ys'"
  proof (rule Cons.IH)
    show "sorted_wrt (\<lambda>x y. cmp x y \<le> 0) xs" using Cons.prems(1) by simp
    show "sorted_wrt (\<lambda>x y. cmp x y \<le> 0) ys'" using Cons.prems(2) by (simp add: ys)
    show "filter (eqv z) xs = filter (eqv z) ys'" for z
      using Cons.prems(3) [of z] by (simp add: ys yx split: if_splits)
  qed
  with ys yx show ?case by simp
qed

lemma sort_unique:
  assumes "sorted_wrt (\<lambda>x y. cmp x y \<le> 0) ys" and "\<And>z. filter (eqv z) ys = filter (eqv z) xs"
  shows "js_sort cmp xs = ys"
  by (rule sorted_stable_unique) (use assms in \<open>auto simp: sorted_sort stable\<close>)

text \<open>Sorting after a \<open>push\<close> onto a sorted list puts the new element behind its equals.\<close>

lemma sort_snoc:
  assumes "sorted_wrt (\<lambda>x y. cmp x y \<le> 0) xs"
  shows "js_sort cmp (xs @ [x])
       = filter (\<lambda>y. cmp y x \<le> 0) xs @ x # filter (\<lambda>y. \<not> cmp y x \<le> 0) xs"
  using assms
proof (induction xs)
  case Nil
  then show ?case by simp
next
  case (Cons y xs)
  show ?case
  proof (cases "cmp y x \<le> 0")
    case True
    have "\<forall>z \<in> set (filter (\<lambda>y. cmp y x \<le> 0) xs @ x # filter (\<lambda>y. \<not> cmp y x \<le> 0) xs). cmp y z \<le> 0"
      using Cons.prems True by auto
    with Cons True show ?thesis by (simp add: insert_least)
  next
    case False
    then have later: "\<forall>z \<in> set xs. \<not> cmp z x \<le> 0"
      using Cons.prems trans by auto
    then have "filter (\<lambda>y. cmp y x \<le> 0) xs = []" and "filter (\<lambda>y. \<not> cmp y x \<le> 0) xs = xs"
      by (auto simp: filter_empty_conv filter_id_conv)
    with Cons False show ?thesis by (auto simp: insert_least)
  qed
qed

end

text \<open>Comparators that subtract an integer key, and lexicographic combinations of comparators.\<close>

definition cmp_key :: "('a \<Rightarrow> int) \<Rightarrow> 'a \<Rightarrow> 'a \<Rightarrow> int" where
  "cmp_key f x y = f x - f y"

lemma js_comparator_key: "js_comparator (cmp_key f)"
  by unfold_locales (auto simp: cmp_key_def)

lemma of_char_eq: "int (of_char a) = int (of_char b) \<longleftrightarrow> a = b"
  by simp

lemma str_cmp_zero: "str_cmp a b = 0 \<longleftrightarrow> a = b"
  by (induction a b rule: str_cmp.induct) (auto simp: of_char_eq)

interpretation str_order: js_comparator str_cmp
proof
  show "str_cmp x y \<le> 0 \<or> str_cmp y x \<le> 0" for x y
    by (induction x y rule: str_cmp.induct) auto
  show "str_cmp x z \<le> 0" if "str_cmp x y \<le> 0" "str_cmp y z \<le> 0" for x y z
    using that
  proof (induction x y arbitrary: z rule: str_cmp.induct)
    case (2 b bs)
    then show ?case by (cases z) auto
  next
    case (4 a as b bs)
    then show ?case by (cases z) (auto split: if_splits simp: of_char_eq)
  qed (auto elim: str_cmp.elims)
qed

section \<open>Updates of one element by its key\<close>

definition update_by :: "('a \<Rightarrow> 'k) \<Rightarrow> 'k \<Rightarrow> ('a \<Rightarrow> 'a) \<Rightarrow> 'a list \<Rightarrow> 'a list" where
  "update_by key k f xs = map (\<lambda>x. if key x = k then f x else x) xs"

lemma length_update_by [simp]: "length (update_by key k f xs) = length xs"
  by (simp add: update_by_def)

lemma update_by_absent: "k \<notin> key ` set xs \<Longrightarrow> update_by key k f xs = xs"
  by (auto simp: update_by_def intro!: map_idI)

lemma update_by_mem: "x \<in> set xs \<Longrightarrow> (if key x = k then f x else x) \<in> set (update_by key k f xs)"
  by (auto simp: update_by_def)

lemma remove_by_key:
  assumes "distinct (map key xs)" "x \<in> set xs"
  shows "mset xs = add_mset x (mset (filter (\<lambda>y. key y \<noteq> key x) xs))"
proof -
  have "filter (\<lambda>y. key y = key x) xs = [x]"
    using assms by (induction xs) (auto simp: filter_empty_conv intro: rev_image_eqI)
  then show ?thesis by (metis (no_types) mset.simps mset_filter multiset_partition add_mset_add_single union_mset_add_mset_left add_0)
qed

locale keyed_update =
  fixes key :: "'a \<Rightarrow> 'k" and f :: "'a \<Rightarrow> 'a"
  assumes key_f: "key (f x) = key x"
begin

lemma keys_kept: "map key (update_by key k f xs) = map key xs"
  by (simp add: update_by_def key_f)

lemma others_kept: "filter (\<lambda>x. key x \<noteq> k) (update_by key k f xs) = filter (\<lambda>x. key x \<noteq> k) xs"
  by (induction xs) (auto simp: update_by_def key_f)

lemma updated: "filter (\<lambda>x. key x = k) (update_by key k f xs) = map f (filter (\<lambda>x. key x = k) xs)"
  by (induction xs) (auto simp: update_by_def key_f)

lemma find_updated:
  "find (\<lambda>x. key x = k') (update_by key k f xs)
   = map_option (\<lambda>x. if k' = k then f x else x) (find (\<lambda>x. key x = k') xs)"
  by (induction xs) (auto simp: update_by_def key_f)

lemma in_updated:
  assumes "y \<in> set (update_by key k f xs)"
  shows "(\<exists>x \<in> set xs. key x = k \<and> y = f x) \<or> (y \<in> set xs \<and> key y \<noteq> k)"
  using assms by (auto simp: update_by_def split: if_splits)

end

text \<open>A page whose events leave its list alone or update the items of one key, as a button on a card does:
  what becomes of an item is decided by the number of its own clicks.\<close>

fun clicks :: "('e \<Rightarrow> 's \<Rightarrow> 's) \<Rightarrow> ('e \<Rightarrow> 's \<Rightarrow> 'k option) \<Rightarrow> 'k \<Rightarrow> 'e list \<Rightarrow> 's \<Rightarrow> nat" where
  "clicks exec target k [] s = 0"
| "clicks exec target k (ev # evs) s = (if target ev s = Some k then 1 else 0) + clicks exec target k evs (exec ev s)"

locale click_updates = keyed_update key f
  for key :: "'a \<Rightarrow> 'k" and f :: "'a \<Rightarrow> 'a" +
  fixes list_of :: "'s \<Rightarrow> 'a list" and exec :: "'e \<Rightarrow> 's \<Rightarrow> 's" and target :: "'e \<Rightarrow> 's \<Rightarrow> 'k option"
  assumes list_exec: "list_of (exec ev s) = (case target ev s of None \<Rightarrow> list_of s | Some k \<Rightarrow> update_by key k f (list_of s))"
begin

lemma find_step:
  "find (\<lambda>x. key x = k) (list_of (exec ev s))
   = map_option (if target ev s = Some k then f else id) (find (\<lambda>x. key x = k) (list_of s))"
  by (cases "target ev s") (auto simp: list_exec find_updated option.map_id option.map_ident)

lemma find_run:
  "find (\<lambda>x. key x = k) (list_of (fold exec evs s))
   = map_option (f ^^ clicks exec target k evs s) (find (\<lambda>x. key x = k) (list_of s))"
proof (induction evs arbitrary: s)
  case Nil
  then show ?case by (simp add: option.map_ident)
next
  case (Cons ev evs)
  then show ?case by (cases "find (\<lambda>x. key x = k) (list_of s)") (auto simp: find_step funpow_swap1)
qed

lemma keys_run: "map key (list_of (fold exec evs s)) = map key (list_of s)"
  by (induction evs arbitrary: s) (simp_all add: list_exec keys_kept split: option.splits)

end

section \<open>Guarded runs\<close>

text \<open>A run of a machine whose events need not be possible in every state.\<close>

fun page_run :: "('v \<Rightarrow> 'p \<Rightarrow> bool) \<Rightarrow> ('v \<Rightarrow> 'p \<Rightarrow> 'p) \<Rightarrow> 'v list \<Rightarrow> 'p \<Rightarrow> 'p option" where
  "page_run en ex [] p = Some p"
| "page_run en ex (v # vs) p = (if en v p then page_run en ex vs (ex v p) else None)"

lemma page_run_append: "page_run en ex (us @ vs) p = Option.bind (page_run en ex us p) (page_run en ex vs)"
  by (induction us arbitrary: p) simp_all

lemma page_run_invariant:
  assumes "page_run en ex vs p = Some q" "I p" "\<And>v p. I p \<Longrightarrow> en v p \<Longrightarrow> I (ex v p)"
  shows "I q"
  using assms(1,2) by (induction vs arbitrary: p) (auto simp: assms(3) split: if_splits)

text \<open>What holds at the end and not at the start has a last event that brought it about, and holds since.\<close>

lemma page_run_cause:
  assumes "page_run en ex vs p = Some q" "\<not> P p" "P q"
  shows "\<exists>us v ws r. vs = us @ v # ws \<and> page_run en ex us p = Some r \<and> en v r \<and> \<not> P r \<and> P (ex v r)
    \<and> page_run en ex ws (ex v r) = Some q
    \<and> (\<forall>as bs t. ws = as @ bs \<longrightarrow> page_run en ex as (ex v r) = Some t \<longrightarrow> P t)"
  using assms
proof (induction vs arbitrary: q rule: rev_induct)
  case Nil
  then show ?case by simp
next
  case (snoc v vs)
  then obtain r where r: "page_run en ex vs p = Some r" "en v r" "q = ex v r"
    by (auto simp: page_run_append split: bind_splits if_splits)
  show ?case
  proof (cases "P r")
    case False
    then show ?thesis using r snoc.prems by (intro exI [of _ vs] exI [of _ v] exI [of _ "[]"] exI [of _ r]) simp
  next
    case True
    from snoc.IH [OF r(1) snoc.prems(2) True] obtain us u ws x where
      u: "vs = us @ u # ws" "page_run en ex us p = Some x" "en u x" "\<not> P x" "P (ex u x)" "page_run en ex ws (ex u x) = Some r"
      and since: "\<And>as bs t. ws = as @ bs \<Longrightarrow> page_run en ex as (ex u x) = Some t \<Longrightarrow> P t" by blast
    have "P t" if "ws @ [v] = as @ bs" "page_run en ex as (ex u x) = Some t" for as bs t
    proof (cases bs rule: rev_exhaust)
      case Nil
      then show ?thesis using that u(6) r(2,3) snoc.prems(3) by (auto simp: page_run_append)
    next
      case (snoc cs c)
      then show ?thesis using that since [of as cs t] by simp
    qed
    then show ?thesis using u r(2,3) by (intro exI [of _ us] exI [of _ u] exI [of _ "ws @ [v]"] exI [of _ x]) (simp add: page_run_append)
  qed
qed

section \<open>Sets in insertion order\<close>

text \<open>\<open>[...new Set(xs)]\<close>: the first occurrence of each element, in order.\<close>

definition set_order :: "'a list \<Rightarrow> 'a list" where
  "set_order xs = fold (\<lambda>x acc. if x \<in> set acc then acc else acc @ [x]) xs []"

lemma set_order_fold:
  "distinct acc \<Longrightarrow> set (fold (\<lambda>x acc. if x \<in> set acc then acc else acc @ [x]) xs acc) = set acc \<union> set xs
     \<and> distinct (fold (\<lambda>x acc. if x \<in> set acc then acc else acc @ [x]) xs acc)"
  by (induction xs arbitrary: acc) auto

lemma set_order [simp]: "set (set_order xs) = set xs" "distinct (set_order xs)"
  using set_order_fold [of "[]" xs] by (simp_all add: set_order_def)

section \<open>Counting\<close>

definition count_where :: "('a \<Rightarrow> bool) \<Rightarrow> 'a list \<Rightarrow> nat" where
  "count_where P xs = length (filter P xs)"

lemma count_where_le: "count_where P xs \<le> length xs"
  by (simp add: count_where_def)

lemma count_where_mono: "(\<And>x. P x \<Longrightarrow> Q x) \<Longrightarrow> count_where P xs \<le> count_where Q xs"
  by (induction xs) (auto simp: count_where_def le_SucI)

lemma count_where_disj:
  "(\<And>x. \<not> (P x \<and> Q x)) \<Longrightarrow> count_where (\<lambda>x. P x \<or> Q x) xs = count_where P xs + count_where Q xs"
  by (induction xs) (auto simp: count_where_def)


text \<open>The loop \<open>for (const x of xs) out[cat(x)] += 1\<close>.\<close>

fun tally :: "('a \<Rightarrow> 'c) \<Rightarrow> 'a list \<Rightarrow> ('c \<Rightarrow> nat) \<Rightarrow> 'c \<Rightarrow> nat" where
  "tally cat [] out = out"
| "tally cat (x # xs) out = tally cat xs (out(cat x := out (cat x) + 1))"

lemma tally_count: "tally cat xs out c = out c + count_where (\<lambda>x. cat x = c) xs"
  by (induction xs arbitrary: out) (simp_all add: count_where_def)

text \<open>A list split into categories: every element is in exactly one of the listed categories, so the
  views of the categories cover the list and their counters add up.\<close>

locale category_filter =
  fixes cat :: "'a \<Rightarrow> 'c" and cats :: "'c list"
  assumes cats_distinct: "distinct cats" and cats_complete: "cat x \<in> set cats"
begin

lemma counts_add_up: "(\<Sum>c \<leftarrow> cats. count_where (\<lambda>x. cat x = c) xs) = length xs"
proof (induction xs)
  case Nil
  then show ?case by (simp add: count_where_def)
next
  case (Cons x xs)
  have "(\<Sum>c \<leftarrow> cats. count_where (\<lambda>y. cat y = c) (x # xs))
      = (\<Sum>c \<leftarrow> cats. (if cat x = c then 1 else 0) + count_where (\<lambda>y. cat y = c) xs)"
    by (intro arg_cong [where f = sum_list] map_cong) (auto simp: count_where_def)
  also have "\<dots> = (\<Sum>c \<leftarrow> cats. if cat x = c then 1 else 0) + (\<Sum>c \<leftarrow> cats. count_where (\<lambda>y. cat y = c) xs)"
    by (rule sum_list_addf)
  also have "(\<Sum>c \<leftarrow> cats. if cat x = c then 1 else 0) = (1 :: nat)"
    using cats_distinct cats_complete [of x] by (simp add: sum_list_distinct_conv_sum_set)
  finally show ?case using Cons by simp
qed

lemma views_partition: "mset (concat (map (\<lambda>c. filter (\<lambda>x. cat x = c) xs) cats)) = mset xs"
proof (induction xs)
  case Nil
  then show ?case by (induction cats) auto
next
  case (Cons x xs)
  have one: "(\<Sum>c \<leftarrow> cats. if cat x = c then {#x#} else {#}) = {#x#}"
    using cats_complete [of x] cats_distinct by (simp add: sum_list_distinct_conv_sum_set)
  have "mset (concat (map (\<lambda>c. filter (\<lambda>y. cat y = c) (x # xs)) cats))
    = (\<Sum>c \<leftarrow> cats. (if cat x = c then {#x#} else {#}) + mset (filter (\<lambda>y. cat y = c) xs))"
    unfolding mset_concat map_map by (intro arg_cong [where f = sum_list] map_cong) auto
  also have "\<dots> = {#x#} + mset (concat (map (\<lambda>c. filter (\<lambda>y. cat y = c) xs) cats))"
    by (simp add: sum_list_addf one mset_concat comp_def)
  finally show ?case using Cons by simp
qed

lemma views_cover: "x \<in> set xs \<Longrightarrow> \<exists>c \<in> set cats. x \<in> set (filter (\<lambda>y. cat y = c) xs)"
  using cats_complete [of x] by auto

end

end
