(* ===== verification/Js_Number.thy ===== *)
theory Js_Number
  imports Prelude Complex_Main
begin

text \<open>
  Numbers as exact rationals, for the fields the sources type as \<open>number\<close>: \<open>Math.round\<close>, comparison functions
  that subtract (\<open>(a, b) => f(a) - f(b)\<close>, of which a sort sees the sign only), and comparison functions that
  fall back to a second one on a tie.
\<close>

definition js_round :: "rat \<Rightarrow> int" where
  "js_round x = \<lfloor>x + 1 / 2\<rfloor>"

definition js_sign :: "rat \<Rightarrow> int" where
  "js_sign d = (if d < 0 then -1 else if d = 0 then 0 else 1)"

definition cmp_diff :: "('a \<Rightarrow> rat) \<Rightarrow> 'a \<Rightarrow> 'a \<Rightarrow> int" where
  "cmp_diff f x y = js_sign (f x - f y)"

definition cmp_then :: "('a \<Rightarrow> 'a \<Rightarrow> int) \<Rightarrow> ('a \<Rightarrow> 'a \<Rightarrow> int) \<Rightarrow> 'a \<Rightarrow> 'a \<Rightarrow> int" where
  "cmp_then c d x y = (if c x y \<noteq> 0 then c x y else d x y)"

lemma cmp_diff_le [simp]: "cmp_diff f x y \<le> 0 \<longleftrightarrow> f x \<le> f y"
  by (simp add: cmp_diff_def js_sign_def)

lemma cmp_diff_eq [simp]: "cmp_diff f x y = 0 \<longleftrightarrow> f x = f y"
  by (simp add: cmp_diff_def js_sign_def)

lemma cmp_then_le:
  "cmp_then (cmp_diff f) d x y \<le> 0 \<longleftrightarrow> f x < f y \<or> f x = f y \<and> d x y \<le> 0"
  by (auto simp: cmp_then_def cmp_diff_def js_sign_def)

lemma cmp_diff_comparator: "js_comparator (cmp_diff f)"
  by unfold_locales auto

lemma cmp_then_comparator:
  assumes "js_comparator d"
  shows "js_comparator (cmp_then (cmp_diff f) d)"
proof -
  have total: "d x y \<le> 0 \<or> d y x \<le> 0" and trans: "d x y \<le> 0 \<Longrightarrow> d y z \<le> 0 \<Longrightarrow> d x z \<le> 0" for x y z
    using assms by (auto simp: js_comparator_def)
  show ?thesis
  proof
    show "cmp_then (cmp_diff f) d x y \<le> 0 \<or> cmp_then (cmp_diff f) d y x \<le> 0" for x y
      using total [of x y] by (auto simp: cmp_then_le)
    show "cmp_then (cmp_diff f) d x y \<le> 0 \<Longrightarrow> cmp_then (cmp_diff f) d y z \<le> 0 \<Longrightarrow> cmp_then (cmp_diff f) d x z \<le> 0" for x y z
      using trans [of x y z] by (auto simp: cmp_then_le)
  qed
qed

text \<open>Sorting depends on a comparison function through its sign only.\<close>

lemma js_sort_cong:
  assumes "\<And>x y. c x y \<le> 0 \<longleftrightarrow> d x y \<le> 0"
  shows "js_sort c xs = js_sort d xs"
proof -
  have "js_insert c x ys = js_insert d x ys" for x ys by (induction ys) (simp_all add: assms)
  then show ?thesis by (induction xs) simp_all
qed

text \<open>The first element after sorting is a least one.\<close>

lemma js_sort_hd:
  assumes "js_comparator c" "js_sort c xs = x # ys"
  shows "x \<in> set xs" "\<And>y. y \<in> set xs \<Longrightarrow> c x y \<le> 0"
proof -
  show "x \<in> set xs" using assms(2) set_js_sort [of c xs] by auto
  show "c x y \<le> 0" if "y \<in> set xs" for y
  proof -
    have "y \<in> set (x # ys)" using that assms(2) set_js_sort [of c xs] by simp
    then show ?thesis
      using js_comparator.sorted_sort [OF assms(1), of xs] js_comparator.refl [OF assms(1), of x] assms(2) by auto
  qed
qed

lemma js_sort_Nil [simp]: "js_sort c xs = [] \<longleftrightarrow> xs = []"
  using length_js_sort [of c xs] by (metis length_0_conv)

text \<open>Moving the elements with a property to the front, the order otherwise kept, is a sort.\<close>

lemma front_sort:
  "js_sort (cmp_key (\<lambda>x. if P x then 0 else 1)) xs = filter P xs @ filter (\<lambda>x. \<not> P x) xs"
proof (rule js_comparator.sort_unique [OF js_comparator_key])
  let ?c = "cmp_key (\<lambda>x. if P x then 0 else (1 :: int))"
  show "sorted_wrt (\<lambda>x y. ?c x y \<le> 0) (filter P xs @ filter (\<lambda>x. \<not> P x) xs)"
  proof -
    have "sorted_wrt (\<lambda>x y. ?c x y \<le> 0) (filter Q xs)" if "\<And>x y. Q x \<Longrightarrow> Q y \<Longrightarrow> ?c x y \<le> 0" for Q
      by (induction xs) (auto simp: that)
    then show ?thesis by (simp add: sorted_wrt_append cmp_key_def)
  qed
  have eqv: "js_comparator.eqv ?c z x \<longleftrightarrow> P x = P z" for z x
    by (auto simp: js_comparator.eqv_def [OF js_comparator_key] cmp_key_def)
  show "filter (js_comparator.eqv ?c z) (filter P xs @ filter (\<lambda>x. \<not> P x) xs) = filter (js_comparator.eqv ?c z) xs" for z
    by (cases "P z") (auto simp: eqv filter_empty_conv intro!: filter_cong)
qed

lemma js_round_bounds: "x - 1 / 2 < of_int (js_round x)" "of_int (js_round x) \<le> x + 1 / 2"
  unfolding js_round_def by linarith+

end
