(* ===== verification/Js_Double.thy ===== *)
theory Js_Double
  imports Js_Number
begin

text \<open>
  Where the digits shown depend on it, a number is the double JavaScript computes with: \<open>double_of\<close> is the nearest
  value with a mantissa of 53 bits, ties to even, for numbers from 1 to \<open>2^53\<close>, and \<open>toFixed2\<close> prints a number
  with two decimals, a tie up.
\<close>

fun ilog2 :: "nat \<Rightarrow> nat" where
  "ilog2 n = (if n \<le> 1 then 0 else Suc (ilog2 (n div 2)))"

declare ilog2.simps [simp del]

definition round_even :: "rat \<Rightarrow> int" where
  "round_even x = (let f = \<lfloor>x\<rfloor>; d = x - of_int f
     in if d < 1 / 2 then f else if d > 1 / 2 then f + 1 else if even f then f else f + 1)"

definition double_of :: "rat \<Rightarrow> rat" where
  "double_of x = (let scale = 2 ^ 52 / 2 ^ ilog2 (nat \<lfloor>x\<rfloor>) in of_int (round_even (x * scale)) / scale)"

definition two_decimals :: "nat \<Rightarrow> jstr" where
  "two_decimals n = nat_str (n div 100) @ ''.'' @ [digit_char (n div 10), digit_char n]"

definition toFixed2 :: "rat \<Rightarrow> jstr" where
  "toFixed2 x = two_decimals (nat \<lfloor>100 * x + 1 / 2\<rfloor>)"

lemma ilog2_le: "1 \<le> n \<Longrightarrow> 2 ^ ilog2 n \<le> n"
proof (induction n rule: ilog2.induct)
  case (1 n)
  show ?case
  proof (cases "n \<le> 1")
    case True
    then show ?thesis using 1(2) by (simp add: ilog2.simps [of n])
  next
    case False
    then have "2 ^ ilog2 (n div 2) \<le> n div 2" using 1(1) by simp
    then have "2 * 2 ^ ilog2 (n div 2) \<le> n" by linarith
    then show ?thesis using False by (simp add: ilog2.simps [of n])
  qed
qed

lemma round_even_near: "\<bar>of_int (round_even x) - x\<bar> \<le> 1 / 2"
proof -
  have "of_int \<lfloor>x\<rfloor> \<le> x" "x < of_int \<lfloor>x\<rfloor> + 1" by linarith+
  then show ?thesis unfolding round_even_def Let_def by (simp split: if_splits)
qed

lemma double_of_near:
  assumes "1 \<le> x"
  shows "\<bar>double_of x - x\<bar> \<le> x / 2 ^ 53"
proof -
  define e where "e = ilog2 (nat \<lfloor>x\<rfloor>)"
  define scale :: rat where "scale = 2 ^ 52 / 2 ^ e"
  have pos: "0 < scale" by (simp add: scale_def)
  have "1 \<le> nat \<lfloor>x\<rfloor>" using assms by (simp add: le_nat_iff le_floor_iff)
  then have "2 ^ e \<le> nat \<lfloor>x\<rfloor>" unfolding e_def by (rule ilog2_le)
  then have "(2 :: rat) ^ e \<le> of_nat (nat \<lfloor>x\<rfloor>)" by (metis of_nat_le_iff of_nat_numeral of_nat_power)
  also have "\<dots> \<le> x" using assms by (simp add: of_nat_nat)
  finally have e: "(2 :: rat) ^ e \<le> x" .
  have "double_of x - x = (of_int (round_even (x * scale)) - x * scale) / scale"
    using pos by (simp add: double_of_def Let_def scale_def e_def field_simps)
  then have "\<bar>double_of x - x\<bar> = \<bar>of_int (round_even (x * scale)) - x * scale\<bar> / scale" using pos by simp
  also have "\<dots> \<le> (1 / 2) / scale" by (rule divide_right_mono [OF round_even_near]) (use pos in simp)
  also have "\<dots> = 2 ^ e / 2 ^ 53" by (simp add: scale_def)
  also have "\<dots> \<le> x / 2 ^ 53" using e by (simp add: divide_right_mono)
  finally show ?thesis .
qed

text \<open>Two decimals of a quotient by 1000 are the nearest ones, whatever the rounding of the division did.\<close>

lemma thousandths_near:
  assumes "1000 \<le> m" "m < 2 ^ 53"
  shows "\<bar>10 * int (nat \<lfloor>100 * double_of (of_nat m / 1000) + 1 / 2\<rfloor>) - int m\<bar> \<le> 5"
proof -
  define x :: rat where "x = of_nat m / 1000"
  define n where "n = \<lfloor>100 * double_of x + 1 / 2\<rfloor>"
  have x1: "1 \<le> x" using assms(1) by (simp add: x_def)
  have d: "\<bar>double_of x - x\<bar> \<le> x / 2 ^ 53" by (rule double_of_near [OF x1])
  have "x / 2 ^ 53 \<le> x" using x1 by simp
  then have "0 \<le> double_of x" using d by linarith
  then have n0: "0 \<le> n" by (simp add: n_def)
  have n: "\<bar>of_int n - 100 * double_of x\<bar> \<le> 1 / 2" unfolding n_def by linarith
  have "(of_nat m :: rat) < 2 ^ 53" using assms(2) by (metis of_nat_less_iff of_nat_numeral of_nat_power)
  then have m: "1000 * (x / 2 ^ 53) < 1" by (simp add: x_def)
  have "\<bar>10 * of_int n - of_nat m\<bar> < (6 :: rat)" using n d m x_def by (simp add: x_def abs_if split: if_splits)
  then have "\<bar>10 * n - int m\<bar> < 6" by (metis (mono_tags) of_int_abs of_int_diff of_int_less_iff of_int_mult of_int_numeral of_int_of_nat_eq)
  then show ?thesis using n0 unfolding n_def x_def by simp
qed

end
