(* ===== verification/Schema_Plugins.thy ===== *)
theory Schema_Plugins
  imports Prelude
begin

text \<open>
  The closed permission vocabulary of plugin manifests and its validator
  (\<open>packages/schema/src/plugins.ts\<close>).  A raw permission comes from a manifest file, so its action
  list may be missing (\<^const>\<open>None\<close> is \<open>undefined\<close>).  The validator is a loop with a set of
  resources already seen; \<open>perms_in_vocabulary\<close> is the loop-free contract it implements.
\<close>

definition PLUGIN_PERMISSION_RESOURCES :: "jstr list" where
  "PLUGIN_PERMISSION_RESOURCES =
     [''connectors'', ''events'', ''llm'', ''storage'', ''network'', ''commitments'', ''audit'', ''ui'']"

definition PLUGIN_PERMISSION_ACTIONS :: "jstr list" where
  "PLUGIN_PERMISSION_ACTIONS = [''read'', ''write'', ''execute'', ''subscribe'']"

record plugin_permission =
  resource :: jstr
  actions :: "jstr list option"

record plugin_permission_issue =
  issue_resource :: jstr
  issue_problem :: jstr

definition perm_actions :: "plugin_permission \<Rightarrow> jstr list" where
  "perm_actions p = (case actions p of None \<Rightarrow> [] | Some as \<Rightarrow> as)"

definition quoted :: "jstr \<Rightarrow> jstr" where
  "quoted s = [CHR 0x22] @ s @ [CHR 0x22]"

definition unknown_resource_problem :: "jstr \<Rightarrow> jstr" where
  "unknown_resource_problem r =
     ''unknown resource '' @ quoted r @ ''; must be one of: '' @ js_join '', '' PLUGIN_PERMISSION_RESOURCES"

definition unknown_action_problem :: "jstr \<Rightarrow> jstr" where
  "unknown_action_problem a =
     ''unknown action '' @ quoted a @ ''; must be one of: '' @ js_join '', '' PLUGIN_PERMISSION_ACTIONS"

definition action_issues :: "jstr \<Rightarrow> jstr list \<Rightarrow> plugin_permission_issue list" where
  "action_issues r as =
     map (\<lambda>a. \<lparr>issue_resource = r, issue_problem = unknown_action_problem a\<rparr>)
         (filter (\<lambda>a. a \<notin> set PLUGIN_PERMISSION_ACTIONS) as)"

text \<open>The loop of \<open>validatePluginPermissions\<close>, with its set \<open>seen\<close> as an argument.\<close>

fun validate_perms_loop :: "jstr list \<Rightarrow> plugin_permission list \<Rightarrow> plugin_permission_issue list" where
  "validate_perms_loop seen [] = []"
| "validate_perms_loop seen (p # ps) =
     (if resource p \<notin> set PLUGIN_PERMISSION_RESOURCES then
        \<lparr>issue_resource = resource p, issue_problem = unknown_resource_problem (resource p)\<rparr>
        # validate_perms_loop seen ps
      else if resource p \<in> set seen then
        \<lparr>issue_resource = resource p, issue_problem = ''duplicate resource declaration''\<rparr>
        # validate_perms_loop seen ps
      else if perm_actions p = [] then
        \<lparr>issue_resource = resource p, issue_problem = ''at least one action is required''\<rparr>
        # validate_perms_loop (resource p # seen) ps
      else action_issues (resource p) (perm_actions p) @ validate_perms_loop (resource p # seen) ps)"

definition validatePluginPermissions :: "plugin_permission list \<Rightarrow> plugin_permission_issue list" where
  "validatePluginPermissions ps = validate_perms_loop [] ps"

section \<open>Contract\<close>

definition perm_in_vocabulary :: "plugin_permission \<Rightarrow> bool" where
  "perm_in_vocabulary p \<longleftrightarrow>
     resource p \<in> set PLUGIN_PERMISSION_RESOURCES \<and> perm_actions p \<noteq> []
     \<and> set (perm_actions p) \<subseteq> set PLUGIN_PERMISSION_ACTIONS"

definition perms_in_vocabulary :: "plugin_permission list \<Rightarrow> bool" where
  "perms_in_vocabulary ps \<longleftrightarrow> list_all perm_in_vocabulary ps \<and> distinct (map resource ps)"

lemma action_issues_Nil [simp]:
  "action_issues r as = [] \<longleftrightarrow> set as \<subseteq> set PLUGIN_PERMISSION_ACTIONS"
  by (auto simp: action_issues_def filter_empty_conv)

lemma validate_perms_loop_Nil:
  "validate_perms_loop seen ps = []
   \<longleftrightarrow> perms_in_vocabulary ps \<and> set (map resource ps) \<inter> set seen = {}"
proof (induction seen ps rule: validate_perms_loop.induct)
  case (1 seen)
  then show ?case by (simp add: perms_in_vocabulary_def)
next
  case (2 seen p ps)
  show ?case
  proof (cases "resource p \<in> set PLUGIN_PERMISSION_RESOURCES \<and> resource p \<notin> set seen \<and> perm_actions p \<noteq> []")
    case True
    with 2 show ?thesis by (auto simp: perms_in_vocabulary_def perm_in_vocabulary_def)
  next
    case False
    then show ?thesis by (auto simp: perms_in_vocabulary_def perm_in_vocabulary_def)
  qed
qed

lemma validate_iff_vocabulary: "validatePluginPermissions ps = [] \<longleftrightarrow> perms_in_vocabulary ps"
  by (simp add: validatePluginPermissions_def validate_perms_loop_Nil)

lemma validate_perms_loop_resources:
  "i \<in> set (validate_perms_loop seen ps) \<Longrightarrow> issue_resource i \<in> set (map resource ps)"
  by (induction seen ps rule: validate_perms_loop.induct) (auto simp: action_issues_def split: if_splits)

text \<open>A dropped permission never hides another: the issues found in a prefix are reported
  whatever follows it.\<close>

lemma validate_perms_loop_prefix:
  "\<exists>rest. validate_perms_loop seen (ps @ qs) = validate_perms_loop seen ps @ rest"
  by (induction seen ps rule: validate_perms_loop.induct) auto

lemma perms_in_vocabulary_Nil [simp]: "perms_in_vocabulary []"
  by (simp add: perms_in_vocabulary_def)

end
