(* ===== verification/Plugin_Types.thy ===== *)
theory Plugin_Types
  imports Schema_Plugins
begin

text \<open>
  The data of the plugin SDK (\<open>packages/plugin-sdk/src/types.ts\<close>): capabilities, hooks and their
  results, the context handed to plugin code, plugins, manifests and the runtime record of a
  registered plugin.  Payloads are of a type \<open>'p\<close> of the host, and
  handlers read and change a host state of a type \<open>'w\<close>.  Fields a manifest file may omit are
  options, since the registry checks them at run time.
\<close>

datatype plugin_capability = CapTool | CapConnector | CapRecipeTemplate | CapSquadTemplate | CapUiWidget

datatype plugin_hook_name = HookOnActivate | HookOnDeactivate | HookOnEvent | HookBeforeAction | HookAfterAction

datatype hook_action = Continue | Abort | Modify

record 'p hook_handler_result =
  hr_action :: hook_action
  modifiedPayload :: "'p option"
  hr_reason :: "jstr option"

datatype deployment_mode = Solo | Household | Team

record workspace_info =
  ws_id :: jstr
  ws_name :: jstr
  deploymentMode :: deployment_mode

record user_info =
  usr_id :: jstr
  displayName :: jstr
  role :: jstr

text \<open>The event emitter and the logger of a context are host services; the registry and the hook
  manager only pass them on, so the model of a context carries its data.\<close>

record plugin_context =
  workspace :: workspace_info
  user :: user_info

text \<open>A value thrown by plugin code: an \<open>Error\<close> with its message, or any other value with its
  string conversion.\<close>

datatype thrown = ErrorObj jstr | OtherThrown jstr

definition thrown_message :: "thrown \<Rightarrow> jstr" where
  "thrown_message e = (case e of ErrorObj m \<Rightarrow> m | OtherThrown s \<Rightarrow> s)"

type_synonym ('p, 'w) hook_handler =
  "plugin_context \<Rightarrow> 'p \<Rightarrow> 'w \<Rightarrow> (thrown + 'p hook_handler_result) \<times> 'w"

record ('p, 'w) plugin_hook =
  ph_name :: plugin_hook_name
  ph_priority :: "int option"
  ph_handler :: "('p, 'w) hook_handler"

text \<open>A plugin implementation.  \<open>has_onActivate\<close> and \<open>has_onDeactivate\<close> say whether the optional
  methods exist; what they do when called is decided by the environment.\<close>

record ('p, 'w) plugin =
  pl_id :: jstr
  pl_name :: jstr
  pl_version :: jstr
  pl_description :: jstr
  pl_author :: jstr
  pl_capabilities :: "plugin_capability list"
  pl_hooks :: "('p, 'w) plugin_hook list"
  has_onActivate :: bool
  has_onDeactivate :: bool

record plugin_manifest =
  mf_id :: "jstr option"
  mf_name :: "jstr option"
  mf_version :: "jstr option"
  mf_description :: "jstr option"
  mf_author :: "jstr option"
  entryPoint :: "jstr option"
  mf_capabilities :: "plugin_capability list option"
  permissions :: "plugin_permission list option"
  minPlatformVersion :: "jstr option"
  iconUrl :: "jstr option"
  homepage :: "jstr option"

datatype lifecycle_state = Loaded | Validated | Activated | Running | Deactivated | ErrorState

record plugin_record =
  manifest :: plugin_manifest
  state :: lifecycle_state
  enabled :: bool
  activatedAt :: "int option"
  rec_error :: "jstr option"

end
