(* ===== verification/Schema_Types.thy ===== *)
theory Schema_Types
  imports Plugin_Types Complex_Main
begin

text \<open>
  The shared wire schema (\<open>packages/schema/src/{events,hooks,models,policy,provider}.ts\<close>): the closed
  string unions as datatypes with their wire spelling (\<open>..._value\<close>), the label tables shown to the
  user, the interfaces as records (an optional field is an option, a count an integer, a confidence a
  rational), and the two functions of the package.  The locale \<open>wire_enum\<close> is the contract
  of a closed union: its members are listed without repetition and their spellings differ, so a wire
  string names at most one member and reading back what was written gives the same member.
\<close>

section \<open>Closed string unions\<close>

definition parse_by :: "('e \<Rightarrow> jstr) \<Rightarrow> 'e list \<Rightarrow> jstr \<Rightarrow> 'e option" where
  "parse_by val members s = find (\<lambda>k. val k = s) members"

locale wire_enum =
  fixes val :: "'e \<Rightarrow> jstr" and members :: "'e list"
  assumes complete: "k \<in> set members"
    and spelled_apart: "distinct (map val members)"
begin

lemma inj_val: "inj val"
  using spelled_apart complete by (auto simp: distinct_map inj_on_def inj_def)

lemma parse_val: "parse_by val members (val k) = Some k"
proof -
  have "find (\<lambda>x. val x = val k) members = find (\<lambda>x. x = k) members"
    using inj_val by (simp add: inj_eq)
  also have "\<dots> = Some k" using complete [of k] by (induction members) auto
  finally show ?thesis by (simp add: parse_by_def)
qed

lemma parse_iff: "parse_by val members s = Some k \<longleftrightarrow> s = val k"
  using parse_val [of k] by (auto simp: parse_by_def find_Some_iff)

lemma parse_None: "parse_by val members s = None \<longleftrightarrow> s \<notin> range val"
  using complete by (auto simp: parse_by_def find_None_iff image_iff)

end

section \<open>Events\<close>

datatype heartbeat_status =
    HbHealthy | HbQuietlyRecovering | HbNeedsAttention | HbPaused
  | HbQuarantined

primrec heartbeat_value :: "heartbeat_status \<Rightarrow> jstr" where
  "heartbeat_value HbHealthy = ''healthy''"
| "heartbeat_value HbQuietlyRecovering = ''quietly-recovering''"
| "heartbeat_value HbNeedsAttention = ''needs-attention''"
| "heartbeat_value HbPaused = ''paused''"
| "heartbeat_value HbQuarantined = ''quarantined''"

primrec heartbeatLabel :: "heartbeat_status \<Rightarrow> jstr" where
  "heartbeatLabel HbHealthy = ''All good''"
| "heartbeatLabel HbQuietlyRecovering = ''Fixing itself''"
| "heartbeatLabel HbNeedsAttention = ''Needs your attention''"
| "heartbeatLabel HbPaused = ''Paused''"
| "heartbeatLabel HbQuarantined = ''Isolated for safety''"

datatype event_kind =
    EKActionTaken | EKActionProposed | EKActionBlocked | EKActionHealed
  | EKActionQuarantined | EKHeartbeat | EKResearchUpdate | EKSquadHandoff
  | EKApprovalRequested | EKApprovalGranted | EKApprovalDenied | EKPolicyViolation
  | EKRecipeActivated | EKRecipeDeactivated | EKMemoryUpdated | EKCheckpointCreated
  | EKAuditFinding

primrec event_kind_value :: "event_kind \<Rightarrow> jstr" where
  "event_kind_value EKActionTaken = ''action-taken''"
| "event_kind_value EKActionProposed = ''action-proposed''"
| "event_kind_value EKActionBlocked = ''action-blocked''"
| "event_kind_value EKActionHealed = ''action-healed''"
| "event_kind_value EKActionQuarantined = ''action-quarantined''"
| "event_kind_value EKHeartbeat = ''heartbeat''"
| "event_kind_value EKResearchUpdate = ''research-update''"
| "event_kind_value EKSquadHandoff = ''squad-handoff''"
| "event_kind_value EKApprovalRequested = ''approval-requested''"
| "event_kind_value EKApprovalGranted = ''approval-granted''"
| "event_kind_value EKApprovalDenied = ''approval-denied''"
| "event_kind_value EKPolicyViolation = ''policy-violation''"
| "event_kind_value EKRecipeActivated = ''recipe-activated''"
| "event_kind_value EKRecipeDeactivated = ''recipe-deactivated''"
| "event_kind_value EKMemoryUpdated = ''memory-updated''"
| "event_kind_value EKCheckpointCreated = ''checkpoint-created''"
| "event_kind_value EKAuditFinding = ''audit-finding''"

record 'p event =
  ev_id :: jstr
  ev_sequence :: int
  ev_timestamp :: jstr
  ev_kind :: event_kind
  ev_workspaceId :: jstr
  ev_correlationId :: "jstr option"
  ev_agentRole :: "jstr option"
  ev_payload :: "'p"

record action_taken_payload =
  at_planNodeId :: jstr
  at_summary :: jstr
  at_durationMs :: int

record action_proposed_payload =
  ap_planNodeId :: jstr
  ap_summary :: jstr
  ap_riskLevel :: jstr

record action_blocked_payload =
  ab_planNodeId :: jstr
  ab_reason :: jstr
  ab_policyLayer :: jstr

record heartbeat_payload =
  hb_status :: heartbeat_status
  hb_message :: jstr
  hb_uptimeSeconds :: int

record research_update_payload =
  ru_topicId :: jstr
  ru_title :: jstr
  ru_confidence :: rat
  ru_sourceCount :: int
  ru_hasContradictions :: bool

record squad_handoff_payload =
  sh_fromSquad :: jstr
  sh_toSquad :: jstr
  sh_reason :: jstr

datatype audit_finding_severity =
    FindInfo | FindWarning | FindCritical

primrec audit_severity_value :: "audit_finding_severity \<Rightarrow> jstr" where
  "audit_severity_value FindInfo = ''info''"
| "audit_severity_value FindWarning = ''warning''"
| "audit_severity_value FindCritical = ''critical''"

record 'j audit_finding_payload =
  af_findingId :: jstr
  af_probeId :: jstr
  af_severity :: audit_finding_severity
  af_reason :: jstr
  af_evidence :: "(jstr \<times> 'j) list option"

text \<open>The aliases of the typed events: an envelope whose discriminator goes with its payload.\<close>

datatype 'j typed_event =
    ActionTakenEvent "action_taken_payload event"
  | ActionProposedEvent "action_proposed_payload event"
  | ActionBlockedEvent "action_blocked_payload event"
  | HeartbeatEvent "heartbeat_payload event"
  | ResearchUpdateEvent "research_update_payload event"
  | SquadHandoffEvent "squad_handoff_payload event"
  | AuditFindingEvent "'j audit_finding_payload event"

definition typed_event_ok :: "'j typed_event \<Rightarrow> bool" where
  "typed_event_ok e = (case e of
      ActionTakenEvent v \<Rightarrow> ev_kind v = EKActionTaken
    | ActionProposedEvent v \<Rightarrow> ev_kind v = EKActionProposed
    | ActionBlockedEvent v \<Rightarrow> ev_kind v = EKActionBlocked
    | HeartbeatEvent v \<Rightarrow> ev_kind v = EKHeartbeat
    | ResearchUpdateEvent v \<Rightarrow> ev_kind v = EKResearchUpdate
    | SquadHandoffEvent v \<Rightarrow> ev_kind v = EKSquadHandoff
    | AuditFindingEvent v \<Rightarrow> ev_kind v = EKAuditFinding)"

section \<open>Hook decisions\<close>

datatype hook_decision =
    DAllow | DDeny | DModify | DObserve

primrec hook_decision_value :: "hook_decision \<Rightarrow> jstr" where
  "hook_decision_value DAllow = ''allow''"
| "hook_decision_value DDeny = ''deny''"
| "hook_decision_value DModify = ''modify''"
| "hook_decision_value DObserve = ''observe''"

primrec hookDecisionLabel :: "hook_decision \<Rightarrow> jstr" where
  "hookDecisionLabel DAllow = ''Allowed''"
| "hookDecisionLabel DDeny = ''Blocked''"
| "hookDecisionLabel DModify = ''Modified''"
| "hookDecisionLabel DObserve = ''Observed''"

datatype hook_phase =
    BeforeAgentStart | BeforeAgentReply | BeforeToolCall | AfterToolCall
  | BeforeInstall

primrec hook_phase_value :: "hook_phase \<Rightarrow> jstr" where
  "hook_phase_value BeforeAgentStart = ''before-agent-start''"
| "hook_phase_value BeforeAgentReply = ''before-agent-reply''"
| "hook_phase_value BeforeToolCall = ''before-tool-call''"
| "hook_phase_value AfterToolCall = ''after-tool-call''"
| "hook_phase_value BeforeInstall = ''before-install''"

record hook_context =
  hc_correlationId :: jstr
  hc_phase :: hook_phase
  hc_agentId :: "jstr option"
  hc_workspaceId :: jstr
  hc_tenantId :: jstr

record 'p hook_result =
  hres_decision :: hook_decision
  hres_reason :: "jstr option"
  hres_modifiedPayload :: "'p option"

definition decisionShortCircuits :: "hook_decision \<Rightarrow> bool" where
  "decisionShortCircuits d \<longleftrightarrow> d = DDeny"

section \<open>Domain models\<close>

datatype agent_role =
    Planner | Executor | Verifier | Researcher
  | Defender | Healer | Optimizer | Narrator
  | Router

primrec agent_role_value :: "agent_role \<Rightarrow> jstr" where
  "agent_role_value Planner = ''planner''"
| "agent_role_value Executor = ''executor''"
| "agent_role_value Verifier = ''verifier''"
| "agent_role_value Researcher = ''researcher''"
| "agent_role_value Defender = ''defender''"
| "agent_role_value Healer = ''healer''"
| "agent_role_value Optimizer = ''optimizer''"
| "agent_role_value Narrator = ''narrator''"
| "agent_role_value Router = ''router''"

primrec agentRoleLabel :: "agent_role \<Rightarrow> jstr" where
  "agentRoleLabel Planner = ''Planner''"
| "agentRoleLabel Executor = ''Doer''"
| "agentRoleLabel Verifier = ''Checker''"
| "agentRoleLabel Researcher = ''Researcher''"
| "agentRoleLabel Defender = ''Security Guard''"
| "agentRoleLabel Healer = ''Auto-Fixer''"
| "agentRoleLabel Optimizer = ''Improver''"
| "agentRoleLabel Narrator = ''Narrator''"
| "agentRoleLabel Router = ''Router''"

datatype risk_level =
    RiskLow | RiskMedium | RiskHigh | RiskCritical

primrec risk_level_value :: "risk_level \<Rightarrow> jstr" where
  "risk_level_value RiskLow = ''low''"
| "risk_level_value RiskMedium = ''medium''"
| "risk_level_value RiskHigh = ''high''"
| "risk_level_value RiskCritical = ''critical''"

primrec riskLevelLabel :: "risk_level \<Rightarrow> jstr" where
  "riskLevelLabel RiskLow = ''Low risk''"
| "riskLevelLabel RiskMedium = ''Medium risk''"
| "riskLevelLabel RiskHigh = ''High risk''"
| "riskLevelLabel RiskCritical = ''Critical risk''"

datatype plan_status =
    PlanDraft | PlanPendingApproval | PlanRunning | PlanPaused
  | PlanCompleted | PlanFailed | PlanRolledBack

primrec plan_status_value :: "plan_status \<Rightarrow> jstr" where
  "plan_status_value PlanDraft = ''draft''"
| "plan_status_value PlanPendingApproval = ''pending-approval''"
| "plan_status_value PlanRunning = ''running''"
| "plan_status_value PlanPaused = ''paused''"
| "plan_status_value PlanCompleted = ''completed''"
| "plan_status_value PlanFailed = ''failed''"
| "plan_status_value PlanRolledBack = ''rolled-back''"

record plan_node =
  pn_id :: jstr
  pn_label :: jstr
  pn_agentRole :: agent_role
  pn_status :: plan_status
  pn_riskLevel :: risk_level
  pn_dependsOn :: "jstr list"
  pn_summary :: jstr
  pn_durationMs :: "int option"
  pn_error :: "jstr option"

record plan =
  pl_id :: jstr
  pl_workspaceId :: jstr
  pl_title :: jstr
  pl_status :: plan_status
  pl_nodes :: "plan_node list"
  pl_createdAt :: jstr
  pl_updatedAt :: jstr
  pl_checkpointId :: "jstr option"

record recipe_model =
  rm_id :: jstr
  rm_title :: jstr
  rm_description :: jstr
  rm_category :: jstr
  rm_riskLevel :: risk_level
  rm_isActive :: bool
  rm_canAccess :: "jstr list"
  rm_cannotAccess :: "jstr list"
  rm_needsApprovalFor :: "jstr list"
  rm_stopsIf :: "jstr list"
  rm_squadId :: "jstr option"
  rm_createdAt :: jstr
  rm_updatedAt :: jstr

datatype squad_status =
    SquadActive | SquadIdle | SquadPaused

primrec squad_status_value :: "squad_status \<Rightarrow> jstr" where
  "squad_status_value SquadActive = ''active''"
| "squad_status_value SquadIdle = ''idle''"
| "squad_status_value SquadPaused = ''paused''"

record squad =
  sq_id :: jstr
  sq_name :: jstr
  sq_displayName :: jstr
  sq_description :: jstr
  sq_roles :: "agent_role list"
  sq_status :: squad_status
  sq_activeRecipeCount :: int

datatype approval_status =
    ApprovalPending | ApprovalApproved | ApprovalDenied

primrec approval_status_value :: "approval_status \<Rightarrow> jstr" where
  "approval_status_value ApprovalPending = ''pending''"
| "approval_status_value ApprovalApproved = ''approved''"
| "approval_status_value ApprovalDenied = ''denied''"

record approval_request =
  ar_id :: jstr
  ar_planNodeId :: jstr
  ar_summary :: jstr
  ar_riskLevel :: risk_level
  ar_requestedAt :: jstr
  ar_agentRole :: agent_role
  ar_status :: approval_status

datatype topic_freshness =
    Fresh | Aging | Stale

primrec topic_freshness_value :: "topic_freshness \<Rightarrow> jstr" where
  "topic_freshness_value Fresh = ''fresh''"
| "topic_freshness_value Aging = ''aging''"
| "topic_freshness_value Stale = ''stale''"

record research_topic =
  rt_id :: jstr
  rt_title :: jstr
  rt_description :: jstr
  rt_confidence :: rat
  rt_freshness :: topic_freshness
  rt_sourceCount :: int
  rt_hasContradictions :: bool
  rt_lastUpdated :: jstr

record memory_entry =
  me_id :: jstr
  me_content :: jstr
  me_category :: jstr
  me_source :: jstr
  me_confidence :: rat
  me_createdAt :: jstr
  me_updatedAt :: jstr
  me_connections :: "jstr list"

section \<open>Policy layers\<close>

datatype policy_layer =
    GatewayIdentity | GlobalToolPolicy | PerAgentPermissions | PerChannelRestrictions
  | AdminOnlyControls

primrec policy_layer_value :: "policy_layer \<Rightarrow> jstr" where
  "policy_layer_value GatewayIdentity = ''gateway-identity''"
| "policy_layer_value GlobalToolPolicy = ''global-tool-policy''"
| "policy_layer_value PerAgentPermissions = ''per-agent-permissions''"
| "policy_layer_value PerChannelRestrictions = ''per-channel-restrictions''"
| "policy_layer_value AdminOnlyControls = ''admin-only-controls''"

primrec policyLayerLabel :: "policy_layer \<Rightarrow> jstr" where
  "policyLayerLabel GatewayIdentity = ''Identity check''"
| "policyLayerLabel GlobalToolPolicy = ''Global safety rules''"
| "policyLayerLabel PerAgentPermissions = ''Assistant permissions''"
| "policyLayerLabel PerChannelRestrictions = ''Channel limits''"
| "policyLayerLabel AdminOnlyControls = ''Admin controls''"

primrec policyLayerDescription :: "policy_layer \<Rightarrow> jstr" where
  "policyLayerDescription GatewayIdentity = ''Confirms who is making the request and that they are authenticated.''"
| "policyLayerDescription GlobalToolPolicy = ''Enforces system-wide rules about which tools can be used and when.''"
| "policyLayerDescription PerAgentPermissions = ''Checks that this specific assistant role is allowed to perform the action.''"
| "policyLayerDescription PerChannelRestrictions = ''Applies any limits set for the channel (e.g., email, Slack) being used.''"
| "policyLayerDescription AdminOnlyControls = (''Final gate '' @ u_mdash @ '' only admins can override blocks at this level.'')"

datatype policy_effect =
    EffAllow | EffDeny | EffRequireApproval

primrec policy_effect_value :: "policy_effect \<Rightarrow> jstr" where
  "policy_effect_value EffAllow = ''allow''"
| "policy_effect_value EffDeny = ''deny''"
| "policy_effect_value EffRequireApproval = ''require-approval''"

record policy_decision =
  pd_layer :: policy_layer
  pd_effect :: policy_effect
  pd_reason :: jstr
  pd_evaluatedAt :: jstr

record permission =
  pm_id :: jstr
  pm_name :: jstr
  pm_description :: jstr
  pm_resource :: jstr
  pm_action :: jstr
  pm_effect :: policy_effect
  pm_layer :: policy_layer

record policy_evaluation =
  pe_requestId :: jstr
  pe_decisions :: "policy_decision list"
  pe_finalEffect :: policy_effect
  pe_evaluatedAt :: jstr

section \<open>Provider profiles\<close>

datatype auth_type =
    AuthApiKey | AuthOauth | AuthBedrock | AuthNone

primrec auth_type_value :: "auth_type \<Rightarrow> jstr" where
  "auth_type_value AuthApiKey = ''api_key''"
| "auth_type_value AuthOauth = ''oauth''"
| "auth_type_value AuthBedrock = ''bedrock''"
| "auth_type_value AuthNone = ''none''"

record provider_profile =
  pp_name :: jstr
  pp_display_name :: jstr
  pp_auth_type :: auth_type
  pp_base_url :: jstr
  pp_models_url :: "jstr option"
  pp_default_headers :: "(jstr \<times> jstr) list"
  pp_fixed_temperature :: "rat option"
  pp_default_max_tokens :: int
  pp_fallback_models :: "jstr list"
  pp_api_key_env :: jstr

record providers_response =
  pr_active :: jstr
  pr_profiles :: "provider_profile list"

definition activeProfile :: "providers_response \<Rightarrow> provider_profile option" where
  "activeProfile resp = find (\<lambda>p. pp_name p = pr_active resp) (pr_profiles resp)"

section \<open>The unions as wire enumerations\<close>

definition all_heartbeat :: "heartbeat_status list" where
  "all_heartbeat =
     [HbHealthy, HbQuietlyRecovering, HbNeedsAttention, HbPaused,
      HbQuarantined]"

definition all_event_kinds :: "event_kind list" where
  "all_event_kinds =
     [EKActionTaken, EKActionProposed, EKActionBlocked, EKActionHealed,
      EKActionQuarantined, EKHeartbeat, EKResearchUpdate, EKSquadHandoff,
      EKApprovalRequested, EKApprovalGranted, EKApprovalDenied, EKPolicyViolation,
      EKRecipeActivated, EKRecipeDeactivated, EKMemoryUpdated, EKCheckpointCreated,
      EKAuditFinding]"

definition all_audit_severities :: "audit_finding_severity list" where
  "all_audit_severities =
     [FindInfo, FindWarning, FindCritical]"

definition all_decisions :: "hook_decision list" where
  "all_decisions =
     [DAllow, DDeny, DModify, DObserve]"

definition all_phases :: "hook_phase list" where
  "all_phases =
     [BeforeAgentStart, BeforeAgentReply, BeforeToolCall, AfterToolCall,
      BeforeInstall]"

definition all_roles :: "agent_role list" where
  "all_roles =
     [Planner, Executor, Verifier, Researcher,
      Defender, Healer, Optimizer, Narrator,
      Router]"

definition all_risks :: "risk_level list" where
  "all_risks =
     [RiskLow, RiskMedium, RiskHigh, RiskCritical]"

definition all_plan_statuses :: "plan_status list" where
  "all_plan_statuses =
     [PlanDraft, PlanPendingApproval, PlanRunning, PlanPaused,
      PlanCompleted, PlanFailed, PlanRolledBack]"

definition all_squad_statuses :: "squad_status list" where
  "all_squad_statuses =
     [SquadActive, SquadIdle, SquadPaused]"

definition all_approval_statuses :: "approval_status list" where
  "all_approval_statuses =
     [ApprovalPending, ApprovalApproved, ApprovalDenied]"

definition all_topic_freshnesses :: "topic_freshness list" where
  "all_topic_freshnesses =
     [Fresh, Aging, Stale]"

definition all_layers :: "policy_layer list" where
  "all_layers =
     [GatewayIdentity, GlobalToolPolicy, PerAgentPermissions, PerChannelRestrictions,
      AdminOnlyControls]"

definition all_effects :: "policy_effect list" where
  "all_effects =
     [EffAllow, EffDeny, EffRequireApproval]"

definition all_auth_types :: "auth_type list" where
  "all_auth_types =
     [AuthApiKey, AuthOauth, AuthBedrock, AuthNone]"

definition all_deployment_modes :: "deployment_mode list" where
  "all_deployment_modes = [Solo, Household, Team]"

primrec deployment_mode_value :: "deployment_mode \<Rightarrow> jstr" where
  "deployment_mode_value Solo = ''solo''"
| "deployment_mode_value Household = ''household''"
| "deployment_mode_value Team = ''team''"

interpretation heartbeat: wire_enum heartbeat_value all_heartbeat
proof
  show "k \<in> set all_heartbeat" for k by (cases k) (simp_all add: all_heartbeat_def)
qed (simp add: all_heartbeat_def)

interpretation event_kinds: wire_enum event_kind_value all_event_kinds
proof
  show "k \<in> set all_event_kinds" for k by (cases k) (simp_all add: all_event_kinds_def)
qed (simp add: all_event_kinds_def)

interpretation audit_severities: wire_enum audit_severity_value all_audit_severities
proof
  show "k \<in> set all_audit_severities" for k by (cases k) (simp_all add: all_audit_severities_def)
qed (simp add: all_audit_severities_def)

interpretation decisions: wire_enum hook_decision_value all_decisions
proof
  show "k \<in> set all_decisions" for k by (cases k) (simp_all add: all_decisions_def)
qed (simp add: all_decisions_def)

interpretation phases: wire_enum hook_phase_value all_phases
proof
  show "k \<in> set all_phases" for k by (cases k) (simp_all add: all_phases_def)
qed (simp add: all_phases_def)

interpretation roles: wire_enum agent_role_value all_roles
proof
  show "k \<in> set all_roles" for k by (cases k) (simp_all add: all_roles_def)
qed (simp add: all_roles_def)

interpretation risks: wire_enum risk_level_value all_risks
proof
  show "k \<in> set all_risks" for k by (cases k) (simp_all add: all_risks_def)
qed (simp add: all_risks_def)

interpretation plan_statuses: wire_enum plan_status_value all_plan_statuses
proof
  show "k \<in> set all_plan_statuses" for k by (cases k) (simp_all add: all_plan_statuses_def)
qed (simp add: all_plan_statuses_def)

interpretation squad_statuses: wire_enum squad_status_value all_squad_statuses
proof
  show "k \<in> set all_squad_statuses" for k by (cases k) (simp_all add: all_squad_statuses_def)
qed (simp add: all_squad_statuses_def)

interpretation approval_statuses: wire_enum approval_status_value all_approval_statuses
proof
  show "k \<in> set all_approval_statuses" for k by (cases k) (simp_all add: all_approval_statuses_def)
qed (simp add: all_approval_statuses_def)

interpretation topic_freshnesses: wire_enum topic_freshness_value all_topic_freshnesses
proof
  show "k \<in> set all_topic_freshnesses" for k by (cases k) (simp_all add: all_topic_freshnesses_def)
qed (simp add: all_topic_freshnesses_def)

interpretation layers: wire_enum policy_layer_value all_layers
proof
  show "k \<in> set all_layers" for k by (cases k) (simp_all add: all_layers_def)
qed (simp add: all_layers_def)

interpretation effects: wire_enum policy_effect_value all_effects
proof
  show "k \<in> set all_effects" for k by (cases k) (simp_all add: all_effects_def)
qed (simp add: all_effects_def)

interpretation auth_types: wire_enum auth_type_value all_auth_types
proof
  show "k \<in> set all_auth_types" for k by (cases k) (simp_all add: all_auth_types_def)
qed (simp add: all_auth_types_def)

interpretation deployment_modes: wire_enum deployment_mode_value all_deployment_modes
proof
  show "k \<in> set all_deployment_modes" for k by (cases k) (simp_all add: all_deployment_modes_def)
qed (simp add: all_deployment_modes_def)

section \<open>Labels\<close>

text \<open>The label tables are enumerations of their own: no two members share a label.\<close>

interpretation heartbeat_labels: wire_enum heartbeatLabel all_heartbeat
  by unfold_locales (use heartbeat.complete in \<open>auto simp: all_heartbeat_def\<close>)

interpretation decision_labels: wire_enum hookDecisionLabel all_decisions
  by unfold_locales (use decisions.complete in \<open>auto simp: all_decisions_def\<close>)

interpretation role_labels: wire_enum agentRoleLabel all_roles
  by unfold_locales (use roles.complete in \<open>auto simp: all_roles_def\<close>)

interpretation risk_labels: wire_enum riskLevelLabel all_risks
  by unfold_locales (use risks.complete in \<open>auto simp: all_risks_def\<close>)

interpretation layer_labels: wire_enum policyLayerLabel all_layers
  by unfold_locales (use layers.complete in \<open>auto simp: all_layers_def\<close>)

text \<open>The labels of the schema tell the states apart: two different heartbeat states, hook decisions,
  agent roles, risk levels or policy layers never show the same text.
\<close>

theorem labels_distinguish_states:
  "inj heartbeatLabel \<and> inj hookDecisionLabel \<and> inj agentRoleLabel \<and> inj riskLevelLabel \<and> inj policyLayerLabel"
  by (intro conjI) (rule heartbeat_labels.inj_val decision_labels.inj_val role_labels.inj_val
      risk_labels.inj_val layer_labels.inj_val)+

section \<open>The functions of the package\<close>

lemma find_first:
  "find P xs = Some x \<longleftrightarrow> (\<exists>pre post. xs = pre @ x # post \<and> P x \<and> (\<forall>y \<in> set pre. \<not> P y))"
proof (induction xs)
  case Nil
  then show ?case by simp
next
  case (Cons a xs)
  show ?case
  proof (cases "P a")
    case True
    then show ?thesis by (auto simp: Cons_eq_append_conv)
  next
    case False
    have "(\<exists>pre post. a # xs = pre @ x # post \<and> P x \<and> (\<forall>y \<in> set pre. \<not> P y))
      \<longleftrightarrow> (\<exists>pre post. xs = pre @ x # post \<and> P x \<and> (\<forall>y \<in> set pre. \<not> P y))" (is "?l \<longleftrightarrow> ?r")
    proof
      assume ?l
      with False show ?r by (auto simp: Cons_eq_append_conv)
    next
      assume ?r
      then obtain pre post where "xs = pre @ x # post" "P x" "\<forall>y \<in> set pre. \<not> P y" by blast
      with False show ?l by (intro exI [of _ "a # pre"] exI [of _ post]) simp
    qed
    with Cons False show ?thesis by simp
  qed
qed

text \<open>
  The active provider profile is the first profile of the response with the active name, and there is
  none exactly when the active name is missing from the list.
\<close>

theorem activeProfile_first:
  "(activeProfile resp = Some p \<longleftrightarrow>
      (\<exists>pre post. pr_profiles resp = pre @ p # post \<and> pp_name p = pr_active resp \<and> pr_active resp \<notin> pp_name ` set pre))
   \<and> (activeProfile resp = None \<longleftrightarrow> pr_active resp \<notin> pp_name ` set (pr_profiles resp))"
proof
  have e: "(\<forall>y \<in> set pre. pp_name y \<noteq> pr_active resp) \<longleftrightarrow> pr_active resp \<notin> pp_name ` set pre"
    for pre :: "provider_profile list" by (auto simp: image_iff)
  show "activeProfile resp = Some p \<longleftrightarrow>
      (\<exists>pre post. pr_profiles resp = pre @ p # post \<and> pp_name p = pr_active resp \<and> pr_active resp \<notin> pp_name ` set pre)"
    unfolding activeProfile_def find_first e ..
  show "activeProfile resp = None \<longleftrightarrow> pr_active resp \<notin> pp_name ` set (pr_profiles resp)"
    by (auto simp: activeProfile_def find_None_iff image_iff)
qed

end
