(* ===== verification/Ui_Components.thy ===== *)
theory Ui_Components
  imports Schema_Types Js_Number
begin

text \<open>
  What the components of \<open>packages/ui\<close> compute before they render: the heartbeat indicator with its uptime, the
  timeline with its limit, the five-layer policy card, the research card with its relative time, the safety
  card and the risk badge.  Markup and class names are not modelled; a date is given as milliseconds, or as
  none when it does not parse, and its printing in the user's locale is a parameter.
\<close>

section \<open>Heartbeat\<close>

primrec pulse :: "heartbeat_status \<Rightarrow> bool" where
  "pulse HbHealthy = False"
| "pulse HbQuietlyRecovering = True"
| "pulse HbNeedsAttention = True"
| "pulse HbPaused = False"
| "pulse HbQuarantined = False"

definition formatUptime :: "nat \<Rightarrow> jstr" where
  "formatUptime seconds = (if seconds < 60 then nat_str seconds @ ''s''
     else if seconds < 3600 then nat_str (seconds div 60) @ ''m''
     else let hours = seconds div 3600; mins = (seconds mod 3600) div 60
       in if mins > 0 then nat_str hours @ ''h '' @ nat_str mins @ ''m'' else nat_str hours @ ''h'')"

section \<open>Timeline\<close>

datatype timeline_state = TlTaken | TlProposed | TlBlocked | TlHealed | TlQuarantined | TlResearchUpdate | TlSquadHandoff

record timeline_entry =
  tl_id :: jstr
  tl_state :: timeline_state
  tl_title :: jstr
  tl_description :: jstr
  tl_timestamp :: jstr
  tl_agentRole :: "jstr option"

primrec timeline_label :: "timeline_state \<Rightarrow> jstr" where
  "timeline_label TlTaken = ''Completed''"
| "timeline_label TlProposed = ''Proposed''"
| "timeline_label TlBlocked = ''Blocked''"
| "timeline_label TlHealed = ''Auto-fixed''"
| "timeline_label TlQuarantined = ''Isolated''"
| "timeline_label TlResearchUpdate = ''Research update''"
| "timeline_label TlSquadHandoff = ''Team handoff''"

definition timeline_visible :: "bool \<Rightarrow> nat \<Rightarrow> timeline_entry list \<Rightarrow> timeline_entry list" where
  "timeline_visible expanded maxVisible entries = (if expanded then entries else take maxVisible entries)"

definition hasMore :: "nat \<Rightarrow> timeline_entry list \<Rightarrow> bool" where
  "hasMore maxVisible entries \<longleftrightarrow> length entries > maxVisible"

definition more_button :: "bool \<Rightarrow> nat \<Rightarrow> timeline_entry list \<Rightarrow> jstr option" where
  "more_button expanded maxVisible entries = (if entries \<noteq> [] \<and> hasMore maxVisible entries \<and> \<not> expanded
     then Some (''Show '' @ nat_str (length entries - maxVisible) @ '' more events'') else None)"

section \<open>Policy card\<close>

definition LAYER_ORDER :: "policy_layer list" where
  "LAYER_ORDER = [GatewayIdentity, GlobalToolPolicy, PerAgentPermissions, PerChannelRestrictions, AdminOnlyControls]"

primrec effect_label :: "policy_effect \<Rightarrow> jstr" where
  "effect_label EffAllow = ''Allowed''"
| "effect_label EffDeny = ''Blocked''"
| "effect_label EffRequireApproval = ''Needs approval''"

definition decisionByLayer :: "policy_evaluation \<Rightarrow> (policy_layer, policy_decision) jmap" where
  "decisionByLayer e = fold (\<lambda>d. jm_set (pd_layer d) d) (pe_decisions e) []"

record policy_row =
  pr_number :: nat
  pr_label :: jstr
  pr_effect :: "jstr option"
  pr_description :: "jstr option"
  pr_reason :: "jstr option"

definition policy_row_of :: "policy_evaluation \<Rightarrow> bool \<Rightarrow> nat \<times> policy_layer \<Rightarrow> policy_row" where
  "policy_row_of e showDescriptions il = (case il of (idx, layer) \<Rightarrow>
     let decision = jm_get (decisionByLayer e) layer
     in \<lparr>pr_number = idx + 1, pr_label = policyLayerLabel layer, pr_effect = map_option (\<lambda>d. effect_label (pd_effect d)) decision,
         pr_description = (if showDescriptions then Some (policyLayerDescription layer) else None),
         pr_reason = (case decision of None \<Rightarrow> None | Some d \<Rightarrow> if pd_reason d = [] then None else Some (pd_reason d))\<rparr>)"

definition policy_rows :: "policy_evaluation \<Rightarrow> bool \<Rightarrow> policy_row list" where
  "policy_rows e showDescriptions = map (policy_row_of e showDescriptions) (enumerate 0 LAYER_ORDER)"

definition policy_banner :: "policy_evaluation \<Rightarrow> jstr" where
  "policy_banner e = effect_label (pe_finalEffect e)"

section \<open>Research card\<close>

primrec freshness_label :: "topic_freshness \<Rightarrow> jstr" where
  "freshness_label Fresh = ''Up to date''"
| "freshness_label Aging = ''Getting older''"
| "freshness_label Stale = ''Needs refresh''"

definition confidencePercent :: "research_topic \<Rightarrow> int" where
  "confidencePercent t = js_round (rt_confidence t * 100)"

datatype bar_colour = BarGreen | BarAmber | BarRed

definition confidence_bar :: "research_topic \<Rightarrow> bar_colour" where
  "confidence_bar t = (if confidencePercent t \<ge> 70 then BarGreen else if confidencePercent t \<ge> 40 then BarAmber else BarRed)"

definition source_text :: "research_topic \<Rightarrow> jstr" where
  "source_text t = int_str (rt_sourceCount t) @ '' '' @ (if rt_sourceCount t = 1 then ''source'' else ''sources'')"

text \<open>A date that does not parse has the time \<open>NaN\<close>, with which every comparison is false.\<close>

definition formatRelative :: "(int option \<Rightarrow> jstr) \<Rightarrow> int \<Rightarrow> int option \<Rightarrow> jstr" where
  "formatRelative toLocaleDateString now date = (case date of None \<Rightarrow> toLocaleDateString None
     | Some t \<Rightarrow>
        let diffMin = (now - t) div 60000; diffHr = diffMin div 60; diffDays = diffHr div 24
        in if diffMin < 1 then ''just now''
           else if diffMin < 60 then int_str diffMin @ ''m ago''
           else if diffHr < 24 then int_str diffHr @ ''h ago''
           else if diffDays < 7 then int_str diffDays @ ''d ago''
           else toLocaleDateString (Some t))"

section \<open>Safety card and risk badge\<close>

definition safety_card_sections :: "jstr list \<Rightarrow> jstr list \<Rightarrow> jstr list \<Rightarrow> jstr list \<Rightarrow> (jstr \<times> jstr list) list" where
  "safety_card_sections canAccess cannotAccess needsApprovalFor stopsIf =
     filter (\<lambda>s. snd s \<noteq> []) [(''Can access'', canAccess), (''Cannot access'', cannotAccess),
       (''Needs approval for'', needsApprovalFor), (''Stops automatically if'', stopsIf)]"

primrec risk_indicator :: "risk_level \<Rightarrow> jstr" where
  "risk_indicator RiskLow = ''Low risk''"
| "risk_indicator RiskMedium = ''Medium risk''"
| "risk_indicator RiskHigh = ''High risk''"
| "risk_indicator RiskCritical = ''Critical''"

definition risk_badge :: "risk_level \<Rightarrow> jstr option \<Rightarrow> jstr" where
  "risk_badge level label = (case label of None \<Rightarrow> riskLevelLabel level | Some l \<Rightarrow> l)"

section \<open>Lemmas\<close>

text \<open>The map built from the decisions holds the last decision of each layer.\<close>

lemma decisions_last:
  "jm_get (fold (\<lambda>d. jm_set (pd_layer d) d) ds m) l
   = (case filter (\<lambda>d. pd_layer d = l) ds of [] \<Rightarrow> jm_get m l | x # xs \<Rightarrow> Some (last (x # xs)))"
proof (induction ds rule: rev_induct)
  case (snoc d ds)
  then show ?case by (cases "filter (\<lambda>d. pd_layer d = l) ds") (auto simp: jm_get_set)
qed simp

text \<open>The policy card always has the five layers in their order, each with its number, and with the effect and reason
  of the last decision for that layer, or with neither when the layer decided nothing.\<close>

theorem policy_card_rows:
  "map pr_label (policy_rows e sd) = map policyLayerLabel LAYER_ORDER
   \<and> map pr_number (policy_rows e sd) = [1, 2, 3, 4, 5]
   \<and> map pr_effect (policy_rows e sd)
     = map (\<lambda>l. case filter (\<lambda>d. pd_layer d = l) (pe_decisions e) of [] \<Rightarrow> None
         | x # xs \<Rightarrow> Some (effect_label (pd_effect (last (x # xs))))) LAYER_ORDER"
proof (intro conjI)
  have "jm_get (decisionByLayer e) l = (case filter (\<lambda>d. pd_layer d = l) (pe_decisions e) of [] \<Rightarrow> None | x # xs \<Rightarrow> Some (last (x # xs)))" for l
    unfolding decisionByLayer_def decisions_last
    by (cases "filter (\<lambda>d. pd_layer d = l) (pe_decisions e)") (simp_all add: jm_get_def)
  then have row: "pr_effect (policy_row_of e sd (i, l)) = (case filter (\<lambda>d. pd_layer d = l) (pe_decisions e) of [] \<Rightarrow> None
         | x # xs \<Rightarrow> Some (effect_label (pd_effect (last (x # xs)))))" for i l
    by (simp add: policy_row_of_def Let_def split: list.splits)
  show "map pr_effect (policy_rows e sd)
     = map (\<lambda>l. case filter (\<lambda>d. pd_layer d = l) (pe_decisions e) of [] \<Rightarrow> None
         | x # xs \<Rightarrow> Some (effect_label (pd_effect (last (x # xs))))) LAYER_ORDER"
    by (simp add: policy_rows_def LAYER_ORDER_def row)
qed (simp_all add: policy_rows_def policy_row_of_def LAYER_ORDER_def Let_def)

text \<open>An uptime of an hour or more is printed to the minute, rounded down.\<close>

lemma formatUptime_parts:
  assumes "3600 \<le> s"
  shows "\<exists>h m. formatUptime s = nat_str h @ ''h'' @ (if m = 0 then [] else '' '' @ nat_str m @ ''m'')
    \<and> m < 60 \<and> 3600 * h + 60 * m \<le> s \<and> s < 3600 * h + 60 * m + 60"
proof (intro exI conjI)
  let ?h = "s div 3600" and ?m = "(s mod 3600) div 60"
  show "formatUptime s = nat_str ?h @ ''h'' @ (if ?m = 0 then [] else '' '' @ nat_str ?m @ ''m'')"
    using assms by (simp add: formatUptime_def Let_def)
  show "?m < 60" by (simp add: less_mult_imp_div_less)
  have "3600 * ?h + s mod 3600 = s" by simp
  moreover have "60 * ?m + s mod 3600 mod 60 = s mod 3600" "s mod 3600 mod 60 < 60" by simp_all
  ultimately show "3600 * ?h + 60 * ?m \<le> s" "s < 3600 * ?h + 60 * ?m + 60" by linarith+
qed

text \<open>Nothing of the timeline is lost: what is shown and what the button announces are all entries.\<close>

lemma timeline_complete:
  "length (timeline_visible False n es) + (length es - n) = length es"
  "hasMore n es \<longleftrightarrow> timeline_visible False n es \<noteq> timeline_visible True n es"
  by (auto simp: timeline_visible_def hasMore_def)

text \<open>The relative time names the largest unit that fits.\<close>

lemma formatRelative_units:
  assumes "d = (now - t) div 60000" "1 \<le> d"
  shows "formatRelative loc now (Some t) =
    (if d < 60 then int_str d @ ''m ago'' else if d < 60 * 24 then int_str (d div 60) @ ''h ago''
     else if d < 60 * 24 * 7 then int_str (d div 60 div 24) @ ''d ago'' else loc (Some t))"
proof -
  have "d div 60 < 24 \<longleftrightarrow> d < 60 * 24" "d div 60 div 24 < 7 \<longleftrightarrow> d < 60 * 24 * 7" by linarith+
  then show ?thesis using assms by (simp add: formatRelative_def Let_def)
qed

text \<open>The safety card and the badge name the highest risk differently.\<close>

lemma risk_labels_differ: "risk_indicator l = risk_badge l None \<longleftrightarrow> l \<noteq> RiskCritical"
  by (cases l) (simp_all add: risk_badge_def)

end
