(* ===== verification/Admin_Console.thy ===== *)
theory Admin_Console
  imports Js_Double Ui_Components
begin

text \<open>
  The admin console (\<open>apps/admin-console/src\<close>): the navigation, the tables with the records they show, the filters
  of the audit log and of the traces, the selected row with its detail panel, tabs, forms that open and close,
  and the texts computed from the records.  Nothing is loaded: the records are constants of the pages.  Milliseconds
  are whole numbers; parsing of a date gives milliseconds, or none when it does not parse.

  Rows are selected on four pages in the same way; the locale \<open>row_selection\<close> states it once.
\<close>

section \<open>Selection of a row\<close>

text \<open>\<open>setSelected(selected?.id === row.id ? null : row)\<close>, and the button that closes the panel.\<close>

definition select_row :: "('a \<Rightarrow> 'k) \<Rightarrow> 'a \<Rightarrow> 'a option \<Rightarrow> 'a option" where
  "select_row key row sel = (if map_option key sel = Some (key row) then None else Some row)"

datatype 'a row_event = RowClick 'a | PanelClose

primrec row_exec :: "('a \<Rightarrow> 'k) \<Rightarrow> 'a row_event \<Rightarrow> 'a option \<Rightarrow> 'a option" where
  "row_exec key (RowClick row) sel = select_row key row sel"
| "row_exec key PanelClose sel = None"

definition row_enabled :: "'a list \<Rightarrow> 'a row_event \<Rightarrow> 'a option \<Rightarrow> bool" where
  "row_enabled rows ev sel = (case ev of RowClick row \<Rightarrow> row \<in> set rows | PanelClose \<Rightarrow> sel \<noteq> None)"

definition highlighted :: "('a \<Rightarrow> 'k) \<Rightarrow> 'a option \<Rightarrow> 'a \<Rightarrow> bool" where
  "highlighted key sel row \<longleftrightarrow> map_option key sel = Some (key row)"

locale row_selection =
  fixes key :: "'a \<Rightarrow> 'k" and rows :: "'a list"
  assumes keys: "distinct (map key rows)"
begin

lemma selected_in_rows:
  assumes "page_run (row_enabled rows) (row_exec key) evs None = Some sel"
  shows "set_option sel \<subseteq> set rows"
  by (rule page_run_invariant [OF assms])
     (auto simp: row_enabled_def select_row_def split: row_event.splits if_splits)

text \<open>The highlighted rows are the one whose panel is open.\<close>

lemma highlighted_rows:
  assumes "page_run (row_enabled rows) (row_exec key) evs None = Some sel"
  shows "filter (highlighted key sel) rows = (case sel of None \<Rightarrow> [] | Some row \<Rightarrow> [row])"
proof (cases sel)
  case None
  then show ?thesis by (simp add: highlighted_def)
next
  case (Some row)
  have "row \<in> set rows" using selected_in_rows [OF assms] Some by simp
  then have "filter (\<lambda>r. key r = key row) rows = [row]"
    using keys by (induction rows) (auto simp: filter_empty_conv intro: rev_image_eqI)
  moreover have "highlighted key (Some row) = (\<lambda>r. key r = key row)" by (auto simp: highlighted_def fun_eq_iff)
  ultimately show ?thesis using Some by simp
qed

lemma click_toggles:
  assumes "r \<in> set rows" "r' \<in> set rows"
  shows "select_row key r (Some r') = (if r = r' then None else Some r)"
proof -
  have "inj_on key (set rows)" using keys by (simp add: distinct_map)
  with assms show ?thesis by (auto simp: select_row_def dest: inj_onD)
qed

end

section \<open>Shell\<close>

definition ADMIN_NAV_ITEMS :: "(jstr \<times> jstr) list" where
  "ADMIN_NAV_ITEMS = [(''/'', ''Dashboard''), (''/workspaces'', ''Workspaces''), (''/members'', ''Members''), (''/policies'', ''Policies''), (''/connectors'', ''Connectors''), (''/squads'', ''Squads''), (''/traces'', ''Traces''), (''/audit-log'', ''Audit Log'')]"

definition admin_routes :: "(jstr \<times> jstr) list" where
  "admin_routes = [(''/'', ''Dashboard''), (''/workspaces'', ''Workspaces''), (''/members'', ''Members''), (''/policies'', ''Policies''),
     (''/connectors'', ''Connectors''), (''/squads'', ''Squads''), (''/traces'', ''Traces''), (''/audit-log'', ''AuditLog'')]"

definition toggle_sidebar :: "bool \<Rightarrow> bool" where
  "toggle_sidebar prev = (\<not> prev)"

definition nav_label :: "bool \<Rightarrow> jstr \<times> jstr \<Rightarrow> jstr option" where
  "nav_label collapsed item = (if collapsed then None else Some (snd item))"

section \<open>Audit log\<close>

datatype admin_event_type = EvRecipe | EvPolicy | EvConnector | EvMember | EvWorkspace | EvSecurity | EvSystem

primrec event_type_value :: "admin_event_type \<Rightarrow> jstr" where
  "event_type_value EvRecipe = ''recipe''"
| "event_type_value EvPolicy = ''policy''"
| "event_type_value EvConnector = ''connector''"
| "event_type_value EvMember = ''member''"
| "event_type_value EvWorkspace = ''workspace''"
| "event_type_value EvSecurity = ''security''"
| "event_type_value EvSystem = ''system''"

datatype event_result = ResSuccess | ResDenied | ResError | ResRolledBack

datatype actor_type = ActUser | ActAgent | ActSystem

record admin_event =
  adm_id :: jstr
  adm_timestamp :: jstr
  adm_actor :: jstr
  adm_actorType :: actor_type
  adm_action :: jstr
  adm_target :: jstr
  adm_eventType :: admin_event_type
  adm_workspace :: jstr
  adm_result :: event_result
  adm_detail :: "jstr option"

definition AUDIT_EVENTS :: "admin_event list" where
  "AUDIT_EVENTS =
    [\<lparr>adm_id = ''evt-001'', adm_timestamp = ''2026-04-01T14:32:12Z'', adm_actor = ''defender'', adm_actorType = ActAgent,
       adm_action = ''block.ssrf_attempt'', adm_target = ''research-tool'', adm_eventType = EvSecurity,
       adm_workspace = ''Engineering'', adm_result = ResSuccess, adm_detail = Some ''Blocked outbound request to 169.254.169.254''\<rparr>,
     \<lparr>adm_id = ''evt-002'', adm_timestamp = ''2026-04-01T14:30:00Z'', adm_actor = ''alice@irongolem.local'', adm_actorType = ActUser,
       adm_action = ''recipe.activate'', adm_target = ''recipe-daily-standup'', adm_eventType = EvRecipe,
       adm_workspace = ''Engineering'', adm_result = ResSuccess, adm_detail = None\<rparr>,
     \<lparr>adm_id = ''evt-003'', adm_timestamp = ''2026-04-01T14:28:45Z'', adm_actor = ''connector-github'', adm_actorType = ActSystem,
       adm_action = ''connector.sync_failed'', adm_target = ''conn-004'', adm_eventType = EvConnector, adm_workspace = ''Engineering'',
       adm_result = ResError, adm_detail = Some ''GitHub API rate limit exceeded (403)''\<rparr>,
     \<lparr>adm_id = ''evt-004'', adm_timestamp = ''2026-04-01T14:25:30Z'', adm_actor = ''defender'', adm_actorType = ActAgent,
       adm_action = ''scan.prompt_injection'', adm_target = ''email-inbound-42'', adm_eventType = EvSecurity,
       adm_workspace = ''Sales'', adm_result = ResSuccess, adm_detail = Some ''No injection detected''\<rparr>,
     \<lparr>adm_id = ''evt-005'', adm_timestamp = ''2026-04-01T14:20:10Z'', adm_actor = ''bob@irongolem.local'', adm_actorType = ActUser,
       adm_action = ''workspace.list'', adm_target = ''tenancy-api'', adm_eventType = EvWorkspace, adm_workspace = ''Engineering'',
       adm_result = ResSuccess, adm_detail = None\<rparr>,
     \<lparr>adm_id = ''evt-006'', adm_timestamp = ''2026-04-01T14:15:00Z'', adm_actor = ''optimizer'', adm_actorType = ActAgent,
       adm_action = ''suggestion.generate'', adm_target = ''inbox-squad-eng'', adm_eventType = EvSystem,
       adm_workspace = ''Engineering'', adm_result = ResSuccess, adm_detail = None\<rparr>,
     \<lparr>adm_id = ''evt-007'', adm_timestamp = ''2026-04-01T13:50:22Z'', adm_actor = ''executor'', adm_actorType = ActAgent,
       adm_action = ''plan.execute'', adm_target = ''plan-triage-batch'', adm_eventType = EvRecipe, adm_workspace = ''Engineering'',
       adm_result = ResError, adm_detail = Some ''Step 3 failed: connector timeout''\<rparr>,
     \<lparr>adm_id = ''evt-008'', adm_timestamp = ''2026-04-01T13:45:00Z'', adm_actor = ''carol@irongolem.local'', adm_actorType = ActUser,
       adm_action = ''policy.update'', adm_target = ''global-tool-policy'', adm_eventType = EvPolicy, adm_workspace = ''Sales'',
       adm_result = ResSuccess, adm_detail = Some ''Added http_request to denylist for Sales''\<rparr>,
     \<lparr>adm_id = ''evt-009'', adm_timestamp = ''2026-04-01T13:40:00Z'', adm_actor = ''researcher'', adm_actorType = ActAgent,
       adm_action = ''research.complete'', adm_target = ''topic-pricing-analysis'', adm_eventType = EvRecipe,
       adm_workspace = ''Engineering'', adm_result = ResSuccess, adm_detail = None\<rparr>,
     \<lparr>adm_id = ''evt-010'', adm_timestamp = ''2026-04-01T13:18:00Z'', adm_actor = ''router'', adm_actorType = ActAgent,
       adm_action = ''block.prompt_injection'', adm_target = ''email-inbound-37'', adm_eventType = EvSecurity,
       adm_workspace = ''Sales'', adm_result = ResDenied, adm_detail = Some ''Prompt injection detected in email subject''\<rparr>,
     \<lparr>adm_id = ''evt-011'', adm_timestamp = ''2026-04-01T12:30:00Z'', adm_actor = ''healer'', adm_actorType = ActAgent,
       adm_action = ''plan.rollback'', adm_target = ''plan-calendar-fix'', adm_eventType = EvRecipe, adm_workspace = ''HR'',
       adm_result = ResRolledBack, adm_detail = Some ''Calendar conflict could not be resolved automatically''\<rparr>,
     \<lparr>adm_id = ''evt-012'', adm_timestamp = ''2026-04-01T11:45:00Z'', adm_actor = ''executor'', adm_actorType = ActAgent,
       adm_action = ''cross_tenant.access_attempt'', adm_target = ''workspace-hr-data'', adm_eventType = EvSecurity,
       adm_workspace = ''HR'', adm_result = ResDenied,
       adm_detail = Some ''Quarantined: executor from Engineering attempted HR data access''\<rparr>,
     \<lparr>adm_id = ''evt-013'', adm_timestamp = ''2026-04-01T11:00:00Z'', adm_actor = ''alice@irongolem.local'', adm_actorType = ActUser,
       adm_action = ''member.invite'', adm_target = ''grace@irongolem.local'', adm_eventType = EvMember,
       adm_workspace = ''Engineering'', adm_result = ResSuccess, adm_detail = None\<rparr>,
     \<lparr>adm_id = ''evt-014'', adm_timestamp = ''2026-04-01T10:22:00Z'', adm_actor = ''defender'', adm_actorType = ActAgent,
       adm_action = ''block.rate_limit'', adm_target = ''recipe-data-sync'', adm_eventType = EvSecurity,
       adm_workspace = ''Engineering'', adm_result = ResSuccess, adm_detail = Some ''Rate limit exceeded: 500 API calls in 60s''\<rparr>,
     \<lparr>adm_id = ''evt-015'', adm_timestamp = ''2026-04-01T09:00:00Z'', adm_actor = ''system'', adm_actorType = ActSystem,
       adm_action = ''backup.complete'', adm_target = ''daily-backup-20260401'', adm_eventType = EvSystem,
       adm_workspace = ''Engineering'', adm_result = ResSuccess, adm_detail = None\<rparr>]"

primrec actorTypeIcon :: "actor_type \<Rightarrow> jstr" where
  "actorTypeIcon ActUser = ''U''"
| "actorTypeIcon ActAgent = ''A''"
| "actorTypeIcon ActSystem = ''S''"

record audit_log_state =
  al_filterType :: jstr
  al_filterWorkspace :: jstr
  al_filterActor :: jstr

definition audit_log_init :: audit_log_state where
  "audit_log_init = \<lparr>al_filterType = ''all'', al_filterWorkspace = ''all'', al_filterActor = []\<rparr>"

definition audit_workspaces :: "admin_event list \<Rightarrow> jstr list" where
  "audit_workspaces events = set_order (map adm_workspace events)"

definition audit_event_types :: "admin_event_type list" where
  "audit_event_types = [EvRecipe, EvPolicy, EvConnector, EvMember, EvWorkspace, EvSecurity, EvSystem]"

definition audit_event_shown :: "audit_log_state \<Rightarrow> admin_event \<Rightarrow> bool" where
  "audit_event_shown s e =
     (if al_filterType s \<noteq> ''all'' \<and> event_type_value (adm_eventType e) \<noteq> al_filterType s then False
      else if al_filterWorkspace s \<noteq> ''all'' \<and> adm_workspace e \<noteq> al_filterWorkspace s then False
      else if al_filterActor s \<noteq> [] \<and> \<not> js_includes (js_toLowerCase (adm_actor e)) (js_toLowerCase (al_filterActor s)) then False
      else True)"

definition admin_filteredEvents :: "admin_event list \<Rightarrow> audit_log_state \<Rightarrow> admin_event list" where
  "admin_filteredEvents events s = filter (audit_event_shown s) events"

datatype audit_log_event = PickType jstr | PickWorkspace jstr | TypeActor jstr

primrec audit_log_exec :: "audit_log_event \<Rightarrow> audit_log_state \<Rightarrow> audit_log_state" where
  "audit_log_exec (PickType t) s = s\<lparr>al_filterType := t\<rparr>"
| "audit_log_exec (PickWorkspace w) s = s\<lparr>al_filterWorkspace := w\<rparr>"
| "audit_log_exec (TypeActor a) s = s\<lparr>al_filterActor := a\<rparr>"

definition audit_log_enabled :: "admin_event list \<Rightarrow> audit_log_event \<Rightarrow> audit_log_state \<Rightarrow> bool" where
  "audit_log_enabled events ev s = (case ev of
     PickType t \<Rightarrow> t \<in> set (''all'' # map event_type_value audit_event_types)
   | PickWorkspace w \<Rightarrow> w \<in> set (''all'' # audit_workspaces events) | TypeActor a \<Rightarrow> True)"

definition events_counter :: "admin_event list \<Rightarrow> audit_log_state \<Rightarrow> jstr" where
  "events_counter events s = nat_str (length (admin_filteredEvents events s)) @ '' of '' @ nat_str (length events) @ '' events''"

definition event_details_shown :: "admin_event list \<Rightarrow> audit_log_state \<Rightarrow> (jstr \<times> jstr) list" where
  "event_details_shown events s =
     List.map_filter (\<lambda>e. if adm_detail e \<noteq> None \<and> adm_detail e \<noteq> Some [] then Some (adm_id e, the (adm_detail e)) else None) (admin_filteredEvents events s)"

section \<open>Traces\<close>

datatype trace_status = TrOk | TrError

primrec trace_status_value :: "trace_status \<Rightarrow> jstr" where
  "trace_status_value TrOk = ''ok''"
| "trace_status_value TrError = ''error''"

record span =
  sp_spanId :: jstr
  sp_service :: jstr
  sp_operation :: jstr
  sp_startMs :: nat
  sp_durationMs :: nat
  sp_status :: trace_status

record trace =
  tc_traceId :: jstr
  tc_rootService :: jstr
  tc_rootOperation :: jstr
  tc_durationMs :: nat
  tc_status :: trace_status
  tc_spanCount :: nat
  tc_startedAt :: jstr
  tc_spans :: "span list"

definition TRACES :: "trace list" where
  "TRACES =
    [\<lparr>tc_traceId = ''t-7a3f1b2c'', tc_rootService = ''gateway'', tc_rootOperation = ''POST /api/recipes/activate'',
       tc_durationMs = 342, tc_status = TrOk, tc_spanCount = 6, tc_startedAt = ''2026-04-01T14:32:12Z'',
       tc_spans = 
        [\<lparr>sp_spanId = ''s-001'', sp_service = ''gateway'', sp_operation = ''auth.verify'', sp_startMs = 0, sp_durationMs = 12,
       sp_status = TrOk\<rparr>,
         \<lparr>sp_spanId = ''s-002'', sp_service = ''gateway'', sp_operation = ''policy.evaluate'', sp_startMs = 12, sp_durationMs = 28,
       sp_status = TrOk\<rparr>,
         \<lparr>sp_spanId = ''s-003'', sp_service = ''scheduler'', sp_operation = ''recipe.activate'', sp_startMs = 40, sp_durationMs = 85,
       sp_status = TrOk\<rparr>,
         \<lparr>sp_spanId = ''s-004'', sp_service = ''runtime'', sp_operation = ''plan.create'', sp_startMs = 125, sp_durationMs = 120,
       sp_status = TrOk\<rparr>,
         \<lparr>sp_spanId = ''s-005'', sp_service = ''runtime'', sp_operation = ''checkpoint.save'', sp_startMs = 245, sp_durationMs = 65,
       sp_status = TrOk\<rparr>,
         \<lparr>sp_spanId = ''s-006'', sp_service = ''gateway'', sp_operation = ''response.send'', sp_startMs = 310, sp_durationMs = 32,
       sp_status = TrOk\<rparr>]\<rparr>,
     \<lparr>tc_traceId = ''t-9e4d2a8f'', tc_rootService = ''scheduler'', tc_rootOperation = ''heartbeat.check'', tc_durationMs = 89,
       tc_status = TrOk, tc_spanCount = 3, tc_startedAt = ''2026-04-01T14:31:00Z'',
       tc_spans = 
        [\<lparr>sp_spanId = ''s-010'', sp_service = ''scheduler'', sp_operation = ''agents.poll'', sp_startMs = 0, sp_durationMs = 45,
       sp_status = TrOk\<rparr>,
         \<lparr>sp_spanId = ''s-011'', sp_service = ''health'', sp_operation = ''status.aggregate'', sp_startMs = 45, sp_durationMs = 32,
       sp_status = TrOk\<rparr>,
         \<lparr>sp_spanId = ''s-012'', sp_service = ''scheduler'', sp_operation = ''heartbeat.report'', sp_startMs = 77, sp_durationMs = 12,
       sp_status = TrOk\<rparr>]\<rparr>,
     \<lparr>tc_traceId = ''t-2c8b5e1d'', tc_rootService = ''gateway'', tc_rootOperation = ''POST /api/connectors/sync'',
       tc_durationMs = 1247, tc_status = TrError, tc_spanCount = 5, tc_startedAt = ''2026-04-01T14:28:45Z'',
       tc_spans = 
        [\<lparr>sp_spanId = ''s-020'', sp_service = ''gateway'', sp_operation = ''auth.verify'', sp_startMs = 0, sp_durationMs = 8,
       sp_status = TrOk\<rparr>,
         \<lparr>sp_spanId = ''s-021'', sp_service = ''gateway'', sp_operation = ''policy.evaluate'', sp_startMs = 8, sp_durationMs = 15,
       sp_status = TrOk\<rparr>,
         \<lparr>sp_spanId = ''s-022'', sp_service = ''connector-github'', sp_operation = ''api.fetch'', sp_startMs = 23, sp_durationMs = 1100,
       sp_status = TrError\<rparr>,
         \<lparr>sp_spanId = ''s-023'', sp_service = ''health'', sp_operation = ''connector.mark_degraded'', sp_startMs = 1123,
       sp_durationMs = 45, sp_status = TrOk\<rparr>,
         \<lparr>sp_spanId = ''s-024'', sp_service = ''gateway'', sp_operation = ''error.respond'', sp_startMs = 1168, sp_durationMs = 79,
       sp_status = TrOk\<rparr>]\<rparr>,
     \<lparr>tc_traceId = ''t-5f1a7c3e'', tc_rootService = ''defense'', tc_rootOperation = ''scan.prompt_injection'', tc_durationMs = 67,
       tc_status = TrOk, tc_spanCount = 2, tc_startedAt = ''2026-04-01T14:25:30Z'',
       tc_spans = 
        [\<lparr>sp_spanId = ''s-030'', sp_service = ''defense'', sp_operation = ''input.analyze'', sp_startMs = 0, sp_durationMs = 52,
       sp_status = TrOk\<rparr>,
         \<lparr>sp_spanId = ''s-031'', sp_service = ''defense'', sp_operation = ''result.log'', sp_startMs = 52, sp_durationMs = 15,
       sp_status = TrOk\<rparr>]\<rparr>,
     \<lparr>tc_traceId = ''t-8d3e9b2a'', tc_rootService = ''gateway'', tc_rootOperation = ''GET /api/workspaces'', tc_durationMs = 156,
       tc_status = TrOk, tc_spanCount = 3, tc_startedAt = ''2026-04-01T14:20:10Z'',
       tc_spans = 
        [\<lparr>sp_spanId = ''s-040'', sp_service = ''gateway'', sp_operation = ''auth.verify'', sp_startMs = 0, sp_durationMs = 10,
       sp_status = TrOk\<rparr>,
         \<lparr>sp_spanId = ''s-041'', sp_service = ''tenancy'', sp_operation = ''workspaces.list'', sp_startMs = 10, sp_durationMs = 128,
       sp_status = TrOk\<rparr>,
         \<lparr>sp_spanId = ''s-042'', sp_service = ''gateway'', sp_operation = ''response.send'', sp_startMs = 138, sp_durationMs = 18,
       sp_status = TrOk\<rparr>]\<rparr>,
     \<lparr>tc_traceId = ''t-4b2c8f1e'', tc_rootService = ''optimizer'', tc_rootOperation = ''suggestions.generate'', tc_durationMs = 2340,
       tc_status = TrOk, tc_spanCount = 4, tc_startedAt = ''2026-04-01T14:15:00Z'',
       tc_spans = 
        [\<lparr>sp_spanId = ''s-050'', sp_service = ''optimizer'', sp_operation = ''metrics.collect'', sp_startMs = 0, sp_durationMs = 450,
       sp_status = TrOk\<rparr>,
         \<lparr>sp_spanId = ''s-051'', sp_service = ''optimizer'', sp_operation = ''patterns.analyze'', sp_startMs = 450, sp_durationMs = 1200,
       sp_status = TrOk\<rparr>,
         \<lparr>sp_spanId = ''s-052'', sp_service = ''optimizer'', sp_operation = ''suggestions.rank'', sp_startMs = 1650, sp_durationMs = 580,
       sp_status = TrOk\<rparr>,
         \<lparr>sp_spanId = ''s-053'', sp_service = ''optimizer'', sp_operation = ''result.store'', sp_startMs = 2230, sp_durationMs = 110,
       sp_status = TrOk\<rparr>]\<rparr>]"

definition formatDuration :: "nat \<Rightarrow> jstr" where
  "formatDuration ms = (if ms < 1000 then nat_str ms @ ''ms'' else toFixed2 (double_of (of_nat ms / 1000)) @ ''s'')"

record traces_state =
  tv_selectedTrace :: "trace option"
  tv_filterService :: jstr
  tv_filterStatus :: jstr

definition traces_init :: traces_state where
  "traces_init = \<lparr>tv_selectedTrace = None, tv_filterService = ''all'', tv_filterStatus = ''all''\<rparr>"

definition trace_services :: "trace list \<Rightarrow> jstr list" where
  "trace_services traces = set_order (map tc_rootService traces)"

definition trace_shown :: "traces_state \<Rightarrow> trace \<Rightarrow> bool" where
  "trace_shown s t =
     (if tv_filterService s \<noteq> ''all'' \<and> tc_rootService t \<noteq> tv_filterService s then False
      else if tv_filterStatus s \<noteq> ''all'' \<and> trace_status_value (tc_status t) \<noteq> tv_filterStatus s then False
      else True)"

definition filteredTraces :: "trace list \<Rightarrow> traces_state \<Rightarrow> trace list" where
  "filteredTraces traces s = filter (trace_shown s) traces"

definition click_trace :: "trace \<Rightarrow> traces_state \<Rightarrow> traces_state" where
  "click_trace t s = s\<lparr>tv_selectedTrace := select_row tc_traceId t (tv_selectedTrace s)\<rparr>"

datatype traces_event = PickService jstr | PickStatus jstr | ClickTrace trace | CloseTrace

primrec traces_exec :: "traces_event \<Rightarrow> traces_state \<Rightarrow> traces_state" where
  "traces_exec (PickService v) s = s\<lparr>tv_filterService := v\<rparr>"
| "traces_exec (PickStatus v) s = s\<lparr>tv_filterStatus := v\<rparr>"
| "traces_exec (ClickTrace t) s = click_trace t s"
| "traces_exec CloseTrace s = s\<lparr>tv_selectedTrace := None\<rparr>"

definition traces_enabled :: "trace list \<Rightarrow> traces_event \<Rightarrow> traces_state \<Rightarrow> bool" where
  "traces_enabled traces ev s = (case ev of
     PickService v \<Rightarrow> v \<in> set (''all'' # trace_services traces) | PickStatus v \<Rightarrow> v \<in> {''all'', ''ok'', ''error''}
   | ClickTrace t \<Rightarrow> t \<in> set (filteredTraces traces s) | CloseTrace \<Rightarrow> tv_selectedTrace s \<noteq> None)"

definition leftPct :: "trace \<Rightarrow> span \<Rightarrow> rat" where
  "leftPct t sp = of_nat (sp_startMs sp) / of_nat (tc_durationMs t) * 100"

definition widthPct :: "trace \<Rightarrow> span \<Rightarrow> rat" where
  "widthPct t sp = max (of_nat (sp_durationMs sp) / of_nat (tc_durationMs t) * 100) 1"

definition timeline_scale :: "trace \<Rightarrow> jstr list" where
  "timeline_scale t = [''0ms'', formatDuration (nat (js_round (of_nat (tc_durationMs t) / 2))), formatDuration (tc_durationMs t)]"

section \<open>Members\<close>

datatype member_role = RoleOwner | RoleAdmin | RoleMember | RoleViewer
datatype member_status = MemActive | MemInvited | MemDisabled

record member =
  mb_id :: jstr
  mb_name :: jstr
  mb_email :: jstr
  mb_role :: member_role
  mb_workspace :: jstr
  mb_lastActive :: jstr
  mb_status :: member_status

definition MEMBERS :: "member list" where
  "MEMBERS =
    [\<lparr>mb_id = ''m-001'', mb_name = ''Alice Chen'', mb_email = ''alice@irongolem.local'', mb_role = RoleOwner,
       mb_workspace = ''Engineering'', mb_lastActive = ''2026-04-01T14:22:00Z'', mb_status = MemActive\<rparr>,
     \<lparr>mb_id = ''m-002'', mb_name = ''Bob Martinez'', mb_email = ''bob@irongolem.local'', mb_role = RoleAdmin,
       mb_workspace = ''Engineering'', mb_lastActive = ''2026-04-01T13:45:00Z'', mb_status = MemActive\<rparr>,
     \<lparr>mb_id = ''m-003'', mb_name = ''Carol Kim'', mb_email = ''carol@irongolem.local'', mb_role = RoleAdmin, mb_workspace = ''Sales'',
       mb_lastActive = ''2026-04-01T12:30:00Z'', mb_status = MemActive\<rparr>,
     \<lparr>mb_id = ''m-004'', mb_name = ''David Patel'', mb_email = ''david@irongolem.local'', mb_role = RoleMember, mb_workspace = ''HR'',
       mb_lastActive = ''2026-04-01T10:15:00Z'', mb_status = MemActive\<rparr>,
     \<lparr>mb_id = ''m-005'', mb_name = ''Eva Johansson'', mb_email = ''eva@irongolem.local'', mb_role = RoleMember,
       mb_workspace = ''Finance'', mb_lastActive = ''2026-03-31T18:00:00Z'', mb_status = MemActive\<rparr>,
     \<lparr>mb_id = ''m-006'', mb_name = ''Frank Wu'', mb_email = ''frank@irongolem.local'', mb_role = RoleViewer,
       mb_workspace = ''Marketing'', mb_lastActive = ''2026-03-30T09:45:00Z'', mb_status = MemActive\<rparr>,
     \<lparr>mb_id = ''m-007'', mb_name = ''Grace Liu'', mb_email = ''grace@irongolem.local'', mb_role = RoleMember,
       mb_workspace = ''Engineering'', mb_lastActive = ''Never'', mb_status = MemInvited\<rparr>,
     \<lparr>mb_id = ''m-008'', mb_name = ''Henry Okafor'', mb_email = ''henry@irongolem.local'', mb_role = RoleViewer,
       mb_workspace = ''Sales'', mb_lastActive = ''2026-03-15T14:00:00Z'', mb_status = MemDisabled\<rparr>]"

text \<open>The time the page takes for now, 2026-04-01T15:00:00Z.\<close>

definition MEMBERS_NOW :: int where
  "MEMBERS_NOW = 1775055600000"

definition formatLastActive :: "(jstr \<Rightarrow> int option) \<Rightarrow> jstr \<Rightarrow> jstr" where
  "formatLastActive parse v = (if v = ''Never'' then ''Never''
     else case parse v of None \<Rightarrow> ''NaNd ago''
     | Some d \<Rightarrow> let diffH = js_round (of_int (MEMBERS_NOW - d) / 3600000)
         in if diffH < 1 then ''Just now'' else if diffH < 24 then int_str diffH @ ''h ago''
            else int_str (js_round (of_int diffH / 24)) @ ''d ago'')"

definition toggle_form :: "bool \<Rightarrow> bool" where
  "toggle_form shown = (\<not> shown)"

definition cancel_form :: "bool \<Rightarrow> bool" where
  "cancel_form shown = False"

section \<open>Squads\<close>

datatype trust_level = TrustLow | TrustMedium | TrustHigh
datatype run_status = RunCompleted | RunFailed | RunRolledBack

record squad_template =
  st_id :: jstr
  st_name :: jstr
  st_description :: jstr
  st_roles :: "agent_role list"
  st_defaultTrustLevel :: trust_level

record active_squad =
  as_id :: jstr
  as_templateId :: jstr
  as_templateName :: jstr
  as_workspace :: jstr
  as_status :: squad_status
  as_trustLevel :: trust_level
  as_runsToday :: nat
  as_lastRun :: jstr
  as_tools :: "jstr list"

record run_history_entry =
  rh_id :: jstr
  rh_startedAt :: jstr
  rh_duration :: jstr
  rh_status :: run_status
  rh_trigger :: jstr

definition SQUAD_TEMPLATES :: "squad_template list" where
  "SQUAD_TEMPLATES =
    [\<lparr>st_id = ''tpl-inbox'', st_name = ''Inbox Squad'', st_description = ''Triage, route, and auto-respond to incoming messages'',
       st_roles = [Router, Executor, Narrator], st_defaultTrustLevel = TrustMedium\<rparr>,
     \<lparr>st_id = ''tpl-research'', st_name = ''Research Squad'',
       st_description = ''Deep research with contradiction detection and freshness tracking'',
       st_roles = [Researcher, Verifier, Narrator], st_defaultTrustLevel = TrustMedium\<rparr>,
     \<lparr>st_id = ''tpl-ops'', st_name = ''Ops Squad'', st_description = ''Operational automation, scheduling, and monitoring'',
       st_roles = [Planner, Executor, Healer, Verifier], st_defaultTrustLevel = TrustHigh\<rparr>,
     \<lparr>st_id = ''tpl-security'', st_name = ''Security Squad'', st_description = ''Threat detection, defense, and incident response'',
       st_roles = [Defender, Verifier, Narrator], st_defaultTrustLevel = TrustLow\<rparr>,
     \<lparr>st_id = ''tpl-ea'', st_name = ''Executive Assistant Squad'',
       st_description = ''Calendar management, meeting prep, and follow-ups'', st_roles = [Planner, Executor, Narrator, Router],
       st_defaultTrustLevel = TrustMedium\<rparr>]"

definition ACTIVE_SQUADS :: "active_squad list" where
  "ACTIVE_SQUADS =
    [\<lparr>as_id = ''sq-001'', as_templateId = ''tpl-inbox'', as_templateName = ''Inbox Squad'', as_workspace = ''Engineering'',
       as_status = SquadActive, as_trustLevel = TrustMedium, as_runsToday = 47, as_lastRun = ''2026-04-01T14:28:00Z'',
       as_tools = [''email_read'', ''email_send'', ''slack_post'', ''classify'']\<rparr>,
     \<lparr>as_id = ''sq-002'', as_templateId = ''tpl-inbox'', as_templateName = ''Inbox Squad'', as_workspace = ''Sales'',
       as_status = SquadActive, as_trustLevel = TrustMedium, as_runsToday = 32, as_lastRun = ''2026-04-01T14:25:00Z'',
       as_tools = [''email_read'', ''email_send'', ''crm_update'']\<rparr>,
     \<lparr>as_id = ''sq-003'', as_templateId = ''tpl-research'', as_templateName = ''Research Squad'', as_workspace = ''Engineering'',
       as_status = SquadActive, as_trustLevel = TrustMedium, as_runsToday = 8, as_lastRun = ''2026-04-01T13:40:00Z'',
       as_tools = [''web_search'', ''file_read'', ''file_write'', ''summarize'']\<rparr>,
     \<lparr>as_id = ''sq-004'', as_templateId = ''tpl-ops'', as_templateName = ''Ops Squad'', as_workspace = ''Engineering'',
       as_status = SquadIdle, as_trustLevel = TrustHigh, as_runsToday = 3, as_lastRun = ''2026-04-01T11:00:00Z'',
       as_tools = [''scheduler'', ''monitor'', ''deploy'', ''rollback'']\<rparr>,
     \<lparr>as_id = ''sq-005'', as_templateId = ''tpl-security'', as_templateName = ''Security Squad'', as_workspace = ''Engineering'',
       as_status = SquadActive, as_trustLevel = TrustLow, as_runsToday = 156, as_lastRun = ''2026-04-01T14:32:00Z'',
       as_tools = [''scan'', ''block'', ''quarantine'', ''alert'']\<rparr>,
     \<lparr>as_id = ''sq-006'', as_templateId = ''tpl-ea'', as_templateName = ''EA Squad'', as_workspace = ''HR'', as_status = SquadPaused,
       as_trustLevel = TrustMedium, as_runsToday = 0, as_lastRun = ''2026-03-31T17:00:00Z'',
       as_tools = [''calendar_read'', ''calendar_write'', ''email_send'']\<rparr>]"

definition SAMPLE_RUN_HISTORY :: "run_history_entry list" where
  "SAMPLE_RUN_HISTORY =
    [\<lparr>rh_id = ''run-001'', rh_startedAt = ''2026-04-01T14:28:00Z'', rh_duration = ''2.3s'', rh_status = RunCompleted,
       rh_trigger = ''New email from client@example.com''\<rparr>,
     \<lparr>rh_id = ''run-002'', rh_startedAt = ''2026-04-01T14:15:00Z'', rh_duration = ''1.1s'', rh_status = RunCompleted,
       rh_trigger = ''Slack message in #engineering''\<rparr>,
     \<lparr>rh_id = ''run-003'', rh_startedAt = ''2026-04-01T13:50:00Z'', rh_duration = ''4.7s'', rh_status = RunFailed,
       rh_trigger = ''Auto-triage batch''\<rparr>,
     \<lparr>rh_id = ''run-004'', rh_startedAt = ''2026-04-01T13:40:00Z'', rh_duration = ''12.4s'', rh_status = RunCompleted,
       rh_trigger = ''Research request: pricing analysis''\<rparr>,
     \<lparr>rh_id = ''run-005'', rh_startedAt = ''2026-04-01T12:30:00Z'', rh_duration = ''0.8s'', rh_status = RunRolledBack,
       rh_trigger = ''Calendar conflict resolution''\<rparr>]"

datatype squads_tab = TabActive | TabTemplates

record squads_state =
  sv_selectedSquad :: "active_squad option"
  sv_activeTab :: squads_tab

definition squads_init :: squads_state where
  "squads_init = \<lparr>sv_selectedSquad = None, sv_activeTab = TabActive\<rparr>"

definition click_squad :: "active_squad \<Rightarrow> squads_state \<Rightarrow> squads_state" where
  "click_squad q s = s\<lparr>sv_selectedSquad := select_row as_id q (sv_selectedSquad s)\<rparr>"

definition close_squad :: "squads_state \<Rightarrow> squads_state" where
  "close_squad s = s\<lparr>sv_selectedSquad := None\<rparr>"

definition pick_squads_tab :: "squads_tab \<Rightarrow> squads_state \<Rightarrow> squads_state" where
  "pick_squads_tab tab s = s\<lparr>sv_activeTab := tab\<rparr>"

definition squad_member_roles :: "squad_template list \<Rightarrow> active_squad \<Rightarrow> jstr list" where
  "squad_member_roles tpls q = (case find (\<lambda>t. st_id t = as_templateId q) tpls of None \<Rightarrow> [] | Some t \<Rightarrow> map agentRoleLabel (st_roles t))"

definition squads_panel :: "squad_template list \<Rightarrow> squads_state \<Rightarrow> (jstr \<times> jstr list) option" where
  "squads_panel tpls s = (case sv_activeTab s of TabTemplates \<Rightarrow> None
     | TabActive \<Rightarrow> map_option (\<lambda>q. (as_templateName q @ '' '' @ u_mdash @ '' '' @ as_workspace q, squad_member_roles tpls q)) (sv_selectedSquad s))"

definition template_active_count :: "active_squad list \<Rightarrow> squad_template \<Rightarrow> nat" where
  "template_active_count squads tpl = count_where (\<lambda>q. as_templateId q = st_id tpl) squads"

definition squads_tab_labels :: "active_squad list \<Rightarrow> squad_template list \<Rightarrow> jstr list" where
  "squads_tab_labels squads tpls = [''Active Squads ('' @ nat_str (length squads) @ '')'', ''Templates ('' @ nat_str (length tpls) @ '')'']"

section \<open>Policies\<close>

definition AGENT_ROLES :: "agent_role list" where
  "AGENT_ROLES = [Planner, Executor, Verifier, Researcher, Defender, Healer, Optimizer, Narrator, Router]"

datatype capability = CapRead | CapWrite | CapExecute | CapDelete | CapApprove

definition CAPABILITIES :: "capability list" where
  "CAPABILITIES = [CapRead, CapWrite, CapExecute, CapDelete, CapApprove]"

fun PERMISSION_MATRIX :: "agent_role \<Rightarrow> capability \<Rightarrow> policy_effect" where
  "PERMISSION_MATRIX Planner CapRead = EffAllow"
| "PERMISSION_MATRIX Planner CapWrite = EffAllow"
| "PERMISSION_MATRIX Planner CapExecute = EffDeny"
| "PERMISSION_MATRIX Planner CapDelete = EffDeny"
| "PERMISSION_MATRIX Planner CapApprove = EffDeny"
| "PERMISSION_MATRIX Executor CapRead = EffAllow"
| "PERMISSION_MATRIX Executor CapWrite = EffAllow"
| "PERMISSION_MATRIX Executor CapExecute = EffAllow"
| "PERMISSION_MATRIX Executor CapDelete = EffRequireApproval"
| "PERMISSION_MATRIX Executor CapApprove = EffDeny"
| "PERMISSION_MATRIX Verifier CapRead = EffAllow"
| "PERMISSION_MATRIX Verifier CapWrite = EffDeny"
| "PERMISSION_MATRIX Verifier CapExecute = EffDeny"
| "PERMISSION_MATRIX Verifier CapDelete = EffDeny"
| "PERMISSION_MATRIX Verifier CapApprove = EffAllow"
| "PERMISSION_MATRIX Researcher CapRead = EffAllow"
| "PERMISSION_MATRIX Researcher CapWrite = EffAllow"
| "PERMISSION_MATRIX Researcher CapExecute = EffDeny"
| "PERMISSION_MATRIX Researcher CapDelete = EffDeny"
| "PERMISSION_MATRIX Researcher CapApprove = EffDeny"
| "PERMISSION_MATRIX Defender CapRead = EffAllow"
| "PERMISSION_MATRIX Defender CapWrite = EffDeny"
| "PERMISSION_MATRIX Defender CapExecute = EffAllow"
| "PERMISSION_MATRIX Defender CapDelete = EffDeny"
| "PERMISSION_MATRIX Defender CapApprove = EffRequireApproval"
| "PERMISSION_MATRIX Healer CapRead = EffAllow"
| "PERMISSION_MATRIX Healer CapWrite = EffAllow"
| "PERMISSION_MATRIX Healer CapExecute = EffAllow"
| "PERMISSION_MATRIX Healer CapDelete = EffDeny"
| "PERMISSION_MATRIX Healer CapApprove = EffDeny"
| "PERMISSION_MATRIX Optimizer CapRead = EffAllow"
| "PERMISSION_MATRIX Optimizer CapWrite = EffRequireApproval"
| "PERMISSION_MATRIX Optimizer CapExecute = EffRequireApproval"
| "PERMISSION_MATRIX Optimizer CapDelete = EffDeny"
| "PERMISSION_MATRIX Optimizer CapApprove = EffDeny"
| "PERMISSION_MATRIX Narrator CapRead = EffAllow"
| "PERMISSION_MATRIX Narrator CapWrite = EffDeny"
| "PERMISSION_MATRIX Narrator CapExecute = EffDeny"
| "PERMISSION_MATRIX Narrator CapDelete = EffDeny"
| "PERMISSION_MATRIX Narrator CapApprove = EffDeny"
| "PERMISSION_MATRIX Router CapRead = EffAllow"
| "PERMISSION_MATRIX Router CapWrite = EffDeny"
| "PERMISSION_MATRIX Router CapExecute = EffDeny"
| "PERMISSION_MATRIX Router CapDelete = EffDeny"
| "PERMISSION_MATRIX Router CapApprove = EffDeny"

record tool_rule =
  tr_tool :: jstr
  tr_effect :: policy_effect
  tr_scope :: jstr

definition TOOL_RULES :: "tool_rule list" where
  "TOOL_RULES =
    [\<lparr>tr_tool = ''file_read'', tr_effect = EffAllow, tr_scope = ''global''\<rparr>,
     \<lparr>tr_tool = ''file_write'', tr_effect = EffAllow, tr_scope = ''global''\<rparr>,
     \<lparr>tr_tool = ''file_delete'', tr_effect = EffDeny, tr_scope = ''global''\<rparr>,
     \<lparr>tr_tool = ''http_request'', tr_effect = EffAllow, tr_scope = ''Engineering''\<rparr>,
     \<lparr>tr_tool = ''http_request'', tr_effect = EffDeny, tr_scope = ''HR''\<rparr>,
     \<lparr>tr_tool = ''email_send'', tr_effect = EffAllow, tr_scope = ''global''\<rparr>,
     \<lparr>tr_tool = ''shell_exec'', tr_effect = EffDeny, tr_scope = ''global''\<rparr>,
     \<lparr>tr_tool = ''db_query'', tr_effect = EffAllow, tr_scope = ''Engineering''\<rparr>,
     \<lparr>tr_tool = ''db_query'', tr_effect = EffDeny, tr_scope = ''Sales''\<rparr>,
     \<lparr>tr_tool = ''calendar_write'', tr_effect = EffAllow, tr_scope = ''global''\<rparr>]"

record workspace_policy =
  wp_workspace :: jstr
  wp_autoApproveBelow :: jstr
  wp_maxConcurrent :: nat
  wp_requireMfa :: bool

definition WORKSPACE_POLICIES :: "workspace_policy list" where
  "WORKSPACE_POLICIES =
    [\<lparr>wp_workspace = ''Engineering'', wp_autoApproveBelow = ''medium'', wp_maxConcurrent = 10, wp_requireMfa = True\<rparr>,
     \<lparr>wp_workspace = ''Sales'', wp_autoApproveBelow = ''low'', wp_maxConcurrent = 5, wp_requireMfa = False\<rparr>,
     \<lparr>wp_workspace = ''HR'', wp_autoApproveBelow = ''low'', wp_maxConcurrent = 3, wp_requireMfa = True\<rparr>,
     \<lparr>wp_workspace = ''Finance'', wp_autoApproveBelow = ''low'', wp_maxConcurrent = 3, wp_requireMfa = True\<rparr>,
     \<lparr>wp_workspace = ''Marketing'', wp_autoApproveBelow = ''medium'', wp_maxConcurrent = 8, wp_requireMfa = False\<rparr>]"

primrec effectLabel :: "policy_effect \<Rightarrow> jstr" where
  "effectLabel EffAllow = ''Allow''"
| "effectLabel EffDeny = ''Deny''"
| "effectLabel EffRequireApproval = ''Approval''"

datatype policies_tab = TabLayers | TabTools | TabAgents | TabWorkspaces

definition policies_tabs :: "(policies_tab \<times> jstr) list" where
  "policies_tabs = [(TabLayers, ''Five-Layer Model''), (TabTools, ''Tool Allowlist''), (TabAgents, ''Agent Permissions''),
     (TabWorkspaces, ''Workspace Policies'')]"

definition policies_initial_tab :: policies_tab where
  "policies_initial_tab = TabLayers"

definition pick_policies_tab :: "nat \<Rightarrow> policies_tab \<Rightarrow> policies_tab" where
  "pick_policies_tab k activeTab = (if k < length policies_tabs then fst (policies_tabs ! k) else activeTab)"

definition layer_rows :: "(nat \<times> jstr \<times> jstr \<times> jstr) list" where
  "layer_rows = map (\<lambda>(idx, layer). (idx + 1, policyLayerLabel layer, policyLayerDescription layer, policy_layer_value layer))
     (enumerate 0 LAYER_ORDER)"

definition tool_row :: "tool_rule \<Rightarrow> jstr \<times> jstr \<times> jstr" where
  "tool_row r = (tr_tool r, if tr_effect r = EffAllow then ''Allow'' else ''Deny'', if tr_scope r = ''global'' then ''Global'' else tr_scope r)"

definition matrix_rows :: "(jstr \<times> jstr list) list" where
  "matrix_rows = map (\<lambda>role. (agentRoleLabel role, map (\<lambda>cap. effectLabel (PERMISSION_MATRIX role cap)) CAPABILITIES)) AGENT_ROLES"

definition workspace_policy_row :: "workspace_policy \<Rightarrow> jstr \<times> jstr \<times> jstr \<times> jstr" where
  "workspace_policy_row w = (wp_workspace w, wp_autoApproveBelow w @ '' risk'', nat_str (wp_maxConcurrent w), if wp_requireMfa w then ''Yes'' else ''No'')"

section \<open>Connectors\<close>

datatype connector_status = ConnHealthy | ConnDegraded | ConnDisconnected

record admin_connector =
  cx_id :: jstr
  cx_name :: jstr
  cx_type :: jstr
  cx_workspace :: jstr
  cx_status :: connector_status
  cx_lastActivity :: jstr
  cx_credentials :: jstr
  cx_config :: "(jstr \<times> jstr) list"
  cx_healthHistory :: "(jstr \<times> connector_status) list"

definition ADMIN_CONNECTORS :: "admin_connector list" where
  "ADMIN_CONNECTORS =
    [\<lparr>cx_id = ''conn-001'', cx_name = ''Gmail - Engineering'', cx_type = ''email'', cx_workspace = ''Engineering'',
       cx_status = ConnHealthy, cx_lastActivity = ''2026-04-01T14:30:00Z'', cx_credentials = ''oauth2:****...3kf9'',
       cx_config = [(''provider'', ''gmail''), (''polling_interval'', ''30s''), (''max_fetch'', ''50'')],
       cx_healthHistory = [(''2026-04-01'', ConnHealthy), (''2026-03-31'', ConnHealthy), (''2026-03-30'', ConnHealthy), (''2026-03-29'', ConnDegraded)]\<rparr>,
     \<lparr>cx_id = ''conn-002'', cx_name = ''Slack - Sales'', cx_type = ''slack'', cx_workspace = ''Sales'', cx_status = ConnHealthy,
       cx_lastActivity = ''2026-04-01T14:28:00Z'', cx_credentials = ''bot-token:****...x8m2'',
       cx_config = [(''workspace_id'', ''T0123SALES''), (''channels'', ''#general,#deals''), (''event_types'', ''message,reaction'')],
       cx_healthHistory = [(''2026-04-01'', ConnHealthy), (''2026-03-31'', ConnHealthy)]\<rparr>,
     \<lparr>cx_id = ''conn-003'', cx_name = ''Google Calendar - HR'', cx_type = ''calendar'', cx_workspace = ''HR'',
       cx_status = ConnHealthy, cx_lastActivity = ''2026-04-01T13:00:00Z'', cx_credentials = ''oauth2:****...7bnq'',
       cx_config = [(''provider'', ''google''), (''sync_direction'', ''bidirectional''), (''lookahead_days'', ''14'')],
       cx_healthHistory = [(''2026-04-01'', ConnHealthy), (''2026-03-31'', ConnHealthy)]\<rparr>,
     \<lparr>cx_id = ''conn-004'', cx_name = ''GitHub - Engineering'', cx_type = ''github'', cx_workspace = ''Engineering'',
       cx_status = ConnDegraded, cx_lastActivity = ''2026-04-01T12:15:00Z'', cx_credentials = ''pat:****...p4kz'',
       cx_config = [(''org'', ''irongolem-dev''), (''repos'', ''*''), (''events'', ''push,pr,issue'')],
       cx_healthHistory = [(''2026-04-01'', ConnDegraded), (''2026-03-31'', ConnHealthy), (''2026-03-30'', ConnHealthy)]\<rparr>,
     \<lparr>cx_id = ''conn-005'', cx_name = ''Telegram - Support'', cx_type = ''telegram'', cx_workspace = ''Marketing'',
       cx_status = ConnDisconnected, cx_lastActivity = ''2026-03-28T09:00:00Z'', cx_credentials = ''bot-token:****...disabled'',
       cx_config = [(''bot_username'', ''@irongolem_support_bot''), (''allowed_chats'', ''restricted'')],
       cx_healthHistory = [(''2026-04-01'', ConnDisconnected), (''2026-03-31'', ConnDisconnected), (''2026-03-30'', ConnDegraded), (''2026-03-29'', ConnHealthy)]\<rparr>,
     \<lparr>cx_id = ''conn-006'', cx_name = ''Jira - Engineering'', cx_type = ''jira'', cx_workspace = ''Engineering'',
       cx_status = ConnHealthy, cx_lastActivity = ''2026-04-01T14:10:00Z'', cx_credentials = ''api-key:****...j2w1'',
       cx_config = [(''instance'', ''irongolem.atlassian.net''), (''project_keys'', ''IG,CORE''), (''sync'', ''issues,comments'')],
       cx_healthHistory = [(''2026-04-01'', ConnHealthy), (''2026-03-31'', ConnHealthy)]\<rparr>,
     \<lparr>cx_id = ''conn-007'', cx_name = ''Notion - All'', cx_type = ''notion'', cx_workspace = ''Engineering'', cx_status = ConnHealthy,
       cx_lastActivity = ''2026-04-01T13:55:00Z'', cx_credentials = ''integration:****...n9q3'',
       cx_config = [(''databases'', ''3''), (''pages'', ''auto-sync''), (''polling'', ''60s'')],
       cx_healthHistory = [(''2026-04-01'', ConnHealthy), (''2026-03-31'', ConnHealthy)]\<rparr>]"

primrec connector_statusLabel :: "connector_status \<Rightarrow> jstr" where
  "connector_statusLabel ConnHealthy = ''Healthy''"
| "connector_statusLabel ConnDegraded = ''Degraded''"
| "connector_statusLabel ConnDisconnected = ''Disconnected''"

definition click_connector :: "admin_connector \<Rightarrow> admin_connector option \<Rightarrow> admin_connector option" where
  "click_connector c sel = select_row cx_id c sel"

text \<open>The button of a row keeps its click from the row and does nothing itself.\<close>

definition click_connector_button :: "admin_connector \<Rightarrow> admin_connector option \<Rightarrow> admin_connector option" where
  "click_connector_button c sel = sel"

definition connector_action :: "admin_connector \<Rightarrow> jstr" where
  "connector_action c = (if cx_status c = ConnDisconnected then ''Enable'' else ''Disable'')"

definition config_lines :: "admin_connector \<Rightarrow> jstr list" where
  "config_lines c = map (\<lambda>(k, v). k @ '': '' @ v) (cx_config c)"

section \<open>Workspaces\<close>

datatype workspace_status = WkActive | WkSuspended | WkProvisioning
datatype data_boundary = BoundUs | BoundEu | BoundAp

record admin_workspace =
  wk_id :: jstr
  wk_name :: jstr
  wk_memberCount :: nat
  wk_connectorCount :: nat
  wk_activeRecipes :: nat
  wk_status :: workspace_status
  wk_dataBoundary :: data_boundary
  wk_isolated :: bool
  wk_createdAt :: jstr

definition WORKSPACES :: "admin_workspace list" where
  "WORKSPACES =
    [\<lparr>wk_id = ''ws-001'', wk_name = ''Engineering'', wk_memberCount = 18, wk_connectorCount = 8, wk_activeRecipes = 24,
       wk_status = WkActive, wk_dataBoundary = BoundUs, wk_isolated = True, wk_createdAt = ''2026-01-15''\<rparr>,
     \<lparr>wk_id = ''ws-002'', wk_name = ''Sales'', wk_memberCount = 12, wk_connectorCount = 5, wk_activeRecipes = 15,
       wk_status = WkActive, wk_dataBoundary = BoundUs, wk_isolated = True, wk_createdAt = ''2026-01-20''\<rparr>,
     \<lparr>wk_id = ''ws-003'', wk_name = ''HR'', wk_memberCount = 6, wk_connectorCount = 3, wk_activeRecipes = 8, wk_status = WkActive,
       wk_dataBoundary = BoundEu, wk_isolated = True, wk_createdAt = ''2026-02-01''\<rparr>,
     \<lparr>wk_id = ''ws-004'', wk_name = ''Finance'', wk_memberCount = 4, wk_connectorCount = 4, wk_activeRecipes = 12,
       wk_status = WkActive, wk_dataBoundary = BoundUs, wk_isolated = True, wk_createdAt = ''2026-02-10''\<rparr>,
     \<lparr>wk_id = ''ws-005'', wk_name = ''Marketing'', wk_memberCount = 7, wk_connectorCount = 6, wk_activeRecipes = 18,
       wk_status = WkActive, wk_dataBoundary = BoundEu, wk_isolated = True, wk_createdAt = ''2026-02-15''\<rparr>,
     \<lparr>wk_id = ''ws-006'', wk_name = ''Support'', wk_memberCount = 0, wk_connectorCount = 0, wk_activeRecipes = 0,
       wk_status = WkProvisioning, wk_dataBoundary = BoundAp, wk_isolated = False, wk_createdAt = ''2026-03-30''\<rparr>]"

primrec boundaryLabel :: "data_boundary \<Rightarrow> jstr" where
  "boundaryLabel BoundUs = ''US''"
| "boundaryLabel BoundEu = ''EU''"
| "boundaryLabel BoundAp = ''APAC''"

definition click_workspace :: "admin_workspace \<Rightarrow> admin_workspace option \<Rightarrow> admin_workspace option" where
  "click_workspace w sel = select_row wk_id w sel"

definition isolation_cell :: "admin_workspace \<Rightarrow> jstr" where
  "isolation_cell w = (if wk_isolated w then ''Isolated'' else ''Pending'')"

definition workspace_panel :: "admin_workspace option \<Rightarrow> jstr list option" where
  "workspace_panel sel = map_option (\<lambda>w. [wk_name w @ '' '' @ u_mdash @ '' Detail'', boundaryLabel (wk_dataBoundary w) @ '' Region'',
     if wk_isolated w then ''Fully Isolated'' else ''Provisioning'', nat_str (wk_activeRecipes w), wk_createdAt w]) sel"

section \<open>Dashboard\<close>

record stat_card =
  sc_label :: jstr
  sc_value :: jstr
  sc_change :: jstr

definition STATS :: "stat_card list" where
  "STATS =
    [\<lparr>sc_label = ''Workspaces'', sc_value = ''12'', sc_change = ''+2 this month''\<rparr>,
     \<lparr>sc_label = ''Members'', sc_value = ''47'', sc_change = ''+5 this month''\<rparr>,
     \<lparr>sc_label = ''Active Recipes'', sc_value = ''83'', sc_change = ''6 pending approval''\<rparr>,
     \<lparr>sc_label = ''Connectors'', sc_value = ''28'', sc_change = ''2 degraded''\<rparr>]"

datatype service_status = SvcHealthy | SvcDegraded | SvcDown

definition SERVICE_STATUS :: "(jstr \<times> service_status) list" where
  "SERVICE_STATUS =
    [(''Gateway'', SvcHealthy),
     (''Scheduler'', SvcHealthy),
     (''Health Monitor'', SvcHealthy),
     (''Defense Service'', SvcHealthy),
     (''Research Service'', SvcDegraded),
     (''Optimizer'', SvcHealthy),
     (''Tenancy API'', SvcHealthy)]"

datatype security_result = SecBlocked | SecQuarantined

record security_event_row =
  se_id :: jstr
  se_action :: jstr
  se_agent :: jstr
  se_workspace :: jstr
  se_result :: security_result
  se_timestamp :: jstr

definition RECENT_SECURITY_EVENTS :: "security_event_row list" where
  "RECENT_SECURITY_EVENTS =
    [\<lparr>se_id = ''sec-001'', se_action = ''Attempted SSRF via research tool'', se_agent = ''researcher'',
       se_workspace = ''Engineering'', se_result = SecBlocked, se_timestamp = ''2026-04-01T14:32:00Z''\<rparr>,
     \<lparr>se_id = ''sec-002'', se_action = ''Prompt injection detected in email'', se_agent = ''router'', se_workspace = ''Sales'',
       se_result = SecBlocked, se_timestamp = ''2026-04-01T13:18:00Z''\<rparr>,
     \<lparr>se_id = ''sec-003'', se_action = ''Unauthorized cross-tenant data access'', se_agent = ''executor'', se_workspace = ''HR'',
       se_result = SecQuarantined, se_timestamp = ''2026-04-01T11:45:00Z''\<rparr>,
     \<lparr>se_id = ''sec-004'', se_action = ''Excessive API call rate from recipe'', se_agent = ''executor'',
       se_workspace = ''Engineering'', se_result = SecBlocked, se_timestamp = ''2026-04-01T10:22:00Z''\<rparr>,
     \<lparr>se_id = ''sec-005'', se_action = ''Suspicious file write attempt'', se_agent = ''executor'', se_workspace = ''Finance'',
       se_result = SecQuarantined, se_timestamp = ''2026-03-31T22:10:00Z''\<rparr>]"

section \<open>Tables and selections\<close>

lemma admin_navigation: "map fst ADMIN_NAV_ITEMS = map fst admin_routes" "distinct (map fst admin_routes)"
  by (simp_all add: ADMIN_NAV_ITEMS_def admin_routes_def)

interpretation trace_rows: row_selection tc_traceId TRACES
  by unfold_locales (simp add: TRACES_def)

interpretation squad_rows: row_selection as_id ACTIVE_SQUADS
  by unfold_locales (simp add: ACTIVE_SQUADS_def)

interpretation connector_rows: row_selection cx_id ADMIN_CONNECTORS
  by unfold_locales (simp add: ADMIN_CONNECTORS_def)

interpretation workspace_rows: row_selection wk_id WORKSPACES
  by unfold_locales (simp add: WORKSPACES_def)

text \<open>The panel of the Connectors page only ever shows a connector of the table, and shows its secret masked.\<close>

lemma connector_panel_masked:
  assumes "page_run (row_enabled ADMIN_CONNECTORS) (row_exec cx_id) evs None = Some (Some c)"
  shows "js_includes (cx_credentials c) ''****''"
proof -
  have "list_all (\<lambda>c. js_includes (cx_credentials c) ''****'') ADMIN_CONNECTORS" by (simp add: ADMIN_CONNECTORS_def)
  with connector_rows.selected_in_rows [OF assms] show ?thesis by (simp add: list_all_iff)
qed

section \<open>Filters\<close>

lemma views_partition_on:
  assumes "distinct cats" "\<forall>x \<in> set xs. cat x \<in> set cats"
  shows "mset (concat (map (\<lambda>c. filter (\<lambda>x. cat x = c) xs) cats)) = mset xs"
  using assms
proof (induction cats arbitrary: xs)
  case Nil
  then show ?case by (cases xs) auto
next
  case (Cons c cats)
  let ?rest = "filter (\<lambda>x. cat x \<noteq> c) xs"
  have same: "filter (\<lambda>x. cat x = c') xs = filter (\<lambda>x. cat x = c') ?rest" if "c' \<in> set cats" for c'
    using that Cons.prems(1) by (auto intro!: filter_cong)
  have "mset (concat (map (\<lambda>c'. filter (\<lambda>x. cat x = c') ?rest) cats)) = mset ?rest"
    using Cons.prems by (intro Cons.IH) auto
  then have "mset (concat (map (\<lambda>c'. filter (\<lambda>x. cat x = c') xs) cats)) = mset ?rest"
    using same by (metis (mono_tags, lifting) map_eq_conv)
  then show ?case by (simp add: union_filter_mset_complement)
qed

lemma event_type_value_inject: "event_type_value a = event_type_value b \<longleftrightarrow> a = b"
  by (cases a; cases b) simp_all

lemma event_type_value_not_all: "event_type_value a \<noteq> ''all''"
  by (cases a) simp_all

text \<open>A row passes the filters when it has the chosen type and workspace and its actor contains the text, in any
  case of letters.\<close>

lemma audit_event_shown_iff:
  "audit_event_shown s e \<longleftrightarrow> (al_filterType s = ''all'' \<or> event_type_value (adm_eventType e) = al_filterType s)
     \<and> (al_filterWorkspace s = ''all'' \<or> adm_workspace e = al_filterWorkspace s)
     \<and> js_includes (js_toLowerCase (adm_actor e)) (js_toLowerCase (al_filterActor s))"
  by (auto simp: audit_event_shown_def js_toLowerCase_def)

text \<open>The options of both selections split the log: each event is under exactly one of them.\<close>

lemma audit_type_options_partition:
  "mset (concat (map (\<lambda>t. admin_filteredEvents events (audit_log_init\<lparr>al_filterType := event_type_value t\<rparr>)) audit_event_types)) = mset events"
proof -
  have "adm_eventType e \<in> set audit_event_types" for e :: admin_event by (cases "adm_eventType e") (simp_all add: audit_event_types_def)
  moreover have "distinct audit_event_types" by (simp add: audit_event_types_def)
  moreover have "admin_filteredEvents events (audit_log_init\<lparr>al_filterType := event_type_value t\<rparr>) = filter (\<lambda>e. adm_eventType e = t) events" for t
    unfolding admin_filteredEvents_def
    by (intro filter_cong) (simp_all add: audit_event_shown_iff audit_log_init_def event_type_value_inject event_type_value_not_all js_toLowerCase_def)
  ultimately show ?thesis using views_partition_on [of audit_event_types events adm_eventType] by simp
qed

lemma audit_workspace_options_partition:
  assumes "''all'' \<notin> adm_workspace ` set events"
  shows "mset (concat (map (\<lambda>w. admin_filteredEvents events (audit_log_init\<lparr>al_filterWorkspace := w\<rparr>)) (audit_workspaces events))) = mset events"
proof -
  have "admin_filteredEvents events (audit_log_init\<lparr>al_filterWorkspace := w\<rparr>) = filter (\<lambda>e. adm_workspace e = w) events"
    if "w \<in> set (audit_workspaces events)" for w
    using that assms unfolding admin_filteredEvents_def
    by (intro filter_cong) (force simp: audit_event_shown_iff audit_log_init_def audit_workspaces_def js_toLowerCase_def)+
  then have "map (\<lambda>w. admin_filteredEvents events (audit_log_init\<lparr>al_filterWorkspace := w\<rparr>)) (audit_workspaces events)
      = map (\<lambda>w. filter (\<lambda>e. adm_workspace e = w) events) (audit_workspaces events)" by (rule map_cong [OF refl])
  moreover have "mset (concat (map (\<lambda>w. filter (\<lambda>e. adm_workspace e = w) events) (audit_workspaces events))) = mset events"
    by (rule views_partition_on) (simp_all add: audit_workspaces_def)
  ultimately show ?thesis by (simp only:)
qed

section \<open>Traces\<close>

text \<open>C38.
  The duration of a trace or span of a second or more is printed with two decimals that are the nearest ones:
  the printed time is within five milliseconds of the duration, although the division by 1000 is rounded to a
  double first.
\<close>

theorem formatDuration_nearest:
  assumes "1000 \<le> ms" "ms < 2 ^ 53"
  shows "\<exists>n. formatDuration ms = two_decimals n @ ''s'' \<and> \<bar>10 * int n - int ms\<bar> \<le> 5"
  using assms thousandths_near [OF assms] by (auto simp: formatDuration_def toFixed2_def)

lemma formatDuration_nearest_witness:
  "(\<exists>n. formatDuration 1005 = two_decimals n @ ''s'' \<and> \<bar>10 * int n - 1005\<bar> \<le> 5) \<and> formatDuration 1005 = ''1.00s''"
proof -
  have "formatDuration 1005 = ''1.00s''" by code_simp
  with formatDuration_nearest [of 1005] show ?thesis by simp
qed

definition span_within :: "trace \<Rightarrow> span \<Rightarrow> bool" where
  "span_within t sp \<longleftrightarrow> sp_startMs sp + sp_durationMs sp \<le> tc_durationMs t"

lemma trace_bars_fit:
  assumes "0 < tc_durationMs t" "span_within t sp"
  shows "0 \<le> leftPct t sp \<and> leftPct t sp \<le> 100 \<and> (widthPct t sp = 1 \<or> leftPct t sp + widthPct t sp \<le> 100)"
proof -
  let ?d = "of_nat (tc_durationMs t) :: rat"
  have d: "0 < ?d" using assms(1) by simp
  have le: "of_nat (sp_startMs sp) + of_nat (sp_durationMs sp) \<le> ?d"
    using assms(2) by (metis of_nat_add of_nat_le_iff span_within_def)
  then have "of_nat (sp_startMs sp) \<le> ?d" by (meson le_add_same_cancel1 of_nat_0_le_iff order_trans)
  then have "leftPct t sp \<le> 100" using d by (simp add: leftPct_def divide_simps)
  moreover have "leftPct t sp + of_nat (sp_durationMs sp) / ?d * 100 \<le> 100"
    using d le by (simp add: leftPct_def divide_simps)
  moreover have "0 \<le> leftPct t sp" by (simp add: leftPct_def)
  ultimately show ?thesis by (auto simp: widthPct_def max_def)
qed

text \<open>Every trace shown has the number of spans it says, all within its duration.\<close>

lemma traces_consistent: "list_all (\<lambda>t. 0 < tc_durationMs t \<and> tc_spanCount t = length (tc_spans t) \<and> list_all (span_within t) (tc_spans t)) TRACES"
  by (simp add: TRACES_def span_within_def)

text \<open>Whatever is filtered and clicked, the panel shows a trace of the table, so its bars fit, and the rows marked
  are those of the list that are it.\<close>

lemma trace_panel_consistent:
  assumes "page_run (traces_enabled TRACES) traces_exec evs traces_init = Some s" "tv_selectedTrace s = Some t" "sp \<in> set (tc_spans t)"
  shows "t \<in> set TRACES \<and> leftPct t sp \<le> 100 \<and> (widthPct t sp = 1 \<or> leftPct t sp + widthPct t sp \<le> 100)"
proof -
  have "set_option (tv_selectedTrace s) \<subseteq> set TRACES"
    by (rule page_run_invariant [OF assms(1)])
       (auto simp: traces_init_def traces_enabled_def click_trace_def select_row_def filteredTraces_def split: traces_event.splits if_splits)
  then have t: "t \<in> set TRACES" using assms(2) by simp
  then have "0 < tc_durationMs t" "span_within t sp"
    using traces_consistent assms(3) by (auto simp: list_all_iff)
  from trace_bars_fit [OF this] t show ?thesis by simp
qed

lemma audit_log_choices_offered:
  assumes "page_run (audit_log_enabled events) audit_log_exec evs audit_log_init = Some s"
  shows "al_filterType s \<in> set (''all'' # map event_type_value audit_event_types) \<and> al_filterWorkspace s \<in> set (''all'' # audit_workspaces events)"
  by (rule page_run_invariant [OF assms]) (auto simp: audit_log_init_def audit_log_enabled_def split: audit_log_event.splits)

text \<open>A filter does not close the panel: it can show a trace that is not in the list.\<close>

lemma filter_keeps_panel:
  "let s = (click_trace (TRACES ! 0) traces_init)\<lparr>tv_filterService := ''scheduler''\<rparr>
   in tv_selectedTrace s = Some (TRACES ! 0) \<and> TRACES ! 0 \<notin> set (filteredTraces TRACES s)"
  by (simp add: click_trace_def select_row_def traces_init_def filteredTraces_def trace_shown_def TRACES_def)

section \<open>Members, squads, policies and workspaces\<close>

lemma last_active_future: "v \<noteq> ''Never'' \<Longrightarrow> parse v = Some d \<Longrightarrow> MEMBERS_NOW < d + 1800000 \<Longrightarrow> formatLastActive parse v = ''Just now''"
proof -
  assume v: "v \<noteq> ''Never''" "parse v = Some d" and d: "MEMBERS_NOW < d + 1800000"
  have "(of_int (MEMBERS_NOW - d) :: rat) < of_int 1800000" using d by (simp only: of_int_less_iff)
  then have "js_round (of_int (MEMBERS_NOW - d) / 3600000) < 1"
    by (simp add: js_round_def floor_less_iff divide_simps)
  with v show ?thesis by (simp add: formatLastActive_def)
qed

lemma template_counts_add_up:
  assumes "distinct (map st_id tpls)" "\<forall>q \<in> set squads. as_templateId q \<in> st_id ` set tpls"
  shows "(\<Sum>t \<leftarrow> tpls. template_active_count squads t) = length squads"
proof -
  have "mset (concat (map (\<lambda>c. filter (\<lambda>q. as_templateId q = c) squads) (map st_id tpls))) = mset squads"
    using assms by (intro views_partition_on) auto
  then have "length (concat (map (\<lambda>c. filter (\<lambda>q. as_templateId q = c) squads) (map st_id tpls))) = length squads"
    by (metis size_mset)
  then show ?thesis by (simp add: length_concat template_active_count_def count_where_def comp_def)
qed

lemma squad_templates_known:
  "distinct (map st_id SQUAD_TEMPLATES)" "\<forall>q \<in> set ACTIVE_SQUADS. as_templateId q \<in> st_id ` set SQUAD_TEMPLATES"
  by (simp_all add: SQUAD_TEMPLATES_def ACTIVE_SQUADS_def)

lemma squad_name_differs:
  "\<exists>q \<in> set ACTIVE_SQUADS. \<exists>t \<in> set SQUAD_TEMPLATES. as_templateId q = st_id t \<and> as_templateName q \<noteq> st_name t"
  by (simp add: SQUAD_TEMPLATES_def ACTIVE_SQUADS_def)

lemma policy_tables_complete:
  "set LAYER_ORDER = UNIV" "distinct LAYER_ORDER" "set AGENT_ROLES = UNIV" "distinct AGENT_ROLES" "set CAPABILITIES = UNIV"
proof -
  show "set LAYER_ORDER = UNIV" using policy_layer.exhaust by (auto simp: LAYER_ORDER_def)
  show "set AGENT_ROLES = UNIV" using agent_role.exhaust by (auto simp: AGENT_ROLES_def)
  show "set CAPABILITIES = UNIV" using capability.exhaust by (auto simp: CAPABILITIES_def)
qed (simp_all add: LAYER_ORDER_def AGENT_ROLES_def)

text \<open>Separation of duties in the permission matrix: whoever approves on their own neither writes nor executes,
  and nobody deletes without approval.\<close>

lemma permission_matrix_duties:
  "PERMISSION_MATRIX r CapApprove = EffAllow \<Longrightarrow> PERMISSION_MATRIX r CapWrite = EffDeny \<and> PERMISSION_MATRIX r CapExecute = EffDeny"
  "PERMISSION_MATRIX r CapDelete \<noteq> EffAllow" "PERMISSION_MATRIX r CapRead = EffAllow"
  by (cases r; simp)+

lemma active_workspaces_isolated: "list_all (\<lambda>w. wk_status w = WkActive \<longrightarrow> wk_isolated w) WORKSPACES"
  by (simp add: WORKSPACES_def)

text \<open>The dashboard's member count is the sum over the workspaces, its number of workspaces is not theirs.\<close>

lemma dashboard_counts:
  "sc_value (STATS ! 1) = nat_str (\<Sum>w \<leftarrow> WORKSPACES. wk_memberCount w)" "sc_value (STATS ! 0) \<noteq> nat_str (length WORKSPACES)"
  by code_simp+

end
