(* ===== verification/Await_Page.thy ===== *)
theory Await_Page
  imports Prelude
begin

text \<open>
  The machine the pages of \<open>apps/web/src/pages\<close> share: an effect that starts one load when the page is mounted
  and drops its outcome once its \<open>cancelled\<close> flag is set, click handlers that send a call and go on after its
  \<open>await\<close>, local updates, and the unmount.  Promises settle in any order.  An update of the state of a component
  that is no longer mounted has no effect.

  A page provides what its load does to its state (\<open>on_load\<close>), what the rest of a handler does once its call has
  settled (\<open>on_settle\<close>), its local updates (\<open>on_local\<close>) and which buttons it shows (\<open>clickable\<close>).  The locale
  \<open>loaded_page\<close> states the contract they have to keep, and what follows for every run.
\<close>

section \<open>The machine\<close>

record ('s, 'c) await_page =
  aw_state :: 's
  aw_cancelled :: bool
  aw_waiting :: bool
  aw_calls :: "'c list"

datatype ('r, 'c, 'b, 'u) await_event =
    LoadSettled 'r | Click 'c | CallSettled nat 'b | Local 'u | PageUnmount

definition await_start :: "'s \<Rightarrow> ('s, 'c) await_page" where
  "await_start s = \<lparr>aw_state = s, aw_cancelled = False, aw_waiting = True, aw_calls = []\<rparr>"

definition set_state :: "('s \<Rightarrow> 's) \<Rightarrow> ('s, 'c) await_page \<Rightarrow> ('s, 'c) await_page" where
  "set_state f p = (if aw_cancelled p then p else p\<lparr>aw_state := f (aw_state p)\<rparr>)"

fun await_enabled ::
  "('c \<Rightarrow> 's \<Rightarrow> bool) \<Rightarrow> ('u \<Rightarrow> 's \<Rightarrow> bool) \<Rightarrow> ('r, 'c, 'b, 'u) await_event \<Rightarrow> ('s, 'c) await_page \<Rightarrow> bool" where
  "await_enabled clickable local_ok (LoadSettled r) p = aw_waiting p"
| "await_enabled clickable local_ok (Click c) p = (\<not> aw_cancelled p \<and> clickable c (aw_state p))"
| "await_enabled clickable local_ok (CallSettled k b) p = (k < length (aw_calls p))"
| "await_enabled clickable local_ok (Local u) p = (\<not> aw_cancelled p \<and> local_ok u (aw_state p))"
| "await_enabled clickable local_ok PageUnmount p = (\<not> aw_cancelled p)"

fun await_exec ::
  "('r \<Rightarrow> 's \<Rightarrow> 's) \<Rightarrow> ('c \<Rightarrow> 'b \<Rightarrow> 's \<Rightarrow> 's) \<Rightarrow> ('u \<Rightarrow> 's \<Rightarrow> 's) \<Rightarrow> ('r, 'c, 'b, 'u) await_event
   \<Rightarrow> ('s, 'c) await_page \<Rightarrow> ('s, 'c) await_page" where
  "await_exec on_load on_settle on_local (LoadSettled r) p = set_state (on_load r) (p\<lparr>aw_waiting := False\<rparr>)"
| "await_exec on_load on_settle on_local (Click c) p = p\<lparr>aw_calls := aw_calls p @ [c]\<rparr>"
| "await_exec on_load on_settle on_local (CallSettled k b) p =
     set_state (on_settle (aw_calls p ! k) b) (p\<lparr>aw_calls := take k (aw_calls p) @ drop (Suc k) (aw_calls p)\<rparr>)"
| "await_exec on_load on_settle on_local (Local u) p = set_state (on_local u) p"
| "await_exec on_load on_settle on_local PageUnmount p = p\<lparr>aw_cancelled := True\<rparr>"

text \<open>What a run did: the outcome of its load, the calls it sent, and the calls that settled with their answers.\<close>

fun load_outcome :: "('r, 'c, 'b, 'u) await_event list \<Rightarrow> 'r option" where
  "load_outcome [] = None"
| "load_outcome (LoadSettled r # evs) = Some r"
| "load_outcome (_ # evs) = load_outcome evs"

fun sent_calls :: "('r, 'c, 'b, 'u) await_event list \<Rightarrow> 'c list" where
  "sent_calls [] = []"
| "sent_calls (Click c # evs) = c # sent_calls evs"
| "sent_calls (_ # evs) = sent_calls evs"

fun calls_after :: "('r, 'c, 'b, 'u) await_event \<Rightarrow> 'c list \<Rightarrow> 'c list" where
  "calls_after (Click c) cs = cs @ [c]"
| "calls_after (CallSettled k b) cs = take k cs @ drop (Suc k) cs"
| "calls_after _ cs = cs"

fun settled_calls :: "('r, 'c, 'b, 'u) await_event list \<Rightarrow> 'c list \<Rightarrow> ('c \<times> 'b) list" where
  "settled_calls [] cs = []"
| "settled_calls (ev # evs) cs =
     (case ev of CallSettled k b \<Rightarrow> [(cs ! k, b)] | _ \<Rightarrow> []) @ settled_calls evs (calls_after ev cs)"

lemma set_state_simps [simp]:
  "aw_cancelled (set_state f p) = aw_cancelled p" "aw_waiting (set_state f p) = aw_waiting p"
  "aw_calls (set_state f p) = aw_calls p"
  "aw_state (set_state f p) = (if aw_cancelled p then aw_state p else f (aw_state p))"
  by (simp_all add: set_state_def)

lemma calls_exec [simp]: "aw_calls (await_exec l s u ev p) = calls_after ev (aw_calls p)"
  by (cases ev) simp_all

lemma cancelled_exec [simp]: "aw_cancelled (await_exec l s u ev p) \<longleftrightarrow> aw_cancelled p \<or> ev = PageUnmount"
  by (cases ev) auto

lemma cancelled_run: "page_run en (await_exec l s u) evs p = Some q \<Longrightarrow> aw_cancelled p \<Longrightarrow> aw_cancelled q"
  by (induction evs arbitrary: p) (auto split: if_splits)

lemma stays_settled: "page_run en (await_exec l s u) evs p = Some q \<Longrightarrow> \<not> aw_waiting p \<Longrightarrow> \<not> aw_waiting q"
proof (induction evs arbitrary: p)
  case (Cons ev evs)
  have "\<not> aw_waiting (await_exec l s u ev p)" using Cons.prems(2) by (cases ev) auto
  then show ?case using Cons by (auto split: if_splits)
qed simp

lemma mset_remove_nth: "k < length cs \<Longrightarrow> mset cs = add_mset (cs ! k) (mset (take k cs @ drop (Suc k) cs))"
  by (metis id_take_nth_drop mset_append mset.simps(2) union_mset_add_mset_right)

text \<open>Every click sends one call, and every call sent is settled once or still awaited.\<close>

lemma calls_conserved:
  assumes "page_run (await_enabled cl lo) (await_exec l s u) evs p = Some q"
  shows "mset (aw_calls p) + mset (sent_calls evs) = mset (map fst (settled_calls evs (aw_calls p))) + mset (aw_calls q)"
  using assms
proof (induction evs arbitrary: p)
  case (Cons ev evs)
  let ?p = "await_exec l s u ev p"
  from Cons.prems have en: "await_enabled cl lo ev p" and run: "page_run (await_enabled cl lo) (await_exec l s u) evs ?p = Some q"
    by (auto split: if_splits)
  from Cons.IH [OF run] show ?case using en by (cases ev) (auto simp: mset_remove_nth)
qed simp

lemma sent_call_click:
  assumes "page_run (await_enabled cl lo) (await_exec l s u) evs p = Some q" "c \<in> set (sent_calls evs)"
  shows "\<exists>us vs r. evs = us @ Click c # vs \<and> page_run (await_enabled cl lo) (await_exec l s u) us p = Some r
    \<and> \<not> aw_cancelled r \<and> cl c (aw_state r)"
proof -
  from assms(2) have "Click c \<in> set evs" by (induction evs rule: sent_calls.induct) auto
  then obtain us vs where evs: "evs = us @ Click c # vs" by (meson split_list)
  with assms(1) show ?thesis by (auto simp: page_run_append split: bind_splits if_splits)
qed

section \<open>The contract of a page that loads its content\<close>

locale loaded_page =
  fixes init :: 's and content :: "'s \<Rightarrow> 'a" and is_loading :: "'s \<Rightarrow> bool"
    and on_load :: "'r \<Rightarrow> 's \<Rightarrow> 's" and on_settle :: "'c \<Rightarrow> 'b \<Rightarrow> 's \<Rightarrow> 's" and on_local :: "'u \<Rightarrow> 's \<Rightarrow> 's"
    and clickable :: "'c \<Rightarrow> 's \<Rightarrow> bool" and local_ok :: "'u \<Rightarrow> 's \<Rightarrow> bool"
    and loaded :: "'r \<Rightarrow> 'a" and answer :: "'c \<times> 'b \<Rightarrow> 'a \<Rightarrow> 'a"
  assumes init_loading: "is_loading init"
    and load_content: "content s = content init \<Longrightarrow> content (on_load r s) = loaded r"
    and load_done: "\<not> is_loading (on_load r s)"
    and settle_content: "content (on_settle c b s) = answer (c, b) (content s)"
    and settle_loading: "is_loading (on_settle c b s) = is_loading s"
    and local_content: "content (on_local u s) = content s"
    and local_loading: "is_loading (on_local u s) = is_loading s"
    and click_loaded: "clickable c s \<Longrightarrow> \<not> is_loading s"
begin

lemma loaded_run:
  assumes "page_run (await_enabled clickable local_ok) (await_exec on_load on_settle on_local) evs p = Some q"
    and "\<not> aw_waiting p" "\<not> aw_cancelled q"
  shows "content (aw_state q) = fold answer (settled_calls evs (aw_calls p)) (content (aw_state p))
    \<and> is_loading (aw_state q) = is_loading (aw_state p)"
  using assms
proof (induction evs arbitrary: p)
  case (Cons ev evs)
  let ?p = "await_exec on_load on_settle on_local ev p"
  from Cons.prems(1) have en: "await_enabled clickable local_ok ev p"
    and run: "page_run (await_enabled clickable local_ok) (await_exec on_load on_settle on_local) evs ?p = Some q"
    by (auto split: if_splits)
  have nc: "\<not> aw_cancelled p" "ev \<noteq> PageUnmount" using cancelled_run [OF run] Cons.prems(3) by auto
  have nw: "\<not> aw_waiting ?p" using Cons.prems(2) by (cases ev) auto
  from Cons.IH [OF run nw Cons.prems(3)] show ?case using en nc Cons.prems(2)
    by (cases ev) (auto simp: settle_content settle_loading local_content local_loading)
qed simp

lemma waiting_then_loaded:
  assumes "page_run (await_enabled clickable local_ok) (await_exec on_load on_settle on_local) evs p = Some q"
    and "aw_waiting p" "aw_calls p = []" "content (aw_state p) = content init" "is_loading (aw_state p)" "\<not> aw_cancelled q"
  shows "if aw_waiting q then is_loading (aw_state q) \<and> content (aw_state q) = content init \<and> aw_calls q = []
           \<and> load_outcome evs = None
         else \<exists>r. load_outcome evs = Some r \<and> \<not> is_loading (aw_state q)
           \<and> content (aw_state q) = fold answer (settled_calls evs []) (loaded r)"
  using assms
proof (induction evs arbitrary: p)
  case (Cons ev evs)
  let ?p = "await_exec on_load on_settle on_local ev p"
  from Cons.prems(1) have en: "await_enabled clickable local_ok ev p"
    and run: "page_run (await_enabled clickable local_ok) (await_exec on_load on_settle on_local) evs ?p = Some q"
    by (auto split: if_splits)
  have nc: "\<not> aw_cancelled p" "ev \<noteq> PageUnmount" using cancelled_run [OF run] Cons.prems(6) by auto
  show ?case
  proof (cases ev)
    case (LoadSettled r)
    then have "\<not> aw_waiting ?p" by simp
    from loaded_run [OF run this Cons.prems(6)] stays_settled [OF run this] Cons.prems nc LoadSettled
    show ?thesis by (auto simp: load_content load_done)
  next
    case (Local u)
    then show ?thesis using Cons.IH [OF run] Cons.prems nc by (simp add: local_content local_loading)
  qed (use en nc Cons.prems click_loaded in auto)
qed simp

text \<open>While the load is out the page shows its spinner and no button of its content can be clicked; afterwards
  its content is what was loaded, changed by the answers to its calls in the order in which they settled.\<close>

lemma content_of_run:
  assumes "page_run (await_enabled clickable local_ok) (await_exec on_load on_settle on_local) evs (await_start init) = Some q"
    and "\<not> aw_cancelled q"
  shows "is_loading (aw_state q) \<longleftrightarrow> aw_waiting q"
    and "\<not> is_loading (aw_state q) \<Longrightarrow> \<exists>r. load_outcome evs = Some r \<and> content (aw_state q) = fold answer (settled_calls evs []) (loaded r)"
  using waiting_then_loaded [OF assms(1)] assms(2) by (auto simp: await_start_def init_loading split: if_splits)

lemma clicks_conserved:
  assumes "page_run (await_enabled clickable local_ok) (await_exec on_load on_settle on_local) evs (await_start init) = Some q"
  shows "mset (sent_calls evs) = mset (map fst (settled_calls evs [])) + mset (aw_calls q)"
  using calls_conserved [OF assms] by (simp add: await_start_def)

end

end
