(* ===== verification/Api_Client.thy ===== *)
theory Api_Client
  imports Prelude
begin

text \<open>
  The gateway client (\<open>apps/web/src/lib/api.ts\<close>): configuration, the HTTP helper with its error
  paths, pagination queries, the domain endpoints, and the v2 namespace that serves fixtures or calls
  the gateway per route.  The network is a parameter \<open>fetch\<close>: it takes a state of the outside world
  and a request and gives the outcome and the next state, so "no request is sent" is "the world is
  unchanged" for every \<open>fetch\<close>.  The fixtures and the build environment are parameters as well.  Page
  numbers are integers (below \<open>10^21\<close> in absolute value, where \<open>String\<close> prints all digits).
\<close>

section \<open>JSON values\<close>

datatype json = JNull | JBool bool | JNum int | JStr jstr | JArr "json list" | JObj "(jstr \<times> json) list"

definition hex_digit :: "nat \<Rightarrow> char" where
  "hex_digit n = (if n < 10 then char_of (48 + n) else char_of (87 + n))"

definition json_escape :: "char \<Rightarrow> jstr" where
  "json_escape c = (let n = of_char c :: nat in
     if n = 34 then [CHR 0x5C, CHR 0x22] else if n = 92 then [CHR 0x5C, CHR 0x5C]
     else if n = 8 then [CHR 0x5C, CHR ''b''] else if n = 9 then [CHR 0x5C, CHR ''t'']
     else if n = 10 then [CHR 0x5C, CHR ''n''] else if n = 12 then [CHR 0x5C, CHR ''f'']
     else if n = 13 then [CHR 0x5C, CHR ''r'']
     else if n < 32 then [CHR 0x5C, CHR ''u'', CHR ''0'', CHR ''0'', hex_digit (n div 16), hex_digit (n mod 16)]
     else [c])"

definition json_string :: "jstr \<Rightarrow> jstr" where
  "json_string s = [CHR 0x22] @ concat (map json_escape s) @ [CHR 0x22]"

fun stringify :: "json \<Rightarrow> jstr" and stringify_items :: "json list \<Rightarrow> jstr list"
  and stringify_fields :: "(jstr \<times> json) list \<Rightarrow> jstr list" where
  "stringify JNull = ''null''"
| "stringify (JBool b) = (if b then ''true'' else ''false'')"
| "stringify (JNum n) = int_str n"
| "stringify (JStr s) = json_string s"
| "stringify (JArr xs) = ''['' @ js_join '','' (stringify_items xs) @ '']''"
| "stringify (JObj kvs) = ''{'' @ js_join '','' (stringify_fields kvs) @ ''}''"
| "stringify_items [] = []"
| "stringify_items (x # xs) = stringify x # stringify_items xs"
| "stringify_fields [] = []"
| "stringify_fields ((k, v) # kvs) = (json_string k @ '':'' @ stringify v) # stringify_fields kvs"

definition truthy :: "json option \<Rightarrow> bool" where
  "truthy b = (case b of None \<Rightarrow> False | Some JNull \<Rightarrow> False | Some (JBool v) \<Rightarrow> v | Some (JNum n) \<Rightarrow> n \<noteq> 0
     | Some (JStr s) \<Rightarrow> s \<noteq> [] | Some _ \<Rightarrow> True)"

section \<open>Configuration and the HTTP helper\<close>

definition DEFAULT_BASE_URL :: jstr where
  "DEFAULT_BASE_URL = ''/api/v1''"

record api_config =
  baseUrl :: jstr
  token :: "jstr option"
  workspaceId :: "jstr option"

definition initial_config :: api_config where
  "initial_config = \<lparr>baseUrl = DEFAULT_BASE_URL, token = None, workspaceId = None\<rparr>"

record partial_api_config =
  p_baseUrl :: "jstr option"
  p_token :: "jstr option option"
  p_workspaceId :: "jstr option option"

definition configure :: "partial_api_config \<Rightarrow> api_config \<Rightarrow> api_config" where
  "configure opts c =
     \<lparr>baseUrl = (case p_baseUrl opts of None \<Rightarrow> baseUrl c | Some v \<Rightarrow> v),
      token = (case p_token opts of None \<Rightarrow> token c | Some v \<Rightarrow> v),
      workspaceId = (case p_workspaceId opts of None \<Rightarrow> workspaceId c | Some v \<Rightarrow> v)\<rparr>"

record http_request =
  req_method :: jstr
  req_url :: jstr
  req_headers :: "(jstr \<times> jstr) list"
  req_body :: "jstr option"

text \<open>A response whose body is not JSON has no \<open>res_json\<close>.\<close>

record http_response =
  res_status :: nat
  res_statusText :: jstr
  res_json :: "json option"

datatype fetch_outcome = NetworkFailure jstr | Response http_response

datatype api_failure = ApiError nat jstr "json option" | FetchFailed jstr | BodyNotJson | TypeErr

definition api_error_message :: "nat \<Rightarrow> jstr \<Rightarrow> jstr" where
  "api_error_message st txt = ''API '' @ nat_str st @ '': '' @ txt"

definition res_ok :: "http_response \<Rightarrow> bool" where
  "res_ok r \<longleftrightarrow> 200 \<le> res_status r \<and> res_status r \<le> 299"

definition non_empty :: "jstr option \<Rightarrow> bool" where
  "non_empty s \<longleftrightarrow> s \<noteq> None \<and> s \<noteq> Some []"

definition request_headers :: "api_config \<Rightarrow> (jstr \<times> jstr) list" where
  "request_headers c =
     [(''Content-Type'', ''application/json''), (''Accept'', ''application/json'')]
     @ (if non_empty (token c) then [(''Authorization'', ''Bearer '' @ the (token c))] else [])
     @ (if non_empty (workspaceId c) then [(''X-Workspace-Id'', the (workspaceId c))] else [])"

definition build_request :: "api_config \<Rightarrow> jstr \<Rightarrow> jstr \<Rightarrow> json option \<Rightarrow> http_request" where
  "build_request c meth path body =
     \<lparr>req_method = meth, req_url = baseUrl c @ path, req_headers = request_headers c,
      req_body = (if truthy body then map_option stringify body else None)\<rparr>"

definition handle_response :: "fetch_outcome \<Rightarrow> api_failure + json option" where
  "handle_response oc =
     (case oc of
        NetworkFailure m \<Rightarrow> Inl (FetchFailed m)
      | Response r \<Rightarrow>
          if \<not> res_ok r then Inl (ApiError (res_status r) (res_statusText r) (res_json r))
          else if res_status r = 204 then Inr None
          else (case res_json r of None \<Rightarrow> Inl BodyNotJson | Some j \<Rightarrow> Inr (Some j)))"

type_synonym 'w fetch = "'w \<Rightarrow> http_request \<Rightarrow> fetch_outcome \<times> 'w"

definition request ::
  "api_config \<Rightarrow> 'w fetch \<Rightarrow> jstr \<Rightarrow> jstr \<Rightarrow> json option \<Rightarrow> 'w \<Rightarrow> (api_failure + json option) \<times> 'w" where
  "request c fetch meth path body w =
     (case fetch w (build_request c meth path body) of (oc, w') \<Rightarrow> (handle_response oc, w'))"

definition api_get :: "api_config \<Rightarrow> 'w fetch \<Rightarrow> jstr \<Rightarrow> 'w \<Rightarrow> (api_failure + json option) \<times> 'w" where
  "api_get c fetch path = request c fetch ''GET'' path None"

definition api_post :: "api_config \<Rightarrow> 'w fetch \<Rightarrow> jstr \<Rightarrow> json option \<Rightarrow> 'w \<Rightarrow> (api_failure + json option) \<times> 'w" where
  "api_post c fetch path body = request c fetch ''POST'' path body"

section \<open>Pagination\<close>

record 'i paginated_response =
  items :: "'i list"
  pg_total :: int
  pg_page :: int
  pg_pageSize :: int

record pagination_params =
  page :: "int option"
  pageSize :: "int option"

definition query_pairs :: "pagination_params \<Rightarrow> jstr list" where
  "query_pairs p =
     (case page p of None \<Rightarrow> [] | Some n \<Rightarrow> [''page='' @ int_str n])
     @ (case pageSize p of None \<Rightarrow> [] | Some n \<Rightarrow> [''page_size='' @ int_str n])"

definition paginationQuery :: "pagination_params option \<Rightarrow> jstr" where
  "paginationQuery p =
     (case p of None \<Rightarrow> []
      | Some q \<Rightarrow> (let qs = js_join ''&'' (query_pairs q) in if qs = [] then [] else ''?'' @ qs))"

section \<open>Domain endpoints\<close>

datatype endpoint =
    HealthGetStatus | HealthGetTimeline "pagination_params option"
  | PlansList "pagination_params option" | PlansGet jstr | PlansPause jstr | PlansResume jstr | PlansRollback jstr
  | RecipesList "pagination_params option" | RecipesGet jstr | RecipesActivate jstr | RecipesDeactivate jstr
  | SquadsList | SquadsGet jstr
  | ApprovalsListPending "pagination_params option" | ApprovalsApprove jstr | ApprovalsDeny jstr "jstr option"
  | ResearchListTopics "pagination_params option" | ResearchGetTopic jstr | ResearchRefresh jstr
  | MemoryList "pagination_params option" | MemoryGet jstr | MemoryGetConnections jstr
  | SecurityGetBlockedActions "pagination_params option" | SecurityGetQuarantinedItems "pagination_params option"
  | SecurityGetPolicyCoverage
  | EventsList "pagination_params option" "jstr option" | EventsGet jstr

definition kind_query :: "pagination_params option \<Rightarrow> jstr option \<Rightarrow> jstr" where
  "kind_query p kind =
     (let base = paginationQuery p; sep = (if base \<noteq> [] then ''&'' else ''?'')
      in base @ (if non_empty kind then sep @ ''kind='' @ the kind else []))"

fun endpoint_call :: "endpoint \<Rightarrow> jstr \<times> jstr \<times> json option" where
  "endpoint_call HealthGetStatus = (''GET'', ''/health/status'', None)"
| "endpoint_call (HealthGetTimeline p) = (''GET'', ''/health/timeline'' @ paginationQuery p, None)"
| "endpoint_call (PlansList p) = (''GET'', ''/plans'' @ paginationQuery p, None)"
| "endpoint_call (PlansGet i) = (''GET'', ''/plans/'' @ i, None)"
| "endpoint_call (PlansPause i) = (''POST'', ''/plans/'' @ i @ ''/pause'', None)"
| "endpoint_call (PlansResume i) = (''POST'', ''/plans/'' @ i @ ''/resume'', None)"
| "endpoint_call (PlansRollback i) = (''POST'', ''/plans/'' @ i @ ''/rollback'', None)"
| "endpoint_call (RecipesList p) = (''GET'', ''/recipes'' @ paginationQuery p, None)"
| "endpoint_call (RecipesGet i) = (''GET'', ''/recipes/'' @ i, None)"
| "endpoint_call (RecipesActivate i) = (''POST'', ''/recipes/'' @ i @ ''/activate'', None)"
| "endpoint_call (RecipesDeactivate i) = (''POST'', ''/recipes/'' @ i @ ''/deactivate'', None)"
| "endpoint_call SquadsList = (''GET'', ''/squads'', None)"
| "endpoint_call (SquadsGet i) = (''GET'', ''/squads/'' @ i, None)"
| "endpoint_call (ApprovalsListPending p) = (''GET'', ''/approvals/pending'' @ paginationQuery p, None)"
| "endpoint_call (ApprovalsApprove i) = (''POST'', ''/approvals/'' @ i @ ''/approve'', None)"
| "endpoint_call (ApprovalsDeny i reason) =
     (''POST'', ''/approvals/'' @ i @ ''/deny'',
      if non_empty reason then Some (JObj [(''reason'', JStr (the reason))]) else None)"
| "endpoint_call (ResearchListTopics p) = (''GET'', ''/research/topics'' @ paginationQuery p, None)"
| "endpoint_call (ResearchGetTopic i) = (''GET'', ''/research/topics/'' @ i, None)"
| "endpoint_call (ResearchRefresh i) = (''POST'', ''/research/topics/'' @ i @ ''/refresh'', None)"
| "endpoint_call (MemoryList p) = (''GET'', ''/memory'' @ paginationQuery p, None)"
| "endpoint_call (MemoryGet i) = (''GET'', ''/memory/'' @ i, None)"
| "endpoint_call (MemoryGetConnections i) = (''GET'', ''/memory/'' @ i @ ''/connections'', None)"
| "endpoint_call (SecurityGetBlockedActions p) = (''GET'', ''/security/blocked'' @ paginationQuery p, None)"
| "endpoint_call (SecurityGetQuarantinedItems p) = (''GET'', ''/security/quarantined'' @ paginationQuery p, None)"
| "endpoint_call SecurityGetPolicyCoverage = (''GET'', ''/security/policy-coverage'', None)"
| "endpoint_call (EventsList p kind) = (''GET'', ''/events'' @ kind_query p kind, None)"
| "endpoint_call (EventsGet i) = (''GET'', ''/events/'' @ i, None)"

definition call_endpoint :: "api_config \<Rightarrow> 'w fetch \<Rightarrow> endpoint \<Rightarrow> 'w \<Rightarrow> (api_failure + json option) \<times> 'w" where
  "call_endpoint c fetch e w = (case endpoint_call e of (meth, path, body) \<Rightarrow> request c fetch meth path body w)"

section \<open>The v2 namespace\<close>

datatype v2_route =
    RHome | RInbox | RRecipes | RResearch | RMemory | RHealth | RSecurity | RSettings | RCommitments | RAudit

primrec route_name :: "v2_route \<Rightarrow> jstr" where
  "route_name RHome = ''home''"
| "route_name RInbox = ''inbox''"
| "route_name RRecipes = ''recipes''"
| "route_name RResearch = ''research''"
| "route_name RMemory = ''memory''"
| "route_name RHealth = ''health''"
| "route_name RSecurity = ''security''"
| "route_name RSettings = ''settings''"
| "route_name RCommitments = ''commitments''"
| "route_name RAudit = ''audit''"

type_synonym vite_env = "jstr \<Rightarrow> jstr option"

definition mode_var :: "v2_route \<Rightarrow> jstr" where
  "mode_var r = ''VITE_API_MODE_'' @ js_toUpperCase (route_name r)"

definition isRealForRoute :: "vite_env \<Rightarrow> v2_route \<Rightarrow> bool" where
  "isRealForRoute env route =
     (let perRoute = env (mode_var route) in
      if perRoute = Some ''real'' then True
      else if perRoute = Some ''mock'' then False
      else env ''VITE_API_MODE'' = Some ''real'')"

text \<open>\<open>envelope.items\<close>: reading a property of \<open>undefined\<close> or \<open>null\<close> throws, a missing one is
  \<open>undefined\<close>.\<close>

definition unwrap_items :: "json option \<Rightarrow> api_failure + json option" where
  "unwrap_items envelope =
     (case envelope of None \<Rightarrow> Inl TypeErr | Some JNull \<Rightarrow> Inl TypeErr
      | Some (JObj kvs) \<Rightarrow> Inr (map_of (rev kvs) ''items'') | Some _ \<Rightarrow> Inr None)"

definition and_then :: "(api_failure + json option) \<times> 'w \<Rightarrow> (json option \<Rightarrow> api_failure + json option) \<Rightarrow> (api_failure + json option) \<times> 'w" where
  "and_then r f = (case r of (Inl e, w) \<Rightarrow> (Inl e, w) | (Inr v, w) \<Rightarrow> (f v, w))"

datatype v2_op =
    HomeLoad | InboxList | RecipesV2List | ResearchLoad | MemoryV2List | HealthLoad | SecurityLoad | SettingsLoad
  | CommitmentsList | CommitmentsDismiss jstr | CommitmentsSnooze jstr int | AuditFindings

fun v2_call ::
  "vite_env \<Rightarrow> (v2_route \<Rightarrow> json) \<Rightarrow> api_config \<Rightarrow> 'w fetch \<Rightarrow> v2_op \<Rightarrow> 'w \<Rightarrow> (api_failure + json option) \<times> 'w" where
  "v2_call env mock c fetch HomeLoad w =
     (if \<not> isRealForRoute env RHome then (Inr (Some (mock RHome)), w) else api_get c fetch ''/home'' w)"
| "v2_call env mock c fetch InboxList w =
     (if \<not> isRealForRoute env RInbox then (Inr (Some (mock RInbox)), w)
      else and_then (api_get c fetch ''/inbox'' w) unwrap_items)"
| "v2_call env mock c fetch RecipesV2List w =
     (if \<not> isRealForRoute env RRecipes then (Inr (Some (mock RRecipes)), w) else api_get c fetch ''/v2/recipes'' w)"
| "v2_call env mock c fetch ResearchLoad w =
     (if \<not> isRealForRoute env RResearch then (Inr (Some (mock RResearch)), w) else api_get c fetch ''/v2/research'' w)"
| "v2_call env mock c fetch MemoryV2List w =
     (if \<not> isRealForRoute env RMemory then (Inr (Some (mock RMemory)), w) else api_get c fetch ''/v2/memory'' w)"
| "v2_call env mock c fetch HealthLoad w =
     (if \<not> isRealForRoute env RHealth then (Inr (Some (mock RHealth)), w) else api_get c fetch ''/health/status'' w)"
| "v2_call env mock c fetch SecurityLoad w =
     (if \<not> isRealForRoute env RSecurity then (Inr (Some (mock RSecurity)), w) else api_get c fetch ''/v2/security'' w)"
| "v2_call env mock c fetch SettingsLoad w =
     (if \<not> isRealForRoute env RSettings then (Inr (Some (mock RSettings)), w) else api_get c fetch ''/v2/settings'' w)"
| "v2_call env mock c fetch CommitmentsList w =
     (if \<not> isRealForRoute env RCommitments then (Inr (Some (mock RCommitments)), w)
      else and_then (api_get c fetch ''/v2/commitments'' w) unwrap_items)"
| "v2_call env mock c fetch (CommitmentsDismiss i) w =
     (if \<not> isRealForRoute env RCommitments then (Inr None, w)
      else and_then (api_post c fetch (''/v2/commitments/'' @ i @ ''/dismiss'') (Some (JObj [])) w) (\<lambda>_. Inr None))"
| "v2_call env mock c fetch (CommitmentsSnooze i untilMs) w =
     (if \<not> isRealForRoute env RCommitments then (Inr None, w)
      else and_then (api_post c fetch (''/v2/commitments/'' @ i @ ''/snooze'')
             (Some (JObj [(''until_ms'', JNum untilMs)])) w) (\<lambda>_. Inr None))"
| "v2_call env mock c fetch AuditFindings w =
     (if \<not> isRealForRoute env RAudit then (Inr (Some (mock RAudit)), w)
      else and_then (api_get c fetch ''/v2/audit/findings'' w) unwrap_items)"


section \<open>Mock and real routes\<close>

primrec op_route :: "v2_op \<Rightarrow> v2_route" where
  "op_route HomeLoad = RHome"
| "op_route InboxList = RInbox"
| "op_route RecipesV2List = RRecipes"
| "op_route ResearchLoad = RResearch"
| "op_route MemoryV2List = RMemory"
| "op_route HealthLoad = RHealth"
| "op_route SecurityLoad = RSecurity"
| "op_route SettingsLoad = RSettings"
| "op_route CommitmentsList = RCommitments"
| "op_route (CommitmentsDismiss i) = RCommitments"
| "op_route (CommitmentsSnooze i t) = RCommitments"
| "op_route AuditFindings = RAudit"

lemma mode_var_eq_iff [simp]: "mode_var r = mode_var r' \<longleftrightarrow> r = r'"
proof -
  have "r = r'" if "js_toUpperCase (route_name r) = js_toUpperCase (route_name r')"
    using that by (cases r; cases r') (simp_all add: js_toUpperCase_def upper_char_def)
  then show ?thesis by (auto simp: mode_var_def)
qed

lemma mode_var_not_global [simp]: "mode_var r \<noteq> ''VITE_API_MODE''" "''VITE_API_MODE'' \<noteq> mode_var r"
  by (simp_all add: mode_var_def)

lemma isRealForRoute_other:
  "r \<noteq> r' \<Longrightarrow> isRealForRoute (env(mode_var r := v)) r' = isRealForRoute env r'"
  by (simp add: isRealForRoute_def)

text \<open>An operation sees the environment only through the mode of its own route.\<close>

lemma v2_call_cong:
  "isRealForRoute env (op_route op) = isRealForRoute env' (op_route op) \<Longrightarrow>
   v2_call env mock c fetch op w = v2_call env' mock c fetch op w"
  by (cases op) simp_all

text \<open>
  Flipping one route between fixtures and the gateway changes nothing else: setting the variable of a
  route leaves every operation of every other route as it was, and for its own route a per-route
  \<open>real\<close> or \<open>mock\<close> wins over the workspace-wide setting.
\<close>

theorem route_override_isolated:
  "(op_route op \<noteq> r \<longrightarrow> v2_call (env(mode_var r := v)) mock c fetch op w = v2_call env mock c fetch op w)
   \<and> isRealForRoute (env(mode_var r \<mapsto> ''real'')) r \<and> \<not> isRealForRoute (env(mode_var r \<mapsto> ''mock'')) r"
  using v2_call_cong [OF isRealForRoute_other [of r "op_route op" env v]] by (auto simp: isRealForRoute_def)

lemma route_override_isolated_witness:
  "v2_call ((\<lambda>_. None)(mode_var RInbox \<mapsto> ''real'')) (\<lambda>r. JStr (route_name r)) initial_config (\<lambda>w q. (NetworkFailure [], Suc w)) HomeLoad 0
   = (Inr (Some (JStr ''home'')), 0)"
  using route_override_isolated [of HomeLoad RInbox "\<lambda>_. None" "Some ''real''" "\<lambda>r. JStr (route_name r)" initial_config
      "\<lambda>w q. (NetworkFailure [], Suc w)" "0 :: nat"]
  by (simp add: isRealForRoute_def)

definition mock_result :: "(v2_route \<Rightarrow> json) \<Rightarrow> v2_op \<Rightarrow> json option" where
  "mock_result mock op = (case op of CommitmentsDismiss i \<Rightarrow> None | CommitmentsSnooze i t \<Rightarrow> None | _ \<Rightarrow> Some (mock (op_route op)))"

text \<open>A route in mock mode sends nothing: whatever the network would do, the operation succeeds with the
  fixture of its route (with nothing, for the two mutations) and the outside world is unchanged.
\<close>

lemma mock_mode_never_fetches:
  assumes "\<not> isRealForRoute env (op_route op)"
  shows "v2_call env mock c fetch op w = (Inr (mock_result mock op), w)"
  using assms by (cases op) (simp_all add: mock_result_def)

lemma mock_mode_never_fetches_witness:
  "v2_call ((\<lambda>_. None)(''VITE_API_MODE'' \<mapsto> ''real'', mode_var RCommitments \<mapsto> ''mock'')) (\<lambda>r. JNull) initial_config
     (\<lambda>w q. (NetworkFailure [], w @ [q])) (CommitmentsDismiss ''c1'') [] = (Inr None, [])"
  using mock_mode_never_fetches [of "(\<lambda>_. None)(''VITE_API_MODE'' \<mapsto> ''real'', mode_var RCommitments \<mapsto> ''mock'')"
      "CommitmentsDismiss ''c1''" "\<lambda>r. JNull" initial_config "\<lambda>w q. (NetworkFailure [], w @ [q])" "[]"]
  by (simp add: isRealForRoute_def mock_result_def)

section \<open>What goes over the wire\<close>

definition recorder :: "fetch_outcome \<Rightarrow> http_request list fetch" where
  "recorder oc w q = (oc, w @ [q])"

definition carries_config :: "api_config \<Rightarrow> http_request \<Rightarrow> bool" where
  "carries_config c q \<longleftrightarrow>
     js_startsWith (req_url q) (baseUrl c)
     \<and> map_of (req_headers q) ''Authorization''
         = (if non_empty (token c) then Some (''Bearer '' @ the (token c)) else None)
     \<and> map_of (req_headers q) ''X-Workspace-Id'' = (if non_empty (workspaceId c) then workspaceId c else None)
     \<and> map_of (req_headers q) ''Content-Type'' = Some ''application/json''"

lemma build_request_carries: "carries_config c (build_request c meth path body)"
  by (auto simp: carries_config_def build_request_def request_headers_def js_startsWith_prefix non_empty_def)

lemma request_recorded:
  "snd (request c (recorder oc) meth path body w) = w @ [build_request c meth path body]"
  by (simp add: request_def recorder_def)

lemma snd_and_then [simp]: "snd (and_then r f) = snd r"
  by (simp add: and_then_def split: prod.splits sum.splits)

text \<open>C22.
  Every call of the client sends exactly one request, to the configured gateway, with the configured
  credentials: the bearer token and the workspace header are there exactly when they are configured
  and not empty.  This holds of all domain endpoints and of the v2 operations of real routes.
\<close>

theorem calls_carry_credentials:
  "(\<exists>q. snd (call_endpoint c (recorder oc) e w) = w @ [q] \<and> carries_config c q)
   \<and> (isRealForRoute env (op_route op) \<longrightarrow>
        (\<exists>q. snd (v2_call env mock c (recorder oc) op w) = w @ [q] \<and> carries_config c q))"
proof
  show "\<exists>q. snd (call_endpoint c (recorder oc) e w) = w @ [q] \<and> carries_config c q"
    by (auto simp: call_endpoint_def request_recorded build_request_carries split: prod.splits)
  show "isRealForRoute env (op_route op) \<longrightarrow>
      (\<exists>q. snd (v2_call env mock c (recorder oc) op w) = w @ [q] \<and> carries_config c q)"
    by (cases op) (simp_all add: api_get_def api_post_def request_recorded build_request_carries)
qed

lemma calls_carry_credentials_witness:
  "isRealForRoute [''VITE_API_MODE'' \<mapsto> ''real''] (op_route InboxList)
   \<and> (\<exists>q. snd (v2_call [''VITE_API_MODE'' \<mapsto> ''real''] (\<lambda>r. JNull) (initial_config\<lparr>token := Some ''t''\<rparr>)
            (recorder (NetworkFailure [])) InboxList []) = [q])"
  using calls_carry_credentials [of "initial_config\<lparr>token := Some ''t''\<rparr>" "NetworkFailure []" SquadsList "[]"
      "[''VITE_API_MODE'' \<mapsto> ''real'']" InboxList "\<lambda>r. JNull"]
  by (auto simp: isRealForRoute_def)

text \<open>A request succeeds exactly when the gateway answers with a 2xx status and, unless that is 204, a
  JSON body; then it gives that body (nothing for 204).  An answer with another status is an \<open>ApiError\<close> with the
  status and the body if it is JSON; a 2xx answer whose body is not JSON and a network failure are passed on.
\<close>

lemma request_outcomes:
  "(fst (request c fetch meth path body w) = Inr v \<longleftrightarrow>
      (\<exists>r. fst (fetch w (build_request c meth path body)) = Response r \<and> 200 \<le> res_status r \<and> res_status r < 300
         \<and> (if res_status r = 204 then v = None else v \<noteq> None \<and> res_json r = v)))
   \<and> (fst (request c fetch meth path body w) = Inl (ApiError st txt b) \<longleftrightarrow>
      (\<exists>r. fst (fetch w (build_request c meth path body)) = Response r \<and> (res_status r < 200 \<or> 300 \<le> res_status r)
         \<and> st = res_status r \<and> txt = res_statusText r \<and> b = res_json r))"
proof -
  obtain oc w' where e: "fetch w (build_request c meth path body) = (oc, w')" by force
  show ?thesis
  proof (cases oc)
    case (NetworkFailure m)
    then show ?thesis by (simp add: request_def e handle_response_def)
  next
    case (Response r)
    then show ?thesis
      by (cases "res_json r"; cases "res_ok r") (auto simp: request_def e handle_response_def res_ok_def)
  qed
qed

section \<open>Reading a route back\<close>

datatype api_op =
    OpHealthStatus | OpHealthTimeline | OpPlansList | OpPlansGet | OpPlansPause | OpPlansResume | OpPlansRollback
  | OpRecipesList | OpRecipesGet | OpRecipesActivate | OpRecipesDeactivate | OpSquadsList | OpSquadsGet
  | OpApprovalsPending | OpApprovalsApprove | OpApprovalsDeny | OpTopicsList | OpTopicsGet | OpTopicsRefresh
  | OpMemoryList | OpMemoryGet | OpMemoryConnections | OpBlocked | OpQuarantined | OpPolicyCoverage
  | OpEventsList | OpEventsGet

text \<open>The routing table a gateway needs: method, path segments, operation; \<^const>\<open>None\<close> is the place of
  the identifier.\<close>

definition route_table :: "(jstr \<times> jstr option list \<times> api_op) list" where
  "route_table =
     [(''GET'', [Some ''health'', Some ''status''], OpHealthStatus),
      (''GET'', [Some ''health'', Some ''timeline''], OpHealthTimeline),
      (''GET'', [Some ''plans''], OpPlansList),
      (''GET'', [Some ''plans'', None], OpPlansGet),
      (''POST'', [Some ''plans'', None, Some ''pause''], OpPlansPause),
      (''POST'', [Some ''plans'', None, Some ''resume''], OpPlansResume),
      (''POST'', [Some ''plans'', None, Some ''rollback''], OpPlansRollback),
      (''GET'', [Some ''recipes''], OpRecipesList),
      (''GET'', [Some ''recipes'', None], OpRecipesGet),
      (''POST'', [Some ''recipes'', None, Some ''activate''], OpRecipesActivate),
      (''POST'', [Some ''recipes'', None, Some ''deactivate''], OpRecipesDeactivate),
      (''GET'', [Some ''squads''], OpSquadsList),
      (''GET'', [Some ''squads'', None], OpSquadsGet),
      (''GET'', [Some ''approvals'', Some ''pending''], OpApprovalsPending),
      (''POST'', [Some ''approvals'', None, Some ''approve''], OpApprovalsApprove),
      (''POST'', [Some ''approvals'', None, Some ''deny''], OpApprovalsDeny),
      (''GET'', [Some ''research'', Some ''topics''], OpTopicsList),
      (''GET'', [Some ''research'', Some ''topics'', None], OpTopicsGet),
      (''POST'', [Some ''research'', Some ''topics'', None, Some ''refresh''], OpTopicsRefresh),
      (''GET'', [Some ''memory''], OpMemoryList),
      (''GET'', [Some ''memory'', None], OpMemoryGet),
      (''GET'', [Some ''memory'', None, Some ''connections''], OpMemoryConnections),
      (''GET'', [Some ''security'', Some ''blocked''], OpBlocked),
      (''GET'', [Some ''security'', Some ''quarantined''], OpQuarantined),
      (''GET'', [Some ''security'', Some ''policy-coverage''], OpPolicyCoverage),
      (''GET'', [Some ''events''], OpEventsList),
      (''GET'', [Some ''events'', None], OpEventsGet)]"

fun match_segments :: "jstr option list \<Rightarrow> jstr list \<Rightarrow> jstr option \<Rightarrow> jstr option option" where
  "match_segments [] [] i = Some i"
| "match_segments (Some p # ps) (s # ss) i = (if p = s then match_segments ps ss i else None)"
| "match_segments (None # ps) (s # ss) i = match_segments ps ss (Some s)"
| "match_segments _ _ i = None"

fun find_route :: "(jstr \<times> jstr option list \<times> api_op) list \<Rightarrow> jstr \<Rightarrow> jstr list \<Rightarrow> (api_op \<times> jstr option) option" where
  "find_route [] meth ss = None"
| "find_route ((m, ps, op) # rs) meth ss =
     (if m = meth \<and> match_segments ps ss None \<noteq> None then Some (op, the (match_segments ps ss None))
      else find_route rs meth ss)"

definition read_route :: "jstr \<Rightarrow> jstr \<Rightarrow> (api_op \<times> jstr option) option" where
  "read_route meth path = find_route route_table meth (tl (split_on (CHR ''/'') (takeWhile (\<lambda>c. c \<noteq> CHR ''?'') path)))"

fun endpoint_key :: "endpoint \<Rightarrow> api_op \<times> jstr option" where
  "endpoint_key HealthGetStatus = (OpHealthStatus, None)"
| "endpoint_key (HealthGetTimeline p) = (OpHealthTimeline, None)"
| "endpoint_key (PlansList p) = (OpPlansList, None)"
| "endpoint_key (PlansGet i) = (OpPlansGet, Some i)"
| "endpoint_key (PlansPause i) = (OpPlansPause, Some i)"
| "endpoint_key (PlansResume i) = (OpPlansResume, Some i)"
| "endpoint_key (PlansRollback i) = (OpPlansRollback, Some i)"
| "endpoint_key (RecipesList p) = (OpRecipesList, None)"
| "endpoint_key (RecipesGet i) = (OpRecipesGet, Some i)"
| "endpoint_key (RecipesActivate i) = (OpRecipesActivate, Some i)"
| "endpoint_key (RecipesDeactivate i) = (OpRecipesDeactivate, Some i)"
| "endpoint_key SquadsList = (OpSquadsList, None)"
| "endpoint_key (SquadsGet i) = (OpSquadsGet, Some i)"
| "endpoint_key (ApprovalsListPending p) = (OpApprovalsPending, None)"
| "endpoint_key (ApprovalsApprove i) = (OpApprovalsApprove, Some i)"
| "endpoint_key (ApprovalsDeny i r) = (OpApprovalsDeny, Some i)"
| "endpoint_key (ResearchListTopics p) = (OpTopicsList, None)"
| "endpoint_key (ResearchGetTopic i) = (OpTopicsGet, Some i)"
| "endpoint_key (ResearchRefresh i) = (OpTopicsRefresh, Some i)"
| "endpoint_key (MemoryList p) = (OpMemoryList, None)"
| "endpoint_key (MemoryGet i) = (OpMemoryGet, Some i)"
| "endpoint_key (MemoryGetConnections i) = (OpMemoryConnections, Some i)"
| "endpoint_key (SecurityGetBlockedActions p) = (OpBlocked, None)"
| "endpoint_key (SecurityGetQuarantinedItems p) = (OpQuarantined, None)"
| "endpoint_key SecurityGetPolicyCoverage = (OpPolicyCoverage, None)"
| "endpoint_key (EventsList p k) = (OpEventsList, None)"
| "endpoint_key (EventsGet i) = (OpEventsGet, Some i)"

definition plain_id :: "jstr \<Rightarrow> bool" where
  "plain_id i \<longleftrightarrow> CHR ''/'' \<notin> set i \<and> CHR ''?'' \<notin> set i"

lemma paginationQuery_head: "takeWhile (\<lambda>c. c \<noteq> CHR ''?'') (paginationQuery p) = []"
  by (auto simp: paginationQuery_def Let_def split: option.splits)

lemma kind_query_head: "takeWhile (\<lambda>c. c \<noteq> CHR ''?'') (kind_query p k) = []"
  using paginationQuery_head [of p] by (cases "paginationQuery p") (auto simp: kind_query_def Let_def split: if_splits)

lemma takeWhile_plain:
  "plain_id i \<Longrightarrow> takeWhile (\<lambda>c. c \<noteq> CHR ''?'') (i @ r) = i @ takeWhile (\<lambda>c. c \<noteq> CHR ''?'') r"
  by (induction i) (auto simp: plain_id_def)

lemma takeWhile_plain_whole: "plain_id i \<Longrightarrow> takeWhile (\<lambda>c. c \<noteq> CHR ''?'') i = i"
  using takeWhile_plain [of i "[]"] by simp

lemma split_plain: "plain_id i \<Longrightarrow> split_on (CHR ''/'') i = [i]"
  "plain_id i \<Longrightarrow> split_on (CHR ''/'') (i @ CHR ''/'' # r) = i # split_on (CHR ''/'') r"
  by (simp_all add: plain_id_def split_on_whole split_on_step)

lemmas route_simps = read_route_def route_table_def paginationQuery_head kind_query_head
  takeWhile_plain takeWhile_plain_whole split_plain

text \<open>C27.
  The paths the client builds are unambiguous: from method and path one can read back which operation
  was meant and for which identifier, provided the identifier has no slash and no question mark (the
  client does not escape it).
\<close>

theorem endpoint_paths_unambiguous:
  assumes "pred_option plain_id (snd (endpoint_key e))"
  shows "read_route (fst (endpoint_call e)) (fst (snd (endpoint_call e))) = Some (endpoint_key e)"
  using assms by (cases e) (simp_all add: route_simps)

lemma endpoint_paths_unambiguous_witness:
  "read_route ''POST'' ''/plans/p-7/rollback'' = Some (OpPlansRollback, Some ''p-7'')"
  using endpoint_paths_unambiguous [of "PlansRollback ''p-7''"] by (simp add: plain_id_def)

text \<open>Without that proviso two operations can share a request: the identifier is pasted into the path
  as it is.\<close>

lemma unescaped_ids_collide: "fst (snd (endpoint_call (MemoryGet ''a/connections''))) = fst (snd (endpoint_call (MemoryGetConnections ''a'')))"
  by simp

end
