(* ===== verification/Legacy_Pages.thy ===== *)
theory Legacy_Pages
  imports Await_Page Api_Client Ui_Components
begin

text \<open>
  The pages shown while the v2 flag is off (\<open>apps/web/src/pages\<close>): Inbox, Recipes, Research, Home, Health,
  Security and Settings, each as its state, the load of its effect, its handlers and what it shows, run on the
  machine of \<open>Await_Page\<close>.  The Memory page has a theory of its own.  Every load falls back to the sample
  records of the page when the call fails, and also when it answers with no item.

  Results of the client are sums, \<^const>\<open>Inl\<close> a failure.  Payloads of events are the fields the pages read, each
  of which may be absent.  Printing of times in the user's locale and markup are not modelled.
\<close>

section \<open>Loads\<close>

definition page_of :: "int \<Rightarrow> pagination_params option" where
  "page_of n = Some \<lparr>page = None, pageSize = Some n\<rparr>"

definition items_or :: "'i list \<Rightarrow> api_failure + 'i paginated_response \<Rightarrow> 'i list" where
  "items_or sample res = (case res of Inl e \<Rightarrow> sample | Inr r \<Rightarrow> if length (items r) > 0 then items r else sample)"

section \<open>Inbox\<close>

definition SAMPLE_APPROVALS :: "approval_request list" where
  "SAMPLE_APPROVALS =
    [\<lparr>ar_id = ''approval-1'', ar_planNodeId = ''node-101'',
       ar_summary = ''Send a reply to the team standup thread confirming your availability for tomorrow.'',
       ar_riskLevel = RiskLow, ar_requestedAt = ''2026-03-31T14:22:00Z'', ar_agentRole = Executor, ar_status = ApprovalPending\<rparr>,
     \<lparr>ar_id = ''approval-2'', ar_planNodeId = ''node-202'',
       ar_summary = ''Reschedule your 3 PM meeting with the design team to Thursday at 10 AM.'',
       ar_riskLevel = RiskMedium, ar_requestedAt = ''2026-03-31T13:05:00Z'', ar_agentRole = Planner, ar_status = ApprovalPending\<rparr>,
     \<lparr>ar_id = ''approval-3'', ar_planNodeId = ''node-303'',
       ar_summary = ''Archive 12 newsletter emails older than 30 days that you haven't opened.'',
       ar_riskLevel = RiskMedium, ar_requestedAt = ''2026-03-31T11:48:00Z'', ar_agentRole = Executor, ar_status = ApprovalPending\<rparr>,
     \<lparr>ar_id = ''approval-4'', ar_planNodeId = ''node-404'',
       ar_summary = ''Share the quarterly report document with 3 external collaborators.'',
       ar_riskLevel = RiskHigh, ar_requestedAt = ''2026-03-31T10:30:00Z'', ar_agentRole = Executor, ar_status = ApprovalPending\<rparr>]"

record legacy_inbox_state =
  li_approvals :: "approval_request list"
  li_loading :: bool

definition legacy_inbox_init :: legacy_inbox_state where
  "legacy_inbox_init = \<lparr>li_approvals = [], li_loading = True\<rparr>"

definition legacy_inbox_load_call :: endpoint where
  "legacy_inbox_load_call = ApprovalsListPending (page_of 50)"

definition legacy_inbox_load :: "api_failure + approval_request paginated_response \<Rightarrow> legacy_inbox_state \<Rightarrow> legacy_inbox_state" where
  "legacy_inbox_load res s = \<lparr>li_approvals = items_or SAMPLE_APPROVALS res, li_loading = False\<rparr>"

datatype legacy_inbox_call = CallApprove jstr | CallDeny jstr

primrec legacy_inbox_endpoint :: "legacy_inbox_call \<Rightarrow> endpoint" where
  "legacy_inbox_endpoint (CallApprove i) = ApprovalsApprove i"
| "legacy_inbox_endpoint (CallDeny i) = ApprovalsDeny i None"

primrec legacy_inbox_call_id :: "legacy_inbox_call \<Rightarrow> jstr" where
  "legacy_inbox_call_id (CallApprove i) = i"
| "legacy_inbox_call_id (CallDeny i) = i"

text \<open>The rest of both handlers: the \<open>catch\<close> block is empty, so a failed call goes on like an accepted one.\<close>

definition handleApprove_rest :: "jstr \<Rightarrow> legacy_inbox_state \<Rightarrow> legacy_inbox_state" where
  "handleApprove_rest i prev = prev\<lparr>li_approvals := filter (\<lambda>a. ar_id a \<noteq> i) (li_approvals prev)\<rparr>"

definition handleDeny_rest :: "jstr \<Rightarrow> legacy_inbox_state \<Rightarrow> legacy_inbox_state" where
  "handleDeny_rest i prev = prev\<lparr>li_approvals := filter (\<lambda>a. ar_id a \<noteq> i) (li_approvals prev)\<rparr>"

fun legacy_inbox_settle :: "legacy_inbox_call \<Rightarrow> api_failure + unit \<Rightarrow> legacy_inbox_state \<Rightarrow> legacy_inbox_state" where
  "legacy_inbox_settle (CallApprove i) _ s = handleApprove_rest i s"
| "legacy_inbox_settle (CallDeny i) _ s = handleDeny_rest i s"

datatype legacy_inbox_body = InboxSpinner | InboxClear | InboxCards "approval_request list"

definition legacy_inbox_body_of :: "legacy_inbox_state \<Rightarrow> legacy_inbox_body" where
  "legacy_inbox_body_of s = (if li_loading s then InboxSpinner else if length (li_approvals s) = 0 then InboxClear
     else InboxCards (li_approvals s))"

definition legacy_inbox_cards :: "legacy_inbox_state \<Rightarrow> approval_request list" where
  "legacy_inbox_cards s = (case legacy_inbox_body_of s of InboxCards cs \<Rightarrow> cs | _ \<Rightarrow> [])"

definition legacy_inbox_clickable :: "legacy_inbox_call \<Rightarrow> legacy_inbox_state \<Rightarrow> bool" where
  "legacy_inbox_clickable c s \<longleftrightarrow> list_ex (\<lambda>a. ar_id a = legacy_inbox_call_id c) (legacy_inbox_cards s)"

definition pendingCount :: "legacy_inbox_state \<Rightarrow> nat" where
  "pendingCount s = count_where (\<lambda>a. ar_status a = ApprovalPending) (li_approvals s)"

definition legacy_inbox_header :: "legacy_inbox_state \<Rightarrow> jstr" where
  "legacy_inbox_header s = (if pendingCount s = 0 then ''Nothing needs your approval right now.''
     else nat_str (pendingCount s) @ '' '' @ (if pendingCount s = 1 then ''item needs'' else ''items need'') @ '' your review.'')"

definition approval_role_label :: "approval_request \<Rightarrow> jstr" where
  "approval_role_label a = agentRoleLabel (ar_agentRole a)"

type_synonym legacy_inbox_event = "(api_failure + approval_request paginated_response, legacy_inbox_call, api_failure + unit, unit) await_event"

definition legacy_inbox_enabled :: "legacy_inbox_event \<Rightarrow> (legacy_inbox_state, legacy_inbox_call) await_page \<Rightarrow> bool" where
  "legacy_inbox_enabled = await_enabled legacy_inbox_clickable (\<lambda>_ _. False)"

definition legacy_inbox_exec :: "legacy_inbox_event \<Rightarrow> (legacy_inbox_state, legacy_inbox_call) await_page \<Rightarrow> (legacy_inbox_state, legacy_inbox_call) await_page" where
  "legacy_inbox_exec = await_exec legacy_inbox_load legacy_inbox_settle (\<lambda>_ s. s)"

section \<open>Recipes\<close>

definition SAMPLE_RECIPES :: "recipe_model list" where
  "SAMPLE_RECIPES =
    [\<lparr>rm_id = ''recipe-email-triage'', rm_title = ''Email Triage'',
       rm_description = ''Automatically sorts incoming emails by priority, drafts quick replies for routine messages, and flags anything that needs your personal attention.'',
       rm_category = ''Inbox'', rm_riskLevel = RiskLow, rm_isActive = False,
       rm_canAccess = [''Read emails'', ''Draft replies'', ''Apply labels''],
       rm_cannotAccess = [''Send emails without approval'', ''Delete emails''],
       rm_needsApprovalFor = [''Sending any reply'', ''Archiving threads''],
       rm_stopsIf = [''More than 50 emails processed in one hour''],
       rm_squadId = None, rm_createdAt = ''2026-03-15T10:00:00Z'', rm_updatedAt = ''2026-03-28T14:30:00Z''\<rparr>,
     \<lparr>rm_id = ''recipe-calendar-manager'', rm_title = ''Calendar Manager'',
       rm_description = ''Keeps your calendar organized by detecting conflicts, suggesting optimal meeting times, and sending reminders before important events.'',
       rm_category = ''Scheduling'', rm_riskLevel = RiskMedium, rm_isActive = True,
       rm_canAccess = [''Read calendar events'', ''Suggest reschedules''],
       rm_cannotAccess = [''Delete events'', ''Invite external participants''],
       rm_needsApprovalFor = [''Moving any meeting'', ''Declining invitations''],
       rm_stopsIf = [''More than 10 calendar changes per day''],
       rm_squadId = None, rm_createdAt = ''2026-03-10T08:00:00Z'', rm_updatedAt = ''2026-03-29T09:15:00Z''\<rparr>,
     \<lparr>rm_id = ''recipe-research-monitor'', rm_title = ''Research Monitor'',
       rm_description = ''Tracks topics you care about across the web, summarizes new findings, and alerts you when something important changes.'',
       rm_category = ''Research'', rm_riskLevel = RiskLow, rm_isActive = False,
       rm_canAccess = [''Search the web'', ''Read bookmarked sources'', ''Create summaries''],
       rm_cannotAccess = [''Post content online'', ''Subscribe to paid services''],
       rm_needsApprovalFor = [''Adding new tracked topics''],
       rm_stopsIf = [''Confidence drops below 40%'', ''Sources contradict each other''],
       rm_squadId = None, rm_createdAt = ''2026-03-20T12:00:00Z'', rm_updatedAt = ''2026-03-30T16:45:00Z''\<rparr>]"

record legacy_recipes_state =
  lr_recipes :: "recipe_model list"
  lr_expandedId :: "jstr option"
  lr_loading :: bool

definition legacy_recipes_init :: legacy_recipes_state where
  "legacy_recipes_init = \<lparr>lr_recipes = [], lr_expandedId = None, lr_loading = True\<rparr>"

definition legacy_recipes_load_call :: endpoint where
  "legacy_recipes_load_call = RecipesList (page_of 50)"

definition legacy_recipes_load :: "api_failure + recipe_model paginated_response \<Rightarrow> legacy_recipes_state \<Rightarrow> legacy_recipes_state" where
  "legacy_recipes_load res s = \<lparr>lr_recipes = items_or SAMPLE_RECIPES res, lr_expandedId = None, lr_loading = False\<rparr>"

definition toggleSafety :: "jstr \<Rightarrow> legacy_recipes_state \<Rightarrow> legacy_recipes_state" where
  "toggleSafety i prev = prev\<lparr>lr_expandedId := (if lr_expandedId prev = Some i then None else Some i)\<rparr>"

datatype legacy_recipes_call = CallActivate jstr | CallDeactivate jstr

primrec legacy_recipes_endpoint :: "legacy_recipes_call \<Rightarrow> endpoint" where
  "legacy_recipes_endpoint (CallActivate i) = RecipesActivate i"
| "legacy_recipes_endpoint (CallDeactivate i) = RecipesDeactivate i"

primrec legacy_recipes_call_id :: "legacy_recipes_call \<Rightarrow> jstr" where
  "legacy_recipes_call_id (CallActivate i) = i"
| "legacy_recipes_call_id (CallDeactivate i) = i"

definition handleActivate_rest :: "jstr \<Rightarrow> api_failure + recipe_model \<Rightarrow> legacy_recipes_state \<Rightarrow> legacy_recipes_state" where
  "handleActivate_rest i res prev = (case res of Inl e \<Rightarrow> prev
     | Inr updated \<Rightarrow> prev\<lparr>lr_recipes := update_by rm_id i (\<lambda>_. updated) (lr_recipes prev)\<rparr>)"

definition handleDeactivate_rest :: "jstr \<Rightarrow> api_failure + recipe_model \<Rightarrow> legacy_recipes_state \<Rightarrow> legacy_recipes_state" where
  "handleDeactivate_rest i res prev = (case res of Inl e \<Rightarrow> prev
     | Inr updated \<Rightarrow> prev\<lparr>lr_recipes := update_by rm_id i (\<lambda>_. updated) (lr_recipes prev)\<rparr>)"

fun legacy_recipes_settle :: "legacy_recipes_call \<Rightarrow> api_failure + recipe_model \<Rightarrow> legacy_recipes_state \<Rightarrow> legacy_recipes_state" where
  "legacy_recipes_settle (CallActivate i) res s = handleActivate_rest i res s"
| "legacy_recipes_settle (CallDeactivate i) res s = handleDeactivate_rest i res s"

definition recipe_cards :: "legacy_recipes_state \<Rightarrow> (recipe_model \<times> bool) list" where
  "recipe_cards s = (if lr_loading s then [] else map (\<lambda>r. (r, lr_expandedId s = Some (rm_id r))) (lr_recipes s))"

text \<open>The footer of a card offers to deactivate an active recipe and to activate another.\<close>

definition recipe_button :: "recipe_model \<Rightarrow> legacy_recipes_call" where
  "recipe_button r = (if rm_isActive r then CallDeactivate (rm_id r) else CallActivate (rm_id r))"

definition legacy_recipe_safety :: "recipe_model \<times> bool \<Rightarrow> (jstr \<times> jstr list) list option" where
  "legacy_recipe_safety c = (case c of (r, expanded) \<Rightarrow> if expanded
     then Some (safety_card_sections (rm_canAccess r) (rm_cannotAccess r) (rm_needsApprovalFor r) (rm_stopsIf r)) else None)"

definition legacy_recipes_clickable :: "legacy_recipes_call \<Rightarrow> legacy_recipes_state \<Rightarrow> bool" where
  "legacy_recipes_clickable c s \<longleftrightarrow> list_ex (\<lambda>(r, _). recipe_button r = c) (recipe_cards s)"

definition safety_clickable :: "jstr \<Rightarrow> legacy_recipes_state \<Rightarrow> bool" where
  "safety_clickable i s \<longleftrightarrow> list_ex (\<lambda>(r, _). rm_id r = i) (recipe_cards s)"

type_synonym legacy_recipes_event = "(api_failure + recipe_model paginated_response, legacy_recipes_call, api_failure + recipe_model, jstr) await_event"

definition legacy_recipes_enabled :: "legacy_recipes_event \<Rightarrow> (legacy_recipes_state, legacy_recipes_call) await_page \<Rightarrow> bool" where
  "legacy_recipes_enabled = await_enabled legacy_recipes_clickable safety_clickable"

definition legacy_recipes_exec :: "legacy_recipes_event \<Rightarrow> (legacy_recipes_state, legacy_recipes_call) await_page \<Rightarrow> (legacy_recipes_state, legacy_recipes_call) await_page" where
  "legacy_recipes_exec = await_exec legacy_recipes_load legacy_recipes_settle toggleSafety"

section \<open>Research\<close>

definition SAMPLE_TOPICS :: "research_topic list" where
  "SAMPLE_TOPICS =
    [\<lparr>rt_id = ''topic-1'', rt_title = ''Remote work productivity trends in 2026'',
       rt_description = ''Analysis of how distributed teams are adapting their workflows, including async communication tools, meeting cadence changes, and output metrics.'',
       rt_confidence = 41 / 50, rt_freshness = Fresh, rt_sourceCount = 14, rt_hasContradictions = False, rt_lastUpdated = ''2026-03-31T09:00:00Z''\<rparr>,
     \<lparr>rt_id = ''topic-2'', rt_title = ''AI-assisted code review best practices'',
       rt_description = ''Comparison of automated code review approaches, including static analysis, LLM-based suggestions, and hybrid workflows. Covers accuracy, developer trust, and adoption patterns.'',
       rt_confidence = 17 / 25, rt_freshness = Aging, rt_sourceCount = 9, rt_hasContradictions = True, rt_lastUpdated = ''2026-03-25T15:30:00Z''\<rparr>,
     \<lparr>rt_id = ''topic-3'', rt_title = ''Privacy regulations update (EU, US, APAC)'',
       rt_description = ''Tracking changes to data privacy frameworks across major regions, with focus on how they affect SaaS products handling personal data.'',
       rt_confidence = 91 / 100, rt_freshness = Fresh, rt_sourceCount = 22, rt_hasContradictions = False, rt_lastUpdated = ''2026-03-30T18:00:00Z''\<rparr>,
     \<lparr>rt_id = ''topic-4'', rt_title = ''Sustainable cloud infrastructure'',
       rt_description = ''Research on carbon-aware computing, green hosting providers, and energy-efficient architecture patterns for cloud-native applications.'',
       rt_confidence = 9 / 20, rt_freshness = Stale, rt_sourceCount = 5, rt_hasContradictions = True, rt_lastUpdated = ''2026-03-10T12:00:00Z''\<rparr>]"

record legacy_research_state =
  lt_topics :: "research_topic list"
  lt_loading :: bool

definition legacy_research_init :: legacy_research_state where
  "legacy_research_init = \<lparr>lt_topics = [], lt_loading = True\<rparr>"

definition legacy_research_load_call :: endpoint where
  "legacy_research_load_call = ResearchListTopics (page_of 50)"

definition legacy_research_load :: "api_failure + research_topic paginated_response \<Rightarrow> legacy_research_state \<Rightarrow> legacy_research_state" where
  "legacy_research_load res s = \<lparr>lt_topics = items_or SAMPLE_TOPICS res, lt_loading = False\<rparr>"

text \<open>A call is the id of the topic to refresh; the details button of a card sends it.\<close>

definition legacy_research_endpoint :: "jstr \<Rightarrow> endpoint" where
  "legacy_research_endpoint i = ResearchRefresh i"

definition handleRefresh_rest :: "jstr \<Rightarrow> api_failure + unit \<Rightarrow> legacy_research_state \<Rightarrow> legacy_research_state" where
  "handleRefresh_rest i res prev = (case res of Inl e \<Rightarrow> prev
     | Inr _ \<Rightarrow> prev\<lparr>lt_topics := update_by rt_id i (\<lambda>t. t\<lparr>rt_freshness := Fresh\<rparr>) (lt_topics prev)\<rparr>)"

definition freshCount :: "legacy_research_state \<Rightarrow> nat" where
  "freshCount s = count_where (\<lambda>t. rt_freshness t = Fresh) (lt_topics s)"

definition staleCount :: "legacy_research_state \<Rightarrow> nat" where
  "staleCount s = count_where (\<lambda>t. rt_freshness t = Stale) (lt_topics s)"

definition legacy_research_clickable :: "jstr \<Rightarrow> legacy_research_state \<Rightarrow> bool" where
  "legacy_research_clickable i s \<longleftrightarrow> \<not> lt_loading s \<and> list_ex (\<lambda>t. rt_id t = i) (lt_topics s)"

type_synonym legacy_research_event = "(api_failure + research_topic paginated_response, jstr, api_failure + unit, unit) await_event"

definition legacy_research_enabled :: "legacy_research_event \<Rightarrow> (legacy_research_state, jstr) await_page \<Rightarrow> bool" where
  "legacy_research_enabled = await_enabled legacy_research_clickable (\<lambda>_ _. False)"

definition legacy_research_exec :: "legacy_research_event \<Rightarrow> (legacy_research_state, jstr) await_page \<Rightarrow> (legacy_research_state, jstr) await_page" where
  "legacy_research_exec = await_exec legacy_research_load handleRefresh_rest (\<lambda>_ s. s)"

section \<open>Home\<close>

text \<open>The fields of an event's payload that the pages read.\<close>

record event_details =
  ed_summary :: "jstr option"
  ed_message :: "jstr option"
  ed_reason :: "jstr option"
  ed_policyLayer :: "jstr option"

type_synonym page_event = "event_details option event"

definition detail :: "(event_details \<Rightarrow> jstr option) \<Rightarrow> page_event \<Rightarrow> jstr option" where
  "detail f e = (case ev_payload e of None \<Rightarrow> None | Some d \<Rightarrow> f d)"

definition or_else :: "'a option \<Rightarrow> 'a \<Rightarrow> 'a" where
  "or_else v d = (case v of None \<Rightarrow> d | Some x \<Rightarrow> x)"

text \<open>One result of \<open>Promise.allSettled\<close>: a part of its value when fulfilled, a default when rejected.\<close>

definition fulfilled_or :: "api_failure + 'a \<Rightarrow> ('a \<Rightarrow> 'b) \<Rightarrow> 'b \<Rightarrow> 'b" where
  "fulfilled_or res f d = (case res of Inl e \<Rightarrow> d | Inr v \<Rightarrow> f v)"

record dashboard_state =
  ld_healthStatus :: heartbeat_status
  ld_healthMessage :: jstr
  ld_uptimeSeconds :: int
  ld_activeRecipes :: "recipe_model list"
  ld_squads :: "squad list"
  ld_recentAlerts :: "page_event list"
  ld_loading :: bool

definition INITIAL_STATE :: dashboard_state where
  "INITIAL_STATE = \<lparr>ld_healthStatus = HbHealthy, ld_healthMessage = ''All systems operational'', ld_uptimeSeconds = 0,
     ld_activeRecipes = [], ld_squads = [], ld_recentAlerts = [], ld_loading = True\<rparr>"

definition legacy_home_load_calls :: "endpoint list" where
  "legacy_home_load_calls = [HealthGetStatus, RecipesList (page_of 5), SquadsList, SecurityGetBlockedActions (page_of 5)]"

record legacy_home_results =
  hr_health :: "api_failure + heartbeat_payload"
  hr_recipes :: "api_failure + recipe_model paginated_response"
  hr_squads :: "api_failure + squad list"
  hr_alerts :: "api_failure + page_event paginated_response"

definition legacy_home_load :: "legacy_home_results \<Rightarrow> dashboard_state \<Rightarrow> dashboard_state" where
  "legacy_home_load r prev = prev\<lparr>ld_loading := False,
     ld_healthStatus := fulfilled_or (hr_health r) hb_status (ld_healthStatus prev),
     ld_healthMessage := fulfilled_or (hr_health r) hb_message (ld_healthMessage prev),
     ld_uptimeSeconds := fulfilled_or (hr_health r) hb_uptimeSeconds (ld_uptimeSeconds prev),
     ld_activeRecipes := fulfilled_or (hr_recipes r) (\<lambda>v. filter rm_isActive (items v)) (ld_activeRecipes prev),
     ld_squads := fulfilled_or (hr_squads r) id (ld_squads prev),
     ld_recentAlerts := fulfilled_or (hr_alerts r) items (ld_recentAlerts prev)\<rparr>"

definition squad_line :: "squad \<Rightarrow> jstr" where
  "squad_line s = int_str (sq_activeRecipeCount s) @ '' active '' @ (if sq_activeRecipeCount s = 1 then ''recipe'' else ''recipes'')"

type_synonym legacy_home_event = "(legacy_home_results, unit, unit, unit) await_event"

definition legacy_home_enabled :: "legacy_home_event \<Rightarrow> (dashboard_state, unit) await_page \<Rightarrow> bool" where
  "legacy_home_enabled = await_enabled (\<lambda>_ _. False) (\<lambda>_ _. False)"

definition legacy_home_exec :: "legacy_home_event \<Rightarrow> (dashboard_state, unit) await_page \<Rightarrow> (dashboard_state, unit) await_page" where
  "legacy_home_exec = await_exec legacy_home_load (\<lambda>_ _ s. s) (\<lambda>_ s. s)"

section \<open>Health\<close>

fun EVENT_TO_TIMELINE_STATE :: "event_kind \<Rightarrow> timeline_state option" where
  "EVENT_TO_TIMELINE_STATE EKActionTaken = Some TlTaken"
| "EVENT_TO_TIMELINE_STATE EKActionProposed = Some TlProposed"
| "EVENT_TO_TIMELINE_STATE EKActionBlocked = Some TlBlocked"
| "EVENT_TO_TIMELINE_STATE EKActionHealed = Some TlHealed"
| "EVENT_TO_TIMELINE_STATE EKActionQuarantined = Some TlQuarantined"
| "EVENT_TO_TIMELINE_STATE EKResearchUpdate = Some TlResearchUpdate"
| "EVENT_TO_TIMELINE_STATE EKSquadHandoff = Some TlSquadHandoff"
| "EVENT_TO_TIMELINE_STATE _ = None"

definition eventToTimelineEntry :: "page_event \<Rightarrow> timeline_entry" where
  "eventToTimelineEntry evt =
     \<lparr>tl_id = ev_id evt, tl_state = or_else (EVENT_TO_TIMELINE_STATE (ev_kind evt)) TlTaken,
      tl_title = or_else (detail ed_summary evt) (event_kind_value (ev_kind evt)),
      tl_description = or_else (detail ed_message evt) (or_else (detail ed_reason evt) []),
      tl_timestamp = ev_timestamp evt, tl_agentRole = ev_agentRole evt\<rparr>"

record legacy_health_state =
  lh_status :: heartbeat_status
  lh_message :: jstr
  lh_uptimeSeconds :: int
  lh_timeline :: "timeline_entry list"
  lh_loading :: bool

definition legacy_health_init :: legacy_health_state where
  "legacy_health_init = \<lparr>lh_status = HbHealthy, lh_message = [], lh_uptimeSeconds = 0, lh_timeline = [], lh_loading = True\<rparr>"

definition legacy_health_load_calls :: "endpoint list" where
  "legacy_health_load_calls = [HealthGetStatus, HealthGetTimeline (page_of 50)]"

record legacy_health_results =
  hs_health :: "api_failure + heartbeat_payload"
  hs_timeline :: "api_failure + page_event paginated_response"

definition legacy_health_load :: "legacy_health_results \<Rightarrow> legacy_health_state \<Rightarrow> legacy_health_state" where
  "legacy_health_load r s =
     \<lparr>lh_status = fulfilled_or (hs_health r) hb_status HbHealthy,
      lh_message = fulfilled_or (hs_health r) hb_message [],
      lh_uptimeSeconds = fulfilled_or (hs_health r) hb_uptimeSeconds 0,
      lh_timeline = fulfilled_or (hs_timeline r) (\<lambda>v. map eventToTimelineEntry (items v)) [], lh_loading = False\<rparr>"

definition legacy_health_timeline_shown :: "bool \<Rightarrow> legacy_health_state \<Rightarrow> timeline_entry list" where
  "legacy_health_timeline_shown expanded s = timeline_visible expanded 20 (lh_timeline s)"

type_synonym legacy_health_event = "(legacy_health_results, unit, unit, unit) await_event"

definition legacy_health_enabled :: "legacy_health_event \<Rightarrow> (legacy_health_state, unit) await_page \<Rightarrow> bool" where
  "legacy_health_enabled = await_enabled (\<lambda>_ _. False) (\<lambda>_ _. False)"

definition legacy_health_exec :: "legacy_health_event \<Rightarrow> (legacy_health_state, unit) await_page \<Rightarrow> (legacy_health_state, unit) await_page" where
  "legacy_health_exec = await_exec legacy_health_load (\<lambda>_ _ s. s) (\<lambda>_ s. s)"

section \<open>Security\<close>

record legacy_security_state =
  ls_blockedActions :: "page_event list"
  ls_quarantinedItems :: "page_event list"
  ls_policyCoverage :: "policy_evaluation list"
  ls_loading :: bool

definition legacy_security_init :: legacy_security_state where
  "legacy_security_init = \<lparr>ls_blockedActions = [], ls_quarantinedItems = [], ls_policyCoverage = [], ls_loading = True\<rparr>"

definition legacy_security_load_calls :: "endpoint list" where
  "legacy_security_load_calls =
     [SecurityGetBlockedActions (page_of 20), SecurityGetQuarantinedItems (page_of 20), SecurityGetPolicyCoverage]"

record legacy_security_results =
  sr_blocked :: "api_failure + page_event paginated_response"
  sr_quarantined :: "api_failure + page_event paginated_response"
  sr_coverage :: "api_failure + policy_evaluation list"

definition legacy_security_load :: "legacy_security_results \<Rightarrow> legacy_security_state \<Rightarrow> legacy_security_state" where
  "legacy_security_load r s =
     \<lparr>ls_blockedActions = fulfilled_or (sr_blocked r) items [],
      ls_quarantinedItems = fulfilled_or (sr_quarantined r) items [],
      ls_policyCoverage = fulfilled_or (sr_coverage r) id [], ls_loading = False\<rparr>"

definition legacy_security_stats :: "legacy_security_state \<Rightarrow> (jstr \<times> nat) list" where
  "legacy_security_stats s = [(''Blocked actions'', length (ls_blockedActions s)), (''Quarantined items'', length (ls_quarantinedItems s)),
     (''Active safety rules'', length (ls_policyCoverage s))]"

definition blocked_row :: "page_event \<Rightarrow> jstr \<times> jstr" where
  "blocked_row evt = (or_else (detail ed_reason evt) ''Action blocked'', ''Layer: '' @ or_else (detail ed_policyLayer evt) ''Unknown'')"

definition quarantined_row :: "page_event \<Rightarrow> jstr" where
  "quarantined_row evt = or_else (detail ed_summary evt) ''Item quarantined''"

definition coverage_cards :: "legacy_security_state \<Rightarrow> policy_row list list" where
  "coverage_cards s = map (\<lambda>e. policy_rows e True) (ls_policyCoverage s)"

type_synonym legacy_security_event = "(legacy_security_results, unit, unit, unit) await_event"

definition legacy_security_enabled :: "legacy_security_event \<Rightarrow> (legacy_security_state, unit) await_page \<Rightarrow> bool" where
  "legacy_security_enabled = await_enabled (\<lambda>_ _. False) (\<lambda>_ _. False)"

definition legacy_security_exec :: "legacy_security_event \<Rightarrow> (legacy_security_state, unit) await_page \<Rightarrow> (legacy_security_state, unit) await_page" where
  "legacy_security_exec = await_exec legacy_security_load (\<lambda>_ _ s. s) (\<lambda>_ s. s)"

section \<open>Settings\<close>

datatype legacy_section = LsProfile | LsWorkspace | LsConnectors | LsAdvanced

record section_meta =
  sm_id :: legacy_section
  sm_label :: jstr
  sm_description :: jstr

definition LEGACY_SECTIONS :: "section_meta list" where
  "LEGACY_SECTIONS =
    [\<lparr>sm_id = LsProfile, sm_label = ''Profile'', sm_description = ''Your personal details and display preferences.''\<rparr>,
     \<lparr>sm_id = LsWorkspace, sm_label = ''Workspace'', sm_description = ''Settings that apply to everyone in this workspace.''\<rparr>,
     \<lparr>sm_id = LsConnectors, sm_label = ''Connectors'',
       sm_description = ''Manage integrations with email, calendar, messaging, and other services.''\<rparr>,
     \<lparr>sm_id = LsAdvanced, sm_label = ''Advanced'', sm_description = ''Developer settings, API keys, and system configuration.''\<rparr>]"

definition initial_section :: legacy_section where
  "initial_section = LsProfile"

definition section_click :: "nat \<Rightarrow> legacy_section \<Rightarrow> legacy_section" where
  "section_click k activeSection = (if k < length LEGACY_SECTIONS then sm_id (LEGACY_SECTIONS ! k) else activeSection)"

primrec section_header :: "legacy_section \<Rightarrow> jstr \<times> jstr" where
  "section_header LsProfile = (''Profile'', ''Your personal details and display preferences.'')"
| "section_header LsWorkspace = (''Workspace'', ''Settings that apply to everyone in this workspace.'')"
| "section_header LsConnectors = (''Connectors'', ''Manage integrations with email, calendar, messaging, and other services.'')"
| "section_header LsAdvanced = (''Advanced'', ''Developer settings, API keys, and system configuration.'')"

record connector_info =
  ci_id :: jstr
  ci_name :: jstr
  ci_description :: jstr
  ci_connected :: bool

definition LEGACY_CONNECTORS :: "connector_info list" where
  "LEGACY_CONNECTORS =
    [\<lparr>ci_id = ''email'', ci_name = ''Email'',
       ci_description = ''Connect your email account to enable inbox management recipes.'', ci_connected = True\<rparr>,
     \<lparr>ci_id = ''calendar'', ci_name = ''Calendar'',
       ci_description = ''Sync your calendar for scheduling and conflict detection.'', ci_connected = True\<rparr>,
     \<lparr>ci_id = ''slack'', ci_name = ''Slack'',
       ci_description = ''Receive notifications and interact with your assistant in Slack.'', ci_connected = False\<rparr>,
     \<lparr>ci_id = ''telegram'', ci_name = ''Telegram'',
       ci_description = ''Get updates and approvals through Telegram messages.'', ci_connected = False\<rparr>]"

definition connector_badge :: "connector_info \<Rightarrow> jstr option" where
  "connector_badge c = (if ci_connected c then Some ''Connected'' else None)"

definition connector_button :: "connector_info \<Rightarrow> jstr" where
  "connector_button c = (if ci_connected c then ''Manage'' else ''Connect'')"

section \<open>Contracts of the pages\<close>

lemma item_list_or: "items_or sample (Inl e) = sample" "items r = [] \<Longrightarrow> items_or sample (Inr r) = sample"
  "items r \<noteq> [] \<Longrightarrow> items_or sample (Inr r) = items r"
  by (simp_all add: items_or_def)

interpretation legacy_inbox: loaded_page legacy_inbox_init li_approvals li_loading legacy_inbox_load legacy_inbox_settle "\<lambda>_ s. s" legacy_inbox_clickable "\<lambda>_ _. False"
    "items_or SAMPLE_APPROVALS" "\<lambda>(c, b). filter (\<lambda>a. ar_id a \<noteq> legacy_inbox_call_id c)"
proof
  show "li_approvals (legacy_inbox_settle c b s) = (case (c, b) of (c, b) \<Rightarrow> filter (\<lambda>a. ar_id a \<noteq> legacy_inbox_call_id c)) (li_approvals s)"
    and "li_loading (legacy_inbox_settle c b s) = li_loading s" for c b s
    by (cases c; simp add: handleApprove_rest_def handleDeny_rest_def)+
  show "legacy_inbox_clickable c s \<Longrightarrow> \<not> li_loading s" for c s
    by (auto simp: legacy_inbox_clickable_def legacy_inbox_cards_def legacy_inbox_body_of_def)
qed (simp_all add: legacy_inbox_init_def legacy_inbox_load_def)

interpretation legacy_recipes: loaded_page legacy_recipes_init lr_recipes lr_loading legacy_recipes_load legacy_recipes_settle toggleSafety legacy_recipes_clickable
    safety_clickable "items_or SAMPLE_RECIPES"
    "\<lambda>(c, b) rs. case b of Inl e \<Rightarrow> rs | Inr updated \<Rightarrow> update_by rm_id (legacy_recipes_call_id c) (\<lambda>_. updated) rs"
proof
  show "lr_recipes (legacy_recipes_settle c b s) = (case (c, b) of (c, b) \<Rightarrow> \<lambda>rs. case b of Inl e \<Rightarrow> rs
      | Inr updated \<Rightarrow> update_by rm_id (legacy_recipes_call_id c) (\<lambda>_. updated) rs) (lr_recipes s)"
    and "lr_loading (legacy_recipes_settle c b s) = lr_loading s" for c b s
    by (cases c; cases b; simp add: handleActivate_rest_def handleDeactivate_rest_def)+
  show "legacy_recipes_clickable c s \<Longrightarrow> \<not> lr_loading s" for c s
    by (auto simp: legacy_recipes_clickable_def recipe_cards_def split: if_splits)
qed (simp_all add: legacy_recipes_init_def legacy_recipes_load_def toggleSafety_def)

interpretation legacy_research: loaded_page legacy_research_init lt_topics lt_loading legacy_research_load handleRefresh_rest "\<lambda>_ s. s" legacy_research_clickable
    "\<lambda>_ _. False" "items_or SAMPLE_TOPICS"
    "\<lambda>(i, b) ts. case b of Inl e \<Rightarrow> ts | Inr _ \<Rightarrow> update_by rt_id i (\<lambda>t. t\<lparr>rt_freshness := Fresh\<rparr>) ts"
  by unfold_locales (auto simp: legacy_research_init_def legacy_research_load_def handleRefresh_rest_def legacy_research_clickable_def split: sum.splits)

interpretation legacy_home: loaded_page INITIAL_STATE "\<lambda>s. s\<lparr>ld_loading := False\<rparr>" ld_loading legacy_home_load "\<lambda>_ _ s. s" "\<lambda>_ s. s"
    "\<lambda>_ _. False" "\<lambda>_ _. False" "\<lambda>r. legacy_home_load r INITIAL_STATE" "\<lambda>_ x. x"
proof
  show "(legacy_home_load r s)\<lparr>ld_loading := False\<rparr> = legacy_home_load r INITIAL_STATE"
    if "s\<lparr>ld_loading := False\<rparr> = INITIAL_STATE\<lparr>ld_loading := False\<rparr>" for r s
  proof -
    have "legacy_home_load r t = legacy_home_load r (t\<lparr>ld_loading := False\<rparr>)" for t by (simp add: legacy_home_load_def)
    with that have "legacy_home_load r s = legacy_home_load r INITIAL_STATE" by metis
    then show ?thesis by (simp add: legacy_home_load_def)
  qed
qed (simp_all add: INITIAL_STATE_def legacy_home_load_def)

interpretation legacy_health: loaded_page legacy_health_init "\<lambda>s. s\<lparr>lh_loading := False\<rparr>" lh_loading legacy_health_load "\<lambda>_ _ s. s" "\<lambda>_ s. s"
    "\<lambda>_ _. False" "\<lambda>_ _. False" "\<lambda>r. legacy_health_load r legacy_health_init" "\<lambda>_ x. x"
  by unfold_locales (simp_all add: legacy_health_init_def legacy_health_load_def)

interpretation legacy_security: loaded_page legacy_security_init "\<lambda>s. s\<lparr>ls_loading := False\<rparr>" ls_loading legacy_security_load "\<lambda>_ _ s. s" "\<lambda>_ s. s"
    "\<lambda>_ _. False" "\<lambda>_ _. False" "\<lambda>r. legacy_security_load r legacy_security_init" "\<lambda>_ x. x"
  by unfold_locales (simp_all add: legacy_security_init_def legacy_security_load_def)

section \<open>Inbox: decisions\<close>

lemma fold_filter_keys:
  "fold (\<lambda>(c, b). filter (\<lambda>a. key a \<noteq> f c)) hist xs = filter (\<lambda>a. key a \<notin> f ` fst ` set hist) xs"
  by (induction hist arbitrary: xs) (auto simp: split_beta image_iff)

lemma legacy_inbox_clickable_shown: "legacy_inbox_clickable c s \<Longrightarrow> \<exists>a \<in> set (legacy_inbox_cards s). ar_id a = legacy_inbox_call_id c"
  by (auto simp: legacy_inbox_clickable_def list_ex_iff)

text \<open>C4.
  The Inbox decides nothing on its own and hides nothing undecided: in every run of the mounted page the cards
  are exactly the loaded approvals (the samples when the load failed or was empty) whose approve or deny call has
  not settled, in the loaded order; every call the page ever sends comes from a click on a card that then showed
  that approval, and every click sends one call, settled once or still awaited.
\<close>

theorem legacy_inbox_shows_undecided:
  assumes "page_run legacy_inbox_enabled legacy_inbox_exec evs (await_start legacy_inbox_init) = Some p"
    and "\<not> aw_cancelled p" "\<not> li_loading (aw_state p)"
  shows "(\<exists>res. load_outcome evs = Some res \<and> legacy_inbox_cards (aw_state p)
        = filter (\<lambda>a. ar_id a \<notin> legacy_inbox_call_id ` fst ` set (settled_calls evs [])) (items_or SAMPLE_APPROVALS res))
    \<and> mset (sent_calls evs) = mset (map fst (settled_calls evs [])) + mset (aw_calls p)
    \<and> (\<forall>c \<in> set (sent_calls evs). \<exists>us vs q. evs = us @ Click c # vs
        \<and> page_run legacy_inbox_enabled legacy_inbox_exec us (await_start legacy_inbox_init) = Some q
        \<and> (\<exists>a \<in> set (legacy_inbox_cards (aw_state q)). ar_id a = legacy_inbox_call_id c))"
proof (intro conjI ballI)
  note run = assms(1) [unfolded legacy_inbox_enabled_def legacy_inbox_exec_def]
  have "legacy_inbox_cards (aw_state p) = li_approvals (aw_state p)"
    using assms(3) by (simp add: legacy_inbox_cards_def legacy_inbox_body_of_def)
  with legacy_inbox.content_of_run(2) [OF run assms(2,3)]
  show "\<exists>res. load_outcome evs = Some res \<and> legacy_inbox_cards (aw_state p)
      = filter (\<lambda>a. ar_id a \<notin> legacy_inbox_call_id ` fst ` set (settled_calls evs [])) (items_or SAMPLE_APPROVALS res)"
    by (simp add: fold_filter_keys)
  show "mset (sent_calls evs) = mset (map fst (settled_calls evs [])) + mset (aw_calls p)"
    by (rule legacy_inbox.clicks_conserved [OF run])
  show "\<exists>us vs q. evs = us @ Click c # vs \<and> page_run legacy_inbox_enabled legacy_inbox_exec us (await_start legacy_inbox_init) = Some q
      \<and> (\<exists>a \<in> set (legacy_inbox_cards (aw_state q)). ar_id a = legacy_inbox_call_id c)" if sent: "c \<in> set (sent_calls evs)" for c
  proof -
    obtain us vs q where q: "evs = us @ Click c # vs" "page_run legacy_inbox_enabled legacy_inbox_exec us (await_start legacy_inbox_init) = Some q"
      "legacy_inbox_clickable c (aw_state q)"
      using sent_call_click [OF run sent] unfolding legacy_inbox_enabled_def legacy_inbox_exec_def by metis
    from q(1,2) legacy_inbox_clickable_shown [OF q(3)] show ?thesis by (intro exI conjI)
  qed
qed

definition demo_approval :: "jstr \<Rightarrow> approval_request" where
  "demo_approval i = \<lparr>ar_id = i, ar_planNodeId = ''n'', ar_summary = ''s'', ar_riskLevel = RiskHigh, ar_requestedAt = ''t'',
     ar_agentRole = Executor, ar_status = ApprovalPending\<rparr>"

definition demo_answer :: "'i list \<Rightarrow> api_failure + 'i paginated_response" where
  "demo_answer xs = Inr \<lparr>items = xs, pg_total = int (length xs), pg_page = 1, pg_pageSize = 50\<rparr>"

definition demo_inbox_run :: "legacy_inbox_event list" where
  "demo_inbox_run = [LoadSettled (demo_answer [demo_approval ''a'', demo_approval ''b'', demo_approval ''c'']), Click (CallApprove ''a''),
     Click (CallDeny ''b''), CallSettled 1 (Inl (FetchFailed ''offline''))]"

definition demo_inbox :: "(legacy_inbox_state, legacy_inbox_call) await_page" where
  "demo_inbox = \<lparr>aw_state = \<lparr>li_approvals = [demo_approval ''a'', demo_approval ''c''], li_loading = False\<rparr>, aw_cancelled = False,
     aw_waiting = False, aw_calls = [CallApprove ''a'']\<rparr>"

lemmas demo_inbox_simps = demo_inbox_run_def demo_inbox_def demo_answer_def demo_approval_def legacy_inbox_enabled_def legacy_inbox_exec_def
  legacy_inbox_load_def legacy_inbox_clickable_def legacy_inbox_cards_def legacy_inbox_body_of_def handleDeny_rest_def items_or_def set_state_def

lemma demo_inbox_reached: "page_run legacy_inbox_enabled legacy_inbox_exec demo_inbox_run (await_start legacy_inbox_init) = Some demo_inbox"
  by (simp add: demo_inbox_simps await_start_def legacy_inbox_init_def)

lemma demo_inbox_mounted: "\<not> aw_cancelled demo_inbox" "\<not> li_loading (aw_state demo_inbox)"
  by (simp_all add: demo_inbox_def)

lemma legacy_inbox_shows_undecided_witness:
  "(\<exists>res. load_outcome demo_inbox_run = Some res \<and> legacy_inbox_cards (aw_state demo_inbox)
      = filter (\<lambda>a. ar_id a \<notin> legacy_inbox_call_id ` fst ` set (settled_calls demo_inbox_run [])) (items_or SAMPLE_APPROVALS res))
   \<and> map fst (settled_calls demo_inbox_run []) = [CallDeny ''b''] \<and> map ar_id (legacy_inbox_cards (aw_state demo_inbox)) = [''a'', ''c'']"
  using legacy_inbox_shows_undecided [OF demo_inbox_reached demo_inbox_mounted] by (simp add: demo_inbox_simps)

text \<open>A decision that the gateway refused takes its card away all the same.\<close>

lemma failed_decision_hides: "ar_id a \<notin> ar_id ` set (legacy_inbox_cards (legacy_inbox_settle c (Inl e) s)) \<or> ar_id a \<noteq> legacy_inbox_call_id c"
  by (cases c) (auto simp: handleApprove_rest_def handleDeny_rest_def legacy_inbox_cards_def legacy_inbox_body_of_def)

lemma legacy_inbox_header_counts:
  "pendingCount s = 0 \<longleftrightarrow> legacy_inbox_header s = ''Nothing needs your approval right now.''"
proof -
  obtain m r where "nat_str (pendingCount s) = digit_char m # r" using nat_str_Cons by blast
  moreover have "digit_char m \<noteq> CHR ''N''" using nat_str_digits [of "pendingCount s"] calculation by (auto simp: is_digit_def)
  ultimately show ?thesis by (simp add: legacy_inbox_header_def)
qed

section \<open>Recipes: the last answer counts\<close>

definition last_answer :: "(legacy_recipes_call \<times> (api_failure + recipe_model)) list \<Rightarrow> recipe_model \<Rightarrow> recipe_model" where
  "last_answer hist r = (case find (\<lambda>(c, b). legacy_recipes_call_id c = rm_id r \<and> \<not> isl b) (rev hist) of None \<Rightarrow> r | Some (c, b) \<Rightarrow> projr b)"

definition answers_match :: "(legacy_recipes_call \<times> (api_failure + recipe_model)) list \<Rightarrow> bool" where
  "answers_match hist \<longleftrightarrow> list_all (\<lambda>(c, b). case b of Inl e \<Rightarrow> True | Inr u \<Rightarrow> rm_id u = legacy_recipes_call_id c) hist"

lemma last_answer_snoc:
  "last_answer (hist @ [(c, b)]) r = (if legacy_recipes_call_id c = rm_id r \<and> \<not> isl b then projr b else last_answer hist r)"
  by (simp add: last_answer_def)

lemma last_answer_Nil: "last_answer [] r = r"
  by (simp add: last_answer_def)

lemma last_answer_id: "answers_match hist \<Longrightarrow> rm_id (last_answer hist r) = rm_id r"
  by (induction hist rule: rev_induct)
     (auto simp: last_answer_Nil last_answer_snoc answers_match_def split: sum.splits)

lemma fold_last_answer:
  assumes "answers_match hist"
  shows "fold (\<lambda>(c, b) rs. case b of Inl e \<Rightarrow> rs | Inr updated \<Rightarrow> update_by rm_id (legacy_recipes_call_id c) (\<lambda>_. updated) rs) hist rs
    = map (last_answer hist) rs"
  using assms
proof (induction hist rule: rev_induct)
  case Nil
  then show ?case by (simp add: last_answer_Nil map_idI)
next
  case (snoc x hist)
  obtain c b where x: "x = (c, b)" by (cases x)
  from snoc.prems have "answers_match hist" by (simp add: answers_match_def)
  with snoc.IH last_answer_id [OF this] show ?case
    by (cases b) (auto simp: x update_by_def last_answer_snoc)
qed

lemma legacy_recipes_clickable_shown: "legacy_recipes_clickable c s \<Longrightarrow> \<exists>r \<in> fst ` set (recipe_cards s). recipe_button r = c"
  by (force simp: legacy_recipes_clickable_def list_ex_iff)

text \<open>As long as the gateway answers about the recipe it was asked for, every card of the mounted Recipes page shows
  its recipe as the last successful answer about it reported it, or as loaded when there was none: failed calls
  change nothing, and cards are neither lost, added nor reordered.  An activation is sent only by a click on a
  card that shows the recipe as inactive, a deactivation only on one that shows it as active, one call per click.
\<close>

lemma legacy_recipes_show_last_answer:
  assumes "page_run legacy_recipes_enabled legacy_recipes_exec evs (await_start legacy_recipes_init) = Some p"
    and "\<not> aw_cancelled p" "\<not> lr_loading (aw_state p)" and "answers_match (settled_calls evs [])"
  shows "(\<exists>res. load_outcome evs = Some res
        \<and> map fst (recipe_cards (aw_state p)) = map (last_answer (settled_calls evs [])) (items_or SAMPLE_RECIPES res))
    \<and> mset (sent_calls evs) = mset (map fst (settled_calls evs [])) + mset (aw_calls p)
    \<and> (\<forall>c \<in> set (sent_calls evs). \<exists>us vs q. evs = us @ Click c # vs
        \<and> page_run legacy_recipes_enabled legacy_recipes_exec us (await_start legacy_recipes_init) = Some q
        \<and> (\<exists>r \<in> fst ` set (recipe_cards (aw_state q)). recipe_button r = c))"
proof (intro conjI ballI)
  note run = assms(1) [unfolded legacy_recipes_enabled_def legacy_recipes_exec_def]
  have "map fst (recipe_cards (aw_state p)) = lr_recipes (aw_state p)"
    using assms(3) by (simp add: recipe_cards_def comp_def)
  with legacy_recipes.content_of_run(2) [OF run assms(2,3)] fold_last_answer [OF assms(4)]
  show "\<exists>res. load_outcome evs = Some res
      \<and> map fst (recipe_cards (aw_state p)) = map (last_answer (settled_calls evs [])) (items_or SAMPLE_RECIPES res)"
    by simp
  show "mset (sent_calls evs) = mset (map fst (settled_calls evs [])) + mset (aw_calls p)"
    by (rule legacy_recipes.clicks_conserved [OF run])
  show "\<exists>us vs q. evs = us @ Click c # vs \<and> page_run legacy_recipes_enabled legacy_recipes_exec us (await_start legacy_recipes_init) = Some q
      \<and> (\<exists>r \<in> fst ` set (recipe_cards (aw_state q)). recipe_button r = c)" if sent: "c \<in> set (sent_calls evs)" for c
  proof -
    obtain us vs q where q: "evs = us @ Click c # vs" "page_run legacy_recipes_enabled legacy_recipes_exec us (await_start legacy_recipes_init) = Some q"
      "legacy_recipes_clickable c (aw_state q)"
      using sent_call_click [OF run sent] unfolding legacy_recipes_enabled_def legacy_recipes_exec_def by metis
    from q(1,2) legacy_recipes_clickable_shown [OF q(3)] show ?thesis by (intro exI conjI)
  qed
qed

definition demo_recipe_model :: "jstr \<Rightarrow> bool \<Rightarrow> recipe_model" where
  "demo_recipe_model i active = \<lparr>rm_id = i, rm_title = ''t'', rm_description = ''d'', rm_category = ''c'', rm_riskLevel = RiskLow,
     rm_isActive = active, rm_canAccess = [], rm_cannotAccess = [], rm_needsApprovalFor = [], rm_stopsIf = [], rm_squadId = None,
     rm_createdAt = ''t'', rm_updatedAt = ''t''\<rparr>"

text \<open>Two answers about one recipe that arrive in the other order than the calls were made.\<close>

definition demo_recipes_run :: "legacy_recipes_event list" where
  "demo_recipes_run = [LoadSettled (demo_answer [demo_recipe_model ''a'' False, demo_recipe_model ''b'' True]), Click (CallActivate ''a''),
     Click (CallActivate ''a''), Local ''b'', CallSettled 1 (Inr (demo_recipe_model ''a'' True)), CallSettled 0 (Inr (demo_recipe_model ''a'' False))]"

definition demo_recipes :: "(legacy_recipes_state, legacy_recipes_call) await_page" where
  "demo_recipes = \<lparr>aw_state = \<lparr>lr_recipes = [demo_recipe_model ''a'' False, demo_recipe_model ''b'' True], lr_expandedId = Some ''b'',
     lr_loading = False\<rparr>, aw_cancelled = False, aw_waiting = False, aw_calls = []\<rparr>"

lemmas demo_recipes_simps = demo_recipes_run_def demo_recipes_def demo_answer_def demo_recipe_model_def legacy_recipes_enabled_def legacy_recipes_exec_def
  legacy_recipes_load_def legacy_recipes_clickable_def safety_clickable_def recipe_cards_def recipe_button_def handleActivate_rest_def toggleSafety_def
  items_or_def set_state_def update_by_def

lemma demo_recipes_reached: "page_run legacy_recipes_enabled legacy_recipes_exec demo_recipes_run (await_start legacy_recipes_init) = Some demo_recipes"
  by (simp add: demo_recipes_simps await_start_def legacy_recipes_init_def)

lemma demo_recipes_mounted: "\<not> aw_cancelled demo_recipes" "\<not> lr_loading (aw_state demo_recipes)"
    "answers_match (settled_calls demo_recipes_run [])"
  by (simp_all add: demo_recipes_simps answers_match_def)

lemma legacy_recipes_show_last_answer_witness:
  "(\<exists>res. load_outcome demo_recipes_run = Some res \<and> map fst (recipe_cards (aw_state demo_recipes))
      = map (last_answer (settled_calls demo_recipes_run [])) (items_or SAMPLE_RECIPES res))
   \<and> map (rm_isActive \<circ> fst) (recipe_cards (aw_state demo_recipes)) = [False, True]
   \<and> map fst (settled_calls demo_recipes_run []) = [CallActivate ''a'', CallActivate ''a'']"
  using legacy_recipes_show_last_answer [OF demo_recipes_reached demo_recipes_mounted] by (simp add: demo_recipes_simps)

section \<open>Research, Home, Health and Security\<close>

lemma fold_refreshed:
  "fold (\<lambda>(i, b) ts. case b of Inl e \<Rightarrow> ts | Inr _ \<Rightarrow> update_by rt_id i (\<lambda>t. t\<lparr>rt_freshness := Fresh\<rparr>) ts) hist ts
   = map (\<lambda>t. if \<exists>b. (rt_id t, Inr b) \<in> set hist then t\<lparr>rt_freshness := Fresh\<rparr> else t) ts"
proof (induction hist arbitrary: ts)
  case Nil
  then show ?case by (simp add: map_idI)
next
  case (Cons x hist)
  obtain i b where x: "x = (i, b)" by (cases x)
  show ?case by (cases b) (auto simp: x Cons update_by_def)
qed

text \<open>A topic is fresh on the page when it was loaded as fresh or a refresh of it succeeded; a topic never gets
  older on screen, and nothing else of it changes.\<close>

lemma legacy_research_refreshes:
  assumes "page_run legacy_research_enabled legacy_research_exec evs (await_start legacy_research_init) = Some p"
    and "\<not> aw_cancelled p" "\<not> lt_loading (aw_state p)"
  shows "\<exists>res. load_outcome evs = Some res \<and> lt_topics (aw_state p)
    = map (\<lambda>t. if \<exists>b. (rt_id t, Inr b) \<in> set (settled_calls evs []) then t\<lparr>rt_freshness := Fresh\<rparr> else t) (items_or SAMPLE_TOPICS res)"
  using legacy_research.content_of_run(2) [OF assms(1) [unfolded legacy_research_enabled_def legacy_research_exec_def] assms(2,3)]
  by (simp add: fold_refreshed)

lemma legacy_research_counts: "freshCount s + staleCount s \<le> length (lt_topics s)"
proof -
  have "freshCount s + staleCount s = count_where (\<lambda>t. rt_freshness t = Fresh \<or> rt_freshness t = Stale) (lt_topics s)"
    unfolding freshCount_def staleCount_def by (rule count_where_disj [symmetric]) auto
  then show ?thesis using count_where_le by metis
qed

lemma fold_skip: "fold (\<lambda>_ y. y) xs x = x"
  by (induction xs) simp_all

text \<open>The parts of the Home and Security pages fail alone: what one part shows is a function of its own answer,
  and the page leaves its spinner whatever fails.\<close>

lemma legacy_home_shows_own_answers:
  assumes "page_run legacy_home_enabled legacy_home_exec evs (await_start INITIAL_STATE) = Some p"
    and "\<not> aw_cancelled p" "\<not> ld_loading (aw_state p)"
  shows "\<exists>r. load_outcome evs = Some r \<and> aw_state p = legacy_home_load r INITIAL_STATE"
proof -
  have "(aw_state p)\<lparr>ld_loading := False\<rparr> = aw_state p" using assms(3) by simp
  with legacy_home.content_of_run(2) [OF assms(1) [unfolded legacy_home_enabled_def legacy_home_exec_def] assms(2,3)] show ?thesis
    by (simp add: fold_skip)
qed

text \<open>On the Home and Health pages a health call that fails is not told from a healthy system.\<close>

lemma failed_health_looks_healthy:
  "ld_healthStatus (legacy_home_load (r\<lparr>hr_health := Inl e\<rparr>) INITIAL_STATE) = HbHealthy"
  "lh_status (legacy_health_load (r'\<lparr>hs_health := Inl e\<rparr>) s) = HbHealthy"
  by (simp_all add: legacy_home_load_def legacy_health_load_def fulfilled_or_def INITIAL_STATE_def)

text \<open>The timeline of the Health page tells the seven kinds it knows apart; every other kind, a policy violation
  or a denied approval among them, is labelled as a completed action.\<close>

lemma timeline_states_of_kinds:
  "tl_state (eventToTimelineEntry evt) = TlTaken \<longleftrightarrow> ev_kind evt \<notin>
     {EKActionProposed, EKActionBlocked, EKActionHealed, EKActionQuarantined, EKResearchUpdate, EKSquadHandoff}"
  by (cases "ev_kind evt") (simp_all add: eventToTimelineEntry_def or_else_def)

lemma violation_looks_completed:
  "ev_kind evt \<in> {EKPolicyViolation, EKApprovalDenied} \<Longrightarrow> timeline_label (tl_state (eventToTimelineEntry evt)) = ''Completed''"
  by (auto simp: eventToTimelineEntry_def or_else_def)

section \<open>Settings\<close>

lemma section_click_reaches: "\<exists>k. section_click k s = t"
proof -
  have "section_click 0 s = LsProfile" "section_click 1 s = LsWorkspace" "section_click 2 s = LsConnectors" "section_click 3 s = LsAdvanced"
    by (simp_all add: section_click_def LEGACY_SECTIONS_def)
  then show ?thesis by (cases t) blast+
qed

lemma section_headers_agree: "list_all (\<lambda>m. section_header (sm_id m) = (sm_label m, sm_description m)) LEGACY_SECTIONS"
  by (simp add: LEGACY_SECTIONS_def)

end
