(* ===== verification/Legacy_Memory.thy ===== *)
theory Legacy_Memory
  imports Legacy_Pages
begin

text \<open>
  The Memory page shown while the v2 flag is off (\<open>apps/web/src/pages/Memory.tsx\<close>): its state and load, the list
  view, and the graph view, which puts the entries on an ellipse and joins related ones.  Coordinates are real
  numbers; the categories are the own keys of the style table.
\<close>

section \<open>State and load\<close>

definition SAMPLE_ENTRIES :: "memory_entry list" where
  "SAMPLE_ENTRIES =
    [\<lparr>me_id = ''mem-1'', me_content = ''User prefers morning meetings before 11 AM'', me_category = ''preference'',
       me_source = ''Calendar Manager recipe'', me_confidence = 19 / 20, me_createdAt = ''2026-03-10T09:00:00Z'', me_updatedAt = ''2026-03-28T10:15:00Z'',
       me_connections = [''mem-2'', ''mem-5'']\<rparr>,
     \<lparr>me_id = ''mem-2'', me_content = ''Weekly team standup is every Tuesday at 9:30 AM'', me_category = ''fact'',
       me_source = ''Calendar sync'', me_confidence = 1, me_createdAt = ''2026-03-05T08:00:00Z'', me_updatedAt = ''2026-03-29T09:30:00Z'',
       me_connections = [''mem-1'']\<rparr>,
     \<lparr>me_id = ''mem-3'', me_content = ''User's primary email for work is on the corporate domain'', me_category = ''fact'',
       me_source = ''Email Triage recipe'', me_confidence = 99 / 100, me_createdAt = ''2026-03-01T12:00:00Z'', me_updatedAt = ''2026-03-25T14:00:00Z'',
       me_connections = []\<rparr>,
     \<lparr>me_id = ''mem-4'', me_content = ''User is interested in sustainable technology and green computing'', me_category = ''interest'',
       me_source = ''Research Monitor recipe'', me_confidence = 39 / 50, me_createdAt = ''2026-03-15T16:00:00Z'', me_updatedAt = ''2026-03-30T11:00:00Z'',
       me_connections = [''mem-6'']\<rparr>,
     \<lparr>me_id = ''mem-5'', me_content = ''User avoids scheduling on Friday afternoons'', me_category = ''preference'',
       me_source = ''Calendar Manager recipe'', me_confidence = 22 / 25, me_createdAt = ''2026-03-12T13:00:00Z'', me_updatedAt = ''2026-03-27T15:30:00Z'',
       me_connections = [''mem-1'', ''mem-2'']\<rparr>,
     \<lparr>me_id = ''mem-6'', me_content = ''Quarterly report is due on the last business day of each quarter'', me_category = ''fact'',
       me_source = ''Email Triage recipe'', me_confidence = 23 / 25, me_createdAt = ''2026-03-20T10:00:00Z'', me_updatedAt = ''2026-03-31T08:00:00Z'',
       me_connections = [''mem-4'']\<rparr>]"

datatype view_mode = ViewList | ViewGraph

record legacy_memory_state =
  lm_entries :: "memory_entry list"
  lm_viewMode :: view_mode
  lm_loading :: bool

definition legacy_memory_init :: legacy_memory_state where
  "legacy_memory_init = \<lparr>lm_entries = [], lm_viewMode = ViewList, lm_loading = True\<rparr>"

definition legacy_memory_load_call :: endpoint where
  "legacy_memory_load_call = MemoryList (page_of 100)"

definition legacy_memory_load :: "api_failure + memory_entry paginated_response \<Rightarrow> legacy_memory_state \<Rightarrow> legacy_memory_state" where
  "legacy_memory_load res prev = prev\<lparr>lm_entries := items_or SAMPLE_ENTRIES res, lm_loading := False\<rparr>"

definition toggleView :: "view_mode \<Rightarrow> legacy_memory_state \<Rightarrow> legacy_memory_state" where
  "toggleView mode prev = prev\<lparr>lm_viewMode := mode\<rparr>"

type_synonym legacy_memory_event = "(api_failure + memory_entry paginated_response, unit, unit, view_mode) await_event"

definition legacy_memory_enabled :: "legacy_memory_event \<Rightarrow> (legacy_memory_state, unit) await_page \<Rightarrow> bool" where
  "legacy_memory_enabled = await_enabled (\<lambda>_ _. False) (\<lambda>_ _. True)"

definition legacy_memory_exec :: "legacy_memory_event \<Rightarrow> (legacy_memory_state, unit) await_page \<Rightarrow> (legacy_memory_state, unit) await_page" where
  "legacy_memory_exec = await_exec legacy_memory_load (\<lambda>_ _ s. s) toggleView"

section \<open>List view\<close>

definition CATEGORY_STYLES :: "(jstr \<times> jstr \<times> jstr) list" where
  "CATEGORY_STYLES = [(''preference'', ''Preference'', ''bg-indigo-100 text-indigo-800''),
     (''fact'', ''Fact'', ''bg-emerald-100 text-emerald-800''), (''interest'', ''Interest'', ''bg-amber-100 text-amber-800'')]"

definition categoryStyle :: "jstr \<Rightarrow> jstr \<times> jstr" where
  "categoryStyle category = or_else (map_of CATEGORY_STYLES category) (category, ''bg-neutral-100 text-neutral-700'')"

definition entry_percent :: "memory_entry \<Rightarrow> int" where
  "entry_percent e = js_round (me_confidence e * 100)"

definition entry_bar :: "memory_entry \<Rightarrow> bar_colour" where
  "entry_bar e = (if entry_percent e \<ge> 80 then BarGreen else if entry_percent e \<ge> 50 then BarAmber else BarRed)"

definition connections_text :: "memory_entry \<Rightarrow> jstr option" where
  "connections_text e = (if length (me_connections e) > 0
     then Some (nat_str (length (me_connections e)) @ '' '' @ (if length (me_connections e) = 1 then ''connection'' else ''connections''))
     else None)"

section \<open>Graph view\<close>

definition node_angle :: "nat \<Rightarrow> nat \<Rightarrow> real" where
  "node_angle n i = 2 * pi * real i / real n - pi / 2"

definition node_x :: "nat \<Rightarrow> nat \<Rightarrow> real" where
  "node_x n i = 400 + 280 * cos (node_angle n i)"

definition node_y :: "nat \<Rightarrow> nat \<Rightarrow> real" where
  "node_y n i = 250 + 200 * sin (node_angle n i)"

definition node_radius :: "memory_entry \<Rightarrow> real" where
  "node_radius e = 20 + of_rat (me_confidence e) * 15"

definition label_y :: "nat \<Rightarrow> nat \<Rightarrow> memory_entry \<Rightarrow> real" where
  "label_y n i e = node_y n i + node_radius e + 16"

definition truncate_text :: "jstr \<Rightarrow> nat \<Rightarrow> jstr" where
  "truncate_text txt maxLen = (if length txt \<le> maxLen then txt else take (maxLen - 1) txt @ u_hellip)"

definition node_label :: "memory_entry \<Rightarrow> jstr" where
  "node_label e = truncate_text (me_content e) 30"

definition idToIndex :: "memory_entry list \<Rightarrow> (jstr, nat) jmap" where
  "idToIndex entries = fold (\<lambda>(i, e). jm_set (me_id e) i) (enumerate 0 entries) []"

record graph_line =
  gl_key :: jstr
  gl_from :: nat
  gl_to :: nat

definition entry_line :: "memory_entry list \<Rightarrow> nat \<Rightarrow> memory_entry \<Rightarrow> jstr \<Rightarrow> graph_line option" where
  "entry_line entries i entry connId = (case jm_get (idToIndex entries) connId of None \<Rightarrow> None
     | Some j \<Rightarrow> if j \<le> i then None else Some \<lparr>gl_key = me_id entry @ ''-'' @ connId, gl_from = i, gl_to = j\<rparr>)"

definition graph_lines :: "memory_entry list \<Rightarrow> graph_line list" where
  "graph_lines entries =
     concat (map (\<lambda>(i, entry). List.map_filter (entry_line entries i entry) (me_connections entry)) (enumerate 0 entries))"

interpretation legacy_memory: loaded_page legacy_memory_init lm_entries lm_loading legacy_memory_load "\<lambda>_ _ s. s" toggleView "\<lambda>_ _. False"
    "\<lambda>_ _. True" "items_or SAMPLE_ENTRIES" "\<lambda>_ x. x"
  by unfold_locales (simp_all add: legacy_memory_init_def legacy_memory_load_def toggleView_def)

text \<open>Changing the view, before or after the load, never changes what is remembered.\<close>

lemma legacy_memory_entries_loaded:
  assumes "page_run legacy_memory_enabled legacy_memory_exec evs (await_start legacy_memory_init) = Some p"
    and "\<not> aw_cancelled p" "\<not> lm_loading (aw_state p)"
  shows "\<exists>res. load_outcome evs = Some res \<and> lm_entries (aw_state p) = items_or SAMPLE_ENTRIES res"
  using legacy_memory.content_of_run(2) [OF assms(1) [unfolded legacy_memory_enabled_def legacy_memory_exec_def] assms(2,3)] by (simp add: fold_skip)

section \<open>Lines\<close>

lemma idToIndex_snoc: "jm_get (idToIndex (es @ [e])) k = (if k = me_id e then Some (length es) else jm_get (idToIndex es) k)"
  by (simp add: idToIndex_def enumerate_append_eq jm_get_set)

lemma idToIndex_get:
  assumes "distinct (map me_id es)"
  shows "jm_get (idToIndex es) k = Some j \<longleftrightarrow> j < length es \<and> me_id (es ! j) = k"
  using assms
proof (induction es arbitrary: j rule: rev_induct)
  case Nil
  then show ?case by (simp add: idToIndex_def jm_get_def)
next
  case (snoc e es)
  then have fresh: "me_id e \<notin> me_id ` set es" and IH: "\<And>j. jm_get (idToIndex es) k = Some j \<longleftrightarrow> j < length es \<and> me_id (es ! j) = k"
    by auto
  have "me_id (es ! j) \<noteq> me_id e" if "j < length es" using fresh nth_mem [OF that] by (metis image_eqI)
  then show ?case by (auto simp: idToIndex_snoc IH nth_append less_Suc_eq)
qed

definition line_ends :: "graph_line \<Rightarrow> nat \<times> nat" where
  "line_ends l = (gl_from l, gl_to l)"

definition conn_ends :: "memory_entry list \<Rightarrow> nat \<Rightarrow> jstr \<Rightarrow> (nat \<times> nat) option" where
  "conn_ends es i c = (case jm_get (idToIndex es) c of None \<Rightarrow> None | Some j \<Rightarrow> if j \<le> i then None else Some (i, j))"

lemma entry_line_ends: "map_option line_ends (entry_line es i e c) = conn_ends es i c"
  by (simp add: entry_line_def conn_ends_def line_ends_def split: option.splits)

lemma conn_ends_iff:
  assumes "distinct (map me_id es)"
  shows "conn_ends es i c = Some (i', j) \<longleftrightarrow> i' = i \<and> i < j \<and> j < length es \<and> me_id (es ! j) = c"
  using idToIndex_get [OF assms, of c j] by (auto simp: conn_ends_def split: option.splits)

lemma map_map_filter: "map f (List.map_filter g xs) = List.map_filter (\<lambda>x. map_option f (g x)) xs"
  by (induction xs) (auto simp: List.map_filter_simps split: option.splits)

lemma set_map_filter_iff: "y \<in> set (List.map_filter g xs) \<longleftrightarrow> (\<exists>x \<in> set xs. g x = Some y)"
  by (force simp: List.map_filter_def)

lemma distinct_map_filter:
  assumes "distinct xs" and "\<And>x x' y. g x = Some y \<Longrightarrow> g x' = Some y \<Longrightarrow> x = x'"
  shows "distinct (List.map_filter g xs)"
  using assms by (induction xs) (auto simp: List.map_filter_simps set_map_filter_iff split: option.splits)

lemma graph_line_ends:
  "map line_ends (graph_lines es)
   = concat (map (\<lambda>i. List.map_filter (conn_ends es i) (me_connections (es ! i))) [0..<length es])"
proof -
  have "enumerate 0 es = map (\<lambda>i. (i, es ! i)) [0..<length es]"
    by (rule nth_equalityI) (simp_all add: nth_enumerate_eq)
  then show ?thesis unfolding graph_lines_def map_concat by (simp add: map_map_filter comp_def entry_line_ends)
qed

lemma graph_lines_iff:
  assumes "distinct (map me_id es)"
  shows "(i, j) \<in> set (map line_ends (graph_lines es)) \<longleftrightarrow> i < j \<and> j < length es \<and> me_id (es ! j) \<in> set (me_connections (es ! i))"
  unfolding graph_line_ends by (auto simp: set_map_filter_iff conn_ends_iff [OF assms])

lemma distinct_concat_tagged:
  assumes "distinct ts" and "\<And>t. t \<in> set ts \<Longrightarrow> distinct (f t)" and "\<And>t y. t \<in> set ts \<Longrightarrow> y \<in> set (f t) \<Longrightarrow> tag y = t"
  shows "distinct (concat (map f ts))"
  using assms
proof (induction ts)
  case (Cons t ts)
  have "tag y \<in> set ts" if "y \<in> set (concat (map f ts))" for y
    using that Cons.prems(3) by auto
  then show ?case using Cons by (auto dest: Cons.prems(3) [of t])
qed simp

lemma graph_lines_distinct:
  assumes "distinct (map me_id es)" "\<forall>e \<in> set es. distinct (me_connections e)"
  shows "distinct (map line_ends (graph_lines es))"
  unfolding graph_line_ends
proof (rule distinct_concat_tagged [where tag = fst])
  fix i assume i: "i \<in> set [0..<length es]"
  have inj: "conn_ends es i c = Some y \<Longrightarrow> conn_ends es i c' = Some y \<Longrightarrow> c = c'" for c c' y
    by (cases y) (auto simp: conn_ends_iff [OF assms(1)])
  show "distinct (List.map_filter (conn_ends es i) (me_connections (es ! i)))"
    using i assms(2) by (intro distinct_map_filter inj) auto
  show "fst y = i" if "y \<in> set (List.map_filter (conn_ends es i) (me_connections (es ! i)))" for y
    using that conn_ends_iff [OF assms(1)] by (metis set_map_filter_iff prod.collapse)
qed simp

text \<open>C29.
  With distinct identifiers, connections that name an entry once, and connections that are mutual, as the page's
  caption says of related memories, the graph joins exactly the related entries, each pair by one line, whichever
  end it is drawn from: no relation is missing, none is drawn twice and none is invented.  No entry is joined to itself.
\<close>

theorem graph_joins_related_once:
  assumes "distinct (map me_id es)" and "\<forall>e \<in> set es. distinct (me_connections e)"
    and "\<forall>e \<in> set es. \<forall>f \<in> set es. me_id f \<in> set (me_connections e) \<longrightarrow> me_id e \<in> set (me_connections f)"
    and "i < length es" "j < length es"
  shows "length (filter (\<lambda>l. {gl_from l, gl_to l} = {i, j}) (graph_lines es))
    = (if i \<noteq> j \<and> me_id (es ! j) \<in> set (me_connections (es ! i)) then 1 else 0)"
proof -
  let ?P = "\<lambda>p. {fst p, snd p} = {i, j}"
  let ?L = "map line_ends (graph_lines es)"
  have mutual: "me_id (es ! j) \<in> set (me_connections (es ! i)) \<longleftrightarrow> me_id (es ! i) \<in> set (me_connections (es ! j))"
    using assms(3-5) by (meson nth_mem)
  have upward: "fst p < snd p" if "p \<in> set ?L" for p
    using that graph_lines_iff [OF assms(1), of "fst p" "snd p"] by simp
  have "length (filter (\<lambda>l. {gl_from l, gl_to l} = {i, j}) (graph_lines es)) = length (filter ?P ?L)"
    by (simp add: filter_map comp_def line_ends_def)
  also have "\<dots> = card (set (filter ?P ?L))"
    using graph_lines_distinct [OF assms(1,2)] by (simp only: distinct_card distinct_filter)
  also have "set (filter ?P ?L) = {(min i j, max i j)} \<inter> set ?L"
  proof -
    have "?P p \<longleftrightarrow> p = (min i j, max i j)" if "fst p < snd p" for p
      using that by (cases p) (auto simp: doubleton_eq_iff min_def max_def)
    then have "{p \<in> set ?L. ?P p} = {(min i j, max i j)} \<inter> set ?L" using upward by blast
    then show ?thesis by (simp only: set_filter)
  qed
  also have "(min i j, max i j) \<in> set ?L \<longleftrightarrow> i \<noteq> j \<and> me_id (es ! j) \<in> set (me_connections (es ! i))"
    unfolding graph_lines_iff [OF assms(1)] using assms(4,5) mutual
    by (cases i j rule: linorder_cases) (simp_all add: min_def max_def)
  then have "card ({(min i j, max i j)} \<inter> set ?L) = (if i \<noteq> j \<and> me_id (es ! j) \<in> set (me_connections (es ! i)) then 1 else 0)"
    by (simp add: Int_insert_left)
  finally show ?thesis .
qed

definition demo_memory :: "jstr \<Rightarrow> jstr list \<Rightarrow> memory_entry" where
  "demo_memory i cs = \<lparr>me_id = i, me_content = ''c'', me_category = ''fact'', me_source = ''s'', me_confidence = 1, me_createdAt = ''t'',
     me_updatedAt = ''t'', me_connections = cs\<rparr>"

definition demo_memories :: "memory_entry list" where
  "demo_memories = [demo_memory ''a'' [''b'', ''c''], demo_memory ''b'' [''a''], demo_memory ''c'' [''a'']]"

lemma graph_joins_related_once_witness:
  "length (filter (\<lambda>l. {gl_from l, gl_to l} = {2, 0}) (graph_lines demo_memories)) = 1
   \<and> map line_ends (graph_lines demo_memories) = [(0, 1), (0, 2)]"
proof
  show "length (filter (\<lambda>l. {gl_from l, gl_to l} = {2, 0}) (graph_lines demo_memories)) = 1"
    using graph_joins_related_once [of demo_memories 2 0] by (simp add: demo_memories_def demo_memory_def)
  show "map line_ends (graph_lines demo_memories) = [(0, 1), (0, 2)]"
    by (simp add: demo_memories_def demo_memory_def graph_lines_def idToIndex_def entry_line_def line_ends_def jm_get_def List.map_filter_simps)
qed

text \<open>A relation that only the later entry names is not drawn; the sample records have one.\<close>

lemma one_sided_relation_missing:
  "me_id (SAMPLE_ENTRIES ! 1) \<in> set (me_connections (SAMPLE_ENTRIES ! 4)) \<and> (1, 4) \<notin> set (map line_ends (graph_lines SAMPLE_ENTRIES))"
proof -
  have "distinct (map me_id SAMPLE_ENTRIES)" by (simp add: SAMPLE_ENTRIES_def)
  from graph_lines_iff [OF this, of 1 4] show ?thesis by (simp add: SAMPLE_ENTRIES_def)
qed

section \<open>Places\<close>

lemma node_radius_bounds: "0 \<le> me_confidence e \<Longrightarrow> me_confidence e \<le> 1 \<Longrightarrow> 20 \<le> node_radius e \<and> node_radius e \<le> 35"
  by (simp add: node_radius_def)

lemma node_x_bounds: "120 \<le> node_x n i" "node_x n i \<le> 680"
  using cos_ge_minus_one [of "node_angle n i"] cos_le_one [of "node_angle n i"] unfolding node_x_def by linarith+

lemma node_y_bounds: "50 \<le> node_y n i" "node_y n i \<le> 450"
  using sin_ge_minus_one [of "node_angle n i"] sin_le_one [of "node_angle n i"] unfolding node_y_def by linarith+

lemma nodes_apart:
  assumes "i < n" "j < n" "node_x n i = node_x n j" "node_y n i = node_y n j"
  shows "i = j"
proof -
  have "sin (node_angle n i) = sin (node_angle n j) \<and> cos (node_angle n i) = cos (node_angle n j)"
    using assms(3,4) by (simp add: node_x_def node_y_def)
  then obtain m :: int where m: "node_angle n i = node_angle n j + 2 * pi * of_int m" using sin_cos_eq_iff by blast
  then have "2 * pi * (real i / real n) = 2 * pi * (real j / real n + of_int m)"
    by (simp add: node_angle_def algebra_simps)
  then have "real i / real n = real j / real n + of_int m" using pi_gt_zero by (metis mult_cancel_left mult_eq_0_iff less_irrefl zero_neq_numeral)
  then have "real i = real j + of_int m * real n" using assms(1) by (simp add: field_simps)
  then have "real_of_int (int i) = real_of_int (int j + m * int n)" by simp
  then have eq: "int i = int j + m * int n" by (simp only: of_int_eq_iff)
  have "\<bar>int i - int j\<bar> < int n" using assms(1,2) by linarith
  with eq have "\<bar>m * int n\<bar> < int n" by simp
  then have "\<bar>m\<bar> * int n < 1 * int n" by (simp add: abs_mult)
  then have "\<bar>m\<bar> < 1" by (rule mult_right_less_imp_less) simp
  then have "m = 0" by simp
  with eq show ?thesis by simp
qed

text \<open>However many entries there are, the circle of every entry with a confidence between 0 and 1 lies inside the
  drawing, and no two entries are put on the same place.
\<close>

lemma graph_nodes_fit:
  assumes "i < length es" "0 \<le> me_confidence (es ! i)" "me_confidence (es ! i) \<le> 1"
  shows "0 \<le> node_x (length es) i - node_radius (es ! i) \<and> node_x (length es) i + node_radius (es ! i) \<le> 800
    \<and> 0 \<le> node_y (length es) i - node_radius (es ! i) \<and> node_y (length es) i + node_radius (es ! i) \<le> 500
    \<and> (\<forall>j < length es. (node_x (length es) j, node_y (length es) j) = (node_x (length es) i, node_y (length es) i) \<longrightarrow> j = i)"
  using node_radius_bounds [OF assms(2,3)] node_x_bounds [of "length es" i] node_y_bounds [of "length es" i]
    nodes_apart [of _ "length es" i] assms(1) by auto

lemma graph_nodes_fit_witness:
  "node_y (length SAMPLE_ENTRIES) 3 + node_radius (SAMPLE_ENTRIES ! 3) \<le> 500 \<and> length SAMPLE_ENTRIES = 6"
  using graph_nodes_fit [of 3 SAMPLE_ENTRIES] by (simp add: SAMPLE_ENTRIES_def)

text \<open>The text under the circle can leave the drawing: with two certain entries the lower one's base line is
  below its edge.\<close>

lemma label_below_edge: "me_confidence e = 1 \<Longrightarrow> label_y 2 1 e > 500"
  by (simp add: label_y_def node_radius_def node_y_def node_angle_def)

lemma truncate_length: "0 < m \<Longrightarrow> length (truncate_text t m) \<le> (if length t \<le> m then m else m - 1 + length u_hellip)"
  by (simp add: truncate_text_def)

end
