(* ===== verification/App_Shell.thy ===== *)
theory App_Shell
  imports Api_Client
begin

text \<open>
  The shell of the web application (\<open>apps/web/src/App.tsx\<close>, \<open>pages/v2/registry.tsx\<close>,
  \<open>components/RouteErrorBoundary.tsx\<close>, \<open>components/RouteError.tsx\<close>, \<open>pages/v2/_shared/WorkspaceTopbar.tsx\<close>): the
  flag that switches to the v2 pages, the registry of routes, the error boundary around each of them, and
  navigation.  Which registered path a location matches is decided by the router, a parameter.  What React does with
  components is modelled as far as the shell relies on it: mounting, the way of an exception through the boundaries
  around the place where it was thrown, and what is kept when the location changes.  Markup is not modelled.
\<close>

section \<open>The registry\<close>

datatype legacy_page = LHome | LInbox | LRecipes | LResearch | LMemory | LHealth | LSecurity | LSettings

datatype page_component = V2Page v2_route | LegacyPage legacy_page

text \<open>A component is a page or another component inside a boundary, which may be given a name.\<close>

datatype component = Leaf page_component | Bounded "jstr option" component

definition withBoundary :: "jstr \<Rightarrow> component \<Rightarrow> component" where
  "withBoundary name Inner = Bounded (Some name) Inner"

definition lazy_page :: "v2_route \<Rightarrow> component" where
  "lazy_page r = Leaf (V2Page r)"

definition V2_ROUTE_REGISTRY :: "(jstr \<times> component) list" where
  "V2_ROUTE_REGISTRY =
     [(''/'', withBoundary ''Home'' (lazy_page RHome)),
      (''/inbox'', withBoundary ''Inbox'' (lazy_page RInbox)),
      (''/recipes'', withBoundary ''Recipes'' (lazy_page RRecipes)),
      (''/research'', withBoundary ''Research'' (lazy_page RResearch)),
      (''/memory'', withBoundary ''Memory'' (lazy_page RMemory)),
      (''/health'', withBoundary ''Health'' (lazy_page RHealth)),
      (''/security'', withBoundary ''Security'' (lazy_page RSecurity)),
      (''/settings'', withBoundary ''Settings'' (lazy_page RSettings)),
      (''/commitments'', withBoundary ''Commitments'' (lazy_page RCommitments)),
      (''/audit'', withBoundary ''Audit'' (lazy_page RAudit))]"

definition ENABLE_V2_UI :: "vite_env \<Rightarrow> bool" where
  "ENABLE_V2_UI env \<longleftrightarrow> env ''VITE_ENABLE_V2_UI'' = Some ''true''"

definition pickPage :: "vite_env \<Rightarrow> jstr \<Rightarrow> component \<Rightarrow> component" where
  "pickPage env path legacy = (if \<not> ENABLE_V2_UI env then legacy
     else case map_of V2_ROUTE_REGISTRY path of None \<Rightarrow> legacy | Some c \<Rightarrow> c)"

definition legacy_routes :: "(jstr \<times> legacy_page) list" where
  "legacy_routes = [(''/'', LHome), (''/inbox'', LInbox), (''/recipes'', LRecipes), (''/research'', LResearch),
     (''/memory'', LMemory), (''/health'', LHealth), (''/security'', LSecurity), (''/settings'', LSettings)]"

definition NAV_ITEMS :: "(jstr \<times> jstr) list" where
  "NAV_ITEMS = [(''/'', ''Home''), (''/inbox'', ''Inbox''), (''/recipes'', ''Recipes''), (''/research'', ''Research''),
     (''/memory'', ''Memory''), (''/health'', ''Health''), (''/security'', ''Security''), (''/settings'', ''Settings'')]"

text \<open>The links of the v2 top bar, with the path they lead to.\<close>

definition TOPBAR_ITEMS :: "(jstr \<times> jstr option) list" where
  "TOPBAR_ITEMS = [(''Workspace'', Some ''/''), (''Inbox'', Some ''/inbox''), (''Commitments'', Some ''/commitments''),
     (''Audit'', Some ''/audit''), (''Research'', Some ''/research''), (''Rules'', Some ''/security'')]"

definition topbar_active :: "jstr \<Rightarrow> jstr \<times> jstr option \<Rightarrow> bool" where
  "topbar_active pathname item = (case snd item of None \<Rightarrow> False | Some p \<Rightarrow> pathname = p)"

section \<open>What a location shows\<close>

type_synonym router = "jstr \<Rightarrow> jstr \<Rightarrow> bool"

datatype app_element = Page component | NotYet | Nothing_matched

definition select_route :: "router \<Rightarrow> (jstr \<times> 'c) list \<Rightarrow> jstr \<Rightarrow> 'c option" where
  "select_route matches table loc = map_option snd (find (\<lambda>(p, c). matches p loc) table)"

definition app_element_at :: "vite_env \<Rightarrow> router \<Rightarrow> jstr \<Rightarrow> app_element" where
  "app_element_at env matches loc =
     (if ENABLE_V2_UI env
      then (case select_route matches V2_ROUTE_REGISTRY loc of None \<Rightarrow> NotYet | Some c \<Rightarrow> Page c)
      else (case select_route matches legacy_routes loc of None \<Rightarrow> Nothing_matched | Some l \<Rightarrow> Page (Leaf (LegacyPage l))))"

section \<open>The error boundary\<close>

text \<open>What can be thrown: an error with a message, a string, a value with a JSON text, or one without, whose \<open>String\<close> is
  given.  The message of an object that is no error is its field of that name, if that is a text.\<close>

datatype thrown_value = ThrownError jstr | ThrownString jstr | ThrownJson json | ThrownCyclic jstr

fun error_message :: "thrown_value \<Rightarrow> jstr option" where
  "error_message (ThrownError m) = Some m"
| "error_message (ThrownJson (JObj kvs)) = (case map_of (rev kvs) ''message'' of Some (JStr m) \<Rightarrow> Some m | _ \<Rightarrow> None)"
| "error_message _ = None"

record boundary =
  hasError :: bool
  bd_error :: "thrown_value option"

definition boundary_init :: boundary where
  "boundary_init = \<lparr>hasError = False, bd_error = None\<rparr>"

definition getDerivedStateFromError :: "thrown_value \<Rightarrow> boundary" where
  "getDerivedStateFromError error = \<lparr>hasError = True, bd_error = Some error\<rparr>"

definition boundary_reset :: "boundary \<Rightarrow> boundary" where
  "boundary_reset b = b\<lparr>hasError := False, bd_error := None\<rparr>"

datatype rendered = RenderChildren | RenderFallback jstr jstr

definition boundary_render :: "jstr option \<Rightarrow> boundary \<Rightarrow> rendered" where
  "boundary_render route b = (if \<not> hasError b then RenderChildren
     else RenderFallback (case route of None \<Rightarrow> ''this page'' | Some n \<Rightarrow> n)
       (case Option.bind (bd_error b) error_message of None \<Rightarrow> ''Unknown render exception'' | Some m \<Rightarrow> m))"

text \<open>The text of the error view (\<open>errorMessage\<close> of \<open>RouteError\<close>).\<close>

primrec errorMessage :: "thrown_value \<Rightarrow> jstr" where
  "errorMessage (ThrownError m) = m"
| "errorMessage (ThrownString t) = t"
| "errorMessage (ThrownJson j) = stringify j"
| "errorMessage (ThrownCyclic t) = t"

section \<open>Mounted components\<close>

text \<open>A mounted component keeps the state of its boundaries.  An exception thrown while a page is rendered goes to the
  nearest boundary around it, which takes its new state from \<open>getDerivedStateFromError\<close> and is rendered again.  When it
  renders its children once more they throw once more, and the exception goes on to the boundary around it; one
  that meets no boundary leaves the tree (\<^const>\<open>None\<close>).\<close>

datatype tree = Node page_component | Boundary "jstr option" boundary tree

primrec mount :: "component \<Rightarrow> tree" where
  "mount (Leaf p) = Node p"
| "mount (Bounded n c) = Boundary n boundary_init (mount c)"

datatype shown = Children page_component | Fallback jstr jstr

primrec tree_shows :: "tree \<Rightarrow> shown" where
  "tree_shows (Node p) = Children p"
| "tree_shows (Boundary n b t) =
     (case boundary_render n b of RenderChildren \<Rightarrow> tree_shows t | RenderFallback r m \<Rightarrow> Fallback r m)"

primrec throw_in :: "thrown_value \<Rightarrow> tree \<Rightarrow> tree option" where
  "throw_in v (Node p) = None"
| "throw_in v (Boundary n b t) =
     (case throw_in v t of Some t' \<Rightarrow> Some (Boundary n b t')
      | None \<Rightarrow>
         let b' = getDerivedStateFromError v
         in (case boundary_render n b' of RenderChildren \<Rightarrow> None | RenderFallback r m \<Rightarrow> Some (Boundary n b' t)))"

text \<open>The button of a fallback resets its boundary; the children it then renders are mounted anew.\<close>

primrec fresh_tree :: "tree \<Rightarrow> tree" where
  "fresh_tree (Node p) = Node p"
| "fresh_tree (Boundary n b t) = Boundary n boundary_init (fresh_tree t)"

primrec try_again :: "tree \<Rightarrow> tree" where
  "try_again (Node p) = Node p"
| "try_again (Boundary n b t) =
     (case boundary_render n b of RenderChildren \<Rightarrow> Boundary n b (try_again t)
      | RenderFallback r m \<Rightarrow> Boundary n (boundary_reset b) (fresh_tree t))"

section \<open>The application\<close>

text \<open>\<open>alive\<close> is false once an exception has left the tree: React then removes the whole application.\<close>

record app_state =
  location :: jstr
  app_tree :: "tree option"
  alive :: bool

definition tree_of :: "app_element \<Rightarrow> tree option" where
  "tree_of el = (case el of Page c \<Rightarrow> Some (mount c) | _ \<Rightarrow> None)"


datatype screen = White | Screen shown | NotYetScreen | EmptyShell

definition screen_of :: "vite_env \<Rightarrow> router \<Rightarrow> app_state \<Rightarrow> screen" where
  "screen_of env matches s = (if \<not> alive s then White
     else case app_tree s of Some t \<Rightarrow> Screen (tree_shows t)
       | None \<Rightarrow> if app_element_at env matches (location s) = NotYet then NotYetScreen else EmptyShell)"

datatype app_event = Navigate jstr | Throws thrown_value | TryAgain


text \<open>A location that shows the same component keeps what is mounted; another component is mounted afresh.\<close>

fun app_exec :: "vite_env \<Rightarrow> router \<Rightarrow> app_event \<Rightarrow> app_state \<Rightarrow> app_state" where
  "app_exec env matches (Navigate loc) s =
     s\<lparr>location := loc, app_tree := (if app_element_at env matches loc = app_element_at env matches (location s)
        then app_tree s else tree_of (app_element_at env matches loc))\<rparr>"
| "app_exec env matches (Throws v) s =
     (case Option.bind (app_tree s) (throw_in v) of
        Some t \<Rightarrow> s\<lparr>app_tree := Some t\<rparr>
      | None \<Rightarrow> s\<lparr>app_tree := None, alive := False\<rparr>)"
| "app_exec env matches TryAgain s = s\<lparr>app_tree := map_option try_again (app_tree s)\<rparr>"

section \<open>Properties\<close>



text \<open>The name a user knows a page by.\<close>

primrec page_title :: "v2_route \<Rightarrow> jstr" where
  "page_title RHome = ''Home''"
| "page_title RInbox = ''Inbox''"
| "page_title RRecipes = ''Recipes''"
| "page_title RResearch = ''Research''"
| "page_title RMemory = ''Memory''"
| "page_title RHealth = ''Health''"
| "page_title RSecurity = ''Security''"
| "page_title RSettings = ''Settings''"
| "page_title RCommitments = ''Commitments''"
| "page_title RAudit = ''Audit''"




text \<open>In a run with the v2 pages the tree is that of the page at the location, in the state of its one boundary.\<close>

definition app_inv :: "vite_env \<Rightarrow> router \<Rightarrow> app_state \<Rightarrow> bool" where
  "app_inv env matches s \<longleftrightarrow> alive s
     \<and> (if app_element_at env matches (location s) = NotYet then app_tree s = None
        else \<exists>r b. app_element_at env matches (location s) = Page (Bounded (Some (page_title r)) (Leaf (V2Page r)))
          \<and> app_tree s = Some (Boundary (Some (page_title r)) b (Node (V2Page r))))"






lemma app_inv_page:
  assumes "app_inv env matches s" "app_element_at env matches (location s) = Page (Bounded (Some (page_title r)) (Leaf (V2Page r)))"
  obtains b where "alive s" "app_tree s = Some (Boundary (Some (page_title r)) b (Node (V2Page r)))"
  using assms by (auto simp: app_inv_def)





text \<open>The earlier pages have no boundary: one exception takes the application away.\<close>

lemma legacy_crash_is_fatal:
  assumes "\<not> ENABLE_V2_UI env" "app_element_at env matches (location s) = Page (Leaf (LegacyPage l))"
    and "app_tree s = Some (mount (Leaf (LegacyPage l)))"
  shows "screen_of env matches (app_exec env matches (Throws m) s) = White"
  using assms by (simp add: screen_of_def)

text \<open>Every page is registered; every link of the top bar and of the earlier sidebar leads to a page; four of the
  v2 pages have no link in the top bar.\<close>

lemma links_resolve:
  "list_all (\<lambda>i. case snd i of None \<Rightarrow> True | Some p \<Rightarrow> p \<in> fst ` set V2_ROUTE_REGISTRY) TOPBAR_ITEMS"
  "map fst NAV_ITEMS = map fst legacy_routes"
  by (simp_all add: TOPBAR_ITEMS_def V2_ROUTE_REGISTRY_def NAV_ITEMS_def legacy_routes_def)

lemma pages_without_link:
  "filter (\<lambda>p. \<not> list_ex (topbar_active p) TOPBAR_ITEMS) (map fst V2_ROUTE_REGISTRY)
   = [''/recipes'', ''/memory'', ''/health'', ''/settings'']"
  by (simp add: TOPBAR_ITEMS_def V2_ROUTE_REGISTRY_def topbar_active_def)

end
