(* ===== verification/Js_Regex.thy ===== *)
theory Js_Regex
  imports Prelude
begin

text \<open>
  The fragment of JavaScript regular expressions that the audit script uses: character classes,
  sequence, alternative, greedy repetition, one capture group, the anchors \<open>^\<close>, \<open>$\<close> and \<open>\b\<close>.
  \<open>ends\<close> is the backtracking matcher of the language: the end positions of all ways to match at a
  position, in the order in which they are tried, so that its first element is the match.  \<open>re_match\<close>
  says what a pattern means without any order, and \<open>text_re\<close> that a pattern without anchors means a set of texts.  \<open>exec_loop\<close> is the loop \<open>while ((m = re.exec(s)) !== null)\<close>
  over a pattern with flag \<open>g\<close>: such a loop never ends when an empty match is found, so it has fuel and
  returns \<^const>\<open>None\<close> when the fuel is used up; for patterns that match no empty text it returns.
\<close>

datatype re = Cls "char \<Rightarrow> bool" | Eps | Seq re re | Alt re re | Star re | Group re | Bol | Eol | Wb

type_synonym rstate = "nat \<times> (nat \<times> nat) option"

definition is_upper :: "char \<Rightarrow> bool" where
  "is_upper c \<longleftrightarrow> (let n = of_char c :: nat in 65 \<le> n \<and> n \<le> 90)"

definition is_lower :: "char \<Rightarrow> bool" where
  "is_lower c \<longleftrightarrow> (let n = of_char c :: nat in 97 \<le> n \<and> n \<le> 122)"

definition alnum_char :: "char \<Rightarrow> bool" where
  "alnum_char c \<longleftrightarrow> is_digit c \<or> is_upper c \<or> is_lower c"

definition word_char :: "char \<Rightarrow> bool" where
  "word_char c \<longleftrightarrow> alnum_char c \<or> c = CHR ''_''"

definition word_boundary :: "jstr \<Rightarrow> nat \<Rightarrow> bool" where
  "word_boundary s i \<longleftrightarrow>
     (0 < i \<and> i \<le> length s \<and> word_char (s ! (i - 1))) \<noteq> (i < length s \<and> word_char (s ! i))"

section \<open>The backtracking matcher\<close>

text \<open>An iteration of a repetition that consumes nothing fails.  \<open>n\<close> is the number of characters left.\<close>

primrec star_ends :: "nat \<Rightarrow> (rstate \<Rightarrow> rstate list) \<Rightarrow> rstate \<Rightarrow> rstate list" where
  "star_ends 0 f st = [st]"
| "star_ends (Suc n) f st =
     concat (map (\<lambda>st'. if fst st < fst st' then star_ends n f st' else []) (f st)) @ [st]"

primrec ends :: "re \<Rightarrow> jstr \<Rightarrow> rstate \<Rightarrow> rstate list" where
  "ends (Cls P) s st = (if fst st < length s \<and> P (s ! fst st) then [(Suc (fst st), snd st)] else [])"
| "ends Eps s st = [st]"
| "ends (Seq a b) s st = concat (map (ends b s) (ends a s st))"
| "ends (Alt a b) s st = ends a s st @ ends b s st"
| "ends (Star a) s st = star_ends (length s - fst st) (ends a s) st"
| "ends (Group a) s st = map (\<lambda>st'. (fst st', Some (fst st, fst st'))) (ends a s st)"
| "ends Bol s st = (if fst st = 0 then [st] else [])"
| "ends Eol s st = (if fst st = length s then [st] else [])"
| "ends Wb s st = (if word_boundary s (fst st) then [st] else [])"

inductive re_match :: "re \<Rightarrow> jstr \<Rightarrow> nat \<Rightarrow> nat \<Rightarrow> bool" where
  m_cls: "i < length s \<Longrightarrow> P (s ! i) \<Longrightarrow> re_match (Cls P) s i (Suc i)"
| m_eps: "re_match Eps s i i"
| m_seq: "re_match a s i k \<Longrightarrow> re_match b s k j \<Longrightarrow> re_match (Seq a b) s i j"
| m_alt1: "re_match a s i j \<Longrightarrow> re_match (Alt a b) s i j"
| m_alt2: "re_match b s i j \<Longrightarrow> re_match (Alt a b) s i j"
| m_star0: "re_match (Star a) s i i"
| m_star1: "re_match a s i k \<Longrightarrow> i < k \<Longrightarrow> re_match (Star a) s k j \<Longrightarrow> re_match (Star a) s i j"
| m_group: "re_match a s i j \<Longrightarrow> re_match (Group a) s i j"
| m_bol: "i = 0 \<Longrightarrow> re_match Bol s i i"
| m_eol: "i = length s \<Longrightarrow> re_match Eol s i i"
| m_wb: "word_boundary s i \<Longrightarrow> re_match Wb s i i"

inductive_simps re_match_simps:
  "re_match (Cls P) s i j" "re_match Eps s i j" "re_match (Seq a b) s i j" "re_match (Alt a b) s i j"
  "re_match (Group a) s i j" "re_match Bol s i j" "re_match Eol s i j" "re_match Wb s i j"

lemma star_ends_sound:
  assumes "\<And>st st'. st' \<in> set (f st) \<Longrightarrow> re_match a s (fst st) (fst st')" and "st' \<in> set (star_ends n f st)"
  shows "re_match (Star a) s (fst st) (fst st')"
  using assms(2)
proof (induction n arbitrary: st)
  case 0
  then show ?case by (simp add: m_star0)
next
  case (Suc n)
  then consider "st' = st" | st1 where "st1 \<in> set (f st)" "fst st < fst st1" "st' \<in> set (star_ends n f st1)"
    by (auto split: if_splits)
  then show ?case
  proof cases
    case 1
    then show ?thesis by (simp add: m_star0)
  next
    case 2
    then show ?thesis using m_star1 [OF assms(1) [OF 2(1)] 2(2)] Suc.IH by blast
  qed
qed

lemma ends_sound: "st' \<in> set (ends r s st) \<Longrightarrow> re_match r s (fst st) (fst st')"
proof (induction r arbitrary: st st')
  case (Star a)
  then show ?case using star_ends_sound [of "ends a s" a s] by simp
next
  case (Seq a b)
  then obtain st1 where "st1 \<in> set (ends a s st)" "st' \<in> set (ends b s st1)" by auto
  then show ?case by (rule m_seq [OF Seq.IH])
qed (auto intro: re_match.intros split: if_splits)

lemma match_bounds: "re_match r s i j \<Longrightarrow> i \<le> length s \<Longrightarrow> i \<le> j \<and> j \<le> length s"
  by (induction rule: re_match.induct) auto

lemma star_ends_complete:
  assumes "re_match (Star a) s i j" and "i \<le> length s" and "length s - i \<le> n"
    and "\<And>i j c. re_match a s i j \<Longrightarrow> i \<le> length s \<Longrightarrow> j \<in> fst ` set (f (i, c))"
  shows "j \<in> fst ` set (star_ends n f (i, c))"
  using assms
proof (induction "Star a" s i j arbitrary: n c rule: re_match.induct)
  case (m_star0 s i)
  then show ?case by (cases n) (auto intro: image_eqI)
next
  case (m_star1 s i k j)
  have k: "k \<le> length s" using match_bounds [OF m_star1.hyps(1) m_star1.prems(1)] by simp
  then obtain n' where n: "n = Suc n'" "length s - k \<le> n'" using m_star1.hyps(3) m_star1.prems by (cases n) auto
  obtain c' where c': "(k, c') \<in> set (f (i, c))" using m_star1.prems(3) [OF m_star1.hyps(1) m_star1.prems(1), of c] by force
  obtain c'' where "(j, c'') \<in> set (star_ends n' f (k, c'))" using m_star1.hyps(5) [OF k n(2) m_star1.prems(3), of c'] by force
  then have "(j, c'') \<in> set (star_ends n f (i, c))" using c' m_star1.hyps(3) n(1) by force
  then show ?case by force
qed

lemma ends_complete: "re_match r s i j \<Longrightarrow> i \<le> length s \<Longrightarrow> j \<in> fst ` set (ends r s (i, c))"
proof (induction r arbitrary: i j c)
  case (Star a)
  show ?case using star_ends_complete [OF Star.prems order_refl, of "ends a s" c] Star.IH by simp
next
  case (Seq a b)
  then obtain k where k: "re_match a s i k" "re_match b s k j" by (auto simp: re_match_simps)
  obtain c' where "(k, c') \<in> set (ends a s (i, c))" using Seq.IH(1) [OF k(1) Seq.prems(2), of c] by force
  moreover obtain c'' where "(j, c'') \<in> set (ends b s (k, c'))"
    using Seq.IH(2) [OF k(2), of c'] match_bounds [OF k(1) Seq.prems(2)] by force
  ultimately show ?case by force
next
  case (Group a)
  then show ?case by (force simp: re_match_simps image_iff)
qed (force simp: re_match_simps)+

lemma ends_none: "i \<le> length s \<Longrightarrow> ends r s (i, c) = [] \<longleftrightarrow> (\<nexists>j. re_match r s i j)"
  using ends_complete [of r s i _ c] ends_sound [of _ r s "(i, c)"] by (cases "ends r s (i, c)") force+

section \<open>Searching\<close>

text \<open>\<open>re.exec(s)\<close> with \<open>lastIndex = from\<close>: start, end and capture of the first match.\<close>

type_synonym re_hit = "nat \<times> nat \<times> (nat \<times> nat) option"

definition re_exec :: "re \<Rightarrow> jstr \<Rightarrow> nat \<Rightarrow> re_hit option" where
  "re_exec r s from =
     (case find (\<lambda>i. ends r s (i, None) \<noteq> []) [from ..< Suc (length s)] of
        None \<Rightarrow> None
      | Some i \<Rightarrow> Some (i, hd (ends r s (i, None))))"

definition re_test :: "re \<Rightarrow> jstr \<Rightarrow> bool" where
  "re_test r s \<longleftrightarrow> re_exec r s 0 \<noteq> None"

definition hit_text :: "jstr \<Rightarrow> re_hit \<Rightarrow> jstr" where
  "hit_text s h = (case h of (b, e, c) \<Rightarrow> take (e - b) (drop b s))"

definition hit_group :: "jstr \<Rightarrow> re_hit \<Rightarrow> jstr" where
  "hit_group s h = (case h of (b, e, c) \<Rightarrow> (case c of None \<Rightarrow> [] | Some (gb, ge) \<Rightarrow> take (ge - gb) (drop gb s)))"

fun exec_loop :: "nat \<Rightarrow> re \<Rightarrow> jstr \<Rightarrow> nat \<Rightarrow> re_hit list option" where
  "exec_loop 0 r s from = None"
| "exec_loop (Suc n) r s from =
     (case re_exec r s from of
        None \<Rightarrow> Some []
      | Some (b, e, c) \<Rightarrow> map_option (Cons (b, e, c)) (exec_loop n r s e))"

lemma find_upt_least:
  "find P [m ..< n] = Some i \<longleftrightarrow> m \<le> i \<and> i < n \<and> P i \<and> (\<forall>k. m \<le> k \<and> k < i \<longrightarrow> \<not> P k)"
proof -
  have "find P [m ..< m + d] = Some i \<longleftrightarrow> m \<le> i \<and> i < m + d \<and> P i \<and> (\<forall>k. m \<le> k \<and> k < i \<longrightarrow> \<not> P k)" for d m
  proof (induction d arbitrary: m)
    case (Suc d)
    have "[m ..< m + Suc d] = m # [Suc m ..< Suc m + d]" by (simp add: upt_conv_Cons)
    then show ?case using Suc [of "Suc m"] by (auto simp: Suc_le_eq intro: le_neq_implies_less)
  qed auto
  from this [of m "n - m"] show ?thesis by (cases "m \<le> n") auto
qed

lemma re_exec_Some:
  assumes "re_exec r s from = Some (b, e, c)"
  shows "from \<le> b" and "b \<le> e" and "e \<le> length s" and "re_match r s b e"
    and "\<And>p q. from \<le> p \<Longrightarrow> p < b \<Longrightarrow> \<not> re_match r s p q"
proof -
  have f: "find (\<lambda>i. ends r s (i, None) \<noteq> []) [from ..< Suc (length s)] = Some b" and h: "hd (ends r s (b, None)) = (e, c)"
    using assms by (auto simp: re_exec_def simp del: upt_Suc split: option.splits)
  then have b: "from \<le> b" "b \<le> length s" "ends r s (b, None) \<noteq> []"
    "\<And>k. from \<le> k \<Longrightarrow> k < b \<Longrightarrow> ends r s (k, None) = []"
    by (auto simp: find_upt_least simp del: upt_Suc)
  then have "(e, c) \<in> set (ends r s (b, None))" using h by (metis hd_in_set)
  then show m: "re_match r s b e" using ends_sound by fastforce
  show "from \<le> b" by (rule b(1))
  show "b \<le> e" "e \<le> length s" using match_bounds [OF m b(2)] by auto
  show "\<not> re_match r s p q" if "from \<le> p" "p < b" for p q
    using b(2) b(4) [OF that] ends_none [of p s r None] that by auto
qed

lemma re_exec_None: "re_exec r s from = None \<longleftrightarrow> (\<forall>p q. from \<le> p \<and> p \<le> length s \<longrightarrow> \<not> re_match r s p q)"
proof -
  have "re_exec r s from = None \<longleftrightarrow> find (\<lambda>i. ends r s (i, None) \<noteq> []) [from ..< Suc (length s)] = None"
    by (simp add: re_exec_def del: upt_Suc split: option.splits)
  also have "\<dots> \<longleftrightarrow> (\<forall>p. from \<le> p \<and> p \<le> length s \<longrightarrow> ends r s (p, None) = [])"
    by (auto simp: find_None_iff simp del: upt_Suc)
  finally show ?thesis using ends_none [of _ s r None] by blast
qed

lemma re_test_iff: "re_test r s \<longleftrightarrow> (\<exists>p q. p \<le> length s \<and> re_match r s p q)"
  by (auto simp: re_test_def re_exec_None)

section \<open>The loop over all matches\<close>

text \<open>Patterns that can only match a text that is not empty.\<close>

primrec nullable :: "re \<Rightarrow> bool" where
  "nullable (Cls P) = False"
| "nullable Eps = True"
| "nullable (Seq a b) = (nullable a \<and> nullable b)"
| "nullable (Alt a b) = (nullable a \<or> nullable b)"
| "nullable (Star a) = True"
| "nullable (Group a) = nullable a"
| "nullable Bol = True"
| "nullable Eol = True"
| "nullable Wb = True"

lemma progress:
  assumes "re_match r s i j" and "i \<le> length s" and "\<not> nullable r" shows "i < j"
  using assms
proof (induction rule: re_match.induct)
  case (m_seq a s i k b j)
  then show ?case using match_bounds [OF m_seq.hyps(1)] match_bounds [OF m_seq.hyps(2)] by fastforce
qed auto

lemma exec_loop_returns:
  assumes "\<not> nullable r" and "length s - from < n" shows "\<exists>ms. exec_loop n r s from = Some ms"
  using assms(2)
proof (induction n arbitrary: "from")
  case (Suc n)
  show ?case
  proof (cases "re_exec r s from")
    case (Some h)
    obtain b e c where h: "h = (b, e, c)" by (cases h)
    have "b < e" using re_exec_Some [OF Some [unfolded h]] progress [of r s b e] assms(1) by simp
    then have "length s - e < n" using re_exec_Some [OF Some [unfolded h]] Suc.prems by linarith
    then show ?thesis using Suc.IH [of e] Some h by auto
  qed simp
qed simp

text \<open>No occurrence is missed, and every hit is one.\<close>

lemma exec_loop_hits:
  assumes "exec_loop n r s from = Some ms" and "(b, e, c) \<in> set ms"
  shows "from \<le> b \<and> b \<le> e \<and> e \<le> length s \<and> re_match r s b e"
  using assms
proof (induction n arbitrary: "from" ms)
  case (Suc n)
  obtain b1 e1 c1 ms' where 1: "re_exec r s from = Some (b1, e1, c1)" "exec_loop n r s e1 = Some ms'" "ms = (b1, e1, c1) # ms'"
    using Suc.prems by (auto split: option.splits)
  note hit = re_exec_Some [OF 1(1)]
  show ?case
  proof (cases "(b, e, c) = (b1, e1, c1)")
    case True
    then show ?thesis using hit(1-4) by simp
  next
    case False
    then have "e1 \<le> b \<and> b \<le> e \<and> e \<le> length s \<and> re_match r s b e" using Suc.IH [OF 1(2)] 1(3) Suc.prems(2) by auto
    then show ?thesis using hit(1,2) by simp
  qed
qed simp

lemma exec_loop_complete:
  assumes "exec_loop n r s from = Some ms" and "from \<le> p" and "p \<le> length s" and "re_match r s p q"
  shows "\<exists>b e c. (b, e, c) \<in> set ms \<and> b \<le> p \<and> (p = b \<or> p < e)"
  using assms
proof (induction n arbitrary: "from" ms)
  case (Suc n)
  then obtain b e c where h: "re_exec r s from = Some (b, e, c)" using re_exec_None by (cases "re_exec r s from") auto
  then obtain ms' where ms: "exec_loop n r s e = Some ms'" "ms = (b, e, c) # ms'" using Suc.prems(1) by auto
  show ?case
  proof (cases "p < e")
    case True
    then show ?thesis using re_exec_Some(5) [OF h Suc.prems(2)] Suc.prems(4) ms(2) by (meson leI list.set_intros(1))
  next
    case False
    then show ?thesis using Suc.IH [OF ms(1) _ Suc.prems(3,4)] ms(2) by (meson leI list.set_intros(2))
  qed
qed simp

lemma exec_loop_nonempty:
  assumes "exec_loop n r s 0 = Some ms" shows "ms \<noteq> [] \<longleftrightarrow> re_test r s"
proof
  assume "ms \<noteq> []"
  then obtain b e c where "(b, e, c) \<in> set ms" by (cases ms) auto
  then show "re_test r s" using exec_loop_hits [OF assms] by (meson le_trans re_test_iff)
next
  assume "re_test r s"
  then obtain p q where "p \<le> length s" "re_match r s p q" by (auto simp: re_test_iff)
  then show "ms \<noteq> []" using exec_loop_complete [OF assms] by fastforce
qed

section \<open>Building patterns\<close>

definition chr :: "char \<Rightarrow> re" where "chr c = Cls ((=) c)"

definition lit :: "jstr \<Rightarrow> re" where "lit t = foldr (\<lambda>c r. Seq (chr c) r) t Eps"

definition one_of :: "jstr list \<Rightarrow> re" where
  "one_of ts = (case rev ts of [] \<Rightarrow> Cls (\<lambda>_. False) | l # rest \<Rightarrow> foldr (\<lambda>t r. Alt (lit t) r) (rev rest) (lit l))"

definition plus :: "re \<Rightarrow> re" where "plus r = Seq r (Star r)"

definition opt :: "re \<Rightarrow> re" where "opt r = Alt r Eps"

fun seqs :: "re list \<Rightarrow> re" where
  "seqs [] = Eps"
| "seqs [r] = r"
| "seqs (r # q # rs) = Seq r (seqs (q # rs))"

text \<open>\<open>r{m,m+k}\<close>, greedy.\<close>

primrec up_to :: "nat \<Rightarrow> re \<Rightarrow> re" where
  "up_to 0 r = Eps"
| "up_to (Suc k) r = Alt (Seq r (up_to k r)) Eps"

primrec exactly :: "nat \<Rightarrow> re \<Rightarrow> re" where
  "exactly 0 r = Eps"
| "exactly (Suc k) r = Seq r (exactly k r)"

definition ws :: re where "ws = Cls js_ws"

section \<open>Patterns as sets of texts\<close>

text \<open>A pattern without anchors means a set of texts: it matches from one place to another when the text between
  is one of them.\<close>

definition text_re :: "re \<Rightarrow> jstr set \<Rightarrow> bool" where
  "text_re r L \<longleftrightarrow> (\<forall>s i j. i \<le> length s \<longrightarrow> (re_match r s i j \<longleftrightarrow> i \<le> j \<and> j \<le> length s \<and> take (j - i) (drop i s) \<in> L))"

lemma text_re_match:
  "text_re r L \<Longrightarrow> i \<le> length s \<Longrightarrow> re_match r s i j \<longleftrightarrow> i \<le> j \<and> j \<le> length s \<and> take (j - i) (drop i s) \<in> L"
  by (simp add: text_re_def)

lemma text_re_eps: "text_re Eps {[]}"
  by (auto simp: text_re_def re_match_simps)

lemma text_re_cls: "text_re (Cls P) {w. \<exists>c. w = [c] \<and> P c}"
proof -
  have "re_match (Cls P) s i j \<longleftrightarrow> i \<le> j \<and> j \<le> length s \<and> (\<exists>c. take (j - i) (drop i s) = [c] \<and> P c)" if "i \<le> length s" for s i j
  proof
    assume "re_match (Cls P) s i j"
    then show "i \<le> j \<and> j \<le> length s \<and> (\<exists>c. take (j - i) (drop i s) = [c] \<and> P c)"
      by (auto simp: re_match_simps take_Suc hd_drop_conv_nth)
  next
    assume r: "i \<le> j \<and> j \<le> length s \<and> (\<exists>c. take (j - i) (drop i s) = [c] \<and> P c)"
    then obtain c where c: "take (j - i) (drop i s) = [c]" "P c" by blast
    then have "length (take (j - i) (drop i s)) = 1" by simp
    then have j: "j = Suc i" using r by (simp add: min_def split: if_splits)
    then have "s ! i = c" using c(1) r by (simp add: take_Suc hd_drop_conv_nth split: if_splits)
    then show "re_match (Cls P) s i j" using j c(2) r by (simp add: re_match_simps)
  qed
  then show ?thesis by (simp add: text_re_def)
qed

lemma take_drop_split: "i \<le> k \<Longrightarrow> k \<le> j \<Longrightarrow> take (j - i) (drop i s) = take (k - i) (drop i s) @ take (j - k) (drop k s)"
proof -
  assume "i \<le> k" "k \<le> j"
  then have "take (j - i) (drop i s) = take ((k - i) + (j - k)) (drop i s)" by simp
  also have "\<dots> = take (k - i) (drop i s) @ take (j - k) (drop (k - i) (drop i s))" by (rule take_add)
  finally show ?thesis using \<open>i \<le> k\<close> by simp
qed

lemma text_re_seq:
  assumes "text_re a A" "text_re b B"
  shows "text_re (Seq a b) {w. \<exists>u v. w = u @ v \<and> u \<in> A \<and> v \<in> B}"
proof -
  have "re_match (Seq a b) s i j \<longleftrightarrow> i \<le> j \<and> j \<le> length s \<and> (\<exists>u v. take (j - i) (drop i s) = u @ v \<and> u \<in> A \<and> v \<in> B)"
    if i: "i \<le> length s" for s i j
  proof
    assume "re_match (Seq a b) s i j"
    then obtain k where k: "re_match a s i k" "re_match b s k j" by (auto simp: re_match_simps)
    then have 1: "i \<le> k \<and> k \<le> length s \<and> take (k - i) (drop i s) \<in> A" using text_re_match [OF assms(1) i] by blast
    then have 2: "k \<le> j \<and> j \<le> length s \<and> take (j - k) (drop k s) \<in> B" using text_re_match [OF assms(2)] k(2) by blast
    show "i \<le> j \<and> j \<le> length s \<and> (\<exists>u v. take (j - i) (drop i s) = u @ v \<and> u \<in> A \<and> v \<in> B)"
      using 1 2 take_drop_split [of i k j s] by auto
  next
    assume r: "i \<le> j \<and> j \<le> length s \<and> (\<exists>u v. take (j - i) (drop i s) = u @ v \<and> u \<in> A \<and> v \<in> B)"
    then obtain u v where uv: "take (j - i) (drop i s) = u @ v" "u \<in> A" "v \<in> B" by blast
    then have "length (take (j - i) (drop i s)) = length u + length v" by simp
    then have j: "j = i + length u + length v" using r by (simp add: min_def split: if_splits)
    have "take (length u) (drop i s) @ take (length v) (drop (i + length u) s) = u @ v"
      using uv(1) take_drop_split [of i "i + length u" j s] j by simp
    then have "take (length u) (drop i s) = u" "take (length v) (drop (i + length u) s) = v"
      using j r by (auto simp: append_eq_append_conv)
    then have "re_match a s i (i + length u)" "re_match b s (i + length u) j"
      using text_re_match [OF assms(1) i, of "i + length u"] text_re_match [OF assms(2), of "i + length u" s j] uv(2,3) j r by simp_all
    then show "re_match (Seq a b) s i j" by (rule m_seq)
  qed
  then show ?thesis by (simp add: text_re_def)
qed

lemma text_re_alt: "text_re a A \<Longrightarrow> text_re b B \<Longrightarrow> text_re (Alt a b) (A \<union> B)"
  by (auto simp: text_re_def re_match_simps)

lemma text_re_group: "text_re a A \<Longrightarrow> text_re (Group a) A"
  by (simp add: text_re_def re_match_simps)

lemma text_re_star_cls: "text_re (Star (Cls P)) {w. list_all P w}"
proof -
  have "i \<le> j \<and> j \<le> length s \<and> list_all P (take (j - i) (drop i s))" if "re_match (Star (Cls P)) s i j" "i \<le> length s" for s i j
    using that
  proof (induction "Star (Cls P)" s i j rule: re_match.induct)
    case (m_star1 s i k j)
    then have "k = Suc i" "i < length s" "P (s ! i)" by (auto simp: re_match_simps)
    then show ?case using m_star1 take_drop_split [of i k j s] by (simp add: take_Suc hd_drop_conv_nth)
  qed simp
  moreover have "re_match (Star (Cls P)) s i (i + length w)" if "take (length w) (drop i s) = w" "list_all P w" for s i w
    using that
  proof (induction w arbitrary: i)
    case (Cons c w)
    then have i: "i < length s" by (cases "i < length s") auto
    then have "s ! i = c" "take (length w) (drop (Suc i) s) = w" using Cons.prems(1)
      by (simp_all add: Cons_nth_drop_Suc [symmetric])
    then show ?case using Cons.IH [of "Suc i"] Cons.prems(2) i m_star1 [of "Cls P" s i "Suc i" "i + length (c # w)"] by (simp add: re_match_simps)
  qed (simp add: m_star0)
  moreover have "re_match (Star (Cls P)) s i j" if "i \<le> j" "j \<le> length s" "list_all P (take (j - i) (drop i s))" for s i j
    using calculation(2) [of "take (j - i) (drop i s)" i s] that by simp
  ultimately show ?thesis unfolding text_re_def mem_Collect_eq by blast
qed

lemma text_re_chr: "text_re (chr c) {[c]}"
  using text_re_cls [of "(=) c"] by (simp add: chr_def)

lemma text_re_lit: "text_re (lit t) {t}"
proof (induction t)
  case (Cons c t)
  then show ?case using text_re_seq [OF text_re_chr [of c] Cons] by (simp add: lit_def)
qed (simp add: lit_def text_re_eps)

lemma text_re_one_of: "ts \<noteq> [] \<Longrightarrow> text_re (one_of ts) (set ts)"
proof -
  assume "ts \<noteq> []"
  then obtain us l where ts: "ts = us @ [l]" by (meson rev_exhaust)
  have "text_re (foldr (\<lambda>t r. Alt (lit t) r) us (lit l)) (set us \<union> {l})"
    by (induction us) (use text_re_lit text_re_alt in \<open>force+\<close>)
  then show ?thesis by (simp add: one_of_def ts)
qed

lemma text_re_plus_cls: "text_re (plus (Cls P)) {w. w \<noteq> [] \<and> list_all P w}"
proof -
  have "{w. \<exists>u v. w = u @ v \<and> u \<in> {w. \<exists>c. w = [c] \<and> P c} \<and> v \<in> {w. list_all P w}} = {w. w \<noteq> [] \<and> list_all P w}"
    by (auto simp: neq_Nil_conv) (metis append_Cons append_Nil)
  then show ?thesis using text_re_seq [OF text_re_cls [of P] text_re_star_cls [of P]] by (simp add: plus_def)
qed

lemma text_re_opt: "text_re r L \<Longrightarrow> text_re (opt r) (insert [] L)"
  using text_re_alt [OF _ text_re_eps] by (simp add: opt_def)

section \<open>Captures\<close>

text \<open>A pattern without a group leaves the capture alone.\<close>

primrec group_free :: "re \<Rightarrow> bool" where
  "group_free (Cls P) = True"
| "group_free Eps = True"
| "group_free (Seq a b) = (group_free a \<and> group_free b)"
| "group_free (Alt a b) = (group_free a \<and> group_free b)"
| "group_free (Star a) = group_free a"
| "group_free (Group a) = False"
| "group_free Bol = True"
| "group_free Eol = True"
| "group_free Wb = True"

lemma star_ends_capture:
  assumes "\<And>st st'. st' \<in> set (f st) \<Longrightarrow> snd st' = snd st"
  shows "st' \<in> set (star_ends n f st) \<Longrightarrow> snd st' = snd st"
proof (induction n arbitrary: st)
  case (Suc n)
  then consider "st' = st" | st1 where "st1 \<in> set (f st)" "st' \<in> set (star_ends n f st1)" by (auto split: if_splits)
  then show ?case
  proof cases
    case 2
    then show ?thesis using Suc.IH [OF 2(2)] assms [OF 2(1)] by simp
  qed simp
qed simp

lemma ends_capture: "group_free r \<Longrightarrow> st' \<in> set (ends r s st) \<Longrightarrow> snd st' = snd st"
proof (induction r arbitrary: st st')
  case (Star a)
  then have "snd y = snd x" if "y \<in> set (ends a s x)" for x y using that by simp
  then show ?case using star_ends_capture [of "ends a s" st'] Star.prems(2) by simp
next
  case (Seq a b)
  then obtain st1 where "st1 \<in> set (ends a s st)" "st' \<in> set (ends b s st1)" by auto
  then show ?case using Seq.IH(1) [of st1 st] Seq.IH(2) [of st' st1] Seq.prems(1) by simp
next
  case (Alt a b)
  show ?case using Alt.IH(1) [of st' st] Alt.IH(2) [of st' st] Alt.prems by auto
qed (simp_all split: if_splits)

lemma ends_seq:
  assumes "group_free a" "st' \<in> set (ends (Seq a b) s st)"
  obtains k where "re_match a s (fst st) k" "st' \<in> set (ends b s (k, snd st))"
proof -
  obtain st1 where st1: "st1 \<in> set (ends a s st)" "st' \<in> set (ends b s st1)" using assms(2) by auto
  then have "st1 = (fst st1, snd st)" using ends_capture [OF assms(1) st1(1)] by (simp add: prod_eq_iff)
  then show ?thesis using that [OF ends_sound [OF st1(1)]] st1(2) by simp
qed

lemma ends_group_seq:
  assumes "group_free b" "st' \<in> set (ends (Seq (Group g) b) s (i, c))"
  shows "\<exists>k. snd st' = Some (i, k) \<and> re_match g s i k \<and> re_match b s k (fst st')"
proof -
  obtain st1 where st1: "st1 \<in> set (ends g s (i, c))" "st' \<in> set (ends b s (fst st1, Some (i, fst st1)))" using assms(2) by auto
  then show ?thesis using ends_capture [OF assms(1) st1(2)] ends_sound [OF st1(1)] ends_sound [OF st1(2)] by auto
qed

lemma group_free_lit [simp]: "group_free (lit t)"
  by (induction t) (simp_all add: lit_def chr_def)

lemma ends_with_iff:
  assumes "ts \<noteq> []"
  shows "re_test (Seq (Group (one_of ts)) Eol) t \<longleftrightarrow> (\<exists>u \<in> set ts. js_endsWith t u)"
proof -
  have L: "text_re (Group (one_of ts)) (set ts)" using assms by (intro text_re_group text_re_one_of)
  have "re_test (Seq (Group (one_of ts)) Eol) t \<longleftrightarrow> (\<exists>p. p \<le> length t \<and> re_match (Group (one_of ts)) t p (length t))"
    by (auto simp: re_test_iff re_match_simps)
  also have "\<dots> \<longleftrightarrow> (\<exists>p. p \<le> length t \<and> drop p t \<in> set ts)"
    by (rule ex_cong1) (use text_re_match [OF L] in auto)
  also have "\<dots> \<longleftrightarrow> (\<exists>u \<in> set ts. js_endsWith t u)"
  proof
    assume "\<exists>u \<in> set ts. js_endsWith t u"
    then obtain u v where "u \<in> set ts" "t = v @ u" by (auto simp: js_endsWith_suffix)
    then have "length v \<le> length t \<and> drop (length v) t \<in> set ts" by simp
    then show "\<exists>p. p \<le> length t \<and> drop p t \<in> set ts" by blast
  next
    assume "\<exists>p. p \<le> length t \<and> drop p t \<in> set ts"
    then show "\<exists>u \<in> set ts. js_endsWith t u" by (metis append_take_drop_id js_endsWith_suffix)
  qed
  finally show ?thesis .
qed

end
