(* ===== verification/Design_Audit.thy ===== *)
theory Design_Audit
  imports Js_Regex
begin

text \<open>
  The component audit of design exports (\<open>scripts/design-component-audit.ts\<close>): nine rules that scan the
  lines of a source file with regular expressions, the choice of files, the report and the main
  function.  The patterns are values of \<open>Js_Regex\<close>; the four loops over \<open>re.exec\<close> have fuel, so a rule
  returns an option.  \<open>localeCompare\<close>, the date, the directory listing and the files' texts are
  parameters; a route is a plain directory name and the paths of the report are relative to the inbox.
\<close>

section \<open>Data\<close>

definition UI_COMPONENT_NAMES :: "jstr list" where
  "UI_COMPONENT_NAMES =
     [''HeartbeatStatus'', ''PolicyCard'', ''ResearchCard'', ''RiskBadge'', ''SafetyCard'', ''Timeline'']"

datatype severity = Blocker | ShouldFix | Info

datatype rule =
    TailwindDynamic | UiSubstitution | PreviewShim | ReactNamespace | JsxElementReturn | BgApp | RawHexTailwind
  | InlineKeyframes | CandidateUi

primrec rule_id :: "rule \<Rightarrow> jstr" where
  "rule_id TailwindDynamic = ''tailwind-dynamic''"
| "rule_id UiSubstitution = ''ui-substitution''"
| "rule_id PreviewShim = ''preview-shim''"
| "rule_id ReactNamespace = ''react-namespace''"
| "rule_id JsxElementReturn = ''jsx-element-return''"
| "rule_id BgApp = ''bg-app''"
| "rule_id RawHexTailwind = ''raw-hex-tailwind''"
| "rule_id InlineKeyframes = ''inline-keyframes''"
| "rule_id CandidateUi = ''candidate-ui''"

record finding =
  f_rule :: rule
  f_severity :: severity
  f_file :: jstr
  f_line :: nat
  f_excerpt :: jstr
  f_recommendation :: jstr
  f_extra :: "jstr option"

primrec SEVERITY_ORDER :: "severity \<Rightarrow> int" where
  "SEVERITY_ORDER Blocker = 0"
| "SEVERITY_ORDER ShouldFix = 1"
| "SEVERITY_ORDER Info = 2"

text \<open>Title and description of a rule.\<close>

primrec RULE_META :: "rule \<Rightarrow> jstr \<times> jstr" where
  "RULE_META TailwindDynamic =
     (''Dynamic Tailwind tone interpolation'',
      ''Template-string class names with '' @ [CHR 0x60] @ ''${tone}'' @ [CHR 0x60] @ '' are invisible to Tailwind'' @ [CHR 0x27] @ ''s JIT compiler. The resulting class won'' @ [CHR 0x27] @ ''t ship in the CSS bundle and the element will render unstyled. Lift the tone lookup into a static '' @ [CHR 0x60] @ ''TONE'' @ [CHR 0x60] @ '' classmap (see '' @ [CHR 0x60] @ ''pages/v2/Home.tsx'' @ [CHR 0x60] @ '' for the canonical pattern).'')"
| "RULE_META UiSubstitution =
     (''Local reimplementation of an @irongolem/ui component'',
      ''This design file defines a function with the same name as a component already exported from '' @ [CHR 0x60] @ ''@irongolem/ui'' @ [CHR 0x60] @ ''. Replace the local definition with '' @ [CHR 0x60] @ ''import { X } from '' @ [CHR 0x22] @ ''@irongolem/ui'' @ [CHR 0x22, CHR 0x60] @ '' unless the local divergence is intentional.'')"
| "RULE_META PreviewShim =
     (''Browser-preview shim'',
      ''Bottom-of-file '' @ [CHR 0x60] @ ''(window as ...).<Route> = <Route>'' @ [CHR 0x60] @ '' exists only so Claude Design'' @ [CHR 0x27] @ ''s HTML preview can mount the route. Production builds should drop this entirely.'')"
| "RULE_META ReactNamespace =
     (''Namespace React import'',
      ''Project style is '' @ [CHR 0x60] @ ''import React, { useState } from '' @ [CHR 0x22] @ ''react'' @ [CHR 0x22, CHR 0x60] @ ''. The namespace form makes named hooks awkward and is inconsistent with the rest of v2.'')"
| "RULE_META JsxElementReturn =
     ([CHR 0x60] @ ''JSX.Element'' @ [CHR 0x60] @ '' return-type annotation'',
      ''TypeScript 6 deprecates the global '' @ [CHR 0x60] @ ''JSX'' @ [CHR 0x60] @ '' namespace. Remove the annotation entirely '' @ [CHR 0xE2, CHR 0x80, CHR 0x94] @ '' TS infers the right return type from the JSX.'')"
| "RULE_META BgApp =
     ([CHR 0x60] @ ''bg-app'' @ [CHR 0x60] @ '' Tailwind class'',
      ''The design'' @ [CHR 0x27] @ ''s '' @ [CHR 0x60] @ ''bg-app'' @ [CHR 0x60] @ '' CSS variable isn'' @ [CHR 0x27] @ ''t wired in this project. Use '' @ [CHR 0x60] @ ''bg-neutral-50'' @ [CHR 0x60] @ '' instead.'')"
| "RULE_META RawHexTailwind =
     (''Arbitrary-color Tailwind class'',
      ''Hex values in '' @ [CHR 0x60] @ ''bg-[#...]'' @ [CHR 0x60] @ '' / '' @ [CHR 0x60] @ ''text-[#...]'' @ [CHR 0x60] @ '' classes bypass the design tokens. Prefer the semantic palette ('' @ [CHR 0x60] @ ''bg-safe'' @ [CHR 0x60] @ '', '' @ [CHR 0x60] @ ''text-warning'' @ [CHR 0x60] @ '', etc.) so dark-mode / theme swaps work later.'')"
| "RULE_META InlineKeyframes =
     (''Inline '' @ [CHR 0x60] @ ''<style>'' @ [CHR 0x60] @ '' keyframes'',
      [CHR 0x60] @ ''globals.css'' @ [CHR 0x60] @ '' already ships '' @ [CHR 0x60] @ ''ig-pulse'' @ [CHR 0x60] @ '', '' @ [CHR 0x60] @ ''ig-toast-in'' @ [CHR 0x60] @ '', '' @ [CHR 0x60] @ ''ig-slide-in'' @ [CHR 0x60] @ ''. Reuse the existing keyframes rather than re-declaring them inline.'')"
| "RULE_META CandidateUi =
     (''Possible @irongolem/ui graduation candidate'',
      ''Top-level component functions that don'' @ [CHR 0x27] @ ''t match an existing @irongolem/ui export. Most are page-local helpers and stay inline; flag for review only if you see the same shape appear in a second route '' @ [CHR 0xE2, CHR 0x80, CHR 0x94] @ '' that'' @ [CHR 0x27] @ ''s the point to graduate.'')"

record rule_context =
  ctx_file :: jstr
  ctx_source :: jstr
  fileBasename :: jstr

section \<open>Lines and excerpts\<close>

definition newline :: char where "newline = CHR 0x0A"

definition audit_lines :: "jstr \<Rightarrow> (nat \<times> jstr) list" where
  "audit_lines source = (let arr = split_on newline source in zip [1 ..< Suc (length arr)] arr)"

definition excerpt :: "jstr \<Rightarrow> jstr" where
  "excerpt text = (let t = js_trim text in if length t \<le> 120 then t else take 119 t @ u_hellip)"

definition normalize :: "jstr \<Rightarrow> jstr" where
  "normalize s = filter (\<lambda>c. \<not> (c = CHR ''-'' \<or> c = CHR ''_'' \<or> js_ws c \<or> c = CHR ''.'')) (js_toLowerCase s)"

section \<open>Patterns\<close>

definition tplRe :: re where
  "tplRe = seqs [Wb, one_of [''bg'', ''text'', ''border'', ''ring'', ''hover:bg'', ''hover:text'', ''hover:border''],
     lit (''-${''), plus (Cls (\<lambda>c. c \<noteq> CHR ''}'')), chr (CHR ''}'')]"

definition uiRe :: re where
  "uiRe = seqs [Wb, lit ''function'', plus ws, Group (one_of UI_COMPONENT_NAMES), Star ws, chr (CHR ''('')]"

definition castRe :: re where
  "castRe = seqs [chr (CHR ''(''), Star ws, lit ''window'', plus ws, lit ''as'', plus ws,
     plus (Cls (\<lambda>c. c \<noteq> CHR '')'')), lit '').'', plus (Cls word_char), Star ws, chr (CHR ''='')]"

definition plainRe :: re where
  "plainRe = seqs [Bol, Star ws, lit ''window.'', Cls is_upper, Star (Cls word_char), Star ws, chr (CHR ''=''),
     Star ws, Cls is_upper, Star (Cls word_char), Star ws, opt (chr (CHR '';'')), Star ws, Eol]"

definition quote_char :: "char \<Rightarrow> bool" where
  "quote_char c \<longleftrightarrow> c = CHR 0x22 \<or> c = CHR 0x27"

definition reactRe :: re where
  "reactRe = seqs [Bol, Star ws, lit ''import'', plus ws, chr (CHR ''*''), plus ws, lit ''as'', plus ws, lit ''React'',
     plus ws, lit ''from'', plus ws, Cls quote_char, lit ''react'', Cls quote_char]"

definition jsxRe :: re where
  "jsxRe = seqs [lit ''):'', Star ws, lit ''JSX.Element'', Wb]"

definition bgAppRe :: re where
  "bgAppRe = seqs [Wb, lit ''bg-app'', Wb]"

definition hex_char :: "char \<Rightarrow> bool" where
  "hex_char c \<longleftrightarrow> is_digit c \<or> (let n = of_char c :: nat in (97 \<le> n \<and> n \<le> 102) \<or> (65 \<le> n \<and> n \<le> 70))"

definition hexRe :: re where
  "hexRe = seqs [Wb, Group (one_of [''bg'', ''text'', ''border'', ''fill'', ''stroke'', ''ring'']), lit ''-[#'',
     exactly 3 (Cls hex_char), up_to 5 (Cls hex_char), chr (CHR '']'')]"

definition keyframesRe :: re where
  "keyframesRe = seqs [lit (CHR 0x40 # ''keyframes''), plus ws, plus (Cls word_char)]"

definition candidateRe :: re where
  "candidateRe = seqs [Bol, Star ws, opt (Seq (lit ''export'') (plus ws)), lit ''function'', plus ws,
     Group (Seq (Cls is_upper) (plus (Cls alnum_char))), Star ws, chr (CHR ''('')]"

definition suffixDeny :: re where
  "suffixDeny = Seq (Group (one_of [''Section'', ''Header'', ''Footer'', ''Row'', ''Item'', ''List'', ''Pill'', ''Chip'',
     ''Toggle'', ''Drawer'', ''Modal'', ''Panel'', ''Card'', ''Empty'', ''Trail'', ''Mark''])) Eol"

section \<open>Rules\<close>

text \<open>The two loop shapes of the rules: a finding for each match of a line, or one for each line.\<close>

definition per_match :: "re \<Rightarrow> (nat \<Rightarrow> jstr \<Rightarrow> re_hit \<Rightarrow> finding) \<Rightarrow> jstr \<Rightarrow> finding list option" where
  "per_match r mk source =
     map_option concat (those (map (\<lambda>(lineNo, text). map_option (map (mk lineNo text)) (exec_loop (Suc (length text)) r text 0))
       (audit_lines source)))"

definition per_line :: "(jstr \<Rightarrow> bool) \<Rightarrow> (nat \<Rightarrow> jstr \<Rightarrow> finding) \<Rightarrow> jstr \<Rightarrow> finding list" where
  "per_line test mk source = map (\<lambda>(lineNo, text). mk lineNo text) (filter (\<lambda>(lineNo, text). test text) (audit_lines source))"

definition checkTailwindDynamic :: "rule_context \<Rightarrow> finding list option" where
  "checkTailwindDynamic ctx = per_match tplRe (\<lambda>lineNo text m.
     \<lparr>f_rule = TailwindDynamic, f_severity = Blocker, f_file = ctx_file ctx, f_line = lineNo, f_excerpt = excerpt (hit_text text m),
      f_recommendation = ''Add a '' @ [CHR 0x60] @ ''TONE'' @ [CHR 0x60] @ '' classmap (see '' @ [CHR 0x60] @ ''apps/web/src/pages/v2/Home.tsx'' @ [CHR 0x60] @ '' lines ~80-110) and reference '' @ [CHR 0x60] @ ''TONE[name].bg'' @ [CHR 0x60] @ '' / '' @ [CHR 0x60] @ ''.text'' @ [CHR 0x60] @ '' / '' @ [CHR 0x60] @ ''.border'' @ [CHR 0x60] @ '' instead.'',
      f_extra = None\<rparr>) (ctx_source ctx)"

definition checkUiSubstitution :: "rule_context \<Rightarrow> finding list option" where
  "checkUiSubstitution ctx = per_match uiRe (\<lambda>lineNo text m.
     \<lparr>f_rule = UiSubstitution, f_severity = ShouldFix, f_file = ctx_file ctx, f_line = lineNo, f_excerpt = excerpt text,
      f_recommendation = ''Replace with '' @ [CHR 0x60] @ ''import { '' @ hit_group text m
        @ '' } from '' @ [CHR 0x22] @ ''@irongolem/ui'' @ [CHR 0x22, CHR 0x60] @ '' unless this local version intentionally diverges. The integrator should reconcile prop shapes before deleting the local def.'',
      f_extra = None\<rparr>) (ctx_source ctx)"

definition checkPreviewShim :: "rule_context \<Rightarrow> finding list" where
  "checkPreviewShim ctx = per_line (\<lambda>text. re_test castRe text \<or> re_test plainRe text) (\<lambda>lineNo text.
     \<lparr>f_rule = PreviewShim, f_severity = Blocker, f_file = ctx_file ctx, f_line = lineNo, f_excerpt = excerpt text,
      f_recommendation = ''Delete this line in the production port. The shim exists only so the design'' @ [CHR 0x27] @ ''s preview HTML can mount the route without a bundler.'',
      f_extra = None\<rparr>) (ctx_source ctx)"

definition checkReactNamespace :: "rule_context \<Rightarrow> finding list" where
  "checkReactNamespace ctx = per_line (re_test reactRe) (\<lambda>lineNo text.
     \<lparr>f_rule = ReactNamespace, f_severity = ShouldFix, f_file = ctx_file ctx, f_line = lineNo, f_excerpt = excerpt text,
      f_recommendation = ''Switch to '' @ [CHR 0x60] @ ''import React, { useState, useMemo, useEffect } from '' @ [CHR 0x22] @ ''react'' @ [CHR 0x22, CHR 0x60] @ '' and update any '' @ [CHR 0x60] @ ''React.useState'' @ [CHR 0x60] @ '' / '' @ [CHR 0x60] @ ''React.useMemo'' @ [CHR 0x60] @ '' calls in the file to use the named hooks directly.'',
      f_extra = None\<rparr>) (ctx_source ctx)"

definition checkJsxElementReturn :: "rule_context \<Rightarrow> finding list" where
  "checkJsxElementReturn ctx = per_line (re_test jsxRe) (\<lambda>lineNo text.
     \<lparr>f_rule = JsxElementReturn, f_severity = Blocker, f_file = ctx_file ctx, f_line = lineNo, f_excerpt = excerpt text,
      f_recommendation = ''Remove the '' @ [CHR 0x60] @ '': JSX.Element'' @ [CHR 0x60] @ '' annotation '' @ [CHR 0xE2, CHR 0x80, CHR 0x94] @ '' TS infers the right return type from the function body. (TS 6+ retires the global JSX namespace.)'',
      f_extra = None\<rparr>) (ctx_source ctx)"

definition checkBgApp :: "rule_context \<Rightarrow> finding list" where
  "checkBgApp ctx = per_line (re_test bgAppRe) (\<lambda>lineNo text.
     \<lparr>f_rule = BgApp, f_severity = Blocker, f_file = ctx_file ctx, f_line = lineNo, f_excerpt = excerpt text,
      f_recommendation = ''Replace '' @ [CHR 0x60] @ ''bg-app'' @ [CHR 0x60] @ '' with '' @ [CHR 0x60] @ ''bg-neutral-50'' @ [CHR 0x60] @ ''. The design'' @ [CHR 0x27] @ ''s '' @ [CHR 0x60] @ ''--bg-app'' @ [CHR 0x60] @ '' CSS variable isn'' @ [CHR 0x27] @ ''t wired in this project '' @ [CHR 0xE2, CHR 0x80, CHR 0x94] @ '' '' @ [CHR 0x60] @ ''bg-neutral-50'' @ [CHR 0x60] @ '' is the production app-shell surface.'',
      f_extra = None\<rparr>) (ctx_source ctx)"

definition checkRawHexTailwind :: "rule_context \<Rightarrow> finding list option" where
  "checkRawHexTailwind ctx = per_match hexRe (\<lambda>lineNo text m.
     \<lparr>f_rule = RawHexTailwind, f_severity = Info, f_file = ctx_file ctx, f_line = lineNo, f_excerpt = excerpt (hit_text text m),
      f_recommendation = ''Use a semantic-palette class from the @irongolem/design-tokens bridge ('' @ [CHR 0x60] @ ''bg-safe'' @ [CHR 0x60] @ '', '' @ [CHR 0x60] @ ''text-warning'' @ [CHR 0x60] @ '', etc.) instead of an arbitrary hex. Theme swaps depend on this.'',
      f_extra = None\<rparr>) (ctx_source ctx)"

definition checkInlineKeyframes :: "rule_context \<Rightarrow> finding list option" where
  "checkInlineKeyframes ctx = per_match keyframesRe (\<lambda>lineNo text m.
     \<lparr>f_rule = InlineKeyframes, f_severity = ShouldFix, f_file = ctx_file ctx, f_line = lineNo, f_excerpt = excerpt (hit_text text m),
      f_recommendation = ''If this keyframe matches one already in '' @ [CHR 0x60] @ ''apps/web/src/styles/globals.css'' @ [CHR 0x60] @ '' ('' @ [CHR 0x60] @ ''ig-pulse'' @ [CHR 0x60] @ '', '' @ [CHR 0x60] @ ''ig-toast-in'' @ [CHR 0x60] @ '', '' @ [CHR 0x60] @ ''ig-slide-in'' @ [CHR 0x60] @ ''), drop the inline '' @ [CHR 0x60] @ ''<style>'' @ [CHR 0x60] @ '' block and apply the existing class. Otherwise consider promoting the keyframe to globals.css.'',
      f_extra = None\<rparr>) (ctx_source ctx)"

text \<open>The name a line declares when it is a candidate.\<close>

definition candidate_name :: "rule_context \<Rightarrow> jstr \<Rightarrow> jstr option" where
  "candidate_name ctx text =
     (case re_exec candidateRe text 0 of None \<Rightarrow> None
      | Some m \<Rightarrow>
         let name = hit_group text m in
         if name \<in> set UI_COMPONENT_NAMES then None
         else if re_test suffixDeny name then None
         else if length name < 4 then None
         else if normalize name = fileBasename ctx then None
         else Some name)"

definition checkCandidateUi :: "rule_context \<Rightarrow> finding list" where
  "checkCandidateUi ctx = concat (map (\<lambda>(lineNo, text).
     case candidate_name ctx text of None \<Rightarrow> []
     | Some name \<Rightarrow>
        [\<lparr>f_rule = CandidateUi, f_severity = Info, f_file = ctx_file ctx, f_line = lineNo, f_excerpt = excerpt text,
          f_recommendation = ''Inline component '' @ [CHR 0x60] @ name
            @ [CHR 0x60] @ ''. If the same shape appears in a second route, consider graduating it to '' @ [CHR 0x60] @ ''packages/ui/src/components/'' @ name @ ''.tsx'' @ [CHR 0x60] @ ''.'',
          f_extra = None\<rparr>]) (audit_lines (ctx_source ctx)))"

definition findingsFor :: "rule_context \<Rightarrow> finding list option" where
  "findingsFor ctx = map_option concat (those
     [checkTailwindDynamic ctx, checkUiSubstitution ctx, Some (checkPreviewShim ctx), Some (checkReactNamespace ctx),
      Some (checkJsxElementReturn ctx), Some (checkBgApp ctx), checkRawHexTailwind ctx, checkInlineKeyframes ctx,
      Some (checkCandidateUi ctx)])"

section \<open>File discovery\<close>




section \<open>Report\<close>

definition bq :: char where "bq = CHR 0x60"

definition backslash :: char where "backslash = CHR 0x5C"

definition escapeCell :: "jstr \<Rightarrow> jstr" where
  "escapeCell s = concat (map (\<lambda>c. if c = CHR ''|'' \<or> c = bq then [backslash, c] else [c]) s)"

definition audit_cmp :: "(jstr \<Rightarrow> jstr \<Rightarrow> int) \<Rightarrow> finding \<Rightarrow> finding \<Rightarrow> int" where
  "audit_cmp localeCompare a b =
     (let s = SEVERITY_ORDER (f_severity a) - SEVERITY_ORDER (f_severity b) in
      if s \<noteq> 0 then s
      else if f_rule a \<noteq> f_rule b then localeCompare (rule_id (f_rule a)) (rule_id (f_rule b))
      else if f_file a \<noteq> f_file b then localeCompare (f_file a) (f_file b)
      else int (f_line a) - int (f_line b))"

definition add_by_rule :: "finding \<Rightarrow> (rule, finding list) jmap \<Rightarrow> (rule, finding list) jmap" where
  "add_by_rule f m = (case jm_get m (f_rule f) of Some l \<Rightarrow> jm_set (f_rule f) (l @ [f]) m | None \<Rightarrow> jm_set (f_rule f) [f] m)"

definition byRule :: "finding list \<Rightarrow> (rule, finding list) jmap" where
  "byRule ordered = fold add_by_rule ordered []"

definition ruleOrder :: "rule list" where
  "ruleOrder = [TailwindDynamic, PreviewShim, JsxElementReturn, BgApp, UiSubstitution, ReactNamespace, InlineKeyframes,
     RawHexTailwind, CandidateUi]"

definition severity_count :: "severity \<Rightarrow> finding list \<Rightarrow> nat" where
  "severity_count sv fs = length (filter (\<lambda>f. f_severity f = sv) fs)"

definition summary_line :: "nat \<Rightarrow> jstr \<Rightarrow> jstr \<Rightarrow> jstr" where
  "summary_line n what note = ''- **'' @ nat_str n @ ''** '' @ what @ (if n = 1 then [] else ''s'') @ '' '' @ u_mdash @ '' '' @ note"

definition sevLabel :: "severity \<Rightarrow> jstr" where
  "sevLabel sev = (case sev of
       Blocker \<Rightarrow> [CHR 0xF0, CHR 0x9F, CHR 0x9B, CHR 0x91] @ '' BLOCKER''
     | ShouldFix \<Rightarrow> [CHR 0xE2, CHR 0x9A, CHR 0xA0, CHR 0xEF, CHR 0xB8, CHR 0x8F] @ ''  SHOULD-FIX''
     | Info \<Rightarrow> [CHR 0xE2, CHR 0x84, CHR 0xB9, CHR 0xEF, CHR 0xB8, CHR 0x8F] @ ''  INFO'')"

definition table_row :: "finding \<Rightarrow> jstr" where
  "table_row f = ''| '' @ [bq] @ escapeCell (f_file f) @ [bq] @ '' | '' @ nat_str (f_line f) @ '' | '' @ [bq] @ escapeCell (f_excerpt f) @ [bq] @ '' |''"

text \<open>\<open>new Set(xs)\<close> iterates over the first occurrences.\<close>

definition js_set :: "'a list \<Rightarrow> 'a list" where
  "js_set xs = rev (remdups (rev xs))"

definition rule_section :: "rule \<Rightarrow> finding list \<Rightarrow> jstr list" where
  "rule_section rule items =
     [''## '' @ sevLabel (f_severity (hd items)) @ '' '' @ u_middot @ '' '' @ fst (RULE_META rule) @ '' ('' @ nat_str (length items) @ '')'',
      [], snd (RULE_META rule), [], ''| File | Line | Excerpt |'', ''|---|---:|---|'']
     @ map table_row items
     @ [[], ''**Recommendation:**'', []]
     @ map (\<lambda>r. ''- '' @ r) (js_set (map f_recommendation items)) @ [[]]"

definition report_sections :: "finding list \<Rightarrow> (rule \<times> finding list) list" where
  "report_sections ordered = concat (map (\<lambda>rule. case jm_get (byRule ordered) rule of
     None \<Rightarrow> [] | Some items \<Rightarrow> if items = [] then [] else [(rule, items)]) ruleOrder)"

definition report_head :: "jstr \<Rightarrow> jstr \<Rightarrow> finding list \<Rightarrow> jstr list" where
  "report_head today routeSlug ordered =
     [''# Audit '' @ [CHR 0xE2, CHR 0x80, CHR 0x94] @ '' '' @ routeSlug, [],
      ''> Generated by '' @ [CHR 0x60] @ ''scripts/design-component-audit.ts'' @ [CHR 0x60] @ '' on '' @ today @ ''.'', [],
      ''## Summary'', [],
      summary_line (severity_count Blocker ordered) ''blocker'' ''must address before promotion'',
      summary_line (severity_count ShouldFix ordered) ''should-fix item'' ''recommended swaps'',
      summary_line (severity_count Info ordered) ''info item'' ''review and graduate if you see a pattern'', []]"

definition report_tail :: "jstr list" where
  "report_tail =
     [''---'', [], ''## How to use this report'', [],
      ''1. Read top-down '' @ [CHR 0xE2, CHR 0x80, CHR 0x94] @ '' blockers first, then should-fix, then info.'',
      ''2. Accept or reject each finding consciously. Some '' @ [CHR 0x60] @ ''should-fix'' @ [CHR 0x60] @ '' items may be intentional (e.g. a route'' @ [CHR 0x27] @ ''s local '' @ [CHR 0x60] @ ''SafetyCard'' @ [CHR 0x60] @ '' could be intentionally divergent from the @irongolem/ui shape; the audit can'' @ [CHR 0x27] @ ''t know).'',
      ''3. Apply the accepted changes when translating to '' @ [CHR 0x60] @ ''apps/web/src/pages/v2/<Route>.tsx'' @ [CHR 0x60] @ ''.'',
      ''4. Capture an Interceptor visual baseline once the production port is live.'', [],
      ''This file is regenerated every run '' @ [CHR 0xE2, CHR 0x80, CHR 0x94] @ '' feel free to delete it once the route is ported.'', []]"

definition report_lines :: "(jstr \<Rightarrow> jstr \<Rightarrow> int) \<Rightarrow> jstr \<Rightarrow> jstr \<Rightarrow> jstr list \<Rightarrow> finding list \<Rightarrow> jstr list" where
  "report_lines localeCompare today routeSlug files findings =
     (let ordered = js_sort (audit_cmp localeCompare) findings in
      if files = [] then
        report_head today routeSlug ordered
        @ [''No source files matched the route slug. Did you mistype the route name, or is the design bundle missing the matching '' @ [CHR 0x60] @ ''.tsx'' @ [CHR 0x60] @ '' / '' @ [CHR 0x60] @ ''.jsx'' @ [CHR 0x60] @ ''?'', []]
      else
        report_head today routeSlug ordered
        @ [''**Files scanned ('' @ nat_str (length files) @ ''):**'', []]
        @ map (\<lambda>f. ''- '' @ [bq] @ f @ [bq]) files @ [[]]
        @ concat (map (\<lambda>(rule, items). rule_section rule items) (report_sections ordered))
        @ report_tail)"


section \<open>Main\<close>





section \<open>Termination of the rules\<close>

lemma nullable_pieces [simp]:
  "nullable (lit (c # t)) = False" "nullable (lit []) = True" "nullable (chr c) = False" "nullable (plus r) = nullable r"
  "nullable ws = False"
  by (simp_all add: lit_def chr_def plus_def ws_def)

lemma rules_progress: "\<not> nullable tplRe" "\<not> nullable uiRe" "\<not> nullable hexRe" "\<not> nullable keyframesRe"
  by (simp_all add: tplRe_def uiRe_def hexRe_def keyframesRe_def)

lemma those_all: "\<forall>x \<in> set xs. x \<noteq> None \<Longrightarrow> those xs = Some (map the xs)"
  by (induction xs) auto

lemma per_match_returns:
  assumes "\<not> nullable r"
  shows "per_match r mk source = Some (concat (map (\<lambda>(n, t). map (mk n t) (the (exec_loop (Suc (length t)) r t 0))) (audit_lines source)))"
proof -
  have ex: "exec_loop (Suc (length t)) r t 0 \<noteq> None" for t
    using exec_loop_returns [OF assms, of t 0 "Suc (length t)"] by auto
  have "those (map (\<lambda>(n, t). map_option (map (mk n t)) (exec_loop (Suc (length t)) r t 0)) (audit_lines source))
    = Some (map (\<lambda>(n, t). map (mk n t) (the (exec_loop (Suc (length t)) r t 0))) (audit_lines source))"
    using ex by (subst those_all) (auto simp: comp_def case_prod_unfold option.map_sel)
  then show ?thesis by (simp add: per_match_def)
qed

text \<open>The findings of a rule, once it has returned.\<close>

definition rule_findings :: "rule_context \<Rightarrow> rule \<Rightarrow> finding list" where
  "rule_findings ctx r = (case r of
       TailwindDynamic \<Rightarrow> the (checkTailwindDynamic ctx) | UiSubstitution \<Rightarrow> the (checkUiSubstitution ctx)
     | PreviewShim \<Rightarrow> checkPreviewShim ctx | ReactNamespace \<Rightarrow> checkReactNamespace ctx
     | JsxElementReturn \<Rightarrow> checkJsxElementReturn ctx | BgApp \<Rightarrow> checkBgApp ctx
     | RawHexTailwind \<Rightarrow> the (checkRawHexTailwind ctx) | InlineKeyframes \<Rightarrow> the (checkInlineKeyframes ctx)
     | CandidateUi \<Rightarrow> checkCandidateUi ctx)"

definition all_rules :: "rule list" where
  "all_rules = [TailwindDynamic, UiSubstitution, PreviewShim, ReactNamespace, JsxElementReturn, BgApp, RawHexTailwind,
     InlineKeyframes, CandidateUi]"

lemma in_all_rules: "r \<in> set all_rules"
  by (cases r) (simp_all add: all_rules_def)

lemma findingsFor_eq: "findingsFor ctx = Some (concat (map (rule_findings ctx) all_rules))"
  by (simp add: findingsFor_def all_rules_def rule_findings_def checkTailwindDynamic_def checkUiSubstitution_def
      checkRawHexTailwind_def checkInlineKeyframes_def per_match_returns rules_progress)

section \<open>Component declarations\<close>

text \<open>What a line must look like to declare a component: white space, perhaps the word export, the word
  function, a name with a capital letter, and an opening parenthesis.  The line then determines the name.\<close>

definition component_name :: "jstr \<Rightarrow> bool" where
  "component_name name \<longleftrightarrow> (\<exists>c cs. name = c # cs \<and> is_upper c \<and> cs \<noteq> [] \<and> list_all alnum_char cs)"

definition before_name :: "jstr \<Rightarrow> bool" where
  "before_name u \<longleftrightarrow> (\<exists>w0 ex w1. u = w0 @ ex @ ''function'' @ w1 \<and> list_all js_ws w0 \<and> w1 \<noteq> [] \<and> list_all js_ws w1
     \<and> (ex = [] \<or> (\<exists>w. ex = ''export'' @ w \<and> w \<noteq> [] \<and> list_all js_ws w)))"

definition declares :: "jstr \<Rightarrow> jstr \<Rightarrow> bool" where
  "declares t name \<longleftrightarrow> component_name name
     \<and> (\<exists>u w rest. t = u @ name @ w @ ''('' @ rest \<and> before_name u \<and> list_all js_ws w)"

definition helper_suffixes :: "jstr list" where
  "helper_suffixes = [''Card'', ''Chip'', ''Drawer'', ''Empty'', ''Footer'', ''Header'', ''Item'', ''List'', ''Mark'', ''Modal'',
     ''Panel'', ''Pill'', ''Row'', ''Section'', ''Toggle'', ''Trail'']"

lemma ws_alnum: "js_ws c \<Longrightarrow> \<not> alnum_char c" "is_upper c \<Longrightarrow> alnum_char c" "is_upper c \<Longrightarrow> \<not> js_ws c"
  by (auto simp: js_ws_def alnum_char_def is_digit_def is_upper_def is_lower_def Let_def)

lemma dropWhile_ws: "list_all P w \<Longrightarrow> (case x of [] \<Rightarrow> True | c # _ \<Rightarrow> \<not> P c) \<Longrightarrow> dropWhile P (w @ x) = x"
  by (induction w) (auto split: list.splits)

definition name_in :: "jstr \<Rightarrow> jstr" where
  "name_in t = (let t1 = dropWhile js_ws t; t2 = (if take 6 t1 = ''export'' then dropWhile js_ws (drop 6 t1) else t1)
     in takeWhile alnum_char (dropWhile js_ws (drop 8 t2)))"

lemma takeWhile_name: "component_name name \<Longrightarrow> list_all js_ws w \<Longrightarrow> takeWhile alnum_char (name @ w @ ''('' @ rest) = name"
proof -
  assume n: "component_name name" and w: "list_all js_ws w"
  have "\<not> alnum_char (hd (w @ ''('' @ rest))" using w ws_alnum(1) by (cases w) (auto simp: alnum_char_def is_digit_def is_upper_def is_lower_def)
  then have "takeWhile alnum_char (w @ ''('' @ rest) = []" by (cases "w @ ''('' @ rest") auto
  moreover have "\<forall>c \<in> set name. alnum_char c" using n ws_alnum(2) by (auto simp: component_name_def list_all_iff)
  ultimately show ?thesis by (simp add: takeWhile_append2)
qed

lemma declares_name: "declares t name \<Longrightarrow> name = name_in t"
proof -
  assume d: "declares t name"
  then have n: "component_name name" by (simp add: declares_def)
  obtain u w rest where t: "t = u @ name @ w @ ''('' @ rest" and b: "before_name u" and w: "list_all js_ws w"
    using d by (auto simp: declares_def)
  obtain w0 ex w1 where u: "u = w0 @ ex @ ''function'' @ w1" and w0: "list_all js_ws w0" and w1: "list_all js_ws w1"
    and ex: "ex = [] \<or> (\<exists>w. ex = ''export'' @ w \<and> w \<noteq> [] \<and> list_all js_ws w)" using b by (auto simp: before_name_def)
  define x where "x = name @ w @ ''('' @ rest"
  have t': "t = w0 @ ex @ ''function'' @ w1 @ x" by (simp add: t u x_def)
  have x: "dropWhile js_ws (w1 @ x) = x" using n w1 ws_alnum
    by (intro dropWhile_ws) (auto simp: x_def component_name_def)
  have f: "dropWhile js_ws (v @ ''function'' @ w1 @ x) = ''function'' @ w1 @ x" if "list_all js_ws v" for v
    using that by (intro dropWhile_ws) (auto simp: js_ws_def)
  have "name_in t = takeWhile alnum_char x"
  proof (cases "ex = []")
    case True
    then show ?thesis using f [OF w0] x by (simp add: name_in_def t' Let_def)
  next
    case False
    then obtain v where v: "ex = ''export'' @ v" "list_all js_ws v" using ex by blast
    have "dropWhile js_ws (w0 @ ''export'' @ v @ ''function'' @ w1 @ x) = ''export'' @ v @ ''function'' @ w1 @ x"
      using w0 by (intro dropWhile_ws) (auto simp: js_ws_def)
    then show ?thesis using f [OF v(2)] x by (simp add: name_in_def t' v(1) Let_def)
  qed
  then show ?thesis using takeWhile_name [OF n w] by (simp add: x_def)
qed

lemma suffixDeny_iff: "re_test suffixDeny name \<longleftrightarrow> list_ex (js_endsWith name) helper_suffixes"
  unfolding suffixDeny_def by (subst ends_with_iff) (simp, simp add: helper_suffixes_def, blast)

definition prefixRe :: re where
  "prefixRe = Seq (Star ws) (Seq (opt (Seq (lit ''export'') (plus ws))) (Seq (lit ''function'') (plus ws)))"

lemma prefix_texts: "text_re prefixRe {u. before_name u}"
proof -
  have "text_re prefixRe {w. \<exists>u v. w = u @ v \<and> u \<in> {w. list_all js_ws w} \<and> v \<in> {w. \<exists>u v. w = u @ v
      \<and> u \<in> insert [] {w. \<exists>u v. w = u @ v \<and> u \<in> {''export''} \<and> v \<in> {w. w \<noteq> [] \<and> list_all js_ws w}}
      \<and> v \<in> {w. \<exists>u v. w = u @ v \<and> u \<in> {''function''} \<and> v \<in> {w. w \<noteq> [] \<and> list_all js_ws w}}}}"
    unfolding prefixRe_def ws_def
    by (intro text_re_seq text_re_opt text_re_lit text_re_star_cls text_re_plus_cls)
  also have "{w. \<exists>u v. w = u @ v \<and> u \<in> {w. list_all js_ws w} \<and> v \<in> {w. \<exists>u v. w = u @ v
      \<and> u \<in> insert [] {w. \<exists>u v. w = u @ v \<and> u \<in> {''export''} \<and> v \<in> {w. w \<noteq> [] \<and> list_all js_ws w}}
      \<and> v \<in> {w. \<exists>u v. w = u @ v \<and> u \<in> {''function''} \<and> v \<in> {w. w \<noteq> [] \<and> list_all js_ws w}}}} = {u. before_name u}"
    unfolding before_name_def by (rule Collect_cong) (simp, blast)
  finally show ?thesis .
qed

lemma name_texts: "text_re (Seq (Cls is_upper) (plus (Cls alnum_char))) {w. component_name w}"
proof -
  have "{w. \<exists>u v. w = u @ v \<and> u \<in> {w. \<exists>c. w = [c] \<and> is_upper c} \<and> v \<in> {w. w \<noteq> [] \<and> list_all alnum_char w}} = {w. component_name w}"
    unfolding component_name_def by (rule Collect_cong) (auto, metis append_Cons append_Nil)
  then show ?thesis using text_re_seq [OF text_re_cls [of is_upper] text_re_plus_cls [of alnum_char]] by simp
qed

lemma after_texts: "text_re (Seq (Star ws) (chr (CHR ''(''))) {w. \<exists>v. w = v @ ''('' \<and> list_all js_ws v}"
proof -
  have "{w. \<exists>u v. w = u @ v \<and> u \<in> {w. list_all js_ws w} \<and> v \<in> {''(''}} = {w. \<exists>v. w = v @ ''('' \<and> list_all js_ws v}"
    by auto
  then show ?thesis using text_re_seq [OF text_re_star_cls [of js_ws] text_re_chr [of "CHR ''(''"]] by (simp add: ws_def)
qed

text \<open>A way to match the pattern at the start of a line is a way to read the line as a declaration.\<close>

lemma declares_iff_parts:
  "declares t name \<longleftrightarrow> (\<exists>k l e. re_match prefixRe t 0 k \<and> re_match (Seq (Cls is_upper) (plus (Cls alnum_char))) t k l
     \<and> re_match (Seq (Star ws) (chr (CHR ''(''))) t l e \<and> name = take (l - k) (drop k t))"
  (is "_ \<longleftrightarrow> ?parts")
proof
  assume "declares t name"
  then obtain u w rest where t: "t = u @ name @ w @ ''('' @ rest" and p: "component_name name" "before_name u" "list_all js_ws w"
    by (auto simp: declares_def)
  have "re_match prefixRe t 0 (length u)" using text_re_match [OF prefix_texts] p(2) by (simp add: t)
  moreover have "re_match (Seq (Cls is_upper) (plus (Cls alnum_char))) t (length u) (length u + length name)"
    using text_re_match [OF name_texts] p(1) by (simp add: t)
  moreover have "re_match (Seq (Star ws) (chr (CHR ''(''))) t (length u + length name) (length u + length name + Suc (length w))"
    using text_re_match [OF after_texts] p(3) by (simp add: t)
  moreover have "name = take (length u + length name - length u) (drop (length u) t)" by (simp add: t)
  ultimately show ?parts by blast
next
  assume ?parts
  then obtain k l e where m: "re_match prefixRe t 0 k" "re_match (Seq (Cls is_upper) (plus (Cls alnum_char))) t k l"
    "re_match (Seq (Star ws) (chr (CHR ''(''))) t l e" and name: "name = take (l - k) (drop k t)" by blast
  have 1: "k \<le> length t" "before_name (take k t)" using text_re_match [OF prefix_texts, of 0 t k] m(1) by auto
  have 2: "k \<le> l" "l \<le> length t" "component_name name" using text_re_match [OF name_texts 1(1)] m(2) name by auto
  obtain v where 3: "l \<le> e" "e \<le> length t" "take (e - l) (drop l t) = v @ ''(''" "list_all js_ws v"
    using text_re_match [OF after_texts 2(2)] m(3) by auto
  have "t = take k t @ name @ (take (e - l) (drop l t)) @ drop e t"
    using take_drop_split [of k l e t] take_drop_split [of 0 k e t] 1(1) 2(1) 3(1) name append_take_drop_id [of e t] by simp
  then show "declares t name" using 1(2) 2(3) 3(3,4) unfolding declares_def by (metis append.assoc)
qed

lemma candidate_match: "re_match candidateRe t i e \<longleftrightarrow> i = 0 \<and> (\<exists>k l. re_match prefixRe t 0 k
    \<and> re_match (Seq (Cls is_upper) (plus (Cls alnum_char))) t k l \<and> re_match (Seq (Star ws) (chr (CHR ''(''))) t l e)"
  unfolding candidateRe_def prefixRe_def seqs.simps by (simp only: re_match_simps) blast

lemma candidate_ends:
  assumes "(e, c) \<in> set (ends candidateRe t (0, None))"
  obtains k where "re_match prefixRe t 0 k"
    "(e, c) \<in> set (ends (Seq (Group (Seq (Cls is_upper) (plus (Cls alnum_char)))) (Seq (Star ws) (chr (CHR ''('')))) t (k, None))"
proof -
  let ?tail = "Seq (Group (Seq (Cls is_upper) (plus (Cls alnum_char)))) (Seq (Star ws) (chr (CHR ''('')))"
  have free: "group_free (Star ws)" "group_free (plus ws)" "group_free (opt (Seq (lit ''export'') (plus ws)))"
    by (simp_all add: ws_def plus_def opt_def)
  have "(e, c) \<in> set (ends (Seq (Star ws) (Seq (opt (Seq (lit ''export'') (plus ws))) (Seq (lit ''function'') (Seq (plus ws) ?tail)))) t (0, None))"
    using assms unfolding candidateRe_def seqs.simps by (simp only: ends.simps(3,7)) simp
  then obtain k1 where 1: "re_match (Star ws) t 0 k1"
    "(e, c) \<in> set (ends (Seq (opt (Seq (lit ''export'') (plus ws))) (Seq (lit ''function'') (Seq (plus ws) ?tail))) t (k1, None))"
    using ends_seq [OF free(1)] by (metis fst_conv snd_conv)
  obtain k2 where 2: "re_match (opt (Seq (lit ''export'') (plus ws))) t k1 k2"
    "(e, c) \<in> set (ends (Seq (lit ''function'') (Seq (plus ws) ?tail)) t (k2, None))"
    using ends_seq [OF free(3) 1(2)] by (metis fst_conv snd_conv)
  obtain k3 where 3: "re_match (lit ''function'') t k2 k3" "(e, c) \<in> set (ends (Seq (plus ws) ?tail) t (k3, None))"
    using ends_seq [OF group_free_lit 2(2)] by (metis fst_conv snd_conv)
  obtain k4 where 4: "re_match (plus ws) t k3 k4" "(e, c) \<in> set (ends ?tail t (k4, None))"
    using ends_seq [OF free(2) 3(2)] by (metis fst_conv snd_conv)
  have "re_match prefixRe t 0 k4" unfolding prefixRe_def using 1(1) 2(1) 3(1) 4(1) by (blast intro: m_seq)
  then show ?thesis using 4(2) by (rule that)
qed

lemma candidate_exec:
  assumes "re_exec candidateRe t 0 = Some m" shows "declares t (hit_group t m)"
proof -
  obtain b e c where m: "m = (b, e, c)" by (cases m)
  have b: "b = 0" using re_exec_Some(4) [OF assms [unfolded m]] candidate_match by blast
  have "(e, c) \<in> set (ends candidateRe t (0, None))"
    using assms b unfolding m re_exec_def by (auto simp del: upt_Suc split: option.splits simp: find_upt_least) (metis hd_in_set)
  then obtain k where k: "re_match prefixRe t 0 k"
    "(e, c) \<in> set (ends (Seq (Group (Seq (Cls is_upper) (plus (Cls alnum_char)))) (Seq (Star ws) (chr (CHR ''('')))) t (k, None))"
    by (rule candidate_ends)
  then obtain l where "c = Some (k, l)" "re_match (Seq (Cls is_upper) (plus (Cls alnum_char))) t k l"
    "re_match (Seq (Star ws) (chr (CHR ''(''))) t l e"
    using ends_group_seq [OF _ k(2)] by (auto simp: ws_def chr_def)
  then show ?thesis unfolding declares_iff_parts m hit_group_def using k(1) by auto
qed

lemma candidate_exec_iff:
  "(case re_exec candidateRe t 0 of None \<Rightarrow> None | Some m \<Rightarrow> Some (hit_group t m)) = Some name \<longleftrightarrow> declares t name"
proof (cases "re_exec candidateRe t 0")
  case None
  then have "\<not> declares t name" unfolding declares_iff_parts re_exec_None by (metis candidate_match le0)
  then show ?thesis using None by simp
next
  case (Some m)
  then show ?thesis using candidate_exec [OF Some] declares_name by auto
qed

text \<open>A declaration is worth a look when its component is no export of the library, no helper of its page by its
  suffix, no abbreviation and not the page itself.\<close>

definition worth_a_look :: "rule_context \<Rightarrow> jstr \<Rightarrow> bool" where
  "worth_a_look ctx name \<longleftrightarrow> name \<notin> set UI_COMPONENT_NAMES \<and> \<not> list_ex (js_endsWith name) helper_suffixes
     \<and> 4 \<le> length name \<and> normalize name \<noteq> fileBasename ctx"

lemma candidate_name_iff: "candidate_name ctx t = Some name \<longleftrightarrow> declares t name \<and> worth_a_look ctx name"
proof (cases "re_exec candidateRe t 0")
  case None
  then show ?thesis using candidate_exec_iff [of t name] by (simp add: candidate_name_def)
next
  case (Some m)
  then have d: "declares t name \<longleftrightarrow> hit_group t m = name" using candidate_exec_iff [of t name] by simp
  have "candidate_name ctx t = (if worth_a_look ctx (hit_group t m) then Some (hit_group t m) else None)"
    using Some unfolding candidate_name_def worth_a_look_def suffixDeny_iff [symmetric] by (simp add: Let_def)
  then show ?thesis unfolding d by auto
qed

section \<open>Findings and pattern matches\<close>

text \<open>What each rule looks for, by the meaning of the patterns.\<close>

definition occurs :: "re \<Rightarrow> jstr \<Rightarrow> bool" where
  "occurs r t \<longleftrightarrow> (\<exists>p q. p \<le> length t \<and> re_match r t p q)"

definition rule_hit :: "rule_context \<Rightarrow> rule \<Rightarrow> jstr \<Rightarrow> bool" where
  "rule_hit ctx r t = (case r of
       TailwindDynamic \<Rightarrow> occurs tplRe t | UiSubstitution \<Rightarrow> occurs uiRe t
     | PreviewShim \<Rightarrow> occurs castRe t \<or> occurs plainRe t | ReactNamespace \<Rightarrow> occurs reactRe t
     | JsxElementReturn \<Rightarrow> occurs jsxRe t | BgApp \<Rightarrow> occurs bgAppRe t
     | RawHexTailwind \<Rightarrow> occurs hexRe t | InlineKeyframes \<Rightarrow> occurs keyframesRe t
     | CandidateUi \<Rightarrow> \<exists>name. declares t name \<and> worth_a_look ctx name)"

primrec rule_severity :: "rule \<Rightarrow> severity" where
  "rule_severity TailwindDynamic = Blocker"
| "rule_severity UiSubstitution = ShouldFix"
| "rule_severity PreviewShim = Blocker"
| "rule_severity ReactNamespace = ShouldFix"
| "rule_severity JsxElementReturn = Blocker"
| "rule_severity BgApp = Blocker"
| "rule_severity RawHexTailwind = Info"
| "rule_severity InlineKeyframes = ShouldFix"
| "rule_severity CandidateUi = Info"

lemma re_test_occurs: "re_test r t = occurs r t"
  by (simp add: re_test_iff occurs_def)

lemma line_of_concat:
  assumes "\<And>k t f. f \<in> set (g k t) \<Longrightarrow> f_line f = k"
  shows "(\<exists>f \<in> set (concat (map (\<lambda>(k, t). g k t) L)). f_line f = n) \<longleftrightarrow> (\<exists>t. (n, t) \<in> set L \<and> g n t \<noteq> [])"
proof
  assume "\<exists>f \<in> set (concat (map (\<lambda>(k, t). g k t) L)). f_line f = n"
  then obtain f k t where "(k, t) \<in> set L" "f \<in> set (g k t)" "f_line f = n" by auto
  then show "\<exists>t. (n, t) \<in> set L \<and> g n t \<noteq> []" using assms by fastforce
next
  assume "\<exists>t. (n, t) \<in> set L \<and> g n t \<noteq> []"
  then obtain t where "(n, t) \<in> set L" "hd (g n t) \<in> set (g n t)" by auto
  then have "hd (g n t) \<in> set (concat (map (\<lambda>(k, t). g k t) L))" by (simp add: case_prod_unfold) force
  then show "\<exists>f \<in> set (concat (map (\<lambda>(k, t). g k t) L)). f_line f = n"
    using assms \<open>hd (g n t) \<in> set (g n t)\<close> by blast
qed

lemma per_match_lines:
  assumes "\<not> nullable r" and "\<And>n t m. f_line (mk n t m) = n"
  shows "(\<exists>f \<in> set (the (per_match r mk src)). f_line f = n) \<longleftrightarrow> (\<exists>t. (n, t) \<in> set (audit_lines src) \<and> occurs r t)"
proof -
  define hits where "hits t = the (exec_loop (Suc (length t)) r t 0)" for t
  have ne: "hits t \<noteq> [] \<longleftrightarrow> occurs r t" for t
    unfolding hits_def using exec_loop_returns [OF assms(1), of t 0 "Suc (length t)"] exec_loop_nonempty re_test_occurs by fastforce
  have pm: "the (per_match r mk src) = concat (map (\<lambda>(k, t). map (mk k t) (hits t)) (audit_lines src))"
    unfolding per_match_returns [OF assms(1)] hits_def by simp
  show ?thesis unfolding pm using assms(2) by (subst line_of_concat) (auto simp: ne)
qed

lemma per_line_lines:
  "(\<And>n t. f_line (mk n t) = n) \<Longrightarrow>
   (\<exists>f \<in> set (per_line test mk src). f_line f = n) \<longleftrightarrow> (\<exists>t. (n, t) \<in> set (audit_lines src) \<and> test t)"
  by (force simp: per_line_def)

lemma per_match_all: "(\<And>n t m. Q (mk n t m)) \<Longrightarrow> \<not> nullable r \<Longrightarrow> list_all Q (the (per_match r mk src))"
  by (auto simp: per_match_returns list_all_iff)

lemma per_line_all: "(\<And>n t. Q (mk n t)) \<Longrightarrow> list_all Q (per_line test mk src)"
  by (auto simp: per_line_def list_all_iff)

lemmas check_defs = checkTailwindDynamic_def checkUiSubstitution_def checkPreviewShim_def checkReactNamespace_def
  checkJsxElementReturn_def checkBgApp_def checkRawHexTailwind_def checkInlineKeyframes_def

lemma rule_findings_lines:
  "(\<exists>f \<in> set (rule_findings ctx r). f_line f = n) \<longleftrightarrow> (\<exists>t. (n, t) \<in> set (audit_lines (ctx_source ctx)) \<and> rule_hit ctx r t)"
proof (cases r)
  case CandidateUi
  have "(\<exists>f \<in> set (checkCandidateUi ctx). f_line f = n)
    \<longleftrightarrow> (\<exists>t. (n, t) \<in> set (audit_lines (ctx_source ctx)) \<and> candidate_name ctx t \<noteq> None)"
    unfolding checkCandidateUi_def by (subst line_of_concat) (auto split: option.splits)
  also have "\<dots> \<longleftrightarrow> (\<exists>t. (n, t) \<in> set (audit_lines (ctx_source ctx)) \<and> rule_hit ctx r t)"
    using CandidateUi candidate_name_iff [of ctx] by (auto simp: rule_hit_def)
  finally show ?thesis using CandidateUi by (simp add: rule_findings_def)
qed (simp_all add: rule_findings_def rule_hit_def check_defs per_match_lines per_line_lines rules_progress re_test_occurs)

lemma rule_findings_tags:
  "f \<in> set (rule_findings ctx r) \<Longrightarrow> f_rule f = r \<and> f_severity f = rule_severity r \<and> f_file f = ctx_file ctx"
proof -
  let ?Q = "\<lambda>f. f_rule f = r \<and> f_severity f = rule_severity r \<and> f_file f = ctx_file ctx"
  have "list_all ?Q (rule_findings ctx r)"
  proof (cases r)
    case CandidateUi
    then show ?thesis by (auto simp: rule_findings_def checkCandidateUi_def list_all_iff split: option.splits)
  qed (simp_all add: rule_findings_def check_defs per_match_all per_line_all rules_progress)
  then show "f \<in> set (rule_findings ctx r) \<Longrightarrow> ?Q f" by (auto simp: list_all_iff)
qed

lemma in_findingsFor:
  assumes "findingsFor ctx = Some fs"
  shows "f \<in> set fs \<longleftrightarrow> f \<in> set (rule_findings ctx (f_rule f))"
proof -
  have "set fs = (\<Union>r. set (rule_findings ctx r))" using assms by (auto simp: findingsFor_eq) (use in_all_rules in blast)
  then show ?thesis using rule_findings_tags by blast
qed

text \<open>C28.
  The audit of a file always ends, and its findings are exactly the lines its rules describe: a
  rule reports a line if and only if the line is one of the file and the pattern of the rule matches
  somewhere in it, by the declarative meaning of patterns and not the backtracking matcher.  The rule for candidates reports
  a line if and only if it declares a component (white space, perhaps the word export, the word function, a capitalised
  name, a parenthesis) whose name is no export of the library, has none of the suffixes of page helpers, has at least four
  characters and is not the name of the file.  Every finding has the severity of its rule and names the file.
\<close>

theorem audit_finds_exactly:
  "\<exists>fs. findingsFor ctx = Some fs
    \<and> (\<forall>r n. (\<exists>f. f \<in> set fs \<and> f_rule f = r \<and> f_line f = n)
          = (\<exists>t. (n, t) \<in> set (audit_lines (ctx_source ctx)) \<and> rule_hit ctx r t))
    \<and> list_all (\<lambda>f. f_severity f = rule_severity (f_rule f) \<and> f_file f = ctx_file ctx) fs"
proof -
  obtain fs where fs: "findingsFor ctx = Some fs" using findingsFor_eq by blast
  have "(\<exists>f. f \<in> set fs \<and> f_rule f = r \<and> f_line f = n) = (\<exists>t. (n, t) \<in> set (audit_lines (ctx_source ctx)) \<and> rule_hit ctx r t)" for r n
  proof -
    have "(\<exists>f. f \<in> set fs \<and> f_rule f = r \<and> f_line f = n) = (\<exists>f \<in> set (rule_findings ctx r). f_line f = n)"
      using in_findingsFor [OF fs] rule_findings_tags by blast
    then show ?thesis unfolding rule_findings_lines .
  qed
  moreover have "list_all (\<lambda>f. f_severity f = rule_severity (f_rule f) \<and> f_file f = ctx_file ctx) fs"
    unfolding list_all_iff using in_findingsFor [OF fs] rule_findings_tags [of _ ctx] by blast
  ultimately show ?thesis using fs by blast
qed

section \<open>The report\<close>

definition is_row :: "jstr \<Rightarrow> bool" where
  "is_row l \<longleftrightarrow> js_startsWith l (''| '' @ [bq])"

text \<open>The findings in the order of the report.\<close>

definition listed :: "(jstr \<Rightarrow> jstr \<Rightarrow> int) \<Rightarrow> finding list \<Rightarrow> finding list" where
  "listed lc fs = concat (map snd (report_sections (js_sort (audit_cmp lc) fs)))"

interpretation rules: category_filter f_rule ruleOrder
proof
  show "f_rule f \<in> set ruleOrder" for f by (cases "f_rule f") (simp_all add: ruleOrder_def)
qed (simp add: ruleOrder_def)

lemma byRule_get:
  "jm_get (fold add_by_rule fs m) r =
    (let new = filter (\<lambda>f. f_rule f = r) fs
     in case jm_get m r of None \<Rightarrow> if new = [] then None else Some new | Some l \<Rightarrow> Some (l @ new))"
proof (induction fs arbitrary: m)
  case Nil
  then show ?case by (simp split: option.splits)
next
  case (Cons f fs)
  then show ?case by (auto simp: add_by_rule_def jm_get_set Let_def split: option.splits)
qed

lemma report_sections_eq:
  "report_sections fs = map (\<lambda>r. (r, filter (\<lambda>f. f_rule f = r) fs)) (filter (\<lambda>r. filter (\<lambda>f. f_rule f = r) fs \<noteq> []) ruleOrder)"
proof -
  have get: "jm_get (byRule fs) r = (let new = filter (\<lambda>f. f_rule f = r) fs in if new = [] then None else Some new)" for r
    unfolding byRule_def byRule_get by (simp add: jm_get_def)
  have "concat (map (\<lambda>r. case jm_get (byRule fs) r of None \<Rightarrow> [] | Some items \<Rightarrow> if items = [] then [] else [(r, items)]) rs)
    = map (\<lambda>r. (r, filter (\<lambda>f. f_rule f = r) fs)) (filter (\<lambda>r. filter (\<lambda>f. f_rule f = r) fs \<noteq> []) rs)" for rs
    by (induction rs) (auto simp: get Let_def)
  then show ?thesis by (simp add: report_sections_def)
qed

lemma concat_drop_empty: "concat (map g (filter (\<lambda>r. g r \<noteq> []) rs)) = concat (map g rs)"
  by (induction rs) auto

lemma listed_eq: "listed lc fs = concat (map (\<lambda>r. filter (\<lambda>f. f_rule f = r) (js_sort (audit_cmp lc) fs)) ruleOrder)"
  by (simp add: listed_def report_sections_eq comp_def concat_drop_empty)

lemma mset_listed: "mset (listed lc fs) = mset fs"
  unfolding listed_eq rules.views_partition by (simp add: sort_simps)

lemma not_row_simps [simp]:
  "\<not> is_row []" "is_row (c # l) \<longleftrightarrow> c = CHR ''|'' \<and> js_startsWith l ('' '' @ [bq])"
  by (simp_all add: is_row_def)

lemma is_table_row [simp]: "is_row (table_row f)"
  by (simp add: table_row_def)

lemma meta_not_row: "\<not> is_row (snd (RULE_META r))"
  by (cases r) simp_all

lemma section_rows: "filter is_row (rule_section r items) = map table_row items"
proof -
  have "filter is_row (map table_row items) = map table_row items" by (simp add: filter_id_conv)
  moreover have "filter is_row (map (\<lambda>r. ''- '' @ r) rs) = []" for rs by (auto simp: filter_empty_conv)
  ultimately show ?thesis by (simp add: rule_section_def meta_not_row bq_def)
qed

lemma head_not_rows: "filter is_row (report_head today slug fs) = []"
  by (simp add: report_head_def summary_line_def)

lemma tail_not_rows: "filter is_row report_tail = []"
  by (simp add: report_tail_def)

lemma report_rows: "files \<noteq> [] \<Longrightarrow> filter is_row (report_lines lc today slug files fs) = map table_row (listed lc fs)"
proof -
  assume "files \<noteq> []"
  moreover have "filter is_row (map (\<lambda>f. ''- '' @ [bq] @ f @ [bq]) files) = []" by (auto simp: filter_empty_conv)
  moreover have "filter is_row (concat (map (\<lambda>(r, items). rule_section r items) ss)) = map table_row (concat (map snd ss))" for ss
    by (induction ss) (auto simp: section_rows)
  ultimately show ?thesis by (simp add: report_lines_def Let_def head_not_rows tail_not_rows listed_def)
qed

lemma listed_blockers_first:
  assumes "list_all (\<lambda>f. f_severity f = rule_severity (f_rule f)) fs"
  shows "sorted_wrt (\<lambda>a b. SEVERITY_ORDER (f_severity a) \<le> SEVERITY_ORDER (f_severity b)) (listed lc fs)"
proof -
  let ?s = "js_sort (audit_cmp lc) fs"
  have tag: "f_severity f = rule_severity (f_rule f)" if "f \<in> set ?s" for f
    using assms that by (auto simp: list_all_iff sort_simps)
  have same: "sorted_wrt (\<lambda>a b. SEVERITY_ORDER (f_severity a) \<le> SEVERITY_ORDER (f_severity b)) (filter (\<lambda>f. f_rule f = r) ?s)" for r
    by (rule sorted_wrt_mono_rel [of _ "\<lambda>_ _. True"]) (auto simp: tag sorted_wrt_iff_nth_less)
  show ?thesis unfolding listed_eq ruleOrder_def by (auto simp: sorted_wrt_append same tag)
qed

text \<open>The report loses nothing and puts blockers first: for any findings with the severity of their rule,
  the rows of its tables are the findings, each exactly once, those that block promotion before those
  that should be fixed before the informational ones, whatever order the locale gives to names.
\<close>

lemma report_lists_every_finding:
  assumes "files \<noteq> []" and "list_all (\<lambda>f. f_severity f = rule_severity (f_rule f)) fs"
  shows "filter is_row (report_lines lc today slug files fs) = map table_row (listed lc fs)
    \<and> mset (listed lc fs) = mset fs
    \<and> sorted_wrt (\<lambda>a b. SEVERITY_ORDER (f_severity a) \<le> SEVERITY_ORDER (f_severity b)) (listed lc fs)"
  using report_rows [OF assms(1)] mset_listed listed_blockers_first [OF assms(2)] by simp

definition demo_finding :: "rule \<Rightarrow> nat \<Rightarrow> finding" where
  "demo_finding r n = \<lparr>f_rule = r, f_severity = rule_severity r, f_file = ''Home.tsx'', f_line = n, f_excerpt = ''a|b'',
     f_recommendation = [], f_extra = None\<rparr>"

lemma report_lists_every_finding_witness:
  "filter is_row (report_lines str_cmp ''2026-05-19'' ''home'' [''Home.tsx''] [demo_finding CandidateUi 3, demo_finding BgApp 9])
    = map table_row [demo_finding BgApp 9, demo_finding CandidateUi 3]"
proof -
  have l: "listed str_cmp [demo_finding CandidateUi 3, demo_finding BgApp 9] = [demo_finding BgApp 9, demo_finding CandidateUi 3]"
    by code_simp
  have t: "list_all (\<lambda>f. f_severity f = rule_severity (f_rule f)) [demo_finding CandidateUi 3, demo_finding BgApp 9]"
    by (simp add: demo_finding_def)
  have ne: "[''Home.tsx''] \<noteq> []" by simp
  show ?thesis using report_lists_every_finding [OF ne t, of str_cmp "''2026-05-19''" "''home''"] unfolding l by (rule conjunct1)
qed

text \<open>A cell can be read back: dropping the backslash before each pipe and backquote undoes \<open>escapeCell\<close>.\<close>

fun unescapeCell :: "jstr \<Rightarrow> jstr" where
  "unescapeCell (c # d # s) =
     (if c = backslash \<and> (d = CHR ''|'' \<or> d = bq) then d # unescapeCell s else c # unescapeCell (d # s))"
| "unescapeCell s = s"

lemma unescape_escape: "unescapeCell (escapeCell s) = s"
proof (induction s)
  case (Cons c s)
  have step: "escapeCell (c # s) = (if c = CHR ''|'' \<or> c = bq then [backslash, c] else [c]) @ escapeCell s"
    by (simp add: escapeCell_def)
  have hd: "escapeCell s = [] \<or> (\<exists>d t. escapeCell s = d # t \<and> d \<noteq> CHR ''|'' \<and> d \<noteq> bq)"
    by (cases s) (auto simp: escapeCell_def backslash_def bq_def)
  show ?case
  proof (cases "c = CHR ''|'' \<or> c = bq")
    case True
    then show ?thesis using Cons step by auto
  next
    case False
    then show ?thesis using Cons step hd by auto
  qed
qed (simp add: escapeCell_def)

section \<open>The whole run\<close>





text \<open>No line of a report contains a line break when the names that go into it do not, so the lines of the written
  file are the lines that were joined.\<close>

definition flat :: "jstr \<Rightarrow> bool" where
  "flat l \<longleftrightarrow> newline \<notin> set l"

lemma flat_simps [simp]: "flat []" "flat (a @ b) \<longleftrightarrow> flat a \<and> flat b" "flat (c # l) \<longleftrightarrow> c \<noteq> newline \<and> flat l"
  by (auto simp: flat_def)


























end
