(* ===== verification/React_Effects.thy ===== *)
theory React_Effects
  imports Prelude
begin

text \<open>
  What \<open>useEffect(effect, [dep])\<close> does, for the effects of the pages that reach outside their own state: timers,
  listeners of the window and the style of the document.  An effect runs after a render; it is left alone while
  its dependency is the same, and otherwise the function it returned last time is run before it runs again.
  The same function runs when the component is taken off the page.  Effects are taken to have run before the next
  event of the user, and a timer may fire late but never early.

  The locale \<open>effect_contract\<close> says what a careful effect promises about the outside world; \<open>timed_toast\<close> and
  \<open>drawer_page\<close> show what a page gets from it.
\<close>

section \<open>Effects\<close>

text \<open>A mounted effect keeps the dependency it ran for and what its clean-up needs.\<close>

type_synonym ('d, 'c) effect = "('d \<times> 'c) option"

definition commit_effect ::
  "('d \<Rightarrow> 'd \<Rightarrow> bool) \<Rightarrow> ('d \<Rightarrow> 'w \<Rightarrow> 'c \<times> 'w) \<Rightarrow> ('c \<Rightarrow> 'w \<Rightarrow> 'w) \<Rightarrow> 'd \<Rightarrow> ('d, 'c) effect \<times> 'w \<Rightarrow> ('d, 'c) effect \<times> 'w" where
  "commit_effect same set_up clean_up d ew =
     (case fst ew of
        None \<Rightarrow> (let (c, w) = set_up d (snd ew) in (Some (d, c), w))
      | Some (d0, c0) \<Rightarrow>
          if same d0 d then ew else (let (c, w) = set_up d (clean_up c0 (snd ew)) in (Some (d, c), w)))"

definition unmount_effect :: "('c \<Rightarrow> 'w \<Rightarrow> 'w) \<Rightarrow> ('d, 'c) effect \<times> 'w \<Rightarrow> ('d, 'c) effect \<times> 'w" where
  "unmount_effect clean_up ew = (None, case fst ew of None \<Rightarrow> snd ew | Some (d0, c0) \<Rightarrow> clean_up c0 (snd ew))"

locale effect_contract =
  fixes same :: "'d \<Rightarrow> 'd \<Rightarrow> bool" and set_up :: "'d \<Rightarrow> 'w \<Rightarrow> 'c \<times> 'w" and clean_up :: "'c \<Rightarrow> 'w \<Rightarrow> 'w"
    and live :: "'d \<Rightarrow> 'c \<Rightarrow> 'w \<Rightarrow> bool" and idle :: "'w \<Rightarrow> bool"
  assumes set_up_live: "idle w \<Longrightarrow> set_up d w = (c, w') \<Longrightarrow> live d c w'"
    and clean_up_idle: "live d c w \<Longrightarrow> idle (clean_up c w)"
    and same_live: "same d d' \<Longrightarrow> live d c w \<Longrightarrow> live d' c w"
begin

text \<open>The world is as the mounted effect left it, or idle.\<close>

definition in_order :: "('d, 'c) effect \<times> 'w \<Rightarrow> bool" where
  "in_order ew \<longleftrightarrow> (case fst ew of None \<Rightarrow> idle (snd ew) | Some (d, c) \<Rightarrow> live d c (snd ew))"

lemma in_order_commit:
  assumes "in_order ew" and "commit_effect same set_up clean_up d ew = (e, w)"
  shows "in_order (e, w) \<and> (\<exists>d0 c. e = Some (d0, c) \<and> live d c w)"
proof (cases "\<exists>d0 c0. fst ew = Some (d0, c0) \<and> same d0 d")
  case True
  then show ?thesis using assms by (auto simp: in_order_def commit_effect_def intro: same_live)
next
  case False
  let ?w = "case fst ew of None \<Rightarrow> snd ew | Some (d0, c0) \<Rightarrow> clean_up c0 (snd ew)"
  have "idle ?w" using assms(1) by (auto simp: in_order_def intro: clean_up_idle split: option.splits)
  moreover have "commit_effect same set_up clean_up d ew = (Some (d, fst (set_up d ?w)), snd (set_up d ?w))"
    using False by (auto simp: commit_effect_def split: option.splits prod.splits)
  ultimately show ?thesis using assms(2) by (auto simp: in_order_def intro: set_up_live)
qed

lemma in_order_unmount: "in_order ew \<Longrightarrow> fst (unmount_effect clean_up ew) = None \<and> idle (snd (unmount_effect clean_up ew))"
  by (auto simp: in_order_def unmount_effect_def intro: clean_up_idle split: option.splits)

end

section \<open>Timers\<close>

record timers =
  tm_now :: nat
  tm_pending :: "(nat \<times> nat) list"
  tm_next :: nat

definition timers_init :: timers where
  "timers_init = \<lparr>tm_now = 0, tm_pending = [], tm_next = 0\<rparr>"

definition setTimeout :: "nat \<Rightarrow> timers \<Rightarrow> nat \<times> timers" where
  "setTimeout ms w = (tm_next w, w\<lparr>tm_pending := tm_pending w @ [(tm_next w, tm_now w + ms)], tm_next := Suc (tm_next w)\<rparr>)"

definition clearTimeout :: "nat \<Rightarrow> timers \<Rightarrow> timers" where
  "clearTimeout i w = w\<lparr>tm_pending := filter (\<lambda>t. fst t \<noteq> i) (tm_pending w)\<rparr>"

section \<open>Toasts that go away\<close>

text \<open>\<open>if (!toast) return undefined; const id = setTimeout(() => setToast(null), ms); return () => clearTimeout(id)\<close>
  with dependency \<open>[toast]\<close>.  A toast that is an object is a new one each time it is set, which a number tells; a
  text is compared by value, so that its number never changes.\<close>

definition toast_set_up :: "nat \<Rightarrow> ('t \<Rightarrow> bool) \<Rightarrow> nat \<times> 't option \<Rightarrow> timers \<Rightarrow> nat option \<times> timers" where
  "toast_set_up ms blank d w =
     (case snd d of None \<Rightarrow> (None, w)
      | Some t \<Rightarrow> if blank t then (None, w) else (let (i, w') = setTimeout ms w in (Some i, w')))"

definition toast_clean_up :: "nat option \<Rightarrow> timers \<Rightarrow> timers" where
  "toast_clean_up c w = (case c of None \<Rightarrow> w | Some i \<Rightarrow> clearTimeout i w)"

record ('p, 't) timed_page =
  tp_page :: 'p
  tp_serial :: nat
  tp_effect :: "(nat \<times> 't option, nat option) effect"
  tp_timers :: timers

definition timed_commit :: "nat \<Rightarrow> ('t \<Rightarrow> bool) \<Rightarrow> ('p \<Rightarrow> 't option) \<Rightarrow> ('p, 't) timed_page \<Rightarrow> ('p, 't) timed_page" where
  "timed_commit ms blank toast s =
     (let (e, w) = commit_effect (=) (toast_set_up ms blank) toast_clean_up (tp_serial s, toast (tp_page s)) (tp_effect s, tp_timers s)
      in s\<lparr>tp_effect := e, tp_timers := w\<rparr>)"

definition timed_init :: "nat \<Rightarrow> ('t \<Rightarrow> bool) \<Rightarrow> ('p \<Rightarrow> 't option) \<Rightarrow> 'p \<Rightarrow> ('p, 't) timed_page" where
  "timed_init ms blank toast p =
     timed_commit ms blank toast \<lparr>tp_page = p, tp_serial = 0, tp_effect = None, tp_timers = timers_init\<rparr>"

datatype 'v timed_event = Act 'v | Pass nat | Fire nat

text \<open>A timer fires when its time has come, or later; its callback hides the toast.\<close>

fun timed_enabled :: "('v \<Rightarrow> 'p \<Rightarrow> bool) \<Rightarrow> ('v \<Rightarrow> bool) \<Rightarrow> 'v timed_event \<Rightarrow> ('p, 't) timed_page \<Rightarrow> bool" where
  "timed_enabled en timeout (Act v) s = (en v (tp_page s) \<and> \<not> timeout v)"
| "timed_enabled en timeout (Pass n) s = True"
| "timed_enabled en timeout (Fire i) s = list_ex (\<lambda>(j, due). j = i \<and> due \<le> tm_now (tp_timers s)) (tm_pending (tp_timers s))"

fun timed_exec ::
  "nat \<Rightarrow> ('t \<Rightarrow> bool) \<Rightarrow> ('p \<Rightarrow> 't option) \<Rightarrow> ('v \<Rightarrow> 'p \<Rightarrow> 'p) \<Rightarrow> 'v \<Rightarrow> ('v \<Rightarrow> 'p \<Rightarrow> bool) \<Rightarrow> 'v timed_event
   \<Rightarrow> ('p, 't) timed_page \<Rightarrow> ('p, 't) timed_page" where
  "timed_exec ms blank toast ex gone fresh (Act v) s =
     timed_commit ms blank toast
       (s\<lparr>tp_page := ex v (tp_page s), tp_serial := (if fresh v (tp_page s) then Suc (tp_serial s) else tp_serial s)\<rparr>)"
| "timed_exec ms blank toast ex gone fresh (Pass n) s = s\<lparr>tp_timers := (tp_timers s)\<lparr>tm_now := tm_now (tp_timers s) + n\<rparr>\<rparr>"
| "timed_exec ms blank toast ex gone fresh (Fire i) s =
     timed_commit ms blank toast (s\<lparr>tp_page := ex gone (tp_page s), tp_timers := clearTimeout i (tp_timers s)\<rparr>)"

definition timed_leave :: "('p, 't) timed_page \<Rightarrow> timers" where
  "timed_leave s = snd (unmount_effect toast_clean_up (tp_effect s, tp_timers s))"

text \<open>What it is for: the page, the time, and since when the toast is on the page.\<close>

record 'p shown_page =
  sh_page :: 'p
  sh_now :: nat
  sh_since :: "nat option"

definition toast_on :: "('t \<Rightarrow> bool) \<Rightarrow> 't option \<Rightarrow> bool" where
  "toast_on blank t \<longleftrightarrow> (case t of None \<Rightarrow> False | Some x \<Rightarrow> \<not> blank x)"

fun shown_enabled :: "nat \<Rightarrow> ('v \<Rightarrow> 'p \<Rightarrow> bool) \<Rightarrow> ('v \<Rightarrow> bool) \<Rightarrow> 'v timed_event \<Rightarrow> 'p shown_page \<Rightarrow> bool" where
  "shown_enabled ms en timeout (Act v) s = (en v (sh_page s) \<and> \<not> timeout v)"
| "shown_enabled ms en timeout (Pass n) s = True"
| "shown_enabled ms en timeout (Fire i) s = (case sh_since s of None \<Rightarrow> False | Some t \<Rightarrow> t + ms \<le> sh_now s)"

fun shown_exec ::
  "('t \<Rightarrow> bool) \<Rightarrow> ('p \<Rightarrow> 't option) \<Rightarrow> ('v \<Rightarrow> 'p \<Rightarrow> 'p) \<Rightarrow> 'v \<Rightarrow> ('v \<Rightarrow> 'p \<Rightarrow> bool) \<Rightarrow> 'v timed_event \<Rightarrow> 'p shown_page \<Rightarrow> 'p shown_page" where
  "shown_exec blank toast ex gone fresh (Act v) s =
     (let p = ex v (sh_page s)
      in s\<lparr>sh_page := p, sh_since := (if \<not> toast_on blank (toast p) then None
         else if toast p = toast (sh_page s) \<and> \<not> fresh v (sh_page s) then sh_since s else Some (sh_now s))\<rparr>)"
| "shown_exec blank toast ex gone fresh (Pass n) s = s\<lparr>sh_now := sh_now s + n\<rparr>"
| "shown_exec blank toast ex gone fresh (Fire i) s = s\<lparr>sh_page := ex gone (sh_page s), sh_since := None\<rparr>"

text \<open>The two machines agree: the timers hold the one that is due \<open>ms\<close> after the toast came, and nothing else.\<close>

definition shown_rel :: "nat \<Rightarrow> ('t \<Rightarrow> bool) \<Rightarrow> ('p \<Rightarrow> 't option) \<Rightarrow> ('p, 't) timed_page \<Rightarrow> 'p shown_page \<Rightarrow> bool" where
  "shown_rel ms blank toast s a \<longleftrightarrow> tp_page s = sh_page a \<and> tm_now (tp_timers s) = sh_now a
     \<and> (sh_since a \<noteq> None) = toast_on blank (toast (sh_page a))
     \<and> (\<exists>c. tp_effect s = Some ((tp_serial s, toast (tp_page s)), c)
         \<and> (case (c, sh_since a) of (None, None) \<Rightarrow> tm_pending (tp_timers s) = []
            | (Some i, Some t) \<Rightarrow> tm_pending (tp_timers s) = [(i, t + ms)] \<and> t \<le> sh_now a | _ \<Rightarrow> False))"

definition shown_init :: "('t \<Rightarrow> bool) \<Rightarrow> ('p \<Rightarrow> 't option) \<Rightarrow> 'p \<Rightarrow> 'p shown_page" where
  "shown_init blank toast p = \<lparr>sh_page = p, sh_now = 0, sh_since = (if toast_on blank (toast p) then Some 0 else None)\<rparr>"

lemmas toast_effect_defs = timed_commit_def commit_effect_def toast_set_up_def toast_clean_up_def setTimeout_def clearTimeout_def
  toast_on_def Let_def

text \<open>Committing leaves everything alone when toast and number are those of the last time, and otherwise drops the old
  timer and sets the new one.\<close>

lemma commit_same:
  "tp_effect s = Some ((tp_serial s, toast (tp_page s)), c) \<Longrightarrow> timed_commit ms blank toast s = s"
  by (simp add: timed_commit_def commit_effect_def)

lemma commit_new:
  assumes "tp_effect s = Some (d, c)" "d \<noteq> (tp_serial s, toast (tp_page s))"
    and "fst ` set (tm_pending (tp_timers s)) \<subseteq> set_option c"
  shows "\<exists>c' w. timed_commit ms blank toast s = s\<lparr>tp_effect := Some ((tp_serial s, toast (tp_page s)), c'), tp_timers := w\<rparr>
    \<and> tm_now w = tm_now (tp_timers s)
    \<and> (if toast_on blank (toast (tp_page s)) then \<exists>i. c' = Some i \<and> tm_pending w = [(i, tm_now w + ms)]
       else c' = None \<and> tm_pending w = [])"
proof -
  let ?w = "toast_clean_up c (tp_timers s)"
  let ?r = "toast_set_up ms blank (tp_serial s, toast (tp_page s)) ?w"
  have w: "tm_now ?w = tm_now (tp_timers s)" "tm_pending ?w = []"
    using assms(3) by (auto simp: toast_clean_up_def clearTimeout_def filter_empty_conv split: option.splits)
  have "timed_commit ms blank toast s = s\<lparr>tp_effect := Some ((tp_serial s, toast (tp_page s)), fst ?r), tp_timers := snd ?r\<rparr>"
    using assms(1,2) by (simp add: timed_commit_def commit_effect_def split: prod.splits)
  moreover have "if toast_on blank (toast (tp_page s)) then \<exists>i. fst ?r = Some i \<and> tm_pending (snd ?r) = [(i, tm_now ?w + ms)]
      else fst ?r = None \<and> tm_pending (snd ?r) = []" and "tm_now (snd ?r) = tm_now ?w"
    using w(2) by (auto simp: toast_set_up_def setTimeout_def toast_on_def split: option.splits)
  ultimately show ?thesis using w by (intro exI [of _ "fst ?r"] exI [of _ "snd ?r"]) auto
qed

text \<open>The relation, where a toast is on the page and where none is.\<close>

lemma shown_relE:
  assumes "shown_rel ms blank toast s a"
  obtains c where "tp_page s = sh_page a" "tm_now (tp_timers s) = sh_now a"
    "(sh_since a \<noteq> None) = toast_on blank (toast (sh_page a))"
    "tp_effect s = Some ((tp_serial s, toast (sh_page a)), c)" "fst ` set (tm_pending (tp_timers s)) = set_option c"
    "map snd (tm_pending (tp_timers s)) = (case sh_since a of None \<Rightarrow> [] | Some t \<Rightarrow> [t + ms])"
    "\<And>t. sh_since a = Some t \<Longrightarrow> t \<le> sh_now a"
  using assms by (fastforce simp: shown_rel_def split: option.splits)

lemma shown_relI:
  assumes "tp_page s = sh_page a" "tm_now (tp_timers s) = sh_now a" "tp_effect s = Some ((tp_serial s, toast (sh_page a)), c)"
    and "if toast_on blank (toast (sh_page a)) then \<exists>i t. c = Some i \<and> sh_since a = Some t \<and> t \<le> sh_now a \<and> tm_pending (tp_timers s) = [(i, t + ms)]
      else c = None \<and> sh_since a = None \<and> tm_pending (tp_timers s) = []"
  shows "shown_rel ms blank toast s a"
  using assms by (auto simp: shown_rel_def split: if_splits)

definition timed_run ::
  "nat \<Rightarrow> ('t \<Rightarrow> bool) \<Rightarrow> ('p \<Rightarrow> 't option) \<Rightarrow> ('v \<Rightarrow> 'p \<Rightarrow> bool) \<Rightarrow> ('v \<Rightarrow> 'p \<Rightarrow> 'p) \<Rightarrow> 'v \<Rightarrow> ('v \<Rightarrow> bool) \<Rightarrow> ('v \<Rightarrow> 'p \<Rightarrow> bool)
   \<Rightarrow> 'v timed_event list \<Rightarrow> 'p \<Rightarrow> ('p, 't) timed_page option" where
  "timed_run ms blank toast en ex gone timeout fresh vs p =
     page_run (timed_enabled en timeout) (timed_exec ms blank toast ex gone fresh) vs (timed_init ms blank toast p)"

definition shown_run ::
  "nat \<Rightarrow> ('t \<Rightarrow> bool) \<Rightarrow> ('p \<Rightarrow> 't option) \<Rightarrow> ('v \<Rightarrow> 'p \<Rightarrow> bool) \<Rightarrow> ('v \<Rightarrow> 'p \<Rightarrow> 'p) \<Rightarrow> 'v \<Rightarrow> ('v \<Rightarrow> bool) \<Rightarrow> ('v \<Rightarrow> 'p \<Rightarrow> bool)
   \<Rightarrow> 'v timed_event list \<Rightarrow> 'p \<Rightarrow> 'p shown_page option" where
  "shown_run ms blank toast en ex gone timeout fresh vs p =
     page_run (shown_enabled ms en timeout) (shown_exec blank toast ex gone fresh) vs (shown_init blank toast p)"

locale timed_toast =
  fixes ms :: nat and blank :: "'t \<Rightarrow> bool" and toast :: "'p \<Rightarrow> 't option" and en :: "'v \<Rightarrow> 'p \<Rightarrow> bool"
    and ex :: "'v \<Rightarrow> 'p \<Rightarrow> 'p" and gone :: 'v and timeout :: "'v \<Rightarrow> bool" and fresh :: "'v \<Rightarrow> 'p \<Rightarrow> bool"
  assumes gone_hides: "toast (ex gone p) = None"
begin

abbreviation "steps \<equiv> page_run (timed_enabled en timeout) (timed_exec ms blank toast ex gone fresh)"

abbreviation "trun \<equiv> timed_run ms blank toast en ex gone timeout fresh"

abbreviation "srun \<equiv> shown_run ms blank toast en ex gone timeout fresh"

lemma rel_init: "shown_rel ms blank toast (timed_init ms blank toast p) (shown_init blank toast p)"
  by (simp add: shown_rel_def timed_init_def shown_init_def timers_init_def toast_effect_defs split: option.splits)

lemma rel_commit:
  assumes "shown_rel ms blank toast s a" "tp_timers s' = w" "tm_now w = sh_now a" "set (tm_pending w) \<subseteq> set (tm_pending (tp_timers s))"
    and "tp_effect s' = tp_effect s" "(tp_serial s', toast (tp_page s')) \<noteq> (tp_serial s, toast (tp_page s))"
    and "a' = a\<lparr>sh_page := tp_page s', sh_since := (if toast_on blank (toast (tp_page s')) then Some (sh_now a) else None)\<rparr>"
  shows "shown_rel ms blank toast (timed_commit ms blank toast s') a'"
  using assms(1)
proof (rule shown_relE)
  fix c
  assume e: "tp_page s = sh_page a" "tp_effect s = Some ((tp_serial s, toast (sh_page a)), c)"
    "fst ` set (tm_pending (tp_timers s)) = set_option c"
  then have "fst ` set (tm_pending (tp_timers s')) \<subseteq> set_option c" using assms(2,4) by force
  then obtain c' w' where cw: "timed_commit ms blank toast s' = s'\<lparr>tp_effect := Some ((tp_serial s', toast (tp_page s')), c'), tp_timers := w'\<rparr>"
    "tm_now w' = tm_now (tp_timers s')"
    "if toast_on blank (toast (tp_page s')) then \<exists>i. c' = Some i \<and> tm_pending w' = [(i, tm_now w' + ms)] else c' = None \<and> tm_pending w' = []"
    using commit_new [of s' "(tp_serial s, toast (sh_page a))" c toast ms blank] assms(5,6) e by auto
  show ?thesis
    by (rule shown_relI [where c = c']) (use cw assms(2,3,7) in \<open>auto split: if_splits\<close>)
qed

lemma rel_act:
  assumes "shown_rel ms blank toast s a"
  shows "shown_rel ms blank toast (timed_exec ms blank toast ex gone fresh (Act v) s) (shown_exec blank toast ex gone fresh (Act v) a)"
proof (cases "toast (ex v (tp_page s)) = toast (tp_page s) \<and> \<not> fresh v (tp_page s)")
  case True
  from assms show ?thesis
  proof (rule shown_relE)
    fix c
    assume "tp_page s = sh_page a" "(sh_since a \<noteq> None) = toast_on blank (toast (sh_page a))"
      "tp_effect s = Some ((tp_serial s, toast (sh_page a)), c)"
    then show ?thesis using True assms commit_same [of "s\<lparr>tp_page := ex v (tp_page s)\<rparr>" toast c ms blank]
      by (auto simp: shown_rel_def Let_def split: if_splits option.splits)
  qed
next
  case False
  have "shown_exec blank toast ex gone fresh (Act v) a
    = a\<lparr>sh_page := ex v (tp_page s), sh_since := (if toast_on blank (toast (ex v (tp_page s))) then Some (sh_now a) else None)\<rparr>"
    using assms False by (auto simp: shown_rel_def Let_def)
  then show ?thesis using False assms
    by (auto intro!: rel_commit [OF assms, where w = "tp_timers s"] simp: shown_rel_def [of ms blank toast s a])
qed

lemma rel_fire:
  assumes "shown_rel ms blank toast s a" "timed_enabled en timeout (Fire i) s"
  shows "shown_enabled ms en timeout (Fire i) a
    \<and> shown_rel ms blank toast (timed_exec ms blank toast ex gone fresh (Fire i) s) (shown_exec blank toast ex gone fresh (Fire i) a)"
  using assms(1)
proof (rule shown_relE)
  fix c
  assume e: "tp_page s = sh_page a" "tm_now (tp_timers s) = sh_now a" "(sh_since a \<noteq> None) = toast_on blank (toast (sh_page a))"
    "map snd (tm_pending (tp_timers s)) = (case sh_since a of None \<Rightarrow> [] | Some t \<Rightarrow> [t + ms])"
  obtain due where due: "(i, due) \<in> set (tm_pending (tp_timers s))" "due \<le> sh_now a" using assms(2) e(2) by (auto simp: list_ex_iff)
  then have "due \<in> set (map snd (tm_pending (tp_timers s)))" by force
  then obtain t where t: "sh_since a = Some t" "due = t + ms" using e(4) by (auto split: option.splits)
  then have "toast (tp_page s) \<noteq> None" using e(1,3) by (auto simp: toast_on_def split: option.splits)
  then have "shown_rel ms blank toast (timed_exec ms blank toast ex gone fresh (Fire i) s) (shown_exec blank toast ex gone fresh (Fire i) a)"
    using e(1,2) unfolding timed_exec.simps
    by (intro rel_commit [OF assms(1), where w = "clearTimeout i (tp_timers s)"]) (auto simp: gone_hides clearTimeout_def toast_on_def)
  then show ?thesis using t due(2) by simp
qed

lemma rel_step:
  assumes "shown_rel ms blank toast s a" "timed_enabled en timeout v s"
  shows "shown_enabled ms en timeout v a
    \<and> shown_rel ms blank toast (timed_exec ms blank toast ex gone fresh v s) (shown_exec blank toast ex gone fresh v a)"
proof (cases v)
  case (Act u)
  have "sh_page a = tp_page s" using assms(1) by (simp add: shown_rel_def)
  then show ?thesis using Act assms(2) rel_act [OF assms(1), of u] by simp
next
  case (Pass n)
  then show ?thesis using assms(1) by (auto simp: shown_rel_def split: option.splits prod.splits)
next
  case (Fire i)
  then show ?thesis using assms rel_fire by blast
qed

text \<open>Every run with timers is a run of the page that knows since when its toast is shown.\<close>

lemma refines:
  assumes "steps vs s = Some s'" "shown_rel ms blank toast s a"
  shows "\<exists>a'. page_run (shown_enabled ms en timeout) (shown_exec blank toast ex gone fresh) vs a = Some a' \<and> shown_rel ms blank toast s' a'"
  using assms by (induction vs arbitrary: s a) (auto dest: rel_step split: if_splits)

lemma rel_run:
  assumes "trun vs p = Some s"
  obtains a where "srun vs p = Some a" "shown_rel ms blank toast s a"
  using refines [OF assms [unfolded timed_run_def] rel_init] unfolding shown_run_def by blast

lemma one_timer:
  assumes "trun vs p = Some s"
  shows "\<exists>a. srun vs p = Some a \<and> sh_page a = tp_page s \<and> sh_now a = tm_now (tp_timers s)
    \<and> (sh_since a \<noteq> None) = toast_on blank (toast (tp_page s))
    \<and> map snd (tm_pending (tp_timers s)) = (case sh_since a of None \<Rightarrow> [] | Some t \<Rightarrow> [t + ms])"
  by (rule rel_run [OF assms]) (fastforce simp: shown_rel_def split: option.splits)

text \<open>A toast on the page goes: its timer can fire when the time is over, and then the toast is gone.\<close>

lemma toast_goes:
  assumes "trun vs p = Some s" "toast_on blank (toast (tp_page s))"
  shows "\<exists>i s'. trun (vs @ [Pass ms, Fire i]) p = Some s' \<and> toast (tp_page s') = None \<and> tm_pending (tp_timers s') = []"
proof -
  obtain a where a: "shown_rel ms blank toast s a" using rel_run [OF assms(1)] .
  then obtain i t where p: "tm_pending (tp_timers s) = [(i, t + ms)]" "t \<le> tm_now (tp_timers s)"
    using assms(2) by (auto simp: shown_rel_def split: option.splits)
  let ?s = "timed_exec ms blank toast ex gone fresh (Pass ms) s"
  have en: "timed_enabled en timeout (Fire i) ?s" using p by simp
  have "shown_rel ms blank toast ?s (shown_exec blank toast ex gone fresh (Pass ms) a)" using rel_step [OF a, of "Pass ms"] by simp
  from rel_fire [OF this en] have "tm_pending (tp_timers (timed_exec ms blank toast ex gone fresh (Fire i) ?s)) = []"
    by (auto simp: shown_rel_def split: option.splits)
  moreover have "toast (tp_page (timed_exec ms blank toast ex gone fresh (Fire i) ?s)) = None"
    by (simp add: timed_commit_def gone_hides split: prod.splits)
  moreover have "trun (vs @ [Pass ms, Fire i]) p = Some (timed_exec ms blank toast ex gone fresh (Fire i) ?s)"
    using assms(1) en by (simp add: timed_run_def page_run_append)
  ultimately show ?thesis by blast
qed

text \<open>Leaving the page takes its timer with it, so that no callback finds the page gone.\<close>

lemma leave_clears:
  assumes "trun vs p = Some s"
  shows "tm_pending (timed_leave s) = []"
  by (rule rel_run [OF assms])
    (auto simp: shown_rel_def timed_leave_def unmount_effect_def toast_clean_up_def clearTimeout_def split: option.splits)

end

end
