(* ===== verification/Drawer_Effects.thy ===== *)
theory Drawer_Effects
  imports React_Effects
begin

text \<open>
  Pages with a drawer.  While the drawer is open the page behind it does not scroll, which an effect of the page
  sees to through the style of the document, and the Escape key closes it, which an effect of the drawer sees to
  through a listener of the window.  The page chooses by its own state whether it locks and whether the drawer
  is there, and these are two conditions; \<open>drawer_page\<close> shows what follows when they agree.
\<close>

section \<open>The document\<close>

record document =
  overflow :: jstr
  key_listeners :: "nat list"

definition document_init :: document where
  "document_init = \<lparr>overflow = [], key_listeners = []\<rparr>"

text \<open>An identifier in a condition: the empty text does not count.\<close>

definition id_truthy :: "jstr option \<Rightarrow> bool" where
  "id_truthy i \<longleftrightarrow> i \<noteq> None \<and> i \<noteq> Some []"

text \<open>The effect that locks, in its two forms: one sets the style in either case, the other returns early when
  nothing is open.  A clean-up of \<^const>\<open>True\<close> resets the style.\<close>

definition lock_always :: "('v \<Rightarrow> bool) \<Rightarrow> nat \<times> 'v \<Rightarrow> document \<Rightarrow> bool \<times> document" where
  "lock_always opens d w = (True, w\<lparr>overflow := (if opens (snd d) then ''hidden'' else [])\<rparr>)"

definition lock_if_open :: "('v \<Rightarrow> bool) \<Rightarrow> nat \<times> 'v \<Rightarrow> document \<Rightarrow> bool \<times> document" where
  "lock_if_open opens d w = (if opens (snd d) then (True, w\<lparr>overflow := ''hidden''\<rparr>) else (False, w))"

definition unlock :: "bool \<Rightarrow> document \<Rightarrow> document" where
  "unlock c w = (if c then w\<lparr>overflow := []\<rparr> else w)"

text \<open>The listener of the drawer; \<open>onClose\<close> is a new function at each render, which the number of the render stands
  for, so that the listener is replaced each time.  (A change of
  the drawer's own state keeps \<open>onClose\<close>; that the model replaces the listener then, too, is seen only in its number.)\<close>

definition add_key :: "nat \<Rightarrow> document \<Rightarrow> nat \<times> document" where
  "add_key r w = (r, w\<lparr>key_listeners := (if r \<in> set (key_listeners w) then key_listeners w else key_listeners w @ [r])\<rparr>)"

definition remove_key :: "nat \<Rightarrow> document \<Rightarrow> document" where
  "remove_key r w = w\<lparr>key_listeners := removeAll r (key_listeners w)\<rparr>"

definition lock_live :: "('v \<Rightarrow> bool) \<Rightarrow> nat \<times> 'v \<Rightarrow> bool \<Rightarrow> document \<Rightarrow> bool" where
  "lock_live opens d c w \<longleftrightarrow> overflow w = (if opens (snd d) then ''hidden'' else []) \<and> (c \<or> \<not> opens (snd d))"

interpretation always: effect_contract "(=)" "lock_always opens" unlock "lock_live opens" "\<lambda>w. overflow w = []" for opens
  by unfold_locales (auto simp: lock_always_def lock_live_def unlock_def split: if_splits)

interpretation if_open: effect_contract "(=)" "lock_if_open opens" unlock "lock_live opens" "\<lambda>w. overflow w = []" for opens
  by unfold_locales (auto simp: lock_if_open_def lock_live_def unlock_def split: if_splits)

interpretation keys: effect_contract "\<lambda>r r'. False" add_key remove_key "\<lambda>r c w. c = r \<and> key_listeners w = [r]" "\<lambda>w. key_listeners w = []"
  by unfold_locales (auto simp: add_key_def remove_key_def)

section \<open>A page and its drawer\<close>

record ('p, 'v) drawer_app =
  da_page :: 'p
  da_serial :: nat
  da_render :: nat
  da_lock :: "(nat \<times> 'v, bool) effect"
  da_keys :: "(nat, nat) effect"
  da_doc :: document

definition drawer_commit ::
  "(nat \<times> 'v \<Rightarrow> document \<Rightarrow> bool \<times> document) \<Rightarrow> ('p \<Rightarrow> 'v) \<Rightarrow> ('p \<Rightarrow> bool) \<Rightarrow> ('p, 'v) drawer_app \<Rightarrow> ('p, 'v) drawer_app" where
  "drawer_commit lock val shown s =
     (let r = Suc (da_render s);
          (k, w) = (if shown (da_page s) then commit_effect (\<lambda>r r'. False) add_key remove_key r (da_keys s, da_doc s)
                    else unmount_effect remove_key (da_keys s, da_doc s));
          (l, w') = commit_effect (=) lock unlock (da_serial s, val (da_page s)) (da_lock s, w)
      in s\<lparr>da_render := r, da_keys := k, da_lock := l, da_doc := w'\<rparr>)"

definition drawer_init ::
  "(nat \<times> 'v \<Rightarrow> document \<Rightarrow> bool \<times> document) \<Rightarrow> ('p \<Rightarrow> 'v) \<Rightarrow> ('p \<Rightarrow> bool) \<Rightarrow> 'p \<Rightarrow> ('p, 'v) drawer_app" where
  "drawer_init lock val shown p = drawer_commit lock val shown
     \<lparr>da_page = p, da_serial = 0, da_render = 0, da_lock = None, da_keys = None, da_doc = document_init\<rparr>"

datatype 'v drawer_event = Do 'v | KeyDown jstr

fun drawer_enabled :: "('e \<Rightarrow> 'p \<Rightarrow> bool) \<Rightarrow> 'e drawer_event \<Rightarrow> ('p, 'v) drawer_app \<Rightarrow> bool" where
  "drawer_enabled en (Do v) s = en v (da_page s)"
| "drawer_enabled en (KeyDown k) s = True"

text \<open>A key goes to every listener; a state that does not change is not rendered again.\<close>

fun drawer_exec ::
  "(nat \<times> 'v \<Rightarrow> document \<Rightarrow> bool \<times> document) \<Rightarrow> ('p \<Rightarrow> 'v) \<Rightarrow> ('p \<Rightarrow> bool) \<Rightarrow> ('e \<Rightarrow> 'p \<Rightarrow> 'p) \<Rightarrow> 'e \<Rightarrow> ('e \<Rightarrow> bool)
   \<Rightarrow> 'e drawer_event \<Rightarrow> ('p, 'v) drawer_app \<Rightarrow> ('p, 'v) drawer_app" where
  "drawer_exec lock val shown ex close fresh (Do v) s =
     drawer_commit lock val shown
       (s\<lparr>da_page := ex v (da_page s), da_serial := (if fresh v then Suc (da_serial s) else da_serial s)\<rparr>)"
| "drawer_exec lock val shown ex close fresh (KeyDown k) s =
     (if k = ''Escape'' \<and> key_listeners (da_doc s) \<noteq> []
      then drawer_commit lock val shown (s\<lparr>da_page := fold (\<lambda>l. ex close) (key_listeners (da_doc s)) (da_page s)\<rparr>)
      else s)"

definition drawer_leave :: "('p, 'v) drawer_app \<Rightarrow> document" where
  "drawer_leave s = snd (unmount_effect unlock (da_lock s, snd (unmount_effect remove_key (da_keys s, da_doc s))))"

definition drawer_run ::
  "(nat \<times> 'v \<Rightarrow> document \<Rightarrow> bool \<times> document) \<Rightarrow> ('p \<Rightarrow> 'v) \<Rightarrow> ('p \<Rightarrow> bool) \<Rightarrow> ('e \<Rightarrow> 'p \<Rightarrow> bool) \<Rightarrow> ('e \<Rightarrow> 'p \<Rightarrow> 'p) \<Rightarrow> 'e
   \<Rightarrow> ('e \<Rightarrow> bool) \<Rightarrow> 'e drawer_event list \<Rightarrow> 'p \<Rightarrow> ('p, 'v) drawer_app option" where
  "drawer_run lock val shown en ex close fresh vs p =
     page_run (drawer_enabled en) (drawer_exec lock val shown ex close fresh) vs (drawer_init lock val shown p)"

section \<open>When locking and drawer agree\<close>

locale drawer_page = effect_contract "(=)" lock unlock "lock_live opens" "\<lambda>w. overflow w = []"
  for lock :: "nat \<times> 'v \<Rightarrow> document \<Rightarrow> bool \<times> document" and opens :: "'v \<Rightarrow> bool" +
  fixes val :: "'p \<Rightarrow> 'v" and shown :: "'p \<Rightarrow> bool" and en :: "'e \<Rightarrow> 'p \<Rightarrow> bool" and ex :: "'e \<Rightarrow> 'p \<Rightarrow> 'p"
    and close :: 'e and fresh :: "'e \<Rightarrow> bool" and inv :: "'p \<Rightarrow> bool"
  assumes lock_frame: "key_listeners (snd (lock d w)) = key_listeners w"
    and inv_step: "inv p \<Longrightarrow> en v p \<Longrightarrow> inv (ex v p)"
    and inv_close: "inv p \<Longrightarrow> inv (ex close p)"
    and agree: "inv p \<Longrightarrow> opens (val p) = shown p"
    and closes: "\<not> shown (ex close p)"
begin

abbreviation "drun \<equiv> drawer_run lock val shown en ex close fresh"

abbreviation "press \<equiv> drawer_exec lock val shown ex close fresh (KeyDown ''Escape'')"

definition tidy :: "('p, 'v) drawer_app \<Rightarrow> bool" where
  "tidy s \<longleftrightarrow> in_order (da_lock s, da_doc s) \<and> keys.in_order (da_keys s, da_doc s)"

definition settled :: "('p, 'v) drawer_app \<Rightarrow> bool" where
  "settled s \<longleftrightarrow> tidy s \<and> inv (da_page s) \<and> overflow (da_doc s) = (if shown (da_page s) then ''hidden'' else [])
     \<and> length (key_listeners (da_doc s)) = (if shown (da_page s) then 1 else 0)"

lemma lock_commit_frame:
  "key_listeners (snd (commit_effect (=) lock unlock d ew)) = key_listeners (snd ew)"
proof -
  have "key_listeners (snd (let (c, w') = lock d w in (Some (d, c), w'))) = key_listeners w" for w
    using lock_frame [of d w] by (simp add: case_prod_beta)
  moreover have "key_listeners (unlock c w) = key_listeners w" for c w by (simp add: unlock_def)
  ultimately show ?thesis by (simp add: commit_effect_def split: option.split prod.split)
qed

lemma keys_frame:
  "overflow (snd (commit_effect same add_key remove_key r ew)) = overflow (snd ew)"
  "overflow (snd (unmount_effect remove_key ew)) = overflow (snd ew)"
  by (auto simp: commit_effect_def unmount_effect_def add_key_def remove_key_def split: option.splits)

lemma in_order_cong: "overflow w = overflow w' \<Longrightarrow> in_order (l, w) = in_order (l, w')"
  by (auto simp: in_order_def lock_live_def split: option.splits)

lemma keys_in_order_cong: "key_listeners w = key_listeners w' \<Longrightarrow> keys.in_order (k, w) = keys.in_order (k, w')"
  by (auto simp: keys.in_order_def split: option.splits)

lemma settled_commit:
  assumes "tidy s" "inv (da_page s)"
  shows "settled (drawer_commit lock val shown s) \<and> da_page (drawer_commit lock val shown s) = da_page s"
proof -
  let ?ew = "(da_keys s, da_doc s)"
  obtain k w where kw: "(if shown (da_page s) then commit_effect (\<lambda>r r'. False) add_key remove_key (Suc (da_render s)) ?ew
      else unmount_effect remove_key ?ew) = (k, w)" by (metis surj_pair)
  obtain l w' where lw: "commit_effect (=) lock unlock (da_serial s, val (da_page s)) (da_lock s, w) = (l, w')" by (metis surj_pair)
  have eq: "drawer_commit lock val shown s = s\<lparr>da_render := Suc (da_render s), da_keys := k, da_lock := l, da_doc := w'\<rparr>"
    by (simp add: drawer_commit_def kw lw)
  have tk: "keys.in_order ?ew" and tl: "in_order (da_lock s, da_doc s)" using assms(1) by (simp_all add: tidy_def)
  have k: "keys.in_order (k, w) \<and> length (key_listeners w) = (if shown (da_page s) then 1 else 0)"
  proof (cases "shown (da_page s)")
    case True
    then show ?thesis using keys.in_order_commit [OF tk, of "Suc (da_render s)" k w] kw by auto
  next
    case False
    then show ?thesis using keys.in_order_unmount [OF tk] kw by (auto simp: keys.in_order_def)
  qed
  have "overflow w = overflow (da_doc s)" using kw keys_frame(1) [of _ _ ?ew] keys_frame(2) [of ?ew] by (metis snd_conv)
  then have "in_order (da_lock s, w)" using tl in_order_cong by blast
  then have l: "in_order (l, w')" "overflow w' = (if opens (val (da_page s)) then ''hidden'' else [])"
    using in_order_commit [OF _ lw] by (auto simp: lock_live_def)
  have "key_listeners w' = key_listeners w" using lock_commit_frame [of "(da_serial s, val (da_page s))" "(da_lock s, w)"] lw by simp
  then have "keys.in_order (k, w') \<and> length (key_listeners w') = (if shown (da_page s) then 1 else 0)"
    using k keys_in_order_cong [of w' w k] by simp
  then show ?thesis using l assms(2) agree by (simp add: eq settled_def tidy_def)
qed

lemma settled_init: "inv p \<Longrightarrow> settled (drawer_init lock val shown p)"
  unfolding drawer_init_def
  by (rule conjunct1 [OF settled_commit]) (simp_all add: tidy_def in_order_def keys.in_order_def document_init_def)

lemma settled_step:
  assumes "settled s" "drawer_enabled en v s"
  shows "settled (drawer_exec lock val shown ex close fresh v s)"
proof (cases v)
  case (Do u)
  let ?s = "s\<lparr>da_page := ex u (da_page s), da_serial := (if fresh u then Suc (da_serial s) else da_serial s)\<rparr>"
  have "tidy ?s" "inv (da_page ?s)" using Do assms inv_step by (simp_all add: settled_def tidy_def)
  then show ?thesis using settled_commit [of ?s] Do by simp
next
  case (KeyDown k)
  have "inv (fold (\<lambda>l. ex close) ls p)" if "inv p" for ls :: "nat list" and p
    using that by (induction ls arbitrary: p) (simp_all add: inv_close)
  then show ?thesis
    using KeyDown assms settled_commit [of "s\<lparr>da_page := fold (\<lambda>l. ex close) (key_listeners (da_doc s)) (da_page s)\<rparr>"]
    by (simp add: settled_def [of s] tidy_def)
qed

lemma settled_run: "drun vs p = Some s \<Longrightarrow> inv p \<Longrightarrow> settled s"
  using page_run_invariant [of _ _ vs "drawer_init lock val shown p" s settled] settled_init settled_step
  unfolding drawer_run_def by blast

text \<open>The page is locked exactly while its drawer is there, and Escape gives it back.\<close>

lemma escape:
  assumes "settled s"
  shows "\<not> shown (da_page (press s))
    \<and> overflow (da_doc (press s)) = []
    \<and> da_page (press s) = (if shown (da_page s) then ex close (da_page s) else da_page s)"
proof (cases "shown (da_page s)")
  case True
  then obtain r where r: "key_listeners (da_doc s) = [r]" using assms by (auto simp: settled_def length_Suc_conv)
  let ?s = "s\<lparr>da_page := ex close (da_page s)\<rparr>"
  have "settled (drawer_commit lock val shown ?s) \<and> da_page (drawer_commit lock val shown ?s) = ex close (da_page s)"
    using settled_commit [of ?s] assms inv_close by (simp add: settled_def tidy_def)
  then show ?thesis using r True closes by (auto simp: settled_def [of "drawer_commit lock val shown ?s"])
next
  case False
  then show ?thesis using assms by (simp add: settled_def)
qed

text \<open>Nothing is left behind.\<close>

lemma leave_restores: "settled s \<Longrightarrow> overflow (drawer_leave s) = [] \<and> key_listeners (drawer_leave s) = []"
proof -
  assume "settled s"
  then have tk: "keys.in_order (da_keys s, da_doc s)" and tl: "in_order (da_lock s, da_doc s)" by (simp_all add: settled_def tidy_def)
  let ?w = "snd (unmount_effect remove_key (da_keys s, da_doc s))"
  have "in_order (da_lock s, ?w)" using tl in_order_cong [OF keys_frame(2) [of "(da_keys s, da_doc s)"], of "da_lock s"] by simp
  moreover have "key_listeners (snd (unmount_effect unlock (da_lock s, ?w))) = key_listeners ?w"
    by (auto simp: unmount_effect_def unlock_def split: option.splits)
  ultimately show ?thesis using in_order_unmount keys.in_order_unmount [OF tk] by (simp add: drawer_leave_def)
qed

lemma locked_while_shown:
  assumes "drun vs p = Some s" "inv p"
  shows "overflow (da_doc s) = (if shown (da_page s) then ''hidden'' else [])
    \<and> length (key_listeners (da_doc s)) = (if shown (da_page s) then 1 else 0)
    \<and> \<not> shown (da_page (press s)) \<and> overflow (da_doc (press s)) = []
    \<and> overflow (drawer_leave s) = [] \<and> key_listeners (drawer_leave s) = []"
proof -
  have t: "settled s" using settled_run [OF assms] .
  show ?thesis using t [unfolded settled_def] escape [OF t] leave_restores [OF t] by (elim conjE) (intro conjI; assumption)
qed

end

end
