(* ===== verification/Security_Page.thy ===== *)
theory Security_Page
  imports Drawer_Effects
begin

text \<open>
  The Security page (\<open>apps/web/src/pages/v2/Security.tsx\<close>, wire types of \<open>_mocks/security.ts\<close>): the five
  layers, the audit log with its filters and counters, the policy library with the pause button, and
  the policy drawer with its text field.  The page and its drawer are one machine: the drawer's own
  state (tab and text) lives while a policy is open.  Class names, icons and layout are not modelled.
\<close>

section \<open>Wire types\<close>

datatype sec_layer_state = LOk | LWatching | LPaused | LFailed

datatype audit_kind = KBlocked | KQuarantined

datatype sec_scope = SScoped | SBroad | SRestricted

datatype policy_state = PActive | PPaused | PUnderReview

datatype denied_by = BySystem | ByYou

record sec_layer =
  sl_id :: nat
  sl_name :: jstr
  sl_state :: sec_layer_state
  sl_blurb :: jstr
  sl_governs :: nat
  sl_examples :: "jstr list"

record audit_entry =
  ae_id :: jstr
  ae_when :: jstr
  ae_whenIso :: jstr
  ae_kind :: audit_kind
  ae_title :: jstr
  ae_cause :: jstr
  ae_permission :: jstr
  ae_scope :: sec_scope
  ae_layer :: nat
  ae_ruleId :: jstr
  ae_ruleName :: jstr
  ae_deniedBy :: denied_by
  ae_details :: jstr

record policy_history_entry =
  ph_when :: jstr
  ph_what :: jstr

record sec_policy =
  sp_id :: jstr
  sp_name :: jstr
  sp_purpose :: jstr
  sp_state :: policy_state
  sp_layer :: nat
  sp_ruleText :: jstr
  sp_triggeredLast30d :: nat
  sp_history :: "policy_history_entry list"
  sp_relatedAuditIds :: "jstr list"

section \<open>Tables\<close>

datatype sec_tone = TSafe | TWarning | TBlocked | TQuarantined | TAccent | TNeutral

primrec LAYER_TONE :: "sec_layer_state \<Rightarrow> sec_tone" where
  "LAYER_TONE LOk = TSafe"
| "LAYER_TONE LWatching = TWarning"
| "LAYER_TONE LPaused = TNeutral"
| "LAYER_TONE LFailed = TBlocked"

primrec LAYER_LABEL :: "sec_layer_state \<Rightarrow> jstr" where
  "LAYER_LABEL LOk = ''OK''"
| "LAYER_LABEL LWatching = ''Watching''"
| "LAYER_LABEL LPaused = ''Paused''"
| "LAYER_LABEL LFailed = ''Failed''"

primrec SCOPE_TONE :: "sec_scope \<Rightarrow> sec_tone" where
  "SCOPE_TONE SScoped = TSafe"
| "SCOPE_TONE SBroad = TWarning"
| "SCOPE_TONE SRestricted = TQuarantined"

primrec POLICY_TONE :: "policy_state \<Rightarrow> sec_tone" where
  "POLICY_TONE PActive = TSafe"
| "POLICY_TONE PPaused = TNeutral"
| "POLICY_TONE PUnderReview = TWarning"

primrec KIND_TONE :: "audit_kind \<Rightarrow> sec_tone" where
  "KIND_TONE KBlocked = TBlocked"
| "KIND_TONE KQuarantined = TQuarantined"

text \<open>The wire value of a state is its name in lower case; the label capitalises it.\<close>

primrec policy_state_value :: "policy_state \<Rightarrow> jstr" where
  "policy_state_value PActive = ''active''"
| "policy_state_value PPaused = ''paused''"
| "policy_state_value PUnderReview = ''under-review''"

definition policy_label :: "policy_state \<Rightarrow> jstr" where
  "policy_label st = (if st = PUnderReview then ''Under review''
     else (case policy_state_value st of [] \<Rightarrow> [] | c # r \<Rightarrow> js_toUpperCase [c] @ r))"

definition pause_label :: "policy_state \<Rightarrow> jstr" where
  "pause_label st = (if st = PPaused then ''Resume'' else ''Pause'')"

definition header_text :: "sec_layer list \<Rightarrow> jstr" where
  "header_text layers =
     (if count_where (\<lambda>l. sl_state l = LOk) layers = 5
      then ''All five safety layers are running normally. Below: what they'' @ [CHR 0x27] @ ''re governing, what got blocked, and the rules you can adjust.''
      else ''Most safety layers are running normally; one is being watched. Below: what they'' @ [CHR 0x27] @ ''re governing, what got blocked, and the rules you can adjust.'')"

section \<open>The audit log\<close>

text \<open>Hours as a number, where \<^const>\<open>None\<close> is \<open>NaN\<close>; comparing with \<open>NaN\<close> is false.\<close>

definition hoursAgo :: "jstr \<Rightarrow> int option" where
  "hoursAgo label =
     (if js_endsWith label ''h ago'' then js_parseInt label
      else if label = ''yesterday'' then Some 24
      else if js_endsWith label ''d ago'' then map_option (\<lambda>n. n * 24) (js_parseInt label)
      else Some 9999)"

definition within_hours :: "int \<Rightarrow> jstr \<Rightarrow> bool" where
  "within_hours h label = (case hoursAgo label of None \<Rightarrow> False | Some n \<Rightarrow> n \<le> h)"

datatype audit_filter = AfAll | AfBlocked | AfQuarantined | AfByMe | Af24h | Af7d

definition audit_filter_opts :: "(audit_filter \<times> jstr) list" where
  "audit_filter_opts = [(AfAll, ''All''), (AfBlocked, ''Blocked''), (AfQuarantined, ''Quarantined''),
     (AfByMe, ''Denied by me''), (Af24h, ''Last 24h''), (Af7d, ''Last 7d'')]"

primrec audit_filtered :: "audit_filter \<Rightarrow> audit_entry \<Rightarrow> bool" where
  "audit_filtered AfAll e = True"
| "audit_filtered AfBlocked e = (ae_kind e = KBlocked)"
| "audit_filtered AfQuarantined e = (ae_kind e = KQuarantined)"
| "audit_filtered AfByMe e = (ae_deniedBy e = ByYou)"
| "audit_filtered Af24h e = within_hours 24 (ae_when e)"
| "audit_filtered Af7d e = within_hours (24 * 7) (ae_when e)"

primrec audit_counts :: "audit_entry list \<Rightarrow> audit_filter \<Rightarrow> nat" where
  "audit_counts es AfAll = length es"
| "audit_counts es AfBlocked = count_where (\<lambda>e. ae_kind e = KBlocked) es"
| "audit_counts es AfQuarantined = count_where (\<lambda>e. ae_kind e = KQuarantined) es"
| "audit_counts es AfByMe = count_where (\<lambda>e. ae_deniedBy e = ByYou) es"
| "audit_counts es Af24h = count_where (\<lambda>e. within_hours 24 (ae_when e)) es"
| "audit_counts es Af7d = count_where (\<lambda>e. within_hours (24 * 7) (ae_when e)) es"

section \<open>The page and its drawer\<close>

datatype drawer_tab = TabEditor | TabHistory | TabTest

record policy_drawer =
  dr_tab :: drawer_tab
  dr_text :: jstr

record security_page =
  sec_layers :: "sec_layer list"
  sec_audit :: "audit_entry list"
  policies :: "sec_policy list"
  sec_filter :: audit_filter
  openPolicy :: "(jstr \<times> drawer_tab) option"
  sec_toast :: "jstr option"
  drawer :: "policy_drawer option"

definition security_init :: "sec_layer list \<Rightarrow> audit_entry list \<Rightarrow> sec_policy list \<Rightarrow> security_page" where
  "security_init ls es ps =
     \<lparr>sec_layers = ls, sec_audit = es, policies = ps, sec_filter = AfAll, openPolicy = None, sec_toast = None, drawer = None\<rparr>"

definition shown_audit :: "security_page \<Rightarrow> audit_entry list" where
  "shown_audit s = filter (audit_filtered (sec_filter s)) (sec_audit s)"

definition opened_policy :: "security_page \<Rightarrow> sec_policy option" where
  "opened_policy s = (case openPolicy s of None \<Rightarrow> None | Some (i, fc) \<Rightarrow> find (\<lambda>p. sp_id p = i) (policies s))"

definition related :: "security_page \<Rightarrow> sec_policy \<Rightarrow> audit_entry list" where
  "related s p = filter (\<lambda>a. ae_ruleId a = sp_id p) (sec_audit s)"

text \<open>The drawer has no key: it is mounted with the tab asked for and the text of the policy when there was
  none, it is gone when no policy is found, and when another policy is opened it keeps its tab and an
  effect replaces the text.\<close>

definition show_policy :: "(jstr \<times> drawer_tab) option \<Rightarrow> security_page \<Rightarrow> security_page" where
  "show_policy op s =
     (let s' = s\<lparr>openPolicy := op\<rparr>
      in s'\<lparr>drawer := (case opened_policy s' of None \<Rightarrow> None
         | Some p \<Rightarrow> (case (drawer s, opened_policy s) of
               (Some d, Some q) \<Rightarrow> Some (if sp_id q = sp_id p \<and> sp_ruleText q = sp_ruleText p then d else d\<lparr>dr_text := sp_ruleText p\<rparr>)
             | _ \<Rightarrow> Some \<lparr>dr_tab = snd (the op), dr_text = sp_ruleText p\<rparr>))\<rparr>)"

definition handleOpenRule :: "jstr \<Rightarrow> security_page \<Rightarrow> security_page" where
  "handleOpenRule ruleId s = show_policy (Some (ruleId, TabEditor)) s"

definition handleOpenPolicy :: "jstr \<Rightarrow> drawer_tab \<Rightarrow> security_page \<Rightarrow> security_page" where
  "handleOpenPolicy i fc s = show_policy (Some (i, fc)) s"

definition close_drawer :: "security_page \<Rightarrow> security_page" where
  "close_drawer s = show_policy None s"

definition pause_policy :: "sec_policy \<Rightarrow> sec_policy" where
  "pause_policy p = p\<lparr>sp_state := (if sp_state p = PPaused then PActive else PPaused)\<rparr>"

definition handlePause :: "jstr \<Rightarrow> security_page \<Rightarrow> security_page" where
  "handlePause i s =
     (let s' = s\<lparr>policies := update_by sp_id i pause_policy (policies s)\<rparr>
      in case find (\<lambda>p. sp_id p = i) (policies s) of None \<Rightarrow> s'
         | Some p \<Rightarrow> s'\<lparr>sec_toast := Some ((if sp_state p = PPaused then ''Resumed'' else ''Paused'') @ '' '' @ u_middot @ '' '' @ sp_name p)\<rparr>)"

datatype security_event =
    PickAudit audit_filter | OpenRuleClick jstr | EditClick jstr | TestClick jstr | PauseClick jstr
  | DrawerTab drawer_tab | DrawerType jstr | DrawerPause | CloseDrawer | ToastGone

fun security_enabled :: "security_event \<Rightarrow> security_page \<Rightarrow> bool" where
  "security_enabled (OpenRuleClick i) s = (i \<in> ae_ruleId ` set (shown_audit s))"
| "security_enabled (EditClick i) s = (i \<in> sp_id ` set (policies s))"
| "security_enabled (TestClick i) s = (i \<in> sp_id ` set (policies s))"
| "security_enabled (PauseClick i) s = (i \<in> sp_id ` set (policies s))"
| "security_enabled (DrawerTab t) s = (drawer s \<noteq> None)"
| "security_enabled (DrawerType t) s = (case drawer s of None \<Rightarrow> False | Some d \<Rightarrow> dr_tab d = TabEditor)"
| "security_enabled DrawerPause s = (case drawer s of None \<Rightarrow> False | Some d \<Rightarrow> dr_tab d = TabEditor)"
| "security_enabled CloseDrawer s = (drawer s \<noteq> None)"
| "security_enabled ToastGone s = (sec_toast s \<noteq> None)"
| "security_enabled (PickAudit f) s = True"

fun security_exec :: "security_event \<Rightarrow> security_page \<Rightarrow> security_page" where
  "security_exec (PickAudit f) s = s\<lparr>sec_filter := f\<rparr>"
| "security_exec (OpenRuleClick i) s = handleOpenRule i s"
| "security_exec (EditClick i) s = handleOpenPolicy i TabEditor s"
| "security_exec (TestClick i) s = handleOpenPolicy i TabTest s"
| "security_exec (PauseClick i) s = handlePause i s"
| "security_exec (DrawerTab t) s = s\<lparr>drawer := map_option (\<lambda>d. d\<lparr>dr_tab := t\<rparr>) (drawer s)\<rparr>"
| "security_exec (DrawerType t) s = s\<lparr>drawer := map_option (\<lambda>d. d\<lparr>dr_text := t\<rparr>) (drawer s)\<rparr>"
| "security_exec DrawerPause s = (case openPolicy s of None \<Rightarrow> s | Some (i, fc) \<Rightarrow> handlePause i s)"
| "security_exec CloseDrawer s = close_drawer s"
| "security_exec ToastGone s = s\<lparr>sec_toast := None\<rparr>"

section \<open>Filters\<close>

lemma digit_not_suffix: "js_endsWith (nat_str n @ t) u \<longleftrightarrow> js_endsWith t u" if "length u \<le> length t" for t u
proof -
  have "js_startsWith (rev t @ r) (rev u) \<longleftrightarrow> js_startsWith (rev t) (rev u)" for r
    using that by (simp add: js_startsWith_prefix) (metis append_eq_append_conv2 append_Nil2 append_assoc length_append length_rev
        le_add_same_cancel1 le_zero_eq length_0_conv add_le_cancel_left nat_add_left_cancel_le)
  then show ?thesis by (simp add: js_endsWith_def)
qed

lemma hoursAgo_labels:
  "hoursAgo (nat_str n @ ''h ago'') = Some (int n)"
  "hoursAgo (nat_str n @ ''d ago'') = Some (int n * 24)"
  "hoursAgo ''yesterday'' = Some 24"
proof -
  have p: "js_parseInt (nat_str n @ ''h ago'') = Some (int n)" "js_parseInt (nat_str n @ ''d ago'') = Some (int n)"
    by (simp_all add: js_parseInt_nat_str is_digit_def)
  have y: "nat_str n @ ''d ago'' \<noteq> ''yesterday''"
  proof
    assume "nat_str n @ ''d ago'' = ''yesterday''"
    then have "drop (length (nat_str n)) ''yesterday'' = ''d ago''" by (metis append_eq_conv_conj)
    then show False by (cases "length (nat_str n)" rule: nat.exhaust) (auto simp: drop_Cons split: nat.splits)
  qed
  show "hoursAgo (nat_str n @ ''h ago'') = Some (int n)"
    using p by (simp add: hoursAgo_def digit_not_suffix) (simp add: js_endsWith_def)
  show "hoursAgo (nat_str n @ ''d ago'') = Some (int n * 24)"
    using p y by (simp add: hoursAgo_def digit_not_suffix) (simp add: js_endsWith_def)
  show "hoursAgo ''yesterday'' = Some 24" by (simp add: hoursAgo_def js_endsWith_def)
qed

text \<open>
  The audit log shows what its filters say: the number on a filter is the number of entries it shows,
  blocked and quarantined entries add up to all of them, what the last day shows the last week shows
  too, and an entry that is \<open>n\<close> hours or \<open>n\<close> days old is in the filter of the last \<open>h\<close> hours exactly when
  its age is at most \<open>h\<close> hours.
\<close>

theorem audit_log_filters:
  "audit_counts (sec_audit s) f = length (shown_audit (s\<lparr>sec_filter := f\<rparr>))
   \<and> audit_counts es AfBlocked + audit_counts es AfQuarantined = audit_counts es AfAll
   \<and> set (shown_audit (s\<lparr>sec_filter := Af24h\<rparr>)) \<subseteq> set (shown_audit (s\<lparr>sec_filter := Af7d\<rparr>))
   \<and> within_hours h (nat_str n @ ''h ago'') = (int n \<le> h)
   \<and> within_hours h (nat_str n @ ''d ago'') = (24 * int n \<le> h)"
proof (intro conjI)
  show "audit_counts (sec_audit s) f = length (shown_audit (s\<lparr>sec_filter := f\<rparr>))"
    by (cases f) (auto simp: shown_audit_def count_where_def intro!: arg_cong [where f = length] filter_cong)
  have "e \<noteq> KBlocked \<longleftrightarrow> e = KQuarantined" for e by (cases e) simp_all
  then show "audit_counts es AfBlocked + audit_counts es AfQuarantined = audit_counts es AfAll"
    using sum_length_filter_compl [of "\<lambda>e. ae_kind e = KBlocked" es] by (simp add: count_where_def)
  show "set (shown_audit (s\<lparr>sec_filter := Af24h\<rparr>)) \<subseteq> set (shown_audit (s\<lparr>sec_filter := Af7d\<rparr>))"
    by (auto simp: shown_audit_def within_hours_def split: option.splits)
qed (simp_all add: within_hours_def hoursAgo_labels mult.commute)

text \<open>Labels in minutes are older than everything: an entry of five minutes ago is in no age filter.\<close>

lemma minutes_never_recent: "hoursAgo ''5m ago'' = Some 9999 \<and> \<not> within_hours (24 * 7) ''5m ago''"
  by code_simp

section \<open>Policies\<close>

definition pause_target :: "security_event \<Rightarrow> security_page \<Rightarrow> jstr option" where
  "pause_target ev s = (case ev of PauseClick i \<Rightarrow> Some i | DrawerPause \<Rightarrow> map_option fst (openPolicy s) | _ \<Rightarrow> None)"

lemma policies_show [simp]: "policies (show_policy op s) = policies s"
  by (simp add: show_policy_def Let_def)

lemma policies_pause: "policies (handlePause i s) = update_by sp_id i pause_policy (policies s)"
  by (simp add: handlePause_def Let_def split: option.splits)

interpretation policy_clicks: click_updates sp_id pause_policy policies security_exec pause_target
proof
  show "sp_id (pause_policy p) = sp_id p" for p by (simp add: pause_policy_def)
  show "policies (security_exec ev s)
    = (case pause_target ev s of None \<Rightarrow> policies s | Some k \<Rightarrow> update_by sp_id k pause_policy (policies s))" for ev s
    by (cases ev) (auto simp: pause_target_def handleOpenRule_def handleOpenPolicy_def close_drawer_def policies_pause
        split: option.splits)
qed

lemma pause_pow:
  "(pause_policy ^^ n) p = p\<lparr>sp_state := (if n = 0 then sp_state p else if (sp_state p = PPaused) = even n then PPaused else PActive)\<rparr>"
  by (induction n) (auto simp: pause_policy_def)

text \<open>
  Nothing on the Security page deletes or rewrites a policy: after any sequence of page events the
  library holds the same policies in the same order, each with its name, rule text and history, and
  the state of a policy depends only on how often it was paused or resumed, on its card or in the
  drawer.  Text typed in the drawer reaches no policy.
\<close>

theorem policies_only_paused:
  assumes "find (\<lambda>p. sp_id p = i) (policies s) = Some p" and "n = clicks security_exec pause_target i evs s"
  shows "map sp_id (policies (fold security_exec evs s)) = map sp_id (policies s)
    \<and> find (\<lambda>p. sp_id p = i) (policies (fold security_exec evs s))
      = Some (p\<lparr>sp_state := (if n = 0 then sp_state p else if (sp_state p = PPaused) = even n then PPaused else PActive)\<rparr>)"
  using policy_clicks.find_run [of i evs s] policy_clicks.keys_run [of evs s] assms by (simp add: pause_pow)

definition demo_policy :: sec_policy where
  "demo_policy = \<lparr>sp_id = ''pol-05'', sp_name = ''Diff-size cap'', sp_purpose = [], sp_state = PUnderReview, sp_layer = 5,
     sp_ruleText = ''when x'', sp_triggeredLast30d = 3, sp_history = [], sp_relatedAuditIds = []\<rparr>"

lemma policies_only_paused_witness:
  "find (\<lambda>p. sp_id p = ''pol-05'') (policies (fold security_exec
      [EditClick ''pol-05'', DrawerType ''gone'', DrawerPause, CloseDrawer, PauseClick ''pol-05''] (security_init [] [] [demo_policy])))
   = Some (demo_policy\<lparr>sp_state := PActive\<rparr>)"
proof -
  let ?s = "security_init [] [] [demo_policy]"
  let ?evs = "[EditClick ''pol-05'', DrawerType ''gone'', DrawerPause, CloseDrawer, PauseClick ''pol-05'']"
  have f: "find (\<lambda>p. sp_id p = ''pol-05'') (policies ?s) = Some demo_policy"
    by (simp add: security_init_def demo_policy_def)
  have n: "2 = clicks security_exec pause_target ''pol-05'' ?evs ?s" by code_simp
  show ?thesis using policies_only_paused [OF f n] by (simp add: demo_policy_def)
qed

section \<open>The toast\<close>

definition security_toast_ms :: nat where
  "security_toast_ms = 2200"

text \<open>The toast is a text, so that setting it to the text it has changes nothing.\<close>

interpretation security_toast: timed_toast security_toast_ms "\<lambda>t. t = []" sec_toast security_enabled security_exec ToastGone "\<lambda>v. v = ToastGone" "\<lambda>v s. False"
  by unfold_locales simp

section \<open>The page behind the drawer\<close>

text \<open>The page locks while a policy is asked for; the drawer is there while it is found.  The request is an object, new
  with each click.\<close>

definition security_locks :: "(jstr \<times> drawer_tab) option \<Rightarrow> bool" where
  "security_locks op \<longleftrightarrow> op \<noteq> None"

definition security_fresh :: "security_event \<Rightarrow> bool" where
  "security_fresh ev \<longleftrightarrow> (case ev of OpenRuleClick i \<Rightarrow> True | EditClick i \<Rightarrow> True | TestClick i \<Rightarrow> True | _ \<Rightarrow> False)"

text \<open>Every entry of the log names a policy of the library, and what is asked for is one of them.\<close>

definition security_inv :: "security_page \<Rightarrow> bool" where
  "security_inv s \<longleftrightarrow> ae_ruleId ` set (sec_audit s) \<subseteq> sp_id ` set (policies s)
     \<and> fst ` set_option (openPolicy s) \<subseteq> sp_id ` set (policies s)"

lemma opened_policy_iff: "opened_policy s \<noteq> None \<longleftrightarrow> (\<exists>op. openPolicy s = Some op \<and> fst op \<in> sp_id ` set (policies s))"
proof (cases "openPolicy s")
  case (Some op)
  then have "opened_policy s = None \<longleftrightarrow> \<not> (\<exists>p. p \<in> set (policies s) \<and> sp_id p = fst op)"
    by (simp add: opened_policy_def case_prod_beta find_None_iff)
  then show ?thesis using Some by (metis image_iff option.inject)
qed (simp add: opened_policy_def)

lemma show_policy_fields [simp]: "openPolicy (show_policy op s) = op" "sec_audit (show_policy op s) = sec_audit s"
  by (simp_all add: show_policy_def Let_def)

lemma handlePause_fields [simp]: "openPolicy (handlePause i s) = openPolicy s" "sec_audit (handlePause i s) = sec_audit s"
  by (simp_all add: handlePause_def Let_def split: option.splits)

lemma security_inv_exec:
  assumes "security_inv s" "security_enabled ev s" shows "security_inv (security_exec ev s)"
proof -
  have "sp_id ` set (policies (security_exec ev s)) = sp_id ` set (policies s)"
    using policy_clicks.keys_run [of "[ev]" s] by (metis fold_simps list.set_map)
  moreover have "sec_audit (security_exec ev s) = sec_audit s"
    by (cases ev) (simp_all add: handleOpenRule_def handleOpenPolicy_def close_drawer_def split: option.splits prod.splits)
  moreover have "fst ` set_option (openPolicy (security_exec ev s)) \<subseteq> sp_id ` set (policies s)"
    using assms by (cases ev) (auto simp: security_inv_def shown_audit_def handleOpenRule_def handleOpenPolicy_def close_drawer_def
        split: option.splits)
  ultimately show ?thesis using assms(1) by (simp add: security_inv_def)
qed

interpretation security_drawer: drawer_page "lock_if_open security_locks" security_locks openPolicy "\<lambda>s. opened_policy s \<noteq> None"
  security_enabled security_exec CloseDrawer security_fresh security_inv
proof
  show "key_listeners (snd (lock_if_open security_locks d w)) = key_listeners w" for d w by (simp add: lock_if_open_def)
  show "security_inv (security_exec v p)" if "security_inv p" "security_enabled v p" for v p using that by (rule security_inv_exec)
  show "security_inv (security_exec CloseDrawer p)" if "security_inv p" for p
    using that by (simp add: security_inv_def close_drawer_def)
  show "security_locks (openPolicy p) = (opened_policy p \<noteq> None)" if "security_inv p" for p
    using that unfolding opened_policy_iff by (auto simp: security_inv_def security_locks_def)
  show "\<not> opened_policy (security_exec CloseDrawer p) \<noteq> None" for p by (simp add: close_drawer_def opened_policy_def)
qed

abbreviation "security_drawer_run \<equiv> drawer_run (lock_if_open security_locks) openPolicy (\<lambda>s. opened_policy s \<noteq> None)
  security_enabled security_exec CloseDrawer security_fresh"

abbreviation "security_press k \<equiv> drawer_exec (lock_if_open security_locks) openPolicy (\<lambda>s. opened_policy s \<noteq> None)
  security_exec CloseDrawer security_fresh (KeyDown k)"

text \<open>Without the references the page can freeze: an entry whose rule is not in the library locks the page, there is no
  drawer to close, and the Escape key has no listener.\<close>

definition demo_entry :: "jstr \<Rightarrow> audit_entry" where
  "demo_entry rule = \<lparr>ae_id = ''a'', ae_when = ''1h ago'', ae_whenIso = [], ae_kind = KBlocked, ae_title = [], ae_cause = [],
     ae_permission = [], ae_scope = SScoped, ae_layer = 1, ae_ruleId = rule, ae_ruleName = [], ae_deniedBy = BySystem, ae_details = []\<rparr>"

lemma unknown_rule_freezes:
  "map_option (\<lambda>s. (overflow (da_doc s), opened_policy (da_page s), key_listeners (da_doc s)))
     (security_drawer_run [Do (OpenRuleClick ''gone''), KeyDown ''Escape'']
       (security_init [] [demo_entry ''gone''] []))
   = Some (''hidden'', None, [])"
  by code_simp

end
