(* ===== verification/Route_Data.thy ===== *)
theory Route_Data
  imports Prelude
begin

text \<open>
  The data envelope of the v2 routes (\<open>apps/web/src/lib/route-data.ts\<close>): \<open>useRouteData\<close> as a state
  machine.  The state is what the hook keeps (data, status, error, the invocation counter) plus what
  the runtime keeps for it: the invocations whose promise is still pending and whether the effect is
  set up.  An event is one turn of the event loop: the effect, its cleanup, a change of the caller's
  dependencies, \<open>reload\<close>, or the settling of a pending promise, in any order the runtime may choose.
  A loader always returns a promise.
\<close>

datatype route_data_status = Loading | Ok | Error

record ('a, 'e) route_data =
  rd_data :: "'a option"
  rd_status :: route_data_status
  rd_error :: "'e option"
  invocationRef :: nat
  pending :: "nat list"
  effect_on :: bool

definition rd_init :: "'a option \<Rightarrow> ('a, 'e) route_data" where
  "rd_init initialData =
     \<lparr>rd_data = initialData, rd_status = (if initialData \<noteq> None then Ok else Loading), rd_error = None,
      invocationRef = 0, pending = [], effect_on = False\<rparr>"

definition run :: "('a, 'e) route_data \<Rightarrow> ('a, 'e) route_data" where
  "run s = (let myInvocation = Suc (invocationRef s)
            in s\<lparr>invocationRef := myInvocation,
                 rd_status := (if rd_status s = Ok then Ok else Loading),
                 rd_error := None,
                 pending := pending s @ [myInvocation]\<rparr>)"

definition cleanup :: "('a, 'e) route_data \<Rightarrow> ('a, 'e) route_data" where
  "cleanup s = s\<lparr>invocationRef := Suc (invocationRef s)\<rparr>"

definition on_resolved :: "nat \<Rightarrow> 'a \<Rightarrow> ('a, 'e) route_data \<Rightarrow> ('a, 'e) route_data" where
  "on_resolved myInvocation nxt s =
     (if myInvocation \<noteq> invocationRef s then s else s\<lparr>rd_data := Some nxt, rd_status := Ok\<rparr>)"

definition on_rejected :: "nat \<Rightarrow> 'e \<Rightarrow> ('a, 'e) route_data \<Rightarrow> ('a, 'e) route_data" where
  "on_rejected myInvocation err s =
     (if myInvocation \<noteq> invocationRef s then s else s\<lparr>rd_error := Some err, rd_status := Error\<rparr>)"

datatype ('a, 'e) rd_event = Mount | Unmount | DepsChanged | Reload | Resolved nat 'a | Rejected nat 'e

fun rd_enabled :: "('a, 'e) rd_event \<Rightarrow> ('a, 'e) route_data \<Rightarrow> bool" where
  "rd_enabled Mount s = (\<not> effect_on s)"
| "rd_enabled Unmount s = effect_on s"
| "rd_enabled DepsChanged s = effect_on s"
| "rd_enabled Reload s = True"
| "rd_enabled (Resolved n v) s = (n \<in> set (pending s))"
| "rd_enabled (Rejected n e) s = (n \<in> set (pending s))"

fun rd_exec :: "('a, 'e) rd_event \<Rightarrow> ('a, 'e) route_data \<Rightarrow> ('a, 'e) route_data" where
  "rd_exec Mount s = (run s)\<lparr>effect_on := True\<rparr>"
| "rd_exec Unmount s = (cleanup s)\<lparr>effect_on := False\<rparr>"
| "rd_exec DepsChanged s = run (cleanup s)"
| "rd_exec Reload s = run s"
| "rd_exec (Resolved n v) s = on_resolved n v (s\<lparr>pending := remove1 n (pending s)\<rparr>)"
| "rd_exec (Rejected n e) s = on_rejected n e (s\<lparr>pending := remove1 n (pending s)\<rparr>)"

text \<open>A run of the hook; \<^const>\<open>None\<close> when an event of the list cannot happen.\<close>

fun rd_trace :: "('a, 'e) rd_event list \<Rightarrow> ('a, 'e) route_data \<Rightarrow> ('a, 'e) route_data option" where
  "rd_trace [] s = Some s"
| "rd_trace (ev # evs) s = (if rd_enabled ev s then rd_trace evs (rd_exec ev s) else None)"

text \<open>The responses that reach the page, with the number of the invocation they answer.\<close>

fun rd_accepted :: "('a, 'e) rd_event list \<Rightarrow> ('a, 'e) route_data \<Rightarrow> (nat \<times> ('e + 'a)) list" where
  "rd_accepted [] s = []"
| "rd_accepted (ev # evs) s =
     (case ev of
        Resolved n v \<Rightarrow> if n = invocationRef s then [(n, Inr v)] else []
      | Rejected n e \<Rightarrow> if n = invocationRef s then [(n, Inl e)] else []
      | _ \<Rightarrow> []) @ rd_accepted evs (rd_exec ev s)"

lemmas rd_op_defs = run_def cleanup_def on_resolved_def on_rejected_def Let_def

section \<open>The invariant\<close>

definition rd_inv :: "('a, 'e) route_data \<Rightarrow> bool" where
  "rd_inv s \<longleftrightarrow>
     distinct (pending s) \<and> (\<forall>n \<in> set (pending s). n \<le> invocationRef s)
     \<and> (rd_status s = Ok \<longrightarrow> rd_data s \<noteq> None)
     \<and> (rd_error s \<noteq> None \<longrightarrow> rd_status s = Error)
     \<and> (rd_status s = Error \<longrightarrow> rd_error s \<noteq> None \<and> invocationRef s \<notin> set (pending s))
     \<and> (effect_on s \<and> rd_status s = Loading \<longrightarrow> invocationRef s \<in> set (pending s))"

lemma rd_inv_init: "rd_inv (rd_init seed)"
  by (auto simp: rd_inv_def rd_init_def)

lemma rd_inv_run: "rd_inv s \<Longrightarrow> rd_inv (run s)"
  by (auto simp: rd_inv_def rd_op_defs)

lemma rd_inv_run_cleanup: "rd_inv s \<Longrightarrow> rd_inv (run (cleanup s))"
  by (fastforce simp: rd_inv_def rd_op_defs)

lemma rd_inv_unmount: "rd_inv s \<Longrightarrow> rd_inv ((cleanup s)\<lparr>effect_on := False\<rparr>)"
  by (fastforce simp: rd_inv_def rd_op_defs)

lemma rd_inv_mount: "rd_inv s \<Longrightarrow> rd_inv ((run s)\<lparr>effect_on := True\<rparr>)"
  by (auto simp: rd_inv_def rd_op_defs)

lemma rd_inv_settle:
  "rd_inv s \<Longrightarrow> n \<in> set (pending s) \<Longrightarrow> rd_inv (on_resolved n v (s\<lparr>pending := remove1 n (pending s)\<rparr>))"
  "rd_inv s \<Longrightarrow> n \<in> set (pending s) \<Longrightarrow> rd_inv (on_rejected n e (s\<lparr>pending := remove1 n (pending s)\<rparr>))"
  by (auto simp: rd_inv_def rd_op_defs)

lemma rd_inv_exec: "rd_inv s \<Longrightarrow> rd_enabled ev s \<Longrightarrow> rd_inv (rd_exec ev s)"
  by (cases ev) (simp_all add: rd_inv_run rd_inv_run_cleanup rd_inv_unmount rd_inv_mount rd_inv_settle)

lemma rd_inv_trace: "rd_trace evs s = Some s' \<Longrightarrow> rd_inv s \<Longrightarrow> rd_inv s'"
  by (induction evs s rule: rd_trace.induct) (auto simp: rd_inv_exec split: if_splits)

section \<open>Which responses are shown\<close>

lemma invocation_mono: "invocationRef s \<le> invocationRef (rd_exec ev s)"
  by (cases ev) (auto simp: rd_op_defs)

text \<open>A counter that no pending promise carries was used up: later responses carry larger numbers.\<close>

lemma accepted_bounds:
  assumes "rd_trace evs s = Some s'" and "rd_inv s"
  shows "(\<forall>p \<in> set (rd_accepted evs s). invocationRef s \<le> fst p)
       \<and> (invocationRef s \<notin> set (pending s) \<longrightarrow> (\<forall>p \<in> set (rd_accepted evs s). invocationRef s < fst p))"
  using assms
proof (induction evs s rule: rd_trace.induct)
  case (1 s)
  then show ?case by simp
next
  case (2 ev evs s)
  then have en: "rd_enabled ev s" and tr: "rd_trace evs (rd_exec ev s) = Some s'" by (auto split: if_splits)
  note IH = "2.IH" [OF en tr rd_inv_exec [OF "2.prems"(2) en]]
  have le: "invocationRef s \<le> invocationRef (rd_exec ev s)" by (rule invocation_mono)
  have keep: "invocationRef (rd_exec ev s) = invocationRef s \<Longrightarrow> invocationRef s \<notin> set (pending s) \<Longrightarrow>
      invocationRef s \<notin> set (pending (rd_exec ev s))"
    using "2.prems"(2) by (cases ev) (auto simp: rd_op_defs rd_inv_def)
  have rest: "invocationRef s \<le> fst p" if "p \<in> set (rd_accepted evs (rd_exec ev s))" for p
    using IH that le by (meson order_trans)
  moreover have "invocationRef s < fst p"
    if "p \<in> set (rd_accepted evs (rd_exec ev s))" "invocationRef s \<notin> set (pending s)" for p
    using IH that le keep by (metis le_neq_implies_less less_le_trans)
  ultimately show ?case using en by (cases ev) auto
qed

lemma accepted_increasing:
  assumes "rd_trace evs s = Some s'" and "rd_inv s"
  shows "sorted_wrt (<) (map fst (rd_accepted evs s))"
  using assms
proof (induction evs s rule: rd_trace.induct)
  case (1 s)
  then show ?case by simp
next
  case (2 ev evs s)
  then have en: "rd_enabled ev s" and tr: "rd_trace evs (rd_exec ev s) = Some s'" by (auto split: if_splits)
  have inv: "rd_inv (rd_exec ev s)" by (rule rd_inv_exec [OF "2.prems"(2) en])
  have "\<forall>p \<in> set (rd_accepted evs (rd_exec ev s)). n < fst p"
    if "n = invocationRef s" "ev = Resolved n v \<or> ev = Rejected n e" for n v e
  proof -
    have "distinct (pending s)" using "2.prems"(2) by (simp add: rd_inv_def)
    then have "invocationRef (rd_exec ev s) = n" "n \<notin> set (pending (rd_exec ev s))"
      using that by (auto simp: rd_op_defs)
    then show ?thesis using accepted_bounds [OF tr inv] by auto
  qed
  then show ?case using "2.IH" [OF en tr inv] by (cases ev) auto
qed

definition last_success :: "'a option \<Rightarrow> (nat \<times> ('e + 'a)) list \<Rightarrow> 'a option" where
  "last_success seed acc = fold (\<lambda>p d. case snd p of Inl e \<Rightarrow> d | Inr v \<Rightarrow> Some v) acc seed"

lemma trace_data:
  "rd_trace evs s = Some s' \<Longrightarrow> rd_data s' = last_success (rd_data s) (rd_accepted evs s)"
  by (induction evs s rule: rd_trace.induct)
     (auto simp: last_success_def rd_op_defs split: if_splits rd_event.splits)

section \<open>Properties\<close>

text \<open>C19.
  A stale response never wins: in every run of the hook, however promises settle, the responses that
  reach the page answer loader calls in the order these were made, each call at most once, and the
  data shown is that of the last successful one of them (the initial data when there is none).
\<close>

theorem stale_responses_never_win:
  assumes "rd_trace evs (rd_init seed) = Some s"
  shows "sorted_wrt (<) (map fst (rd_accepted evs (rd_init seed)))
    \<and> rd_data s = last_success seed (rd_accepted evs (rd_init seed))"
  using accepted_increasing [OF assms rd_inv_init] trace_data [OF assms] by (simp add: rd_init_def)

lemma stale_responses_never_win_witness:
  "rd_trace [Mount, Reload, Resolved 2 ''new'', Resolved 1 ''old''] (rd_init None)
     = Some (\<lparr>rd_data = Some ''new'', rd_status = Ok, rd_error = None :: unit option, invocationRef = 2,
              pending = [], effect_on = True\<rparr>)
   \<and> last_success None (rd_accepted [Mount, Reload, Resolved 2 ''new'', Resolved 1 ''old'']
       (rd_init None :: (string, unit) route_data)) = Some ''new''"
  using stale_responses_never_win [of "[Mount, Reload, Resolved 2 ''new'', Resolved 1 ''old'']" None
      "\<lparr>rd_data = Some ''new'', rd_status = Ok, rd_error = None :: unit option, invocationRef = 2,
        pending = [], effect_on = True\<rparr>"]
  by (simp add: rd_init_def rd_op_defs)

text \<open>C21.
  The envelope a page sees is consistent in every run: status \<open>ok\<close> comes with data, an error value is
  present exactly with status \<open>error\<close>, and a page that is set up and shows \<open>loading\<close> is waiting for a
  request that is still pending, so it never hangs on a response that was thrown away.
\<close>

theorem envelope_consistent:
  assumes "rd_trace evs (rd_init seed) = Some s"
  shows "(rd_status s = Ok \<longrightarrow> rd_data s \<noteq> None) \<and> (rd_error s \<noteq> None \<longleftrightarrow> rd_status s = Error)
    \<and> (effect_on s \<and> rd_status s = Loading \<longrightarrow> invocationRef s \<in> set (pending s))"
  using rd_inv_trace [OF assms rd_inv_init] by (auto simp: rd_inv_def)

lemma envelope_consistent_witness:
  "rd_trace [Mount, DepsChanged, Rejected 1 ''late''] (rd_init None :: (nat, string) route_data)
     = Some \<lparr>rd_data = None, rd_status = Loading, rd_error = None, invocationRef = 3, pending = [3], effect_on = True\<rparr>
   \<and> (3 :: nat) \<in> set [3]"
  using envelope_consistent [of "[Mount, DepsChanged, Rejected 1 ''late'']" None
      "\<lparr>rd_data = None :: nat option, rd_status = Loading, rd_error = None, invocationRef = 3, pending = [3], effect_on = True\<rparr>"]
  by (simp add: rd_init_def rd_op_defs)

text \<open>
  Once data is shown it stays: no event of any later run, a failed reload included, takes the page
  back to having no data, and a reload of a page in status \<open>ok\<close> does not flash \<open>loading\<close>.
\<close>

theorem data_never_lost:
  assumes "rd_trace evs s = Some s'" and "rd_data s = Some d"
  shows "rd_data s' \<noteq> None \<and> (rd_status s = Ok \<longrightarrow> rd_status (rd_exec Reload s) = Ok)"
proof -
  have "last_success (Some d) acc \<noteq> None" for acc :: "(nat \<times> ('b + 'a)) list"
    by (induction acc arbitrary: d rule: rev_induct) (auto simp: last_success_def split: sum.splits)
  then show ?thesis using trace_data [OF assms(1)] assms(2) by (simp add: rd_op_defs)
qed

lemma data_never_lost_witness:
  "rd_trace [Mount, Rejected 1 ''down''] (rd_init (Some (7 :: nat)))
     = Some \<lparr>rd_data = Some 7, rd_status = Error, rd_error = Some ''down'', invocationRef = 1, pending = [], effect_on = True\<rparr>
   \<and> rd_data \<lparr>rd_data = Some (7 :: nat), rd_status = Error, rd_error = Some ''down'', invocationRef = 1, pending = [], effect_on = True\<rparr> \<noteq> None"
  using data_never_lost [of "[Mount, Rejected 1 ''down'']" "rd_init (Some 7)"
      "\<lparr>rd_data = Some (7 :: nat), rd_status = Error, rd_error = Some ''down'', invocationRef = 1, pending = [], effect_on = True\<rparr>" 7]
  by (simp add: rd_init_def rd_op_defs)

end
