(* ===== verification/Routed_Page.thy ===== *)
theory Routed_Page
  imports Route_Data
begin

text \<open>
  A page with its data envelope.  The Inbox and the Home page keep their own state and copy the data of
  \<open>useRouteData\<close> into it by an effect (\<open>Inbox.tsx\<close> and \<open>Home.tsx\<close>, the \<open>useEffect\<close> after the call of
  the hook).  The effect depends on the status and on the identity of the data, so the data of the
  envelope is a pair: the reference of the array and what is in it.  While the envelope is in error the
  page shows the error view and only the events in \<open>anytime\<close> (timers and the top bar) can happen.
  The theory composes any such page with the machine of \<open>Route_Data\<close>; the locale shows that the
  composition does only what the page alone can do.
\<close>

record ('a, 'e, 'p) routed =
  rload :: "(nat \<times> 'a, 'e) route_data"
  rpage :: 'p

datatype ('a, 'e, 'v) routed_event = RouteEv "(nat \<times> 'a, 'e) rd_event" | PageEv 'v

text \<open>The effect runs when it is set up and when one of its dependencies has changed.\<close>

definition load_fires :: "(nat \<times> 'a, 'e) rd_event \<Rightarrow> (nat \<times> 'a, 'e) route_data \<Rightarrow> bool" where
  "load_fires ev l \<longleftrightarrow>
     ev = Mount \<or> rd_status (rd_exec ev l) \<noteq> rd_status l
     \<or> map_option fst (rd_data (rd_exec ev l)) \<noteq> map_option fst (rd_data l)"

definition loaded_now :: "(nat \<times> 'a, 'e) rd_event \<Rightarrow> (nat \<times> 'a, 'e) route_data \<Rightarrow> 'a option" where
  "loaded_now ev l =
     (if \<not> load_fires ev l then None
      else if rd_status (rd_exec ev l) \<noteq> Ok then None else map_option snd (rd_data (rd_exec ev l)))"

definition route_step ::
  "('a \<Rightarrow> 'p \<Rightarrow> 'p) \<Rightarrow> (nat \<times> 'a, 'e) rd_event \<Rightarrow> ('a, 'e, 'p) routed \<Rightarrow> ('a, 'e, 'p) routed" where
  "route_step on_load ev s =
     s\<lparr>rload := rd_exec ev (rload s),
       rpage := (case loaded_now ev (rload s) of None \<Rightarrow> rpage s | Some d \<Rightarrow> on_load d (rpage s))\<rparr>"

fun routed_enabled :: "('v \<Rightarrow> bool) \<Rightarrow> ('v \<Rightarrow> 'p \<Rightarrow> bool) \<Rightarrow> ('a, 'e, 'v) routed_event \<Rightarrow> ('a, 'e, 'p) routed \<Rightarrow> bool" where
  "routed_enabled anytime en (RouteEv ev) s =
     (rd_enabled ev (rload s) \<and> ev \<noteq> DepsChanged \<and> (ev = Reload \<longrightarrow> rd_status (rload s) = Error))"
| "routed_enabled anytime en (PageEv v) s = ((rd_status (rload s) \<noteq> Error \<or> anytime v) \<and> en v (rpage s))"

fun routed_exec ::
  "('a \<Rightarrow> 'p \<Rightarrow> 'p) \<Rightarrow> ('v \<Rightarrow> 'p \<Rightarrow> 'p) \<Rightarrow> ('a, 'e, 'v) routed_event \<Rightarrow> ('a, 'e, 'p) routed \<Rightarrow> ('a, 'e, 'p) routed" where
  "routed_exec on_load ex (RouteEv ev) s = route_step on_load ev s"
| "routed_exec on_load ex (PageEv v) s = s\<lparr>rpage := ex v (rpage s)\<rparr>"

fun routed_run ::
  "('v \<Rightarrow> bool) \<Rightarrow> ('v \<Rightarrow> 'p \<Rightarrow> bool) \<Rightarrow> ('a \<Rightarrow> 'p \<Rightarrow> 'p) \<Rightarrow> ('v \<Rightarrow> 'p \<Rightarrow> 'p)
   \<Rightarrow> ('a, 'e, 'v) routed_event list \<Rightarrow> ('a, 'e, 'p) routed \<Rightarrow> ('a, 'e, 'p) routed option" where
  "routed_run anytime en on_load ex [] s = Some s"
| "routed_run anytime en on_load ex (ev # evs) s =
     (if routed_enabled anytime en ev s then routed_run anytime en on_load ex evs (routed_exec on_load ex ev s) else None)"

definition routed_init :: "nat \<Rightarrow> 'a \<Rightarrow> 'p \<Rightarrow> ('a, 'e, 'p) routed" where
  "routed_init ref mock p = \<lparr>rload = rd_init (Some (ref, mock)), rpage = p\<rparr>"

text \<open>What the page sees of a run: its own events, and a load event for each response that is copied.\<close>

fun page_events :: "('a \<Rightarrow> 'v) \<Rightarrow> ('a, 'e, 'v) routed_event list \<Rightarrow> (nat \<times> 'a, 'e) route_data \<Rightarrow> 'v list" where
  "page_events load_ev [] l = []"
| "page_events load_ev (PageEv v # evs) l = v # page_events load_ev evs l"
| "page_events load_ev (RouteEv ev # evs) l =
     (case loaded_now ev l of None \<Rightarrow> [] | Some d \<Rightarrow> [load_ev d]) @ page_events load_ev evs (rd_exec ev l)"

section \<open>A page and its load event\<close>

text \<open>
  The contract of a page: \<open>en\<close> and \<open>ex\<close> are its machine, \<open>load_ev\<close> its load event, which is always
  possible, \<open>user\<close> the events that are not loads.
\<close>

locale routed_page =
  fixes anytime :: "'v \<Rightarrow> bool" and user :: "'v \<Rightarrow> bool" and en :: "'v \<Rightarrow> 'p \<Rightarrow> bool" and ex :: "'v \<Rightarrow> 'p \<Rightarrow> 'p"
    and load_ev :: "'a \<Rightarrow> 'v"
  assumes load_enabled: "en (load_ev d) p"
    and load_not_user: "\<not> user (load_ev d)"
begin

lemma projection:
  assumes "routed_run anytime (\<lambda>v p. user v \<and> en v p) (\<lambda>d. ex (load_ev d)) ex evs s = Some s'"
  shows "page_run en ex (page_events load_ev evs (rload s)) (rpage s) = Some (rpage s')"
  using assms
proof (induction evs arbitrary: s)
  case Nil
  then show ?case by simp
next
  case (Cons ev evs)
  from Cons.prems have en: "routed_enabled anytime (\<lambda>v p. user v \<and> en v p) ev s"
    and run: "routed_run anytime (\<lambda>v p. user v \<and> en v p) (\<lambda>d. ex (load_ev d)) ex evs
      (routed_exec (\<lambda>d. ex (load_ev d)) ex ev s) = Some s'"
    by (auto split: if_splits)
  show ?case using Cons.IH [OF run] en
    by (cases ev) (auto simp: route_step_def load_enabled split: option.splits)
qed

text \<open>An invariant of the page holds in every state of the page with its envelope.\<close>

lemma invariant_lifts:
  assumes run: "routed_run anytime (\<lambda>v p. user v \<and> en v p) (\<lambda>d. ex (load_ev d)) ex evs s = Some s'"
    and start: "I (rpage s)" and step: "\<And>v p. I p \<Longrightarrow> en v p \<Longrightarrow> I (ex v p)"
  shows "I (rpage s')"
  using page_run_invariant [OF projection [OF run] start step] .

end

section \<open>Which responses are copied\<close>

lemma exec_keeps_status:
  "rd_enabled ev l \<Longrightarrow> rd_status (rd_exec ev l) = Ok \<Longrightarrow> rd_status l \<noteq> Ok \<Longrightarrow> \<exists>n v. ev = Resolved n v \<and> n = invocationRef l"
  by (cases ev) (auto simp: rd_op_defs split: if_splits)

lemma exec_keeps_data:
  "rd_data (rd_exec ev l) \<noteq> rd_data l \<Longrightarrow> \<exists>n v. ev = Resolved n v \<and> n = invocationRef l"
  by (cases ev) (auto simp: rd_op_defs split: if_splits)

text \<open>A load happens when the effect is set up, or it is the response to the latest request.\<close>

lemma loaded_now_source:
  assumes "rd_enabled ev l" and "loaded_now ev l = Some d"
  shows "ev = Mount \<and> map_option snd (rd_data l) = Some d
    \<or> (\<exists>r. ev = Resolved (invocationRef l) (r, d))"
proof (cases "ev = Mount")
  case True
  then show ?thesis using assms(2) by (auto simp: loaded_now_def load_fires_def rd_op_defs split: if_splits)
next
  case False
  have ok: "rd_status (rd_exec ev l) = Ok" and f: "load_fires ev l" and d: "map_option snd (rd_data (rd_exec ev l)) = Some d"
    using assms(2) by (auto simp: loaded_now_def split: if_splits)
  then have "rd_status l \<noteq> Ok \<or> rd_data (rd_exec ev l) \<noteq> rd_data l"
    using False by (auto simp: load_fires_def)
  then obtain n v where "ev = Resolved n v" "n = invocationRef l"
    using exec_keeps_status [OF assms(1) ok] exec_keeps_data by blast
  then show ?thesis using d by (cases v) (auto simp: rd_op_defs)
qed

fun route_events :: "('a, 'e, 'v) routed_event list \<Rightarrow> (nat \<times> 'a, 'e) rd_event list" where
  "route_events [] = []"
| "route_events (RouteEv ev # evs) = ev # route_events evs"
| "route_events (PageEv v # evs) = route_events evs"

lemma exec_accepted_data:
  assumes "rd_data (rd_exec ev l) = Some v"
  shows "rd_data l = Some v \<or> (\<exists>n. (n, Inr v) \<in> set (rd_accepted [ev] l))"
  using assms by (cases ev) (auto simp: rd_op_defs split: if_splits)

lemma accepted_Cons: "set (rd_accepted (ev # evs) l) = set (rd_accepted [ev] l) \<union> set (rd_accepted evs (rd_exec ev l))"
  by simp

declare rd_accepted.simps(2) [simp del]

text \<open>What the page copies is the data it started with or a response the envelope accepted.\<close>

lemma loads_accepted:
  assumes "routed_run anytime en on_load ex evs s = Some s'"
    and "v \<in> set (page_events load_ev evs (rload s))" and "PageEv v \<notin> set evs"
  shows "\<exists>r d. v = load_ev d
    \<and> (rd_data (rload s) = Some (r, d) \<or> (\<exists>n. (n, Inr (r, d)) \<in> set (rd_accepted (route_events evs) (rload s))))"
  using assms
proof (induction evs arbitrary: s)
  case Nil
  then show ?case by simp
next
  case (Cons e evs)
  have run: "routed_run anytime en on_load ex evs (routed_exec on_load ex e s) = Some s'" and en: "routed_enabled anytime en e s"
    using Cons.prems(1) by (auto split: if_splits)
  show ?case
  proof (cases e)
    case (PageEv w)
    then show ?thesis using Cons.IH [OF run] Cons.prems by auto
  next
    case (RouteEv ev)
    let ?l = "rload s"
    have rl: "rload (routed_exec on_load ex e s) = rd_exec ev ?l" using RouteEv by (simp add: route_step_def)
    consider d where "loaded_now ev ?l = Some d" "v = load_ev d"
      | "v \<in> set (page_events load_ev evs (rd_exec ev ?l))"
      using Cons.prems(2) RouteEv by (cases "loaded_now ev ?l") auto
    then show ?thesis
    proof cases
      case 1
      have "ev = Mount \<and> map_option snd (rd_data ?l) = Some d \<or> (\<exists>r. ev = Resolved (invocationRef ?l) (r, d))"
        using loaded_now_source [OF _ 1(1)] en RouteEv by simp
      then have "(\<exists>r. rd_data ?l = Some (r, d)) \<or> (\<exists>n r. (n, Inr (r, d)) \<in> set (rd_accepted [ev] ?l))"
        by (auto simp: rd_accepted.simps)
      then show ?thesis using 1(2) RouteEv accepted_Cons by force
    next
      case 2
      then obtain r d where *: "v = load_ev d" "rd_data (rd_exec ev ?l) = Some (r, d)
        \<or> (\<exists>n. (n, Inr (r, d)) \<in> set (rd_accepted (route_events evs) (rd_exec ev ?l)))"
        using Cons.IH [OF run] Cons.prems(3) rl by auto
      then show ?thesis using exec_accepted_data [of ev ?l "(r, d)"] accepted_Cons [of ev "route_events evs" ?l] RouteEv
        by auto
    qed
  qed
qed

fun user_events :: "('a, 'e, 'v) routed_event list \<Rightarrow> 'v list" where
  "user_events [] = []"
| "user_events (RouteEv ev # evs) = user_events evs"
| "user_events (PageEv v # evs) = v # user_events evs"

lemma user_events_set: "set (user_events evs) = {v. PageEv v \<in> set evs}"
  by (induction evs rule: user_events.induct) auto

text \<open>Failures, retries, stale responses and unmounting copy nothing.\<close>

lemma no_loads:
  assumes "routed_run anytime en on_load ex evs s = Some s'" and "RouteEv Mount \<notin> set evs"
    and "\<And>n v. (n, Inr v) \<notin> set (rd_accepted (route_events evs) (rload s))"
  shows "page_events load_ev evs (rload s) = user_events evs"
  using assms
proof (induction evs arbitrary: s)
  case Nil
  then show ?case by simp
next
  case (Cons e evs)
  have run: "routed_run anytime en on_load ex evs (routed_exec on_load ex e s) = Some s'" and en: "routed_enabled anytime en e s"
    using Cons.prems(1) by (auto split: if_splits)
  show ?case
  proof (cases e)
    case (PageEv w)
    then show ?thesis using Cons.IH [OF run] Cons.prems by simp
  next
    case (RouteEv ev)
    let ?l = "rload s"
    have rl: "rload (routed_exec on_load ex e s) = rd_exec ev ?l" using RouteEv by (simp add: route_step_def)
    have acc: "(n, Inr v) \<notin> set (rd_accepted [ev] ?l) \<union> set (rd_accepted (route_events evs) (rd_exec ev ?l))" for n v
      using Cons.prems(3) accepted_Cons [of ev "route_events evs" ?l] RouteEv by simp
    have "loaded_now ev ?l = None"
    proof (cases "loaded_now ev ?l")
      case (Some d)
      have "ev = Mount \<and> map_option snd (rd_data ?l) = Some d \<or> (\<exists>r. ev = Resolved (invocationRef ?l) (r, d))"
        using loaded_now_source [OF _ Some] en RouteEv by simp
      then have "ev = Mount \<or> (\<exists>n v. (n, Inr v) \<in> set (rd_accepted [ev] ?l))" by (auto simp: rd_accepted.simps)
      then show ?thesis using acc Cons.prems(2) RouteEv by auto
    qed
    then show ?thesis using Cons.IH [OF run] Cons.prems(2) acc rl RouteEv by simp
  qed
qed

section \<open>Pages that only show what was loaded\<close>

text \<open>A page whose own events do not change the loaded part of its state.  A reference stands for one array
  for ever, so all data comes from a heap that says what is behind each reference.\<close>

locale mirrored_page = routed_page anytime user en ex load_ev
  for anytime :: "'v \<Rightarrow> bool" and user :: "'v \<Rightarrow> bool" and en :: "'v \<Rightarrow> 'p \<Rightarrow> bool" and ex :: "'v \<Rightarrow> 'p \<Rightarrow> 'p"
    and load_ev :: "'a \<Rightarrow> 'v" +
  fixes view :: "'p \<Rightarrow> 'a"
  assumes view_load: "view (ex (load_ev d) p) = d"
    and view_user: "user v \<Longrightarrow> view (ex v p) = view p"
begin

lemma mirror_step:
  assumes "routed_enabled anytime (\<lambda>v p. user v \<and> en v p) ev s"
    and "\<And>n r d. ev = RouteEv (Resolved n (r, d)) \<Longrightarrow> d = heap r"
    and "rd_data (rload s) = Some (r, heap r)" and "view (rpage s) = heap r"
  shows "\<exists>r'. rd_data (rload (routed_exec (\<lambda>d. ex (load_ev d)) ex ev s)) = Some (r', heap r')
    \<and> view (rpage (routed_exec (\<lambda>d. ex (load_ev d)) ex ev s)) = heap r'"
proof (cases ev)
  case (PageEv v)
  then show ?thesis using assms view_user by auto
next
  case (RouteEv e)
  let ?l = "rload s" and ?l' = "rd_exec e (rload s)"
  consider "rd_data ?l' = rd_data ?l" | n r' d' where "e = Resolved n (r', d')" "n = invocationRef ?l" "rd_data ?l' \<noteq> rd_data ?l"
    using exec_keeps_data [of e ?l] by (metis surj_pair)
  then show ?thesis
  proof cases
    case 1
    then have "loaded_now e ?l = None \<or> loaded_now e ?l = Some (heap r)" using assms(3) by (auto simp: loaded_now_def)
    then show ?thesis using 1 assms(3,4) RouteEv view_load by (auto simp: route_step_def)
  next
    case 2
    then have d: "d' = heap r'" and l': "rd_data ?l' = Some (r', heap r')" "rd_status ?l' = Ok"
      using assms(2) RouteEv by (auto simp: rd_op_defs)
    then have "r' \<noteq> r" using 2(3) assms(3) by auto
    then have "loaded_now e ?l = Some (heap r')" using l' assms(3) by (simp add: loaded_now_def load_fires_def)
    then show ?thesis using l' RouteEv view_load by (auto simp: route_step_def)
  qed
qed

lemma mirror_run:
  assumes "routed_run anytime (\<lambda>v p. user v \<and> en v p) (\<lambda>d. ex (load_ev d)) ex evs s = Some s'"
    and "\<And>n r d. RouteEv (Resolved n (r, d)) \<in> set evs \<Longrightarrow> d = heap r"
    and "rd_data (rload s) = Some (r, heap r)" and "view (rpage s) = heap r"
  shows "\<exists>r'. rd_data (rload s') = Some (r', heap r') \<and> view (rpage s') = heap r'"
  using assms
proof (induction evs arbitrary: s r)
  case Nil
  then show ?case by auto
next
  case (Cons ev evs)
  have en: "routed_enabled anytime (\<lambda>v p. user v \<and> en v p) ev s"
    and run: "routed_run anytime (\<lambda>v p. user v \<and> en v p) (\<lambda>d. ex (load_ev d)) ex evs (routed_exec (\<lambda>d. ex (load_ev d)) ex ev s) = Some s'"
    using Cons.prems(1) by (auto split: if_splits)
  obtain r' where "rd_data (rload (routed_exec (\<lambda>d. ex (load_ev d)) ex ev s)) = Some (r', heap r')"
    "view (rpage (routed_exec (\<lambda>d. ex (load_ev d)) ex ev s)) = heap r'"
    using mirror_step [of ev s heap r, OF en _ Cons.prems(3,4)] Cons.prems(2) by auto
  then show ?case using Cons.IH [OF run, of r'] Cons.prems(2) by auto
qed

end

section \<open>The page as the envelope's reader\<close>

text \<open>What a page with an envelope is for, without the hook: a reader that is told what it has to show.  The story of a
  run has the user's events, the mounting of the page, the answers that reach it and its failures; stale answers,
  retries and unmounting are not part of it.  The reader has the data it was told last and whether the last
  answer was a failure.  It is told the data it has when it is mounted, unless the last answer was a failure, and
  an answer when it is another array or the one before was a failure.\<close>

datatype ('a, 'v) story_event = Did 'v | Mounted | Got nat 'a | Failed

fun story_of :: "('a, 'e, 'v) routed_event list \<Rightarrow> (nat \<times> 'a, 'e) route_data \<Rightarrow> ('a, 'v) story_event list" where
  "story_of [] l = []"
| "story_of (PageEv v # evs) l = Did v # story_of evs l"
| "story_of (RouteEv ev # evs) l =
     (if ev = Mount then [Mounted] else [])
     @ map (\<lambda>a. case snd a of Inr d \<Rightarrow> Got (fst d) (snd d) | Inl e \<Rightarrow> Failed) (rd_accepted [ev] l) @ story_of evs (rd_exec ev l)"

fun told :: "('a \<Rightarrow> 'v) \<Rightarrow> nat \<Rightarrow> 'a \<Rightarrow> bool \<Rightarrow> ('a, 'v) story_event list \<Rightarrow> 'v list" where
  "told load_ev ref d failed [] = []"
| "told load_ev ref d failed (Did v # st) = v # told load_ev ref d failed st"
| "told load_ev ref d failed (Mounted # st) = (if failed then [] else [load_ev d]) @ told load_ev ref d failed st"
| "told load_ev ref d failed (Got ref' d' # st) =
     (if failed \<or> ref' \<noteq> ref then [load_ev d'] else []) @ told load_ev ref' d' False st"
| "told load_ev ref d failed (Failed # st) = told load_ev ref d True st"

text \<open>The hook, its status and the effect with its dependencies do exactly this.\<close>

lemma accepted_one:
  "rd_accepted [ev] l = (case ev of Resolved n v \<Rightarrow> if n = invocationRef l then [(n, Inr v)] else []
     | Rejected n e \<Rightarrow> if n = invocationRef l then [(n, Inl e)] else [] | _ \<Rightarrow> [])"
  by (simp add: rd_accepted.simps)

lemma told_page_events:
  "rd_data l = Some (ref, d) \<Longrightarrow> page_events load_ev evs l = told load_ev ref d (rd_status l \<noteq> Ok) (story_of evs l)"
proof (induction evs arbitrary: l ref d)
  case Nil
  then show ?case by simp
next
  case (Cons e evs)
  show ?case
  proof (cases e)
    case (PageEv v)
    then show ?thesis using Cons by simp
  next
    case (RouteEv ev)
    show ?thesis
    proof (cases ev)
      case (Resolved n v)
      then show ?thesis using Cons RouteEv
        by (cases v) (auto simp: accepted_one loaded_now_def load_fires_def rd_op_defs)
    qed (use Cons RouteEv in \<open>auto simp: accepted_one loaded_now_def load_fires_def rd_op_defs\<close>)
  qed
qed

end
