(* ===== verification/Health_Page.thy ===== *)
theory Health_Page
  imports Routed_Page React_Effects Complex_Main
begin

text \<open>
  The Health page (\<open>apps/web/src/pages/v2/Health.tsx\<close>, wire types of \<open>_mocks/health.ts\<close>): the overall
  state, the heartbeat grid, the self-healing log, predictive warnings with their spark lines, and the
  page with its data envelope.  Percentages and trends are exact rationals; the coordinates of a spark
  line are modelled before they are printed.  Class names, icons and layout are not modelled.
\<close>

section \<open>Wire types\<close>

datatype canonical_state = Healthy | Recovering | Attention | PausedState | QuarantinedState

datatype component_category = Core | Connector | Team

record health_component =
  hc_id :: jstr
  hc_name :: jstr
  hc_category :: component_category
  hc_state :: canonical_state
  hc_lastHeartbeat :: jstr
  hc_uptimeDays :: nat
  hc_activity :: jstr
  hc_detail :: "jstr option"
  hc_etaMinutes :: "int option"

record heal_story =
  hs_checked :: jstr
  hs_changed :: jstr
  hs_outcome :: jstr
  hs_followup :: "jstr option"

record heal_event =
  he_id :: jstr
  he_when :: jstr
  he_whenIso :: jstr
  he_component :: jstr
  he_componentId :: jstr
  he_what :: jstr
  he_story :: heal_story
  he_durationSec :: int

datatype suggested_action = PauseIt | KeepPaused | ShowGraph

record predictive_warning =
  pw_id :: jstr
  pw_component :: jstr
  pw_componentId :: jstr
  pw_signal :: jstr
  pw_why :: jstr
  pw_errorBudgetUsedPct :: rat
  pw_windowDays :: nat
  pw_trend :: "rat list"
  pw_suggestedAction :: suggested_action

section \<open>Tables and texts\<close>

datatype health_tone = HtSafe | HtWarning | HtRecovered | HtQuarantined | HtNeutral

text \<open>Label, tone, lede and subtitle of a state.\<close>

primrec STATE_META :: "canonical_state \<Rightarrow> jstr \<times> health_tone \<times> jstr \<times> jstr" where
  "STATE_META Healthy = (''Healthy'', HtSafe, ''Everything'' @ [CHR 0x27] @ ''s running.'',
     ''Last self-heal 23 minutes ago. No action needed.'')"
| "STATE_META Recovering = (''Quietly recovering'', HtRecovered, ''One component is recovering on its own.'',
     ''No action needed '' @ u_mdash @ '' we'' @ [CHR 0x27] @ ''ll let you know if that changes.'')"
| "STATE_META Attention = (''Needs your attention'', HtWarning, ''One component needs you to look at it.'',
     ''Open it to see what'' @ [CHR 0x27] @ ''s blocking. Nothing else is affected.'')"
| "STATE_META PausedState = (''Paused'', HtNeutral, ''Workspace is paused.'',
     ''Heartbeats are still running so you'' @ [CHR 0x27] @ ''ll know when things change.'')"
| "STATE_META QuarantinedState = (''Quarantined'', HtQuarantined, ''One component has been quarantined.'',
     ''It'' @ [CHR 0x27] @ ''s isolated and won'' @ [CHR 0x27] @ ''t affect anything else. Review when you'' @ [CHR 0x27] @ ''re ready.'')"

primrec action_label :: "suggested_action \<Rightarrow> jstr" where
  "action_label PauseIt = ''Pause it''"
| "action_label KeepPaused = ''Keep paused''"
| "action_label ShowGraph = ''Show graph''"

primrec category_label :: "component_category \<Rightarrow> jstr" where
  "category_label Core = ''Core''"
| "category_label Connector = ''Connectors''"
| "category_label Team = ''Teams''"

text \<open>\<open>Math.round(n / d)\<close> for \<open>0 \<le> n\<close>.\<close>

definition rounded :: "int \<Rightarrow> int \<Rightarrow> int" where
  "rounded n d = (2 * n + d) div (2 * d)"

definition fmtDuration :: "int \<Rightarrow> jstr" where
  "fmtDuration sec =
     (if sec < 60 then int_str sec @ ''s''
      else let m = rounded sec 60 in
        if m < 60 then int_str m @ ''m'' else let h = rounded m 60 in int_str h @ ''h'')"

definition uptime_text :: "health_component \<Rightarrow> jstr" where
  "uptime_text c = (if hc_uptimeDays c = 0 then u_mdash else nat_str (hc_uptimeDays c) @ ''d'')"

definition story_rows :: "heal_event \<Rightarrow> (jstr \<times> jstr) list" where
  "story_rows ev =
     [(''What we checked'', hs_checked (he_story ev)), (''What changed'', hs_changed (he_story ev)),
      (''Outcome'', hs_outcome (he_story ev)),
      (''Follow-up'', (case hs_followup (he_story ev) of None \<Rightarrow> ''None '' @ u_mdash @ '' this was an isolated event.'' | Some t \<Rightarrow> t))]"

definition budget_tone :: "rat \<Rightarrow> health_tone" where
  "budget_tone pct = (if 80 \<le> pct then HtQuarantined else if 50 \<le> pct then HtWarning else HtNeutral)"

definition badge_label :: "health_tone \<Rightarrow> jstr" where
  "badge_label tone = (if tone = HtQuarantined then ''Budget exhausted'' else if tone = HtWarning then ''Budget drifting'' else ''Watching'')"

definition trend_pct :: "rat list \<Rightarrow> int" where
  "trend_pct trend = \<lfloor>(if trend = [] then 0 else last trend) * 100 + 1 / 2\<rfloor>"

section \<open>Spark lines\<close>

definition spark_w :: rat where "spark_w = 120"
definition spark_h :: rat where "spark_h = 28"

definition spark_points :: "rat list \<Rightarrow> (rat \<times> rat) list" where
  "spark_points points =
     (let step = spark_w / of_nat (max 1 (length points - 1))
      in map (\<lambda>(i, p). (of_nat i * step, spark_h - ((p - 0) / (1 - 0)) * (spark_h - 4) - 2)) (zip [0 ..< length points] points))"

section \<open>The page\<close>

record health_data =
  hd_components :: "health_component list"
  hd_healEvents :: "heal_event list"
  hd_predictive :: "predictive_warning list"

record health_page =
  hp_components :: "health_component list"
  hp_healEvents :: "heal_event list"
  hp_predictive :: "predictive_warning list"
  openGraphIds :: "jstr list"
  hp_toast :: "jstr option"

definition health_init :: "health_data \<Rightarrow> health_page" where
  "health_init mock =
     \<lparr>hp_components = hd_components mock, hp_healEvents = hd_healEvents mock, hp_predictive = hd_predictive mock,
      openGraphIds = [], hp_toast = None\<rparr>"

definition overall :: "health_component list \<Rightarrow> canonical_state" where
  "overall cs =
     (if list_ex (\<lambda>c. hc_state c = QuarantinedState) cs then QuarantinedState
      else if list_ex (\<lambda>c. hc_state c = Attention) cs then Attention
      else if list_ex (\<lambda>c. hc_state c = Recovering) cs then Recovering
      else if list_all (\<lambda>c. hc_state c = PausedState) cs then PausedState
      else Healthy)"

definition healthyCount :: "health_component list \<Rightarrow> nat" where
  "healthyCount cs = length (filter (\<lambda>c. hc_state c = Healthy) cs)"

text \<open>The grid: cards for the components that are not healthy, chips for the others.\<close>

definition grid_cards :: "health_component list \<Rightarrow> health_component list" where
  "grid_cards cs = filter (\<lambda>c. hc_state c \<noteq> Healthy) cs"

definition grid_chips :: "health_component list \<Rightarrow> health_component list" where
  "grid_chips cs = filter (\<lambda>c. hc_state c = Healthy) cs"

definition grid_count :: "canonical_state \<Rightarrow> health_component list \<Rightarrow> nat" where
  "grid_count st cs = length (filter (\<lambda>c. hc_state c = st) cs)"

definition handleToggleGraph :: "jstr \<Rightarrow> health_page \<Rightarrow> health_page" where
  "handleToggleGraph i s =
     s\<lparr>openGraphIds := (if i \<in> set (openGraphIds s) then removeAll i (openGraphIds s) else openGraphIds s @ [i])\<rparr>"

definition handlePredictiveAct :: "jstr \<Rightarrow> health_page \<Rightarrow> health_page" where
  "handlePredictiveAct i s =
     (case find (\<lambda>w. pw_id w = i) (hp_predictive s) of None \<Rightarrow> s
      | Some w \<Rightarrow> s\<lparr>hp_toast := Some (action_label (pw_suggestedAction w) @ '' '' @ u_middot @ '' '' @ pw_component w)\<rparr>)"

text \<open>The log keeps its own state, the open story: the first event's when the log is mounted, then the
  clicks of the user.\<close>

definition heal_log_mount :: "heal_event list \<Rightarrow> jstr option" where
  "heal_log_mount evs = (case evs of [] \<Rightarrow> None | e # _ \<Rightarrow> Some (he_id e))"

definition heal_log_toggle :: "jstr \<Rightarrow> jstr option \<Rightarrow> jstr option" where
  "heal_log_toggle i openId = (if openId = Some i then None else Some i)"

definition open_stories :: "heal_event list \<Rightarrow> jstr option \<Rightarrow> heal_event list" where
  "open_stories evs openId = filter (\<lambda>e. openId = Some (he_id e)) evs"

definition health_load :: "health_data \<Rightarrow> health_page \<Rightarrow> health_page" where
  "health_load d s = s\<lparr>hp_components := hd_components d, hp_healEvents := hd_healEvents d, hp_predictive := hd_predictive d\<rparr>"

datatype health_event = GraphClick jstr | ActClick jstr | ToastGone | LoadedHealth health_data

fun health_enabled :: "health_event \<Rightarrow> health_page \<Rightarrow> bool" where
  "health_enabled (GraphClick i) s = (i \<in> pw_id ` set (hp_predictive s))"
| "health_enabled (ActClick i) s = (i \<in> pw_id ` set (hp_predictive s))"
| "health_enabled ToastGone s = (hp_toast s \<noteq> None)"
| "health_enabled (LoadedHealth d) s = True"

fun health_exec :: "health_event \<Rightarrow> health_page \<Rightarrow> health_page" where
  "health_exec (GraphClick i) s = handleToggleGraph i s"
| "health_exec (ActClick i) s = handlePredictiveAct i s"
| "health_exec ToastGone s = s\<lparr>hp_toast := None\<rparr>"
| "health_exec (LoadedHealth d) s = health_load d s"

definition health_is_load :: "health_event \<Rightarrow> bool" where
  "health_is_load ev = (case ev of LoadedHealth d \<Rightarrow> True | _ \<Rightarrow> False)"

definition health_route_run ::
  "(health_data, 'e, health_event) routed_event list \<Rightarrow> (health_data, 'e, health_page) routed \<Rightarrow> (health_data, 'e, health_page) routed option" where
  "health_route_run =
     routed_run (\<lambda>v. v = ToastGone) (\<lambda>v p. \<not> health_is_load v \<and> health_enabled v p) (\<lambda>d. health_exec (LoadedHealth d)) health_exec"

definition page_data :: "health_page \<Rightarrow> health_data" where
  "page_data s = \<lparr>hd_components = hp_components s, hd_healEvents = hp_healEvents s, hd_predictive = hp_predictive s\<rparr>"

interpretation health_routed:
  mirrored_page "\<lambda>v. v = ToastGone" "\<lambda>v. \<not> health_is_load v" health_enabled health_exec LoadedHealth page_data
proof
  show "page_data (health_exec (LoadedHealth d) p) = d" for d p by (simp add: page_data_def health_load_def)
  show "page_data (health_exec v p) = page_data p" if "\<not> health_is_load v" for v p
    using that by (cases v) (simp_all add: health_is_load_def page_data_def handleToggleGraph_def handlePredictiveAct_def
        split: option.splits)
qed (simp_all add: health_is_load_def)

section \<open>The overall state\<close>

text \<open>How much a state matters.\<close>

primrec rank :: "canonical_state \<Rightarrow> nat" where
  "rank PausedState = 0"
| "rank Healthy = 1"
| "rank Recovering = 2"
| "rank Attention = 3"
| "rank QuarantinedState = 4"

lemma rank_inject: "rank a = rank b \<longleftrightarrow> a = b"
  by (cases a; cases b) simp_all

definition rank_state :: "nat \<Rightarrow> canonical_state" where
  "rank_state n = (if n = 4 then QuarantinedState else if n = 3 then Attention else if n = 2 then Recovering
     else if n = 1 then Healthy else PausedState)"

lemma rank_state_rank [simp]: "rank_state (rank st) = st"
  by (cases st) (simp_all add: rank_state_def)

text \<open>C26.
  The headline is the worst state there is: the chain of tests on the page computes the state of the
  highest rank among the components, in the order paused, healthy, recovering, attention, quarantined;
  without components it is paused.
\<close>

theorem overall_is_worst:
  "overall cs = rank_state (fold (\<lambda>c m. max (rank (hc_state c)) m) cs 0)"
proof -
  have "fold (\<lambda>c m. max (rank (hc_state c)) m) cs k
    = max k (if list_ex (\<lambda>c. hc_state c = QuarantinedState) cs then 4 else if list_ex (\<lambda>c. hc_state c = Attention) cs then 3
        else if list_ex (\<lambda>c. hc_state c = Recovering) cs then 2 else if list_ex (\<lambda>c. hc_state c = Healthy) cs then 1 else 0)" for k
  proof (induction cs arbitrary: k)
    case (Cons c cs)
    then show ?case by (cases "hc_state c") auto
  qed simp
  moreover have "\<not> list_ex (\<lambda>c. hc_state c = QuarantinedState) cs \<Longrightarrow> \<not> list_ex (\<lambda>c. hc_state c = Attention) cs
    \<Longrightarrow> \<not> list_ex (\<lambda>c. hc_state c = Recovering) cs \<Longrightarrow>
    list_all (\<lambda>c. hc_state c = PausedState) cs \<longleftrightarrow> \<not> list_ex (\<lambda>c. hc_state c = Healthy) cs"
    by (auto simp: list_all_iff list_ex_iff) (metis canonical_state.exhaust)
  ultimately show ?thesis by (simp add: overall_def rank_state_def)
qed

section \<open>Spark lines stay in their box\<close>

text \<open>A spark line is drawn inside its box: for a trend of reliabilities between 0 and 1 every point has
  its abscissa between 0 and the width and its ordinate at least two units from both edges, the line
  starts at the left edge, and with two points or more it ends at the right edge.
\<close>

lemma spark_in_box:
  assumes "list_all (\<lambda>p. 0 \<le> p \<and> p \<le> 1) points"
  shows "list_all (\<lambda>(x, y). 0 \<le> x \<and> x \<le> spark_w \<and> 2 \<le> y \<and> y \<le> spark_h - 2) (spark_points points)
    \<and> (points \<noteq> [] \<longrightarrow> fst (hd (spark_points points)) = 0)
    \<and> (2 \<le> length points \<longrightarrow> fst (last (spark_points points)) = spark_w)"
proof (intro conjI impI)
  let ?step = "spark_w / of_nat (max 1 (length points - 1))"
  have len: "length (spark_points points) = length points" by (simp add: spark_points_def Let_def)
  have nth: "spark_points points ! i = (of_nat i * ?step, 26 - points ! i * 24)" if "i < length points" for i
    using that by (simp add: spark_points_def Let_def spark_h_def)
  have x: "of_nat i * ?step \<le> spark_w" if "i < length points" for i
  proof -
    have "(of_nat i :: rat) \<le> of_nat (max 1 (length points - 1))" using that unfolding of_nat_le_iff by linarith
    then have "of_nat i * (spark_w / of_nat (max 1 (length points - 1))) \<le> of_nat (max 1 (length points - 1)) * (spark_w / of_nat (max 1 (length points - 1)))"
      by (rule mult_right_mono) (simp add: spark_w_def)
    then show ?thesis by simp
  qed
  have p: "0 \<le> points ! i \<and> points ! i \<le> 1" if "i < length points" for i using assms that by (simp add: list_all_length)
  show "list_all (\<lambda>(x, y). 0 \<le> x \<and> x \<le> spark_w \<and> 2 \<le> y \<and> y \<le> spark_h - 2) (spark_points points)"
    unfolding list_all_length len using x p by (auto simp: nth spark_h_def spark_w_def)
  show "fst (hd (spark_points points)) = 0" if "points \<noteq> []"
    using that len nth [of 0] by (simp add: hd_conv_nth flip: length_greater_0_conv)
  show "fst (last (spark_points points)) = spark_w" if "2 \<le> length points"
  proof -
    have "last (spark_points points) = spark_points points ! (length points - 1)" using that len by (metis last_conv_nth list.size(3) not_numeral_le_zero)
    moreover have "max 1 (length points - 1) = length points - 1" "(of_nat (length points - 1) :: rat) \<noteq> 0"
      using that by simp_all
    ultimately show ?thesis using that nth [of "length points - 1"] by simp
  qed
qed

lemma spark_in_box_witness:
  "list_all (\<lambda>(x, y). 0 \<le> x \<and> x \<le> spark_w \<and> 2 \<le> y \<and> y \<le> spark_h - 2) (spark_points [1 / 2, 0, 1])
   \<and> fst (last (spark_points [1 / 2, 0, 1])) = spark_w"
  using spark_in_box [of "[1 / 2, 0, 1]"] by simp

section \<open>The page shows what was loaded\<close>

text \<open>
  The Health page never shows a mixture: after any sequence of user actions, responses, failures and
  retries, the components, heal events and warnings on the page are together those of the envelope's
  data, and that is the seed or one of the responses.
\<close>

theorem health_mirrors_envelope:
  assumes "health_route_run evs (routed_init ref mock (health_init mock)) = Some s"
    and "\<And>n r d. RouteEv (Resolved n (r, d)) \<in> set evs \<Longrightarrow> d = heap r" and "mock = heap ref"
  shows "\<exists>r. rd_data (rload s) = Some (r, heap r) \<and> page_data (rpage s) = heap r"
proof (rule health_routed.mirror_run [OF assms(1) [unfolded health_route_run_def], where heap = heap])
  show "rd_data (rload (routed_init ref mock (health_init mock))) = Some (ref, heap ref)"
    using assms(3) by (simp add: routed_init_def rd_init_def)
  show "page_data (rpage (routed_init ref mock (health_init mock))) = heap ref"
    using assms(3) by (simp add: routed_init_def health_init_def page_data_def)
qed (fact assms(2))

definition demo_heap :: "nat \<Rightarrow> health_data" where
  "demo_heap r = \<lparr>hd_components = replicate r \<lparr>hc_id = ''c'', hc_name = [], hc_category = Core, hc_state = Attention,
     hc_lastHeartbeat = [], hc_uptimeDays = 0, hc_activity = [], hc_detail = None, hc_etaMinutes = None\<rparr>,
     hd_healEvents = [], hd_predictive = []\<rparr>"

definition demo_health_visit :: "(health_data, jstr, health_event) routed_event list" where
  "demo_health_visit = [RouteEv Mount, RouteEv (Rejected 1 ''down''), RouteEv Reload, RouteEv (Resolved 2 (1, demo_heap 1))]"

lemma health_mirrors_envelope_witness:
  "\<exists>r. rd_data (rload (the (health_route_run demo_health_visit (routed_init 0 (demo_heap 0) (health_init (demo_heap 0)))))) = Some (r, demo_heap r)
     \<and> page_data (rpage (the (health_route_run demo_health_visit (routed_init 0 (demo_heap 0) (health_init (demo_heap 0)))))) = demo_heap r"
proof (rule health_mirrors_envelope [where evs = demo_health_visit and ref = 0 and mock = "demo_heap 0"])
  show "health_route_run demo_health_visit (routed_init 0 (demo_heap 0) (health_init (demo_heap 0)))
    = Some (the (health_route_run demo_health_visit (routed_init 0 (demo_heap 0) (health_init (demo_heap 0)))))"
    by (simp add: demo_health_visit_def health_route_run_def routed_init_def rd_init_def route_step_def loaded_now_def
        load_fires_def rd_op_defs)
  show "d = demo_heap r" if "RouteEv (Resolved n (r, d)) \<in> set demo_health_visit" for n r d
    using that by (simp add: demo_health_visit_def)
qed simp

section \<open>The toast\<close>

definition health_toast_ms :: nat where
  "health_toast_ms = 2200"

text \<open>The toast is a text, so that setting it to the text it has changes nothing.\<close>

interpretation health_toast: timed_toast health_toast_ms "\<lambda>t. t = []" hp_toast health_enabled health_exec ToastGone "\<lambda>v. v = ToastGone" "\<lambda>v s. False"
  by unfold_locales simp

end
