(* ===== verification/Settings_Page.thy ===== *)
theory Settings_Page
  imports Js_Number React_Effects
begin

text \<open>
  The Settings page (\<open>apps/web/src/pages/v2/Settings.tsx\<close>, wire types of \<open>_mocks/settings.ts\<close>): the
  connectors, the deployment mode with its two-step switch, notifications, recipe requests with votes,
  the advanced section with the deletion of the workspace, the toast and the undo banner.  The page and
  the local state of its sections are one machine; \<open>Date.now()\<close> is read twice per event, when the handler runs
  and when the page renders.  Class names, icons, scrolling and layout are not modelled.
\<close>

section \<open>Wire types\<close>

datatype connector_state = CsConnected | CsNeedsAuth | CsDisabled | CsDeferred

datatype connector_scope = ScScoped | ScBroad | ScRestricted

datatype deployment_mode = DmSolo | DmHousehold | DmTeam

datatype request_status = RqOpen | RqInReview | RqShipped

datatype tone_name = TnSafe | TnWarning | TnBlocked | TnRecovered | TnQuarantined | TnAccent | TnNeutral

record connector =
  cn_id :: jstr
  cn_name :: jstr
  cn_glyph :: jstr
  cn_tint :: tone_name
  cn_state :: connector_state
  cn_scope :: connector_scope
  cn_lastSync :: jstr
  cn_can :: "jstr list"
  cn_cannot :: "jstr list"
  cn_note :: "jstr option"

record mode_changes =
  mc_dataLocation :: jstr
  mc_sharing :: jstr
  mc_security :: jstr

record mode_card =
  mo_id :: deployment_mode
  mo_name :: jstr
  mo_tagline :: jstr
  mo_changes :: mode_changes
  mo_bullets :: "jstr list"

record recipe_request =
  rq_id :: jstr
  rq_title :: jstr
  rq_one :: jstr
  rq_votes :: int
  rq_mine :: bool
  rq_status :: request_status

record session =
  ss_id :: jstr
  ss_device :: jstr
  ss_where :: jstr
  ss_when :: jstr
  ss_current :: bool

record settings_operator =
  op_name :: jstr
  op_email :: jstr
  op_role :: jstr
  op_signIn :: jstr
  op_avatar :: jstr

record settings_workspace =
  ws_name :: jstr
  ws_region :: jstr
  ws_plan :: jstr
  ws_createdOn :: jstr

text \<open>What the page reads once, when its module is loaded.\<close>

record settings_mock =
  sm_operator :: settings_operator
  sm_workspace :: settings_workspace
  sm_sessions :: "session list"
  sm_connectors :: "connector list"
  sm_modes :: "mode_card list"
  sm_recipeRequests :: "recipe_request list"

section \<open>Tables\<close>

primrec SCOPE_TONE :: "connector_scope \<Rightarrow> tone_name" where
  "SCOPE_TONE ScScoped = TnSafe"
| "SCOPE_TONE ScBroad = TnWarning"
| "SCOPE_TONE ScRestricted = TnQuarantined"

datatype notif_channel = WebPush | Email | MobilePush | Sms | SlackDm | Digest | Nothing

datatype event_type = AwaitingApproval | EvBlocked | EvHealed | EvCompleted | EvFailed

primrec CHANNEL_LABELS :: "notif_channel \<Rightarrow> jstr" where
  "CHANNEL_LABELS WebPush = ''Web push''"
| "CHANNEL_LABELS Email = ''Email''"
| "CHANNEL_LABELS MobilePush = ''Mobile push''"
| "CHANNEL_LABELS Sms = ''SMS''"
| "CHANNEL_LABELS SlackDm = ''Slack DM''"
| "CHANNEL_LABELS Digest = ''Daily digest''"
| "CHANNEL_LABELS Nothing = ''Don'' @ [CHR 0x27] @ ''t notify''"

primrec EVENT_LABELS :: "event_type \<Rightarrow> jstr" where
  "EVENT_LABELS AwaitingApproval = ''Awaiting your approval''"
| "EVENT_LABELS EvBlocked = ''Blocked by a policy''"
| "EVENT_LABELS EvHealed = ''Recovered on its own''"
| "EVENT_LABELS EvCompleted = ''Completed cleanly''"
| "EVENT_LABELS EvFailed = ''Failed and needs you''"

primrec EVENT_HINTS :: "event_type \<Rightarrow> jstr" where
  "EVENT_HINTS AwaitingApproval = ''Something is paused waiting on you.''"
| "EVENT_HINTS EvBlocked = ''A safety rule held something back.''"
| "EVENT_HINTS EvHealed = ''A component fixed itself '' @ u_mdash @ '' fyi only.''"
| "EVENT_HINTS EvCompleted = ''A recipe finished without issue.''"
| "EVENT_HINTS EvFailed = ''An action failed and could not auto-recover.''"

definition SECTIONS :: "(jstr \<times> jstr) list" where
  "SECTIONS = [(''account'', ''Account''), (''connectors'', ''Connectors''), (''deployment'', ''Deployment''),
     (''notifications'', ''Notifications''), (''recipes'', ''Recipes''), (''advanced'', ''Advanced'')]"

definition stateTone :: "connector_state \<Rightarrow> tone_name" where
  "stateTone st = (if st = CsConnected then TnSafe else if st = CsNeedsAuth then TnWarning
     else if st = CsDisabled then TnNeutral else TnQuarantined)"

definition stateLabel :: "connector_state \<Rightarrow> jstr" where
  "stateLabel st = (if st = CsConnected then ''Connected'' else if st = CsNeedsAuth then ''Needs auth''
     else if st = CsDisabled then ''Disabled'' else ''Available in v0.2'')"

definition statusTone :: "request_status \<Rightarrow> tone_name" where
  "statusTone st = (if st = RqShipped then TnSafe else if st = RqInReview then TnWarning else TnNeutral)"

definition statusLabel :: "request_status \<Rightarrow> jstr" where
  "statusLabel st = (if st = RqShipped then ''Shipped'' else if st = RqInReview then ''In review'' else ''Open'')"

definition real_connectors :: "settings_mock \<Rightarrow> connector list" where
  "real_connectors m = filter (\<lambda>c. cn_state c \<noteq> CsDeferred) (sm_connectors m)"

definition deferred_connectors :: "settings_mock \<Rightarrow> connector list" where
  "deferred_connectors m = filter (\<lambda>c. cn_state c = CsDeferred) (sm_connectors m)"

section \<open>State\<close>

record notif_state =
  nt_quietHours :: bool
  nt_quietFrom :: jstr
  nt_quietTo :: jstr
  nt_event :: "event_type \<Rightarrow> notif_channel"

record undo_banner =
  un_msg :: jstr
  un_expiresAt :: int

text \<open>The page's own state, then that of its sections: the mode asked for (deployment), the form (recipes), and
  the three fields of the advanced section.  \<open>sg_remaining\<close> is the memoised text of the undo banner.\<close>

record settings_page =
  sg_active :: jstr
  sg_notif :: notif_state
  sg_requests :: "recipe_request list"
  sg_deployment :: deployment_mode
  sg_telemetry :: bool
  sg_debug :: bool
  sg_undo :: "undo_banner option"
  sg_toast :: "jstr option"
  sg_remaining :: jstr
  sg_pending :: "deployment_mode option"
  sg_title :: jstr
  sg_one :: jstr
  sg_open :: bool
  sg_confirmText :: jstr
  sg_confirming :: bool

definition notif_init :: notif_state where
  "notif_init = \<lparr>nt_quietHours = True, nt_quietFrom = ''23:00'', nt_quietTo = ''06:00'',
     nt_event = case_event_type WebPush Email Digest Nothing MobilePush\<rparr>"

definition settings_init :: "settings_mock \<Rightarrow> settings_page" where
  "settings_init m = \<lparr>sg_active = ''account'', sg_notif = notif_init, sg_requests = sm_recipeRequests m,
     sg_deployment = DmSolo, sg_telemetry = False, sg_debug = False, sg_undo = None, sg_toast = None, sg_remaining = [],
     sg_pending = None, sg_title = [], sg_one = [], sg_open = False, sg_confirmText = [], sg_confirming = False\<rparr>"

section \<open>Toast and undo\<close>

abbreviation hour_ms :: int where "hour_ms \<equiv> 3600 * 1000"
abbreviation day_ms :: int where "day_ms \<equiv> 24 * 3600 * 1000"

text \<open>The text of the banner, a memo that depends on the banner alone: it is computed in the first render
  after the banner changes and not again.\<close>

definition remaining :: "undo_banner option \<Rightarrow> int \<Rightarrow> jstr" where
  "remaining u now = (case u of None \<Rightarrow> []
     | Some b \<Rightarrow>
        let ms = un_expiresAt b - now; days = ms div day_ms; h = ms div hour_ms; m = ms div 60000
        in if days \<ge> 1 then int_str days @ ''d to undo''
           else if h \<ge> 1 then int_str h @ ''h to undo''
           else int_str (max m 1) @ ''m to undo'')"

definition setUndo :: "int \<Rightarrow> undo_banner option \<Rightarrow> settings_page \<Rightarrow> settings_page" where
  "setUndo render u s = s\<lparr>sg_undo := u, sg_remaining := remaining u render\<rparr>"

definition showToast :: "jstr \<Rightarrow> settings_page \<Rightarrow> settings_page" where
  "showToast msg s = s\<lparr>sg_toast := Some msg\<rparr>"

definition showUndo :: "int \<Rightarrow> int \<Rightarrow> jstr \<Rightarrow> int \<Rightarrow> settings_page \<Rightarrow> settings_page" where
  "showUndo now render msg days s = setUndo render (Some \<lparr>un_msg = msg, un_expiresAt = now + days * 24 * 3600 * 1000\<rparr>) s"

definition undo_tick :: "int \<Rightarrow> int \<Rightarrow> settings_page \<Rightarrow> settings_page" where
  "undo_tick now render s = (case sg_undo s of None \<Rightarrow> s
     | Some b \<Rightarrow> if now > un_expiresAt b then setUndo render None s else s)"

section \<open>Handlers\<close>

definition connector_toast :: "int \<Rightarrow> int \<Rightarrow> jstr \<Rightarrow> settings_page \<Rightarrow> settings_page" where
  "connector_toast now render m s =
     (let s' = showToast m s in if js_includes m ''Disconnect'' then showUndo now render m 30 s' else s')"

definition reconnect_msg :: "connector \<Rightarrow> jstr" where
  "reconnect_msg c = ''Reconnecting '' @ cn_name c @ u_hellip"

definition disconnect_msg :: "connector \<Rightarrow> jstr" where
  "disconnect_msg c = ''Disconnected '' @ cn_name c @ '' '' @ u_middot @ '' undo within 30 days''"

definition customize_msg :: "connector \<Rightarrow> jstr" where
  "customize_msg c = ''Opened permission editor for '' @ cn_name c"

definition find_mode :: "settings_mock \<Rightarrow> deployment_mode \<Rightarrow> mode_card option" where
  "find_mode m d = find (\<lambda>c. mo_id c = d) (sm_modes m)"

definition switch_target :: "settings_mock \<Rightarrow> settings_page \<Rightarrow> mode_card option" where
  "switch_target m s = (case sg_pending s of None \<Rightarrow> None
     | Some p \<Rightarrow> if p \<noteq> sg_deployment s then find_mode m p else None)"

definition current :: "settings_mock \<Rightarrow> settings_page \<Rightarrow> mode_card option" where
  "current m s = find_mode m (sg_deployment s)"

definition switch_msg :: "mode_card \<Rightarrow> jstr" where
  "switch_msg c = ''Switched to '' @ mo_name c @ '' '' @ u_middot @ '' revert within 7 days''"

definition onRequestSwitch :: "settings_mock \<Rightarrow> int \<Rightarrow> int \<Rightarrow> deployment_mode \<Rightarrow> settings_page \<Rightarrow> settings_page" where
  "onRequestSwitch m now render target s =
     (let s' = s\<lparr>sg_deployment := target\<rparr>
      in case find_mode m target of None \<Rightarrow> s'
         | Some c \<Rightarrow> showUndo now render (switch_msg c) 7 (showToast (''Switched to '' @ mo_name c @ '' mode.'') s'))"

definition confirmSwitch :: "settings_mock \<Rightarrow> int \<Rightarrow> int \<Rightarrow> settings_page \<Rightarrow> settings_page" where
  "confirmSwitch m now render s = (case switch_target m s of None \<Rightarrow> s
     | Some c \<Rightarrow> (onRequestSwitch m now render (mo_id c) s)\<lparr>sg_pending := None\<rparr>)"

definition updateEvent :: "event_type \<Rightarrow> notif_channel \<Rightarrow> settings_page \<Rightarrow> settings_page" where
  "updateEvent e ch s = showToast (EVENT_LABELS e @ '' '' @ u_rarr @ '' '' @ CHANNEL_LABELS ch)
     (s\<lparr>sg_notif := (sg_notif s)\<lparr>nt_event := (nt_event (sg_notif s))(e := ch)\<rparr>\<rparr>)"

definition toggleQuiet :: "settings_page \<Rightarrow> settings_page" where
  "toggleQuiet s = (let v = \<not> nt_quietHours (sg_notif s)
     in showToast (if v then ''Quiet hours on'' else ''Quiet hours off'') (s\<lparr>sg_notif := (sg_notif s)\<lparr>nt_quietHours := v\<rparr>\<rparr>))"

definition valid_request :: "jstr \<Rightarrow> jstr \<Rightarrow> bool" where
  "valid_request title one \<longleftrightarrow> length (js_trim title) > 4 \<and> length (js_trim one) > 6"

text \<open>The identifier is drawn at random: it is an argument.\<close>

definition onSubmit :: "jstr \<Rightarrow> jstr \<Rightarrow> jstr \<Rightarrow> settings_page \<Rightarrow> settings_page" where
  "onSubmit rid title one s = showToast (''Submitted \"'' @ title @ ''\"'')
     (s\<lparr>sg_requests := \<lparr>rq_id = rid, rq_title = title, rq_one = one, rq_votes = 1, rq_mine = True, rq_status = RqOpen\<rparr> # sg_requests s\<rparr>)"

definition submitRequest :: "jstr \<Rightarrow> settings_page \<Rightarrow> settings_page" where
  "submitRequest rid s =
     (if \<not> valid_request (sg_title s) (sg_one s) then s
      else (onSubmit rid (js_trim (sg_title s)) (js_trim (sg_one s)) s)\<lparr>sg_title := [], sg_one := []\<rparr>)"

definition vote :: "recipe_request \<Rightarrow> recipe_request" where
  "vote r = r\<lparr>rq_votes := (if rq_mine r then rq_votes r - 1 else rq_votes r + 1), rq_mine := \<not> rq_mine r\<rparr>"

definition onVote :: "jstr \<Rightarrow> settings_page \<Rightarrow> settings_page" where
  "onVote i s = s\<lparr>sg_requests := update_by rq_id i vote (sg_requests s)\<rparr>"

definition delete_msg :: "settings_mock \<Rightarrow> jstr" where
  "delete_msg m = ''Deletion scheduled for '' @ ws_name (sm_workspace m) @ '' '' @ u_middot @ '' 30-day undo''"

definition close_confirm :: "settings_page \<Rightarrow> settings_page" where
  "close_confirm s = s\<lparr>sg_confirming := False, sg_confirmText := []\<rparr>"

definition confirmDelete :: "settings_mock \<Rightarrow> int \<Rightarrow> int \<Rightarrow> settings_page \<Rightarrow> settings_page" where
  "confirmDelete m now render s = close_confirm (showUndo now render (delete_msg m) 30 s)"

text \<open>The intersection observer reports sections with the visible part of each; the first of the most visible
  ones becomes the active section.\<close>

definition ratio_cmp :: "jstr \<times> bool \<times> rat \<Rightarrow> jstr \<times> bool \<times> rat \<Rightarrow> int" where
  "ratio_cmp a b = js_sign (snd (snd b) - snd (snd a))"

definition observed :: "(jstr \<times> bool \<times> rat) list \<Rightarrow> settings_page \<Rightarrow> settings_page" where
  "observed entries s = (case js_sort ratio_cmp (filter (\<lambda>e. fst (snd e)) entries) of
       [] \<Rightarrow> s | e # _ \<Rightarrow> s\<lparr>sg_active := fst e\<rparr>)"

definition onJump :: "jstr \<Rightarrow> settings_page \<Rightarrow> settings_page" where
  "onJump i s = (if i \<in> fst ` set SECTIONS then s\<lparr>sg_active := i\<rparr> else s)"

section \<open>The page as a machine\<close>

datatype settings_event =
    JumpTo jstr | Scrolled "(jstr \<times> bool \<times> rat) list"
  | SignOutEverywhere | Reconnect connector | Disconnect connector | Customize connector
  | SelectMode deployment_mode | CancelSwitch | ConfirmSwitch
  | PickChannel event_type notif_channel | QuietToggle | QuietFrom jstr | QuietTo jstr
  | TitleType jstr | OneType jstr | SubmitRequest jstr | VoteClick jstr
  | AdvancedToggle | TelemetryToggle | DebugToggle | ExportClick
  | DeleteClick | ConfirmType jstr | CancelDelete | ConfirmDelete
  | UndoClick | UndoTick | SettingsToastGone

text \<open>An event can happen when its control is on the page and not disabled.\<close>

fun settings_enabled :: "settings_mock \<Rightarrow> settings_event \<Rightarrow> settings_page \<Rightarrow> bool" where
  "settings_enabled m (JumpTo i) s = (i \<in> fst ` set SECTIONS)"
| "settings_enabled m (Scrolled es) s = (fst ` set es \<subseteq> fst ` set SECTIONS)"
| "settings_enabled m (Reconnect c) s = (c \<in> set (real_connectors m))"
| "settings_enabled m (Disconnect c) s = (c \<in> set (real_connectors m))"
| "settings_enabled m (Customize c) s = (c \<in> set (real_connectors m))"
| "settings_enabled m (SelectMode d) s = (d \<in> mo_id ` set (sm_modes m))"
| "settings_enabled m CancelSwitch s = (switch_target m s \<noteq> None \<and> current m s \<noteq> None)"
| "settings_enabled m ConfirmSwitch s = (switch_target m s \<noteq> None \<and> current m s \<noteq> None)"
| "settings_enabled m (QuietFrom t) s = nt_quietHours (sg_notif s)"
| "settings_enabled m (QuietTo t) s = nt_quietHours (sg_notif s)"
| "settings_enabled m (SubmitRequest rid) s = valid_request (sg_title s) (sg_one s)"
| "settings_enabled m (VoteClick i) s = (\<exists>r \<in> set (sg_requests s). rq_id r = i \<and> rq_status r \<noteq> RqShipped)"
| "settings_enabled m TelemetryToggle s = sg_open s"
| "settings_enabled m DebugToggle s = sg_open s"
| "settings_enabled m ExportClick s = sg_open s"
| "settings_enabled m DeleteClick s = (sg_open s \<and> \<not> sg_confirming s)"
| "settings_enabled m (ConfirmType t) s = (sg_open s \<and> sg_confirming s)"
| "settings_enabled m CancelDelete s = (sg_open s \<and> sg_confirming s)"
| "settings_enabled m ConfirmDelete s = (sg_open s \<and> sg_confirming s \<and> sg_confirmText s = ws_name (sm_workspace m))"
| "settings_enabled m UndoClick s = (sg_undo s \<noteq> None)"
| "settings_enabled m UndoTick s = (sg_undo s \<noteq> None)"
| "settings_enabled m SettingsToastGone s = (sg_toast s \<noteq> None)"
| "settings_enabled m _ s = True"

fun settings_exec :: "settings_mock \<Rightarrow> int \<Rightarrow> int \<Rightarrow> settings_event \<Rightarrow> settings_page \<Rightarrow> settings_page" where
  "settings_exec m now render (JumpTo i) s = onJump i s"
| "settings_exec m now render (Scrolled es) s = observed es s"
| "settings_exec m now render SignOutEverywhere s = showToast ''Signed out on 4 other devices.'' s"
| "settings_exec m now render (Reconnect c) s = connector_toast now render (reconnect_msg c) s"
| "settings_exec m now render (Disconnect c) s = connector_toast now render (disconnect_msg c) s"
| "settings_exec m now render (Customize c) s = connector_toast now render (customize_msg c) s"
| "settings_exec m now render (SelectMode d) s = s\<lparr>sg_pending := Some d\<rparr>"
| "settings_exec m now render CancelSwitch s = s\<lparr>sg_pending := None\<rparr>"
| "settings_exec m now render ConfirmSwitch s = confirmSwitch m now render s"
| "settings_exec m now render (PickChannel e ch) s = updateEvent e ch s"
| "settings_exec m now render QuietToggle s = toggleQuiet s"
| "settings_exec m now render (QuietFrom t) s = s\<lparr>sg_notif := (sg_notif s)\<lparr>nt_quietFrom := t\<rparr>\<rparr>"
| "settings_exec m now render (QuietTo t) s = s\<lparr>sg_notif := (sg_notif s)\<lparr>nt_quietTo := t\<rparr>\<rparr>"
| "settings_exec m now render (TitleType t) s = s\<lparr>sg_title := t\<rparr>"
| "settings_exec m now render (OneType t) s = s\<lparr>sg_one := t\<rparr>"
| "settings_exec m now render (SubmitRequest rid) s = submitRequest rid s"
| "settings_exec m now render (VoteClick i) s = onVote i s"
| "settings_exec m now render AdvancedToggle s = s\<lparr>sg_open := \<not> sg_open s\<rparr>"
| "settings_exec m now render TelemetryToggle s = showToast (if \<not> sg_telemetry s then ''Telemetry on'' else ''Telemetry off'') (s\<lparr>sg_telemetry := \<not> sg_telemetry s\<rparr>)"
| "settings_exec m now render DebugToggle s = showToast (if \<not> sg_debug s then ''Debug mode on'' else ''Debug mode off'') (s\<lparr>sg_debug := \<not> sg_debug s\<rparr>)"
| "settings_exec m now render ExportClick s = showToast (''Export queued '' @ u_middot @ '' we'' @ [CHR 0x27] @ ''ll email you the link.'') s"
| "settings_exec m now render DeleteClick s = s\<lparr>sg_confirming := True\<rparr>"
| "settings_exec m now render (ConfirmType t) s = s\<lparr>sg_confirmText := t\<rparr>"
| "settings_exec m now render CancelDelete s = close_confirm s"
| "settings_exec m now render ConfirmDelete s = confirmDelete m now render s"
| "settings_exec m now render UndoClick s = setUndo render None s"
| "settings_exec m now render UndoTick s = undo_tick now render s"
| "settings_exec m now render SettingsToastGone s = s\<lparr>sg_toast := None\<rparr>"

text \<open>A run: events with the two readings of the clock, each enabled when it happens.\<close>

definition settings_run :: "settings_mock \<Rightarrow> (int \<times> int \<times> settings_event) list \<Rightarrow> settings_page \<Rightarrow> settings_page option" where
  "settings_run m = page_run (\<lambda>(now, render, ev). settings_enabled m ev) (\<lambda>(now, render, ev). settings_exec m now render ev)"

lemmas toast_undo_defs = setUndo_def showToast_def showUndo_def undo_tick_def connector_toast_def

lemmas handler_defs = toast_undo_defs onRequestSwitch_def confirmSwitch_def updateEvent_def toggleQuiet_def onSubmit_def submitRequest_def
  onVote_def close_confirm_def confirmDelete_def observed_def onJump_def

section \<open>Deleting the workspace\<close>

text \<open>The notices of the page are told apart by how they begin.\<close>

lemma delete_msg_only: "delete_msg m \<noteq> reconnect_msg c" "delete_msg m \<noteq> disconnect_msg c" "delete_msg m \<noteq> customize_msg c"
  "delete_msg m \<noteq> switch_msg k"
  by (simp_all add: delete_msg_def reconnect_msg_def disconnect_msg_def customize_msg_def switch_msg_def)

lemma deletion_step:
  assumes "sg_undo s \<noteq> Some b" "sg_undo (settings_exec m now render ev s) = Some b" "un_msg b = delete_msg m"
  shows "ev = ConfirmDelete \<and> un_expiresAt b = now + 30 * day_ms"
  using assms
  by (cases ev) (auto simp: delete_msg_only delete_msg_only [symmetric] handler_defs Let_def split: option.splits if_splits list.splits)

lemma confirmText_step:
  assumes "sg_confirmText s \<noteq> w" "sg_confirmText (settings_exec m now render ev s) = w" "w \<noteq> []"
  shows "ev = ConfirmType w"
  using assms by (cases ev) (auto simp: handler_defs Let_def split: option.splits if_splits list.splits)

text \<open>C2.
  The workspace is never scheduled for deletion by accident: in every run of the page that ends with the
  notice of a deletion on screen, the user typed exactly the name of the workspace, did not cancel or type
  anything else afterwards, and then confirmed; and the notice expires 30 days after that confirmation.
\<close>

theorem deletion_needs_name:
  assumes "settings_run m evs (settings_init m) = Some s" and "sg_undo s = Some b" and "un_msg b = delete_msg m"
    and "w = ws_name (sm_workspace m)" and "w \<noteq> []"
  shows "\<exists>a t t' x now render y. evs = a @ (t, t', ConfirmType w) # x @ (now, render, ConfirmDelete) # y
    \<and> (\<forall>ev \<in> snd ` snd ` set x. ev \<noteq> CancelDelete \<and> (\<forall>v. ev = ConfirmType v \<longrightarrow> v = w))
    \<and> un_expiresAt b = now + 30 * day_ms"
proof -
  let ?en = "\<lambda>(now :: int, render :: int, ev). settings_enabled m ev"
  let ?ex = "\<lambda>(now, render, ev). settings_exec m now render ev"
  have "sg_undo (settings_init m) \<noteq> Some b" by (simp add: settings_init_def)
  from page_run_cause [OF assms(1) [unfolded settings_run_def], of "\<lambda>s. sg_undo s = Some b", OF this assms(2)]
  obtain us v y r where v: "evs = us @ v # y" "page_run ?en ?ex us (settings_init m) = Some r" "?en v r"
    "sg_undo r \<noteq> Some b" "sg_undo (?ex v r) = Some b" by blast
  obtain now render ev where ve: "v = (now, render, ev)" by (cases v)
  have ev: "ev = ConfirmDelete" "un_expiresAt b = now + 30 * day_ms"
    using deletion_step [OF v(4), of m now render ev] v(5) ve assms(3) by auto
  have "sg_confirmText r = w" using v(3) ve ev(1) assms(4) by simp
  moreover have "sg_confirmText (settings_init m) \<noteq> w" using assms(5) by (simp add: settings_init_def)
  ultimately obtain a u x q where u: "us = a @ u # x" "?en u q" "sg_confirmText q \<noteq> w" "sg_confirmText (?ex u q) = w"
    "page_run ?en ?ex x (?ex u q) = Some r"
    and since: "\<And>as bs t. x = as @ bs \<Longrightarrow> page_run ?en ?ex as (?ex u q) = Some t \<Longrightarrow> sg_confirmText t = w"
    using page_run_cause [OF v(2), of "\<lambda>s. sg_confirmText s = w"] by blast
  obtain t t' e where ue: "u = (t, t', e)" by (cases u)
  have e: "e = ConfirmType w" using confirmText_step [OF u(3), of m t t' e] u(4) ue assms(5) by simp
  have "ev' \<noteq> CancelDelete \<and> (\<forall>v. ev' = ConfirmType v \<longrightarrow> v = w)" if mem: "ev' \<in> snd ` snd ` set x" for ev'
  proof -
    obtain n n' where "(n, n', ev') \<in> set x" using mem by force
    then obtain as bs where x: "x = as @ (n, n', ev') # bs" by (meson split_list)
    with u(5) obtain k where k: "page_run ?en ?ex as (?ex u q) = Some k" "settings_enabled m ev' k"
      by (auto simp: page_run_append split: bind_splits if_splits)
    then have "sg_confirmText (settings_exec m n n' ev' k) = w"
      using since [of "as @ [(n, n', ev')]" bs] x by (simp add: page_run_append)
    then show ?thesis using assms(5) by (auto simp: close_confirm_def)
  qed
  then show ?thesis using v(1) u(1) ue e ve ev by (intro exI) auto
qed

definition demo_mode :: "deployment_mode \<Rightarrow> jstr \<Rightarrow> mode_card" where
  "demo_mode d n = \<lparr>mo_id = d, mo_name = n, mo_tagline = [], mo_changes = \<lparr>mc_dataLocation = [], mc_sharing = [], mc_security = []\<rparr>, mo_bullets = []\<rparr>"

definition demo_request :: "jstr \<Rightarrow> request_status \<Rightarrow> recipe_request" where
  "demo_request i st = \<lparr>rq_id = i, rq_title = ''t'', rq_one = ''o'', rq_votes = 5, rq_mine = False, rq_status = st\<rparr>"

definition demo_settings :: settings_mock where
  "demo_settings = \<lparr>sm_operator = \<lparr>op_name = [], op_email = [], op_role = [], op_signIn = [], op_avatar = []\<rparr>,
     sm_workspace = \<lparr>ws_name = ''acme'', ws_region = [], ws_plan = [], ws_createdOn = []\<rparr>, sm_sessions = [], sm_connectors = [],
     sm_modes = [demo_mode DmSolo ''Solo'', demo_mode DmTeam ''Team''],
     sm_recipeRequests = [demo_request ''rr-1'' RqOpen, demo_request ''rr-2'' RqShipped]\<rparr>"

lemmas demo_settings_simps = demo_settings_def demo_mode_def demo_request_def settings_run_def settings_init_def handler_defs

lemma deletion_needs_name_witness:
  "\<exists>a t t' x now render y. [(0, 0, AdvancedToggle), (1, 1, DeleteClick), (2, 2, ConfirmType ''acme''), (3 :: int, 4 :: int, ConfirmDelete)]
      = a @ (t, t', ConfirmType ''acme'') # x @ (now, render, ConfirmDelete) # y
    \<and> (\<forall>ev \<in> snd ` snd ` set x. ev \<noteq> CancelDelete \<and> (\<forall>v. ev = ConfirmType v \<longrightarrow> v = ''acme''))
    \<and> un_expiresAt \<lparr>un_msg = delete_msg demo_settings, un_expiresAt = 3 + 30 * day_ms\<rparr> = now + 30 * day_ms"
proof -
  let ?evs = "[(0, 0, AdvancedToggle), (1, 1, DeleteClick), (2, 2, ConfirmType ''acme''), (3 :: int, 4 :: int, ConfirmDelete)]"
  let ?b = "\<lparr>un_msg = delete_msg demo_settings, un_expiresAt = 3 + 30 * day_ms\<rparr>"
  have run: "settings_run demo_settings ?evs (settings_init demo_settings) = Some (confirmDelete demo_settings 3 4
      ((settings_init demo_settings)\<lparr>sg_open := True, sg_confirming := True, sg_confirmText := ''acme''\<rparr>))" (is "_ = Some ?s")
    by (simp add: demo_settings_simps)
  have b: "sg_undo ?s = Some ?b" by (simp add: handler_defs)
  have w: "''acme'' = ws_name (sm_workspace demo_settings)" by (simp add: demo_settings_def)
  show ?thesis by (rule deletion_needs_name [OF run b _ w]) simp_all
qed

section \<open>Switching the deployment mode\<close>

lemma switch_target_Some:
  assumes "switch_target m s = Some c"
  shows "sg_pending s = Some (mo_id c)" "c \<in> set (sm_modes m)" "find_mode m (mo_id c) = Some c"
proof -
  obtain p where p: "sg_pending s = Some p" "find_mode m p = Some c"
    using assms by (auto simp: switch_target_def split: option.splits if_splits)
  then have "mo_id c = p" "c \<in> set (sm_modes m)" by (auto simp: find_mode_def find_Some_iff)
  with p show "sg_pending s = Some (mo_id c)" "c \<in> set (sm_modes m)" "find_mode m (mo_id c) = Some c" by simp_all
qed

text \<open>The deployment mode is switched only in two steps: when any possible event changes it, the event is the
  confirmation of the question on screen, which names the current mode and a different mode that the user
  had selected; that mode becomes the active one, the question is gone, and the notice of the switch can be
  reverted for seven days.
\<close>

lemma mode_switch_confirmed:
  assumes "settings_enabled m ev s" and "s' = settings_exec m now render ev s" and "sg_deployment s' \<noteq> sg_deployment s"
  shows "ev = ConfirmSwitch \<and> sg_pending s = Some (sg_deployment s') \<and> sg_pending s' = None
    \<and> (\<exists>c k. c \<in> set (sm_modes m) \<and> mo_id c = sg_deployment s' \<and> current m s = Some k
        \<and> sg_undo s' = Some \<lparr>un_msg = switch_msg c, un_expiresAt = now + 7 * day_ms\<rparr>)"
proof -
  have ev: "ev = ConfirmSwitch"
    using assms by (cases ev) (auto simp: handler_defs Let_def split: option.splits if_splits list.splits)
  then obtain c k where "switch_target m s = Some c" "current m s = Some k" using assms(1) by auto
  then show ?thesis using ev switch_target_Some [of m s c] assms(2) by (auto simp: handler_defs Let_def)
qed

lemma mode_switch_confirmed_witness:
  "sg_pending ((settings_init demo_settings)\<lparr>sg_pending := Some DmTeam\<rparr>) = Some DmTeam
   \<and> (\<exists>c. c \<in> set (sm_modes demo_settings) \<and> mo_id c = DmTeam)"
proof -
  let ?s = "(settings_init demo_settings)\<lparr>sg_pending := Some DmTeam\<rparr>"
  have en: "settings_enabled demo_settings ConfirmSwitch ?s"
    by (simp add: demo_settings_simps switch_target_def current_def find_mode_def)
  have d: "sg_deployment (settings_exec demo_settings 0 0 ConfirmSwitch ?s) = DmTeam"
    by (simp add: demo_settings_simps switch_target_def find_mode_def)
  then have "sg_deployment (settings_exec demo_settings 0 0 ConfirmSwitch ?s) \<noteq> sg_deployment ?s"
    by (simp add: settings_init_def)
  from mode_switch_confirmed [OF en refl this] d show ?thesis by auto
qed

text \<open>The undo button takes the notice away and changes nothing else: a switch is not reverted by it.\<close>

lemma undo_keeps_mode:
  "settings_exec m now render UndoClick s = s\<lparr>sg_undo := None, sg_remaining := []\<rparr>"
  by (simp add: setUndo_def remaining_def)

section \<open>Votes\<close>

text \<open>A request without the vote of this user, and the identifiers drawn for submitted requests.\<close>

definition others_votes :: "recipe_request \<Rightarrow> recipe_request" where
  "others_votes r = r\<lparr>rq_votes := rq_votes r - (if rq_mine r then 1 else 0), rq_mine := False\<rparr>"

fun submitted :: "(int \<times> int \<times> settings_event) list \<Rightarrow> jstr list" where
  "submitted [] = []"
| "submitted ((now, render, ev) # evs) = (case ev of SubmitRequest rid \<Rightarrow> [rid] | _ \<Rightarrow> []) @ submitted evs"

definition new_request :: "recipe_request \<Rightarrow> bool" where
  "new_request r \<longleftrightarrow> rq_votes r = 0 \<and> rq_status r = RqOpen \<and> length (rq_title r) > 4 \<and> length (rq_one r) > 6"

interpretation voting: keyed_update rq_id vote
  by unfold_locales (simp add: vote_def)

lemma others_votes_vote [simp]: "others_votes (vote r) = others_votes r"
  by (simp add: others_votes_def vote_def)

lemma map_others_votes: "map others_votes (update_by rq_id i vote rs) = map others_votes rs"
  by (simp add: update_by_def)

lemma rq_id_others_votes [simp]: "rq_id (others_votes r) = rq_id r"
  by (simp add: others_votes_def)

lemma requests_step:
  assumes "settings_enabled m ev s"
  shows "\<exists>new. map others_votes (sg_requests (settings_exec m now render ev s)) = new @ map others_votes (sg_requests s)
    \<and> map rq_id new = submitted [(now, render, ev)] \<and> list_all new_request new"
proof (cases "\<exists>rid. ev = SubmitRequest rid")
  case True
  then obtain rid where ev: "ev = SubmitRequest rid" by blast
  let ?r = "\<lparr>rq_id = rid, rq_title = js_trim (sg_title s), rq_one = js_trim (sg_one s), rq_votes = 0, rq_mine = False, rq_status = RqOpen\<rparr>"
  show ?thesis using assms ev
    by (intro exI [of _ "[?r]"]) (simp add: submitRequest_def onSubmit_def showToast_def new_request_def valid_request_def others_votes_def)
next
  case False
  then have "map others_votes (sg_requests (settings_exec m now render ev s)) = map others_votes (sg_requests s)"
    by (cases ev) (auto simp: handler_defs map_others_votes Let_def split: option.splits list.splits)
  then show ?thesis using False by (intro exI [of _ "[]"]) (cases ev; simp)
qed

lemma requests_run:
  assumes "settings_run m evs s = Some s'"
  shows "\<exists>new. map others_votes (sg_requests s') = new @ map others_votes (sg_requests s)
    \<and> map rq_id new = rev (submitted evs) \<and> list_all new_request new"
  using assms
proof (induction evs arbitrary: s)
  case Nil
  then show ?case by (simp add: settings_run_def)
next
  case (Cons e evs)
  obtain now render ev where e: "e = (now, render, ev)" by (cases e)
  have en: "settings_enabled m ev s" and run: "settings_run m evs (settings_exec m now render ev s) = Some s'"
    using Cons.prems e by (auto simp: settings_run_def split: if_splits)
  obtain new new' where "map others_votes (sg_requests s') = new @ new' @ map others_votes (sg_requests s)"
    "map rq_id new = rev (submitted evs)" "list_all new_request new"
    "map rq_id new' = submitted [(now, render, ev)]" "list_all new_request new'"
    using Cons.IH [OF run] requests_step [OF en, of now render] by metis
  moreover have "rev (submitted [(now, render, ev)]) = submitted [(now, render, ev)]" by (simp split: settings_event.splits)
  ultimately show ?case using e by (intro exI [of _ "new @ new'"]) auto
qed

text \<open>While identifiers are distinct, only the request whose button was clicked changes.\<close>

lemma shipped_update:
  assumes "distinct (map rq_id rs)" "\<exists>r \<in> set rs. rq_id r = i \<and> rq_status r \<noteq> RqShipped"
  shows "filter (\<lambda>r. rq_status r = RqShipped) (update_by rq_id i vote rs) = filter (\<lambda>r. rq_status r = RqShipped) rs"
proof -
  have "rq_status r \<noteq> RqShipped" if "r \<in> set rs" "rq_id r = i" for r
    using assms that by (metis distinct_map inj_onD)
  then show ?thesis by (induction rs) (auto simp: update_by_def vote_def)
qed

lemma shipped_step:
  assumes "settings_enabled m ev s" "distinct (map rq_id (sg_requests s))"
  shows "filter (\<lambda>r. rq_status r = RqShipped) (sg_requests (settings_exec m now render ev s))
    = filter (\<lambda>r. rq_status r = RqShipped) (sg_requests s)"
  using assms by (cases ev) (auto simp: handler_defs shipped_update Let_def split: option.splits list.splits)

lemma ids_run:
  assumes "settings_run m evs s = Some s'"
  shows "map rq_id (sg_requests s') = rev (submitted evs) @ map rq_id (sg_requests s)"
proof -
  have ids: "map rq_id (map others_votes rs) = map rq_id rs" for rs by simp
  obtain new where "map others_votes (sg_requests s') = new @ map others_votes (sg_requests s)" "map rq_id new = rev (submitted evs)"
    using requests_run [OF assms] by blast
  then show ?thesis using ids by (metis map_append)
qed

text \<open>C24.
  The votes on recipe requests are honest: after any run of the page the requests are those that were
  submitted, newest first and each with acceptable texts and no other votes, followed by the ones that
  were there; without the vote of this user every request has the votes it started with, so one user
  counts at most once however often the button is clicked.  If the drawn identifiers are fresh, requests
  that have shipped are unchanged.
\<close>

theorem votes_are_honest:
  assumes "settings_run m evs s = Some s'"
  shows "(\<exists>new. map others_votes (sg_requests s') = new @ map others_votes (sg_requests s)
      \<and> map rq_id new = rev (submitted evs) \<and> list_all new_request new)
    \<and> (distinct (submitted evs @ map rq_id (sg_requests s))
        \<longrightarrow> filter (\<lambda>r. rq_status r = RqShipped) (sg_requests s') = filter (\<lambda>r. rq_status r = RqShipped) (sg_requests s))"
proof (intro conjI impI requests_run [OF assms])
  assume "distinct (submitted evs @ map rq_id (sg_requests s))"
  then show "filter (\<lambda>r. rq_status r = RqShipped) (sg_requests s') = filter (\<lambda>r. rq_status r = RqShipped) (sg_requests s)"
    using assms
  proof (induction evs arbitrary: s)
    case Nil
    then show ?case by (simp add: settings_run_def)
  next
    case (Cons e evs)
    obtain now render ev where e: "e = (now, render, ev)" by (cases e)
    let ?s = "settings_exec m now render ev s"
    have en: "settings_enabled m ev s" and run: "settings_run m evs ?s = Some s'"
      using Cons.prems(2) e by (auto simp: settings_run_def split: if_splits)
    have "settings_run m [(now, render, ev)] s = Some ?s" using en by (simp add: settings_run_def)
    then have "distinct (submitted evs @ map rq_id (sg_requests ?s))"
      using Cons.prems(1) e ids_run [of m "[(now, render, ev)]" s ?s] by auto
    from Cons.IH [OF this run] show ?case using shipped_step [OF en, of now render] Cons.prems(1) by simp
  qed
qed

lemma votes_are_honest_witness:
  "\<exists>s'. settings_run demo_settings [(0, 0, TitleType ''Weekly report''), (0, 0, OneType ''Sum up the week''), (0, 0, SubmitRequest ''rr-x''),
        (0, 0, VoteClick ''rr-1''), (0, 0, VoteClick ''rr-x'')] (settings_init demo_settings) = Some s'
    \<and> filter (\<lambda>r. rq_status r = RqShipped) (sg_requests s') = [demo_request ''rr-2'' RqShipped]"
proof -
  let ?evs = "[(0, 0, TitleType ''Weekly report''), (0, 0, OneType ''Sum up the week''), (0, 0, SubmitRequest ''rr-x''),
        (0, 0, VoteClick ''rr-1''), (0, 0, VoteClick ''rr-x'')]"
  have "settings_run demo_settings ?evs (settings_init demo_settings) \<noteq> None" by code_simp
  then obtain s' where run: "settings_run demo_settings ?evs (settings_init demo_settings) = Some s'" by blast
  moreover have "distinct (submitted ?evs @ map rq_id (sg_requests (settings_init demo_settings)))"
    by (simp add: settings_init_def demo_settings_def demo_request_def)
  ultimately have "filter (\<lambda>r. rq_status r = RqShipped) (sg_requests s')
      = filter (\<lambda>r. rq_status r = RqShipped) (sg_requests (settings_init demo_settings))"
    using votes_are_honest [OF run] by blast
  then show ?thesis using run by (auto simp: settings_init_def demo_settings_def demo_request_def)
qed

text \<open>With an identifier that collides, a click on an open request also votes on a shipped one.\<close>

lemma colliding_identifier:
  "sg_requests (onVote ''rr-2'' ((settings_init demo_settings)\<lparr>sg_requests := [demo_request ''rr-2'' RqOpen, demo_request ''rr-2'' RqShipped]\<rparr>))
   = [vote (demo_request ''rr-2'' RqOpen), vote (demo_request ''rr-2'' RqShipped)]"
  by (simp add: onVote_def update_by_def demo_request_def)

section \<open>The undo banner\<close>

definition undo_units :: "(jstr \<times> int \<times> int) list" where
  "undo_units = [(''d'', day_ms, 31), (''h'', hour_ms, 24), (''m'', 60000, 60)]"

lemma int_div_bounds: "0 < d \<Longrightarrow> (n div d) * d \<le> n \<and> n < (n div d + 1) * d" for n d :: int
  by (metis add.commute div_mult_mod_eq le_add_same_cancel1 mult.commute pos_mod_bound pos_mod_sign add_strict_left_mono
      distrib_right mult_1)

text \<open>
  The time shown in the undo banner is right when it is written: with \<open>ms\<close> milliseconds left, at most 30 days,
  the text is a positive number of days, hours or minutes, in the largest unit that fits, and that number of
  units is what is left rounded down (less than a minute reads as one).
\<close>

theorem undo_text_bounds:
  assumes "ms = un_expiresAt b - now" and "0 \<le> ms" and "ms \<le> 30 * day_ms"
  shows "\<exists>n u len lim. (u, len, lim) \<in> set undo_units \<and> remaining (Some b) now = int_str n @ u @ '' to undo''
    \<and> 1 \<le> n \<and> n < lim \<and> ms < (n + 1) * len \<and> (n * len \<le> ms \<or> n = 1 \<and> u = ''m'' \<and> ms < 60000)"
proof -
  note b = int_div_bounds [of day_ms ms] int_div_bounds [of hour_ms ms] int_div_bounds [of 60000 ms]
  consider "1 \<le> ms div day_ms" | "\<not> 1 \<le> ms div day_ms" "1 \<le> ms div hour_ms"
    | "\<not> 1 \<le> ms div day_ms" "\<not> 1 \<le> ms div hour_ms" by blast
  then show ?thesis
  proof cases
    case 1
    then show ?thesis using b assms
      by (intro exI [of _ "ms div day_ms"] exI [of _ "''d''"] exI [of _ day_ms] exI [of _ 31])
        (simp add: remaining_def undo_units_def)
  next
    case 2
    then show ?thesis using b assms
      by (intro exI [of _ "ms div hour_ms"] exI [of _ "''h''"] exI [of _ hour_ms] exI [of _ 24])
        (simp add: remaining_def undo_units_def)
  next
    case 3
    then show ?thesis using b assms
      by (intro exI [of _ "max (ms div 60000) 1"] exI [of _ "''m''"] exI [of _ 60000] exI [of _ 60])
        (auto simp add: remaining_def undo_units_def max_def)
  qed
qed

lemma undo_text_bounds_witness:
  "\<exists>n u len lim. (u, len, lim) \<in> set undo_units
    \<and> remaining (Some \<lparr>un_msg = ''x'', un_expiresAt = 7 * day_ms\<rparr>) 5000 = int_str n @ u @ '' to undo'' \<and> 1 \<le> n \<and> n < lim"
proof -
  let ?b = "\<lparr>un_msg = ''x'', un_expiresAt = 7 * day_ms\<rparr>"
  show ?thesis using undo_text_bounds [of "un_expiresAt ?b - 5000" ?b 5000] by auto
qed

text \<open>The text is written when the banner appears and the ticks of its timer do not renew it.\<close>

lemma tick_keeps_text:
  "sg_undo s = Some b \<Longrightarrow> now \<le> un_expiresAt b \<Longrightarrow> settings_exec m now render UndoTick s = s"
  by (simp add: undo_tick_def)

section \<open>Well-formed states\<close>

definition settings_wf :: "settings_mock \<Rightarrow> settings_page \<Rightarrow> bool" where
  "settings_wf m s \<longleftrightarrow> sg_active s \<in> fst ` set SECTIONS
     \<and> sg_deployment s \<in> mo_id ` set (sm_modes m) \<and> set_option (sg_pending s) \<subseteq> mo_id ` set (sm_modes m)
     \<and> (sg_confirming s \<or> sg_confirmText s = []) \<and> (sg_undo s = None \<longleftrightarrow> sg_remaining s = [])
     \<and> sg_toast s \<noteq> Some []"

lemma ratio_cmp_diff: "ratio_cmp = cmp_diff (\<lambda>e. - snd (snd e))"
  by (intro ext) (simp add: ratio_cmp_def cmp_diff_def)

lemma remaining_Nil [simp]: "remaining u now = [] \<longleftrightarrow> u = None"
  by (auto simp: remaining_def Let_def split: option.splits)

lemma EVENT_LABELS_nonempty [simp]: "EVENT_LABELS e \<noteq> []"
  by (cases e) simp_all

lemma observed_active:
  assumes "fst ` set es \<subseteq> A" "sg_active s \<in> A"
  shows "sg_active (observed es s) \<in> A"
proof (cases "js_sort ratio_cmp (filter (\<lambda>e. fst (snd e)) es)")
  case Nil
  then show ?thesis using assms by (simp add: observed_def)
next
  case (Cons e r)
  have "e \<in> set es" using set_js_sort [of ratio_cmp "filter (\<lambda>e. fst (snd e)) es"] Cons by auto
  then show ?thesis using assms Cons by (auto simp: observed_def)
qed

lemma observed_rest: "\<exists>a. observed es s = s\<lparr>sg_active := a\<rparr>"
  by (auto simp: observed_def split: list.splits intro: exI [of _ "sg_active s"])

lemma settings_wf_step:
  assumes "settings_wf m s" "settings_enabled m ev s"
  shows "settings_wf m (settings_exec m now render ev s)"
proof (cases ev)
  case (Scrolled es)
  obtain a where a: "observed es s = s\<lparr>sg_active := a\<rparr>" using observed_rest by blast
  then have "a \<in> fst ` set SECTIONS"
    using observed_active [of es "fst ` set SECTIONS" s] assms Scrolled by (simp add: settings_wf_def)
  then show ?thesis using assms(1) Scrolled a by (simp add: settings_wf_def)
next
  case ConfirmSwitch
  then obtain c where "switch_target m s = Some c" using assms by auto
  with switch_target_Some [OF this] show ?thesis
    using assms(1) ConfirmSwitch by (auto simp: settings_wf_def handler_defs Let_def)
qed (use assms in \<open>auto simp: settings_wf_def handler_defs reconnect_msg_def disconnect_msg_def customize_msg_def Let_def
    split: option.splits if_splits\<close>)

text \<open>C37.
  Every state the page can reach is well-formed: the highlighted section exists, the active deployment mode
  and the selected one are among the modes offered, the confirmation text is empty unless the confirmation
  is open, the undo banner has a text exactly when it is shown, and a toast is never empty.
\<close>

theorem settings_states_well_formed:
  assumes "settings_run m evs (settings_init m) = Some s" and "DmSolo \<in> mo_id ` set (sm_modes m)"
  shows "settings_wf m s"
proof -
  have "settings_wf m (settings_init m)"
    using assms(2) by (simp add: settings_wf_def settings_init_def SECTIONS_def)
  then show ?thesis
    using page_run_invariant [OF assms(1) [unfolded settings_run_def], of "settings_wf m"] settings_wf_step by (simp add: split_beta)
qed

lemma settings_states_well_formed_witness:
  "settings_wf demo_settings ((settings_init demo_settings)\<lparr>sg_pending := Some DmTeam\<rparr>)"
proof -
  have "settings_run demo_settings [(0, 0, SelectMode DmTeam)] (settings_init demo_settings)
      = Some ((settings_init demo_settings)\<lparr>sg_pending := Some DmTeam\<rparr>)" by (simp add: demo_settings_simps)
  from settings_states_well_formed [OF this] show ?thesis by (simp add: demo_settings_def demo_mode_def)
qed

text \<open>The section that becomes active is one that is visible, and none is more visible.\<close>

lemma most_visible_active:
  assumes "(i, True, q) \<in> set es"
  shows "\<exists>p. (sg_active (observed es s), True, p) \<in> set es \<and> q \<le> p"
proof -
  let ?v = "js_sort ratio_cmp (filter (\<lambda>e. fst (snd e)) es)"
  have "(i, True, q) \<in> set (filter (\<lambda>e. fst (snd e)) es)" using assms by simp
  then have "?v \<noteq> []" by (metis empty_iff js_sort_Nil list.set(1))
  then obtain e r where v: "?v = e # r" by (cases ?v) auto
  note hd = js_sort_hd [OF cmp_diff_comparator, OF v [unfolded ratio_cmp_diff]]
  have "e \<in> set es" "fst (snd e)" "q \<le> snd (snd e)" using hd(1) hd(2) [of "(i, True, q)"] assms by auto
  then show ?thesis using v by (intro exI [of _ "snd (snd e)"]) (cases e, auto simp: observed_def)
qed

section \<open>The toast\<close>

definition settings_toast_ms :: nat where
  "settings_toast_ms = 1800"

text \<open>The toast is a text, so that setting it to the text it has changes nothing.\<close>

interpretation settings_toast: timed_toast settings_toast_ms "\<lambda>t. t = []" sg_toast "\<lambda>(now, render, ev). settings_enabled m ev" "\<lambda>(now, render, ev). settings_exec m now render ev" "(0, 0, SettingsToastGone)" "\<lambda>(now, render, ev). ev = SettingsToastGone" "\<lambda>v s. False" for m
  by unfold_locales simp

end
