(* ===== verification/Memory_Page.thy ===== *)
theory Memory_Page
  imports Js_Number React_Effects
begin

text \<open>
  The Memory page (\<open>apps/web/src/pages/v2/Memory.tsx\<close>, wire types of \<open>_mocks/memory.ts\<close>): facts with their
  subject, freshness and evidence, the two rows of filters, search, the order of the list, and forgetting
  with its undo.  Hours and percentages are exact rationals.  The search shortcut (it moves the focus), class
  names, icons and layout are not modelled.
\<close>

section \<open>Wire types\<close>

datatype subject = People | Accounts | Preferences | Patterns

record evidence =
  ev_id :: jstr
  ev_when :: jstr
  ev_source :: jstr
  ev_ref :: jstr
  ev_snippet :: jstr

record memory_item =
  mi_id :: jstr
  mi_subject :: subject
  mi_subjectLabel :: jstr
  mi_fact :: jstr
  mi_confidence :: rat
  mi_lastTouchedHours :: rat
  mi_lastTouchedLabel :: jstr
  mi_verified :: bool
  mi_evidence :: "evidence list"
  mi_tags :: "jstr list"

section \<open>Tables and texts\<close>

datatype freshness_bucket = FHours | FDays | FWeeks | FMonths

datatype memory_tone = MtSafe | MtWarning | MtBlocked | MtRecovered | MtQuarantined | MtAccent | MtNeutral

definition freshnessOf :: "rat \<Rightarrow> freshness_bucket" where
  "freshnessOf hours = (if hours < 24 then FHours else if hours < 24 * 7 then FDays
     else if hours < 24 * 30 then FWeeks else FMonths)"

definition confidenceTone :: "rat \<Rightarrow> memory_tone" where
  "confidenceTone c = (if c \<ge> 85 then MtSafe else if c \<ge> 70 then MtWarning else MtBlocked)"

definition STALE_HOURS :: rat where
  "STALE_HOURS = 30 * 24"

definition SUBJECT_META :: "(subject \<times> jstr \<times> memory_tone) list" where
  "SUBJECT_META = [(People, ''People'', MtAccent), (Accounts, ''Accounts'', MtRecovered),
     (Preferences, ''Preferences'', MtQuarantined), (Patterns, ''Patterns'', MtWarning)]"

definition FRESHNESS_META :: "(freshness_bucket \<times> jstr) list" where
  "FRESHNESS_META = [(FHours, ''Hours''), (FDays, ''Days''), (FWeeks, ''Weeks''), (FMonths, ''Months'')]"

definition stale :: "memory_item \<Rightarrow> bool" where
  "stale it \<longleftrightarrow> mi_lastTouchedHours it > STALE_HOURS"

definition freshness_tone :: "memory_item \<Rightarrow> memory_tone" where
  "freshness_tone it = (if stale it then MtWarning else if mi_verified it then MtSafe else MtNeutral)"

definition reverify_text :: "memory_item \<Rightarrow> jstr option" where
  "reverify_text it = (if mi_lastTouchedHours it \<le> STALE_HOURS then None
     else Some (''Re-verify '' @ u_middot @ '' '' @ int_str (js_round (mi_lastTouchedHours it / 24)) @ ''d untouched''))"

definition edges_text :: "memory_item list \<Rightarrow> int" where
  "edges_text items = max 0 (int (length items) * 2 - 4)"

section \<open>The page\<close>

datatype memory_view = ListView | GraphView

record memory_page =
  allItems :: "memory_item list"
  mp_subject :: "subject option"
  mp_freshness :: "freshness_bucket option"
  mp_query :: jstr
  mp_view :: memory_view
  mp_expandedId :: "jstr option"
  forgotten :: "memory_item list"
  lastForgotten :: "memory_item option"
  mp_toast :: "jstr option"

definition memory_init :: "memory_item list \<Rightarrow> memory_page" where
  "memory_init items = \<lparr>allItems = items, mp_subject = None, mp_freshness = None, mp_query = [], mp_view = ListView,
     mp_expandedId = None, forgotten = [], lastForgotten = None, mp_toast = None\<rparr>"

text \<open>A filter of \<^const>\<open>None\<close> is \<open>all\<close>.  The counts are a loop that adds one to the counter of each item.\<close>

definition subjectCounts :: "memory_item list \<Rightarrow> subject option \<Rightarrow> nat" where
  "subjectCounts items f = (case f of None \<Rightarrow> length items | Some c \<Rightarrow> tally mi_subject items (\<lambda>_. 0) c)"

definition freshnessCounts :: "memory_item list \<Rightarrow> freshness_bucket option \<Rightarrow> nat" where
  "freshnessCounts items f =
     (case f of None \<Rightarrow> length items | Some c \<Rightarrow> tally (\<lambda>it. freshnessOf (mi_lastTouchedHours it)) items (\<lambda>_. 0) c)"

definition hay :: "memory_item \<Rightarrow> jstr" where
  "hay it = js_toLowerCase (js_join '' '' ([mi_subjectLabel it, mi_fact it, js_join '' '' (mi_tags it)]
     @ concat (map (\<lambda>e. [ev_source e, ev_snippet e, ev_ref e]) (mi_evidence it))))"

definition memory_filtered :: "memory_page \<Rightarrow> memory_item list" where
  "memory_filtered s =
     (let q = js_toLowerCase (js_trim (mp_query s))
      in filter (\<lambda>it. if mp_subject s \<noteq> None \<and> Some (mi_subject it) \<noteq> mp_subject s then False
           else if mp_freshness s \<noteq> None \<and> Some (freshnessOf (mi_lastTouchedHours it)) \<noteq> mp_freshness s then False
           else if q = [] then True else js_includes (hay it) q) (allItems s))"

definition memory_cmp :: "memory_item \<Rightarrow> memory_item \<Rightarrow> int" where
  "memory_cmp a b =
     (let aStale = (if mi_lastTouchedHours a > STALE_HOURS then 1 else 0);
          bStale = (if mi_lastTouchedHours b > STALE_HOURS then 1 else 0)
      in if aStale \<noteq> bStale then aStale - bStale
         else js_sign (mi_lastTouchedHours a - mi_lastTouchedHours b))"

definition memory_sorted :: "memory_page \<Rightarrow> memory_item list" where
  "memory_sorted s = js_sort memory_cmp (memory_filtered s)"

datatype memory_body = GraphBody "memory_item list" | NoMemory | NoMatch jstr | Cards "memory_item list"

definition memory_body_of :: "memory_page \<Rightarrow> memory_body" where
  "memory_body_of s = (if mp_view s = GraphView then GraphBody (allItems s)
     else if allItems s = [] then NoMemory
     else if memory_sorted s = [] then NoMatch (mp_query s) else Cards (memory_sorted s))"

definition handleForget :: "memory_item \<Rightarrow> memory_page \<Rightarrow> memory_page" where
  "handleForget it s = s\<lparr>allItems := filter (\<lambda>x. mi_id x \<noteq> mi_id it) (allItems s), forgotten := it # forgotten s,
     lastForgotten := Some it\<rparr>"

definition handleUndoForget :: "memory_page \<Rightarrow> memory_page" where
  "handleUndoForget s = (case lastForgotten s of None \<Rightarrow> s
     | Some l \<Rightarrow> s\<lparr>allItems := l # allItems s, forgotten := filter (\<lambda>x. mi_id x \<noteq> mi_id l) (forgotten s),
         mp_toast := Some (''Restored '' @ u_middot @ '' '' @ mi_subjectLabel l), lastForgotten := None\<rparr>)"

definition handleCorrect :: "memory_item \<Rightarrow> memory_page \<Rightarrow> memory_page" where
  "handleCorrect it s = s\<lparr>mp_toast := Some (''Correct '' @ u_middot @ '' '' @ mi_subjectLabel it)\<rparr>"

definition handleTag :: "memory_item \<Rightarrow> memory_page \<Rightarrow> memory_page" where
  "handleTag it s = s\<lparr>mp_toast := Some (''Add tag '' @ u_middot @ '' '' @ mi_subjectLabel it)\<rparr>"

definition visible_toast :: "memory_page \<Rightarrow> jstr option" where
  "visible_toast s = (if lastForgotten s = None then mp_toast s else None)"

datatype memory_event =
    PickSubject "subject option" | PickFreshness "freshness_bucket option" | SearchMemory jstr | PickView memory_view
  | ExpandClick memory_item | CorrectClick memory_item | ForgetClick memory_item | TagClick memory_item
  | UndoForget | DismissBanner | MemoryToastGone

fun memory_enabled :: "memory_event \<Rightarrow> memory_page \<Rightarrow> bool" where
  "memory_enabled (ExpandClick it) s = (mp_view s = ListView \<and> it \<in> set (memory_sorted s))"
| "memory_enabled (CorrectClick it) s = (mp_view s = ListView \<and> it \<in> set (memory_sorted s))"
| "memory_enabled (ForgetClick it) s = (mp_view s = ListView \<and> it \<in> set (memory_sorted s))"
| "memory_enabled (TagClick it) s = (mp_view s = ListView \<and> it \<in> set (memory_sorted s))"
| "memory_enabled UndoForget s = (lastForgotten s \<noteq> None)"
| "memory_enabled DismissBanner s = (lastForgotten s \<noteq> None)"
| "memory_enabled MemoryToastGone s = (mp_toast s \<noteq> None)"
| "memory_enabled _ s = True"

fun memory_exec :: "memory_event \<Rightarrow> memory_page \<Rightarrow> memory_page" where
  "memory_exec (PickSubject f) s = s\<lparr>mp_subject := f\<rparr>"
| "memory_exec (PickFreshness f) s = s\<lparr>mp_freshness := f\<rparr>"
| "memory_exec (SearchMemory q) s = s\<lparr>mp_query := q\<rparr>"
| "memory_exec (PickView v) s = s\<lparr>mp_view := v\<rparr>"
| "memory_exec (ExpandClick it) s = s\<lparr>mp_expandedId := (if mp_expandedId s = Some (mi_id it) then None else Some (mi_id it))\<rparr>"
| "memory_exec (CorrectClick it) s = handleCorrect it s"
| "memory_exec (ForgetClick it) s = handleForget it s"
| "memory_exec (TagClick it) s = handleTag it s"
| "memory_exec UndoForget s = handleUndoForget s"
| "memory_exec DismissBanner s = s\<lparr>lastForgotten := None\<rparr>"
| "memory_exec MemoryToastGone s = s\<lparr>mp_toast := None\<rparr>"

section \<open>Filters and order\<close>

interpretation memory_subjects: category_filter mi_subject "map fst SUBJECT_META"
proof
  show "distinct (map fst SUBJECT_META)" by (simp add: SUBJECT_META_def)
  show "mi_subject x \<in> set (map fst SUBJECT_META)" for x by (cases "mi_subject x") (simp_all add: SUBJECT_META_def)
qed

interpretation memory_ages: category_filter "\<lambda>it. freshnessOf (mi_lastTouchedHours it)" "map fst FRESHNESS_META"
proof
  show "distinct (map fst FRESHNESS_META)" by (simp add: FRESHNESS_META_def)
  show "freshnessOf (mi_lastTouchedHours x) \<in> set (map fst FRESHNESS_META)" for x
    by (cases "freshnessOf (mi_lastTouchedHours x)") (simp_all add: FRESHNESS_META_def)
qed

lemma memory_cmp_hours: "memory_cmp a b \<le> 0 \<longleftrightarrow> cmp_diff mi_lastTouchedHours a b \<le> 0"
  by (simp add: memory_cmp_def js_sign_def STALE_HOURS_def)

lemma memory_cmp_comparator: "js_comparator memory_cmp"
  using cmp_diff_comparator [of mi_lastTouchedHours] unfolding js_comparator_def memory_cmp_hours .

text \<open>
  The list of facts is exactly the facts that pass the filters, and its order is by the time since they were
  last touched, most recent first, facts of equal age in the order they have in memory: comparing staleness
  before the age changes nothing.
\<close>

theorem memory_order:
  "memory_sorted s = js_sort (cmp_diff mi_lastTouchedHours) (memory_filtered s)
   \<and> mset (memory_sorted s) = mset (memory_filtered s)
   \<and> sorted_wrt (\<lambda>a b. mi_lastTouchedHours a \<le> mi_lastTouchedHours b) (memory_sorted s)
   \<and> filter (\<lambda>it. mi_lastTouchedHours it = h) (memory_sorted s) = filter (\<lambda>it. mi_lastTouchedHours it = h) (memory_filtered s)"
proof (intro conjI)
  show eq: "memory_sorted s = js_sort (cmp_diff mi_lastTouchedHours) (memory_filtered s)"
    unfolding memory_sorted_def by (rule js_sort_cong [OF memory_cmp_hours])
  show "mset (memory_sorted s) = mset (memory_filtered s)" by (simp add: memory_sorted_def sort_simps)
  show "sorted_wrt (\<lambda>a b. mi_lastTouchedHours a \<le> mi_lastTouchedHours b) (memory_sorted s)"
    unfolding eq using js_comparator.sorted_sort [OF cmp_diff_comparator [of mi_lastTouchedHours], of "memory_filtered s"] by simp
  let ?z = "(undefined :: memory_item)\<lparr>mi_lastTouchedHours := h\<rparr>"
  have "js_comparator.eqv (cmp_diff mi_lastTouchedHours) ?z = (\<lambda>it. mi_lastTouchedHours it = h)"
    by (intro ext) (auto simp: js_comparator.eqv_def [OF cmp_diff_comparator])
  then show "filter (\<lambda>it. mi_lastTouchedHours it = h) (memory_sorted s) = filter (\<lambda>it. mi_lastTouchedHours it = h) (memory_filtered s)"
    unfolding eq using js_comparator.stable [OF cmp_diff_comparator [of mi_lastTouchedHours], of ?z "memory_filtered s"] by simp
qed

text \<open>The number on a pill is the number of facts it shows when nothing else filters, and the numbers of a row
  add up to all facts.\<close>

lemma subject_pills:
  "subjectCounts (allItems s) f = length (memory_filtered (s\<lparr>mp_subject := f, mp_freshness := None, mp_query := []\<rparr>))"
  "(\<Sum>c \<leftarrow> map fst SUBJECT_META. subjectCounts items (Some c)) = subjectCounts items None"
proof -
  show "subjectCounts (allItems s) f = length (memory_filtered (s\<lparr>mp_subject := f, mp_freshness := None, mp_query := []\<rparr>))"
    by (cases f) (simp_all add: subjectCounts_def memory_filtered_def tally_count count_where_def js_trim_def js_trim_start_def js_toLowerCase_def Let_def)
  show "(\<Sum>c \<leftarrow> map fst SUBJECT_META. subjectCounts items (Some c)) = subjectCounts items None"
    using memory_subjects.counts_add_up [of items] by (simp add: subjectCounts_def tally_count)
qed

lemma freshness_pills:
  "freshnessCounts (allItems s) f = length (memory_filtered (s\<lparr>mp_subject := None, mp_freshness := f, mp_query := []\<rparr>))"
  "(\<Sum>c \<leftarrow> map fst FRESHNESS_META. freshnessCounts items (Some c)) = freshnessCounts items None"
proof -
  show "freshnessCounts (allItems s) f = length (memory_filtered (s\<lparr>mp_subject := None, mp_freshness := f, mp_query := []\<rparr>))"
    by (cases f) (simp_all add: freshnessCounts_def memory_filtered_def tally_count count_where_def js_trim_def js_trim_start_def js_toLowerCase_def Let_def)
  show "(\<Sum>c \<leftarrow> map fst FRESHNESS_META. freshnessCounts items (Some c)) = freshnessCounts items None"
    using memory_ages.counts_add_up [of items] by (simp add: freshnessCounts_def tally_count)
qed

section \<open>Forgetting\<close>

text \<open>Every fact is either remembered or forgotten, once; the fact of the banner is a forgotten one.\<close>

definition memory_inv :: "memory_item list \<Rightarrow> memory_page \<Rightarrow> bool" where
  "memory_inv items s \<longleftrightarrow> mset (allItems s) + mset (forgotten s) = mset items
     \<and> set_option (lastForgotten s) \<subseteq> set (forgotten s)"

lemma memory_inv_step:
  assumes "distinct (map mi_id items)" "memory_inv items s" "memory_enabled ev s"
  shows "memory_inv items (memory_exec ev s)"
proof -
  have "mset (map mi_id (allItems s @ forgotten s)) = mset (map mi_id items)"
    using assms(2) by (metis memory_inv_def mset_append mset_map)
  then have d: "distinct (map mi_id (allItems s))" "distinct (map mi_id (forgotten s))"
    using assms(1) mset_eq_imp_distinct_iff by (metis map_append distinct_append)+
  show ?thesis
  proof (cases ev)
    case (ForgetClick it)
    then have "it \<in> set (allItems s)" using assms(3)
      by (auto simp: memory_sorted_def memory_filtered_def sort_simps Let_def)
    from remove_by_key [OF d(1) this] have
      "mset (filter (\<lambda>y. mi_id y \<noteq> mi_id it) (allItems s)) + add_mset it (mset (forgotten s)) = mset items"
      using assms(2) unfolding memory_inv_def by (metis union_mset_add_mset_left union_mset_add_mset_right)
    then show ?thesis using ForgetClick by (simp add: memory_inv_def handleForget_def)
  next
    case UndoForget
    then obtain l where l: "lastForgotten s = Some l" using assms(3) by auto
    then have "l \<in> set (forgotten s)" using assms(2) by (simp add: memory_inv_def)
    from remove_by_key [OF d(2) this] have
      "add_mset l (mset (allItems s)) + mset (filter (\<lambda>y. mi_id y \<noteq> mi_id l) (forgotten s)) = mset items"
      using assms(2) unfolding memory_inv_def by (metis union_mset_add_mset_left union_mset_add_mset_right)
    then show ?thesis using UndoForget l by (simp add: memory_inv_def handleUndoForget_def)
  qed (use assms(2) in \<open>auto simp: memory_inv_def handleCorrect_def handleTag_def\<close>)
qed

text \<open>C25.
  Forgetting destroys nothing: if the facts of a workspace have distinct identifiers, then after any run of the
  page the remembered and the forgotten facts together are exactly the facts it started with, each once, and
  the fact that the banner offers to restore is a forgotten one.
\<close>

theorem forgetting_conserves:
  assumes "page_run memory_enabled memory_exec evs (memory_init items) = Some s" and "distinct (map mi_id items)"
  shows "mset (allItems s) + mset (forgotten s) = mset items \<and> set_option (lastForgotten s) \<subseteq> set (forgotten s)"
proof -
  have "memory_inv items (memory_init items)" by (simp add: memory_inv_def memory_init_def)
  from page_run_invariant [OF assms(1) this memory_inv_step [OF assms(2)]] show ?thesis by (simp add: memory_inv_def)
qed

definition demo_fact :: "jstr \<Rightarrow> rat \<Rightarrow> memory_item" where
  "demo_fact i h = \<lparr>mi_id = i, mi_subject = People, mi_subjectLabel = i, mi_fact = ''f'', mi_confidence = 90, mi_lastTouchedHours = h,
     mi_lastTouchedLabel = [], mi_verified = True, mi_evidence = [], mi_tags = []\<rparr>"

lemma forgetting_conserves_witness:
  "\<exists>s. page_run memory_enabled memory_exec [ForgetClick (demo_fact ''m1'' 2), DismissBanner, ForgetClick (demo_fact ''m2'' 1), UndoForget]
      (memory_init [demo_fact ''m1'' 2, demo_fact ''m2'' 1]) = Some s
    \<and> mset (allItems s) + mset (forgotten s) = {#demo_fact ''m1'' 2, demo_fact ''m2'' 1#}"
proof -
  let ?evs = "[ForgetClick (demo_fact ''m1'' 2), DismissBanner, ForgetClick (demo_fact ''m2'' 1), UndoForget]"
  let ?items = "[demo_fact ''m1'' 2, demo_fact ''m2'' 1]"
  have "page_run memory_enabled memory_exec ?evs (memory_init ?items) \<noteq> None" by code_simp
  then obtain s where s: "page_run memory_enabled memory_exec ?evs (memory_init ?items) = Some s" by blast
  have "distinct (map mi_id ?items)" by (simp add: demo_fact_def)
  from forgetting_conserves [OF s this] s show ?thesis by auto
qed

text \<open>Undo right after a forget restores the page up to the position of the fact, and the toast.\<close>

lemma forget_undo:
  assumes "distinct (map mi_id (allItems s))" "it \<in> set (allItems s)" "mi_id it \<notin> mi_id ` set (forgotten s)"
  shows "mset (allItems (handleUndoForget (handleForget it s))) = mset (allItems s)"
    "forgotten (handleUndoForget (handleForget it s)) = forgotten s"
  using remove_by_key [OF assms(1,2)] assms(3)
  by (auto simp: handleUndoForget_def handleForget_def filter_id_conv intro: rev_image_eqI)

text \<open>Once the banner is dismissed, or another fact is forgotten, no event of the page brings a fact back.\<close>

lemma dismissed_stays_forgotten:
  assumes "lastForgotten s = None" "x \<in> set (forgotten s)" "ev \<noteq> UndoForget"
  shows "x \<in> set (forgotten (memory_exec ev s)) \<and> memory_exec UndoForget s = s"
  using assms by (cases ev) (auto simp: handleForget_def handleUndoForget_def handleCorrect_def handleTag_def)

section \<open>The toast\<close>

definition memory_toast_ms :: nat where
  "memory_toast_ms = 2200"

text \<open>The toast is a text, so that setting it to the text it has changes nothing.\<close>

interpretation memory_toast: timed_toast memory_toast_ms "\<lambda>t. t = []" mp_toast memory_enabled memory_exec MemoryToastGone "\<lambda>v. v = MemoryToastGone" "\<lambda>v s. False"
  by unfold_locales simp

section \<open>The search shortcut\<close>

text \<open>Ctrl-K or Command-K puts the cursor in the search field, in either case of the letter.\<close>

definition memory_shortcut :: "bool \<Rightarrow> bool \<Rightarrow> jstr \<Rightarrow> bool" where
  "memory_shortcut metaKey ctrlKey key \<longleftrightarrow> (metaKey \<or> ctrlKey) \<and> js_toLowerCase key = ''k''"

end
