(* ===== verification/Research_Page.thy ===== *)
theory Research_Page
  imports Js_Number Drawer_Effects
begin

text \<open>
  The Research page (\<open>apps/web/src/pages/v2/Research.tsx\<close>, wire types of \<open>_mocks/research.ts\<close>): findings with
  their sources, the featured finding, the topic and confidence filters, the three orders, the drawer with
  conflicting sources pinned to the top, and the suggested actions.  Numbers are exact rationals.  Class
  names, icons and layout are not modelled.
\<close>

section \<open>Wire types\<close>

datatype topic = TPricing | TApi | TSupplier | TIndustry | TInternal

datatype impact = ImLow | ImMedium | ImHigh

datatype research_action = ApplyFinding | MarkReviewed | DiscussStandup

datatype source_kind = SkReleaseNotes | SkIndex | SkAlert | SkPaper | SkDigest | SkFiling | SkBlog

datatype agreement = Agrees | Conflicts | AgNeutral

record source_snippet =
  so_id :: jstr
  so_name :: jstr
  so_url :: jstr
  so_kind :: source_kind
  so_publishedAt :: jstr
  so_snippet :: jstr
  so_agreement :: agreement

record classifier_trace =
  ct_name :: jstr
  ct_rule :: jstr
  ct_confidence :: rat

record research_finding =
  rf_id :: jstr
  rf_title :: jstr
  rf_summary :: jstr
  rf_topic :: topic
  rf_impact :: impact
  rf_confidence :: rat
  rf_freshness :: jstr
  rf_freshnessMinutes :: rat
  rf_primarySource :: jstr
  rf_sources :: "source_snippet list"
  rf_contradictionCount :: nat
  rf_classifier :: classifier_trace
  rf_suggestedAction :: research_action
  rf_featured :: "bool option"

section \<open>Tables and texts\<close>

datatype research_tone = RtSafe | RtWarning | RtBlocked | RtRecovered | RtQuarantined | RtAccent | RtNeutral

definition confidenceTone :: "rat \<Rightarrow> research_tone" where
  "confidenceTone c = (if c \<ge> 85 then RtSafe else if c \<ge> 70 then RtWarning else RtBlocked)"

primrec impactRank :: "impact \<Rightarrow> rat" where
  "impactRank ImLow = 1"
| "impactRank ImMedium = 2"
| "impactRank ImHigh = 3"

primrec IMPACT_TONE :: "impact \<Rightarrow> research_tone" where
  "IMPACT_TONE ImLow = RtNeutral"
| "IMPACT_TONE ImMedium = RtWarning"
| "IMPACT_TONE ImHigh = RtBlocked"

primrec AGREEMENT_TONE :: "agreement \<Rightarrow> research_tone" where
  "AGREEMENT_TONE Agrees = RtSafe"
| "AGREEMENT_TONE Conflicts = RtWarning"
| "AGREEMENT_TONE AgNeutral = RtNeutral"

definition TOPIC_META :: "(topic \<times> jstr \<times> research_tone) list" where
  "TOPIC_META = [(TPricing, ''Pricing'', RtAccent), (TApi, ''API changes'', RtRecovered), (TSupplier, ''Supplier risk'', RtWarning),
     (TIndustry, ''Industry'', RtQuarantined), (TInternal, ''Internal'', RtNeutral)]"

primrec IMPACT_META :: "impact \<Rightarrow> jstr" where
  "IMPACT_META ImLow = ''Low impact''"
| "IMPACT_META ImMedium = ''Medium impact''"
| "IMPACT_META ImHigh = ''High impact''"

primrec ACTION_META :: "research_action \<Rightarrow> jstr" where
  "ACTION_META ApplyFinding = ''Apply finding''"
| "ACTION_META MarkReviewed = ''Mark reviewed''"
| "ACTION_META DiscussStandup = ''Discuss in standup''"

primrec KIND_META :: "source_kind \<Rightarrow> jstr" where
  "KIND_META SkReleaseNotes = ''Release notes''"
| "KIND_META SkIndex = ''Index''"
| "KIND_META SkAlert = ''Alert''"
| "KIND_META SkPaper = ''Paper''"
| "KIND_META SkDigest = ''Digest''"
| "KIND_META SkFiling = ''Filing''"
| "KIND_META SkBlog = ''Blog''"

text \<open>The width of the confidence bar, in percent, and the badges.\<close>

definition bar_width :: "rat \<Rightarrow> rat" where
  "bar_width v = max 2 (min 100 v)"

definition contradiction_text :: "nat \<Rightarrow> jstr option" where
  "contradiction_text n = (if n = 0 then None
     else Some (nat_str n @ '' conflicting source'' @ (if n = 1 then [] else ''s'')))"

definition trace_percent :: "classifier_trace \<Rightarrow> int" where
  "trace_percent t = js_round (ct_confidence t * 100)"

definition ordered :: "research_finding \<Rightarrow> source_snippet list" where
  "ordered f = filter (\<lambda>s. so_agreement s = Conflicts) (rf_sources f) @ filter (\<lambda>s. so_agreement s \<noteq> Conflicts) (rf_sources f)"

section \<open>The page\<close>

datatype sort_key = SortRecent | SortImpact | SortConfidence

definition sort_opts :: "(sort_key \<times> jstr) list" where
  "sort_opts = [(SortRecent, ''Most recent''), (SortImpact, ''Highest impact''), (SortConfidence, ''Highest confidence'')]"

text \<open>A topic of \<^const>\<open>None\<close> is \<open>all\<close>.\<close>

record research_page =
  rs_findings :: "research_finding list"
  rs_sort :: sort_key
  rs_topic :: "topic option"
  rs_hideLow :: bool
  rs_openId :: "jstr option"
  rs_toast :: "jstr option"

definition research_init :: "research_finding list \<Rightarrow> research_page" where
  "research_init fs = \<lparr>rs_findings = fs, rs_sort = SortRecent, rs_topic = None, rs_hideLow = False, rs_openId = None, rs_toast = None\<rparr>"

definition research_counts :: "research_finding list \<Rightarrow> topic option \<Rightarrow> nat" where
  "research_counts fs t = (case t of None \<Rightarrow> length fs | Some c \<Rightarrow> tally rf_topic fs (\<lambda>_. 0) c)"

definition featured_cmp :: "research_finding \<Rightarrow> research_finding \<Rightarrow> int" where
  "featured_cmp a b =
     (let i = js_sign (impactRank (rf_impact b) - impactRank (rf_impact a))
      in if i \<noteq> 0 then i else js_sign (rf_freshnessMinutes a - rf_freshnessMinutes b))"

definition featured :: "research_page \<Rightarrow> research_finding option" where
  "featured s = (case js_sort featured_cmp (rs_findings s) of [] \<Rightarrow> None | f # _ \<Rightarrow> Some f)"

definition rest :: "research_page \<Rightarrow> research_finding list" where
  "rest s =
     (let out = filter (\<lambda>f. Some (rf_id f) \<noteq> map_option rf_id (featured s)) (rs_findings s)
      in case rs_topic s of None \<Rightarrow> out | Some t \<Rightarrow> filter (\<lambda>f. rf_topic f = t) out)"

primrec research_cmp :: "sort_key \<Rightarrow> research_finding \<Rightarrow> research_finding \<Rightarrow> int" where
  "research_cmp SortRecent a b = js_sign (rf_freshnessMinutes a - rf_freshnessMinutes b)"
| "research_cmp SortImpact a b = js_sign (impactRank (rf_impact b) - impactRank (rf_impact a))"
| "research_cmp SortConfidence a b = js_sign (rf_confidence b - rf_confidence a)"

definition research_filtered :: "research_page \<Rightarrow> research_finding list" where
  "research_filtered s = js_sort (research_cmp (rs_sort s))
     (if rs_hideLow s then filter (\<lambda>f. rf_confidence f \<ge> 70) (rest s) else rest s)"

definition showFeatured :: "research_page \<Rightarrow> research_finding option" where
  "showFeatured s = (case featured s of None \<Rightarrow> None
     | Some f \<Rightarrow> if rs_topic s = None \<and> (\<not> rs_hideLow s \<or> rf_confidence f \<ge> 70) then Some f else None)"

definition totalShown :: "research_page \<Rightarrow> nat" where
  "totalShown s = length (research_filtered s) + (if showFeatured s = None then 0 else 1)"

text \<open>What is on the page: the featured card, then the grid.\<close>

definition research_cards :: "research_page \<Rightarrow> research_finding list" where
  "research_cards s = (case showFeatured s of None \<Rightarrow> [] | Some f \<Rightarrow> [f]) @ research_filtered s"

definition research_opened :: "research_page \<Rightarrow> research_finding option" where
  "research_opened s = find (\<lambda>f. Some (rf_id f) = rs_openId s) (rs_findings s)"

definition act_text :: "research_finding \<Rightarrow> jstr" where
  "act_text f = ACTION_META (rf_suggestedAction f) @ '' '' @ u_middot @ '' '' @ take 56 (rf_title f)
     @ (if length (rf_title f) > 56 then u_hellip else [])"

definition handleAct :: "research_finding \<Rightarrow> research_page \<Rightarrow> research_page" where
  "handleAct f s = s\<lparr>rs_toast := Some (act_text f)\<rparr>"

datatype research_event =
    PickSort sort_key | PickTopic "topic option" | HideLow bool | WhyClick research_finding | ActClick research_finding
  | CloseFinding | ResearchToastGone

fun research_enabled :: "research_event \<Rightarrow> research_page \<Rightarrow> bool" where
  "research_enabled (WhyClick f) s = (f \<in> set (research_cards s))"
| "research_enabled (ActClick f) s = (f \<in> set (research_cards s))"
| "research_enabled CloseFinding s = (research_opened s \<noteq> None)"
| "research_enabled ResearchToastGone s = (rs_toast s \<noteq> None)"
| "research_enabled _ s = True"

fun research_exec :: "research_event \<Rightarrow> research_page \<Rightarrow> research_page" where
  "research_exec (PickSort k) s = s\<lparr>rs_sort := k\<rparr>"
| "research_exec (PickTopic t) s = s\<lparr>rs_topic := t\<rparr>"
| "research_exec (HideLow v) s = s\<lparr>rs_hideLow := v\<rparr>"
| "research_exec (WhyClick f) s = s\<lparr>rs_openId := Some (rf_id f)\<rparr>"
| "research_exec (ActClick f) s = handleAct f s"
| "research_exec CloseFinding s = s\<lparr>rs_openId := None\<rparr>"
| "research_exec ResearchToastGone s = s\<lparr>rs_toast := None\<rparr>"

section \<open>What is shown\<close>

lemma featured_cmp_eq:
  "featured_cmp = cmp_then (cmp_diff (\<lambda>f. - impactRank (rf_impact f))) (cmp_diff rf_freshnessMinutes)"
  by (intro ext) (simp add: featured_cmp_def cmp_then_def cmp_diff_def Let_def)

lemma featured_cmp_comparator: "js_comparator featured_cmp"
  unfolding featured_cmp_eq by (intro cmp_then_comparator cmp_diff_comparator)

lemma research_cmp_eq:
  "research_cmp k = cmp_diff (case k of SortRecent \<Rightarrow> rf_freshnessMinutes | SortImpact \<Rightarrow> \<lambda>f. - impactRank (rf_impact f)
     | SortConfidence \<Rightarrow> \<lambda>f. - rf_confidence f)"
  by (intro ext) (cases k; simp add: cmp_diff_def)

lemma featured_best:
  assumes "featured s = Some f"
  shows "f \<in> set (rs_findings s)"
    and "g \<in> set (rs_findings s) \<Longrightarrow> impactRank (rf_impact g) < impactRank (rf_impact f)
      \<or> impactRank (rf_impact g) = impactRank (rf_impact f) \<and> rf_freshnessMinutes f \<le> rf_freshnessMinutes g"
proof -
  obtain r where r: "js_sort featured_cmp (rs_findings s) = f # r"
    using assms by (auto simp: featured_def split: list.splits)
  note hd = js_sort_hd [OF featured_cmp_comparator r]
  show "f \<in> set (rs_findings s)" by (rule hd(1))
  show "impactRank (rf_impact g) < impactRank (rf_impact f)
      \<or> impactRank (rf_impact g) = impactRank (rf_impact f) \<and> rf_freshnessMinutes f \<le> rf_freshnessMinutes g"
    if "g \<in> set (rs_findings s)" using hd(2) [OF that] by (auto simp: featured_cmp_eq cmp_then_le)
qed

definition passes :: "research_page \<Rightarrow> research_finding \<Rightarrow> bool" where
  "passes s f \<longleftrightarrow> (\<forall>t \<in> set_option (rs_topic s). rf_topic f = t) \<and> (rs_hideLow s \<longrightarrow> rf_confidence f \<ge> 70)"

lemma mset_filtered:
  "mset (research_filtered s)
   = filter_mset (passes s) (filter_mset (\<lambda>f. Some (rf_id f) \<noteq> map_option rf_id (featured s)) (mset (rs_findings s)))"
proof -
  have "(if rs_hideLow s then filter (\<lambda>f. rf_confidence f \<ge> 70) (rest s) else rest s)
      = filter (passes s) (filter (\<lambda>f. Some (rf_id f) \<noteq> map_option rf_id (featured s)) (rs_findings s))"
    by (cases "rs_topic s") (auto simp: rest_def passes_def Let_def conj_commute intro!: filter_cong)
  then show ?thesis by (simp add: research_filtered_def sort_simps flip: mset_filter)
qed

text \<open>The cards of the Research page, if findings have distinct identifiers: with all topics shown they are exactly the
  findings that pass the confidence filter, each once, in whatever order is chosen; the featured finding comes
  first, no finding has more impact and none of the same impact is fresher.  With a topic chosen they are the
  findings of that topic that pass the filter, less the featured one.
\<close>

lemma research_cards_complete:
  assumes "distinct (map rf_id (rs_findings s))" and "featured s = Some f"
  shows "mset (research_cards s) = filter_mset (\<lambda>g. passes s g \<and> (rs_topic s = None \<or> g \<noteq> f)) (mset (rs_findings s))
    \<and> totalShown s = length (research_cards s)
    \<and> (\<forall>g \<in> set (rs_findings s). impactRank (rf_impact g) < impactRank (rf_impact f)
        \<or> impactRank (rf_impact g) = impactRank (rf_impact f) \<and> rf_freshnessMinutes f \<le> rf_freshnessMinutes g)"
proof (intro conjI ballI)
  let ?M = "mset (rs_findings s)" and ?others = "filter_mset (\<lambda>g. rf_id g \<noteq> rf_id f) (mset (rs_findings s))"
  have f: "f \<in> set (rs_findings s)" using featured_best(1) [OF assms(2)] .
  have M: "?M = add_mset f ?others" using remove_by_key [OF assms(1) f] by simp
  have only: "g = f \<longleftrightarrow> rf_id g = rf_id f" if "g \<in># ?M" for g
    using assms(1) f that by (metis distinct_map inj_onD set_mset_mset)
  have rest: "mset (research_filtered s) = filter_mset (passes s) ?others"
    by (simp add: mset_filtered assms(2))
  show "mset (research_cards s) = filter_mset (\<lambda>g. passes s g \<and> (rs_topic s = None \<or> g \<noteq> f)) ?M"
  proof (cases "rs_topic s")
    case None
    have "filter_mset (passes s) ?M = (if passes s f then {#f#} else {#}) + filter_mset (passes s) ?others"
      by (subst M) simp
    moreover have "showFeatured s = (if passes s f then Some f else None)"
      using None assms(2) by (simp add: showFeatured_def passes_def)
    ultimately show ?thesis using None rest by (simp add: research_cards_def)
  next
    case (Some t)
    have "filter_mset (\<lambda>g. passes s g \<and> g \<noteq> f) ?M = filter_mset (passes s) ?others"
      unfolding filter_filter_mset by (rule filter_mset_cong) (auto simp: only)
    then show ?thesis using Some rest assms(2) by (simp add: research_cards_def showFeatured_def)
  qed
  show "totalShown s = length (research_cards s)" by (simp add: totalShown_def research_cards_def split: option.splits)
qed (use featured_best(2) [OF assms(2)] in blast)

definition demo_rf :: "jstr \<Rightarrow> topic \<Rightarrow> impact \<Rightarrow> rat \<Rightarrow> rat \<Rightarrow> research_finding" where
  "demo_rf i t im c fm = \<lparr>rf_id = i, rf_title = i, rf_summary = [], rf_topic = t, rf_impact = im, rf_confidence = c,
     rf_freshness = [], rf_freshnessMinutes = fm, rf_primarySource = [], rf_sources = [], rf_contradictionCount = 0,
     rf_classifier = \<lparr>ct_name = [], ct_rule = [], ct_confidence = 1\<rparr>, rf_suggestedAction = MarkReviewed, rf_featured = None\<rparr>"

definition demo_research :: research_page where
  "demo_research = research_init [demo_rf ''a'' TApi ImLow 60 5, demo_rf ''b'' TPricing ImHigh 90 9, demo_rf ''c'' TPricing ImHigh 80 20]"

lemma demo_featured: "featured demo_research = Some (demo_rf ''b'' TPricing ImHigh 90 9)"
  by code_simp

lemma research_cards_complete_witness:
  "mset (research_cards demo_research) = mset (rs_findings demo_research)"
proof -
  have "distinct (map rf_id (rs_findings demo_research))" by (simp add: demo_research_def research_init_def demo_rf_def)
  from research_cards_complete [OF this demo_featured] show ?thesis
    by (simp add: demo_research_def research_init_def passes_def)
qed

text \<open>The number on a topic is that of all its findings; the page then hides the featured one.\<close>

interpretation research_topics: category_filter rf_topic "map fst TOPIC_META"
proof
  show "distinct (map fst TOPIC_META)" by (simp add: TOPIC_META_def)
  show "rf_topic x \<in> set (map fst TOPIC_META)" for x by (cases "rf_topic x") (simp_all add: TOPIC_META_def)
qed

lemma research_counts_eq:
  "research_counts fs (Some c) = length (filter (\<lambda>f. rf_topic f = c) fs)"
  "(\<Sum>c \<leftarrow> map fst TOPIC_META. research_counts fs (Some c)) = research_counts fs None"
  using research_topics.counts_add_up [of fs]
  by (simp_all add: research_counts_def tally_count) (simp add: count_where_def)

lemma featured_hidden_by_its_topic:
  "research_counts (rs_findings demo_research) (Some TPricing) = 2"
  "map rf_id (research_cards (demo_research\<lparr>rs_topic := Some TPricing\<rparr>)) = [''c'']"
  by code_simp+

text \<open>Each order is a stable sort by its own key.\<close>

lemma research_sorted:
  "sorted_wrt (\<lambda>a b. research_cmp (rs_sort s) a b \<le> 0) (research_filtered s)"
  unfolding research_filtered_def by (rule js_comparator.sorted_sort) (simp add: research_cmp_eq cmp_diff_comparator)

section \<open>The drawer\<close>

text \<open>
  The evidence in the drawer is the sources of the finding rearranged so that every conflicting source stands before
  every other one, and otherwise in the order given: pinning is the stable sort by whether a source conflicts.
\<close>

theorem conflicts_pinned:
  "ordered f = js_sort (cmp_key (\<lambda>s. if so_agreement s = Conflicts then 0 else 1)) (rf_sources f)
   \<and> mset (ordered f) = mset (rf_sources f)
   \<and> take (count_where (\<lambda>s. so_agreement s = Conflicts) (rf_sources f)) (ordered f)
     = filter (\<lambda>s. so_agreement s = Conflicts) (rf_sources f)"
proof (intro conjI)
  show eq: "ordered f = js_sort (cmp_key (\<lambda>s. if so_agreement s = Conflicts then 0 else 1)) (rf_sources f)"
    by (simp add: ordered_def front_sort)
  show "mset (ordered f) = mset (rf_sources f)" by (simp only: eq mset_js_sort)
qed (simp add: ordered_def count_where_def)

text \<open>The bar is never empty and never overflows; the texts are at most 56 characters of the title.\<close>

lemma bar_width_bounds: "2 \<le> bar_width v \<and> bar_width v \<le> 100"
  by (simp add: bar_width_def)

text \<open>Findings never change, and an open drawer stays open while filters hide its card.\<close>

lemma findings_fixed: "rs_findings (fold research_exec evs s) = rs_findings s"
proof (induction evs arbitrary: s)
  case (Cons ev evs)
  then show ?case by (cases ev) (simp_all add: handleAct_def)
qed simp

section \<open>The toast\<close>

definition research_toast_ms :: nat where
  "research_toast_ms = 2200"

text \<open>The toast is a text, so that setting it to the text it has changes nothing.\<close>

interpretation research_toast: timed_toast research_toast_ms "\<lambda>t. t = []" rs_toast research_enabled research_exec ResearchToastGone "\<lambda>v. v = ResearchToastGone" "\<lambda>v s. False"
  by unfold_locales simp

section \<open>The page behind the drawer\<close>

definition research_inv :: "research_page \<Rightarrow> bool" where
  "research_inv s \<longleftrightarrow> [] \<notin> rf_id ` set (rs_findings s) \<and> set_option (rs_openId s) \<subseteq> rf_id ` set (rs_findings s)"

lemma research_opened_iff: "research_opened s \<noteq> None \<longleftrightarrow> (\<exists>i. rs_openId s = Some i \<and> i \<in> rf_id ` set (rs_findings s))"
  by (cases "rs_openId s") (auto simp: research_opened_def find_None_iff)

lemma cards_are_findings: "set (research_cards s) \<subseteq> set (rs_findings s)"
proof -
  have "set_mset (mset (research_filtered s)) \<subseteq> set (rs_findings s)" unfolding mset_filtered by auto
  then have "set (research_filtered s) \<subseteq> set (rs_findings s)" by simp
  then show ?thesis using featured_best(1) [of s] by (auto simp: research_cards_def showFeatured_def split: option.splits if_splits)
qed

lemma research_inv_exec: "research_inv s \<Longrightarrow> research_enabled ev s \<Longrightarrow> research_inv (research_exec ev s)"
  using cards_are_findings by (cases ev) (auto simp: research_inv_def handleAct_def)

interpretation research_drawer: drawer_page "lock_always id_truthy" id_truthy rs_openId "\<lambda>s. research_opened s \<noteq> None"
  research_enabled research_exec CloseFinding "\<lambda>v. False" research_inv
proof
  show "key_listeners (snd (lock_always id_truthy d w)) = key_listeners w" for d w by (simp add: lock_always_def)
  show "research_inv (research_exec v p)" if "research_inv p" "research_enabled v p" for v p using that by (rule research_inv_exec)
  show "research_inv (research_exec CloseFinding p)" if "research_inv p" for p using that by (simp add: research_inv_def)
  show "id_truthy (rs_openId p) = (research_opened p \<noteq> None)" if "research_inv p" for p
    using that unfolding research_opened_iff by (auto simp: research_inv_def id_truthy_def)
  show "\<not> research_opened (research_exec CloseFinding p) \<noteq> None" for p by (simp add: research_opened_def find_None_iff)
qed

end
