(* ===== verification/Audit_Page.thy ===== *)
theory Audit_Page
  imports Route_Data Api_Client
begin

text \<open>
  The Audit page (\<open>apps/web/src/pages/v2/Audit.tsx\<close>, wire types of \<open>_mocks/audit.ts\<close>): the findings of the
  gateway's probes, their severity filter with its counters, the evidence of a finding, and the page over the
  envelope of \<open>Route_Data\<close>, with its skeleton, error and list.  The loader has no dependencies, so the envelope is
  never told that they changed.  Class names and layout are not modelled, nor is the date of a finding, which
  is printed in the user's locale.
\<close>

datatype audit_severity = SevInfo | SevWarning | SevCritical

record audit_finding =
  af_id :: jstr
  af_probe_id :: jstr
  af_severity :: audit_severity
  af_reason :: jstr
  af_evidence :: "(jstr \<times> json) list option"
  af_timestamp :: jstr
  af_stored_at :: jstr

definition SEVERITY_FILTERS :: "audit_severity list" where
  "SEVERITY_FILTERS = [SevInfo, SevWarning, SevCritical]"

primrec severity_value :: "audit_severity \<Rightarrow> jstr" where
  "severity_value SevInfo = ''info''"
| "severity_value SevWarning = ''warning''"
| "severity_value SevCritical = ''critical''"

definition PROBE_LABEL :: "(jstr \<times> jstr) list" where
  "PROBE_LABEL = [(''workspace_skill_escape'', ''Workspace skill escape''), (''trust_model'', ''Trust model''),
     (''channel_dm_policy'', ''Channel DM policy''), (''connector_health_drift'', ''Connector health drift'')]"

definition tab_label :: "audit_severity option \<Rightarrow> jstr" where
  "tab_label f = (case f of None \<Rightarrow> ''All''
     | Some s \<Rightarrow> (case severity_value s of [] \<Rightarrow> [] | c # r \<Rightarrow> js_toUpperCase [c] @ r))"

section \<open>A finding\<close>

definition evidenceEntries :: "audit_finding \<Rightarrow> (jstr \<times> json) list" where
  "evidenceEntries f = (case af_evidence f of None \<Rightarrow> [] | Some es \<Rightarrow> es)"

definition probeLabel :: "audit_finding \<Rightarrow> jstr" where
  "probeLabel f = (case map_of PROBE_LABEL (af_probe_id f) of None \<Rightarrow> af_probe_id f | Some l \<Rightarrow> l)"

definition evidence_button :: "bool \<Rightarrow> audit_finding \<Rightarrow> jstr option" where
  "evidence_button expanded f = (if evidenceEntries f = [] then None
     else Some (if expanded then ''Hide evidence'' else ''Show '' @ nat_str (length (evidenceEntries f)) @ '' evidence keys''))"

definition evidence_rows :: "bool \<Rightarrow> audit_finding \<Rightarrow> (jstr \<times> jstr) list" where
  "evidence_rows expanded f = (if expanded
     then map (\<lambda>(k, v). (k, case v of JStr t \<Rightarrow> t | _ \<Rightarrow> stringify v)) (evidenceEntries f) else [])"

section \<open>The page\<close>

text \<open>A filter of \<^const>\<open>None\<close> is \<open>all\<close>.\<close>

record audit_page =
  aload :: "(audit_finding list, api_failure) route_data"
  afilter :: "audit_severity option"
  aexpanded :: "jstr option"

definition audit_init :: "audit_finding list \<Rightarrow> audit_page" where
  "audit_init mock = \<lparr>aload = rd_init (Some mock), afilter = None, aexpanded = None\<rparr>"

definition audit_items :: "audit_page \<Rightarrow> audit_finding list" where
  "audit_items s = (case rd_data (aload s) of None \<Rightarrow> [] | Some fs \<Rightarrow> fs)"

definition audit_visible :: "audit_severity option \<Rightarrow> audit_finding list \<Rightarrow> audit_finding list" where
  "audit_visible f its = (case f of None \<Rightarrow> its | Some s \<Rightarrow> filter (\<lambda>x. af_severity x = s) its)"

definition audit_page_counts :: "audit_finding list \<Rightarrow> audit_severity option \<Rightarrow> nat" where
  "audit_page_counts its f = (case f of None \<Rightarrow> length its | Some s \<Rightarrow> count_where (\<lambda>x. af_severity x = s) its)"

datatype audit_view = AuditSkeleton | AuditError "api_failure option" | AuditList "audit_finding list"

definition audit_view_of :: "audit_page \<Rightarrow> audit_view" where
  "audit_view_of s =
     (if rd_status (aload s) = Loading \<and> rd_data (aload s) = None then AuditSkeleton
      else if rd_status (aload s) = Error then AuditError (rd_error (aload s))
      else AuditList (audit_visible (afilter s) (audit_items s)))"

definition toggle_finding :: "jstr \<Rightarrow> audit_page \<Rightarrow> audit_page" where
  "toggle_finding i s = s\<lparr>aexpanded := (if aexpanded s = Some i then None else Some i)\<rparr>"

datatype audit_event = Envelope "(audit_finding list, api_failure) rd_event" | PickSeverity "audit_severity option" | ToggleEvidence jstr

fun audit_enabled :: "audit_event \<Rightarrow> audit_page \<Rightarrow> bool" where
  "audit_enabled (Envelope ev) s =
     (rd_enabled ev (aload s) \<and> ev \<noteq> DepsChanged \<and> (ev = Reload \<longrightarrow> rd_status (aload s) = Error))"
| "audit_enabled (PickSeverity f) s = (case audit_view_of s of AuditList fs \<Rightarrow> True | _ \<Rightarrow> False)"
| "audit_enabled (ToggleEvidence i) s =
     (case audit_view_of s of AuditList fs \<Rightarrow> list_ex (\<lambda>f. af_id f = i \<and> evidenceEntries f \<noteq> []) fs | _ \<Rightarrow> False)"

fun audit_exec :: "audit_event \<Rightarrow> audit_page \<Rightarrow> audit_page" where
  "audit_exec (Envelope ev) s = s\<lparr>aload := rd_exec ev (aload s)\<rparr>"
| "audit_exec (PickSeverity f) s = s\<lparr>afilter := f\<rparr>"
| "audit_exec (ToggleEvidence i) s = toggle_finding i s"

inductive audit_reach :: "audit_finding list \<Rightarrow> audit_page \<Rightarrow> bool" for mock where
  start: "audit_reach mock (audit_init mock)"
| step: "audit_reach mock s \<Longrightarrow> audit_enabled ev s \<Longrightarrow> audit_reach mock (audit_exec ev s)"

section \<open>Severities\<close>

interpretation severities: category_filter af_severity SEVERITY_FILTERS
proof
  show "distinct SEVERITY_FILTERS" by (simp add: SEVERITY_FILTERS_def)
  show "af_severity x \<in> set SEVERITY_FILTERS" for x by (cases "af_severity x") (simp_all add: SEVERITY_FILTERS_def)
qed

lemma severity_tabs:
  "audit_page_counts its f = length (audit_visible f its)"
  "mset (concat (map (\<lambda>s. audit_visible (Some s) its) SEVERITY_FILTERS)) = mset (audit_visible None its)"
  using severities.views_partition [of its]
  by (auto simp: audit_page_counts_def audit_visible_def count_where_def split: option.splits)

section \<open>Recovery\<close>

lemma reach_inv: "audit_reach mock s \<Longrightarrow> rd_inv (aload s)"
proof (induction rule: audit_reach.induct)
  case start
  then show ?case by (simp add: audit_init_def rd_inv_init)
next
  case (step s ev)
  then show ?case by (cases ev) (simp_all add: rd_inv_exec toggle_finding_def)
qed

lemma reach_data: "audit_reach mock s \<Longrightarrow> rd_data (aload s) \<noteq> None"
proof (induction rule: audit_reach.induct)
  case start
  then show ?case by (simp add: audit_init_def rd_init_def)
next
  case (step s ev)
  show ?case
  proof (cases ev)
    case (Envelope e)
    then show ?thesis using step.IH by (cases e) (simp_all add: rd_op_defs)
  qed (use step.IH in \<open>simp_all add: toggle_finding_def\<close>)
qed

text \<open>The events that leave the request \<open>n\<close> waiting: the settling of other requests and the user's filter and
  evidence clicks.\<close>

definition leaves_waiting :: "nat \<Rightarrow> audit_event \<Rightarrow> bool" where
  "leaves_waiting n ev = (case ev of Envelope (Resolved k v) \<Rightarrow> k \<noteq> n | Envelope (Rejected k e) \<Rightarrow> k \<noteq> n | Envelope e \<Rightarrow> False | _ \<Rightarrow> True)"

lemma waiting_step:
  assumes "leaves_waiting n ev" "invocationRef (aload s) = n" "n \<in> set (pending (aload s))"
  shows "invocationRef (aload (audit_exec ev s)) = n \<and> n \<in> set (pending (aload (audit_exec ev s)))
    \<and> rd_status (aload (audit_exec ev s)) = rd_status (aload s)"
  using assms by (cases ev) (auto simp: leaves_waiting_def rd_op_defs toggle_finding_def split: rd_event.splits)

lemma waiting_run:
  assumes "page_run audit_enabled audit_exec evs s = Some t" "list_all (leaves_waiting n) evs"
    "invocationRef (aload s) = n" "n \<in> set (pending (aload s))"
  shows "invocationRef (aload t) = n \<and> n \<in> set (pending (aload t)) \<and> rd_status (aload t) = rd_status (aload s)"
  using assms
proof (induction evs arbitrary: s)
  case (Cons ev evs)
  then have "page_run audit_enabled audit_exec evs (audit_exec ev s) = Some t" by (auto split: if_splits)
  with Cons waiting_step [of n ev s] show ?case by auto
qed simp

text \<open>C10.
  The page recovers from every failure: in any state it can reach in which the error is shown, the retry button
  sends a request; while that request is waiting the page never falls back to the error, whatever older
  responses arrive and whatever the user clicks in the meantime; its answer can always arrive, and when it
  does with findings, the page shows exactly those findings, under the filter the user has chosen.
\<close>

theorem audit_recovers:
  assumes "audit_reach mock s" and "rd_status (aload s) = Error" and "n = Suc (invocationRef (aload s))"
    and "page_run audit_enabled audit_exec evs (audit_exec (Envelope Reload) s) = Some t" and "list_all (leaves_waiting n) evs"
  shows "audit_enabled (Envelope Reload) s \<and> (\<forall>e. audit_view_of t \<noteq> AuditError e)
    \<and> audit_enabled (Envelope (Resolved n fs)) t
    \<and> audit_view_of (audit_exec (Envelope (Resolved n fs)) t) = AuditList (audit_visible (afilter t) fs)"
proof -
  let ?r = "audit_exec (Envelope Reload) s"
  have r: "invocationRef (aload ?r) = n" "n \<in> set (pending (aload ?r))" "rd_status (aload ?r) = Loading"
    using assms(2,3) by (simp_all add: rd_op_defs)
  from waiting_run [OF assms(4,5) r(1,2)] r(3)
  have t: "invocationRef (aload t) = n" "n \<in> set (pending (aload t))" "rd_status (aload t) = Loading" by auto
  then show ?thesis using assms(2) by (auto simp: audit_view_of_def audit_items_def rd_op_defs)
qed

lemma audit_recovers_witness:
  "audit_view_of (audit_exec (Envelope (Resolved 2 [])) (audit_exec (Envelope Reload)
     (audit_exec (Envelope (Rejected 1 BodyNotJson)) (audit_exec (Envelope Mount) (audit_init []))))) = AuditList []"
proof -
  let ?m = "audit_exec (Envelope Mount) (audit_init [])"
  let ?s = "audit_exec (Envelope (Rejected 1 BodyNotJson)) ?m"
  have m: "audit_reach [] ?m" by (rule audit_reach.step [OF audit_reach.start]) (simp add: audit_init_def rd_init_def)
  have s: "audit_reach [] ?s"
    by (rule audit_reach.step [OF m]) (simp add: audit_init_def rd_init_def rd_op_defs)
  have e: "rd_status (aload ?s) = Error" and n: "2 = Suc (invocationRef (aload ?s))"
    by (simp_all add: audit_init_def rd_init_def rd_op_defs)
  let ?r = "audit_exec (Envelope Reload) ?s"
  have "audit_view_of (audit_exec (Envelope (Resolved 2 [])) ?r) = AuditList (audit_visible (afilter ?r) [])"
    using audit_recovers [OF s e n, of "[]" ?r "[]"] by fastforce
  also have "afilter ?r = None" by (simp add: audit_init_def)
  finally show ?thesis by (simp add: audit_visible_def)
qed

text \<open>The page always has data, the mock to begin with: its skeleton is never shown, and while a retry is waiting
  the list shows the findings it had before, which may be the mock.\<close>

lemma never_skeleton: "audit_reach mock s \<Longrightarrow> audit_view_of s \<noteq> AuditSkeleton"
  using reach_data [of mock s] by (auto simp: audit_view_of_def)

lemma retry_shows_mock:
  "audit_view_of (audit_exec (Envelope Reload) (audit_exec (Envelope (Rejected 1 BodyNotJson))
     (audit_exec (Envelope Mount) (audit_init mock)))) = AuditList mock"
  by (simp add: audit_init_def rd_init_def rd_op_defs audit_view_of_def audit_visible_def audit_items_def)

end
