(* ===== verification/Plugin_Registry.thy ===== *)
theory Plugin_Registry
  imports Plugin_Types
begin

text \<open>
  The plugin registry (\<open>packages/plugin-sdk/src/registry.ts\<close>): manifest validation, the workspace
  policy checkers, and the registry with its lifecycle operations.

  Records are objects that \<open>activate\<close> and \<open>deactivate\<close> keep a reference to across an \<open>await\<close>, so the
  registry state has an object store (\<open>recs\<close>, a record per reference) and the two maps of the class;
  an asynchronous operation is split at its \<open>await\<close> into a start and a resumption, and the calls
  that are suspended are part of the state.  Any other operation may run in between.  The grants and the
  manifests come from the host: a grant has its list of actions, and a manifest is not changed once it is registered.
\<close>

section \<open>Manifest validation\<close>

datatype js_exn =
    PluginValidationError jstr "jstr list"
  | PlainError jstr
  | TypeErr
  | PluginThrew thrown

definition drop_digits1 :: "jstr \<Rightarrow> jstr option" where
  "drop_digits1 s = (case s of [] \<Rightarrow> None | c # cs \<Rightarrow> if is_digit c then Some (dropWhile is_digit cs) else None)"

definition drop_dot :: "jstr \<Rightarrow> jstr option" where
  "drop_dot s = (case s of [] \<Rightarrow> None | c # cs \<Rightarrow> if c = CHR ''.'' then Some cs else None)"

text \<open>\<open>/^\d+\.\d+\.\d+/.test(v)\<close>: a digit is never a dot, so matching greedily loses no match.\<close>

definition semver_test :: "jstr \<Rightarrow> bool" where
  "semver_test v =
     (case drop_digits1 v of None \<Rightarrow> False | Some r1 \<Rightarrow>
     (case drop_dot r1 of None \<Rightarrow> False | Some r2 \<Rightarrow>
     (case drop_digits1 r2 of None \<Rightarrow> False | Some r3 \<Rightarrow>
     (case drop_dot r3 of None \<Rightarrow> False | Some r4 \<Rightarrow> drop_digits1 r4 \<noteq> None))))"

definition missing :: "jstr option \<Rightarrow> bool" where
  "missing f = (case f of None \<Rightarrow> True | Some s \<Rightarrow> js_blank s)"

definition permission_issue_text :: "plugin_permission_issue \<Rightarrow> jstr" where
  "permission_issue_text i = ''permission '' @ quoted (issue_resource i) @ '': '' @ issue_problem i"

definition validateManifest :: "plugin_manifest \<Rightarrow> jstr list" where
  "validateManifest m =
     (if missing (mf_id m) then [''id is required''] else [])
     @ (if missing (mf_name m) then [''name is required''] else [])
     @ (if (case mf_version m of None \<Rightarrow> True | Some v \<Rightarrow> v = [] \<or> \<not> semver_test v)
        then [''version must be a valid semver string''] else [])
     @ (if missing (entryPoint m) then [''entryPoint is required''] else [])
     @ (if (case mf_capabilities m of None \<Rightarrow> True | Some cs \<Rightarrow> cs = [])
        then [''at least one capability is required''] else [])
     @ (if missing (mf_author m) then [''author is required''] else [])
     @ map permission_issue_text
         (validatePluginPermissions (case permissions m of None \<Rightarrow> [] | Some ps \<Rightarrow> ps))"

definition validation_error_message :: "jstr \<Rightarrow> jstr list \<Rightarrow> jstr" where
  "validation_error_message pid issues =
     ''Plugin '' @ quoted pid @ '' failed validation: '' @ js_join ''; '' issues"

section \<open>Policy checkers\<close>

text \<open>A checker is asked about the manifest's permission list, which may be \<open>undefined\<close>.\<close>

type_synonym checker = "plugin_permission list option \<Rightarrow> js_exn + bool"

definition AllowAllPolicyChecker :: checker where
  "AllowAllPolicyChecker ps = Inr True"

text \<open>The grant table of \<open>GrantedPermissionsPolicyChecker\<close>: the constructor folds the granted
  permissions into a map from resources to sets of actions (kept as lists without duplicates).\<close>

definition set_add :: "'a \<Rightarrow> 'a list \<Rightarrow> 'a list" where
  "set_add a s = (if a \<in> set s then s else s @ [a])"

definition add_grant :: "plugin_permission \<Rightarrow> (jstr, jstr list) jmap \<Rightarrow> (jstr, jstr list) jmap" where
  "add_grant g grants =
     (let old = (case jm_get grants (resource g) of None \<Rightarrow> [] | Some s \<Rightarrow> s)
      in jm_set (resource g) (fold set_add (perm_actions g) old) grants)"

definition granted_table :: "plugin_permission list \<Rightarrow> (jstr, jstr list) jmap" where
  "granted_table granted = fold add_grant granted []"

fun all_granted :: "(jstr, jstr list) jmap \<Rightarrow> plugin_permission list \<Rightarrow> js_exn + bool" where
  "all_granted grants [] = Inr True"
| "all_granted grants (p # ps) =
     (case jm_get grants (resource p) of
        None \<Rightarrow> Inr False
      | Some s \<Rightarrow>
         (case actions p of
            None \<Rightarrow> Inl TypeErr
          | Some as \<Rightarrow> if list_all (\<lambda>a. a \<in> set s) as then all_granted grants ps else Inr False))"

definition GrantedPermissionsPolicyChecker :: "plugin_permission list \<Rightarrow> checker" where
  "GrantedPermissionsPolicyChecker granted ps =
     (case ps of None \<Rightarrow> Inl TypeErr | Some l \<Rightarrow> all_granted (granted_table granted) l)"

text \<open>\<open>new PluginRegistry()\<close> with no checker: nothing is granted.\<close>

definition default_checker :: checker where
  "default_checker = GrantedPermissionsPolicyChecker []"

section \<open>Registry state and operations\<close>

datatype async_op = Activating | Deactivating

record ('p, 'w) registry =
  recs :: "plugin_record list"
  plugins :: "(jstr, nat) jmap"
  instances :: "(jstr, ('p, 'w) plugin) jmap"
  suspended :: "(async_op \<times> nat) list"

definition new_registry :: "('p, 'w) registry" where
  "new_registry = \<lparr>recs = [], plugins = [], instances = [], suspended = []\<rparr>"

definition registry_list :: "('p, 'w) registry \<Rightarrow> plugin_record list" where
  "registry_list st = map (\<lambda>r. recs st ! r) (jm_values (plugins st))"

definition getById :: "('p, 'w) registry \<Rightarrow> jstr \<Rightarrow> plugin_record option" where
  "getById st i = map_option (\<lambda>r. recs st ! r) (jm_get (plugins st) i)"

definition fresh_record :: "plugin_manifest \<Rightarrow> plugin_record" where
  "fresh_record m = \<lparr>manifest = m, state = Validated, enabled = False, activatedAt = None, rec_error = None\<rparr>"

definition register :: "checker \<Rightarrow> plugin_manifest \<Rightarrow> ('p, 'w) plugin \<Rightarrow> ('p, 'w) registry \<Rightarrow> js_exn + (nat \<times> ('p, 'w) registry)" where
  "register chk m p st =
     (let issues = validateManifest m;
          pid = (case mf_id m of None \<Rightarrow> ''unknown'' | Some i \<Rightarrow> i)
      in if issues \<noteq> [] then Inl (PluginValidationError pid issues)
         else case chk (permissions m) of
             Inl e \<Rightarrow> Inl e
           | Inr False \<Rightarrow> Inl (PluginValidationError pid [''required permissions are not allowed by workspace policy''])
           | Inr True \<Rightarrow>
               (let ref = length (recs st)
                in Inr (ref, st\<lparr>recs := recs st @ [fresh_record m],
                               plugins := jm_set pid ref (plugins st),
                               instances := jm_set pid p (instances st)\<rparr>)))"

definition unregister :: "jstr \<Rightarrow> ('p, 'w) registry \<Rightarrow> bool \<times> ('p, 'w) registry" where
  "unregister i st =
     (jm_get (plugins st) i \<noteq> None,
      st\<lparr>instances := jm_delete i (instances st), plugins := jm_delete i (plugins st)\<rparr>)"

definition requireRecord :: "jstr \<Rightarrow> ('p, 'w) registry \<Rightarrow> js_exn + nat" where
  "requireRecord i st =
     (case jm_get (plugins st) i of
        None \<Rightarrow> Inl (PlainError (''Plugin '' @ quoted i @ '' is not registered''))
      | Some r \<Rightarrow> Inr r)"

definition set_rec :: "nat \<Rightarrow> (plugin_record \<Rightarrow> plugin_record) \<Rightarrow> ('p, 'w) registry \<Rightarrow> ('p, 'w) registry" where
  "set_rec r f st = st\<lparr>recs := (recs st)[r := f (recs st ! r)]\<rparr>"

definition finish_activate :: "int \<Rightarrow> plugin_record \<Rightarrow> plugin_record" where
  "finish_activate now rc =
     rc\<lparr>state := Running, enabled := True, activatedAt := Some now, rec_error := None\<rparr>"

definition finish_deactivate :: "plugin_record \<Rightarrow> plugin_record" where
  "finish_deactivate rc = rc\<lparr>state := Deactivated, enabled := False\<rparr>"

definition fail_record :: "thrown \<Rightarrow> plugin_record \<Rightarrow> plugin_record" where
  "fail_record e rc = rc\<lparr>state := ErrorState, rec_error := Some (thrown_message e)\<rparr>"

text \<open>The part of \<open>activate\<close> and \<open>deactivate\<close> before the \<open>await\<close>: look the record and the instance
  up; without a hook method the success branch runs at once, with one the call is suspended.\<close>

definition lookup_pair :: "jstr \<Rightarrow> ('p, 'w) registry \<Rightarrow> js_exn + (nat \<times> ('p, 'w) plugin)" where
  "lookup_pair i st =
     (case requireRecord i st of
        Inl e \<Rightarrow> Inl e
      | Inr r \<Rightarrow>
         (case jm_get (instances st) i of
            None \<Rightarrow> Inl (PlainError (''Plugin instance not found for '' @ quoted i))
          | Some p \<Rightarrow> Inr (r, p)))"

definition activate :: "jstr \<Rightarrow> int \<Rightarrow> ('p, 'w) registry \<Rightarrow> js_exn + ('p, 'w) registry" where
  "activate i now st =
     (case lookup_pair i st of
        Inl e \<Rightarrow> Inl e
      | Inr (r, p) \<Rightarrow>
          if has_onActivate p then Inr (st\<lparr>suspended := suspended st @ [(Activating, r)]\<rparr>)
          else Inr (set_rec r (finish_activate now) st))"

definition deactivate :: "jstr \<Rightarrow> ('p, 'w) registry \<Rightarrow> js_exn + ('p, 'w) registry" where
  "deactivate i st =
     (case lookup_pair i st of
        Inl e \<Rightarrow> Inl e
      | Inr (r, p) \<Rightarrow>
          if has_onDeactivate p then Inr (st\<lparr>suspended := suspended st @ [(Deactivating, r)]\<rparr>)
          else Inr (set_rec r finish_deactivate st))"

text \<open>The part after the \<open>await\<close>: the plugin's method returned (\<^const>\<open>None\<close>) or threw.  The second
  component is what the caller of \<open>activate\<close> or \<open>deactivate\<close> sees rethrown.\<close>

definition resume :: "nat \<Rightarrow> thrown option \<Rightarrow> int \<Rightarrow> ('p, 'w) registry \<Rightarrow> ('p, 'w) registry \<times> js_exn option" where
  "resume k outcome now st =
     (case suspended st ! k of (op, r) \<Rightarrow>
      let st' = st\<lparr>suspended := take k (suspended st) @ drop (Suc k) (suspended st)\<rparr>
      in case outcome of
           Some e \<Rightarrow> (set_rec r (fail_record e) st', Some (PluginThrew e))
         | None \<Rightarrow> (case op of
               Activating \<Rightarrow> (set_rec r (finish_activate now) st', None)
             | Deactivating \<Rightarrow> (set_rec r finish_deactivate st', None)))"

definition set_enabled :: "bool \<Rightarrow> jstr \<Rightarrow> ('p, 'w) registry \<Rightarrow> js_exn + ('p, 'w) registry" where
  "set_enabled b i st =
     (case requireRecord i st of Inl e \<Rightarrow> Inl e | Inr r \<Rightarrow> Inr (set_rec r (\<lambda>rc. rc\<lparr>enabled := b\<rparr>) st))"

definition enable :: "jstr \<Rightarrow> ('p, 'w) registry \<Rightarrow> js_exn + ('p, 'w) registry" where
  "enable = set_enabled True"

definition disable :: "jstr \<Rightarrow> ('p, 'w) registry \<Rightarrow> js_exn + ('p, 'w) registry" where
  "disable = set_enabled False"

text \<open>One step of a host using the registry, in any order and interleaving.\<close>

inductive reg_step :: "checker \<Rightarrow> ('p, 'w) registry \<Rightarrow> ('p, 'w) registry \<Rightarrow> bool" for chk where
  register: "register chk m p st = Inr (r, st') \<Longrightarrow> reg_step chk st st'"
| unregister: "unregister i st = (b, st') \<Longrightarrow> reg_step chk st st'"
| activate: "activate i now st = Inr st' \<Longrightarrow> reg_step chk st st'"
| deactivate: "deactivate i st = Inr st' \<Longrightarrow> reg_step chk st st'"
| resume: "k < length (suspended st) \<Longrightarrow> resume k outcome now st = (st', e) \<Longrightarrow> reg_step chk st st'"
| enable: "enable i st = Inr st' \<Longrightarrow> reg_step chk st st'"
| disable: "disable i st = Inr st' \<Longrightarrow> reg_step chk st st'"

inductive reg_reachable :: "checker \<Rightarrow> ('p, 'w) registry \<Rightarrow> bool" for chk where
  start: "reg_reachable chk new_registry"
| step: "reg_reachable chk st \<Longrightarrow> reg_step chk st st' \<Longrightarrow> reg_reachable chk st'"

section \<open>The semver test\<close>

lemma drop_digits1_Some:
  "drop_digits1 s = Some r
   \<longleftrightarrow> (\<exists>ds. ds \<noteq> [] \<and> list_all is_digit ds \<and> s = ds @ r \<and> (r = [] \<or> \<not> is_digit (hd r)))"
proof (cases s)
  case Nil
  then show ?thesis by (auto simp: drop_digits1_def)
next
  case (Cons c cs)
  show ?thesis
  proof
    assume "drop_digits1 s = Some r"
    then have "is_digit c" and r: "r = dropWhile is_digit cs"
      by (auto simp: drop_digits1_def Cons split: if_splits)
    then have "list_all is_digit (c # takeWhile is_digit cs)"
      by (auto simp: list_all_iff dest: set_takeWhileD)
    moreover have "s = (c # takeWhile is_digit cs) @ r" by (simp add: r Cons)
    moreover have "r = [] \<or> \<not> is_digit (hd r)" using hd_dropWhile r by blast
    ultimately show "\<exists>ds. ds \<noteq> [] \<and> list_all is_digit ds \<and> s = ds @ r \<and> (r = [] \<or> \<not> is_digit (hd r))"
      by (metis list.distinct(1))
  next
    assume "\<exists>ds. ds \<noteq> [] \<and> list_all is_digit ds \<and> s = ds @ r \<and> (r = [] \<or> \<not> is_digit (hd r))"
    then obtain ds where ds: "ds \<noteq> []" "list_all is_digit ds" "s = ds @ r" "r = [] \<or> \<not> is_digit (hd r)"
      by blast
    then obtain ds' where ds': "ds = c # ds'" by (cases ds) (auto simp: Cons)
    with ds(2,3) have "list_all is_digit ds'" and cs: "cs = ds' @ r" and "is_digit c" by (auto simp: Cons)
    then have "dropWhile is_digit cs = dropWhile is_digit r"
      by (simp add: list_all_iff dropWhile_append2)
    also have "\<dots> = r" using ds(4) by (cases r) auto
    finally show "drop_digits1 s = Some r" using \<open>is_digit c\<close> by (simp add: drop_digits1_def Cons)
  qed
qed

lemma drop_dot_Some: "drop_dot s = Some r \<longleftrightarrow> s = CHR ''.'' # r"
  by (auto simp: drop_dot_def split: list.splits if_splits)

lemma dot_not_digit [simp]: "\<not> is_digit CHR ''.''"
  by (simp add: is_digit_def)

lemma semver_test_iff:
  "semver_test v \<longleftrightarrow>
     (\<exists>a b c rest. a \<noteq> [] \<and> b \<noteq> [] \<and> c \<noteq> [] \<and> list_all is_digit (a @ b @ c)
        \<and> v = a @ ''.'' @ b @ ''.'' @ c @ rest)"
proof
  assume "semver_test v"
  then obtain r1 r2 r3 r4 r5 where d: "drop_digits1 v = Some r1" "drop_dot r1 = Some r2" "drop_digits1 r2 = Some r3"
      "drop_dot r3 = Some r4" "drop_digits1 r4 = Some r5"
    by (auto simp: semver_test_def split: option.splits)
  from d(1) obtain a where a: "a \<noteq> []" "list_all is_digit a" "v = a @ r1"
    unfolding drop_digits1_Some by blast
  from d(3) obtain b where b: "b \<noteq> []" "list_all is_digit b" "r2 = b @ r3"
    unfolding drop_digits1_Some by blast
  from d(5) obtain c where c: "c \<noteq> []" "list_all is_digit c" "r4 = c @ r5"
    unfolding drop_digits1_Some by blast
  have "v = a @ ''.'' @ b @ ''.'' @ c @ r5"
    using a(3) b(3) c(3) d(2,4) by (simp add: drop_dot_Some)
  moreover have "list_all is_digit (a @ b @ c)" using a(2) b(2) c(2) by simp
  ultimately show "\<exists>a b c rest. a \<noteq> [] \<and> b \<noteq> [] \<and> c \<noteq> [] \<and> list_all is_digit (a @ b @ c)
      \<and> v = a @ ''.'' @ b @ ''.'' @ c @ rest"
    using a(1) b(1) c(1) by blast
next
  assume "\<exists>a b c rest. a \<noteq> [] \<and> b \<noteq> [] \<and> c \<noteq> [] \<and> list_all is_digit (a @ b @ c)
      \<and> v = a @ ''.'' @ b @ ''.'' @ c @ rest"
  then obtain a b c rest where abc: "a \<noteq> []" "b \<noteq> []" "c \<noteq> []" "list_all is_digit a" "list_all is_digit b"
      "list_all is_digit c" and v: "v = a @ ''.'' @ b @ ''.'' @ c @ rest"
    by auto
  have "drop_digits1 v = Some (''.'' @ b @ ''.'' @ c @ rest)"
    unfolding drop_digits1_Some using abc v by (intro exI [of _ a]) auto
  moreover have "drop_digits1 (b @ ''.'' @ c @ rest) = Some (''.'' @ c @ rest)"
    unfolding drop_digits1_Some using abc by (intro exI [of _ b]) auto
  moreover have "drop_digits1 (c @ rest) \<noteq> None"
    using abc by (cases c) (auto simp: drop_digits1_def)
  ultimately show "semver_test v" by (simp add: semver_test_def drop_dot_def)
qed

section \<open>Policy checkers\<close>

definition granted_by :: "plugin_permission list \<Rightarrow> jstr \<Rightarrow> jstr \<Rightarrow> bool" where
  "granted_by gs r a \<longleftrightarrow> (\<exists>g \<in> set gs. resource g = r \<and> a \<in> set (perm_actions g))"

lemma set_fold_set_add: "set (fold set_add xs s) = set xs \<union> set s"
  by (induction xs arbitrary: s) (auto simp: set_add_def)

definition table_has :: "(jstr, jstr list) jmap \<Rightarrow> jstr \<Rightarrow> jstr \<Rightarrow> bool" where
  "table_has t r a \<longleftrightarrow> (\<exists>s. jm_get t r = Some s \<and> a \<in> set s)"

lemma table_has_add_grant:
  "table_has (add_grant g t) r a \<longleftrightarrow> table_has t r a \<or> (resource g = r \<and> a \<in> set (perm_actions g))"
  by (cases "jm_get t (resource g)")
     (auto simp: table_has_def add_grant_def Let_def jm_simps set_fold_set_add)

lemma table_has_fold:
  "table_has (fold add_grant gs t) r a \<longleftrightarrow> table_has t r a \<or> granted_by gs r a"
  by (induction gs arbitrary: t) (auto simp: table_has_add_grant granted_by_def)

lemma table_has_granted: "table_has (granted_table gs) r a \<longleftrightarrow> granted_by gs r a"
  by (simp add: granted_table_def table_has_fold) (simp add: table_has_def jm_simps)

text \<open>The interface \<open>WorkspacePolicyChecker\<close>: what it means that a checker's answer is right for a
  set of granted (resource, action) pairs.\<close>

locale policy_checker =
  fixes chk :: checker and granted :: "jstr \<Rightarrow> jstr \<Rightarrow> bool"
  assumes sound: "chk (Some ps) = Inr True \<Longrightarrow> p \<in> set ps \<Longrightarrow> a \<in> set (perm_actions p) \<Longrightarrow> granted (resource p) a"
    and complete: "(\<And>p. p \<in> set ps \<Longrightarrow> perm_actions p \<noteq> [] \<and> (\<forall>a \<in> set (perm_actions p). granted (resource p) a))
        \<Longrightarrow> chk (Some ps) = Inr True"

lemma all_granted_sound:
  "all_granted t ps = Inr True \<Longrightarrow> p \<in> set ps \<Longrightarrow> a \<in> set (perm_actions p) \<Longrightarrow> table_has t (resource p) a"
  by (induction t ps rule: all_granted.induct)
     (auto simp: table_has_def perm_actions_def list_all_iff split: option.splits if_splits)

lemma all_granted_no_error: "perms_in_vocabulary ps \<Longrightarrow> all_granted t ps \<noteq> Inl TypeErr"
  by (induction t ps rule: all_granted.induct)
     (auto simp: perms_in_vocabulary_def perm_in_vocabulary_def perm_actions_def split: option.splits)

lemma all_granted_complete:
  "(\<And>p. p \<in> set ps \<Longrightarrow> perm_actions p \<noteq> [] \<and> (\<forall>a \<in> set (perm_actions p). table_has t (resource p) a))
   \<Longrightarrow> all_granted t ps = Inr True"
proof (induction t ps rule: all_granted.induct)
  case (1 t)
  then show ?case by simp
next
  case (2 t p ps)
  from 2(2) [of p] obtain as where as: "actions p = Some as" "as \<noteq> []"
    by (auto simp: perm_actions_def split: option.splits)
  with 2(2) [of p] obtain s where s: "jm_get t (resource p) = Some s"
    by (auto simp: perm_actions_def table_has_def neq_Nil_conv)
  with 2(2) [of p] as have "list_all (\<lambda>a. a \<in> set s) as"
    by (auto simp: perm_actions_def table_has_def list_all_iff)
  with 2 as s show ?case by simp
qed

interpretation allow_all: policy_checker AllowAllPolicyChecker "\<lambda>_ _. True"
  by unfold_locales (auto simp: AllowAllPolicyChecker_def)

interpretation grants: policy_checker "GrantedPermissionsPolicyChecker gs" "granted_by gs" for gs
proof
  fix ps p a
  assume "GrantedPermissionsPolicyChecker gs (Some ps) = Inr True" "p \<in> set ps" "a \<in> set (perm_actions p)"
  then show "granted_by gs (resource p) a"
    by (auto simp: GrantedPermissionsPolicyChecker_def dest: all_granted_sound simp flip: table_has_granted)
next
  fix ps
  assume "\<And>p. p \<in> set ps \<Longrightarrow> perm_actions p \<noteq> [] \<and> (\<forall>a \<in> set (perm_actions p). granted_by gs (resource p) a)"
  then show "GrantedPermissionsPolicyChecker gs (Some ps) = Inr True"
    by (simp add: GrantedPermissionsPolicyChecker_def all_granted_complete table_has_granted)
qed

section \<open>The registry invariant\<close>

text \<open>What the fields of a record say together.  The states \<^const>\<open>Loaded\<close> and \<^const>\<open>Activated\<close> of the type are
  never entered.\<close>

definition lifecycle_ok :: "plugin_record \<Rightarrow> bool" where
  "lifecycle_ok rc \<longleftrightarrow> (case state rc of
       Validated \<Rightarrow> activatedAt rc = None \<and> rec_error rc = None
     | Running \<Rightarrow> activatedAt rc \<noteq> None \<and> rec_error rc = None
     | Deactivated \<Rightarrow> True
     | ErrorState \<Rightarrow> rec_error rc \<noteq> None
     | Loaded \<Rightarrow> False | Activated \<Rightarrow> False)"

definition record_ok :: "checker \<Rightarrow> plugin_record \<Rightarrow> bool" where
  "record_ok chk rc \<longleftrightarrow>
     validateManifest (manifest rc) = [] \<and> chk (permissions (manifest rc)) = Inr True
     \<and> lifecycle_ok rc"

definition ref_ok :: "('p, 'w) registry \<Rightarrow> jstr \<Rightarrow> nat \<Rightarrow> bool" where
  "ref_ok st i r \<longleftrightarrow> r < length (recs st) \<and> mf_id (manifest (recs st ! r)) = Some i"

definition reg_inv :: "checker \<Rightarrow> ('p, 'w) registry \<Rightarrow> bool" where
  "reg_inv chk st \<longleftrightarrow>
     jm_keys (plugins st) = jm_keys (instances st) \<and> jm_wf (plugins st)
     \<and> (\<forall>i r. jm_get (plugins st) i = Some r \<longrightarrow> ref_ok st i r)
     \<and> (\<forall>rc \<in> set (recs st). record_ok chk rc)
     \<and> (\<forall>(op, r) \<in> set (suspended st). r < length (recs st))"

lemma validateManifest_id:
  assumes "validateManifest m = []"
  obtains i where "mf_id m = Some i" and "\<not> js_blank i"
  using assms by (auto simp: validateManifest_def missing_def split: if_splits option.splits)

lemma validateManifest_permissions:
  assumes "validateManifest m = []"
  shows "perms_in_vocabulary (case permissions m of None \<Rightarrow> [] | Some ps \<Rightarrow> ps)"
  using assms by (auto simp: validateManifest_def simp flip: validate_iff_vocabulary split: if_splits)

lemma reg_inv_new: "reg_inv chk new_registry"
  by (simp add: reg_inv_def new_registry_def jm_simps jm_keys_def)

lemma register_Inr:
  assumes "register chk m p st = Inr (r, st')"
  obtains i where "mf_id m = Some i" "validateManifest m = []" "chk (permissions m) = Inr True"
    "r = length (recs st)"
    "st' = st\<lparr>recs := recs st @ [fresh_record m], plugins := jm_set i r (plugins st), instances := jm_set i p (instances st)\<rparr>"
proof -
  from assms have v: "validateManifest m = []"
    by (auto simp: register_def Let_def split: if_splits)
  then obtain i where i: "mf_id m = Some i" by (rule validateManifest_id)
  with assms v show ?thesis
    by (intro that [of i]) (auto simp: register_def Let_def split: sum.splits bool.splits)
qed

lemma reg_inv_register:
  assumes inv: "reg_inv chk st" and reg: "register chk m p st = Inr (r, st')"
  shows "reg_inv chk st'"
proof -
  from reg obtain i where i: "mf_id m = Some i" "validateManifest m = []" "chk (permissions m) = Inr True"
      "r = length (recs st)"
    and st': "st' = st\<lparr>recs := recs st @ [fresh_record m], plugins := jm_set i r (plugins st), instances := jm_set i p (instances st)\<rparr>"
    by (rule register_Inr)
  have "ref_ok st' j q" if "jm_get (plugins st') j = Some q" for j q
  proof (cases "j = i")
    case True
    with that st' i show ?thesis by (auto simp: jm_simps ref_ok_def fresh_record_def nth_append)
  next
    case False
    with that st' have "jm_get (plugins st) j = Some q" by (simp add: jm_simps)
    with inv have "ref_ok st j q" by (simp add: reg_inv_def)
    with st' show ?thesis by (simp add: ref_ok_def nth_append)
  qed
  with inv i st' show ?thesis
    by (auto simp: reg_inv_def jm_simps jm_keys_set record_ok_def lifecycle_ok_def fresh_record_def less_SucI)
qed

lemma reg_inv_unregister: "reg_inv chk st \<Longrightarrow> unregister i st = (b, st') \<Longrightarrow> reg_inv chk st'"
  by (auto simp: unregister_def reg_inv_def jm_simps jm_keys_delete ref_ok_def split: if_splits)

lemma reg_inv_set_rec:
  assumes "reg_inv chk st" and "r < length (recs st)"
    and "\<And>rc. manifest (f rc) = manifest rc"
    and "\<And>rc. record_ok chk rc \<Longrightarrow> record_ok chk (f rc)"
  shows "reg_inv chk (set_rec r f st)"
proof -
  have "record_ok chk rc" if "rc \<in> set ((recs st)[r := f (recs st ! r)])" for rc
  proof -
    from that have "rc = f (recs st ! r) \<or> rc \<in> set (recs st)"
      using set_update_subset_insert by fastforce
    with assms show ?thesis by (auto simp: reg_inv_def)
  qed
  moreover have "ref_ok (set_rec r f st) i q" if "ref_ok st i q" for i q
    using that assms(2,3) by (auto simp: ref_ok_def set_rec_def nth_list_update)
  ultimately show ?thesis
    using assms(1) by (auto simp: reg_inv_def set_rec_def)
qed

lemma record_ok_finish_activate: "record_ok chk rc \<Longrightarrow> record_ok chk (finish_activate now rc)"
  by (simp add: record_ok_def lifecycle_ok_def finish_activate_def)

lemma record_ok_finish_deactivate: "record_ok chk rc \<Longrightarrow> record_ok chk (finish_deactivate rc)"
  by (simp add: record_ok_def lifecycle_ok_def finish_deactivate_def)

lemma record_ok_fail: "record_ok chk rc \<Longrightarrow> record_ok chk (fail_record e rc)"
  by (simp add: record_ok_def lifecycle_ok_def fail_record_def)

lemma record_ok_enabled: "record_ok chk rc \<Longrightarrow> record_ok chk (rc\<lparr>enabled := b\<rparr>)"
  by (cases "state rc") (simp_all add: record_ok_def lifecycle_ok_def)

lemma manifest_kept [simp]:
  "manifest (finish_activate now rc) = manifest rc" "manifest (finish_deactivate rc) = manifest rc"
  "manifest (fail_record e rc) = manifest rc"
  by (simp_all add: finish_activate_def finish_deactivate_def fail_record_def)

lemmas record_ok_intros = record_ok_finish_activate record_ok_finish_deactivate record_ok_fail record_ok_enabled

lemma requireRecord_bound: "reg_inv chk st \<Longrightarrow> requireRecord i st = Inr r \<Longrightarrow> r < length (recs st)"
  by (auto simp: requireRecord_def reg_inv_def ref_ok_def split: option.splits)

lemma lookup_pair_bound: "reg_inv chk st \<Longrightarrow> lookup_pair i st = Inr (r, p) \<Longrightarrow> r < length (recs st)"
  by (auto simp: lookup_pair_def split: sum.splits option.splits intro: requireRecord_bound)

lemma reg_inv_suspend:
  "reg_inv chk st \<Longrightarrow> r < length (recs st) \<Longrightarrow> reg_inv chk (st\<lparr>suspended := suspended st @ [(op, r)]\<rparr>)"
  by (auto simp: reg_inv_def ref_ok_def)

lemma reg_inv_activate: "reg_inv chk st \<Longrightarrow> activate i now st = Inr st' \<Longrightarrow> reg_inv chk st'"
  by (auto simp: activate_def split: sum.splits if_splits
      intro!: reg_inv_suspend reg_inv_set_rec record_ok_intros dest: lookup_pair_bound)

lemma reg_inv_deactivate: "reg_inv chk st \<Longrightarrow> deactivate i st = Inr st' \<Longrightarrow> reg_inv chk st'"
  by (auto simp: deactivate_def split: sum.splits if_splits
      intro!: reg_inv_suspend reg_inv_set_rec record_ok_intros dest: lookup_pair_bound)

lemma reg_inv_set_enabled: "reg_inv chk st \<Longrightarrow> set_enabled b i st = Inr st' \<Longrightarrow> reg_inv chk st'"
  by (auto simp: set_enabled_def split: sum.splits
      intro!: reg_inv_set_rec record_ok_intros dest: requireRecord_bound)

lemma reg_inv_resume:
  assumes inv: "reg_inv chk st" and k: "k < length (suspended st)" and res: "resume k outcome now st = (st', e)"
  shows "reg_inv chk st'"
proof -
  obtain op r where sus: "suspended st ! k = (op, r)" by force
  let ?st = "st\<lparr>suspended := take k (suspended st) @ drop (Suc k) (suspended st)\<rparr>"
  have "(op, r) \<in> set (suspended st)" using k sus nth_mem by metis
  with inv have r: "r < length (recs ?st)" by (auto simp: reg_inv_def)
  have "reg_inv chk ?st"
    using inv by (auto simp: reg_inv_def ref_ok_def dest: in_set_takeD in_set_dropD)
  with r have ok: "reg_inv chk (set_rec r f ?st)"
    if "\<And>rc. manifest (f rc) = manifest rc" "\<And>rc. record_ok chk rc \<Longrightarrow> record_ok chk (f rc)" for f
    using that by (intro reg_inv_set_rec)
  show ?thesis
    using res by (cases outcome; cases op)
      (auto simp: resume_def sus Let_def intro!: ok record_ok_intros)
qed

lemma reg_inv_step: "reg_step chk st st' \<Longrightarrow> reg_inv chk st \<Longrightarrow> reg_inv chk st'"
  by (induction rule: reg_step.induct)
     (auto simp: enable_def disable_def
       intro: reg_inv_register reg_inv_unregister reg_inv_activate reg_inv_deactivate reg_inv_resume reg_inv_set_enabled)

lemma reg_inv_reachable: "reg_reachable chk st \<Longrightarrow> reg_inv chk st"
  by (induction rule: reg_reachable.induct) (auto intro: reg_inv_new reg_inv_step)


lemma registry_list_in_recs:
  assumes "reg_inv chk st" and "rc \<in> set (registry_list st)"
  shows "rc \<in> set (recs st)"
proof -
  from assms(2) obtain i r where "(i, r) \<in> set (plugins st)" and rc: "rc = recs st ! r"
    by (auto simp: registry_list_def jm_values_def)
  moreover have "distinct (map fst (plugins st))"
    using assms(1) by (auto simp: reg_inv_def jm_wf_def jm_keys_def)
  ultimately have "jm_get (plugins st) i = Some r" by (simp add: jm_get_def)
  with assms(1) have "r < length (recs st)" by (auto simp: reg_inv_def ref_ok_def)
  with rc show ?thesis by simp
qed

text \<open>What a client of the checker interface gets: in every reachable state each listed plugin asks
  only for granted actions.\<close>

context policy_checker
begin

lemma listed_granted:
  assumes "reg_reachable chk st" and "rc \<in> set (registry_list st)"
    and "permissions (manifest rc) = Some ps" and "p \<in> set ps" and "a \<in> set (perm_actions p)"
  shows "granted (resource p) a"
proof -
  from assms(1) have inv: "reg_inv chk st" by (rule reg_inv_reachable)
  then have "rc \<in> set (recs st)" using assms(2) by (rule registry_list_in_recs)
  with inv have "chk (permissions (manifest rc)) = Inr True" by (simp add: reg_inv_def record_ok_def)
  with assms(3) have "chk (Some ps) = Inr True" by simp
  then show ?thesis using assms(4,5) by (rule sound)
qed

text \<open>Registration of a manifest with a permission list succeeds exactly when the manifest is valid
  and every requested action is granted.\<close>

lemma register_succeeds_iff:
  assumes "permissions m = Some ps"
  shows "(\<exists>r st'. register chk m p st = Inr (r, st'))
    \<longleftrightarrow> validateManifest m = [] \<and> (\<forall>q \<in> set ps. \<forall>a \<in> set (perm_actions q). granted (resource q) a)"
proof
  assume "\<exists>r st'. register chk m p st = Inr (r, st')"
  then obtain r st' where "register chk m p st = Inr (r, st')" by blast
  then obtain i where "validateManifest m = []" "chk (permissions m) = Inr True" by (rule register_Inr)
  with assms show "validateManifest m = [] \<and> (\<forall>q \<in> set ps. \<forall>a \<in> set (perm_actions q). granted (resource q) a)"
    using sound by auto
next
  assume R: "validateManifest m = [] \<and> (\<forall>q \<in> set ps. \<forall>a \<in> set (perm_actions q). granted (resource q) a)"
  then have "perms_in_vocabulary ps" using validateManifest_permissions assms by fastforce
  then have "perm_actions q \<noteq> []" if "q \<in> set ps" for q
    using that by (auto simp: perms_in_vocabulary_def perm_in_vocabulary_def list_all_iff)
  with R have "chk (Some ps) = Inr True" by (intro complete) auto
  with R assms show "\<exists>r st'. register chk m p st = Inr (r, st')"
    by (auto simp: register_def Let_def)
qed

end

section \<open>Properties\<close>

text \<open>C1.  Whatever a host does with the registry, in any order and with any interleaving of
  suspended activations, every plugin it lists asks only for (resource, action) pairs the host
  granted.\<close>

theorem listed_plugins_are_granted:
  assumes "reg_reachable (GrantedPermissionsPolicyChecker gs) st"
    and "rc \<in> set (registry_list st)"
    and "permissions (manifest rc) = Some ps" and "p \<in> set ps" and "a \<in> set (perm_actions p)"
  shows "granted_by gs (resource p) a"
  using assms by (rule grants.listed_granted)

definition demo_permission :: plugin_permission where
  "demo_permission = \<lparr>resource = ''storage'', actions = Some [''read'']\<rparr>"

definition demo_manifest :: plugin_manifest where
  "demo_manifest = \<lparr>mf_id = Some ''com.example.test'', mf_name = Some ''Test Plugin'', mf_version = Some ''1.0.0'',
     mf_description = Some ''test'', mf_author = Some ''tests'', entryPoint = Some ''index.ts'',
     mf_capabilities = Some [CapTool], permissions = Some [demo_permission],
     minPlatformVersion = None, iconUrl = None, homepage = None\<rparr>"

definition demo_plugin :: "(unit, unit) plugin" where
  "demo_plugin = \<lparr>pl_id = ''com.example.test'', pl_name = ''Test Plugin'', pl_version = ''1.0.0'',
     pl_description = ''test'', pl_author = ''tests'', pl_capabilities = [CapTool], pl_hooks = [],
     has_onActivate = True, has_onDeactivate = False\<rparr>"

definition demo_registry :: "(unit, unit) registry" where
  "demo_registry = \<lparr>recs = [fresh_record demo_manifest], plugins = [(''com.example.test'', 0)],
     instances = [(''com.example.test'', demo_plugin)], suspended = []\<rparr>"

lemma demo_register:
  "register (GrantedPermissionsPolicyChecker [demo_permission]) demo_manifest demo_plugin new_registry
   = Inr (0, demo_registry)"
proof -
  have v: "validateManifest demo_manifest = []" by code_simp
  have c: "GrantedPermissionsPolicyChecker [demo_permission] (permissions demo_manifest) = Inr True" by code_simp
  have i: "mf_id demo_manifest = Some ''com.example.test''" by (simp add: demo_manifest_def)
  show ?thesis by (simp add: register_def Let_def v c i new_registry_def demo_registry_def)
qed

lemma demo_reachable: "reg_reachable (GrantedPermissionsPolicyChecker [demo_permission]) demo_registry"
  by (rule reg_reachable.step [OF reg_reachable.start]) (rule reg_step.register [OF demo_register])

theorem listed_plugins_are_granted_witness: "granted_by [demo_permission] ''storage'' ''read''"
proof -
  have "fresh_record demo_manifest \<in> set (registry_list demo_registry)"
    by (simp add: registry_list_def demo_registry_def jm_values_def)
  moreover have "permissions (manifest (fresh_record demo_manifest)) = Some [demo_permission]"
    by (simp add: fresh_record_def demo_manifest_def)
  ultimately have "granted_by [demo_permission] (resource demo_permission) ''read''"
    using listed_plugins_are_granted [OF demo_reachable, of "fresh_record demo_manifest" "[demo_permission]"
        demo_permission "''read''"]
    by (simp add: demo_permission_def perm_actions_def)
  then show ?thesis by (simp add: demo_permission_def)
qed

text \<open>C3.  With the default checker nothing is granted: whatever happened, every listed plugin has an
  empty permission list.\<close>

theorem default_registry_zero_permissions:
  assumes "reg_reachable default_checker st" and "rc \<in> set (registry_list st)"
  shows "permissions (manifest rc) = Some []"
proof -
  from assms(1) have inv: "reg_inv default_checker st" by (rule reg_inv_reachable)
  then have "record_ok default_checker rc"
    using registry_list_in_recs [OF inv assms(2)] by (simp add: reg_inv_def)
  then show ?thesis
    by (cases "permissions (manifest rc)"; cases "the (permissions (manifest rc))")
       (auto simp: record_ok_def default_checker_def GrantedPermissionsPolicyChecker_def granted_table_def
         jm_simps)
qed

definition plain_manifest :: plugin_manifest where
  "plain_manifest = demo_manifest\<lparr>permissions := Some []\<rparr>"

definition plain_registry :: "(unit, unit) registry" where
  "plain_registry = demo_registry\<lparr>recs := [fresh_record plain_manifest]\<rparr>"

lemma plain_register:
  "register default_checker plain_manifest demo_plugin new_registry = Inr (0, plain_registry)"
proof -
  have v: "validateManifest plain_manifest = []" by code_simp
  have c: "default_checker (permissions plain_manifest) = Inr True" by code_simp
  have i: "mf_id plain_manifest = Some ''com.example.test''" by (simp add: demo_manifest_def plain_manifest_def)
  show ?thesis by (simp add: register_def Let_def v c i new_registry_def demo_registry_def plain_registry_def)
qed

lemma plain_reachable: "reg_reachable default_checker plain_registry"
  by (rule reg_reachable.step [OF reg_reachable.start]) (rule reg_step.register [OF plain_register])

theorem default_registry_zero_permissions_witness:
  "reg_reachable default_checker plain_registry \<and> permissions (manifest (fresh_record plain_manifest)) = Some []"
proof -
  have "fresh_record plain_manifest \<in> set (registry_list plain_registry)"
    by (simp add: registry_list_def demo_registry_def plain_registry_def jm_values_def)
  then show ?thesis
    using plain_reachable default_registry_zero_permissions [OF plain_reachable] by blast
qed



text \<open>C6.  Registration refines the abstract rule \<open>valid manifest, with a permission list, and every action granted\<close>:
  it succeeds exactly then, for any registry state.  A valid manifest without a permission list ends in a type
  error, exactly then; in every other case the error names what is wrong with the manifest, or that
  the workspace policy refuses it.\<close>

theorem register_iff_valid_and_granted:
  "((\<exists>r st'. register (GrantedPermissionsPolicyChecker gs) m p st = Inr (r, st'))
      \<longleftrightarrow> validateManifest m = []
        \<and> (\<exists>ps. permissions m = Some ps \<and> (\<forall>q \<in> set ps. \<forall>a \<in> set (perm_actions q). granted_by gs (resource q) a)))
   \<and> (register (GrantedPermissionsPolicyChecker gs) m p st = Inl TypeErr \<longleftrightarrow> validateManifest m = [] \<and> permissions m = None)"
proof
  let ?chk = "GrantedPermissionsPolicyChecker gs"
  show "(\<exists>r st'. register ?chk m p st = Inr (r, st')) \<longleftrightarrow> validateManifest m = []
      \<and> (\<exists>ps. permissions m = Some ps \<and> (\<forall>q \<in> set ps. \<forall>a \<in> set (perm_actions q). granted_by gs (resource q) a))"
  proof (cases "permissions m")
    case None
    then show ?thesis by (auto simp: GrantedPermissionsPolicyChecker_def elim: register_Inr)
  next
    case (Some ps)
    then show ?thesis using grants.register_succeeds_iff [of m ps] by simp
  qed
  show "register ?chk m p st = Inl TypeErr \<longleftrightarrow> validateManifest m = [] \<and> permissions m = None"
  proof (cases "permissions m")
    case None
    then show ?thesis by (simp add: register_def Let_def GrantedPermissionsPolicyChecker_def)
  next
    case (Some ps)
    have "?chk (Some ps) \<noteq> Inl TypeErr" if "validateManifest m = []"
      using validateManifest_permissions [OF that] Some all_granted_no_error by (simp add: GrantedPermissionsPolicyChecker_def)
    then show ?thesis using Some by (auto simp: register_def Let_def split: if_splits sum.splits bool.splits)
  qed
qed

theorem register_iff_valid_and_granted_witness:
  "\<not> (\<exists>r st'. register (GrantedPermissionsPolicyChecker []) demo_manifest demo_plugin new_registry = Inr (r, st'))"
  using register_iff_valid_and_granted [of "[]" demo_manifest demo_plugin new_registry]
  by (simp add: demo_manifest_def demo_permission_def perm_actions_def granted_by_def)

text \<open>C13.  An activation that is still waiting for the plugin when its id is registered again does not
  touch the new record: when it resumes, with success or with an error, the new record is still
  validated and disabled.\<close>

theorem stale_activation_does_not_touch_new_record:
  assumes "reg_reachable chk st" and "k < length (suspended st)"
    and "register chk m p st = Inr (r, st1)" and "mf_id m = Some i"
    and "resume k outcome now st1 = (st2, e)"
  shows "getById st2 i = Some (fresh_record m)"
proof -
  obtain op q where sus: "suspended st ! k = (op, q)" by force
  then have "(op, q) \<in> set (suspended st)" using assms(2) nth_mem by metis
  with reg_inv_reachable [OF assms(1)] have q: "q < length (recs st)" by (auto simp: reg_inv_def)
  from assms(3,4) have st1: "r = length (recs st)"
      "st1 = st\<lparr>recs := recs st @ [fresh_record m], plugins := jm_set i r (plugins st), instances := jm_set i p (instances st)\<rparr>"
    by (auto elim: register_Inr)
  have new: "getById (set_rec q f (st1\<lparr>suspended := s\<rparr>)) i = Some (fresh_record m)" for f s
    using q by (simp add: st1 getById_def set_rec_def jm_simps)
  have "suspended st1 ! k = (op, q)" using sus by (simp add: st1)
  with assms(5) show ?thesis
    using new by (cases outcome; cases op) (auto simp: resume_def Let_def)
qed

definition busy_registry :: "(unit, unit) registry" where
  "busy_registry = demo_registry\<lparr>suspended := [(Activating, 0)]\<rparr>"

lemma busy_reachable: "reg_reachable (GrantedPermissionsPolicyChecker [demo_permission]) busy_registry"
proof -
  have "activate ''com.example.test'' 0 demo_registry = Inr busy_registry"
    by (simp add: activate_def lookup_pair_def requireRecord_def demo_registry_def busy_registry_def
        demo_plugin_def jm_get_def)
  then show ?thesis
    by (intro reg_reachable.step [OF demo_reachable]) (rule reg_step.activate)
qed

theorem stale_activation_does_not_touch_new_record_witness:
  "\<exists>r st1 st2 e. register (GrantedPermissionsPolicyChecker [demo_permission]) demo_manifest demo_plugin busy_registry
       = Inr (r, st1)
     \<and> resume 0 None 5 st1 = (st2, e) \<and> getById st2 ''com.example.test'' = Some (fresh_record demo_manifest)"
proof -
  let ?chk = "GrantedPermissionsPolicyChecker [demo_permission]"
  have "validateManifest demo_manifest = []" and "?chk (permissions demo_manifest) = Inr True" by code_simp+
  then obtain r st1 where reg: "register ?chk demo_manifest demo_plugin busy_registry = Inr (r, st1)"
    by (simp add: register_def Let_def)
  obtain st2 e where res: "resume 0 None 5 st1 = (st2, e)" by force
  have "getById st2 ''com.example.test'' = Some (fresh_record demo_manifest)"
    by (rule stale_activation_does_not_touch_new_record [OF busy_reachable _ reg _ res])
       (simp_all add: busy_registry_def demo_manifest_def)
  with reg res show ?thesis by blast
qed


text \<open>A plugin whose deactivation fails.\<close>

definition sturdy_plugin :: "(unit, unit) plugin" where
  "sturdy_plugin = demo_plugin\<lparr>has_onActivate := False, has_onDeactivate := True\<rparr>"

definition sturdy_record :: plugin_record where
  "sturdy_record = fail_record (ErrorObj ''boom'') (finish_activate 1 (fresh_record demo_manifest))"

definition sturdy_registry :: "(unit, unit) registry" where
  "sturdy_registry = \<lparr>recs = [sturdy_record], plugins = [(''com.example.test'', 0)],
     instances = [(''com.example.test'', sturdy_plugin)], suspended = []\<rparr>"



text \<open>It stays enabled, although it is in error: no catch branch touches the flag.\<close>

lemma failed_deactivation_stays_enabled:
  "getById sturdy_registry ''com.example.test'' = Some sturdy_record \<and> enabled sturdy_record \<and> state sturdy_record = ErrorState"
  by (simp add: getById_def sturdy_registry_def sturdy_record_def fail_record_def finish_activate_def jm_get_def)

text \<open>A manifest without a \<open>permissions\<close> field passes validation as if it asked for nothing, and
  then makes the deny-by-default registry fail with a type error instead of a registration or a
  validation error.\<close>

theorem missing_permissions_raise_type_error:
  assumes "permissions m = None" and "validateManifest (m\<lparr>permissions := Some []\<rparr>) = []"
  shows "validateManifest m = [] \<and> register (GrantedPermissionsPolicyChecker gs) m p st = Inl TypeErr"
proof -
  have "validateManifest m = validateManifest (m\<lparr>permissions := Some []\<rparr>)"
    using assms(1) by (simp add: validateManifest_def)
  with assms have "validateManifest m = []" by simp
  with assms(1) show ?thesis by (simp add: register_def Let_def GrantedPermissionsPolicyChecker_def)
qed

theorem missing_permissions_raise_type_error_witness:
  "register (GrantedPermissionsPolicyChecker []) (plain_manifest\<lparr>permissions := None\<rparr>) demo_plugin new_registry
   = Inl TypeErr"
proof -
  have "validateManifest (plain_manifest\<lparr>permissions := None, permissions := Some []\<rparr>) = []" by code_simp
  then show ?thesis
    using missing_permissions_raise_type_error
        [of "plain_manifest\<lparr>permissions := None\<rparr>" "[]" demo_plugin new_registry] by simp
qed

end
