(* ===== verification/Plugin_Hooks.thy ===== *)
theory Plugin_Hooks
  imports Plugin_Types
begin

text \<open>
  The hook manager (\<open>packages/plugin-sdk/src/hooks.ts\<close>): registration into a priority-ordered list,
  removal of a plugin's hooks, and \<open>trigger\<close>, which awaits the handlers of one type in order.  A
  handler is a function of the context, the payload and a host state, so handlers may share state;
  a rejected handler ends \<open>trigger\<close> with its error.  \<open>trigger\<close> filters the list before the first
  \<open>await\<close>, so a registration that happens meanwhile does not change the run.
\<close>

datatype hook_type = BeforeAction | AfterAction | OnEvent | OnSchedule | OnApproval

definition hook_type_value :: "hook_type \<Rightarrow> jstr" where
  "hook_type_value t = (case t of
      BeforeAction \<Rightarrow> ''before_action'' | AfterAction \<Rightarrow> ''after_action'' | OnEvent \<Rightarrow> ''on_event''
    | OnSchedule \<Rightarrow> ''on_schedule'' | OnApproval \<Rightarrow> ''on_approval'')"

definition hook_continue :: "jstr option \<Rightarrow> 'p hook_handler_result" where
  "hook_continue reason = \<lparr>hr_action = Continue, modifiedPayload = None, hr_reason = reason\<rparr>"

definition hook_abort :: "jstr \<Rightarrow> 'p hook_handler_result" where
  "hook_abort reason = \<lparr>hr_action = Abort, modifiedPayload = None, hr_reason = Some reason\<rparr>"

definition hook_modify :: "'p \<Rightarrow> jstr option \<Rightarrow> 'p hook_handler_result" where
  "hook_modify p reason = \<lparr>hr_action = Modify, modifiedPayload = Some p, hr_reason = reason\<rparr>"

record ('p, 'w) hook_entry =
  pluginId :: jstr
  hookType :: hook_type
  priority :: int
  handler :: "('p, 'w) hook_handler"

type_synonym ('p, 'w) hook_manager = "('p, 'w) hook_entry list"

definition hooks_cmp :: "('p, 'w) hook_entry \<Rightarrow> ('p, 'w) hook_entry \<Rightarrow> int" where
  "hooks_cmp a b = priority a - priority b"

definition hooks_register ::
  "jstr \<Rightarrow> hook_type \<Rightarrow> int \<Rightarrow> ('p, 'w) hook_handler \<Rightarrow> ('p, 'w) hook_manager \<Rightarrow> ('p, 'w) hook_manager" where
  "hooks_register pid ht prio h hooks =
     js_sort hooks_cmp (hooks @ [\<lparr>pluginId = pid, hookType = ht, priority = prio, handler = h\<rparr>])"

text \<open>The removal loop counts its index down and splices in place.\<close>

fun unregister_loop :: "jstr \<Rightarrow> nat \<Rightarrow> ('p, 'w) hook_manager \<Rightarrow> ('p, 'w) hook_manager" where
  "unregister_loop pid 0 hooks = hooks"
| "unregister_loop pid (Suc i) hooks =
     unregister_loop pid i
       (if pluginId (hooks ! i) = pid then take i hooks @ drop (Suc i) hooks else hooks)"

definition unregisterPlugin :: "jstr \<Rightarrow> ('p, 'w) hook_manager \<Rightarrow> ('p, 'w) hook_manager" where
  "unregisterPlugin pid hooks = unregister_loop pid (length hooks) hooks"

definition next_payload :: "'p hook_handler_result \<Rightarrow> 'p \<Rightarrow> 'p" where
  "next_payload r payload =
     (if hr_action r = Modify then (case modifiedPayload r of None \<Rightarrow> payload | Some p \<Rightarrow> p) else payload)"

text \<open>The loop of \<open>trigger\<close> over the relevant entries: the results so far, the current payload and the
  host state.\<close>

fun trigger_loop ::
  "hook_type \<Rightarrow> plugin_context \<Rightarrow> ('p, 'w) hook_entry list \<Rightarrow> 'p hook_handler_result list \<Rightarrow> 'p \<Rightarrow> 'w
   \<Rightarrow> (thrown + ('p hook_handler_result list \<times> 'p)) \<times> 'w" where
  "trigger_loop ht ctx [] results payload w = (Inr (results, payload), w)"
| "trigger_loop ht ctx (e # es) results payload w =
     (case handler e ctx payload w of
        (Inl err, w') \<Rightarrow> (Inl err, w')
      | (Inr r, w') \<Rightarrow>
          if ht = BeforeAction \<and> hr_action r = Abort then (Inr (results @ [r], payload), w')
          else trigger_loop ht ctx es (results @ [r])
                 (if ht = BeforeAction then next_payload r payload else payload) w')"

definition trigger ::
  "hook_type \<Rightarrow> plugin_context \<Rightarrow> 'p \<Rightarrow> ('p, 'w) hook_manager \<Rightarrow> 'w
   \<Rightarrow> (thrown + ('p hook_handler_result list \<times> 'p)) \<times> 'w" where
  "trigger ht ctx payload hooks w = trigger_loop ht ctx (filter (\<lambda>h. hookType h = ht) hooks) [] payload w"

definition countByType :: "hook_type \<Rightarrow> ('p, 'w) hook_manager \<Rightarrow> nat" where
  "countByType ht hooks = length (filter (\<lambda>h. hookType h = ht) hooks)"

definition getPluginHookTypes :: "jstr \<Rightarrow> ('p, 'w) hook_manager \<Rightarrow> hook_type list" where
  "getPluginHookTypes pid hooks = set_order (map hookType (filter (\<lambda>h. pluginId h = pid) hooks))"

section \<open>The priority order\<close>

interpretation prio: js_comparator hooks_cmp
  by unfold_locales (auto simp: hooks_cmp_def)

lemma unregister_loop_filter:
  "i \<le> length hooks \<Longrightarrow>
   unregister_loop pid i hooks = filter (\<lambda>h. pluginId h \<noteq> pid) (take i hooks) @ drop i hooks"
proof (induction i arbitrary: hooks)
  case 0
  then show ?case by simp
next
  case (Suc i)
  then have i: "i < length hooks" by simp
  then have tk: "take (Suc i) hooks = take i hooks @ [hooks ! i]" by (simp add: take_Suc_conv_app_nth)
  have dr: "drop i hooks = hooks ! i # drop (Suc i) hooks" using i by (simp add: Cons_nth_drop_Suc)
  show ?case
  proof (cases "pluginId (hooks ! i) = pid")
    case True
    then have "unregister_loop pid (Suc i) hooks = unregister_loop pid i (take i hooks @ drop (Suc i) hooks)"
      by simp
    also have "\<dots> = filter (\<lambda>h. pluginId h \<noteq> pid) (take i hooks) @ drop (Suc i) hooks"
      using i by (subst Suc.IH) auto
    finally show ?thesis using True by (simp add: tk)
  next
    case False
    then have "unregister_loop pid (Suc i) hooks = unregister_loop pid i hooks" by simp
    also have "\<dots> = filter (\<lambda>h. pluginId h \<noteq> pid) (take i hooks) @ drop i hooks"
      using i by (intro Suc.IH) simp
    finally show ?thesis using False by (simp add: tk dr)
  qed
qed

lemma unregisterPlugin_filter: "unregisterPlugin pid hooks = filter (\<lambda>h. pluginId h \<noteq> pid) hooks"
  by (simp add: unregisterPlugin_def unregister_loop_filter)

text \<open>The abstract hook manager keeps the live registrations in the order they were made; the
  program's list is that log, stably sorted by priority.\<close>

datatype ('p, 'w) hook_op = Register jstr hook_type int "('p, 'w) hook_handler" | UnregisterPlugin jstr

fun hook_exec :: "('p, 'w) hook_op \<Rightarrow> ('p, 'w) hook_manager \<Rightarrow> ('p, 'w) hook_manager" where
  "hook_exec (Register pid ht prio h) hooks = hooks_register pid ht prio h hooks"
| "hook_exec (UnregisterPlugin pid) hooks = unregisterPlugin pid hooks"

fun log_exec :: "('p, 'w) hook_op \<Rightarrow> ('p, 'w) hook_entry list \<Rightarrow> ('p, 'w) hook_entry list" where
  "log_exec (Register pid ht prio h) log =
     log @ [\<lparr>pluginId = pid, hookType = ht, priority = prio, handler = h\<rparr>]"
| "log_exec (UnregisterPlugin pid) log = filter (\<lambda>h. pluginId h \<noteq> pid) log"

lemma sort_snoc_sorted: "js_sort hooks_cmp (js_sort hooks_cmp xs @ [x]) = js_sort hooks_cmp (xs @ [x])"
  by (rule prio.sort_unique [symmetric]) (simp_all add: prio.sorted_sort prio.stable)

lemma filter_sort: "filter P (js_sort hooks_cmp xs) = js_sort hooks_cmp (filter P xs)"
proof (rule prio.sort_unique [symmetric])
  show "sorted_wrt (\<lambda>x y. hooks_cmp x y \<le> 0) (filter P (js_sort hooks_cmp xs))"
    by (intro sorted_wrt_filter prio.sorted_sort)
  show "filter (prio.eqv z) (filter P (js_sort hooks_cmp xs)) = filter (prio.eqv z) (filter P xs)" for z
  proof -
    have "filter (prio.eqv z) (filter P (js_sort hooks_cmp xs))
        = filter P (filter (prio.eqv z) (js_sort hooks_cmp xs))"
      by (simp only: filter_filter conj_commute)
    also have "\<dots> = filter P (filter (prio.eqv z) xs)" by (simp only: prio.stable)
    finally show ?thesis by (simp only: filter_filter conj_commute)
  qed
qed

lemma hook_exec_refines:
  "hook_exec oper (js_sort hooks_cmp log) = js_sort hooks_cmp (log_exec oper log)"
  by (cases oper) (simp_all add: hooks_register_def sort_snoc_sorted unregisterPlugin_filter filter_sort)

lemma hook_run_refines:
  "fold hook_exec ops (js_sort hooks_cmp log) = js_sort hooks_cmp (fold log_exec ops log)"
  by (induction ops arbitrary: log) (simp_all add: hook_exec_refines)

section \<open>Running the hooks\<close>

lemma trigger_loop_results:
  "trigger_loop ht ctx es results payload w =
     (case trigger_loop ht ctx es [] payload w of
        (Inl err, w') \<Rightarrow> (Inl err, w')
      | (Inr (rs, p), w') \<Rightarrow> (Inr (results @ rs, p), w'))"
proof (induction es arbitrary: results payload w)
  case Nil
  then show ?case by simp
next
  case (Cons e es)
  obtain o' w' where h: "handler e ctx payload w = (o', w')" by force
  show ?case
  proof (cases o')
    case (Inl err)
    with h show ?thesis by simp
  next
    case (Inr r)
    let ?p = "if ht = BeforeAction then next_payload r payload else payload"
    show ?thesis
      using Cons.IH [of "results @ [r]" ?p w'] Cons.IH [of "[r]" ?p w'] h Inr
      by (auto split: sum.splits prod.splits)
  qed
qed

text \<open>Observers (every type but \<open>before_action\<close>) see the payload unchanged.\<close>

fun collect :: "plugin_context \<Rightarrow> ('p, 'w) hook_entry list \<Rightarrow> 'p \<Rightarrow> 'w
    \<Rightarrow> (thrown + 'p hook_handler_result list) \<times> 'w" where
  "collect ctx [] payload w = (Inr [], w)"
| "collect ctx (e # es) payload w =
     (case handler e ctx payload w of
        (Inl err, w') \<Rightarrow> (Inl err, w')
      | (Inr r, w') \<Rightarrow>
         (case collect ctx es payload w' of
            (Inl err, w'') \<Rightarrow> (Inl err, w'')
          | (Inr rs, w'') \<Rightarrow> (Inr (r # rs), w'')))"

lemma trigger_loop_observer:
  "ht \<noteq> BeforeAction \<Longrightarrow>
   trigger_loop ht ctx es results payload w =
     (case collect ctx es payload w of
        (Inl err, w') \<Rightarrow> (Inl err, w')
      | (Inr rs, w') \<Rightarrow> (Inr (results @ rs, payload), w'))"
  by (induction es arbitrary: results w) (auto split: sum.splits prod.splits)

lemma collect_length: "collect ctx es payload w = (Inr rs, w') \<Longrightarrow> length rs = length es"
  by (induction es arbitrary: w rs w') (auto split: sum.splits prod.splits)

text \<open>The pipeline of \<open>before_action\<close>: running a list of entries either throws, aborts, or passes a
  payload on to the entries that follow.\<close>

lemma trigger_loop_proceed:
  assumes "handler e ctx payload w = (Inr r, w')" and "hr_action r \<noteq> Abort"
  shows "trigger_loop BeforeAction ctx (e # es) [] payload w
       = (case trigger_loop BeforeAction ctx es [] (next_payload r payload) w' of
            (Inl err, w') \<Rightarrow> (Inl err, w') | (Inr (rs, p), w') \<Rightarrow> (Inr (r # rs, p), w'))"
proof -
  have "trigger_loop BeforeAction ctx (e # es) [] payload w
      = trigger_loop BeforeAction ctx es [r] (next_payload r payload) w'"
    using assms by simp
  then show ?thesis
    using trigger_loop_results [of BeforeAction ctx es "[r]" "next_payload r payload" w']
    by (simp split: sum.splits prod.splits)
qed

lemma trigger_loop_append:
  "trigger_loop BeforeAction ctx (es @ fs) [] payload w =
     (case trigger_loop BeforeAction ctx es [] payload w of
        (Inl err, w') \<Rightarrow> (Inl err, w')
      | (Inr (rs, p), w') \<Rightarrow>
          if rs \<noteq> [] \<and> hr_action (last rs) = Abort then (Inr (rs, p), w')
          else trigger_loop BeforeAction ctx fs rs p w')"
proof (induction es arbitrary: payload w)
  case Nil
  then show ?case by simp
next
  case (Cons e es)
  obtain o' w' where h: "handler e ctx payload w = (o', w')" by force
  consider (thrown) err where "o' = Inl err" | (abort) r where "o' = Inr r" "hr_action r = Abort"
    | (proceed) r where "o' = Inr r" "hr_action r \<noteq> Abort"
    by (cases o') auto
  then show ?case
  proof cases
    case thrown
    with h show ?thesis by simp
  next
    case abort
    with h show ?thesis by simp
  next
    case proceed
    note step = trigger_loop_proceed [where es = "es @ fs", OF h [unfolded proceed(1)] proceed(2)]
      trigger_loop_proceed [where es = es, OF h [unfolded proceed(1)] proceed(2)]
    have "trigger_loop BeforeAction ctx fs (r # rs) p w''
        = (case trigger_loop BeforeAction ctx fs rs p w'' of
             (Inl err, w') \<Rightarrow> (Inl err, w') | (Inr (rs, p), w') \<Rightarrow> (Inr (r # rs, p), w'))" for rs p w''
      using trigger_loop_results [of BeforeAction ctx fs "r # rs" p w'']
        trigger_loop_results [of BeforeAction ctx fs rs p w'']
      by (simp split: sum.splits prod.splits)
    note snoc = this
    obtain R w2 where run: "trigger_loop BeforeAction ctx es [] (next_payload r payload) w' = (R, w2)" by force
    show ?thesis
    proof (cases R)
      case (Inl err)
      with run step Cons.IH [of "next_payload r payload" w'] show ?thesis by simp
    next
      case (Inr q)
      then obtain rs p where R: "R = Inr (rs, p)" by (cases q) auto
      have "(rs \<noteq> [] \<and> hr_action (last rs) = Abort) = (hr_action (last (r # rs)) = Abort)"
        using proceed(2) by simp
      with run step R Cons.IH [of "next_payload r payload" w'] show ?thesis
        by (simp add: snoc del: trigger_loop.simps)
    qed
  qed
qed

lemma trigger_loop_abort_last:
  "trigger_loop BeforeAction ctx es [] payload w = (Inr (rs, p), w') \<Longrightarrow> r \<in> set (butlast rs)
   \<Longrightarrow> hr_action r \<noteq> Abort"
proof (induction es arbitrary: payload w rs)
  case Nil
  then show ?case by simp
next
  case (Cons e es)
  obtain o' w1 where h: "handler e ctx payload w = (o', w1)" by force
  with Cons.prems obtain r0 where r0: "o' = Inr r0" by (cases o') auto
  show ?case
  proof (cases "hr_action r0 = Abort")
    case True
    with Cons.prems h r0 show ?thesis by auto
  next
    case False
    from Cons.prems(1) obtain rs' where
      rest: "trigger_loop BeforeAction ctx es [] (next_payload r0 payload) w1 = (Inr (rs', p), w')"
      and rs: "rs = r0 # rs'"
      using trigger_loop_proceed [where es = es, OF h [unfolded r0] False]
      by (auto split: sum.splits prod.splits)
    from Cons.prems(2) rs have "r = r0 \<or> r \<in> set (butlast rs')" by (auto split: if_splits)
    with Cons.IH [OF rest] False show ?thesis by blast
  qed
qed

section \<open>Properties\<close>

text \<open>C16.  After any sequence of registrations and removals the manager's list is the live
  registrations, stably sorted by priority: lower priorities first, equal priorities in
  registration order.\<close>

theorem hook_manager_refines_log:
  "fold hook_exec ops [] = js_sort hooks_cmp (fold log_exec ops [])
   \<and> sorted (map priority (fold hook_exec ops []))
   \<and> filter (\<lambda>h. priority h = n) (fold hook_exec ops []) = filter (\<lambda>h. priority h = n) (fold log_exec ops [])"
proof -
  have run: "fold hook_exec ops [] = js_sort hooks_cmp (fold log_exec ops [])"
    using hook_run_refines [of ops "[]"] by simp
  have "sorted (map priority (js_sort hooks_cmp xs))" for xs :: "('a, 'b) hook_entry list"
    using prio.sorted_sort [of xs] by (simp add: hooks_cmp_def sorted_map)
  moreover have "filter (\<lambda>h. priority h = n) (js_sort hooks_cmp xs) = filter (\<lambda>h. priority h = n) xs"
    for xs :: "('a, 'b) hook_entry list"
  proof -
    have "filter (prio.eqv \<lparr>pluginId = [], hookType = OnEvent, priority = n, handler = h\<rparr>)
        = filter (\<lambda>h. priority h = n)" for h :: "('a, 'b) hook_handler"
      by (rule arg_cong [where f = filter]) (auto simp: prio.eqv_def hooks_cmp_def fun_eq_iff)
    then show ?thesis using prio.stable by metis
  qed
  ultimately show ?thesis using run by simp
qed

text \<open>Removing a plugin's hooks removes exactly those: none of its hooks is left, no hook type is
  reported for it, and every other plugin's hooks stay, in order.\<close>

theorem unregisterPlugin_exact:
  "getPluginHookTypes pid (unregisterPlugin pid hooks) = []
   \<and> filter (\<lambda>h. pluginId h \<noteq> pid) (unregisterPlugin pid hooks) = filter (\<lambda>h. pluginId h \<noteq> pid) hooks
   \<and> unregisterPlugin pid (unregisterPlugin pid hooks) = unregisterPlugin pid hooks"
  by (simp add: unregisterPlugin_filter getPluginHookTypes_def set_order_def)

text \<open>C18.  A \<open>before_action\<close> run that meets an abort stops there: the handlers behind the aborting one
  are not run (the host state is the one it left), the abort is the last result, and the final
  payload is the one the aborting handler was given.\<close>

theorem abort_short_circuits:
  assumes "filter (\<lambda>h. hookType h = BeforeAction) hooks = es @ e # fs"
    and "trigger_loop BeforeAction ctx es [] payload w = (Inr (rs, p), w1)"
    and "list_all (\<lambda>r. hr_action r \<noteq> Abort) rs"
    and "handler e ctx p w1 = (Inr r, w2)" and "hr_action r = Abort"
  shows "trigger BeforeAction ctx payload hooks w = (Inr (rs @ [r], p), w2)"
proof -
  have "rs = [] \<or> hr_action (last rs) \<noteq> Abort" using assms(3) by (auto simp: list_all_iff)
  then have "trigger_loop BeforeAction ctx (es @ e # fs) [] payload w
      = trigger_loop BeforeAction ctx (e # fs) rs p w1"
    using assms(2) by (subst trigger_loop_append) auto
  also have "\<dots> = (Inr (rs @ [r], p), w2)" using assms(4,5) by simp
  finally show ?thesis using assms(1) by (simp add: trigger_def)
qed

definition demo_ctx :: plugin_context where
  "demo_ctx = \<lparr>workspace = \<lparr>ws_id = ''w'', ws_name = ''W'', deploymentMode = Solo\<rparr>,
     user = \<lparr>usr_id = ''u'', displayName = ''U'', role = ''admin''\<rparr>\<rparr>"

definition doubler :: "(nat, nat) hook_handler" where
  "doubler ctx p w = (Inr (hook_modify (2 * p) None), Suc w)"

definition stopper :: "(nat, nat) hook_handler" where
  "stopper ctx p w = (Inr (hook_abort ''no''), Suc w)"

definition demo_hooks :: "(nat, nat) hook_manager" where
  "demo_hooks = fold hook_exec
     [Register ''c'' BeforeAction 300 doubler, Register ''b'' BeforeAction 200 stopper,
      Register ''a'' BeforeAction 100 doubler] []"

theorem abort_short_circuits_witness:
  "trigger BeforeAction demo_ctx 21 demo_hooks 0
   = (Inr ([hook_modify 42 None, hook_abort ''no''], 42), 2)"
proof -
  let ?a = "\<lparr>pluginId = ''a'', hookType = BeforeAction, priority = 100, handler = doubler\<rparr>"
  let ?b = "\<lparr>pluginId = ''b'', hookType = BeforeAction, priority = 200, handler = stopper\<rparr>"
  let ?c = "\<lparr>pluginId = ''c'', hookType = BeforeAction, priority = 300, handler = doubler\<rparr>"
  have hs: "filter (\<lambda>h. hookType h = BeforeAction) demo_hooks = [?a] @ ?b # [?c]"
    by (simp add: demo_hooks_def hooks_register_def hooks_cmp_def)
  have "trigger_loop BeforeAction demo_ctx [?a] [] 21 0 = (Inr ([hook_modify 42 None], 42), 1)"
    by (simp add: doubler_def hook_modify_def next_payload_def)
  from abort_short_circuits [OF hs this] show ?thesis
    by (simp add: stopper_def hook_abort_def hook_modify_def numeral_2_eq_2)
qed

text \<open>Hooks of every other type are observers: unless a handler throws, each relevant handler is
  run once, in priority order, with the original payload, the results are collected one per
  handler, and the final payload is the original.\<close>

lemma observers_cannot_alter_flow:
  assumes "ht \<noteq> BeforeAction" and "trigger ht ctx payload hooks w = (Inr (rs, final), w')"
  shows "final = payload \<and> length rs = countByType ht hooks
    \<and> collect ctx (filter (\<lambda>h. hookType h = ht) hooks) payload w = (Inr rs, w')"
  using assms
  by (auto simp: trigger_def trigger_loop_observer countByType_def dest: collect_length
      split: sum.splits prod.splits)

theorem observers_cannot_alter_flow_witness:
  "\<exists>rs final w'. trigger AfterAction demo_ctx 21 (hook_exec (Register ''d'' AfterAction 5 doubler) demo_hooks) 0
     = (Inr (rs, final), w') \<and> final = 21 \<and> length rs = 1"
proof -
  let ?hooks = "hook_exec (Register ''d'' AfterAction 5 doubler) demo_hooks"
  let ?d = "\<lparr>pluginId = ''d'', hookType = AfterAction, priority = 5, handler = doubler\<rparr>"
  have fl: "filter (\<lambda>h. hookType h = AfterAction) ?hooks = [?d]"
    by (simp add: demo_hooks_def hooks_register_def hooks_cmp_def)
  then have run: "trigger AfterAction demo_ctx 21 ?hooks 0 = (Inr ([hook_modify 42 None], 21), 1)"
    by (simp add: trigger_def doubler_def)
  have "length [hook_modify 42 None :: nat hook_handler_result] = countByType AfterAction ?hooks"
    using observers_cannot_alter_flow [OF _ run] by blast
  with run show ?thesis by auto
qed

end
