(* ===== verification/Plugin_Sandbox.thy ===== *)
theory Plugin_Sandbox
  imports Plugin_Types
begin

text \<open>
  Plugin sandboxes (\<open>packages/plugin-sdk/src/sandbox.ts\<close>): the configuration with its defaults, the
  strategy-agnostic interface as the locale \<open>plugin_sandbox\<close>, and its two implementations.  Both are
  placeholders in the source; what they promise is that nothing runs: every execution fails, so a
  caller is never handed plugin output.  A field of a partial configuration is absent (\<^const>\<open>None\<close>)
  or given, and a given field may itself be \<open>undefined\<close>, which the object spread keeps.
\<close>

section \<open>Configuration\<close>

record sandbox_config =
  timeoutMs :: "int option"
  memoryLimitBytes :: "int option"
  allowedApis :: "jstr list option"
  networkAccess :: "bool option"

record partial_sandbox_config =
  p_timeoutMs :: "int option option"
  p_memoryLimitBytes :: "int option option"
  p_allowedApis :: "jstr list option option"
  p_networkAccess :: "bool option option"

definition empty_partial :: partial_sandbox_config where
  "empty_partial = \<lparr>p_timeoutMs = None, p_memoryLimitBytes = None, p_allowedApis = None, p_networkAccess = None\<rparr>"

definition DEFAULT_SANDBOX_CONFIG :: sandbox_config where
  "DEFAULT_SANDBOX_CONFIG =
     \<lparr>timeoutMs = Some 30000, memoryLimitBytes = Some (64 * 1024 * 1024),
      allowedApis = Some [''logger'', ''events'', ''storage.read''], networkAccess = Some False\<rparr>"

definition spread_field :: "'a option \<Rightarrow> 'a option option \<Rightarrow> 'a option" where
  "spread_field d p = (case p of None \<Rightarrow> d | Some v \<Rightarrow> v)"

definition spread_config :: "sandbox_config \<Rightarrow> partial_sandbox_config \<Rightarrow> sandbox_config" where
  "spread_config d c =
     \<lparr>timeoutMs = spread_field (timeoutMs d) (p_timeoutMs c),
      memoryLimitBytes = spread_field (memoryLimitBytes d) (p_memoryLimitBytes c),
      allowedApis = spread_field (allowedApis d) (p_allowedApis c),
      networkAccess = spread_field (networkAccess d) (p_networkAccess c)\<rparr>"

record 'o sandbox_execution_result =
  success :: bool
  sb_output :: "'o option"
  sb_error :: "jstr option"
  durationMs :: int

section \<open>The two strategies\<close>

definition show_timeout :: "sandbox_config \<Rightarrow> jstr" where
  "show_timeout c = (case timeoutMs c of None \<Rightarrow> ''undefined'' | Some t \<Rightarrow> int_str t)"

definition not_implemented :: "jstr \<Rightarrow> sandbox_config \<Rightarrow> jstr \<Rightarrow> jstr \<Rightarrow> jstr" where
  "not_implemented cls c pluginId action =
     cls @ '' not yet implemented (plugin='' @ pluginId @ '', action='' @ action @ '', timeout=''
     @ show_timeout c @ ''ms)''"

definition new_WasmSandbox :: "partial_sandbox_config \<Rightarrow> sandbox_config" where
  "new_WasmSandbox config = spread_config DEFAULT_SANDBOX_CONFIG config"

definition wasm_execute :: "sandbox_config \<Rightarrow> jstr \<Rightarrow> jstr \<Rightarrow> 'i \<Rightarrow> 'o sandbox_execution_result \<times> sandbox_config" where
  "wasm_execute c pluginId action inp =
     (\<lparr>success = False, sb_output = None,
       sb_error = Some (not_implemented ''WasmSandbox'' c pluginId action), durationMs = 0\<rparr>, c)"

definition wasm_terminate :: "sandbox_config \<Rightarrow> jstr \<Rightarrow> sandbox_config" where
  "wasm_terminate c pluginId = c"

definition wasm_dispose :: "sandbox_config \<Rightarrow> sandbox_config" where
  "wasm_dispose c = c"

definition new_ProcessSandbox :: "partial_sandbox_config \<Rightarrow> sandbox_config" where
  "new_ProcessSandbox config = spread_config DEFAULT_SANDBOX_CONFIG config"

definition process_execute :: "sandbox_config \<Rightarrow> jstr \<Rightarrow> jstr \<Rightarrow> 'i \<Rightarrow> 'o sandbox_execution_result \<times> sandbox_config" where
  "process_execute c pluginId action inp =
     (\<lparr>success = False, sb_output = None,
       sb_error = Some (not_implemented ''ProcessSandbox'' c pluginId action), durationMs = 0\<rparr>, c)"

definition process_terminate :: "sandbox_config \<Rightarrow> jstr \<Rightarrow> sandbox_config" where
  "process_terminate c pluginId = c"

definition process_dispose :: "sandbox_config \<Rightarrow> sandbox_config" where
  "process_dispose c = c"

section \<open>The interface\<close>

datatype 'i sandbox_call = Execute jstr jstr 'i | Terminate jstr | Dispose

text \<open>What a host may rely on with either strategy: a result is either a success or carries an error
  that names the plugin and the action, never both and never output without success.\<close>

locale plugin_sandbox =
  fixes execute :: "'s \<Rightarrow> jstr \<Rightarrow> jstr \<Rightarrow> 'i \<Rightarrow> 'o sandbox_execution_result \<times> 's"
    and terminate :: "'s \<Rightarrow> jstr \<Rightarrow> 's" and dispose :: "'s \<Rightarrow> 's"
  assumes honest: "success (fst (execute s p a i)) \<longleftrightarrow> sb_error (fst (execute s p a i)) = None"
    and output_success: "sb_output (fst (execute s p a i)) \<noteq> None \<Longrightarrow> success (fst (execute s p a i))"
    and error_names: "sb_error (fst (execute s p a i)) = Some e \<Longrightarrow> js_includes e p \<and> js_includes e a"
begin

fun calls :: "'i sandbox_call list \<Rightarrow> 's \<Rightarrow> 'o sandbox_execution_result list" where
  "calls [] s = []"
| "calls (Execute p a i # cs) s = (case execute s p a i of (r, s') \<Rightarrow> r # calls cs s')"
| "calls (Terminate p # cs) s = calls cs (terminate s p)"
| "calls (Dispose # cs) s = calls cs (dispose s)"

lemma calls_honest: "r \<in> set (calls cs s) \<Longrightarrow> (success r \<longleftrightarrow> sb_error r = None) \<and> (sb_output r \<noteq> None \<longrightarrow> success r)"
proof (induction cs s rule: calls.induct)
  case (2 p a i cs s)
  obtain r0 s0 where e: "execute s p a i = (r0, s0)" by force
  from e honest [of s p a i] output_success [of s p a i] 2 show ?case by auto
qed auto

end

lemma includes_infix: "js_includes (pre @ s @ post) s"
  by (auto simp: js_includes_iff)

lemma not_implemented_names:
  "js_includes (not_implemented cls c p a) p \<and> js_includes (not_implemented cls c p a) a"
proof
  show "js_includes (not_implemented cls c p a) p"
    using includes_infix [of "cls @ '' not yet implemented (plugin=''" p] by (simp add: not_implemented_def)
  show "js_includes (not_implemented cls c p a) a"
    using includes_infix [of "cls @ '' not yet implemented (plugin='' @ p @ '', action=''" a]
    by (simp add: not_implemented_def)
qed

interpretation wasm: plugin_sandbox wasm_execute wasm_terminate wasm_dispose
  by unfold_locales (auto simp: wasm_execute_def not_implemented_names)

interpretation process: plugin_sandbox process_execute process_terminate process_dispose
  by unfold_locales (auto simp: process_execute_def not_implemented_names)

lemma wasm_calls_fail: "r \<in> set (wasm.calls cs s) \<Longrightarrow> \<not> success r"
  by (induction cs s rule: wasm.calls.induct) (auto simp: wasm_execute_def)

lemma process_calls_fail: "r \<in> set (process.calls cs s) \<Longrightarrow> \<not> success r"
  by (induction cs s rule: process.calls.induct) (auto simp: process_execute_def)

text \<open>
  The sandboxes fail closed: whatever sequence of calls a host makes, with whatever configuration, no
  call reports success, none hands out plugin output, and each reports an error.
\<close>

theorem sandboxes_fail_closed:
  assumes "r \<in> set (wasm.calls cs (new_WasmSandbox cfg)) \<union> set (process.calls cs (new_ProcessSandbox cfg))"
  shows "\<not> success r \<and> sb_output r = None \<and> sb_error r \<noteq> None"
  using assms by (metis UnE wasm.calls_honest process.calls_honest wasm_calls_fail process_calls_fail)

lemma sandboxes_fail_closed_witness:
  "\<not> success (hd (wasm.calls [Terminate ''p'', Execute ''p'' ''run'' ()] (new_WasmSandbox empty_partial)
     :: nat sandbox_execution_result list))"
  using sandboxes_fail_closed [of "hd (wasm.calls [Terminate ''p'', Execute ''p'' ''run'' ()] (new_WasmSandbox empty_partial))"
      "[Terminate ''p'', Execute ''p'' ''run'' ()]" empty_partial]
  by (simp add: wasm_execute_def)

lemma sandbox_defaults_are_restrictive:
  assumes "p_networkAccess cfg = None" and "p_allowedApis cfg = None"
  shows "networkAccess (new_WasmSandbox cfg) = Some False \<and> networkAccess (new_ProcessSandbox cfg) = Some False
    \<and> allowedApis (new_WasmSandbox cfg) = Some [''logger'', ''events'', ''storage.read'']
    \<and> allowedApis (new_ProcessSandbox cfg) = Some [''logger'', ''events'', ''storage.read'']"
  using assms by (simp add: new_WasmSandbox_def new_ProcessSandbox_def spread_config_def spread_field_def DEFAULT_SANDBOX_CONFIG_def)

end
