(* ===== verification/Inbox_Page.thy ===== *)
theory Inbox_Page
  imports Routed_Page React_Effects
begin

text \<open>
  The Inbox page (\<open>apps/web/src/pages/v2/Inbox.tsx\<close> with the wire types of \<open>_mocks/inbox.ts\<close>): the
  items reducer, the derived lists (chip filter, counts, sorted view, selected item), the handlers of
  the page and its effects.  A page event is one user action or one response of the route loader; it
  runs its handler and then the effects, as a render does.  \<open>inbox_reach\<close> are the states any sequence
  of events the page offers can lead to.  Icons, class names and layout are not modelled.
\<close>

section \<open>Wire types\<close>

datatype source = SEmail | STelegram | SWebhook | SCalendar

datatype risk = Low | Medium | High

datatype status = Awaiting | Drafted | Held | Done

record email_draft =
  em_from :: jstr
  em_to :: jstr
  em_cc :: "jstr option"
  em_subject :: jstr
  em_body :: "jstr list"

record calendar_draft =
  cal_invite :: jstr
  cal_when :: jstr
  cal_where :: jstr
  cal_attendees :: "jstr list"
  cal_description :: jstr

datatype webhook_method = POST | PUT | PATCH | DELETE

record webhook_draft =
  wh_endpoint :: jstr
  wh_method :: webhook_method
  wh_fields :: "(jstr \<times> jstr) list"

record telegram_draft =
  tg_chat :: jstr
  tg_reply_to :: jstr
  tg_body :: jstr

datatype draft =
    EmailDraft email_draft | CalendarDraft calendar_draft | WebhookDraft webhook_draft | TelegramDraft telegram_draft

record safety_shape =
  can :: "jstr list"
  cannot :: "jstr list"
  needsApproval :: "jstr list"
  stopsIf :: "jstr list"

record audit_step =
  at_time :: jstr
  actor :: jstr
  note_text :: jstr

record item =
  item_id :: jstr
  item_status :: status
  item_title :: jstr
  item_source :: source
  item_risk :: risk
  minutesAgo :: int
  item_summary :: jstr
  item_cause :: jstr
  routedBy :: jstr
  unread :: bool
  item_draft :: "draft option"
  item_safety :: safety_shape
  item_audit :: "audit_step list"

section \<open>Tables and small functions\<close>

datatype tone_name = ToneSafe | ToneWarning | ToneBlocked | ToneRecovered | ToneQuarantined | ToneAccent | ToneNeutral

primrec STATUS_TONE :: "status \<Rightarrow> tone_name" where
  "STATUS_TONE Awaiting = ToneWarning"
| "STATUS_TONE Drafted = ToneAccent"
| "STATUS_TONE Held = ToneBlocked"
| "STATUS_TONE Done = ToneSafe"

primrec RISK_TONE :: "risk \<Rightarrow> tone_name" where
  "RISK_TONE Low = ToneSafe"
| "RISK_TONE Medium = ToneWarning"
| "RISK_TONE High = ToneBlocked"

primrec risk_label :: "risk \<Rightarrow> jstr" where
  "risk_label Low = ''low risk''"
| "risk_label Medium = ''med risk''"
| "risk_label High = ''high risk''"

primrec source_label :: "source \<Rightarrow> jstr" where
  "source_label SEmail = ''Email''"
| "source_label SCalendar = ''Calendar''"
| "source_label SWebhook = ''Webhook''"
| "source_label STelegram = ''Telegram''"

primrec status_label :: "status \<Rightarrow> jstr" where
  "status_label Awaiting = ''Awaiting approval''"
| "status_label Drafted = ''Draft''"
| "status_label Held = ''Held for review''"
| "status_label Done = ''Done''"

definition safety_sections :: "safety_shape \<Rightarrow> (jstr \<times> jstr list \<times> tone_name) list" where
  "safety_sections s =
     [(''Can'', can s, ToneSafe), (''Needs approval'', needsApproval s, ToneWarning),
      (''Cannot'', cannot s, ToneBlocked), (''Stops if'', stopsIf s, ToneQuarantined)]"

datatype chip_id = ChipAll | ChipOf status

definition CHIPS :: "(chip_id \<times> jstr \<times> tone_name) list" where
  "CHIPS =
     [(ChipAll, ''All'', ToneNeutral),
      (ChipOf Awaiting, ''Awaiting approval'', ToneWarning),
      (ChipOf Drafted, ''Drafts'', ToneAccent),
      (ChipOf Held, ''Held for review'', ToneBlocked),
      (ChipOf Done, ''Done today'', ToneSafe)]"

definition applyChip :: "item list \<Rightarrow> chip_id \<Rightarrow> item list" where
  "applyChip its c = (case c of ChipAll \<Rightarrow> its | ChipOf st \<Rightarrow> filter (\<lambda>i. item_status i = st) its)"

definition relTime :: "int \<Rightarrow> jstr" where
  "relTime m =
     (if m < 1 then ''just now''
      else if m < 60 then int_str m @ ''m ago''
      else let h = m div 60 in
        if h < 24 then int_str h @ ''h ago'' else int_str (h div 24) @ ''d ago'')"

definition approve_label :: "item \<Rightarrow> jstr" where
  "approve_label it = ''Approve '' @
     (case item_draft it of Some (EmailDraft d) \<Rightarrow> ''& send'' | Some (CalendarDraft d) \<Rightarrow> ''& send invite'' | _ \<Rightarrow> [])"

section \<open>The reducer\<close>

datatype item_action =
    Approve jstr | Deny jstr jstr | Snooze jstr | EditCommit jstr draft | MarkRead jstr | Replace "item list"

definition you_did :: "jstr \<Rightarrow> audit_step" where
  "you_did n = \<lparr>at_time = ''just now'', actor = ''You'', note_text = n\<rparr>"

definition approve_item :: "item \<Rightarrow> item" where
  "approve_item it =
     it\<lparr>item_status := Done, minutesAgo := 0, unread := False,
        item_cause := ''You approved this just now '' @ u_mdash @ '' sent.'',
        item_audit := you_did ''Approved.'' # item_audit it\<rparr>"

definition deny_item :: "jstr \<Rightarrow> item \<Rightarrow> item" where
  "deny_item cause it =
     it\<lparr>item_status := Held, minutesAgo := 0, unread := False, item_cause := cause,
        item_audit := you_did (''Denied '' @ u_mdash @ '' '' @ cause) # item_audit it\<rparr>"

definition snooze_item :: "item \<Rightarrow> item" where
  "snooze_item it =
     it\<lparr>minutesAgo := 60, unread := True, item_audit := you_did ''Snoozed 1h.'' # item_audit it\<rparr>"

definition edit_item :: "draft \<Rightarrow> item \<Rightarrow> item" where
  "edit_item d it = it\<lparr>item_draft := Some d, item_audit := you_did ''Edited draft.'' # item_audit it\<rparr>"

definition read_item :: "item \<Rightarrow> item" where
  "read_item it = it\<lparr>unread := False\<rparr>"

fun itemsReducer :: "item list \<Rightarrow> item_action \<Rightarrow> item list" where
  "itemsReducer st (Replace its) = its"
| "itemsReducer st (Approve i) = update_by item_id i approve_item st"
| "itemsReducer st (Deny i cause) = update_by item_id i (deny_item cause) st"
| "itemsReducer st (Snooze i) =
     filter (\<lambda>it. item_id it \<noteq> i) st @ map snooze_item (filter (\<lambda>it. item_id it = i) st)"
| "itemsReducer st (EditCommit i d) = update_by item_id i (edit_item d) st"
| "itemsReducer st (MarkRead i) = update_by item_id i read_item st"

section \<open>Page state and derived values\<close>

datatype toast_kind = TApproved | TDenied | TSnoozed

record toast_state =
  toast_kind :: toast_kind
  toast_title :: jstr

primrec toast_verb :: "toast_kind \<Rightarrow> jstr" where
  "toast_verb TApproved = ''Approved '' @ u_middot @ '' sent''"
| "toast_verb TDenied = ''Denied '' @ u_middot @ '' held for review''"
| "toast_verb TSnoozed = ''Snoozed 1h''"

record inbox_state =
  items :: "item list"
  chip :: chip_id
  selectedId :: "jstr option"
  editing :: bool
  draftBuffer :: "draft option"
  toast :: "toast_state option"
  mobileDetailOpen :: bool

definition counts :: "item list \<Rightarrow> chip_id \<Rightarrow> nat" where
  "counts its c =
     (case c of ChipAll \<Rightarrow> length its | ChipOf st \<Rightarrow> length (filter (\<lambda>i. item_status i = st) its))"

definition visible_cmp :: "item \<Rightarrow> item \<Rightarrow> int" where
  "visible_cmp a b =
     (if unread a \<noteq> unread b then (if unread a then - 1 else 1) else minutesAgo a - minutesAgo b)"

definition visible :: "inbox_state \<Rightarrow> item list" where
  "visible s = js_sort visible_cmp (applyChip (items s) (chip s))"

definition find_item :: "jstr \<Rightarrow> item list \<Rightarrow> item option" where
  "find_item i its = find (\<lambda>it. item_id it = i) its"

definition head_opt :: "'a list \<Rightarrow> 'a option" where
  "head_opt xs = (case xs of [] \<Rightarrow> None | x # _ \<Rightarrow> Some x)"

definition selected :: "inbox_state \<Rightarrow> item option" where
  "selected s =
     (case Option.bind (selectedId s) (\<lambda>i. find_item i (items s)) of
        Some it \<Rightarrow> Some it
      | None \<Rightarrow> head_opt (visible s))"

definition isActionable :: "item \<Rightarrow> bool" where
  "isActionable it \<longleftrightarrow> item_status it \<noteq> Done"

section \<open>Effects\<close>

definition load_effect :: "item list \<Rightarrow> inbox_state \<Rightarrow> inbox_state" where
  "load_effect nxt s =
     s\<lparr>items := itemsReducer (items s) (Replace nxt),
       selectedId := (case nxt of [] \<Rightarrow> selectedId s | it # _ \<Rightarrow> Some (item_id it))\<rparr>"

definition mark_read_effect :: "inbox_state \<Rightarrow> inbox_state" where
  "mark_read_effect s =
     (case selected s of
        None \<Rightarrow> s
      | Some it \<Rightarrow> if unread it then s\<lparr>items := itemsReducer (items s) (MarkRead (item_id it))\<rparr> else s)"

text \<open>The last effect selects the first visible item when nothing is selected; like the other one it
  sees the values of the render it belongs to.\<close>

definition after_render :: "inbox_state \<Rightarrow> inbox_state" where
  "after_render s =
     (case (selected s, visible s) of
        (None, v # _) \<Rightarrow> (mark_read_effect s)\<lparr>selectedId := Some (item_id v)\<rparr>
      | _ \<Rightarrow> mark_read_effect s)"

definition toast_timeout :: "inbox_state \<Rightarrow> inbox_state" where
  "toast_timeout s = s\<lparr>toast := None\<rparr>"

section \<open>Handlers\<close>

definition onSelect :: "jstr \<Rightarrow> inbox_state \<Rightarrow> inbox_state" where
  "onSelect i s = s\<lparr>selectedId := Some i, editing := False, draftBuffer := None, mobileDetailOpen := True\<rparr>"

definition onApprove :: "inbox_state \<Rightarrow> inbox_state" where
  "onApprove s =
     (case selected s of None \<Rightarrow> s
      | Some it \<Rightarrow> s\<lparr>toast := Some \<lparr>toast_kind = TApproved, toast_title = item_title it\<rparr>,
                     items := itemsReducer (items s) (Approve (item_id it)), editing := False\<rparr>)"

definition onDeny :: "inbox_state \<Rightarrow> inbox_state" where
  "onDeny s =
     (case selected s of None \<Rightarrow> s
      | Some it \<Rightarrow> s\<lparr>toast := Some \<lparr>toast_kind = TDenied, toast_title = item_title it\<rparr>,
                     items := itemsReducer (items s) (Deny (item_id it) ''You denied this just now.''),
                     editing := False\<rparr>)"

definition onSnooze :: "inbox_state \<Rightarrow> inbox_state" where
  "onSnooze s =
     (case selected s of None \<Rightarrow> s
      | Some it \<Rightarrow> s\<lparr>toast := Some \<lparr>toast_kind = TSnoozed, toast_title = item_title it\<rparr>,
                     items := itemsReducer (items s) (Snooze (item_id it))\<rparr>)"

definition onEdit :: "inbox_state \<Rightarrow> inbox_state" where
  "onEdit s =
     (case selected s of None \<Rightarrow> s
      | Some it \<Rightarrow> (case item_draft it of None \<Rightarrow> s | Some d \<Rightarrow> s\<lparr>draftBuffer := Some d, editing := True\<rparr>))"

definition onCommitEdit :: "inbox_state \<Rightarrow> inbox_state" where
  "onCommitEdit s =
     (case (selected s, draftBuffer s) of
        (Some it, Some d) \<Rightarrow> s\<lparr>items := itemsReducer (items s) (EditCommit (item_id it) d), editing := False\<rparr>
      | _ \<Rightarrow> s)"

definition onCancelEdit :: "inbox_state \<Rightarrow> inbox_state" where
  "onCancelEdit s = s\<lparr>editing := False, draftBuffer := None\<rparr>"

text \<open>The draft the drawer shows, and what its input fields do to it.  An email body is edited as one
  text with blank lines between paragraphs.\<close>

definition shown_draft :: "inbox_state \<Rightarrow> draft option" where
  "shown_draft s =
     (case selected s of None \<Rightarrow> None
      | Some it \<Rightarrow> (case item_draft it of None \<Rightarrow> None
          | Some d \<Rightarrow> (if editing s then (case draftBuffer s of None \<Rightarrow> Some d | Some b \<Rightarrow> Some b) else Some d)))"

definition nl :: char where
  "nl = CHR 0x0A"

fun split_paras :: "jstr \<Rightarrow> jstr list" where
  "split_paras [] = [[]]"
| "split_paras [c] = [[c]]"
| "split_paras (c # d # s) =
     (if c = nl \<and> d = nl then [] # split_paras s
      else (case split_paras (d # s) of [] \<Rightarrow> [[c]] | h # t \<Rightarrow> (c # h) # t))"

datatype draft_input = SubjectInput jstr | BodyInput jstr

definition edit_draft :: "draft_input \<Rightarrow> draft \<Rightarrow> draft option" where
  "edit_draft i d =
     (case (d, i) of
        (EmailDraft e, SubjectInput t) \<Rightarrow> Some (EmailDraft (e\<lparr>em_subject := t\<rparr>))
      | (EmailDraft e, BodyInput t) \<Rightarrow> Some (EmailDraft (e\<lparr>em_body := split_paras t\<rparr>))
      | (TelegramDraft g, BodyInput t) \<Rightarrow> Some (TelegramDraft (g\<lparr>tg_body := t\<rparr>))
      | _ \<Rightarrow> None)"

section \<open>Page events\<close>

text \<open>The footer and the edit controls are there for an open item only.\<close>

definition can_act :: "inbox_state \<Rightarrow> bool" where
  "can_act s \<longleftrightarrow> (case selected s of None \<Rightarrow> False | Some it \<Rightarrow> isActionable it)"

datatype inbox_event =
    PickChip chip_id | SelectItem jstr | ApproveClick | DenyClick | SnoozeClick | EditClick | CancelClick
  | SaveClick | Typed draft_input | BackClick | ToastTimeout | Loaded "item list"

fun inbox_enabled :: "inbox_event \<Rightarrow> inbox_state \<Rightarrow> bool" where
  "inbox_enabled (PickChip c) s = True"
| "inbox_enabled (SelectItem i) s = (i \<in> item_id ` set (visible s))"
| "inbox_enabled ApproveClick s = can_act s"
| "inbox_enabled DenyClick s = can_act s"
| "inbox_enabled SnoozeClick s = True"
| "inbox_enabled EditClick s = can_act s"
| "inbox_enabled CancelClick s = (editing s \<and> can_act s \<and> shown_draft s \<noteq> None)"
| "inbox_enabled SaveClick s = (editing s \<and> can_act s \<and> shown_draft s \<noteq> None)"
| "inbox_enabled (Typed i) s = (editing s \<and> Option.bind (shown_draft s) (edit_draft i) \<noteq> None)"
| "inbox_enabled BackClick s = True"
| "inbox_enabled ToastTimeout s = (toast s \<noteq> None)"
| "inbox_enabled (Loaded its) s = True"

fun inbox_handler :: "inbox_event \<Rightarrow> inbox_state \<Rightarrow> inbox_state" where
  "inbox_handler (PickChip c) s = s\<lparr>chip := c\<rparr>"
| "inbox_handler (SelectItem i) s = onSelect i s"
| "inbox_handler ApproveClick s = onApprove s"
| "inbox_handler DenyClick s = onDeny s"
| "inbox_handler SnoozeClick s = onSnooze s"
| "inbox_handler EditClick s = onEdit s"
| "inbox_handler CancelClick s = onCancelEdit s"
| "inbox_handler SaveClick s = onCommitEdit s"
| "inbox_handler (Typed i) s = s\<lparr>draftBuffer := Option.bind (shown_draft s) (edit_draft i)\<rparr>"
| "inbox_handler BackClick s = s\<lparr>mobileDetailOpen := False\<rparr>"
| "inbox_handler ToastTimeout s = toast_timeout s"
| "inbox_handler (Loaded its) s = load_effect its s"

definition inbox_exec :: "inbox_event \<Rightarrow> inbox_state \<Rightarrow> inbox_state" where
  "inbox_exec ev s = after_render (inbox_handler ev s)"

definition inbox_init :: "item list \<Rightarrow> inbox_state" where
  "inbox_init mock =
     \<lparr>items = mock, chip = ChipOf Awaiting, selectedId = map_option item_id (head_opt mock), editing = False,
      draftBuffer = None, toast = None, mobileDetailOpen = False\<rparr>"

text \<open>\<open>calm\<close> restricts the runs to those in which no response arrives while a draft is being edited.\<close>

inductive inbox_reach :: "bool \<Rightarrow> item list \<Rightarrow> inbox_state \<Rightarrow> bool" for calm mock where
  start: "inbox_reach calm mock (after_render (inbox_init mock))"
| step: "inbox_reach calm mock s \<Longrightarrow> inbox_enabled ev s \<Longrightarrow> (\<And>its. calm \<Longrightarrow> ev = Loaded its \<Longrightarrow> \<not> editing s)
    \<Longrightarrow> inbox_reach calm mock (inbox_exec ev s)"


section \<open>The reducer changes one item\<close>

interpretation approving: keyed_update item_id approve_item
  by unfold_locales (simp add: approve_item_def)

interpretation denying: keyed_update item_id "deny_item cause" for cause
  by unfold_locales (simp add: deny_item_def)

interpretation editing_draft: keyed_update item_id "edit_item d" for d
  by unfold_locales (simp add: edit_item_def)

interpretation reading: keyed_update item_id read_item
  by unfold_locales (simp add: read_item_def)

lemma snooze_item_id [simp]: "item_id (snooze_item it) = item_id it"
  by (simp add: snooze_item_def)

primrec action_target :: "item_action \<Rightarrow> jstr option" where
  "action_target (Replace its) = None"
| "action_target (Approve i) = Some i"
| "action_target (Deny i cause) = Some i"
| "action_target (Snooze i) = Some i"
| "action_target (EditCommit i d) = Some i"
| "action_target (MarkRead i) = Some i"

primrec action_update :: "item_action \<Rightarrow> item \<Rightarrow> item" where
  "action_update (Replace its) = (\<lambda>it. it)"
| "action_update (Approve i) = approve_item"
| "action_update (Deny i cause) = deny_item cause"
| "action_update (Snooze i) = snooze_item"
| "action_update (EditCommit i d) = edit_item d"
| "action_update (MarkRead i) = read_item"

lemma find_none_filter: "find P (filter (\<lambda>x. \<not> P x) xs) = None"
  by (induction xs) auto

lemma find_map_filter: "(\<And>x. P (f x) = P x) \<Longrightarrow> find P (map f (filter P xs)) = map_option f (find P xs)"
  by (induction xs) auto

lemma find_append: "find P (xs @ ys) = (case find P xs of None \<Rightarrow> find P ys | Some x \<Rightarrow> Some x)"
  by (induction xs) auto

lemma find_filter_imp: "(\<And>x. P x \<Longrightarrow> Q x) \<Longrightarrow> find P (filter Q xs) = find P xs"
  by (induction xs) auto

lemma find_none: "(\<And>x. x \<in> set xs \<Longrightarrow> \<not> P x) \<Longrightarrow> find P xs = None"
  by (induction xs) auto

lemma find_snooze:
  "find_item k (itemsReducer st (Snooze i)) = map_option (\<lambda>x. if k = i then snooze_item x else x) (find_item k st)"
proof (cases "k = i")
  case True
  have "find (\<lambda>it. item_id it = i) (filter (\<lambda>it. item_id it \<noteq> i) st) = None"
    by (rule find_none_filter)
  then show ?thesis using True by (simp add: find_item_def find_append find_map_filter)
next
  case False
  then have "find (\<lambda>it. item_id it = k) (filter (\<lambda>it. item_id it \<noteq> i) st) = find_item k st"
    unfolding find_item_def by (intro find_filter_imp) auto
  moreover have "find (\<lambda>it. item_id it = k) (map snooze_item (filter (\<lambda>it. item_id it = i) st)) = None"
    using False by (intro find_none) auto
  ultimately show ?thesis using False by (auto simp: find_item_def find_append option.map_ident split: option.splits)
qed

lemma find_reducer:
  assumes "action_target a = Some i"
  shows "find_item k (itemsReducer st a) = map_option (\<lambda>x. if k = i then action_update a x else x) (find_item k st)"
  using assms find_snooze [of k st i]
  by (cases "k = i"; cases a) (auto simp: find_item_def option.map_ident approving.find_updated denying.find_updated editing_draft.find_updated
      reading.find_updated simp del: itemsReducer.simps(4))

lemma find_item_ids: "find_item k its = None \<longleftrightarrow> k \<notin> item_id ` set its"
  by (auto simp: find_item_def find_None_iff)

lemma set_ids_reducer:
  assumes "action_target a = Some i"
  shows "item_id ` set (itemsReducer st a) = item_id ` set st"
proof -
  have "k \<in> item_id ` set (itemsReducer st a) \<longleftrightarrow> k \<in> item_id ` set st" for k
    using find_reducer [OF assms, of k st] find_item_ids by (metis option.map_disc_iff)
  then show ?thesis by blast
qed

lemma find_item_id: "find_item k its = Some it \<Longrightarrow> item_id it = k \<and> it \<in> set its"
  by (auto simp: find_item_def find_Some_iff)

section \<open>The sorted view\<close>

interpretation visible_order: js_comparator visible_cmp
  by unfold_locales (auto simp: visible_cmp_def split: if_splits)

lemma set_applyChip: "set (applyChip its c) \<subseteq> set its"
  by (auto simp: applyChip_def split: chip_id.splits)

lemma set_visible: "set (visible s) = set (applyChip (items s) (chip s))"
  by (simp add: visible_def sort_simps)

lemma count_partition:
  "length (xs :: item list) = (\<Sum>st \<leftarrow> [Awaiting, Drafted, Held, Done]. length (filter (\<lambda>i. item_status i = st) xs))"
proof (induction xs)
  case Nil
  then show ?case by simp
next
  case (Cons x xs)
  then show ?case by (cases "item_status x") auto
qed

section \<open>Selection\<close>

definition sel_inv :: "inbox_state \<Rightarrow> bool" where
  "sel_inv s \<longleftrightarrow> (items s \<noteq> [] \<longrightarrow> (\<exists>i. selectedId s = Some i \<and> i \<in> item_id ` set (items s)))"

lemma selected_found:
  assumes "sel_inv s" and "items s \<noteq> []"
  obtains i it where "selectedId s = Some i" and "find_item i (items s) = Some it" and "selected s = Some it"
    and "item_id it = i"
proof -
  obtain i where i: "selectedId s = Some i" "i \<in> item_id ` set (items s)"
    using assms by (auto simp: sel_inv_def)
  then obtain it where "find_item i (items s) = Some it" using find_item_ids by fastforce
  then show thesis using that i find_item_id by (simp add: selected_def)
qed

lemma selected_none: "items s = [] \<Longrightarrow> selected s = None \<and> visible s = []"
  by (auto simp: selected_def visible_def applyChip_def find_item_def head_opt_def Option.bind_eq_None_conv
      split: option.splits chip_id.splits)

lemma after_render_selected: "selected s = Some it \<Longrightarrow> after_render s = mark_read_effect s"
  by (simp add: after_render_def)

lemma after_render_empty: "items s = [] \<Longrightarrow> after_render s = s"
  by (simp add: after_render_def selected_none mark_read_effect_def)

text \<open>The effects touch the items only to mark the selected one as read.\<close>

lemma after_render_fields:
  "editing (after_render s) = editing s" "draftBuffer (after_render s) = draftBuffer s" "chip (after_render s) = chip s"
  "toast (after_render s) = toast s"
  by (auto simp: after_render_def mark_read_effect_def split: option.splits list.splits)

lemma items_after_render:
  "items (after_render s) = items s \<or> (\<exists>i. items (after_render s) = itemsReducer (items s) (MarkRead i))"
  by (auto simp: after_render_def mark_read_effect_def split: option.splits list.splits)

lemma after_render_settles:
  assumes "sel_inv s"
  shows "sel_inv (after_render s)" and "selectedId (after_render s) = selectedId s"
    and "pred_option (\<lambda>it. \<not> unread it) (selected (after_render s))"
proof -
  consider "items s = []" | "items s \<noteq> []" by blast
  then have "sel_inv (after_render s) \<and> selectedId (after_render s) = selectedId s
    \<and> pred_option (\<lambda>it. \<not> unread it) (selected (after_render s))"
  proof cases
    case 1
    then show ?thesis using assms by (simp add: after_render_empty selected_none)
  next
    case 2
    with assms obtain i it where it: "selectedId s = Some i" "find_item i (items s) = Some it" "selected s = Some it" "item_id it = i"
      by (rule selected_found)
    have ids: "item_id ` set (items (after_render s)) = item_id ` set (items s)"
      by (metis items_after_render set_ids_reducer action_target.simps(6))
    have sid: "selectedId (after_render s) = selectedId s"
      using it by (simp add: after_render_selected mark_read_effect_def)
    have "find_item i (items (after_render s)) = Some (if unread it then read_item it else it)"
      using it find_reducer [of "MarkRead i" i i "items s"]
      by (simp add: after_render_selected mark_read_effect_def del: itemsReducer.simps)
    then have "selected (after_render s) = Some (if unread it then read_item it else it)"
      using sid it by (simp add: selected_def)
    moreover have "sel_inv (after_render s)" using assms ids sid 2 by (auto simp: sel_inv_def)
    ultimately show ?thesis using sid by (simp add: read_item_def)
  qed
  then show "sel_inv (after_render s)" and "selectedId (after_render s) = selectedId s"
    and "pred_option (\<lambda>it. \<not> unread it) (selected (after_render s))" by auto
qed

text \<open>The reducer action a handler dispatches.\<close>

definition handler_action :: "inbox_event \<Rightarrow> inbox_state \<Rightarrow> item_action option" where
  "handler_action ev s =
     (case selected s of None \<Rightarrow> None
      | Some it \<Rightarrow> (case ev of
          ApproveClick \<Rightarrow> Some (Approve (item_id it))
        | DenyClick \<Rightarrow> Some (Deny (item_id it) ''You denied this just now.'')
        | SnoozeClick \<Rightarrow> Some (Snooze (item_id it))
        | SaveClick \<Rightarrow> map_option (EditCommit (item_id it)) (draftBuffer s)
        | _ \<Rightarrow> None))"

definition is_load :: "inbox_event \<Rightarrow> bool" where
  "is_load ev \<longleftrightarrow> (case ev of Loaded its \<Rightarrow> True | _ \<Rightarrow> False)"

lemmas handler_defs = onSelect_def onApprove_def onDeny_def onSnooze_def onEdit_def onCommitEdit_def onCancelEdit_def
  toast_timeout_def load_effect_def

lemma items_handler:
  "\<not> is_load ev \<Longrightarrow>
   items (inbox_handler ev s) = (case handler_action ev s of None \<Rightarrow> items s | Some a \<Rightarrow> itemsReducer (items s) a)"
  by (cases ev) (auto simp: handler_action_def is_load_def handler_defs split: option.splits)

lemma handler_action_target:
  "handler_action ev s = Some a \<Longrightarrow> \<exists>it. selected s = Some it \<and> action_target a = Some (item_id it)"
  by (auto simp: handler_action_def split: option.splits inbox_event.splits)

lemma sel_inv_handler:
  assumes "sel_inv s" and "inbox_enabled ev s"
  shows "sel_inv (inbox_handler ev s)"
proof (cases "is_load ev")
  case True
  then show ?thesis by (auto simp: is_load_def sel_inv_def load_effect_def split: inbox_event.splits list.splits)
next
  case False
  have ids: "item_id ` set (items (inbox_handler ev s)) = item_id ` set (items s)"
  proof (cases "handler_action ev s")
    case None
    then show ?thesis by (simp add: items_handler [OF False])
  next
    case (Some a)
    then obtain i where "action_target a = Some i" using handler_action_target by blast
    then show ?thesis using Some by (simp add: items_handler [OF False] set_ids_reducer)
  qed
  then have ne: "items (inbox_handler ev s) = [] \<longleftrightarrow> items s = []" by (metis image_is_empty set_empty)
  show ?thesis
  proof (cases "\<exists>i. ev = SelectItem i")
    case True
    then obtain i where "ev = SelectItem i" by blast
    moreover have "set (visible s) \<subseteq> set (items s)" using set_visible set_applyChip by metis
    ultimately show ?thesis using assms(2) by (auto simp: sel_inv_def onSelect_def)
  next
    case neq: False
    have "selectedId (inbox_handler ev s) = selectedId s"
      using False neq by (cases ev) (auto simp: handler_defs is_load_def split: option.splits)
    then show ?thesis using assms(1) ids ne by (simp add: sel_inv_def)
  qed
qed

lemma sel_inv_init: "sel_inv (inbox_init mock)"
  by (auto simp: sel_inv_def inbox_init_def head_opt_def split: list.splits)

lemma reach_sel_inv: "inbox_reach calm mock s \<Longrightarrow> sel_inv s"
  by (induction rule: inbox_reach.induct)
     (auto simp: inbox_exec_def intro: after_render_settles(1) sel_inv_init sel_inv_handler)


lemma reach_settled:
  "inbox_reach calm mock s \<Longrightarrow> pred_option (\<lambda>it. \<not> unread it) (selected s)"
proof (induction rule: inbox_reach.induct)
  case start
  then show ?case by (rule after_render_settles(3) [OF sel_inv_init])
next
  case (step s ev)
  then show ?case
    unfolding inbox_exec_def using after_render_settles(3) sel_inv_handler reach_sel_inv by blast
qed

section \<open>What one event does to an item\<close>

definition event_item :: "inbox_event \<Rightarrow> inbox_state \<Rightarrow> item \<Rightarrow> item" where
  "event_item ev s it =
     (case handler_action ev s of
        Some a \<Rightarrow> if action_target a = Some (item_id it) then action_update a it else it
      | None \<Rightarrow> it)"

lemma handler_item:
  assumes "\<not> is_load ev" and "find_item k (items s) = Some it"
  shows "find_item k (items (inbox_handler ev s)) = Some (event_item ev s it)"
proof (cases "handler_action ev s")
  case None
  then show ?thesis using assms by (simp add: items_handler event_item_def)
next
  case (Some a)
  then obtain i where i: "action_target a = Some i" using handler_action_target by blast
  have "item_id it = k" using assms(2) find_item_id by blast
  then show ?thesis using assms Some i find_reducer [OF i, of k "items s"] by (auto simp: items_handler event_item_def)
qed

lemma after_render_item:
  assumes "find_item k (items s) = Some it"
  shows "find_item k (items (after_render s)) = Some it \<or> find_item k (items (after_render s)) = Some (read_item it)"
  using items_after_render [of s] find_reducer [of "MarkRead _" _ k "items s"] assms by (auto simp del: itemsReducer.simps)

lemma exec_item:
  assumes "\<not> is_load ev" and "find_item k (items s) = Some it"
  obtains it' where "find_item k (items (inbox_exec ev s)) = Some it'"
    and "it' = event_item ev s it \<or> it' = read_item (event_item ev s it)"
  using after_render_item [OF handler_item [OF assms]] by (auto simp: inbox_exec_def)

lemmas item_update_defs = approve_item_def deny_item_def snooze_item_def edit_item_def read_item_def

text \<open>The fields an event of the page may not touch.\<close>

definition same_facts :: "item \<Rightarrow> item \<Rightarrow> bool" where
  "same_facts a b \<longleftrightarrow> item_id a = item_id b \<and> item_title a = item_title b \<and> item_source a = item_source b
     \<and> item_risk a = item_risk b \<and> item_summary a = item_summary b \<and> routedBy a = routedBy b
     \<and> item_safety a = item_safety b"

lemma event_item_history:
  obtains pre where "item_audit (event_item ev s it) = pre @ item_audit it"
    and "item_status it \<noteq> Done \<Longrightarrow> item_status (event_item ev s it) = Done \<Longrightarrow> pre = [you_did ''Approved.'']"
    and "same_facts it (event_item ev s it)"
proof (cases "event_item ev s it = it")
  case True
  then show ?thesis using that [of "[]"] by (simp add: same_facts_def)
next
  case False
  then obtain a where a: "handler_action ev s = Some a" "event_item ev s it = action_update a it"
    by (auto simp: event_item_def split: option.splits if_splits)
  from a(1) have "\<exists>i d c. a = Approve i \<or> a = Deny i c \<or> a = Snooze i \<or> a = EditCommit i d"
    by (auto simp: handler_action_def split: option.splits inbox_event.splits)
  then show ?thesis
    using that [of "[hd (item_audit (action_update a it))]"] a(2) by (auto simp: item_update_defs same_facts_def)
qed

fun inbox_run :: "inbox_event list \<Rightarrow> inbox_state \<Rightarrow> inbox_state option" where
  "inbox_run [] s = Some s"
| "inbox_run (ev # evs) s = (if inbox_enabled ev s then inbox_run evs (inbox_exec ev s) else None)"

section \<open>Editing\<close>

text \<open>Two drafts that differ at most in what the page lets the user type: subject and body of an
  email, the text of a message.  Recipients, chat, endpoint and invitation are the same.\<close>

definition draft_locked :: "draft \<Rightarrow> draft \<Rightarrow> bool" where
  "draft_locked d d' =
     (case (d, d') of
        (EmailDraft a, EmailDraft b) \<Rightarrow> em_from a = em_from b \<and> em_to a = em_to b \<and> em_cc a = em_cc b
      | (TelegramDraft a, TelegramDraft b) \<Rightarrow> tg_chat a = tg_chat b \<and> tg_reply_to a = tg_reply_to b
      | _ \<Rightarrow> d = d')"

lemma draft_locked_refl [simp]: "draft_locked d d"
  by (simp add: draft_locked_def split: draft.splits)

lemma draft_locked_edit: "draft_locked d b \<Longrightarrow> edit_draft i b = Some b' \<Longrightarrow> draft_locked d b'"
  by (auto simp: draft_locked_def edit_draft_def split: draft.splits draft_input.splits)

definition edit_inv :: "inbox_state \<Rightarrow> bool" where
  "edit_inv s \<longleftrightarrow> (editing s \<longrightarrow>
     (\<exists>it d b. selected s = Some it \<and> item_draft it = Some d \<and> draftBuffer s = Some b \<and> draft_locked d b))"

lemma selected_after_event:
  assumes "sel_inv s" and "\<not> is_load ev" and "inbox_enabled ev s" and "selectedId (inbox_handler ev s) = selectedId s"
    and "selected s = Some it"
  obtains it' where "selected (inbox_exec ev s) = Some it'" and "it' = event_item ev s it \<or> it' = read_item (event_item ev s it)"
proof -
  have "items s \<noteq> []" using assms(5) selected_none by fastforce
  with assms(1,5) obtain i where i: "selectedId s = Some i" "find_item i (items s) = Some it"
    by (metis selected_found option.inject)
  obtain it' where it': "find_item i (items (inbox_exec ev s)) = Some it'" "it' = event_item ev s it \<or> it' = read_item (event_item ev s it)"
    using exec_item [OF assms(2) i(2)] by blast
  have "selectedId (inbox_exec ev s) = Some i"
    using after_render_settles(2) [OF sel_inv_handler [OF assms(1,3)]] assms(4) i(1) by (simp add: inbox_exec_def)
  then show thesis using that it' by (simp add: selected_def)
qed

lemma event_item_draft: "ev \<noteq> SaveClick \<Longrightarrow> item_draft (event_item ev s it) = item_draft it"
  by (auto simp: event_item_def handler_action_def item_update_defs split: option.splits inbox_event.splits)

lemma edit_inv_stays:
  assumes "sel_inv s" and "edit_inv s" and "inbox_enabled ev s" and "\<not> is_load ev" and "ev \<noteq> SaveClick"
    and "selectedId (inbox_handler ev s) = selectedId s"
    and "editing (inbox_handler ev s) \<Longrightarrow> selected s = Some it \<Longrightarrow>
      \<exists>d b. item_draft it = Some d \<and> draftBuffer (inbox_handler ev s) = Some b \<and> draft_locked d b"
    and "editing (inbox_handler ev s) \<Longrightarrow> selected s = Some it"
  shows "edit_inv (inbox_exec ev s)"
proof -
  have ed: "editing (inbox_exec ev s) = editing (inbox_handler ev s)"
    and buf: "draftBuffer (inbox_exec ev s) = draftBuffer (inbox_handler ev s)"
    by (simp_all add: inbox_exec_def after_render_fields)
  show ?thesis
  proof (cases "editing (inbox_handler ev s)")
    case True
    then have sel: "selected s = Some it" by (rule assms(8))
    then obtain it' where it': "selected (inbox_exec ev s) = Some it'"
      "it' = event_item ev s it \<or> it' = read_item (event_item ev s it)"
      using selected_after_event [OF assms(1,4,3,6)] by blast
    then have "item_draft it' = item_draft it" using event_item_draft [OF assms(5)] by (auto simp: read_item_def)
    then show ?thesis using assms(7) [OF True sel] it'(1) buf by (auto simp: edit_inv_def)
  next
    case False
    then show ?thesis using ed by (simp add: edit_inv_def)
  qed
qed


text \<open>An event after which the draft is still being edited leaves the selection alone and keeps, starts
  or continues the edit.\<close>

lemma still_editing:
  assumes "edit_inv s" and "inbox_enabled ev s" and "editing (inbox_handler ev s)" and "\<not> is_load ev"
  shows "selectedId (inbox_handler ev s) = selectedId s \<and> ev \<noteq> SaveClick
    \<and> (\<exists>it d b. selected s = Some it \<and> item_draft it = Some d \<and> draftBuffer (inbox_handler ev s) = Some b \<and> draft_locked d b)"
proof (cases "ev = EditClick")
  case True
  then show ?thesis using assms by (auto simp: onEdit_def edit_inv_def split: option.splits)
next
  case False
  then have "editing s"
    using assms(3,4) by (cases ev) (auto simp: handler_defs is_load_def split: option.splits prod.splits)
  then obtain it d b where *: "selected s = Some it" "item_draft it = Some d" "draftBuffer s = Some b" "draft_locked d b"
    using assms(1) by (auto simp: edit_inv_def)
  show ?thesis
  proof (cases "\<exists>i. ev = Typed i")
    case True
    then obtain i where i: "ev = Typed i" by blast
    have "shown_draft s = Some b" using * \<open>editing s\<close> by (simp add: shown_draft_def)
    then show ?thesis using * i assms(2) by (auto dest: draft_locked_edit)
  next
    case ev: False
    show ?thesis using * False ev assms(3,4) by (cases ev) (auto simp: handler_defs is_load_def)
  qed
qed

lemma edit_inv_exec:
  assumes "sel_inv s" and "edit_inv s" and "inbox_enabled ev s" and "is_load ev \<Longrightarrow> \<not> editing s"
  shows "edit_inv (inbox_exec ev s)"
proof (cases "editing (inbox_handler ev s)")
  case True
  have nl: "\<not> is_load ev"
    using assms(4) True by (auto simp: is_load_def load_effect_def split: inbox_event.splits)
  note se = still_editing [OF assms(2,3) True nl]
  then obtain it where "selected s = Some it" by blast
  then show ?thesis using edit_inv_stays [OF assms(1-3) nl, of it] se by auto
next
  case False
  then show ?thesis by (simp add: edit_inv_def inbox_exec_def after_render_fields)
qed

lemma reach_edit_inv: "inbox_reach True mock s \<Longrightarrow> edit_inv s"
proof (induction rule: inbox_reach.induct)
  case start
  then show ?case by (simp add: edit_inv_def after_render_fields inbox_init_def)
next
  case (step s ev)
  have "is_load ev \<Longrightarrow> \<not> editing s" using step.hyps(3) by (auto simp: is_load_def split: inbox_event.splits)
  then show ?case using edit_inv_exec reach_sel_inv step by blast
qed

section \<open>A sample inbox\<close>

definition demo_item :: "jstr \<Rightarrow> jstr \<Rightarrow> item" where
  "demo_item i recipient =
     \<lparr>item_id = i, item_status = Awaiting, item_title = ''Reply'', item_source = SEmail, item_risk = Low,
      minutesAgo = 2, item_summary = [], item_cause = [], routedBy = [], unread = True,
      item_draft = Some (EmailDraft \<lparr>em_from = ''me'', em_to = recipient, em_cc = None, em_subject = ''Hi'', em_body = [''x'']\<rparr>),
      item_safety = \<lparr>can = [], cannot = [], needsApproval = [], stopsIf = []\<rparr>, item_audit = []\<rparr>"

definition demo_state :: inbox_state where
  "demo_state = after_render (inbox_init [demo_item ''a'' ''ann'', demo_item ''b'' ''bob''])"

definition demo_editing :: inbox_state where
  "demo_editing = inbox_exec (Typed (SubjectInput ''Hello'')) (inbox_exec EditClick demo_state)"

lemma demo_editing_reach: "inbox_reach True [demo_item ''a'' ''ann'', demo_item ''b'' ''bob''] demo_editing"
proof -
  have e1: "inbox_enabled EditClick demo_state" by code_simp
  have e2: "inbox_enabled (Typed (SubjectInput ''Hello'')) (inbox_exec EditClick demo_state)" by code_simp
  show ?thesis
    unfolding demo_editing_def
    by (rule inbox_reach.step [OF inbox_reach.step [OF _ e1] e2])
       (simp_all add: demo_state_def inbox_reach.start)
qed

text \<open>A response that arrives during an edit moves the selection to the first item of the response but
  keeps the buffer: saving then writes the draft of the one item into the other.\<close>

lemma reload_during_edit_redirects:
  "let s = inbox_exec (Loaded [demo_item ''b'' ''bob'']) demo_editing in
   inbox_enabled SaveClick s
   \<and> map_option item_draft (find_item ''b'' (items (inbox_exec SaveClick s)))
       = Some (Some (EmailDraft \<lparr>em_from = ''me'', em_to = ''ann'', em_cc = None, em_subject = ''Hello'', em_body = [''x'']\<rparr>))"
  by code_simp

section \<open>Properties\<close>

text \<open>C7.
  The history of an item is append-only and only an approval completes it: over any run of page
  events without a reload, every item is still there with its identity, title, source, risk and safety
  posture unchanged, its audit trail is the old trail with entries put in front, and if it was open
  before and is done now, one of the new entries is the user's approval.
\<close>

theorem item_history_append_only:
  assumes "inbox_run evs s = Some s'" and "\<not> list_ex is_load evs" and "find_item k (items s) = Some it"
  shows "\<exists>it' pre. find_item k (items s') = Some it' \<and> same_facts it it' \<and> item_audit it' = pre @ item_audit it
    \<and> (item_status it \<noteq> Done \<and> item_status it' = Done \<longrightarrow> you_did ''Approved.'' \<in> set pre)"
  using assms
proof (induction evs s arbitrary: it rule: inbox_run.induct)
  case (1 s)
  then show ?case by (simp add: same_facts_def)
next
  case (2 ev evs s)
  then have en: "inbox_enabled ev s" and run: "inbox_run evs (inbox_exec ev s) = Some s'"
    and nl: "\<not> is_load ev" "\<not> list_ex is_load evs" by (auto split: if_splits)
  obtain it1 where it1: "find_item k (items (inbox_exec ev s)) = Some it1"
    "it1 = event_item ev s it \<or> it1 = read_item (event_item ev s it)"
    using exec_item [OF nl(1) "2.prems"(3)] by blast
  obtain pre1 where pre1: "item_audit (event_item ev s it) = pre1 @ item_audit it"
    "item_status it \<noteq> Done \<Longrightarrow> item_status (event_item ev s it) = Done \<Longrightarrow> pre1 = [you_did ''Approved.'']"
    "same_facts it (event_item ev s it)"
    using event_item_history [of ev s it] by blast
  obtain it' pre where it': "find_item k (items s') = Some it'" "same_facts it1 it'" "item_audit it' = pre @ item_audit it1"
    "item_status it1 \<noteq> Done \<and> item_status it' = Done \<longrightarrow> you_did ''Approved.'' \<in> set pre"
    using "2.IH" [OF en run nl(2) it1(1)] by blast
  have "same_facts it it'" using it1(2) it'(2) pre1(3) by (auto simp: same_facts_def read_item_def)
  moreover have "item_audit it' = (pre @ pre1) @ item_audit it" using it1(2) it'(3) pre1(1) by (auto simp: read_item_def)
  moreover have "you_did ''Approved.'' \<in> set (pre @ pre1)" if "item_status it \<noteq> Done" "item_status it' = Done"
    using it1(2) it'(4) pre1(2) that by (cases "item_status it1 = Done") (auto simp: read_item_def)
  ultimately show ?case using it'(1) by blast
qed

lemma item_history_append_only_witness:
  "\<exists>it' pre. find_item ''a'' (items (the (inbox_run [SnoozeClick, ApproveClick] demo_state))) = Some it'
     \<and> item_audit it' = pre \<and> you_did ''Approved.'' \<in> set pre"
proof -
  have run: "inbox_run [SnoozeClick, ApproveClick] demo_state \<noteq> None" by code_simp
  have before: "find_item ''a'' (items demo_state) = Some (read_item (demo_item ''a'' ''ann''))" by code_simp
  have after: "map_option item_status (find_item ''a'' (items (the (inbox_run [SnoozeClick, ApproveClick] demo_state)))) = Some Done"
    by code_simp
  show ?thesis
    using item_history_append_only [of "[SnoozeClick, ApproveClick]" demo_state
        "the (inbox_run [SnoozeClick, ApproveClick] demo_state)" "''a''" "read_item (demo_item ''a'' ''ann'')"] run before after
    by (auto simp: is_load_def read_item_def demo_item_def)
qed

text \<open>C31.
  The page always has a sensible selection: in every state it can reach, if there are items, the
  selected identifier is that of an item of the list, that item is the one shown, it is marked as
  read, and the effects have nothing more to do.
\<close>

theorem selection_always_valid:
  assumes "inbox_reach calm mock s" and "items s \<noteq> []"
  shows "\<exists>it. it \<in> set (items s) \<and> selectedId s = Some (item_id it) \<and> selected s = Some it \<and> \<not> unread it
    \<and> after_render s = s"
proof -
  obtain i it where it: "selectedId s = Some i" "find_item i (items s) = Some it" "selected s = Some it" "item_id it = i"
    using selected_found [OF reach_sel_inv [OF assms(1)] assms(2)] by metis
  moreover have "\<not> unread it" using reach_settled [OF assms(1)] it(3) by simp
  ultimately show ?thesis using find_item_id by (auto simp: after_render_selected mark_read_effect_def)
qed

lemma selection_always_valid_witness:
  "\<exists>it. it \<in> set (items demo_editing) \<and> selectedId demo_editing = Some (item_id it) \<and> selected demo_editing = Some it \<and> \<not> unread it
    \<and> after_render demo_editing = demo_editing"
proof -
  have "items demo_editing \<noteq> []" by code_simp
  then show ?thesis by (rule selection_always_valid [OF demo_editing_reach])
qed

text \<open>C14.
  Editing cannot redirect a draft: in every state reached without a reload during an edit, saving the
  draft changes only what the user may type.  Sender, recipients, chat, endpoint and invitation of the
  item stay as they were, and a draft of one kind never becomes one of another.
\<close>

theorem saved_draft_keeps_recipients:
  assumes "inbox_reach True mock s" and "inbox_enabled SaveClick s"
  shows "\<exists>it d b it'. selected s = Some it \<and> item_draft it = Some d
    \<and> find_item (item_id it) (items (inbox_exec SaveClick s)) = Some it' \<and> item_draft it' = Some b \<and> draft_locked d b"
proof -
  have ed: "editing s" using assms(2) by simp
  then obtain it d b where *: "selected s = Some it" "item_draft it = Some d" "draftBuffer s = Some b" "draft_locked d b"
    using reach_edit_inv [OF assms(1)] by (auto simp: edit_inv_def)
  have "items s \<noteq> []" using *(1) selected_none by fastforce
  then have "find_item (item_id it) (items s) = Some it"
    using selected_found [OF reach_sel_inv [OF assms(1)]] *(1) by (metis option.inject)
  moreover have "event_item SaveClick s it = edit_item b it"
    using * by (simp add: event_item_def handler_action_def)
  ultimately obtain it' where "find_item (item_id it) (items (inbox_exec SaveClick s)) = Some it'"
    "it' = edit_item b it \<or> it' = read_item (edit_item b it)"
    using exec_item [of SaveClick "item_id it" s it] by (auto simp: is_load_def)
  moreover from this(2) have "item_draft it' = Some b" by (auto simp: item_update_defs)
  ultimately show ?thesis using * by blast
qed

lemma saved_draft_keeps_recipients_witness:
  "\<exists>it d b it'. selected demo_editing = Some it \<and> item_draft it = Some d
    \<and> find_item (item_id it) (items (inbox_exec SaveClick demo_editing)) = Some it' \<and> item_draft it' = Some b \<and> draft_locked d b"
proof -
  have "inbox_enabled SaveClick demo_editing" by code_simp
  then show ?thesis by (rule saved_draft_keeps_recipients [OF demo_editing_reach])
qed

text \<open>C32.
  The list shows exactly the items of the chosen filter, unread items first, then the most recent
  first, items that tie in the order of the list; and the counters of the four status filters add up
  to the counter of all items.
\<close>

theorem visible_list_correct:
  "mset (visible s) = mset (applyChip (items s) (chip s))
   \<and> sorted_wrt (\<lambda>a b. (unread a \<and> \<not> unread b) \<or> (unread a = unread b \<and> minutesAgo a \<le> minutesAgo b)) (visible s)
   \<and> filter (\<lambda>i. unread i = u \<and> minutesAgo i = m) (visible s)
       = filter (\<lambda>i. unread i = u \<and> minutesAgo i = m) (applyChip (items s) (chip s))
   \<and> counts its ChipAll = counts its (ChipOf Awaiting) + counts its (ChipOf Drafted) + counts its (ChipOf Held)
       + counts its (ChipOf Done)"
proof (intro conjI)
  have le: "visible_cmp a b \<le> 0 \<longleftrightarrow> (unread a \<and> \<not> unread b) \<or> (unread a = unread b \<and> minutesAgo a \<le> minutesAgo b)" for a b
    by (auto simp: visible_cmp_def)
  show "mset (visible s) = mset (applyChip (items s) (chip s))" by (simp add: visible_def sort_simps)
  show "sorted_wrt (\<lambda>a b. (unread a \<and> \<not> unread b) \<or> (unread a = unread b \<and> minutesAgo a \<le> minutesAgo b)) (visible s)"
    using visible_order.sorted_sort [of "applyChip (items s) (chip s)"] by (simp add: le visible_def)
  have "(\<lambda>i. unread i = u \<and> minutesAgo i = m) = visible_order.eqv (undefined\<lparr>unread := u, minutesAgo := m\<rparr>)"
    by (auto simp: visible_order.eqv_def le fun_eq_iff)
  then show "filter (\<lambda>i. unread i = u \<and> minutesAgo i = m) (visible s)
       = filter (\<lambda>i. unread i = u \<and> minutesAgo i = m) (applyChip (items s) (chip s))"
    by (simp add: visible_def visible_order.stable)
  show "counts its ChipAll = counts its (ChipOf Awaiting) + counts its (ChipOf Drafted) + counts its (ChipOf Held)
       + counts its (ChipOf Done)"
    using count_partition [of its] by (simp add: counts_def)
qed

section \<open>The page with its envelope\<close>

text \<open>The toast timer runs in the error view too; everything else needs the normal view.\<close>

definition inbox_route_run ::
  "(item list, 'e, inbox_event) routed_event list \<Rightarrow> (item list, 'e, inbox_state) routed \<Rightarrow> (item list, 'e, inbox_state) routed option" where
  "inbox_route_run =
     routed_run (\<lambda>v. v = ToastTimeout) (\<lambda>v p. \<not> is_load v \<and> inbox_enabled v p) (\<lambda>its. inbox_exec (Loaded its)) inbox_exec"

definition inbox_route_init :: "nat \<Rightarrow> item list \<Rightarrow> (item list, 'e, inbox_state) routed" where
  "inbox_route_init ref mock = routed_init ref mock (after_render (inbox_init mock))"

interpretation inbox_routed: routed_page "\<lambda>v. v = ToastTimeout" "\<lambda>v. \<not> is_load v" inbox_enabled inbox_exec Loaded
  by unfold_locales (simp_all add: is_load_def)

lemma inbox_run_page_run: "inbox_run evs s = page_run inbox_enabled inbox_exec evs s"
  by (induction evs s rule: inbox_run.induct) simp_all

lemma inbox_route_projects:
  "inbox_route_run evs s = Some s' \<Longrightarrow> inbox_run (page_events Loaded evs (rload s)) (rpage s) = Some (rpage s')"
  unfolding inbox_run_page_run inbox_route_run_def by (rule inbox_routed.projection)

lemma inbox_route_reach:
  assumes "inbox_route_run evs (inbox_route_init ref mock) = Some s"
  shows "inbox_reach False mock (rpage s)"
  using inbox_routed.invariant_lifts [of evs "inbox_route_init ref mock" s "inbox_reach False mock"] assms
  by (auto simp: inbox_route_run_def inbox_route_init_def routed_init_def intro: inbox_reach.intros)

lemma inbox_route_user_events:
  assumes "inbox_route_run evs s = Some s'" shows "PageEv (Loaded its) \<notin> set evs"
  using assms unfolding inbox_route_run_def
  by (induction evs arbitrary: s) (auto simp: is_load_def split: if_splits)

section \<open>The toast\<close>

definition inbox_toast_ms :: nat where
  "inbox_toast_ms = 2400"

text \<open>The toast is an object, so that setting it is always a change.\<close>

definition inbox_fresh :: "inbox_event \<Rightarrow> inbox_state \<Rightarrow> bool" where
  "inbox_fresh ev s \<longleftrightarrow> ev \<in> {ApproveClick, DenyClick, SnoozeClick} \<and> selected s \<noteq> None"

lemma toast_mark_read [simp]: "toast (mark_read_effect s) = toast s"
  by (simp add: mark_read_effect_def split: option.splits)

lemma toast_after_render [simp]: "toast (after_render s) = toast s"
  by (simp add: after_render_def split: option.splits list.splits)

interpretation inbox_toast: timed_toast inbox_toast_ms "\<lambda>t. False" toast inbox_enabled inbox_exec ToastTimeout "\<lambda>v. v = ToastTimeout" inbox_fresh
  by unfold_locales (simp add: inbox_exec_def toast_timeout_def)

abbreviation "inbox_timed_run \<equiv> timed_run inbox_toast_ms (\<lambda>t. False) toast inbox_enabled inbox_exec ToastTimeout (\<lambda>v. v = ToastTimeout) inbox_fresh"

abbreviation "inbox_shown_run \<equiv> shown_run inbox_toast_ms (\<lambda>t. False) toast inbox_enabled inbox_exec ToastTimeout (\<lambda>v. v = ToastTimeout) inbox_fresh"

text \<open>C12.
  A confirmation of the Inbox is shown for its time.  The page with its effect and the timers of the browser does
  what a page does that notes when each confirmation came and hides it 2.4 seconds later, not before: whenever
  one is shown there is exactly one timer, due 2.4 seconds after it came, and none otherwise.  From every state
  that shows one it can go away, and leaving the page leaves no timer behind.
\<close>

theorem inbox_toast_lifetime:
  assumes "inbox_timed_run vs p = Some s"
  shows "(\<exists>a. inbox_shown_run vs p = Some a \<and> sh_page a = tp_page s \<and> (sh_since a \<noteq> None) = (toast (tp_page s) \<noteq> None)
      \<and> map snd (tm_pending (tp_timers s)) = (case sh_since a of None \<Rightarrow> [] | Some t \<Rightarrow> [t + 2400]))
    \<and> (toast (tp_page s) \<noteq> None \<longrightarrow> (\<exists>i s'. inbox_timed_run (vs @ [Pass 2400, Fire i]) p = Some s' \<and> toast (tp_page s') = None))
    \<and> tm_pending (timed_leave s) = []"
proof (intro conjI impI)
  have on: "toast_on (\<lambda>t. False) t \<longleftrightarrow> t \<noteq> None" for t :: "toast_state option" by (simp add: toast_on_def split: option.splits)
  show "\<exists>a. inbox_shown_run vs p = Some a \<and> sh_page a = tp_page s \<and> (sh_since a \<noteq> None) = (toast (tp_page s) \<noteq> None)
      \<and> map snd (tm_pending (tp_timers s)) = (case sh_since a of None \<Rightarrow> [] | Some t \<Rightarrow> [t + 2400])"
    using inbox_toast.one_timer [OF assms] by (auto simp: on inbox_toast_ms_def)
  show "\<exists>i s'. inbox_timed_run (vs @ [Pass 2400, Fire i]) p = Some s' \<and> toast (tp_page s') = None" if "toast (tp_page s) \<noteq> None"
    using inbox_toast.toast_goes [OF assms] that unfolding on by (auto simp: inbox_toast_ms_def)
  show "tm_pending (timed_leave s) = []" by (rule inbox_toast.leave_clears [OF assms])
qed

lemma inbox_toast_lifetime_witness:
  "\<exists>s. inbox_timed_run [Act SnoozeClick, Pass 1000, Act SnoozeClick] demo_state = Some s
     \<and> map snd (tm_pending (tp_timers s)) = [3400]
     \<and> (\<exists>i s'. inbox_timed_run ([Act SnoozeClick, Pass 1000, Act SnoozeClick] @ [Pass 2400, Fire i]) demo_state = Some s'
         \<and> toast (tp_page s') = None)"
proof -
  let ?vs = "[Act SnoozeClick, Pass 1000, Act SnoozeClick]"
  obtain p where p: "p = inbox_exec SnoozeClick demo_state" by blast
  obtain q where q: "q = inbox_exec SnoozeClick p" by blast
  have none: "toast demo_state = None" by code_simp
  have en: "inbox_enabled SnoozeClick demo_state \<and> inbox_fresh SnoozeClick demo_state" by code_simp
  have en': "inbox_enabled SnoozeClick p \<and> inbox_fresh SnoozeClick p" unfolding p by code_simp
  have "toast p \<noteq> None" unfolding p by code_simp
  then obtain t where t: "toast p = Some t" by blast
  have "toast q \<noteq> None" unfolding p q by code_simp
  then obtain t' where t': "toast q = Some t'" by blast
  have "map_option (\<lambda>s. (map snd (tm_pending (tp_timers s)), toast (tp_page s))) (inbox_timed_run ?vs demo_state) = Some ([3400], Some t')"
    by (simp add: none en en' t t' p [symmetric] q [symmetric] timed_run_def timed_init_def timers_init_def toast_effect_defs inbox_toast_ms_def)
  then obtain s where s: "inbox_timed_run ?vs demo_state = Some s" "map snd (tm_pending (tp_timers s)) = [3400]" "toast (tp_page s) \<noteq> None"
    by auto
  note life = mp [OF conjunct1 [OF conjunct2 [OF inbox_toast_lifetime [OF s(1)]]] s(3)]
  show ?thesis by (rule exI [of _ s]) (intro conjI s(1) s(2) life)
qed

end
