(* ===== verification/Commitments_Page.thy ===== *)
theory Commitments_Page
  imports Route_Data Api_Client Complex_Main
begin

text \<open>
  The Commitments page (\<open>apps/web/src/pages/v2/Commitments.tsx\<close>, wire types of
  \<open>_mocks/commitments.ts\<close>): filter and counters, relative due times, and the dismiss and snooze
  handlers, which send the gateway call of \<open>Api_Client\<close> and reload the envelope of \<open>Route_Data\<close> when
  it settles.  The handlers are split at their \<open>await\<close>: \<open>in_flight\<close> holds the calls that have not
  settled, so any interleaving of clicks, settling calls and loader responses is a run.  Times are
  whole milliseconds; colours and layout are not modelled.
\<close>

section \<open>Wire types\<close>

datatype commitment_kind = EventCheckIn | DeadlineCheck | CareCheckIn | OpenLoop

datatype commitment_sensitivity = Routine | Personal | Care

datatype commitment_status = Pending | Sent | Dismissed | Snoozed | Expired

record due_window =
  earliest_ms :: int
  latest_ms :: int
  timezone :: "jstr option"

record commitment =
  cm_id :: jstr
  cm_workspace_id :: jstr
  cm_tenant_id :: jstr
  cm_kind :: commitment_kind
  cm_sensitivity :: commitment_sensitivity
  cm_status :: commitment_status
  cm_reason :: jstr
  cm_suggested_text :: jstr
  cm_dedupe_key :: jstr
  cm_confidence :: rat
  cm_due_window :: due_window
  cm_connector_id :: "jstr option"
  cm_channel_id :: "jstr option"
  cm_user_id :: "jstr option"
  cm_source_event_id :: "jstr option"
  cm_created_at_ms :: int
  cm_updated_at_ms :: int
  cm_sent_at_ms :: "int option"
  cm_dismissed_at_ms :: "int option"
  cm_snoozed_until_ms :: "int option"
  cm_expired_at_ms :: "int option"
  cm_attempts :: int

definition STATUS_FILTERS :: "commitment_status list" where
  "STATUS_FILTERS = [Pending, Sent, Snoozed, Dismissed, Expired]"

primrec KIND_LABEL :: "commitment_kind \<Rightarrow> jstr" where
  "KIND_LABEL EventCheckIn = ''Event check-in''"
| "KIND_LABEL DeadlineCheck = ''Deadline''"
| "KIND_LABEL CareCheckIn = ''Care check-in''"
| "KIND_LABEL OpenLoop = ''Open loop''"

section \<open>Relative times\<close>

text \<open>\<open>Math.round(n / d)\<close> for \<open>0 \<le> n\<close> and \<open>0 < d\<close>: halves are rounded up.\<close>

definition round_div :: "int \<Rightarrow> int \<Rightarrow> int" where
  "round_div n d = (2 * n + d) div (2 * d)"

definition relTimeMs :: "int \<Rightarrow> jstr" where
  "relTimeMs deltaMs =
     (let ab = \<bar>deltaMs\<bar>; fut = (0 \<le> deltaMs) in
      if ab < 60000 then (if fut then ''in <1min'' else ''just now'')
      else let minutes = round_div ab 60000 in
        if minutes < 60 then (if fut then ''in '' @ int_str minutes @ ''min'' else int_str minutes @ ''min ago'')
        else let hours = round_div minutes 60 in
          if hours < 24 then (if fut then ''in '' @ int_str hours @ ''h'' else int_str hours @ ''h ago'')
          else let days = round_div hours 24 in
            (if fut then ''in '' @ int_str days @ ''d'' else int_str days @ ''d ago''))"

section \<open>The page\<close>

datatype commitment_filter = FilterAll | FilterBy commitment_status

definition visible_commitments :: "commitment_filter \<Rightarrow> commitment list \<Rightarrow> commitment list" where
  "visible_commitments f its = (case f of FilterAll \<Rightarrow> its | FilterBy s \<Rightarrow> filter (\<lambda>c. cm_status c = s) its)"

definition commitment_counts :: "commitment list \<Rightarrow> commitment_filter \<Rightarrow> nat" where
  "commitment_counts its f =
     (case f of FilterAll \<Rightarrow> length its | FilterBy s \<Rightarrow> count_where (\<lambda>c. cm_status c = s) its)"

definition canAct :: "commitment \<Rightarrow> bool" where
  "canAct c \<longleftrightarrow> cm_status c = Pending"

record commitments_page =
  cload :: "(commitment list, api_failure) route_data"
  cfilter :: commitment_filter
  pendingAction :: "jstr option"
  in_flight :: "v2_op list"

definition commitments_init :: "commitment list option \<Rightarrow> commitments_page" where
  "commitments_init mock = \<lparr>cload = rd_init mock, cfilter = FilterAll, pendingAction = None, in_flight = []\<rparr>"

datatype page_body = Skeleton | ErrorView "api_failure option" | ListView "commitment list"

definition page_view :: "commitments_page \<Rightarrow> page_body" where
  "page_view s =
     (if rd_status (cload s) = Loading \<and> rd_data (cload s) = None then Skeleton
      else if rd_status (cload s) = Error then ErrorView (rd_error (cload s))
      else ListView (visible_commitments (cfilter s) (case rd_data (cload s) of None \<Rightarrow> [] | Some its \<Rightarrow> its)))"

text \<open>Both handlers up to the \<open>await\<close>, and the \<open>finally\<close> block.\<close>

definition start_dismiss :: "jstr \<Rightarrow> commitments_page \<Rightarrow> commitments_page" where
  "start_dismiss i s = s\<lparr>pendingAction := Some i, in_flight := in_flight s @ [CommitmentsDismiss i]\<rparr>"

definition start_snooze :: "int \<Rightarrow> jstr \<Rightarrow> commitments_page \<Rightarrow> commitments_page" where
  "start_snooze now i s =
     (let untilMs = now + 4 * 60 * 60 * 1000
      in s\<lparr>pendingAction := Some i, in_flight := in_flight s @ [CommitmentsSnooze i untilMs]\<rparr>)"

definition finish_action :: "nat \<Rightarrow> commitments_page \<Rightarrow> commitments_page" where
  "finish_action k s =
     s\<lparr>in_flight := take k (in_flight s) @ drop (Suc k) (in_flight s), pendingAction := None, cload := run (cload s)\<rparr>"

datatype commitments_event =
    Route "(commitment list, api_failure) rd_event" | PickFilter commitment_filter
  | DismissClick jstr | SnoozeClick int jstr | Settled nat

definition button_live :: "jstr \<Rightarrow> commitments_page \<Rightarrow> bool" where
  "button_live i s \<longleftrightarrow>
     (case page_view s of ListView cs \<Rightarrow> list_ex (\<lambda>c. cm_id c = i \<and> canAct c) cs | _ \<Rightarrow> False) \<and> pendingAction s \<noteq> Some i"

fun commitments_enabled :: "commitments_event \<Rightarrow> commitments_page \<Rightarrow> bool" where
  "commitments_enabled (Route ev) s = (rd_enabled ev (cload s) \<and> (ev = Reload \<longrightarrow> rd_status (cload s) = Error))"
| "commitments_enabled (PickFilter f) s = True"
| "commitments_enabled (DismissClick i) s = button_live i s"
| "commitments_enabled (SnoozeClick now i) s = button_live i s"
| "commitments_enabled (Settled k) s = (k < length (in_flight s))"

fun commitments_exec :: "commitments_event \<Rightarrow> commitments_page \<Rightarrow> commitments_page" where
  "commitments_exec (Route ev) s = s\<lparr>cload := rd_exec ev (cload s)\<rparr>"
| "commitments_exec (PickFilter f) s = s\<lparr>cfilter := f\<rparr>"
| "commitments_exec (DismissClick i) s = start_dismiss i s"
| "commitments_exec (SnoozeClick now i) s = start_snooze now i s"
| "commitments_exec (Settled k) s = finish_action k s"

inductive commitments_reach :: "commitment list option \<Rightarrow> commitments_page \<Rightarrow> bool" for mock where
  start: "commitments_reach mock (commitments_init mock)"
| step: "commitments_reach mock s \<Longrightarrow> commitments_enabled ev s \<Longrightarrow> commitments_reach mock (commitments_exec ev s)"

section \<open>Counters and times\<close>

interpretation commitment_categories: category_filter cm_status STATUS_FILTERS
proof
  show "cm_status c \<in> set STATUS_FILTERS" for c by (cases "cm_status c") (simp_all add: STATUS_FILTERS_def)
qed (simp add: STATUS_FILTERS_def)

lemma round_div_pos: "0 < d \<Longrightarrow> d \<le> 2 * n \<Longrightarrow> 1 \<le> round_div n d"
  unfolding round_div_def by (rule order_trans [OF _ zdiv_mono1 [of "2 * d" "2 * n + d"]]) auto

section \<open>Invariants\<close>

lemma reach_rd_inv: "commitments_reach mock s \<Longrightarrow> rd_inv (cload s)"
proof (induction rule: commitments_reach.induct)
  case start
  then show ?case by (simp add: commitments_init_def rd_inv_init)
next
  case (step s ev)
  then show ?case
    by (cases ev) (simp_all add: rd_inv_exec rd_inv_run start_dismiss_def start_snooze_def finish_action_def Let_def)
qed

lemma run_not_earlier: "invocationRef (run s) = Suc (invocationRef s)"
  by (simp add: run_def Let_def)

section \<open>Properties\<close>

text \<open>C34.
  What the page shows after an action is fresh: once a dismiss or snooze call has settled, no response
  that was requested before is ever shown; every response that still reaches the page answers a
  loader call made after the action, whatever else happens and in whatever order promises settle.
\<close>

theorem action_outcome_is_fresh:
  assumes "commitments_reach mock s" and "commitments_enabled (Settled k) s"
    and "rd_trace evs (cload (commitments_exec (Settled k) s)) = Some r"
    and "p \<in> set (rd_accepted evs (cload (commitments_exec (Settled k) s)))"
  shows "invocationRef (cload s) < fst p"
proof -
  have c: "cload (commitments_exec (Settled k) s) = run (cload s)" by (simp add: finish_action_def)
  have "rd_inv (run (cload s))" by (rule rd_inv_run [OF reach_rd_inv [OF assms(1)]])
  then have "Suc (invocationRef (cload s)) \<le> fst p"
    using accepted_bounds [OF assms(3) [unfolded c]] assms(4) [unfolded c] by (auto simp: run_not_earlier)
  then show ?thesis by simp
qed

definition demo_commitment :: "jstr \<Rightarrow> commitment" where
  "demo_commitment i =
     \<lparr>cm_id = i, cm_workspace_id = ''w'', cm_tenant_id = ''t'', cm_kind = OpenLoop, cm_sensitivity = Routine,
      cm_status = Pending, cm_reason = [], cm_suggested_text = [], cm_dedupe_key = i, cm_confidence = 1,
      cm_due_window = \<lparr>earliest_ms = 0, latest_ms = 1, timezone = None\<rparr>, cm_connector_id = None, cm_channel_id = None,
      cm_user_id = None, cm_source_event_id = None, cm_created_at_ms = 0, cm_updated_at_ms = 0, cm_sent_at_ms = None,
      cm_dismissed_at_ms = None, cm_snoozed_until_ms = None, cm_expired_at_ms = None, cm_attempts = 0\<rparr>"

definition demo_page :: commitments_page where
  "demo_page = commitments_exec (DismissClick ''a'')
     (commitments_exec (Route Mount) (commitments_init (Some [demo_commitment ''a'', demo_commitment ''b''])))"

lemma demo_page_reach: "commitments_reach (Some [demo_commitment ''a'', demo_commitment ''b'']) demo_page"
proof -
  have 1: "commitments_enabled (Route Mount) (commitments_init (Some [demo_commitment ''a'', demo_commitment ''b'']))"
    by (simp add: commitments_init_def rd_init_def)
  have 2: "commitments_enabled (DismissClick ''a'')
      (commitments_exec (Route Mount) (commitments_init (Some [demo_commitment ''a'', demo_commitment ''b''])))"
    by (simp add: button_live_def page_view_def commitments_init_def rd_init_def run_def visible_commitments_def
        canAct_def demo_commitment_def)
  show ?thesis
    unfolding demo_page_def
    by (rule commitments_reach.step [OF commitments_reach.step [OF commitments_reach.start 1] 2])
qed

lemmas demo_page_simps = demo_page_def commitments_init_def rd_init_def start_dismiss_def finish_action_def run_def
  on_resolved_def Let_def

lemma action_outcome_is_fresh_witness:
  "rd_accepted [Resolved 1 [], Resolved 2 []] (cload (commitments_exec (Settled 0) demo_page)) = [(2, Inr [])]
   \<and> invocationRef (cload demo_page) < 2"
proof -
  have a: "rd_accepted [Resolved 1 [], Resolved 2 []] (cload (commitments_exec (Settled 0) demo_page)) = [(2, Inr [])]"
    by (simp add: demo_page_simps)
  moreover have "commitments_enabled (Settled 0) demo_page" by (simp add: demo_page_simps)
  moreover have "\<exists>r. rd_trace [Resolved 1 [], Resolved 2 []] (cload (commitments_exec (Settled 0) demo_page)) = Some r"
    by (simp add: demo_page_simps)
  ultimately show ?thesis
    using action_outcome_is_fresh [OF demo_page_reach, of 0 "[Resolved 1 [], Resolved 2 []]" _ "(2, Inr [])"] by auto
qed

text \<open>The page remembers one pending action only: with two calls under way, the first one to settle
  gives the buttons of the other one back while its call is still in flight.\<close>

lemma second_action_unguarded:
  "let s = commitments_exec (Settled 0) (commitments_exec (DismissClick ''b'') demo_page) in
   commitments_enabled (DismissClick ''b'') demo_page
   \<and> in_flight s = [CommitmentsDismiss ''b''] \<and> commitments_enabled (DismissClick ''b'') s"
  by (simp add: demo_page_simps button_live_def page_view_def visible_commitments_def canAct_def demo_commitment_def)

text \<open>Relative times are well formed: a due time less than a minute away is \<open>in <1min\<close> or \<open>just now\<close>, and
  any other is a positive whole number of minutes below 60, of hours below 24, or of days, marked as
  future or past by the sign of the difference.
\<close>

theorem relTimeMs_well_formed:
  "relTimeMs d = (if 0 \<le> d then ''in <1min'' else ''just now'') \<and> \<bar>d\<bar> < 60000
   \<or> (\<exists>n u. relTimeMs d = (if 0 \<le> d then ''in '' @ int_str n @ u else int_str n @ u @ '' ago'')
        \<and> 60000 \<le> \<bar>d\<bar> \<and> 1 \<le> n \<and> (u = ''min'' \<and> n < 60 \<or> u = ''h'' \<and> n < 24 \<or> u = ''d''))"
proof (cases "\<bar>d\<bar> < 60000")
  case True
  then show ?thesis by (simp add: relTimeMs_def Let_def)
next
  case False
  define m h where "m = round_div \<bar>d\<bar> 60000" and "h = round_div m 60"
  have m: "1 \<le> m" unfolding m_def using False by (intro round_div_pos) auto
  have h: "1 \<le> h" if "60 \<le> m" unfolding h_def using that by (intro round_div_pos) auto
  have g: "1 \<le> round_div h 24" if "24 \<le> h" using that by (intro round_div_pos) auto
  have r: "relTimeMs d =
      (if m < 60 then (if 0 \<le> d then ''in '' @ int_str m @ ''min'' else int_str m @ ''min'' @ '' ago'')
       else if h < 24 then (if 0 \<le> d then ''in '' @ int_str h @ ''h'' else int_str h @ ''h'' @ '' ago'')
       else (if 0 \<le> d then ''in '' @ int_str (round_div h 24) @ ''d'' else int_str (round_div h 24) @ ''d'' @ '' ago''))"
    using False by (simp add: relTimeMs_def Let_def m_def h_def)
  consider "m < 60" | "60 \<le> m" "h < 24" | "60 \<le> m" "24 \<le> h" by linarith
  then show ?thesis
  proof cases
    case 1
    then show ?thesis using False m by (intro disjI2 exI [of _ m] exI [of _ "''min''"]) (simp add: r)
  next
    case 2
    then show ?thesis using False h by (intro disjI2 exI [of _ h] exI [of _ "''h''"]) (simp add: r)
  next
    case 3
    then show ?thesis using False g by (intro disjI2 exI [of _ "round_div h 24"] exI [of _ "''d''"]) (simp add: r)
  qed
qed

end
