(* ===== verification/Recipes_Page.thy ===== *)
theory Recipes_Page
  imports Drawer_Effects
begin

text \<open>
  The Recipes page (\<open>apps/web/src/pages/v2/Recipes.tsx\<close>, wire types of \<open>_mocks/recipes.ts\<close>): the
  category counters, the search filter, the derived parts of a card (safety preview, trust strip, runs
  timeline) and the handlers that activate, pause and run a recipe.  Class names, icons and layout are
  not modelled; text is compared as ASCII text is.
\<close>

section \<open>Wire types\<close>

datatype category = CatInbox | CatCalendar | CatPurchasing | CatResearch | CatOperations | CatDrafting

datatype recipe_status = Active | Paused | New

datatype recipe_risk = RLow | RMedium | RHigh

datatype perm_scope = Scoped | Broad | Restricted

datatype run_outcome = Completed | Approved | HeldRun | Skipped | Denied

record recipe_permission =
  perm_key :: jstr
  perm_label :: jstr
  perm_scope :: perm_scope
  perm_approvals :: "int option"

record recipe_safety =
  rs_can :: "jstr list"
  rs_cannot :: "jstr list"
  rs_needsApproval :: "jstr list"
  rs_stopsIf :: "jstr list"

datatype layer_state = LayerActive | LayerWatching

record recipe_layer =
  rl_id :: nat
  rl_name :: jstr
  rl_note :: jstr
  rl_state :: layer_state

record run_event =
  run_at :: jstr
  run_outcome :: run_outcome
  run_note :: jstr

record recipe =
  rcp_id :: jstr
  rcp_name :: jstr
  rcp_purpose :: jstr
  rcp_category :: category
  rcp_status :: recipe_status
  rcp_risk :: recipe_risk
  rcp_lastRun :: "jstr option"
  rcp_schedule :: jstr
  rcp_cron :: jstr
  rcp_fallback :: jstr
  rcp_retry :: jstr
  rcp_permissions :: "recipe_permission list"
  rcp_safety :: recipe_safety
  rcp_policy :: "recipe_layer list"
  rcp_recentRuns :: "run_event list"

definition mockFiveLayers :: "(jstr \<times> jstr) list" where
  "mockFiveLayers =
     [(''Identity'', ''Caller and workspace identity verified.''),
      (''Allow-list'', ''Targets restricted to approved contacts and endpoints.''),
      (''Tone & accuracy'', ''Outbound content checked for tone, factual claims, attached files.''),
      (''Spend & scope'', ''Caps, rate limits, and blast radius enforced.''),
      (''Operator review'', ''Anything above thresholds routed to your inbox.'')]"

definition policy :: "nat list \<Rightarrow> recipe_layer list" where
  "policy watching = map (\<lambda>(i, name, note).
     \<lparr>rl_id = i + 1, rl_name = name, rl_note = note,
      rl_state = (if i + 1 \<in> set watching then LayerWatching else LayerActive)\<rparr>)
     (zip [0..<length mockFiveLayers] mockFiveLayers)"

section \<open>Tables\<close>

datatype recipe_tone = RtSafe | RtWarning | RtBlocked | RtQuarantined | RtAccent | RtNeutral

primrec RISK_TONE :: "recipe_risk \<Rightarrow> recipe_tone" where
  "RISK_TONE RLow = RtSafe"
| "RISK_TONE RMedium = RtWarning"
| "RISK_TONE RHigh = RtBlocked"

primrec STATUS_META :: "recipe_status \<Rightarrow> jstr \<times> recipe_tone" where
  "STATUS_META Active = (''Active'', RtSafe)"
| "STATUS_META Paused = (''Paused'', RtNeutral)"
| "STATUS_META New = (''New'', RtAccent)"

primrec SCOPE_META :: "perm_scope \<Rightarrow> jstr \<times> recipe_tone" where
  "SCOPE_META Scoped = (''Scoped'', RtNeutral)"
| "SCOPE_META Broad = (''Broad'', RtWarning)"
| "SCOPE_META Restricted = (''Restricted'', RtBlocked)"

primrec category_label :: "category \<Rightarrow> jstr" where
  "category_label CatInbox = ''Inbox''"
| "category_label CatCalendar = ''Calendar''"
| "category_label CatPurchasing = ''Purchasing''"
| "category_label CatResearch = ''Research''"
| "category_label CatOperations = ''Operations''"
| "category_label CatDrafting = ''Drafting''"

definition CATEGORIES :: "(category \<times> jstr) list" where
  "CATEGORIES =
     [(CatInbox, ''Inbox''), (CatCalendar, ''Calendar''), (CatPurchasing, ''Purchasing''),
      (CatResearch, ''Research''), (CatOperations, ''Operations''), (CatDrafting, ''Drafting'')]"

primrec OUTCOME_META :: "run_outcome \<Rightarrow> jstr \<times> recipe_tone" where
  "OUTCOME_META Completed = (''Completed'', RtSafe)"
| "OUTCOME_META Approved = (''Approved'', RtAccent)"
| "OUTCOME_META HeldRun = (''Held'', RtQuarantined)"
| "OUTCOME_META Skipped = (''Skipped'', RtNeutral)"
| "OUTCOME_META Denied = (''Denied'', RtBlocked)"

section \<open>Filtering\<close>

datatype tab_id = TabAll | TabOf category

text \<open>The counters: all start at 0 but the one of all recipes, and a loop adds 1 per recipe.\<close>

definition countByTab :: "recipe list \<Rightarrow> tab_id \<Rightarrow> nat" where
  "countByTab rs =
     fold (\<lambda>r out. out(TabOf (rcp_category r) := out (TabOf (rcp_category r)) + 1)) rs
       (\<lambda>tab. case tab of TabAll \<Rightarrow> length rs | TabOf c \<Rightarrow> 0)"

definition matches :: "jstr \<Rightarrow> recipe \<Rightarrow> bool" where
  "matches needle r \<longleftrightarrow>
     js_includes (js_toLowerCase (rcp_name r)) needle
     \<or> js_includes (js_toLowerCase (rcp_purpose r)) needle
     \<or> list_ex (\<lambda>p. js_includes (perm_key p) needle) (rcp_permissions r)"

definition applyFilters :: "recipe list \<Rightarrow> tab_id \<Rightarrow> jstr \<Rightarrow> recipe list" where
  "applyFilters rs tab q =
     (let needle = js_toLowerCase (js_trim q)
      in filter (\<lambda>r. if (case tab of TabAll \<Rightarrow> False | TabOf c \<Rightarrow> rcp_category r \<noteq> c) then False
                      else if needle = [] then True else matches needle r) rs)"

section \<open>Parts of a card\<close>

definition preview_total :: "recipe_safety \<Rightarrow> nat" where
  "preview_total s = length (rs_can s) + length (rs_cannot s) + length (rs_needsApproval s) + length (rs_stopsIf s)"

definition preview_shown :: "recipe_safety \<Rightarrow> jstr list" where
  "preview_shown s = take 1 (rs_can s) @ take 1 (rs_needsApproval s) @ take 1 (rs_cannot s)"

definition preview_remaining :: "recipe_safety \<Rightarrow> nat" where
  "preview_remaining s = preview_total s - length (preview_shown s)"

definition trust_tone :: "recipe \<Rightarrow> recipe_tone" where
  "trust_tone r =
     (if list_ex (\<lambda>p. perm_scope p = Restricted) (rcp_permissions r) then RtBlocked
      else if list_ex (\<lambda>p. perm_scope p = Broad) (rcp_permissions r) then RtWarning else RtNeutral)"

definition shown_runs :: "recipe \<Rightarrow> run_event list" where
  "shown_runs r = take 10 (rcp_recentRuns r)"

definition active_layers :: "recipe_layer list \<Rightarrow> nat" where
  "active_layers ls = length (filter (\<lambda>l. rl_state l = LayerActive) ls)"

section \<open>The page\<close>

record recipes_page =
  recipes :: "recipe list"
  tab :: tab_id
  query :: jstr
  openId :: "jstr option"
  recipes_toast :: "jstr option"

definition recipes_init :: "recipe list \<Rightarrow> recipes_page" where
  "recipes_init mock = \<lparr>recipes = mock, tab = TabAll, query = [], openId = None, recipes_toast = None\<rparr>"

definition filtered :: "recipes_page \<Rightarrow> recipe list" where
  "filtered s = applyFilters (recipes s) (tab s) (query s)"

definition opened :: "recipes_page \<Rightarrow> recipe option" where
  "opened s = Option.bind (openId s) (\<lambda>i. find (\<lambda>r. rcp_id r = i) (recipes s))"

definition activeCount :: "recipes_page \<Rightarrow> nat" where
  "activeCount s = count_where (\<lambda>r. rcp_status r = Active) (recipes s)"

definition toggle_recipe :: "recipe \<Rightarrow> recipe" where
  "toggle_recipe r = r\<lparr>rcp_status := (if rcp_status r = Active then Paused else Active)\<rparr>"

definition toggle_toast :: "recipe \<Rightarrow> jstr" where
  "toggle_toast r = (if rcp_status r = Active then ''Paused'' else ''Activated'') @ '' '' @ u_middot @ '' '' @ rcp_name r"

text \<open>The updater sets the toast for each recipe it changes; the last one stays.\<close>

definition onToggle :: "jstr \<Rightarrow> recipes_page \<Rightarrow> recipes_page" where
  "onToggle i s =
     s\<lparr>recipes := update_by rcp_id i toggle_recipe (recipes s),
       recipes_toast := fold (\<lambda>r t. if rcp_id r = i then Some (toggle_toast r) else t) (recipes s) (recipes_toast s)\<rparr>"

definition onRunOnce :: "jstr \<Rightarrow> recipes_page \<Rightarrow> recipes_page" where
  "onRunOnce i s =
     (case find (\<lambda>r. rcp_id r = i) (recipes s) of None \<Rightarrow> s
      | Some r \<Rightarrow> s\<lparr>recipes_toast := Some (''Triggered one run '' @ u_middot @ '' '' @ rcp_name r)\<rparr>)"

datatype recipes_event =
    PickTab tab_id | TypeQuery jstr | Inspect jstr | CloseDrawer | Toggle jstr | RunOnce jstr | ToastGone

fun recipes_exec :: "recipes_event \<Rightarrow> recipes_page \<Rightarrow> recipes_page" where
  "recipes_exec (PickTab c) s = s\<lparr>tab := c\<rparr>"
| "recipes_exec (TypeQuery v) s = s\<lparr>query := v\<rparr>"
| "recipes_exec (Inspect i) s = s\<lparr>openId := Some i\<rparr>"
| "recipes_exec CloseDrawer s = s\<lparr>openId := None\<rparr>"
| "recipes_exec (Toggle i) s = onToggle i s"
| "recipes_exec (RunOnce i) s = onRunOnce i s"
| "recipes_exec ToastGone s = s\<lparr>recipes_toast := None\<rparr>"

section \<open>Counters\<close>

interpretation recipe_categories: category_filter rcp_category "map fst CATEGORIES"
proof
  show "rcp_category r \<in> set (map fst CATEGORIES)" for r by (cases "rcp_category r") (simp_all add: CATEGORIES_def)
qed (simp add: CATEGORIES_def)

lemma count_loop:
  "fold (\<lambda>r out. out(TabOf (rcp_category r) := out (TabOf (rcp_category r)) + 1)) rs out t
   = out t + (case t of TabAll \<Rightarrow> 0 | TabOf c \<Rightarrow> count_where (\<lambda>r. rcp_category r = c) rs)"
  by (induction rs arbitrary: out) (auto simp: count_where_def split: tab_id.splits)

lemma countByTab_eq:
  "countByTab rs t = (case t of TabAll \<Rightarrow> length rs | TabOf c \<Rightarrow> count_where (\<lambda>r. rcp_category r = c) rs)"
  unfolding countByTab_def count_loop by (simp split: tab_id.splits)

text \<open>
  The numbers on the tabs are right: with an empty search each tab shows exactly as many recipes as
  its counter says, a search only narrows the list and keeps its order, and the counters of the
  categories add up to the counter of all recipes.
\<close>

theorem recipe_tab_counts:
  "(js_blank q \<longrightarrow> length (applyFilters rs t q) = countByTab rs t)
   \<and> length (applyFilters rs t q) \<le> countByTab rs t
   \<and> applyFilters (applyFilters rs t []) t q = applyFilters rs t q
   \<and> (\<Sum>c \<leftarrow> map fst CATEGORIES. countByTab rs (TabOf c)) = countByTab rs TabAll"
proof (intro conjI impI)
  have shorter: "length (applyFilters xs t q) \<le> length xs" for xs by (simp add: applyFilters_def Let_def)
  have blank: "applyFilters rs t q = filter (\<lambda>r. case t of TabAll \<Rightarrow> True | TabOf c \<Rightarrow> rcp_category r = c) rs" if "js_blank q" for q
    using that by (auto simp: applyFilters_def js_blank_def js_toLowerCase_def split: tab_id.splits intro!: filter_cong)
  have len: "length (filter (\<lambda>r. case t of TabAll \<Rightarrow> True | TabOf c \<Rightarrow> rcp_category r = c) rs) = countByTab rs t"
    by (auto simp: countByTab_eq count_where_def split: tab_id.splits)
  then show "length (applyFilters rs t q) = countByTab rs t" if "js_blank q" using blank [OF that] by simp
  show narrow: "applyFilters (applyFilters rs t []) t q = applyFilters rs t q"
    by (auto simp: applyFilters_def js_trim_def js_trim_start_def js_toLowerCase_def Let_def split: tab_id.splits
        intro!: filter_cong)
  have "length (applyFilters rs t q) \<le> length (applyFilters rs t [])"
    unfolding narrow [symmetric] by (rule shorter)
  also have "\<dots> = countByTab rs t" using blank [of "[]"] len by simp
  finally show "length (applyFilters rs t q) \<le> countByTab rs t" .
  show "(\<Sum>c \<leftarrow> map fst CATEGORIES. countByTab rs (TabOf c)) = countByTab rs TabAll"
    using recipe_categories.counts_add_up [of rs] by (simp add: countByTab_eq)
qed

definition demo_recipe :: recipe where
  "demo_recipe =
     \<lparr>rcp_id = ''r'', rcp_name = ''Triage'', rcp_purpose = [], rcp_category = CatInbox, rcp_status = New, rcp_risk = RLow,
      rcp_lastRun = None, rcp_schedule = [], rcp_cron = [], rcp_fallback = [], rcp_retry = [],
      rcp_permissions = [\<lparr>perm_key = ''Mail.Read'', perm_label = [], perm_scope = Broad, perm_approvals = None\<rparr>],
      rcp_safety = \<lparr>rs_can = [''a'', ''b''], rs_cannot = [], rs_needsApproval = [], rs_stopsIf = []\<rparr>,
      rcp_policy = policy [], rcp_recentRuns = []\<rparr>"

lemma recipe_tab_counts_witness:
  "length (applyFilters [demo_recipe] (TabOf CatInbox) ''  '') = countByTab [demo_recipe] (TabOf CatInbox)"
proof -
  have "js_blank ''  ''" by code_simp
  then show ?thesis using recipe_tab_counts [of "''  ''" "[demo_recipe]" "TabOf CatInbox"] by blast
qed

section \<open>Activation\<close>

interpretation toggling: keyed_update rcp_id toggle_recipe
  by unfold_locales (simp add: toggle_recipe_def)

definition same_recipe :: "recipe \<Rightarrow> recipe \<Rightarrow> bool" where
  "same_recipe a b \<longleftrightarrow> b = a\<lparr>rcp_status := rcp_status b\<rparr>"

definition toggle_target :: "recipes_event \<Rightarrow> recipes_page \<Rightarrow> jstr option" where
  "toggle_target ev s = (case ev of Toggle i \<Rightarrow> Some i | _ \<Rightarrow> None)"

fun toggles :: "jstr \<Rightarrow> recipes_event list \<Rightarrow> nat" where
  "toggles i [] = 0"
| "toggles i (ev # evs) = (if ev = Toggle i then 1 else 0) + toggles i evs"

interpretation recipe_clicks: click_updates rcp_id toggle_recipe recipes recipes_exec toggle_target
proof
  show "recipes (recipes_exec ev s)
    = (case toggle_target ev s of None \<Rightarrow> recipes s | Some k \<Rightarrow> update_by rcp_id k toggle_recipe (recipes s))" for ev s
    by (cases ev) (simp_all add: toggle_target_def onToggle_def onRunOnce_def split: option.splits)
qed

lemma clicks_toggles: "clicks recipes_exec toggle_target i evs s = toggles i evs"
  by (induction evs arbitrary: s) (auto simp: toggle_target_def split: recipes_event.splits)

lemma toggle_pow_status:
  "0 < n \<Longrightarrow> rcp_status ((toggle_recipe ^^ n) r) = (if (rcp_status r = Active) = even n then Active else Paused)"
proof (induction n)
  case 0
  then show ?case by simp
next
  case (Suc n)
  then show ?case by (cases "n = 0") (auto simp: toggle_recipe_def)
qed

lemma same_recipe_toggle: "same_recipe a b \<Longrightarrow> same_recipe a (toggle_recipe b)"
  by (cases a; cases b) (simp add: same_recipe_def toggle_recipe_def)

lemma toggle_pow_same: "same_recipe r ((toggle_recipe ^^ n) r)"
  by (induction n) (simp_all add: same_recipe_toggle, simp add: same_recipe_def)

text \<open>Only the user's clicks activate a recipe: after any sequence of page events a recipe is the one it
  was except for its status, and its status is what the number of its own toggles says.  Without a
  toggle it is unchanged; after an odd number an active recipe is paused and any other one is active;
  after an even number, not zero, the other way round.  No event of another recipe matters.
\<close>

lemma recipe_status_from_toggles:
  assumes "find (\<lambda>r. rcp_id r = i) (recipes s) = Some r" and "n = toggles i evs"
  shows "\<exists>r'. find (\<lambda>r. rcp_id r = i) (recipes (fold recipes_exec evs s)) = Some r' \<and> same_recipe r r'
    \<and> rcp_status r' = (if n = 0 then rcp_status r else if (rcp_status r = Active) = even n then Active else Paused)"
proof -
  have "find (\<lambda>r. rcp_id r = i) (recipes (fold recipes_exec evs s)) = Some ((toggle_recipe ^^ n) r)"
    using recipe_clicks.find_run [of i evs s] assms by (simp add: clicks_toggles)
  then show ?thesis using toggle_pow_status [of n r] toggle_pow_same [of r n] by simp
qed


lemma recipe_status_from_toggles_witness:
  "\<exists>r'. find (\<lambda>r. rcp_id r = ''r'') (recipes (fold recipes_exec [Toggle ''r'', RunOnce ''r'', Toggle ''x''] (recipes_init [demo_recipe]))) = Some r'
     \<and> rcp_status r' = Active"
proof -
  have f: "find (\<lambda>r. rcp_id r = ''r'') (recipes (recipes_init [demo_recipe])) = Some demo_recipe"
    by (simp add: recipes_init_def demo_recipe_def)
  show ?thesis
    using recipe_status_from_toggles [OF f, of 1 "[Toggle ''r'', RunOnce ''r'', Toggle ''x'']"] by (auto simp: demo_recipe_def)
qed

text \<open>The search box lowers the needle but not the permission keys it promises to search, and the
  preview says that the lines it leaves out are among the last two sections when they need not be.\<close>

lemma upper_case_keys_not_found: "applyFilters [demo_recipe] TabAll ''Mail.Read'' = []"
  by code_simp

lemma preview_remaining_elsewhere:
  "preview_remaining (rcp_safety demo_recipe) = 1 \<and> rs_cannot (rcp_safety demo_recipe) = [] \<and> rs_stopsIf (rcp_safety demo_recipe) = []"
  by code_simp

section \<open>The page as a machine\<close>

text \<open>A card offers to run a recipe that is not new; the drawer offers it for every recipe.\<close>

fun recipes_enabled :: "recipes_event \<Rightarrow> recipes_page \<Rightarrow> bool" where
  "recipes_enabled (Inspect i) s = (i \<in> rcp_id ` set (filtered s))"
| "recipes_enabled (Toggle i) s = (i \<in> rcp_id ` set (filtered s) \<or> Some i = map_option rcp_id (opened s))"
| "recipes_enabled (RunOnce i) s =
     (list_ex (\<lambda>r. rcp_id r = i \<and> rcp_status r \<noteq> New) (filtered s) \<or> Some i = map_option rcp_id (opened s))"
| "recipes_enabled CloseDrawer s = (opened s \<noteq> None)"
| "recipes_enabled ToastGone s = (recipes_toast s \<noteq> None)"
| "recipes_enabled _ s = True"

section \<open>The toast\<close>

definition recipes_toast_ms :: nat where
  "recipes_toast_ms = 2200"

text \<open>The toast is a text, so that setting it to the text it has changes nothing.\<close>

interpretation recipes_toast: timed_toast recipes_toast_ms "\<lambda>t. t = []" recipes_toast recipes_enabled recipes_exec ToastGone "\<lambda>v. v = ToastGone" "\<lambda>v s. False"
  by unfold_locales simp

abbreviation "recipes_timed_run \<equiv> timed_run recipes_toast_ms (\<lambda>t. t = []) recipes_toast recipes_enabled recipes_exec ToastGone
  (\<lambda>v. v = ToastGone) (\<lambda>v s. False)"

text \<open>So a second run of the same recipe does not get its own time: however late it is started, its confirmation goes
  when that of the first is due.\<close>

lemma repeated_toast_early:
  assumes "recipes_enabled (RunOnce i) p" "find (\<lambda>r. rcp_id r = i) (recipes p) = Some r" "recipes_toast p = None"
  shows "map_option (\<lambda>s. (tm_now (tp_timers s), map snd (tm_pending (tp_timers s))))
    (recipes_timed_run [Act (RunOnce i), Pass n, Act (RunOnce i)] p) = Some (n, [2200])"
proof -
  obtain q where q: "q = recipes_exec (RunOnce i) p" by blast
  obtain t where t: "recipes_toast q = Some t" "t \<noteq> []" using assms(2) by (simp add: q onRunOnce_def)
  have same: "recipes q = recipes p" "filtered q = filtered p" "opened q = opened p"
    using assms(2) by (simp_all add: q onRunOnce_def filtered_def opened_def)
  then have en: "recipes_enabled (RunOnce i) q" using assms(1) by simp
  have "recipes_toast (recipes_exec (RunOnce i) q) = Some t" using assms(2) t(1) same by (simp add: q onRunOnce_def)
  then show ?thesis using assms(3) t
    by (simp del: recipes_enabled.simps recipes_exec.simps add: assms(1) en q [symmetric] timed_run_def timed_init_def timers_init_def
        toast_effect_defs recipes_toast_ms_def)
qed

section \<open>The drawer\<close>

definition recipes_inv :: "recipes_page \<Rightarrow> bool" where
  "recipes_inv s \<longleftrightarrow> [] \<notin> rcp_id ` set (recipes s) \<and> set_option (openId s) \<subseteq> rcp_id ` set (recipes s)"

lemma recipes_ids_exec: "map rcp_id (recipes (recipes_exec ev s)) = map rcp_id (recipes s)"
  by (cases ev) (auto simp: onToggle_def onRunOnce_def toggling.keys_kept split: option.splits)

lemma opened_iff: "opened s \<noteq> None \<longleftrightarrow> (\<exists>i. openId s = Some i \<and> i \<in> rcp_id ` set (recipes s))"
  by (cases "openId s") (auto simp: opened_def find_None_iff)

lemma recipes_inv_exec:
  assumes "recipes_inv s" "recipes_enabled ev s" shows "recipes_inv (recipes_exec ev s)"
proof -
  have "rcp_id ` set (recipes (recipes_exec ev s)) = rcp_id ` set (recipes s)"
    using recipes_ids_exec [of ev s] by (metis list.set_map)
  moreover have "set (filtered s) \<subseteq> set (recipes s)" by (auto simp: filtered_def applyFilters_def Let_def)
  ultimately show ?thesis using assms
    by (cases ev) (auto simp: recipes_inv_def onToggle_def onRunOnce_def split: option.splits)
qed

interpretation recipes_drawer: drawer_page "lock_always id_truthy" id_truthy openId "\<lambda>s. opened s \<noteq> None" recipes_enabled recipes_exec
  CloseDrawer "\<lambda>v. False" recipes_inv
proof
  show "key_listeners (snd (lock_always id_truthy d w)) = key_listeners w" for d w by (simp add: lock_always_def)
  show "recipes_inv (recipes_exec v p)" if "recipes_inv p" "recipes_enabled v p" for v p using that by (rule recipes_inv_exec)
  show "recipes_inv (recipes_exec CloseDrawer p)" if "recipes_inv p" for p using that by (simp add: recipes_inv_def)
  show "id_truthy (openId p) = (opened p \<noteq> None)" if "recipes_inv p" for p
    using that unfolding opened_iff by (auto simp: recipes_inv_def id_truthy_def)
  show "\<not> opened (recipes_exec CloseDrawer p) \<noteq> None" for p by (simp add: opened_def)
qed

end
