(* ===== verification/Home_Page.thy ===== *)
theory Home_Page
  imports Routed_Page React_Effects Complex_Main
begin

text \<open>
  The Home page (\<open>apps/web/src/pages/v2/Home.tsx\<close>, wire types of \<open>_mocks/home.ts\<close>): the timeline of
  events with its reducer, filters and counters, the approve and deny handlers, relative times, the
  explanations of a status and the score of a team card.  Scores are exact rationals; icons, class
  names and layout are not modelled.
\<close>

section \<open>Wire types and tables\<close>

datatype event_status = Taken | Proposed | Blocked | Healed | Quarantined | ResearchUpdate | SquadHandoff

datatype home_tone = HSafe | HWarning | HBlocked | HRecovered | HQuarantined | HAccent | HNeutral

datatype home_scope = HScoped | HBroad | HRestricted

datatype home_risk = HLow | HMedium | HHigh

record event_item =
  ei_id :: jstr
  ei_status :: event_status
  ei_title :: jstr
  ei_teamId :: jstr
  ei_permission :: jstr
  ei_permissionScope :: home_scope
  ei_risk :: home_risk
  ei_minutesAgo :: int
  ei_cause :: "jstr option"
  ei_why :: jstr
  ei_target :: "jstr option"
  ei_approvals :: "int option"

record team =
  team_id :: jstr
  team_name :: jstr
  team_color :: home_tone
  team_members :: int
  team_description :: jstr

record status_meta =
  meta_label :: jstr
  meta_color :: home_tone
  meta_order :: nat
  needsAttn :: bool

primrec STATUS_META :: "event_status \<Rightarrow> status_meta" where
  "STATUS_META Proposed = \<lparr>meta_label = ''Awaiting approval'', meta_color = HWarning, meta_order = 0, needsAttn = True\<rparr>"
| "STATUS_META Blocked = \<lparr>meta_label = ''Blocked'', meta_color = HBlocked, meta_order = 1, needsAttn = True\<rparr>"
| "STATUS_META Quarantined = \<lparr>meta_label = ''Quarantined'', meta_color = HQuarantined, meta_order = 2, needsAttn = True\<rparr>"
| "STATUS_META Taken = \<lparr>meta_label = ''Done'', meta_color = HSafe, meta_order = 3, needsAttn = False\<rparr>"
| "STATUS_META Healed = \<lparr>meta_label = ''Auto-healed'', meta_color = HRecovered, meta_order = 4, needsAttn = False\<rparr>"
| "STATUS_META ResearchUpdate = \<lparr>meta_label = ''Research'', meta_color = HAccent, meta_order = 5, needsAttn = False\<rparr>"
| "STATUS_META SquadHandoff = \<lparr>meta_label = ''Handoff'', meta_color = HNeutral, meta_order = 6, needsAttn = False\<rparr>"

definition relTime :: "int \<Rightarrow> jstr" where
  "relTime m =
     (if m < 1 then ''just now''
      else if m < 60 then int_str m @ ''m ago''
      else let h = m div 60 in if h < 24 then int_str h @ ''h ago'' else int_str (h div 24) @ ''d ago'')"

definition plural :: "int \<Rightarrow> jstr \<Rightarrow> jstr" where
  "plural n unit = int_str n @ '' '' @ unit @ (if n = 1 then [] else ''s'') @ '' ago''"

definition relTimeFull :: "int \<Rightarrow> jstr" where
  "relTimeFull m =
     (if m < 1 then ''just now''
      else if m < 60 then plural m ''minute''
      else let h = m div 60 in if h < 24 then plural h ''hour'' else plural (h div 24) ''day'')"

primrec nextStepsFor :: "event_status \<Rightarrow> jstr list" where
  "nextStepsFor Proposed =
     [''Approve to run the action now.'', ''Deny to keep it from running.'', ''Edit the draft inline before approving.'']"
| "nextStepsFor Blocked = [''The action did not run.'', ''Adjust the safety rule, or take the action yourself.'']"
| "nextStepsFor Quarantined = [''The draft is held in your inbox.'', ''Open it, edit, then send if it looks right.'']"
| "nextStepsFor Taken = [''This action ran inside the rules.'', ''It will appear in the daily summary.'']"
| "nextStepsFor Healed =
     [''Auto-heal ran on its own.'', ''If this kind of failure repeats, the rule will be reviewed.'']"
| "nextStepsFor ResearchUpdate =
     [''No action needed '' @ u_mdash @ '' context updated.'', ''Affected teams adjusted automatically.'']"
| "nextStepsFor SquadHandoff =
     [''Work moved between teams.'', ''You'' @ [CHR 0x27] @ ''ll see the next action in the receiving team'' @ [CHR 0x27] @ ''s events.'']"

primrec RISK_TONE :: "home_risk \<Rightarrow> home_tone" where
  "RISK_TONE HLow = HSafe"
| "RISK_TONE HMedium = HWarning"
| "RISK_TONE HHigh = HBlocked"

primrec SCOPE_TONE :: "home_scope \<Rightarrow> home_tone" where
  "SCOPE_TONE HScoped = HNeutral"
| "SCOPE_TONE HBroad = HWarning"
| "SCOPE_TONE HRestricted = HBlocked"

section \<open>The reducer\<close>

datatype events_action = ApproveEvent jstr | DenyEvent jstr | Reset | ReplaceEvents "event_item list"

definition approve_event :: "event_item \<Rightarrow> event_item" where
  "approve_event e = e\<lparr>ei_status := Taken, ei_minutesAgo := 0, ei_why := ''You approved this just now.'', ei_cause := None\<rparr>"

definition deny_event :: "event_item \<Rightarrow> event_item" where
  "deny_event e =
     e\<lparr>ei_status := Blocked, ei_minutesAgo := 0, ei_cause := Some ''You denied this just now.'',
       ei_why := ''You held this action. Nothing was sent.''\<rparr>"

text \<open>\<open>INITIAL_EVENTS\<close> is a parameter: the events of the fixture.\<close>

fun eventsReducer :: "event_item list \<Rightarrow> event_item list \<Rightarrow> events_action \<Rightarrow> event_item list" where
  "eventsReducer initial_events st (ApproveEvent i) = update_by ei_id i approve_event st"
| "eventsReducer initial_events st (DenyEvent i) = update_by ei_id i deny_event st"
| "eventsReducer initial_events st Reset = initial_events"
| "eventsReducer initial_events st (ReplaceEvents its) = its"

section \<open>Filters and counters\<close>

datatype filter_id = AllActivity | Attention | ProposedOnly | BlockedOnly | HealedOnly

definition FILTER_CHIPS :: "(filter_id \<times> jstr) list" where
  "FILTER_CHIPS =
     [(AllActivity, ''All activity''), (Attention, ''Needs attention''), (ProposedOnly, ''Awaiting approval''),
      (BlockedOnly, ''Blocked''), (HealedOnly, ''Auto-healed'')]"

primrec FILTER_PREDICATE :: "filter_id \<Rightarrow> event_item \<Rightarrow> bool" where
  "FILTER_PREDICATE AllActivity = (\<lambda>e. True)"
| "FILTER_PREDICATE Attention = (\<lambda>e. needsAttn (STATUS_META (ei_status e)))"
| "FILTER_PREDICATE ProposedOnly = (\<lambda>e. ei_status e = Proposed)"
| "FILTER_PREDICATE BlockedOnly = (\<lambda>e. ei_status e = Blocked)"
| "FILTER_PREDICATE HealedOnly = (\<lambda>e. ei_status e = Healed)"

definition event_counts :: "event_item list \<Rightarrow> event_status \<Rightarrow> nat" where
  "event_counts es = fold (\<lambda>e c. c(ei_status e := c (ei_status e) + 1)) es (\<lambda>st. 0)"

primrec countFor :: "(event_status \<Rightarrow> nat) \<Rightarrow> filter_id \<Rightarrow> nat option" where
  "countFor c AllActivity = None"
| "countFor c Attention = Some (c Proposed + c Blocked + c Quarantined)"
| "countFor c ProposedOnly = Some (c Proposed)"
| "countFor c BlockedOnly = Some (c Blocked)"
| "countFor c HealedOnly = Some (c Healed)"

definition isCaused :: "event_item \<Rightarrow> bool" where
  "isCaused e \<longleftrightarrow> (ei_status e = Blocked \<or> ei_status e = Quarantined) \<and> ei_cause e \<noteq> None \<and> ei_cause e \<noteq> Some []"

section \<open>Team cards\<close>

text \<open>\<open>Math.round(x)\<close> is the floor of \<open>x + 1/2\<close>.\<close>

definition team_score :: "rat list \<Rightarrow> rat" where
  "team_score history =
     (if history = [] then 9
      else of_int \<lfloor>sum_list history / of_nat (length history) * 10 + 1 / 2\<rfloor> / 10)"

definition score_tone :: "rat \<Rightarrow> home_tone" where
  "score_tone score = (if 89 / 10 \<le> score then HSafe else if 8 \<le> score then HWarning else HBlocked)"

definition team_initials :: "jstr \<Rightarrow> jstr" where
  "team_initials name = take 2 (concat (map (take 1) (split_on (CHR '' '') name)))"

definition team_activity :: "event_item list \<Rightarrow> team \<Rightarrow> nat" where
  "team_activity es tm = length (filter (\<lambda>e. ei_teamId e = team_id tm) es)"

definition research_pct :: "rat \<Rightarrow> int" where
  "research_pct confidence = \<lfloor>confidence * 100 + 1 / 2\<rfloor>"

definition research_tone :: "int \<Rightarrow> home_tone" where
  "research_tone pct = (if 85 \<le> pct then HSafe else if 70 \<le> pct then HWarning else HBlocked)"

section \<open>The page\<close>

datatype home_toast = ToastApproved jstr | ToastDenied jstr

record home_page =
  events :: "event_item list"
  hfilter :: filter_id
  drawerEvent :: "event_item option"
  policyOpen :: bool
  htoast :: "home_toast option"

definition home_init :: "event_item list \<Rightarrow> home_page" where
  "home_init initial_events =
     \<lparr>events = initial_events, hfilter = AllActivity, drawerEvent = None, policyOpen = False, htoast = None\<rparr>"

definition filteredEvents :: "home_page \<Rightarrow> event_item list" where
  "filteredEvents s = filter (FILTER_PREDICATE (hfilter s)) (events s)"

definition onApprove :: "event_item list \<Rightarrow> event_item \<Rightarrow> home_page \<Rightarrow> home_page" where
  "onApprove ini ev s =
     s\<lparr>events := eventsReducer ini (events s) (ApproveEvent (ei_id ev)), htoast := Some (ToastApproved (ei_title ev))\<rparr>"

definition onDeny :: "event_item list \<Rightarrow> event_item \<Rightarrow> home_page \<Rightarrow> home_page" where
  "onDeny ini ev s =
     s\<lparr>events := eventsReducer ini (events s) (DenyEvent (ei_id ev)), htoast := Some (ToastDenied (ei_title ev))\<rparr>"

definition load_effect :: "event_item list \<Rightarrow> event_item list \<Rightarrow> home_page \<Rightarrow> home_page" where
  "load_effect ini its s = s\<lparr>events := eventsReducer ini (events s) (ReplaceEvents its)\<rparr>"

datatype home_event =
    ApproveRow event_item | DenyRow event_item | OpenDrawer event_item | CloseDrawer | OpenPolicy | ClosePolicy
  | PickFilter filter_id | ResetDemo | LoadedEvents "event_item list" | ToastTimeout

text \<open>The two buttons are there on the rows of the timeline that are proposed.\<close>

fun home_enabled :: "home_event \<Rightarrow> home_page \<Rightarrow> bool" where
  "home_enabled (ApproveRow e) s = (e \<in> set (filteredEvents s) \<and> ei_status e = Proposed)"
| "home_enabled (DenyRow e) s = (e \<in> set (filteredEvents s) \<and> ei_status e = Proposed)"
| "home_enabled (OpenDrawer e) s = (e \<in> set (filteredEvents s))"
| "home_enabled ToastTimeout s = (htoast s \<noteq> None)"
| "home_enabled _ s = True"

fun home_exec :: "event_item list \<Rightarrow> home_event \<Rightarrow> home_page \<Rightarrow> home_page" where
  "home_exec ini (ApproveRow e) s = onApprove ini e s"
| "home_exec ini (DenyRow e) s = onDeny ini e s"
| "home_exec ini (OpenDrawer e) s = s\<lparr>drawerEvent := Some e\<rparr>"
| "home_exec ini CloseDrawer s = s\<lparr>drawerEvent := None\<rparr>"
| "home_exec ini OpenPolicy s = s\<lparr>policyOpen := True\<rparr>"
| "home_exec ini ClosePolicy s = s\<lparr>policyOpen := False\<rparr>"
| "home_exec ini (PickFilter f) s = s\<lparr>hfilter := f\<rparr>"
| "home_exec ini ResetDemo s = s\<lparr>events := eventsReducer ini (events s) Reset\<rparr>"
| "home_exec ini (LoadedEvents its) s = load_effect ini its s"
| "home_exec ini ToastTimeout s = s\<lparr>htoast := None\<rparr>"

fun home_run :: "event_item list \<Rightarrow> home_event list \<Rightarrow> home_page \<Rightarrow> home_page option" where
  "home_run ini [] s = Some s"
| "home_run ini (ev # evs) s = (if home_enabled ev s then home_run ini evs (home_exec ini ev s) else None)"

definition replaces :: "home_event \<Rightarrow> bool" where
  "replaces ev \<longleftrightarrow> (case ev of ResetDemo \<Rightarrow> True | LoadedEvents its \<Rightarrow> True | _ \<Rightarrow> False)"

section \<open>Counters\<close>

lemma event_counts_eq: "event_counts es st = count_where (\<lambda>e. ei_status e = st) es"
proof -
  have "fold (\<lambda>e c. c(ei_status e := c (ei_status e) + 1)) es c st = c st + count_where (\<lambda>e. ei_status e = st) es"
    for c :: "event_status \<Rightarrow> nat"
    by (induction es arbitrary: c) (auto simp: count_where_def)
  then show ?thesis unfolding event_counts_def by simp
qed

lemma attention_count:
  "count_where (\<lambda>e. needsAttn (STATUS_META (ei_status e))) es
   = count_where (\<lambda>e. ei_status e = Proposed) es + count_where (\<lambda>e. ei_status e = Blocked) es
     + count_where (\<lambda>e. ei_status e = Quarantined) es"
proof (induction es)
  case Nil
  then show ?case by (simp add: count_where_def)
next
  case (Cons e es)
  then show ?case by (cases "ei_status e") (simp_all add: count_where_def)
qed

text \<open>
  The number on a filter chip is the number of events the timeline shows under that filter; "needs
  attention" counts the proposed, blocked and quarantined events.
\<close>

theorem chip_counts_match_timeline:
  "countFor (event_counts (events s)) f = None \<and> f = AllActivity
   \<or> countFor (event_counts (events s)) f = Some (length (filteredEvents (s\<lparr>hfilter := f\<rparr>)))"
  using attention_count [of "events s"] by (cases f) (simp_all add: filteredEvents_def event_counts_eq count_where_def)

section \<open>Decisions\<close>

interpretation approving_event: keyed_update ei_id approve_event
  by unfold_locales (simp add: approve_event_def)

interpretation denying_event: keyed_update ei_id deny_event
  by unfold_locales (simp add: deny_event_def)

lemma ids_exec: "\<not> replaces ev \<Longrightarrow> map ei_id (events (home_exec ini ev s)) = map ei_id (events s)"
  by (cases ev) (auto simp: replaces_def onApprove_def onDeny_def approving_event.keys_kept denying_event.keys_kept)

text \<open>What one page event does to an event of the timeline.\<close>

lemma event_step:
  assumes "distinct (map ei_id (events s))" and "home_enabled ev s" and "\<not> replaces ev"
    and "x \<in> set (events s)"
  shows "\<exists>y \<in> set (events (home_exec ini ev s)). ei_id y = ei_id x
    \<and> (y = x \<or> ei_status x = Proposed \<and> (y = approve_event x \<or> y = deny_event x))"
proof -
  have uniq: "e = x" if "e \<in> set (events s)" "ei_id e = ei_id x" for e
    using assms(1,4) that by (metis distinct_map inj_onD)
  have sub: "set (filteredEvents s) \<subseteq> set (events s)" by (auto simp: filteredEvents_def)
  show ?thesis
  proof (cases "\<exists>e. ev = ApproveRow e \<or> ev = DenyRow e")
    case True
    then obtain e where e: "ev = ApproveRow e \<or> ev = DenyRow e" by blast
    then have en: "e \<in> set (events s)" "ei_status e = Proposed" using assms(2) sub by auto
    show ?thesis
    proof (cases "ei_id x = ei_id e")
      case True
      then have "e = x" using uniq en(1) by simp
      then have "approve_event x \<in> set (events (home_exec ini ev s)) \<or> deny_event x \<in> set (events (home_exec ini ev s))"
        using e update_by_mem [OF assms(4), of ei_id "ei_id x" approve_event] update_by_mem [OF assms(4), of ei_id "ei_id x" deny_event]
        by (auto simp: onApprove_def onDeny_def)
      then show ?thesis
        using en(2) \<open>e = x\<close> approving_event.key_f [of x] denying_event.key_f [of x] by blast
    next
      case False
      then show ?thesis using e assms(4) by (force simp: onApprove_def onDeny_def update_by_def)
    qed
  next
    case False
    then show ?thesis using assms(3,4) by (cases ev) (auto simp: replaces_def)
  qed
qed

lemma decision_statuses [simp]: "ei_status (approve_event e) = Taken" "ei_status (deny_event e) = Blocked"
  by (simp_all add: approve_event_def deny_event_def)

lemma decisions_run:
  assumes "distinct (map ei_id (events s))" and "home_run ini evs s = Some s'" and "\<not> list_ex replaces evs"
    and "x \<in> set (events s)"
  shows "\<exists>y \<in> set (events s'). ei_id y = ei_id x
    \<and> (y = x \<or> ei_status x = Proposed \<and> (y = approve_event x \<or> y = deny_event x))"
  using assms
proof (induction ini evs s arbitrary: x rule: home_run.induct)
  case (1 ini s)
  then show ?case by auto
next
  case (2 ini ev evs s)
  then have en: "home_enabled ev s" and run: "home_run ini evs (home_exec ini ev s) = Some s'"
    and nr: "\<not> replaces ev" "\<not> list_ex replaces evs" by (auto split: if_splits)
  obtain y where y: "y \<in> set (events (home_exec ini ev s))" "ei_id y = ei_id x"
    "y = x \<or> ei_status x = Proposed \<and> (y = approve_event x \<or> y = deny_event x)"
    using event_step [OF "2.prems"(1) en nr(1) "2.prems"(4)] by blast
  have "distinct (map ei_id (events (home_exec ini ev s)))" using "2.prems"(1) ids_exec [OF nr(1)] by simp
  then obtain z where z: "z \<in> set (events s')" "ei_id z = ei_id y"
    "z = y \<or> ei_status y = Proposed \<and> (z = approve_event y \<or> z = deny_event y)"
    using "2.IH" [OF en _ run nr(2) y(1)] by blast
  then show ?case using y by auto
qed

text \<open>
  A decision is taken once and is final: over any run of page events without a reload or a reset, each
  event of the timeline is unchanged, or it was proposed and is now the approved or the denied one.
  No event that was not proposed changes, and nothing the user decided is changed again.
\<close>

theorem decisions_are_final:
  assumes "distinct (map ei_id (events s))" and "home_run ini evs s = Some s'" and "\<not> list_ex replaces evs"
    and "x \<in> set (events s)"
  shows "\<exists>y \<in> set (events s'). ei_id y = ei_id x
    \<and> (y = x \<or> ei_status x = Proposed \<and> (y = approve_event x \<or> y = deny_event x))"
  using assms by (rule decisions_run)

definition demo_event :: "jstr \<Rightarrow> event_status \<Rightarrow> event_item" where
  "demo_event i st =
     \<lparr>ei_id = i, ei_status = st, ei_title = [], ei_teamId = [], ei_permission = [], ei_permissionScope = HScoped,
      ei_risk = HLow, ei_minutesAgo = 3, ei_cause = None, ei_why = [], ei_target = None, ei_approvals = None\<rparr>"

lemma decisions_are_final_witness:
  "\<exists>y \<in> set (events (the (home_run [] [PickFilter Attention, ApproveRow (demo_event ''a'' Proposed)]
        (home_init [demo_event ''a'' Proposed, demo_event ''b'' Healed])))). ei_id y = ''b'' \<and> ei_status y = Healed"
proof -
  let ?s = "home_init [demo_event ''a'' Proposed, demo_event ''b'' Healed]"
  let ?evs = "[PickFilter Attention, ApproveRow (demo_event ''a'' Proposed)]"
  have d: "distinct (map ei_id (events ?s))" by code_simp
  have run: "home_run [] ?evs ?s = Some (the (home_run [] ?evs ?s))"
    by (simp add: home_init_def filteredEvents_def demo_event_def)
  have "\<exists>y \<in> set (events (the (home_run [] ?evs ?s))). ei_id y = ei_id (demo_event ''b'' Healed)
    \<and> (y = demo_event ''b'' Healed \<or> ei_status (demo_event ''b'' Healed) = Proposed
        \<and> (y = approve_event (demo_event ''b'' Healed) \<or> y = deny_event (demo_event ''b'' Healed)))"
    using decisions_are_final [OF d run, of "demo_event ''b'' Healed"] by (simp add: replaces_def home_init_def)
  then show ?thesis by (force simp: demo_event_def)
qed

section \<open>The page with its envelope\<close>

text \<open>In the error view the top bar with its reset and the toast timer remain.\<close>

definition home_anytime :: "home_event \<Rightarrow> bool" where
  "home_anytime ev \<longleftrightarrow> ev = ResetDemo \<or> ev = ToastTimeout"

definition home_is_load :: "home_event \<Rightarrow> bool" where
  "home_is_load ev \<longleftrightarrow> (case ev of LoadedEvents its \<Rightarrow> True | _ \<Rightarrow> False)"

definition home_route_run ::
  "event_item list \<Rightarrow> (event_item list, 'e, home_event) routed_event list \<Rightarrow> (event_item list, 'e, home_page) routed
   \<Rightarrow> (event_item list, 'e, home_page) routed option" where
  "home_route_run ini =
     routed_run home_anytime (\<lambda>v p. \<not> home_is_load v \<and> home_enabled v p) (\<lambda>its. home_exec ini (LoadedEvents its)) (home_exec ini)"

interpretation home_routed: routed_page home_anytime "\<lambda>v. \<not> home_is_load v" home_enabled "home_exec ini" LoadedEvents for ini
  by unfold_locales (simp_all add: home_is_load_def)

lemma replaces_iff: "replaces ev \<longleftrightarrow> ev = ResetDemo \<or> (\<exists>its. ev = LoadedEvents its)"
  by (cases ev) (simp_all add: replaces_def)

lemma home_run_page_run: "home_run ini evs s = page_run home_enabled (home_exec ini) evs s"
  by (induction ini evs s rule: home_run.induct) simp_all

lemma home_route_projects:
  "home_route_run ini evs s = Some s' \<Longrightarrow> home_run ini (page_events LoadedEvents evs (rload s)) (rpage s) = Some (rpage s')"
  unfolding home_run_page_run home_route_run_def by (rule home_routed.projection)

lemma home_route_user_events:
  assumes "home_route_run ini evs s = Some s'" shows "PageEv (LoadedEvents its) \<notin> set evs"
  using assms unfolding home_route_run_def
  by (induction evs arbitrary: s) (auto simp: home_is_load_def split: if_splits)

section \<open>The toast\<close>

definition home_toast_ms :: nat where
  "home_toast_ms = 3200"

text \<open>The toast is an object, so that setting it is always a change.\<close>

definition home_fresh :: "home_event \<Rightarrow> home_page \<Rightarrow> bool" where
  "home_fresh ev s \<longleftrightarrow> (case ev of ApproveRow e \<Rightarrow> True | DenyRow e \<Rightarrow> True | _ \<Rightarrow> False)"

interpretation home_toast: timed_toast home_toast_ms "\<lambda>t. False" htoast home_enabled "home_exec ini" ToastTimeout "\<lambda>v. v = ToastTimeout" home_fresh for ini
  by unfold_locales simp

end
