(* ===== verification/I18n_Locales.thy ===== *)
theory I18n_Locales
  imports Prelude
begin

text \<open>
  The three translation tables (\<open>packages/i18n/src/locales/{en,es,zh}.ts\<close>), entry by entry in the
  order of the files; characters outside ASCII are written as their UTF-8 bytes.
\<close>

definition en :: "(jstr \<times> jstr) list" where
  "en =
     [(''nav.home'', ''Home''),
      (''nav.inbox'', ''Inbox''),
      (''nav.recipes'', ''Recipes''),
      (''nav.squads'', ''Squads''),
      (''nav.health'', ''Health Center''),
      (''nav.settings'', ''Settings''),
      (''nav.admin'', ''Admin Console''),
      (''nav.plugins'', ''Plugins''),
      (''nav.research'', ''Research''),
      (''nav.history'', ''History''),
      (''nav.connectors'', ''Connectors''),
      (''nav.fleet'', ''Fleet''),
      (''heartbeat.healthy'', ''Healthy''),
      (''heartbeat.quietly_recovering'', ''Quietly Recovering''),
      (''heartbeat.needs_attention'', ''Needs Attention''),
      (''heartbeat.paused'', ''Paused''),
      (''heartbeat.quarantined'', ''Quarantined''),
      (''heartbeat.unknown'', ''Unknown''),
      (''heartbeat.last_seen'', ''Last seen {{time}}''),
      (''heartbeat.never_reported'', ''Never reported''),
      (''risk.none'', ''No Risk''),
      (''risk.low'', ''Low Risk''),
      (''risk.medium'', ''Medium Risk''),
      (''risk.high'', ''High Risk''),
      (''risk.critical'', ''Critical Risk''),
      (''risk.description'', ''Risk Level: {{level}}''),
      (''safety.what_it_does'', ''What it does''),
      (''safety.what_it_needs'', ''What it needs''),
      (''safety.what_could_go_wrong'', ''What could go wrong''),
      (''safety.how_to_undo'', ''How to undo''),
      (''safety.permissions_required'', ''Permissions required''),
      (''safety.data_accessed'', ''Data accessed''),
      (''safety.estimated_impact'', ''Estimated impact''),
      (''safety.rollback_available'', ''Rollback available''),
      (''approval.approve'', ''Approve''),
      (''approval.reject'', ''Reject''),
      (''approval.approve_once'', ''Approve Once''),
      (''approval.approve_always'', ''Always Approve''),
      (''approval.review_details'', ''Review Details''),
      (''approval.pending'', ''Pending Approval''),
      (''approval.approved'', ''Approved''),
      (''approval.rejected'', ''Rejected''),
      (''approval.expired'', ''Expired''),
      (''approval.request_from'', ''Request from {{agent}}''),
      (''approval.action_description'', ''Action: {{action}}''),
      (''recipe.activate'', ''Activate Recipe''),
      (''recipe.deactivate'', ''Deactivate Recipe''),
      (''recipe.edit'', ''Edit Recipe''),
      (''recipe.duplicate'', ''Duplicate Recipe''),
      (''recipe.delete'', ''Delete Recipe''),
      (''recipe.active'', ''Active''),
      (''recipe.inactive'', ''Inactive''),
      (''recipe.draft'', ''Draft''),
      (''recipe.running'', ''Running''),
      (''recipe.paused'', ''Paused''),
      (''recipe.created_by'', ''Created by {{author}}''),
      (''recipe.last_run'', ''Last run {{time}}''),
      (''squad.inbox'', ''Inbox Squad''),
      (''squad.research'', ''Research Squad''),
      (''squad.ops'', ''Ops Squad''),
      (''squad.security'', ''Security Squad''),
      (''squad.executive_assistant'', ''Executive Assistant Squad''),
      (''squad.agents_count'', ''{{count}} agents''),
      (''squad.active_tasks'', ''{{count}} active tasks''),
      (''common.loading'', ''Loading...''),
      (''common.error'', ''An error occurred''),
      (''common.retry'', ''Retry''),
      (''common.cancel'', ''Cancel''),
      (''common.save'', ''Save''),
      (''common.delete'', ''Delete''),
      (''common.confirm'', ''Confirm''),
      (''common.close'', ''Close''),
      (''common.back'', ''Back''),
      (''common.next'', ''Next''),
      (''common.search'', ''Search''),
      (''common.filter'', ''Filter''),
      (''common.sort'', ''Sort''),
      (''common.refresh'', ''Refresh''),
      (''common.no_results'', ''No results found''),
      (''common.created_at'', ''Created {{time}}''),
      (''common.updated_at'', ''Updated {{time}}''),
      (''common.version'', ''Version {{version}}''),
      (''common.enabled'', ''Enabled''),
      (''common.disabled'', ''Disabled''),
      (''common.on'', ''On''),
      (''common.off'', ''Off''),
      (''common.yes'', ''Yes''),
      (''common.no'', ''No''),
      (''common.unknown'', ''Unknown''),
      (''common.all'', ''All''),
      (''common.none'', ''None''),
      (''common.more'', ''More''),
      (''common.less'', ''Less''),
      (''common.show_all'', ''Show All''),
      (''common.collapse'', ''Collapse''),
      (''common.expand'', ''Expand''),
      (''settings.general'', ''General''),
      (''settings.appearance'', ''Appearance''),
      (''settings.language'', ''Language''),
      (''settings.notifications'', ''Notifications''),
      (''settings.security'', ''Security''),
      (''settings.integrations'', ''Integrations''),
      (''settings.workspace'', ''Workspace''),
      (''settings.deployment_mode'', ''Deployment Mode''),
      (''settings.solo_mode'', ''Solo Mode''),
      (''settings.household_mode'', ''Household Mode''),
      (''settings.team_mode'', ''Team Mode''),
      (''plugin.install'', ''Install Plugin''),
      (''plugin.uninstall'', ''Uninstall Plugin''),
      (''plugin.enable'', ''Enable Plugin''),
      (''plugin.disable'', ''Disable Plugin''),
      (''plugin.installed'', ''Installed''),
      (''plugin.available'', ''Available''),
      (''plugin.update_available'', ''Update Available''),
      (''plugin.permissions'', ''Plugin Permissions''),
      (''plugin.by_author'', ''By {{author}}'')]"

definition es :: "(jstr \<times> jstr) list" where
  "es =
     [(''nav.home'', ''Inicio''),
      (''nav.inbox'', ''Bandeja de entrada''),
      (''nav.recipes'', ''Recetas''),
      (''nav.squads'', ''Equipos''),
      (''nav.health'', ''Centro de salud''),
      (''nav.settings'', ''Configuraci'' @ [CHR 0xC3, CHR 0xB3] @ ''n''),
      (''nav.admin'', ''Consola de administraci'' @ [CHR 0xC3, CHR 0xB3] @ ''n''),
      (''nav.plugins'', ''Complementos''),
      (''nav.research'', ''Investigaci'' @ [CHR 0xC3, CHR 0xB3] @ ''n''),
      (''nav.history'', ''Historial''),
      (''nav.connectors'', ''Conectores''),
      (''nav.fleet'', ''Flota''),
      (''heartbeat.healthy'', ''Saludable''),
      (''heartbeat.quietly_recovering'', ''Recuper'' @ [CHR 0xC3, CHR 0xA1] @ ''ndose silenciosamente''),
      (''heartbeat.needs_attention'', ''Necesita atenci'' @ [CHR 0xC3, CHR 0xB3] @ ''n''),
      (''heartbeat.paused'', ''Pausado''),
      (''heartbeat.quarantined'', ''En cuarentena''),
      (''heartbeat.unknown'', ''Desconocido''),
      (''heartbeat.last_seen'', ''Visto por '' @ [CHR 0xC3, CHR 0xBA] @ ''ltima vez {{time}}''),
      (''heartbeat.never_reported'', ''Nunca reportado''),
      (''risk.none'', ''Sin riesgo''),
      (''risk.low'', ''Riesgo bajo''),
      (''risk.medium'', ''Riesgo medio''),
      (''risk.high'', ''Riesgo alto''),
      (''risk.critical'', ''Riesgo cr'' @ [CHR 0xC3, CHR 0xAD] @ ''tico''),
      (''risk.description'', ''Nivel de riesgo: {{level}}''),
      (''safety.what_it_does'', ''Qu'' @ [CHR 0xC3, CHR 0xA9] @ '' hace''),
      (''safety.what_it_needs'', ''Qu'' @ [CHR 0xC3, CHR 0xA9] @ '' necesita''),
      (''safety.what_could_go_wrong'', ''Qu'' @ [CHR 0xC3, CHR 0xA9] @ '' podr'' @ [CHR 0xC3, CHR 0xAD] @ ''a salir mal''),
      (''safety.how_to_undo'', ''C'' @ [CHR 0xC3, CHR 0xB3] @ ''mo deshacer''),
      (''safety.permissions_required'', ''Permisos requeridos''),
      (''safety.data_accessed'', ''Datos accedidos''),
      (''safety.estimated_impact'', ''Impacto estimado''),
      (''safety.rollback_available'', ''Reversi'' @ [CHR 0xC3, CHR 0xB3] @ ''n disponible''),
      (''approval.approve'', ''Aprobar''),
      (''approval.reject'', ''Rechazar''),
      (''approval.approve_once'', ''Aprobar una vez''),
      (''approval.approve_always'', ''Aprobar siempre''),
      (''approval.review_details'', ''Revisar detalles''),
      (''approval.pending'', ''Pendiente de aprobaci'' @ [CHR 0xC3, CHR 0xB3] @ ''n''),
      (''approval.approved'', ''Aprobado''),
      (''approval.rejected'', ''Rechazado''),
      (''approval.expired'', ''Expirado''),
      (''approval.request_from'', ''Solicitud de {{agent}}''),
      (''approval.action_description'', ''Acci'' @ [CHR 0xC3, CHR 0xB3] @ ''n: {{action}}''),
      (''recipe.activate'', ''Activar receta''),
      (''recipe.deactivate'', ''Desactivar receta''),
      (''recipe.edit'', ''Editar receta''),
      (''recipe.duplicate'', ''Duplicar receta''),
      (''recipe.delete'', ''Eliminar receta''),
      (''recipe.active'', ''Activa''),
      (''recipe.inactive'', ''Inactiva''),
      (''recipe.draft'', ''Borrador''),
      (''recipe.running'', ''Ejecut'' @ [CHR 0xC3, CHR 0xA1] @ ''ndose''),
      (''recipe.paused'', ''Pausada''),
      (''recipe.created_by'', ''Creado por {{author}}''),
      (''recipe.last_run'', [CHR 0xC3, CHR 0x9A] @ ''ltima ejecuci'' @ [CHR 0xC3, CHR 0xB3] @ ''n {{time}}''),
      (''squad.inbox'', ''Equipo de bandeja de entrada''),
      (''squad.research'', ''Equipo de investigaci'' @ [CHR 0xC3, CHR 0xB3] @ ''n''),
      (''squad.ops'', ''Equipo de operaciones''),
      (''squad.security'', ''Equipo de seguridad''),
      (''squad.executive_assistant'', ''Equipo de asistente ejecutivo''),
      (''squad.agents_count'', ''{{count}} agentes''),
      (''squad.active_tasks'', ''{{count}} tareas activas''),
      (''common.loading'', ''Cargando...''),
      (''common.error'', ''Se produjo un error''),
      (''common.retry'', ''Reintentar''),
      (''common.cancel'', ''Cancelar''),
      (''common.save'', ''Guardar''),
      (''common.delete'', ''Eliminar''),
      (''common.confirm'', ''Confirmar''),
      (''common.close'', ''Cerrar''),
      (''common.back'', ''Atr'' @ [CHR 0xC3, CHR 0xA1] @ ''s''),
      (''common.next'', ''Siguiente''),
      (''common.search'', ''Buscar''),
      (''common.filter'', ''Filtrar''),
      (''common.sort'', ''Ordenar''),
      (''common.refresh'', ''Actualizar''),
      (''common.no_results'', ''No se encontraron resultados''),
      (''common.created_at'', ''Creado {{time}}''),
      (''common.updated_at'', ''Actualizado {{time}}''),
      (''common.version'', ''Versi'' @ [CHR 0xC3, CHR 0xB3] @ ''n {{version}}''),
      (''common.enabled'', ''Habilitado''),
      (''common.disabled'', ''Deshabilitado''),
      (''common.on'', ''Activado''),
      (''common.off'', ''Desactivado''),
      (''common.yes'', ''S'' @ [CHR 0xC3, CHR 0xAD]),
      (''common.no'', ''No''),
      (''common.unknown'', ''Desconocido''),
      (''common.all'', ''Todos''),
      (''common.none'', ''Ninguno''),
      (''common.more'', ''M'' @ [CHR 0xC3, CHR 0xA1] @ ''s''),
      (''common.less'', ''Menos''),
      (''common.show_all'', ''Mostrar todo''),
      (''common.collapse'', ''Contraer''),
      (''common.expand'', ''Expandir''),
      (''settings.general'', ''General''),
      (''settings.appearance'', ''Apariencia''),
      (''settings.language'', ''Idioma''),
      (''settings.notifications'', ''Notificaciones''),
      (''settings.security'', ''Seguridad''),
      (''settings.integrations'', ''Integraciones''),
      (''settings.workspace'', ''Espacio de trabajo''),
      (''settings.deployment_mode'', ''Modo de despliegue''),
      (''settings.solo_mode'', ''Modo individual''),
      (''settings.household_mode'', ''Modo hogar''),
      (''settings.team_mode'', ''Modo equipo''),
      (''plugin.install'', ''Instalar complemento''),
      (''plugin.uninstall'', ''Desinstalar complemento''),
      (''plugin.enable'', ''Habilitar complemento''),
      (''plugin.disable'', ''Deshabilitar complemento''),
      (''plugin.installed'', ''Instalado''),
      (''plugin.available'', ''Disponible''),
      (''plugin.update_available'', ''Actualizaci'' @ [CHR 0xC3, CHR 0xB3] @ ''n disponible''),
      (''plugin.permissions'', ''Permisos del complemento''),
      (''plugin.by_author'', ''Por {{author}}'')]"

definition zh :: "(jstr \<times> jstr) list" where
  "zh =
     [(''nav.home'', [CHR 0xE9, CHR 0xA6, CHR 0x96, CHR 0xE9, CHR 0xA1, CHR 0xB5]),
      (''nav.inbox'', [CHR 0xE6, CHR 0x94, CHR 0xB6, CHR 0xE4, CHR 0xBB, CHR 0xB6, CHR 0xE7, CHR 0xAE, CHR 0xB1]),
      (''nav.recipes'', [CHR 0xE9, CHR 0x85, CHR 0x8D, CHR 0xE6, CHR 0x96, CHR 0xB9]),
      (''nav.squads'', [CHR 0xE5, CHR 0xB0, CHR 0x8F, CHR 0xE9, CHR 0x98, CHR 0x9F]),
      (''nav.health'', [CHR 0xE5, CHR 0x81, CHR 0xA5, CHR 0xE5, CHR 0xBA, CHR 0xB7, CHR 0xE4, CHR 0xB8, CHR 0xAD, CHR 0xE5, CHR 0xBF, CHR 0x83]),
      (''nav.settings'', [CHR 0xE8, CHR 0xAE, CHR 0xBE, CHR 0xE7, CHR 0xBD, CHR 0xAE]),
      (''nav.admin'', [CHR 0xE7, CHR 0xAE, CHR 0xA1, CHR 0xE7, CHR 0x90, CHR 0x86, CHR 0xE6, CHR 0x8E, CHR 0xA7, CHR 0xE5, CHR 0x88, CHR 0xB6, CHR 0xE5, CHR 0x8F, CHR 0xB0]),
      (''nav.plugins'', [CHR 0xE6, CHR 0x8F, CHR 0x92, CHR 0xE4, CHR 0xBB, CHR 0xB6]),
      (''nav.research'', [CHR 0xE7, CHR 0xA0, CHR 0x94, CHR 0xE7, CHR 0xA9, CHR 0xB6]),
      (''nav.history'', [CHR 0xE5, CHR 0x8E, CHR 0x86, CHR 0xE5, CHR 0x8F, CHR 0xB2, CHR 0xE8, CHR 0xAE, CHR 0xB0, CHR 0xE5, CHR 0xBD, CHR 0x95]),
      (''nav.connectors'', [CHR 0xE8, CHR 0xBF, CHR 0x9E, CHR 0xE6, CHR 0x8E, CHR 0xA5, CHR 0xE5, CHR 0x99, CHR 0xA8]),
      (''nav.fleet'', [CHR 0xE9, CHR 0x9B, CHR 0x86, CHR 0xE7, CHR 0xBE, CHR 0xA4]),
      (''heartbeat.healthy'', [CHR 0xE5, CHR 0x81, CHR 0xA5, CHR 0xE5, CHR 0xBA, CHR 0xB7]),
      (''heartbeat.quietly_recovering'', [CHR 0xE9, CHR 0x9D, CHR 0x99, CHR 0xE9, CHR 0xBB, CHR 0x98, CHR 0xE6, CHR 0x81, CHR 0xA2, CHR 0xE5, CHR 0xA4, CHR 0x8D, CHR 0xE4, CHR 0xB8, CHR 0xAD]),
      (''heartbeat.needs_attention'', [CHR 0xE9, CHR 0x9C, CHR 0x80, CHR 0xE8, CHR 0xA6, CHR 0x81, CHR 0xE5, CHR 0x85, CHR 0xB3, CHR 0xE6, CHR 0xB3, CHR 0xA8]),
      (''heartbeat.paused'', [CHR 0xE5, CHR 0xB7, CHR 0xB2, CHR 0xE6, CHR 0x9A, CHR 0x82, CHR 0xE5, CHR 0x81, CHR 0x9C]),
      (''heartbeat.quarantined'', [CHR 0xE5, CHR 0xB7, CHR 0xB2, CHR 0xE9, CHR 0x9A, CHR 0x94, CHR 0xE7, CHR 0xA6, CHR 0xBB]),
      (''heartbeat.unknown'', [CHR 0xE6, CHR 0x9C, CHR 0xAA, CHR 0xE7, CHR 0x9F, CHR 0xA5]),
      (''heartbeat.last_seen'', [CHR 0xE6, CHR 0x9C, CHR 0x80, CHR 0xE5, CHR 0x90, CHR 0x8E, CHR 0xE5, CHR 0x9C, CHR 0xA8, CHR 0xE7, CHR 0xBA, CHR 0xBF] @ '' {{time}}''),
      (''heartbeat.never_reported'', [CHR 0xE4, CHR 0xBB, CHR 0x8E, CHR 0xE6, CHR 0x9C, CHR 0xAA, CHR 0xE6, CHR 0x8A, CHR 0xA5, CHR 0xE5, CHR 0x91, CHR 0x8A]),
      (''risk.none'', [CHR 0xE6, CHR 0x97, CHR 0xA0, CHR 0xE9, CHR 0xA3, CHR 0x8E, CHR 0xE9, CHR 0x99, CHR 0xA9]),
      (''risk.low'', [CHR 0xE4, CHR 0xBD, CHR 0x8E, CHR 0xE9, CHR 0xA3, CHR 0x8E, CHR 0xE9, CHR 0x99, CHR 0xA9]),
      (''risk.medium'', [CHR 0xE4, CHR 0xB8, CHR 0xAD, CHR 0xE7, CHR 0xAD, CHR 0x89, CHR 0xE9, CHR 0xA3, CHR 0x8E, CHR 0xE9, CHR 0x99, CHR 0xA9]),
      (''risk.high'', [CHR 0xE9, CHR 0xAB, CHR 0x98, CHR 0xE9, CHR 0xA3, CHR 0x8E, CHR 0xE9, CHR 0x99, CHR 0xA9]),
      (''risk.critical'', [CHR 0xE4, CHR 0xB8, CHR 0xA5, CHR 0xE9, CHR 0x87, CHR 0x8D, CHR 0xE9, CHR 0xA3, CHR 0x8E, CHR 0xE9, CHR 0x99, CHR 0xA9]),
      (''risk.description'', [CHR 0xE9, CHR 0xA3, CHR 0x8E, CHR 0xE9, CHR 0x99, CHR 0xA9, CHR 0xE7, CHR 0xAD, CHR 0x89, CHR 0xE7, CHR 0xBA, CHR 0xA7, CHR 0xEF, CHR 0xBC, CHR 0x9A] @ ''{{level}}''),
      (''safety.what_it_does'', [CHR 0xE5, CHR 0x8A, CHR 0x9F, CHR 0xE8, CHR 0x83, CHR 0xBD, CHR 0xE8, CHR 0xAF, CHR 0xB4, CHR 0xE6, CHR 0x98, CHR 0x8E]),
      (''safety.what_it_needs'', [CHR 0xE6, CHR 0x89, CHR 0x80, CHR 0xE9, CHR 0x9C, CHR 0x80, CHR 0xE6, CHR 0x9D, CHR 0xA1, CHR 0xE4, CHR 0xBB, CHR 0xB6]),
      (''safety.what_could_go_wrong'', [CHR 0xE5, CHR 0x8F, CHR 0xAF, CHR 0xE8, CHR 0x83, CHR 0xBD, CHR 0xE5, CHR 0x87, CHR 0xBA, CHR 0xE7, CHR 0x8E, CHR 0xB0, CHR 0xE7, CHR 0x9A, CHR 0x84, CHR 0xE9, CHR 0x97, CHR 0xAE, CHR 0xE9, CHR 0xA2, CHR 0x98]),
      (''safety.how_to_undo'', [CHR 0xE5, CHR 0xA6, CHR 0x82, CHR 0xE4, CHR 0xBD, CHR 0x95, CHR 0xE6, CHR 0x92, CHR 0xA4, CHR 0xE9, CHR 0x94, CHR 0x80]),
      (''safety.permissions_required'', [CHR 0xE6, CHR 0x89, CHR 0x80, CHR 0xE9, CHR 0x9C, CHR 0x80, CHR 0xE6, CHR 0x9D, CHR 0x83, CHR 0xE9, CHR 0x99, CHR 0x90]),
      (''safety.data_accessed'', [CHR 0xE8, CHR 0xAE, CHR 0xBF, CHR 0xE9, CHR 0x97, CHR 0xAE, CHR 0xE7, CHR 0x9A, CHR 0x84, CHR 0xE6, CHR 0x95, CHR 0xB0, CHR 0xE6, CHR 0x8D, CHR 0xAE]),
      (''safety.estimated_impact'', [CHR 0xE9, CHR 0xA2, CHR 0x84, CHR 0xE4, CHR 0xBC, CHR 0xB0, CHR 0xE5, CHR 0xBD, CHR 0xB1, CHR 0xE5, CHR 0x93, CHR 0x8D]),
      (''safety.rollback_available'', [CHR 0xE5, CHR 0x8F, CHR 0xAF, CHR 0xE5, CHR 0x9B, CHR 0x9E, CHR 0xE6, CHR 0xBB, CHR 0x9A]),
      (''approval.approve'', [CHR 0xE6, CHR 0x89, CHR 0xB9, CHR 0xE5, CHR 0x87, CHR 0x86]),
      (''approval.reject'', [CHR 0xE6, CHR 0x8B, CHR 0x92, CHR 0xE7, CHR 0xBB, CHR 0x9D]),
      (''approval.approve_once'', [CHR 0xE6, CHR 0x89, CHR 0xB9, CHR 0xE5, CHR 0x87, CHR 0x86, CHR 0xE4, CHR 0xB8, CHR 0x80, CHR 0xE6, CHR 0xAC, CHR 0xA1]),
      (''approval.approve_always'', [CHR 0xE5, CHR 0xA7, CHR 0x8B, CHR 0xE7, CHR 0xBB, CHR 0x88, CHR 0xE6, CHR 0x89, CHR 0xB9, CHR 0xE5, CHR 0x87, CHR 0x86]),
      (''approval.review_details'', [CHR 0xE6, CHR 0x9F, CHR 0xA5, CHR 0xE7, CHR 0x9C, CHR 0x8B, CHR 0xE8, CHR 0xAF, CHR 0xA6, CHR 0xE6, CHR 0x83, CHR 0x85]),
      (''approval.pending'', [CHR 0xE5, CHR 0xBE, CHR 0x85, CHR 0xE5, CHR 0xAE, CHR 0xA1, CHR 0xE6, CHR 0x89, CHR 0xB9]),
      (''approval.approved'', [CHR 0xE5, CHR 0xB7, CHR 0xB2, CHR 0xE6, CHR 0x89, CHR 0xB9, CHR 0xE5, CHR 0x87, CHR 0x86]),
      (''approval.rejected'', [CHR 0xE5, CHR 0xB7, CHR 0xB2, CHR 0xE6, CHR 0x8B, CHR 0x92, CHR 0xE7, CHR 0xBB, CHR 0x9D]),
      (''approval.expired'', [CHR 0xE5, CHR 0xB7, CHR 0xB2, CHR 0xE8, CHR 0xBF, CHR 0x87, CHR 0xE6, CHR 0x9C, CHR 0x9F]),
      (''approval.request_from'', [CHR 0xE6, CHR 0x9D, CHR 0xA5, CHR 0xE8, CHR 0x87, CHR 0xAA] @ '' {{agent}} '' @ [CHR 0xE7, CHR 0x9A, CHR 0x84, CHR 0xE8, CHR 0xAF, CHR 0xB7, CHR 0xE6, CHR 0xB1, CHR 0x82]),
      (''approval.action_description'', [CHR 0xE6, CHR 0x93, CHR 0x8D, CHR 0xE4, CHR 0xBD, CHR 0x9C, CHR 0xEF, CHR 0xBC, CHR 0x9A] @ ''{{action}}''),
      (''recipe.activate'', [CHR 0xE6, CHR 0xBF, CHR 0x80, CHR 0xE6, CHR 0xB4, CHR 0xBB, CHR 0xE9, CHR 0x85, CHR 0x8D, CHR 0xE6, CHR 0x96, CHR 0xB9]),
      (''recipe.deactivate'', [CHR 0xE5, CHR 0x81, CHR 0x9C, CHR 0xE7, CHR 0x94, CHR 0xA8, CHR 0xE9, CHR 0x85, CHR 0x8D, CHR 0xE6, CHR 0x96, CHR 0xB9]),
      (''recipe.edit'', [CHR 0xE7, CHR 0xBC, CHR 0x96, CHR 0xE8, CHR 0xBE, CHR 0x91, CHR 0xE9, CHR 0x85, CHR 0x8D, CHR 0xE6, CHR 0x96, CHR 0xB9]),
      (''recipe.duplicate'', [CHR 0xE5, CHR 0xA4, CHR 0x8D, CHR 0xE5, CHR 0x88, CHR 0xB6, CHR 0xE9, CHR 0x85, CHR 0x8D, CHR 0xE6, CHR 0x96, CHR 0xB9]),
      (''recipe.delete'', [CHR 0xE5, CHR 0x88, CHR 0xA0, CHR 0xE9, CHR 0x99, CHR 0xA4, CHR 0xE9, CHR 0x85, CHR 0x8D, CHR 0xE6, CHR 0x96, CHR 0xB9]),
      (''recipe.active'', [CHR 0xE6, CHR 0xB4, CHR 0xBB, CHR 0xE8, CHR 0xB7, CHR 0x83]),
      (''recipe.inactive'', [CHR 0xE6, CHR 0x9C, CHR 0xAA, CHR 0xE6, CHR 0xBF, CHR 0x80, CHR 0xE6, CHR 0xB4, CHR 0xBB]),
      (''recipe.draft'', [CHR 0xE8, CHR 0x8D, CHR 0x89, CHR 0xE7, CHR 0xA8, CHR 0xBF]),
      (''recipe.running'', [CHR 0xE8, CHR 0xBF, CHR 0x90, CHR 0xE8, CHR 0xA1, CHR 0x8C, CHR 0xE4, CHR 0xB8, CHR 0xAD]),
      (''recipe.paused'', [CHR 0xE5, CHR 0xB7, CHR 0xB2, CHR 0xE6, CHR 0x9A, CHR 0x82, CHR 0xE5, CHR 0x81, CHR 0x9C]),
      (''recipe.created_by'', [CHR 0xE7, CHR 0x94, CHR 0xB1] @ '' {{author}} '' @ [CHR 0xE5, CHR 0x88, CHR 0x9B, CHR 0xE5, CHR 0xBB, CHR 0xBA]),
      (''recipe.last_run'', [CHR 0xE4, CHR 0xB8, CHR 0x8A, CHR 0xE6, CHR 0xAC, CHR 0xA1, CHR 0xE8, CHR 0xBF, CHR 0x90, CHR 0xE8, CHR 0xA1, CHR 0x8C] @ '' {{time}}''),
      (''squad.inbox'', [CHR 0xE6, CHR 0x94, CHR 0xB6, CHR 0xE4, CHR 0xBB, CHR 0xB6, CHR 0xE7, CHR 0xAE, CHR 0xB1, CHR 0xE5, CHR 0xB0, CHR 0x8F, CHR 0xE9, CHR 0x98, CHR 0x9F]),
      (''squad.research'', [CHR 0xE7, CHR 0xA0, CHR 0x94, CHR 0xE7, CHR 0xA9, CHR 0xB6, CHR 0xE5, CHR 0xB0, CHR 0x8F, CHR 0xE9, CHR 0x98, CHR 0x9F]),
      (''squad.ops'', [CHR 0xE8, CHR 0xBF, CHR 0x90, CHR 0xE7, CHR 0xBB, CHR 0xB4, CHR 0xE5, CHR 0xB0, CHR 0x8F, CHR 0xE9, CHR 0x98, CHR 0x9F]),
      (''squad.security'', [CHR 0xE5, CHR 0xAE, CHR 0x89, CHR 0xE5, CHR 0x85, CHR 0xA8, CHR 0xE5, CHR 0xB0, CHR 0x8F, CHR 0xE9, CHR 0x98, CHR 0x9F]),
      (''squad.executive_assistant'', [CHR 0xE8, CHR 0xA1, CHR 0x8C, CHR 0xE6, CHR 0x94, CHR 0xBF, CHR 0xE5, CHR 0x8A, CHR 0xA9, CHR 0xE7, CHR 0x90, CHR 0x86, CHR 0xE5, CHR 0xB0, CHR 0x8F, CHR 0xE9, CHR 0x98, CHR 0x9F]),
      (''squad.agents_count'', ''{{count}} '' @ [CHR 0xE4, CHR 0xB8, CHR 0xAA, CHR 0xE4, CHR 0xBB, CHR 0xA3, CHR 0xE7, CHR 0x90, CHR 0x86]),
      (''squad.active_tasks'', ''{{count}} '' @ [CHR 0xE4, CHR 0xB8, CHR 0xAA, CHR 0xE6, CHR 0xB4, CHR 0xBB, CHR 0xE8, CHR 0xB7, CHR 0x83, CHR 0xE4, CHR 0xBB, CHR 0xBB, CHR 0xE5, CHR 0x8A, CHR 0xA1]),
      (''common.loading'', [CHR 0xE5, CHR 0x8A, CHR 0xA0, CHR 0xE8, CHR 0xBD, CHR 0xBD, CHR 0xE4, CHR 0xB8, CHR 0xAD] @ ''...''),
      (''common.error'', [CHR 0xE5, CHR 0x8F, CHR 0x91, CHR 0xE7, CHR 0x94, CHR 0x9F, CHR 0xE9, CHR 0x94, CHR 0x99, CHR 0xE8, CHR 0xAF, CHR 0xAF]),
      (''common.retry'', [CHR 0xE9, CHR 0x87, CHR 0x8D, CHR 0xE8, CHR 0xAF, CHR 0x95]),
      (''common.cancel'', [CHR 0xE5, CHR 0x8F, CHR 0x96, CHR 0xE6, CHR 0xB6, CHR 0x88]),
      (''common.save'', [CHR 0xE4, CHR 0xBF, CHR 0x9D, CHR 0xE5, CHR 0xAD, CHR 0x98]),
      (''common.delete'', [CHR 0xE5, CHR 0x88, CHR 0xA0, CHR 0xE9, CHR 0x99, CHR 0xA4]),
      (''common.confirm'', [CHR 0xE7, CHR 0xA1, CHR 0xAE, CHR 0xE8, CHR 0xAE, CHR 0xA4]),
      (''common.close'', [CHR 0xE5, CHR 0x85, CHR 0xB3, CHR 0xE9, CHR 0x97, CHR 0xAD]),
      (''common.back'', [CHR 0xE8, CHR 0xBF, CHR 0x94, CHR 0xE5, CHR 0x9B, CHR 0x9E]),
      (''common.next'', [CHR 0xE4, CHR 0xB8, CHR 0x8B, CHR 0xE4, CHR 0xB8, CHR 0x80, CHR 0xE6, CHR 0xAD, CHR 0xA5]),
      (''common.search'', [CHR 0xE6, CHR 0x90, CHR 0x9C, CHR 0xE7, CHR 0xB4, CHR 0xA2]),
      (''common.filter'', [CHR 0xE7, CHR 0xAD, CHR 0x9B, CHR 0xE9, CHR 0x80, CHR 0x89]),
      (''common.sort'', [CHR 0xE6, CHR 0x8E, CHR 0x92, CHR 0xE5, CHR 0xBA, CHR 0x8F]),
      (''common.refresh'', [CHR 0xE5, CHR 0x88, CHR 0xB7, CHR 0xE6, CHR 0x96, CHR 0xB0]),
      (''common.no_results'', [CHR 0xE6, CHR 0x9C, CHR 0xAA, CHR 0xE6, CHR 0x89, CHR 0xBE, CHR 0xE5, CHR 0x88, CHR 0xB0, CHR 0xE7, CHR 0xBB, CHR 0x93, CHR 0xE6, CHR 0x9E, CHR 0x9C]),
      (''common.created_at'', [CHR 0xE5, CHR 0x88, CHR 0x9B, CHR 0xE5, CHR 0xBB, CHR 0xBA, CHR 0xE4, CHR 0xBA, CHR 0x8E] @ '' {{time}}''),
      (''common.updated_at'', [CHR 0xE6, CHR 0x9B, CHR 0xB4, CHR 0xE6, CHR 0x96, CHR 0xB0, CHR 0xE4, CHR 0xBA, CHR 0x8E] @ '' {{time}}''),
      (''common.version'', [CHR 0xE7, CHR 0x89, CHR 0x88, CHR 0xE6, CHR 0x9C, CHR 0xAC] @ '' {{version}}''),
      (''common.enabled'', [CHR 0xE5, CHR 0xB7, CHR 0xB2, CHR 0xE5, CHR 0x90, CHR 0xAF, CHR 0xE7, CHR 0x94, CHR 0xA8]),
      (''common.disabled'', [CHR 0xE5, CHR 0xB7, CHR 0xB2, CHR 0xE7, CHR 0xA6, CHR 0x81, CHR 0xE7, CHR 0x94, CHR 0xA8]),
      (''common.on'', [CHR 0xE5, CHR 0xBC, CHR 0x80]),
      (''common.off'', [CHR 0xE5, CHR 0x85, CHR 0xB3]),
      (''common.yes'', [CHR 0xE6, CHR 0x98, CHR 0xAF]),
      (''common.no'', [CHR 0xE5, CHR 0x90, CHR 0xA6]),
      (''common.unknown'', [CHR 0xE6, CHR 0x9C, CHR 0xAA, CHR 0xE7, CHR 0x9F, CHR 0xA5]),
      (''common.all'', [CHR 0xE5, CHR 0x85, CHR 0xA8, CHR 0xE9, CHR 0x83, CHR 0xA8]),
      (''common.none'', [CHR 0xE6, CHR 0x97, CHR 0xA0]),
      (''common.more'', [CHR 0xE6, CHR 0x9B, CHR 0xB4, CHR 0xE5, CHR 0xA4, CHR 0x9A]),
      (''common.less'', [CHR 0xE6, CHR 0x9B, CHR 0xB4, CHR 0xE5, CHR 0xB0, CHR 0x91]),
      (''common.show_all'', [CHR 0xE6, CHR 0x98, CHR 0xBE, CHR 0xE7, CHR 0xA4, CHR 0xBA, CHR 0xE5, CHR 0x85, CHR 0xA8, CHR 0xE9, CHR 0x83, CHR 0xA8]),
      (''common.collapse'', [CHR 0xE6, CHR 0x94, CHR 0xB6, CHR 0xE8, CHR 0xB5, CHR 0xB7]),
      (''common.expand'', [CHR 0xE5, CHR 0xB1, CHR 0x95, CHR 0xE5, CHR 0xBC, CHR 0x80]),
      (''settings.general'', [CHR 0xE9, CHR 0x80, CHR 0x9A, CHR 0xE7, CHR 0x94, CHR 0xA8]),
      (''settings.appearance'', [CHR 0xE5, CHR 0xA4, CHR 0x96, CHR 0xE8, CHR 0xA7, CHR 0x82]),
      (''settings.language'', [CHR 0xE8, CHR 0xAF, CHR 0xAD, CHR 0xE8, CHR 0xA8, CHR 0x80]),
      (''settings.notifications'', [CHR 0xE9, CHR 0x80, CHR 0x9A, CHR 0xE7, CHR 0x9F, CHR 0xA5]),
      (''settings.security'', [CHR 0xE5, CHR 0xAE, CHR 0x89, CHR 0xE5, CHR 0x85, CHR 0xA8]),
      (''settings.integrations'', [CHR 0xE9, CHR 0x9B, CHR 0x86, CHR 0xE6, CHR 0x88, CHR 0x90]),
      (''settings.workspace'', [CHR 0xE5, CHR 0xB7, CHR 0xA5, CHR 0xE4, CHR 0xBD, CHR 0x9C, CHR 0xE5, CHR 0x8C, CHR 0xBA]),
      (''settings.deployment_mode'', [CHR 0xE9, CHR 0x83, CHR 0xA8, CHR 0xE7, CHR 0xBD, CHR 0xB2, CHR 0xE6, CHR 0xA8, CHR 0xA1, CHR 0xE5, CHR 0xBC, CHR 0x8F]),
      (''settings.solo_mode'', [CHR 0xE5, CHR 0x8D, CHR 0x95, CHR 0xE4, CHR 0xBA, CHR 0xBA, CHR 0xE6, CHR 0xA8, CHR 0xA1, CHR 0xE5, CHR 0xBC, CHR 0x8F]),
      (''settings.household_mode'', [CHR 0xE5, CHR 0xAE, CHR 0xB6, CHR 0xE5, CHR 0xBA, CHR 0xAD, CHR 0xE6, CHR 0xA8, CHR 0xA1, CHR 0xE5, CHR 0xBC, CHR 0x8F]),
      (''settings.team_mode'', [CHR 0xE5, CHR 0x9B, CHR 0xA2, CHR 0xE9, CHR 0x98, CHR 0x9F, CHR 0xE6, CHR 0xA8, CHR 0xA1, CHR 0xE5, CHR 0xBC, CHR 0x8F]),
      (''plugin.install'', [CHR 0xE5, CHR 0xAE, CHR 0x89, CHR 0xE8, CHR 0xA3, CHR 0x85, CHR 0xE6, CHR 0x8F, CHR 0x92, CHR 0xE4, CHR 0xBB, CHR 0xB6]),
      (''plugin.uninstall'', [CHR 0xE5, CHR 0x8D, CHR 0xB8, CHR 0xE8, CHR 0xBD, CHR 0xBD, CHR 0xE6, CHR 0x8F, CHR 0x92, CHR 0xE4, CHR 0xBB, CHR 0xB6]),
      (''plugin.enable'', [CHR 0xE5, CHR 0x90, CHR 0xAF, CHR 0xE7, CHR 0x94, CHR 0xA8, CHR 0xE6, CHR 0x8F, CHR 0x92, CHR 0xE4, CHR 0xBB, CHR 0xB6]),
      (''plugin.disable'', [CHR 0xE7, CHR 0xA6, CHR 0x81, CHR 0xE7, CHR 0x94, CHR 0xA8, CHR 0xE6, CHR 0x8F, CHR 0x92, CHR 0xE4, CHR 0xBB, CHR 0xB6]),
      (''plugin.installed'', [CHR 0xE5, CHR 0xB7, CHR 0xB2, CHR 0xE5, CHR 0xAE, CHR 0x89, CHR 0xE8, CHR 0xA3, CHR 0x85]),
      (''plugin.available'', [CHR 0xE5, CHR 0x8F, CHR 0xAF, CHR 0xE7, CHR 0x94, CHR 0xA8]),
      (''plugin.update_available'', [CHR 0xE6, CHR 0x9C, CHR 0x89, CHR 0xE6, CHR 0x9B, CHR 0xB4, CHR 0xE6, CHR 0x96, CHR 0xB0]),
      (''plugin.permissions'', [CHR 0xE6, CHR 0x8F, CHR 0x92, CHR 0xE4, CHR 0xBB, CHR 0xB6, CHR 0xE6, CHR 0x9D, CHR 0x83, CHR 0xE9, CHR 0x99, CHR 0x90]),
      (''plugin.by_author'', [CHR 0xE4, CHR 0xBD, CHR 0x9C, CHR 0xE8, CHR 0x80, CHR 0x85, CHR 0xEF, CHR 0xBC, CHR 0x9A] @ ''{{author}}'')]"

end
