(* ===== verification/I18n.thy ===== *)
theory I18n
  imports I18n_Locales
begin

text \<open>
  The translation engine (\<open>packages/i18n/src/i18n.ts\<close>): lookup with its fallback chain, parameter
  interpolation, the module-level locale and the React provider.  A parameter is interpolated by a
  global regular-expression replacement; for a parameter name of word characters the expression is the
  literal \<open>{{name}}\<close>, which is what \<open>replace_from\<close> searches, and the special patterns of the
  replacement string (a dollar sign with another one, with an ampersand, with a back quote or with a
  quote) are expanded as \<open>String.prototype.replace\<close> does.  Number parameters are integers.
\<close>

datatype locale_code = En | Es | Fr | De | Ja | Zh | Ko

definition localeMap :: "locale_code \<Rightarrow> (jstr \<times> jstr) list option" where
  "localeMap l = (case l of En \<Rightarrow> Some en | Es \<Rightarrow> Some es | Zh \<Rightarrow> Some zh | _ \<Rightarrow> None)"

definition getSupportedLocales :: "locale_code list" where
  "getSupportedLocales = [En, Es, Zh]"

datatype param_value = PStr jstr | PNum int

definition param_string :: "param_value \<Rightarrow> jstr" where
  "param_string v = (case v of PStr s \<Rightarrow> s | PNum n \<Rightarrow> int_str n)"

section \<open>Interpolation\<close>

fun expand_replacement :: "jstr \<Rightarrow> jstr \<Rightarrow> jstr \<Rightarrow> jstr \<Rightarrow> jstr" where
  "expand_replacement matched pre post [] = []"
| "expand_replacement matched pre post [c] = [c]"
| "expand_replacement matched pre post (c # d # r) =
     (if c \<noteq> CHR 0x24 then c # expand_replacement matched pre post (d # r)
      else if d = CHR 0x24 then CHR 0x24 # expand_replacement matched pre post r
      else if d = CHR 0x26 then matched @ expand_replacement matched pre post r
      else if d = CHR 0x60 then pre @ expand_replacement matched pre post r
      else if d = CHR 0x27 then post @ expand_replacement matched pre post r
      else c # expand_replacement matched pre post (d # r))"

function replace_from :: "jstr \<Rightarrow> jstr \<Rightarrow> jstr \<Rightarrow> jstr \<Rightarrow> jstr" where
  "replace_from pat repl pre [] = []"
| "replace_from pat repl pre (c # s) =
     (if pat \<noteq> [] \<and> js_startsWith (c # s) pat then
        expand_replacement pat pre (drop (length pat) (c # s)) repl
        @ replace_from pat repl (pre @ pat) (drop (length pat) (c # s))
      else c # replace_from pat repl (pre @ [c]) s)"
  by pat_completeness auto
termination
  by (relation "measure (\<lambda>(pat, repl, pre, s). length s)") (auto simp: neq_Nil_conv)

definition placeholder :: "jstr \<Rightarrow> jstr" where
  "placeholder k = ''{{'' @ k @ ''}}''"

definition interp_one :: "jstr \<Rightarrow> jstr \<times> param_value \<Rightarrow> jstr" where
  "interp_one s p = replace_from (placeholder (fst p)) (param_string (snd p)) [] s"

definition interpolate :: "jstr \<Rightarrow> (jstr \<times> param_value) list \<Rightarrow> jstr" where
  "interpolate s ps = foldl interp_one s ps"

section \<open>Translation\<close>

definition lookup_text :: "locale_code \<Rightarrow> jstr \<Rightarrow> jstr option" where
  "lookup_text cur key =
     (let v = Option.bind (localeMap cur) (\<lambda>m. map_of m key)
      in if v = None \<and> cur \<noteq> En then Option.bind (localeMap En) (\<lambda>m. map_of m key) else v)"

definition t :: "locale_code \<Rightarrow> jstr \<Rightarrow> (jstr \<times> param_value) list option \<Rightarrow> jstr" where
  "t cur key params =
     (case lookup_text cur key of
        None \<Rightarrow> key
      | Some s \<Rightarrow> (case params of None \<Rightarrow> s | Some ps \<Rightarrow> interpolate s ps))"

section \<open>Module state and providers\<close>

text \<open>Each mounted provider (numbered) keeps a locale; all share the module's current locale.\<close>

record i18n_state =
  currentLocale :: locale_code
  providers :: "nat \<Rightarrow> locale_code"

definition initial_i18n :: "(nat \<Rightarrow> locale_code) \<Rightarrow> i18n_state" where
  "initial_i18n defaults = \<lparr>currentLocale = En, providers = defaults\<rparr>"

definition setLocale :: "locale_code \<Rightarrow> i18n_state \<Rightarrow> i18n_state" where
  "setLocale l st = st\<lparr>currentLocale := l\<rparr>"

definition getLocale :: "i18n_state \<Rightarrow> locale_code" where
  "getLocale st = currentLocale st"

definition handleSetLocale :: "nat \<Rightarrow> locale_code \<Rightarrow> i18n_state \<Rightarrow> i18n_state" where
  "handleSetLocale p l st = (setLocale l st)\<lparr>providers := (providers st)(p := l)\<rparr>"

definition translate :: "nat \<Rightarrow> jstr \<Rightarrow> (jstr \<times> param_value) list option \<Rightarrow> i18n_state \<Rightarrow> jstr \<times> i18n_state" where
  "translate p key params st =
     (let st' = setLocale (providers st p) st in (t (currentLocale st') key params, st'))"

datatype i18n_event = SetModuleLocale locale_code | SetProviderLocale nat locale_code
  | Translate nat jstr "(jstr \<times> param_value) list option"

fun i18n_exec :: "i18n_event \<Rightarrow> i18n_state \<Rightarrow> i18n_state" where
  "i18n_exec (SetModuleLocale l) st = setLocale l st"
| "i18n_exec (SetProviderLocale p l) st = handleSetLocale p l st"
| "i18n_exec (Translate p key params) st = snd (translate p key params st)"

section \<open>Texts as tokens\<close>

datatype token = Lit jstr | Hole jstr

definition word_char :: "char \<Rightarrow> bool" where
  "word_char c \<longleftrightarrow> (let n = of_char c :: nat in
     (48 \<le> n \<and> n \<le> 57) \<or> (65 \<le> n \<and> n \<le> 90) \<or> (97 \<le> n \<and> n \<le> 122) \<or> n = 95)"

definition word_key :: "jstr \<Rightarrow> bool" where
  "word_key k \<longleftrightarrow> k \<noteq> [] \<and> list_all word_char k"

definition brace_free :: "jstr \<Rightarrow> bool" where
  "brace_free s \<longleftrightarrow> list_all (\<lambda>c. c \<noteq> CHR ''{'' \<and> c \<noteq> CHR ''}'') s"

definition plain_value :: "jstr \<Rightarrow> bool" where
  "plain_value s \<longleftrightarrow> list_all (\<lambda>c. c \<noteq> CHR ''{'' \<and> c \<noteq> CHR ''}'' \<and> c \<noteq> CHR 0x24) s"

fun render_token :: "token \<Rightarrow> jstr" where
  "render_token (Lit l) = l"
| "render_token (Hole k) = placeholder k"

fun wf_token :: "token \<Rightarrow> bool" where
  "wf_token (Lit l) = brace_free l"
| "wf_token (Hole k) = word_key k"

definition render :: "token list \<Rightarrow> jstr" where
  "render toks = concat (map render_token toks)"

fun tokenise_fuel :: "nat \<Rightarrow> jstr \<Rightarrow> token list" where
  "tokenise_fuel 0 s = []"
| "tokenise_fuel (Suc n) s =
     (case s of [] \<Rightarrow> []
      | c # r \<Rightarrow>
         if js_startsWith s ''{{'' then
           (let k = takeWhile (\<lambda>d. d \<noteq> CHR ''}'') (drop 2 s) in Hole k # tokenise_fuel n (drop (length k + 4) s))
         else Lit [c] # tokenise_fuel n r)"

definition tokenise :: "jstr \<Rightarrow> token list" where
  "tokenise s = tokenise_fuel (length s) s"

definition wf_text :: "jstr \<Rightarrow> bool" where
  "wf_text s \<longleftrightarrow> list_all wf_token (tokenise s) \<and> render (tokenise s) = s"

definition holes :: "jstr \<Rightarrow> jstr list" where
  "holes s = concat (map (\<lambda>tk. case tk of Lit l \<Rightarrow> [] | Hole k \<Rightarrow> [k]) (tokenise s))"

definition fill :: "(jstr \<times> param_value) list \<Rightarrow> token \<Rightarrow> token" where
  "fill ps tk = (case tk of Lit l \<Rightarrow> Lit l
     | Hole k \<Rightarrow> (case map_of ps k of None \<Rightarrow> Hole k | Some v \<Rightarrow> Lit (param_string v)))"

section \<open>The tables\<close>

lemma keys_es: "map fst es = map fst en"
  by (simp add: es_def en_def)

lemma keys_zh: "map fst zh = map fst en"
  by (simp add: zh_def en_def)

lemma wf_en: "list_all (\<lambda>e. wf_text (snd e)) en"
  by code_simp

lemma wf_es: "list_all (\<lambda>e. wf_text (snd e)) es"
  by code_simp

lemma wf_zh: "list_all (\<lambda>e. wf_text (snd e)) zh"
  by code_simp

lemma holes_es: "map (\<lambda>e. holes (snd e)) es = map (\<lambda>e. holes (snd e)) en"
  by code_simp

lemma holes_zh: "map (\<lambda>e. holes (snd e)) zh = map (\<lambda>e. holes (snd e)) en"
  by code_simp

lemma distinct_en: "distinct (map fst en)"
  by code_simp


lemma map_of_parallel:
  assumes "map fst a = map fst b" and "map (\<lambda>e. f (snd e)) a = map (\<lambda>e. f (snd e)) b"
  shows "map_option f (map_of a k) = map_option f (map_of b k)"
  using assms
proof (induction a arbitrary: b)
  case Nil
  then show ?case by simp
next
  case (Cons e a)
  then obtain e' b' where "b = e' # b'" by (cases b) auto
  with Cons show ?case by (cases e; cases e') auto
qed

lemma map_of_fst_cong: "map fst a = map fst b \<Longrightarrow> map_of a k = None \<longleftrightarrow> map_of b k = None"
  by (metis list.set_map map_of_eq_None_iff)

lemma table_wf: "map_of m k = Some s \<Longrightarrow> list_all (\<lambda>e. wf_text (snd e)) m \<Longrightarrow> wf_text s"
  by (auto simp: list_all_iff dest!: map_of_SomeD)

lemmas table_facts = keys_es keys_zh wf_en wf_es wf_zh holes_es holes_zh

text \<open>Every key of the English table has a well-formed text with the English placeholders in every
  locale.\<close>

lemma lookup_total:
  assumes "map_of en key = Some e"
  obtains s where "lookup_text l key = Some s" and "wf_text s" and "holes s = holes e"
    and "\<And>m. localeMap l = Some m \<Longrightarrow> map_of m key = Some s"
proof -
  have es: "map_option holes (map_of es key) = Some (holes e)"
    using map_of_parallel [OF keys_es holes_es, of key] assms by simp
  have zh: "map_option holes (map_of zh key) = Some (holes e)"
    using map_of_parallel [OF keys_zh holes_zh, of key] assms by simp
  have "\<exists>s. lookup_text l key = Some s \<and> wf_text s \<and> holes s = holes e
      \<and> (\<forall>m. localeMap l = Some m \<longrightarrow> map_of m key = Some s)"
    using assms es zh table_wf [OF _ wf_en] table_wf [OF _ wf_es] table_wf [OF _ wf_zh]
    by (cases l) (auto simp: lookup_text_def localeMap_def)
  then show thesis using that by blast
qed

lemma lookup_missing:
  "key \<notin> fst ` set en \<Longrightarrow> lookup_text l key = None"
  using map_of_fst_cong [OF keys_es, of key] map_of_fst_cong [OF keys_zh, of key]
  by (cases l) (auto simp: lookup_text_def localeMap_def map_of_eq_None_iff)

section \<open>Replacing placeholders\<close>

lemma expand_plain: "CHR 0x24 \<notin> set r \<Longrightarrow> expand_replacement m pre post r = r"
  by (induction m pre post r rule: expand_replacement.induct) auto

lemma replace_skip:
  assumes "CHR ''{'' \<notin> set u"
  shows "replace_from (placeholder k) v pre (u @ s) = u @ replace_from (placeholder k) v (pre @ u) s"
  using assms by (induction u arbitrary: pre) (auto simp: placeholder_def)

lemma split_at_first: "c \<notin> set a \<Longrightarrow> c \<notin> set b \<Longrightarrow> a @ c # x = b @ c # y \<longleftrightarrow> a = b \<and> x = y"
proof (induction a arbitrary: b)
  case Nil
  then show ?case by (cases b) auto
next
  case (Cons d a)
  then show ?case by (cases b) auto
qed

lemma word_key_braces: "word_key k \<Longrightarrow> CHR ''{'' \<notin> set k \<and> CHR ''}'' \<notin> set k"
proof -
  have "\<not> word_char (CHR ''{'')" "\<not> word_char (CHR ''}'')" by (simp_all add: word_char_def)
  then show "word_key k \<Longrightarrow> CHR ''{'' \<notin> set k \<and> CHR ''}'' \<notin> set k"
    by (auto simp: word_key_def list_all_iff)
qed

lemma starts_with_placeholder:
  assumes "word_key j" and "word_key k"
  shows "js_startsWith (placeholder j @ r) (placeholder k) \<longleftrightarrow> j = k"
proof
  assume "js_startsWith (placeholder j @ r) (placeholder k)"
  then obtain x where "j @ CHR ''}'' # CHR ''}'' # r = k @ CHR ''}'' # CHR ''}'' # x"
    by (auto simp: js_startsWith_prefix placeholder_def)
  then show "j = k"
    using split_at_first [of "CHR ''}''" j k] word_key_braces [OF assms(1)] word_key_braces [OF assms(2)] by simp
next
  assume "j = k"
  then show "js_startsWith (placeholder j @ r) (placeholder k)" by (auto simp: js_startsWith_prefix)
qed

lemma replace_hole_same:
  assumes "word_key k" and "CHR 0x24 \<notin> set v"
  shows "replace_from (placeholder k) v pre (placeholder k @ s) = v @ replace_from (placeholder k) v (pre @ placeholder k) s"
proof -
  obtain c r where cr: "placeholder k @ s = c # r" by (auto simp: placeholder_def)
  have "js_startsWith (c # r) (placeholder k)" using cr by (metis js_startsWith_prefix)
  moreover have "drop (length (placeholder k)) (c # r) = s" by (simp flip: cr)
  moreover have "placeholder k \<noteq> []" by (simp add: placeholder_def)
  ultimately show ?thesis unfolding cr by (simp add: expand_plain [OF assms(2)])
qed

lemma replace_hole_other:
  assumes "word_key j" and "word_key k" and "j \<noteq> k"
  shows "replace_from (placeholder k) v pre (placeholder j @ s)
       = placeholder j @ replace_from (placeholder k) v (pre @ placeholder j) s"
proof -
  have no0: "\<not> js_startsWith (placeholder j @ s) (placeholder k)"
    using starts_with_placeholder [OF assms(1,2)] assms(3) by simp
  obtain c j' where j: "j = c # j'" "c \<noteq> CHR ''{''" using assms(1) word_key_braces [OF assms(1)]
    by (cases j) (auto simp: word_key_def)
  have rest: "CHR ''{'' \<notin> set (j @ ''}}'')" using word_key_braces [OF assms(1)] by auto
  have no1: "\<not> js_startsWith (CHR ''{'' # j @ ''}}'' @ s) (placeholder k)" using j by (simp add: placeholder_def)
  have "replace_from (placeholder k) v pre (placeholder j @ s)
      = CHR ''{'' # CHR ''{'' # replace_from (placeholder k) v (pre @ ''{{'') ((j @ ''}}'') @ s)"
    using no0 no1 by (simp add: placeholder_def)
  also have "\<dots> = CHR ''{'' # CHR ''{'' # (j @ ''}}'') @ replace_from (placeholder k) v ((pre @ ''{{'') @ j @ ''}}'') s"
    by (subst replace_skip [OF rest]) simp
  finally show ?thesis by (simp add: placeholder_def)
qed

definition param_ok :: "jstr \<times> param_value \<Rightarrow> bool" where
  "param_ok p \<longleftrightarrow> word_key (fst p) \<and> plain_value (param_string (snd p))"

lemma interp_one_tokens:
  assumes "param_ok p" and "list_all wf_token toks"
  shows "replace_from (placeholder (fst p)) (param_string (snd p)) pre (render toks) = render (map (fill [p]) toks)"
  using assms(2)
proof (induction toks arbitrary: pre)
  case Nil
  then show ?case by (simp add: render_def)
next
  case (Cons tk toks)
  have k: "word_key (fst p)" and v: "CHR 0x24 \<notin> set (param_string (snd p))"
    using assms(1) by (auto simp: param_ok_def plain_value_def list_all_iff)
  have r: "render (tk # toks) = render_token tk @ render toks" by (simp add: render_def)
  show ?case
  proof (cases tk)
    case (Lit l)
    with Cons.prems have "CHR ''{'' \<notin> set l" by (auto simp: brace_free_def list_all_iff)
    then have "replace_from (placeholder (fst p)) (param_string (snd p)) pre (l @ render toks)
        = l @ render (map (fill [p]) toks)"
      using Cons by (simp add: replace_skip)
    then show ?thesis by (simp add: r Lit) (simp add: render_def fill_def)
  next
    case (Hole j)
    show ?thesis
    proof (cases "j = fst p")
      case True
      then have "replace_from (placeholder (fst p)) (param_string (snd p)) pre (placeholder j @ render toks)
          = param_string (snd p) @ render (map (fill [p]) toks)"
        using Cons replace_hole_same [OF k v] by simp
      then show ?thesis using True by (simp add: r Hole) (simp add: render_def fill_def split: prod.splits)
    next
      case False
      moreover have "word_key j" using Cons.prems Hole by simp
      ultimately have "replace_from (placeholder (fst p)) (param_string (snd p)) pre (placeholder j @ render toks)
          = placeholder j @ render (map (fill [p]) toks)"
        using Cons replace_hole_other [OF _ k, of j] by simp
      then show ?thesis using False by (cases p) (simp add: r Hole, simp add: render_def fill_def)
    qed
  qed
qed

lemma plain_brace_free: "plain_value v \<Longrightarrow> brace_free v"
  by (auto simp: plain_value_def brace_free_def list_all_iff)

lemma fill_wf: "list_all param_ok ps \<Longrightarrow> wf_token tk \<Longrightarrow> wf_token (fill ps tk)"
  by (auto simp: fill_def list_all_iff param_ok_def plain_brace_free dest!: map_of_SomeD split: token.splits option.splits)

lemma fill_step: "fill ps (fill [p] tk) = fill (p # ps) tk"
  by (cases p) (auto simp: fill_def split: token.splits)

text \<open>The sequential replacements of the source are one simultaneous substitution.\<close>

lemma interpolate_tokens:
  assumes "list_all param_ok ps" and "list_all wf_token toks"
  shows "interpolate (render toks) ps = render (map (fill ps) toks)"
  using assms
proof (induction ps arbitrary: toks)
  case Nil
  have "map (fill []) toks = toks" by (rule map_idI) (simp add: fill_def split: token.splits)
  then show ?case by (simp add: interpolate_def)
next
  case (Cons p ps)
  have "interp_one (render toks) p = render (map (fill [p]) toks)"
    using interp_one_tokens Cons.prems by (simp add: interp_one_def)
  moreover have "list_all wf_token (map (fill [p]) toks)"
    using Cons.prems fill_wf [of "[p]"] by (auto simp: list_all_iff)
  ultimately show ?case using Cons by (simp add: interpolate_def o_def fill_step)
qed

lemma render_filled_brace_free:
  assumes "list_all param_ok ps" and "list_all wf_token toks" and "\<And>k. Hole k \<in> set toks \<Longrightarrow> k \<in> fst ` set ps"
  shows "brace_free (render (map (fill ps) toks))"
proof -
  have "brace_free (render_token (fill ps tk))" if "tk \<in> set toks" for tk
  proof (cases tk)
    case (Lit l)
    then show ?thesis using assms(2) that by (auto simp: fill_def list_all_iff)
  next
    case (Hole k)
    then have "map_of ps k \<noteq> None" using assms(3) that by (simp add: map_of_eq_None_iff)
    then obtain v where "map_of ps k = Some v" by blast
    then show ?thesis
      using Hole assms(1) by (auto simp: fill_def list_all_iff param_ok_def plain_brace_free dest!: map_of_SomeD)
  qed
  then show ?thesis by (auto simp: render_def brace_free_def list_all_iff)
qed

lemma holes_in: "Hole k \<in> set (tokenise s) \<Longrightarrow> k \<in> set (holes s)"
  by (force simp: holes_def)


section \<open>Properties\<close>

text \<open>C33.
  Translations are complete in every locale: for each key of the English table and each of the seven
  locale codes there is a text, taken from the locale's own table where it has one; and once the
  parameters cover the placeholders of the English text (with plain values), the result is that text
  with each placeholder replaced by its parameter, and no brace is left in it.
\<close>

theorem translations_complete:
  assumes "map_of en key = Some e" and "list_all param_ok ps" and "set (holes e) \<subseteq> fst ` set ps"
  shows "\<exists>s. lookup_text l key = Some s \<and> (\<forall>m. localeMap l = Some m \<longrightarrow> map_of m key = Some s)
    \<and> t l key (Some ps) = render (map (fill ps) (tokenise s)) \<and> brace_free (t l key (Some ps))"
proof -
  obtain s where s: "lookup_text l key = Some s" "wf_text s" "holes s = holes e"
    "\<And>m. localeMap l = Some m \<Longrightarrow> map_of m key = Some s"
    using lookup_total [OF assms(1)] by metis
  have w: "list_all wf_token (tokenise s)" "render (tokenise s) = s" using s(2) by (simp_all add: wf_text_def)
  have "t l key (Some ps) = render (map (fill ps) (tokenise s))"
    using interpolate_tokens [OF assms(2) w(1)] w(2) s(1) by (simp add: t_def)
  moreover have "brace_free (render (map (fill ps) (tokenise s)))"
  proof (rule render_filled_brace_free [OF assms(2) w(1)])
    fix k
    assume "Hole k \<in> set (tokenise s)"
    then show "k \<in> fst ` set ps" using holes_in [of k s] s(3) assms(3) by auto
  qed
  ultimately show ?thesis using s(1,4) by auto
qed

lemma translations_complete_witness:
  "map_of en ''heartbeat.last_seen'' = Some ''Last seen {{time}}'' \<and> list_all param_ok [(''time'', PNum 5)]
   \<and> brace_free (t Fr ''heartbeat.last_seen'' (Some [(''time'', PNum 5)]))"
proof -
  have e: "map_of en ''heartbeat.last_seen'' = Some ''Last seen {{time}}''" by (simp add: en_def)
  have p: "list_all param_ok [(''time'', PNum 5)]" by code_simp
  have h: "set (holes ''Last seen {{time}}'') \<subseteq> fst ` set [(''time'', PNum 5)]" by code_simp
  show ?thesis using translations_complete [OF e p h, of Fr] e p by blast
qed

text \<open>
  The fallback chain: a locale without a table behaves like English for every key and every
  parameters, and a string that is not a key of the English table comes back unchanged in every
  locale.
\<close>

theorem fallback_chain:
  "(l \<notin> set getSupportedLocales \<longrightarrow> t l key ps = t En key ps) \<and> (key \<notin> fst ` set en \<longrightarrow> t l key ps = key)"
  using lookup_missing [of key l]
  by (cases l) (auto simp: t_def lookup_text_def localeMap_def getSupportedLocales_def)

lemma fallback_chain_witness:
  "t De ''nav.home'' None = t En ''nav.home'' None \<and> t Zh ''no.such.key'' None = ''no.such.key''"
proof -
  have "''no.such.key'' \<notin> fst ` set en" by (simp add: en_def)
  then show ?thesis
    using fallback_chain [of De "''nav.home''" None] fallback_chain [of Zh "''no.such.key''" None]
    by (simp add: getSupportedLocales_def)
qed

fun locale_of :: "nat \<Rightarrow> i18n_event list \<Rightarrow> locale_code \<Rightarrow> locale_code" where
  "locale_of p [] l = l"
| "locale_of p (SetProviderLocale q l' # evs) l = locale_of p evs (if q = p then l' else l)"
| "locale_of p (_ # evs) l = locale_of p evs l"

lemma providers_after: "providers (fold i18n_exec evs st) p = locale_of p evs (providers st p)"
proof (induction evs arbitrary: st)
  case Nil
  then show ?case by simp
next
  case (Cons ev evs)
  then show ?case
    by (cases ev) (simp_all add: setLocale_def handleSetLocale_def translate_def Let_def)
qed

text \<open>
  Providers do not leak into each other: whatever other providers and the module functions did before,
  a provider translates with the locale that was last set on it, or with its default.
\<close>

theorem providers_isolated:
  "fst (translate p key params (fold i18n_exec evs st)) = t (locale_of p evs (providers st p)) key params"
  by (simp add: translate_def Let_def setLocale_def providers_after)

end
