(* ===== verification/Design_Tokens.thy ===== *)
theory Design_Tokens
  imports Prelude
begin

text \<open>
  The design tokens (\<open>packages/design-tokens/src\<close>) and the script that dumps them
  (\<open>scripts/dump-tokens-css.ts\<close>): the semantic colour palettes, the typography and spacing scales, the
  maps of CSS custom properties derived from them, the Tailwind colour block and the \<open>:root\<close> block.
  A record literal is its list of entries in source order; \<open>js_entries\<close> gives them in the order
  \<open>Object.entries\<close> does (array indices first, in ascending order).  Spacing values are whole pixels,
  and \<open>localeCompare\<close> is a parameter.
\<close>

section \<open>Colours\<close>

record color_scale =
  bg :: jstr
  bgHover :: jstr
  border :: jstr
  text_color :: jstr
  solid :: jstr
  solidHover :: jstr

definition safe :: color_scale where
  "safe = \<lparr>bg = ''#ECFDF5'', bgHover = ''#D1FAE5'', border = ''#6EE7B7'',
     text_color = ''#065F46'', solid = ''#10B981'', solidHover = ''#059669''\<rparr>"

definition warning :: color_scale where
  "warning = \<lparr>bg = ''#FFFBEB'', bgHover = ''#FEF3C7'', border = ''#FCD34D'',
     text_color = ''#92400E'', solid = ''#F59E0B'', solidHover = ''#D97706''\<rparr>"

definition blocked :: color_scale where
  "blocked = \<lparr>bg = ''#FEF2F2'', bgHover = ''#FEE2E2'', border = ''#FCA5A5'',
     text_color = ''#991B1B'', solid = ''#EF4444'', solidHover = ''#DC2626''\<rparr>"

definition recovered :: color_scale where
  "recovered = \<lparr>bg = ''#EFF6FF'', bgHover = ''#DBEAFE'', border = ''#93C5FD'',
     text_color = ''#1E40AF'', solid = ''#3B82F6'', solidHover = ''#2563EB''\<rparr>"

definition quarantined :: color_scale where
  "quarantined = \<lparr>bg = ''#FDF4FF'', bgHover = ''#FAE8FF'', border = ''#D8B4FE'',
     text_color = ''#6B21A8'', solid = ''#A855F7'', solidHover = ''#9333EA''\<rparr>"

definition neutral :: color_scale where
  "neutral = \<lparr>bg = ''#F9FAFB'', bgHover = ''#F3F4F6'', border = ''#D1D5DB'',
     text_color = ''#111827'', solid = ''#6B7280'', solidHover = ''#4B5563''\<rparr>"

definition accent :: color_scale where
  "accent = \<lparr>bg = ''#EEF2FF'', bgHover = ''#E0E7FF'', border = ''#A5B4FC'',
     text_color = ''#3730A3'', solid = ''#6366F1'', solidHover = ''#4F46E5''\<rparr>"

definition colorCustomProperties :: "(jstr \<times> jstr) list" where
  "colorCustomProperties =
     [(''--color-safe-bg'', bg safe),
      (''--color-safe-bg-hover'', bgHover safe),
      (''--color-safe-border'', border safe),
      (''--color-safe-text'', text_color safe),
      (''--color-safe-solid'', solid safe),
      (''--color-safe-solid-hover'', solidHover safe),
      (''--color-warning-bg'', bg warning),
      (''--color-warning-bg-hover'', bgHover warning),
      (''--color-warning-border'', border warning),
      (''--color-warning-text'', text_color warning),
      (''--color-warning-solid'', solid warning),
      (''--color-warning-solid-hover'', solidHover warning),
      (''--color-blocked-bg'', bg blocked),
      (''--color-blocked-bg-hover'', bgHover blocked),
      (''--color-blocked-border'', border blocked),
      (''--color-blocked-text'', text_color blocked),
      (''--color-blocked-solid'', solid blocked),
      (''--color-blocked-solid-hover'', solidHover blocked),
      (''--color-recovered-bg'', bg recovered),
      (''--color-recovered-bg-hover'', bgHover recovered),
      (''--color-recovered-border'', border recovered),
      (''--color-recovered-text'', text_color recovered),
      (''--color-recovered-solid'', solid recovered),
      (''--color-recovered-solid-hover'', solidHover recovered),
      (''--color-quarantined-bg'', bg quarantined),
      (''--color-quarantined-bg-hover'', bgHover quarantined),
      (''--color-quarantined-border'', border quarantined),
      (''--color-quarantined-text'', text_color quarantined),
      (''--color-quarantined-solid'', solid quarantined),
      (''--color-quarantined-solid-hover'', solidHover quarantined),
      (''--color-neutral-bg'', bg neutral),
      (''--color-neutral-bg-hover'', bgHover neutral),
      (''--color-neutral-border'', border neutral),
      (''--color-neutral-text'', text_color neutral),
      (''--color-neutral-solid'', solid neutral),
      (''--color-neutral-solid-hover'', solidHover neutral),
      (''--color-accent-bg'', bg accent),
      (''--color-accent-bg-hover'', bgHover accent),
      (''--color-accent-border'', border accent),
      (''--color-accent-text'', text_color accent),
      (''--color-accent-solid'', solid accent),
      (''--color-accent-solid-hover'', solidHover accent)]"

section \<open>Typography\<close>

record typography_token =
  fontSize :: jstr
  lineHeight :: jstr
  fontWeight :: int
  letterSpacing :: jstr
  fontFamily :: jstr

definition sansStack :: jstr where
  "sansStack = [CHR 0x27] @ ''Inter'' @ [CHR 0x27] @ '', -apple-system, BlinkMacSystemFont, '' @ [CHR 0x27] @ ''Segoe UI'' @ [CHR 0x27] @ '', Roboto, sans-serif''"

definition monoStack :: jstr where
  "monoStack = [CHR 0x27] @ ''JetBrains Mono'' @ [CHR 0x27] @ '', '' @ [CHR 0x27] @ ''Fira Code'' @ [CHR 0x27] @ '', '' @ [CHR 0x27] @ ''SF Mono'' @ [CHR 0x27] @ '', Menlo, Consolas, monospace''"

definition pageTitle :: typography_token where
  "pageTitle = \<lparr>fontSize = ''1.875rem'', lineHeight = ''2.25rem'', fontWeight = 700,
     letterSpacing = ''-0.025em'', fontFamily = sansStack\<rparr>"

definition sectionTitle :: typography_token where
  "sectionTitle = \<lparr>fontSize = ''1.25rem'', lineHeight = ''1.75rem'', fontWeight = 600,
     letterSpacing = ''-0.01em'', fontFamily = sansStack\<rparr>"

definition body :: typography_token where
  "body = \<lparr>fontSize = ''0.9375rem'', lineHeight = ''1.5rem'', fontWeight = 400,
     letterSpacing = ''0'', fontFamily = sansStack\<rparr>"

definition caption :: typography_token where
  "caption = \<lparr>fontSize = ''0.8125rem'', lineHeight = ''1.125rem'', fontWeight = 400,
     letterSpacing = ''0.01em'', fontFamily = sansStack\<rparr>"

definition label :: typography_token where
  "label = \<lparr>fontSize = ''0.8125rem'', lineHeight = ''1rem'', fontWeight = 500,
     letterSpacing = ''0.02em'', fontFamily = sansStack\<rparr>"

definition code :: typography_token where
  "code = \<lparr>fontSize = ''0.8125rem'', lineHeight = ''1.25rem'', fontWeight = 400,
     letterSpacing = ''0'', fontFamily = monoStack\<rparr>"

definition typographyTokens :: "(jstr \<times> typography_token) list" where
  "typographyTokens = [(''pageTitle'', pageTitle), (''sectionTitle'', sectionTitle), (''body'', body), (''caption'', caption), (''label'', label), (''code'', code)]"

section \<open>Entries of an object\<close>

definition is_index :: "jstr \<Rightarrow> bool" where
  "is_index k \<longleftrightarrow> k \<noteq> [] \<and> list_all is_digit k \<and> (k = ''0'' \<or> hd k \<noteq> CHR ''0'')"

definition digits_value :: "jstr \<Rightarrow> int" where
  "digits_value k = foldl (\<lambda>n c. 10 * n + (int (of_char c) - 48)) 0 k"

definition js_entries :: "(jstr \<times> 'v) list \<Rightarrow> (jstr \<times> 'v) list" where
  "js_entries xs = js_sort (cmp_key (\<lambda>e. digits_value (fst e))) (filter (\<lambda>e. is_index (fst e)) xs)
     @ filter (\<lambda>e. \<not> is_index (fst e)) xs"

text \<open>\<open>Object.fromEntries\<close> and the object spread keep the last value of a key.\<close>

definition from_entries :: "(jstr \<times> 'v) list \<Rightarrow> (jstr, 'v) jmap" where
  "from_entries es = fold (\<lambda>e m. jm_set (fst e) (snd e) m) es []"

definition typographyCustomProperties :: "(jstr \<times> jstr) list" where
  "typographyCustomProperties = from_entries (concat (map (\<lambda>(name, token).
     [(''--type-'' @ name @ ''-size'', fontSize token),
      (''--type-'' @ name @ ''-line'', lineHeight token),
      (''--type-'' @ name @ ''-weight'', int_str (fontWeight token)),
      (''--type-'' @ name @ ''-tracking'', letterSpacing token),
      (''--type-'' @ name @ ''-family'', fontFamily token)]) (js_entries typographyTokens)))"

section \<open>Spacing\<close>

definition BASE_UNIT :: int where
  "BASE_UNIT = 4"

definition spacing :: "(jstr \<times> int) list" where
  "spacing =
     [(''none'', 0),
      (''0.5'', BASE_UNIT div 2),
      (''1'', BASE_UNIT),
      (''2'', BASE_UNIT * 2),
      (''3'', BASE_UNIT * 3),
      (''4'', BASE_UNIT * 4),
      (''5'', BASE_UNIT * 5),
      (''6'', BASE_UNIT * 6),
      (''8'', BASE_UNIT * 8),
      (''10'', BASE_UNIT * 10),
      (''12'', BASE_UNIT * 12),
      (''16'', BASE_UNIT * 16),
      (''20'', BASE_UNIT * 20),
      (''24'', BASE_UNIT * 24)]"

definition px :: "jstr \<Rightarrow> jstr option" where
  "px key = map_option (\<lambda>v. int_str v @ ''px'') (map_of spacing key)"

text \<open>A quotient by 16 of an even number of pixels has at most three decimals.\<close>

definition trim_zeros :: "jstr \<Rightarrow> jstr" where
  "trim_zeros s = rev (dropWhile (\<lambda>c. c = CHR ''0'') (rev s))"

definition thousandths_str :: "int \<Rightarrow> jstr" where
  "thousandths_str n =
     (let f = trim_zeros (tl (int_str (1000 + n mod 1000)))
      in int_str (n div 1000) @ (if f = [] then [] else ''.'' @ f))"

definition rem :: "jstr \<Rightarrow> jstr option" where
  "rem key = map_option (\<lambda>v. thousandths_str (v * 1000 div 16) @ ''rem'') (map_of spacing key)"

definition spacingCustomProperties :: "(jstr \<times> jstr) list" where
  "spacingCustomProperties =
     from_entries (map (\<lambda>(key, val). (''--space-'' @ key, int_str val @ ''px'')) (js_entries spacing))"

definition allCssCustomProperties :: "(jstr \<times> jstr) list" where
  "allCssCustomProperties =
     from_entries (js_entries colorCustomProperties @ js_entries typographyCustomProperties @ js_entries spacingCustomProperties)"

section \<open>The Tailwind bridge\<close>

definition SEMANTIC_PALETTE_NAMES :: "jstr list" where
  "SEMANTIC_PALETTE_NAMES = [''safe'', ''warning'', ''blocked'', ''recovered'', ''quarantined'', ''neutral'', ''accent'']"

definition COLOR_SCALE_FIELDS :: "((color_scale \<Rightarrow> jstr) \<times> jstr) list" where
  "COLOR_SCALE_FIELDS =
     [(bg, ''bg''), (bgHover, ''bg-hover''), (border, ''border''), (text_color, ''text''), (solid, ''solid''),
      (solidHover, ''solid-hover'')]"

definition color_var :: "jstr \<Rightarrow> jstr \<Rightarrow> jstr" where
  "color_var name field = ''var(--color-'' @ name @ ''-'' @ field @ '')''"

record semantic_tailwind_color =
  tw_DEFAULT :: jstr
  tw_bg :: jstr
  tw_bg_hover :: jstr
  tw_border :: jstr
  tw_text :: jstr
  tw_solid :: jstr
  tw_solid_hover :: jstr

definition buildTailwindColors :: "(jstr \<times> semantic_tailwind_color) list" where
  "buildTailwindColors = map (\<lambda>name. (name,
     \<lparr>tw_DEFAULT = color_var name ''bg'', tw_bg = color_var name ''bg'', tw_bg_hover = color_var name ''bg-hover'',
      tw_border = color_var name ''border'', tw_text = color_var name ''text'', tw_solid = color_var name ''solid'',
      tw_solid_hover = color_var name ''solid-hover''\<rparr>)) SEMANTIC_PALETTE_NAMES"

definition orderedEntries :: "(jstr \<Rightarrow> jstr \<Rightarrow> int) \<Rightarrow> (jstr \<times> jstr) list \<Rightarrow> (jstr \<times> jstr) list" where
  "orderedEntries localeCompare r = js_sort (\<lambda>a b. localeCompare (fst a) (fst b)) (js_entries r)"

definition css_line :: "jstr \<times> jstr \<Rightarrow> jstr" where
  "css_line e = ''  '' @ fst e @ '': '' @ snd e @ '';''"

definition root_css_lines :: "(jstr \<Rightarrow> jstr \<Rightarrow> int) \<Rightarrow> jstr list" where
  "root_css_lines localeCompare =
     [''  /* Semantic colors */''] @ map css_line (orderedEntries localeCompare colorCustomProperties)
     @ [[], ''  /* Typography */''] @ map css_line (orderedEntries localeCompare typographyCustomProperties)
     @ [[], ''  /* Spacing */''] @ map css_line (orderedEntries localeCompare spacingCustomProperties)"

definition buildRootCssVariables :: "(jstr \<Rightarrow> jstr \<Rightarrow> int) \<Rightarrow> jstr" where
  "buildRootCssVariables localeCompare = js_join [CHR 0x0A] (root_css_lines localeCompare)"

definition dump_tokens_css :: "(jstr \<Rightarrow> jstr \<Rightarrow> int) \<Rightarrow> jstr" where
  "dump_tokens_css localeCompare = '':root {'' @ [CHR 0x0A] @ buildRootCssVariables localeCompare @ [CHR 0x0A] @ ''}'' @ [CHR 0x0A]"


section \<open>Generic facts\<close>

lemma mset_js_entries: "mset (js_entries xs) = mset xs"
  by (simp add: js_entries_def sort_simps)

lemma mset_orderedEntries: "mset (orderedEntries lc r) = mset r"
  by (simp add: orderedEntries_def sort_simps mset_js_entries)

lemma from_entries_keys: "set (jm_keys (fold (\<lambda>e m. jm_set (fst e) (snd e) m) es m)) = set (jm_keys m) \<union> fst ` set es"
  by (induction es arbitrary: m) (auto simp: jm_keys_set)

lemma from_entries_distinct:
  assumes "distinct (map fst es)" and "set (map fst es) \<inter> set (jm_keys m) = {}"
  shows "fold (\<lambda>e m. jm_set (fst e) (snd e) m) es m = m @ es"
  using assms
proof (induction es arbitrary: m)
  case Nil
  then show ?case by simp
next
  case (Cons e es)
  have "jm_set (fst e) (snd e) m = m @ [e]"
    using Cons.prems(2) by (induction m) (auto simp: jm_keys_def)
  with Cons show ?case by (auto simp: jm_keys_def)
qed

section \<open>The token tables\<close>

lemma color_keys: "map fst colorCustomProperties
    = concat (map (\<lambda>name. map (\<lambda>f. ''--color-'' @ name @ ''-'' @ snd f) COLOR_SCALE_FIELDS) SEMANTIC_PALETTE_NAMES)"
  by (simp add: colorCustomProperties_def SEMANTIC_PALETTE_NAMES_def COLOR_SCALE_FIELDS_def)

lemma distinct_color_keys: "distinct (map fst colorCustomProperties)"
  by code_simp

lemma distinct_typography_keys: "distinct (map fst typographyCustomProperties)"
  by code_simp

lemma distinct_spacing_keys: "distinct (map fst spacingCustomProperties)"
  by code_simp


lemma js_entries_keys: "distinct (map fst xs) \<Longrightarrow> distinct (map fst (js_entries xs))"
  by (metis mset_js_entries mset_eq_imp_distinct_iff mset_map)

lemma all_properties_keys_distinct:
  "distinct (map fst (js_entries colorCustomProperties @ js_entries typographyCustomProperties @ js_entries spacingCustomProperties))"
  by code_simp

text \<open>No token overrides another: the combined map is the three groups one after the other.\<close>

lemma all_properties:
  "allCssCustomProperties = js_entries colorCustomProperties @ js_entries typographyCustomProperties @ js_entries spacingCustomProperties"
  using from_entries_distinct [OF all_properties_keys_distinct, of "[]"]
  by (simp add: allCssCustomProperties_def from_entries_def jm_keys_def)

lemma mset_all_properties:
  "mset allCssCustomProperties = mset colorCustomProperties + mset typographyCustomProperties + mset spacingCustomProperties"
  by (simp add: all_properties mset_js_entries)

section \<open>Properties\<close>

definition color_refs :: "semantic_tailwind_color \<Rightarrow> jstr list" where
  "color_refs c = [tw_DEFAULT c, tw_bg c, tw_bg_hover c, tw_border c, tw_text c, tw_solid c, tw_solid_hover c]"

definition var_target :: "jstr \<Rightarrow> jstr" where
  "var_target v = drop 4 (butlast v)"

lemma tailwind_targets:
  "set (concat (map (\<lambda>(n, c). map var_target (color_refs c)) buildTailwindColors)) = set (map fst colorCustomProperties)"
  by code_simp

lemma tailwind_var_shape:
  "list_all (\<lambda>(n, c). list_all (\<lambda>v. v = ''var('' @ var_target v @ '')'') (color_refs c)) buildTailwindColors"
  by code_simp

text \<open>
  The Tailwind colours and the CSS custom properties fit together: the colours refer to exactly the
  colour properties, each as \<open>var(name)\<close>, and each of these is in the combined map of properties; so
  no utility class resolves to an undefined variable and no colour token is out of reach.
\<close>

theorem tailwind_refs_defined:
  "list_all (\<lambda>(n, c). list_all (\<lambda>v. v = ''var('' @ var_target v @ '')'') (color_refs c)) buildTailwindColors
   \<and> set (concat (map (\<lambda>(n, c). map var_target (color_refs c)) buildTailwindColors)) = fst ` set colorCustomProperties
   \<and> fst ` set colorCustomProperties \<subseteq> fst ` set allCssCustomProperties"
proof (intro conjI)
  show "set (concat (map (\<lambda>(n, c). map var_target (color_refs c)) buildTailwindColors)) = fst ` set colorCustomProperties"
    using tailwind_targets by simp
  have "set colorCustomProperties \<subseteq> set allCssCustomProperties"
    by (metis all_properties mset_js_entries set_mset_mset sup_ge1 set_append)
  then show "fst ` set colorCustomProperties \<subseteq> fst ` set allCssCustomProperties" by (rule image_mono)
qed (rule tailwind_var_shape)

definition is_declaration :: "jstr \<Rightarrow> bool" where
  "is_declaration l \<longleftrightarrow> js_startsWith l ''  --''"

lemma declarations:
  "list_all (\<lambda>e. is_declaration (css_line e)) (colorCustomProperties @ typographyCustomProperties @ spacingCustomProperties)"
  by code_simp

lemma declarations_kept:
  assumes "list_all (\<lambda>e. is_declaration (css_line e)) r"
  shows "filter is_declaration (map css_line (orderedEntries lc r)) = map css_line (orderedEntries lc r)"
proof -
  have "set (orderedEntries lc r) = set r" by (metis mset_orderedEntries set_mset_mset)
  then show ?thesis using assms by (auto simp: filter_id_conv list_all_iff)
qed

text \<open>The dump of the tokens is complete and exact, whatever order the locale sorts by: its declaration
  lines are those of the combined map of properties, each exactly once, and the combined map loses
  nothing of the three groups.
\<close>

lemma css_dump_complete:
  "mset (filter is_declaration (root_css_lines localeCompare)) = image_mset css_line (mset allCssCustomProperties)
   \<and> distinct (map fst allCssCustomProperties)
   \<and> mset allCssCustomProperties = mset colorCustomProperties + mset typographyCustomProperties + mset spacingCustomProperties"
proof (intro conjI)
  have d: "list_all (\<lambda>e. is_declaration (css_line e)) colorCustomProperties"
    "list_all (\<lambda>e. is_declaration (css_line e)) typographyCustomProperties"
    "list_all (\<lambda>e. is_declaration (css_line e)) spacingCustomProperties"
    using declarations by simp_all
  have other: "\<not> is_declaration []" "\<not> is_declaration ''  /* Semantic colors */'' " "\<not> is_declaration ''  /* Typography */''"
    "\<not> is_declaration ''  /* Spacing */''" by (simp_all add: is_declaration_def)
  have m: "mset (map css_line (orderedEntries localeCompare r)) = image_mset css_line (mset r)" for r
    by (simp add: mset_orderedEntries)
  show "mset (filter is_declaration (root_css_lines localeCompare)) = image_mset css_line (mset allCssCustomProperties)"
    unfolding root_css_lines_def filter_append mset_append declarations_kept [OF d(1)] declarations_kept [OF d(2)]
      declarations_kept [OF d(3)] m
    using other by (simp add: mset_all_properties)
  show "distinct (map fst allCssCustomProperties)"
    using all_properties_keys_distinct by (simp only: all_properties)
qed (rule mset_all_properties)

definition css_name_char :: "char \<Rightarrow> bool" where
  "css_name_char c \<longleftrightarrow> (let n = of_char c :: nat in
     (48 \<le> n \<and> n \<le> 57) \<or> (65 \<le> n \<and> n \<le> 90) \<or> (97 \<le> n \<and> n \<le> 122) \<or> n = 95 \<or> n = 45)"

text \<open>Exactly one of the generated property names is not a CSS name: \<open>--space-0.5\<close>, whose unescaped dot
  ends the name, so that a browser drops its declaration.
\<close>

theorem only_half_step_name_invalid:
  "filter (\<lambda>k. \<not> list_all css_name_char k) (map fst allCssCustomProperties) = [''--space-0.5'']"
  unfolding all_properties by code_simp

end
