(* ===== verification/Png_Diff.thy ===== *)
theory Png_Diff
  imports Js_Double Complex_Main "HOL-Library.Word"
begin

unbundle bit_operations_syntax

text \<open>
  The visual-regression gate (\<open>scripts/png-diff.ts\<close>): a PNG decoder (chunk walk, scanline
  unfiltering, expansion to RGBA) and the pixel comparison.  Bytes are \<open>8 word\<close>; sizes read from the
  file are natural numbers, as the 32-bit reads are unsigned.  Reads behind the end of a buffer are
  \<open>undefined\<close> in the source: the model has them as \<^const>\<open>None\<close>, and a byte computed from one is 0, as
  storing \<open>NaN\<close> into a \<open>Uint8Array\<close> gives.  \<open>zlib\<close>'s \<open>inflateSync\<close>, \<open>readFileSync\<close> and the string to
  number conversion are parameters.  Numbers are rationals, the infinities and \<open>NaN\<close>; the share of differing
  pixels is rounded to a double as the division rounds it.  The engine's limit on array sizes is not
  modelled: counts of pixels are exact, as they are below \<open>2^53\<close>.
\<close>

type_synonym byte = "8 word"

datatype png_error =
    BadMagic | ReadOutOfRange | UnsupportedDepth nat | UnsupportedColor nat | Interlaced
  | InflateFailed | UnknownFilter "byte option" nat | NoSuchFile

record decoded_image =
  width :: nat
  height :: nat
  rgba :: "byte list"

definition PNG_MAGIC :: "byte list" where
  "PNG_MAGIC = [0x89, 0x50, 0x4e, 0x47, 0x0d, 0x0a, 0x1a, 0x0a]"

section \<open>Reading bytes\<close>

definition readUInt8 :: "byte list \<Rightarrow> nat \<Rightarrow> png_error + nat" where
  "readUInt8 buf off = (if off < length buf then Inr (unat (buf ! off)) else Inl ReadOutOfRange)"

definition readUInt32BE :: "byte list \<Rightarrow> nat \<Rightarrow> png_error + nat" where
  "readUInt32BE buf off =
     (if off + 4 \<le> length buf then
        Inr (unat (buf ! off) * 2 ^ 24 + unat (buf ! (off + 1)) * 2 ^ 16
             + unat (buf ! (off + 2)) * 2 ^ 8 + unat (buf ! (off + 3)))
      else Inl ReadOutOfRange)"

definition subarray :: "byte list \<Rightarrow> nat \<Rightarrow> nat \<Rightarrow> byte list" where
  "subarray buf a b = take (b - a) (drop a buf)"

text \<open>\<open>buf.toString("ascii", a, b)\<close> drops the top bit of each byte.\<close>

definition ascii_slice :: "byte list \<Rightarrow> nat \<Rightarrow> nat \<Rightarrow> jstr" where
  "ascii_slice buf a b = map (\<lambda>w. char_of (unat (w AND 0x7f))) (subarray buf a b)"

definition byte_at :: "byte list \<Rightarrow> nat \<Rightarrow> byte option" where
  "byte_at buf i = (if i < length buf then Some (buf ! i) else None)"

section \<open>The chunk walk\<close>

record png_header =
  hd_width :: nat
  hd_height :: nat
  bitDepth :: nat
  colorType :: nat

definition no_header :: png_header where
  "no_header = \<lparr>hd_width = 0, hd_height = 0, bitDepth = 0, colorType = 0\<rparr>"

definition read_ihdr :: "byte list \<Rightarrow> png_error + png_header" where
  "read_ihdr data =
     (case readUInt32BE data 0 of Inl e \<Rightarrow> Inl e | Inr w \<Rightarrow>
     (case readUInt32BE data 4 of Inl e \<Rightarrow> Inl e | Inr h \<Rightarrow>
     (case readUInt8 data 8 of Inl e \<Rightarrow> Inl e | Inr depth \<Rightarrow>
     (case readUInt8 data 9 of Inl e \<Rightarrow> Inl e | Inr color \<Rightarrow>
     (case readUInt8 data 12 of Inl e \<Rightarrow> Inl e | Inr interlace \<Rightarrow>
        if depth \<noteq> 8 then Inl (UnsupportedDepth depth)
        else if color \<noteq> 2 \<and> color \<noteq> 6 then Inl (UnsupportedColor color)
        else if interlace \<noteq> 0 then Inl Interlaced
        else Inr \<lparr>hd_width = w, hd_height = h, bitDepth = depth, colorType = color\<rparr>)))))"

function chunk_loop :: "byte list \<Rightarrow> nat \<Rightarrow> png_header \<Rightarrow> byte list \<Rightarrow> png_error + (png_header \<times> byte list)" where
  "chunk_loop buf cursor hdr idat =
     (if cursor < length buf then
        (case readUInt32BE buf cursor of
           Inl e \<Rightarrow> Inl e
         | Inr len \<Rightarrow>
            (let ty = ascii_slice buf (cursor + 4) (cursor + 8);
                 data = subarray buf (cursor + 8) (cursor + 8 + len);
                 cursor' = cursor + 8 + len + 4
             in if ty = ''IHDR'' then
                  (case read_ihdr data of Inl e \<Rightarrow> Inl e | Inr hdr' \<Rightarrow> chunk_loop buf cursor' hdr' idat)
                else if ty = ''IDAT'' then chunk_loop buf cursor' hdr (idat @ data)
                else if ty = ''IEND'' then Inr (hdr, idat)
                else chunk_loop buf cursor' hdr idat))
      else Inr (hdr, idat))"
  by pat_completeness auto
termination
  by (relation "measure (\<lambda>(buf, cursor, hdr, idat). length buf - cursor)") auto

declare chunk_loop.simps [simp del]

section \<open>Scanlines\<close>

definition paeth :: "int \<Rightarrow> int \<Rightarrow> int \<Rightarrow> int" where
  "paeth left up upLeft =
     (let p = left + up - upLeft; pa = \<bar>p - left\<bar>; pb = \<bar>p - up\<bar>; pc = \<bar>p - upLeft\<bar>
      in if pa \<le> pb \<and> pa \<le> pc then left else if pb \<le> pc then up else upLeft)"

text \<open>What each filter type adds to the raw byte; \<^const>\<open>None\<close> for a type the decoder does not know.\<close>

definition predictor :: "nat \<Rightarrow> byte \<Rightarrow> byte \<Rightarrow> byte \<Rightarrow> byte option" where
  "predictor f left up upLeft =
     (if f = 0 then Some 0
      else if f = 1 then Some left
      else if f = 2 then Some up
      else if f = 3 then Some (word_of_int ((uint left + uint up) div 2))
      else if f = 4 then Some (word_of_int (paeth (uint left) (uint up) (uint upLeft)))
      else None)"

definition unfilter_byte :: "byte option \<Rightarrow> byte option \<Rightarrow> byte \<Rightarrow> byte \<Rightarrow> byte \<Rightarrow> byte option" where
  "unfilter_byte f raw left up upLeft =
     (case f of None \<Rightarrow> None | Some t \<Rightarrow>
     (case predictor (unat t) left up upLeft of
        None \<Rightarrow> None
      | Some q \<Rightarrow> Some (case raw of None \<Rightarrow> 0 | Some r \<Rightarrow> r + q)))"

definition left_of :: "nat \<Rightarrow> byte list \<Rightarrow> nat \<Rightarrow> byte" where
  "left_of channels row x = (if channels \<le> x then row ! (x - channels) else 0)"

text \<open>One scanline: \<open>row\<close> holds the bytes already written.\<close>

fun unfilter_row :: "nat \<Rightarrow> nat \<Rightarrow> byte option \<Rightarrow> byte list \<Rightarrow> byte option list \<Rightarrow> byte list \<Rightarrow> png_error + byte list" where
  "unfilter_row channels y f prevRow [] row = Inr row"
| "unfilter_row channels y f prevRow (raw # raws) row =
     (case unfilter_byte f raw (left_of channels row (length row)) (prevRow ! length row)
             (left_of channels prevRow (length row)) of
        None \<Rightarrow> Inl (UnknownFilter f y)
      | Some v \<Rightarrow> unfilter_row channels y f prevRow raws (row @ [v]))"

definition expand_pixel :: "nat \<Rightarrow> byte list \<Rightarrow> nat \<Rightarrow> byte list" where
  "expand_pixel channels row x =
     [row ! (x * channels), row ! (x * channels + 1), row ! (x * channels + 2),
      if channels = 4 then row ! (x * channels + 3) else 0xff]"

definition expand_row :: "nat \<Rightarrow> nat \<Rightarrow> byte list \<Rightarrow> byte list" where
  "expand_row channels w row = concat (map (expand_pixel channels row) [0..<w])"

fun decode_rows :: "nat \<Rightarrow> nat \<Rightarrow> byte list \<Rightarrow> nat \<Rightarrow> nat \<Rightarrow> nat \<Rightarrow> byte list \<Rightarrow> png_error + byte list" where
  "decode_rows channels w inflated y 0 srcOffset prevRow = Inr []"
| "decode_rows channels w inflated y (Suc n) srcOffset prevRow =
     (let f = byte_at inflated srcOffset;
          raws = map (\<lambda>x. byte_at inflated (srcOffset + 1 + x)) [0..<w * channels]
      in case unfilter_row channels y f prevRow raws [] of
           Inl e \<Rightarrow> Inl e
         | Inr row \<Rightarrow>
            (case decode_rows channels w inflated (Suc y) n (srcOffset + 1 + w * channels) row of
               Inl e \<Rightarrow> Inl e
             | Inr rest \<Rightarrow> Inr (expand_row channels w row @ rest)))"

definition decodePng :: "(byte list \<Rightarrow> byte list option) \<Rightarrow> byte list \<Rightarrow> png_error + decoded_image" where
  "decodePng inflateSync buf =
     (if take 8 buf \<noteq> PNG_MAGIC then Inl BadMagic
      else case chunk_loop buf 8 no_header [] of
        Inl e \<Rightarrow> Inl e
      | Inr (hdr, idat) \<Rightarrow>
         (case inflateSync idat of
            None \<Rightarrow> Inl InflateFailed
          | Some inflated \<Rightarrow>
             (let channels = (if colorType hdr = 6 then 4 else 3); w = hd_width hdr
              in case decode_rows channels w inflated 0 (hd_height hdr) 0 (replicate (w * channels) 0) of
                   Inl e \<Rightarrow> Inl e
                 | Inr out \<Rightarrow> Inr \<lparr>width = w, height = hd_height hdr, rgba = out\<rparr>)))"

section \<open>The comparison\<close>

text \<open>Command-line numbers: \<open>Number(s)\<close> may be \<open>NaN\<close>, for which every comparison is false, or infinite.\<close>

datatype js_num = NaN | NegInf | Num rat | PosInf

fun js_num_less :: "js_num \<Rightarrow> js_num \<Rightarrow> bool" where
  "js_num_less (Num a) (Num b) = (a < b)"
| "js_num_less NegInf b = (b \<noteq> NaN \<and> b \<noteq> NegInf)"
| "js_num_less a PosInf = (a \<noteq> NaN \<and> a \<noteq> PosInf)"
| "js_num_less _ _ = False"

text \<open>The double nearest to a fraction from 0 to 1, ties to even: the mantissa of \<open>x\<close> between \<open>2^-(k+1)\<close> and \<open>2^-k\<close>
  is the multiple of \<open>2^-(53+k)\<close> nearest to it.  (Quotients of pixel counts are far from the subnormal numbers.)\<close>

definition double_frac :: "rat \<Rightarrow> rat" where
  "double_frac x = (if x = 0 then 0
     else let scale = 2 ^ (53 + ilog2 (nat \<lfloor>1 / x\<rfloor>)) in of_int (round_even (x * scale)) / scale)"

definition channel_diff :: "byte list \<Rightarrow> byte list \<Rightarrow> nat \<Rightarrow> int" where
  "channel_diff a b i = \<bar>uint (a ! i) - uint (b ! i)\<bar>"

definition pixel_differs :: "js_num \<Rightarrow> byte list \<Rightarrow> byte list \<Rightarrow> nat \<Rightarrow> bool" where
  "pixel_differs perChannel a b i =
     (let off = i * 4; over = (\<lambda>k. js_num_less perChannel (Num (of_int (channel_diff a b (off + k)))))
      in over 0 \<or> over 1 \<or> over 2 \<or> over 3)"

definition diffPixels :: "js_num \<Rightarrow> decoded_image \<Rightarrow> decoded_image \<Rightarrow> nat" where
  "diffPixels perChannel a b =
     length (filter (pixel_differs perChannel (rgba a) (rgba b)) [0..<width a * height a])"

record png_options =
  opt_baseline :: jstr
  opt_candidate :: jstr
  threshold :: js_num
  perChannel :: js_num
  quiet :: bool

fun parse_loop ::
  "(jstr \<Rightarrow> js_num) \<Rightarrow> jstr list \<Rightarrow> jstr list \<Rightarrow> js_num \<Rightarrow> js_num \<Rightarrow> bool \<Rightarrow> jstr list \<times> js_num \<times> js_num \<times> bool" where
  "parse_loop toNumber [] pos th pc q = (pos, th, pc, q)"
| "parse_loop toNumber (arg # rest) pos th pc q =
     (if arg = ''--threshold'' then
        (case rest of [] \<Rightarrow> (pos, NaN, pc, q) | v # rest' \<Rightarrow> parse_loop toNumber rest' pos (toNumber v) pc q)
      else if arg = ''--per-channel'' then
        (case rest of [] \<Rightarrow> (pos, th, NaN, q) | v # rest' \<Rightarrow> parse_loop toNumber rest' pos th (toNumber v) q)
      else if arg = ''--quiet'' then parse_loop toNumber rest pos th pc True
      else parse_loop toNumber rest (pos @ [arg]) th pc q)"

text \<open>\<^const>\<open>None\<close>: usage message and exit code 2.\<close>

definition parseArgs :: "(jstr \<Rightarrow> js_num) \<Rightarrow> jstr list \<Rightarrow> png_options option" where
  "parseArgs toNumber argv =
     (case parse_loop toNumber argv [] (Num (double_frac (5 / 100))) (Num 8) False of
        (pos, th, pc, q) \<Rightarrow>
          if length pos \<noteq> 2 then None
          else Some \<lparr>opt_baseline = pos ! 0, opt_candidate = pos ! 1, threshold = th, perChannel = pc, quiet = q\<rparr>)"

datatype png_outcome =
    Usage
  | Crash png_error
  | SizeMismatch "nat \<times> nat" "nat \<times> nat"
  | Compared bool nat nat

definition exit_code :: "png_outcome \<Rightarrow> nat" where
  "exit_code r = (case r of Usage \<Rightarrow> 2 | Crash e \<Rightarrow> 1 | SizeMismatch a b \<Rightarrow> 1 | Compared ok d t \<Rightarrow> if ok then 0 else 1)"

definition diff_fraction :: "nat \<Rightarrow> nat \<Rightarrow> js_num" where
  "diff_fraction d n = (if n = 0 then NaN else Num (double_frac (of_nat d / of_nat n)))"

definition compare_images :: "png_options \<Rightarrow> decoded_image \<Rightarrow> decoded_image \<Rightarrow> png_outcome" where
  "compare_images opts a b =
     (if width a \<noteq> width b \<or> height a \<noteq> height b
      then SizeMismatch (width a, height a) (width b, height b)
      else let n = width a * height a; d = diffPixels (perChannel opts) a b
           in Compared (js_num_less (diff_fraction d n) (threshold opts)) d n)"

definition decode_file ::
  "(byte list \<Rightarrow> byte list option) \<Rightarrow> (jstr \<Rightarrow> byte list option) \<Rightarrow> jstr \<Rightarrow> png_error + decoded_image" where
  "decode_file inflateSync readFile path =
     (case readFile path of None \<Rightarrow> Inl NoSuchFile | Some buf \<Rightarrow> decodePng inflateSync buf)"

definition png_main ::
  "(byte list \<Rightarrow> byte list option) \<Rightarrow> (jstr \<Rightarrow> byte list option) \<Rightarrow> (jstr \<Rightarrow> js_num) \<Rightarrow> jstr list \<Rightarrow> png_outcome" where
  "png_main inflateSync readFile toNumber argv =
     (case parseArgs toNumber argv of
        None \<Rightarrow> Usage
      | Some opts \<Rightarrow>
         (case decode_file inflateSync readFile (opt_baseline opts) of
            Inl e \<Rightarrow> Crash e
          | Inr a \<Rightarrow>
             (case decode_file inflateSync readFile (opt_candidate opts) of
                Inl e \<Rightarrow> Crash e
              | Inr b \<Rightarrow> compare_images opts a b)))"

section \<open>Sizes\<close>

lemma unfilter_row_length:
  "unfilter_row channels y f prevRow raws row = Inr row' \<Longrightarrow> length row' = length row + length raws"
  by (induction channels y f prevRow raws row rule: unfilter_row.induct) (auto split: option.splits)

lemma length_expand_row [simp]: "length (expand_row channels w row) = w * 4"
  by (induction w) (simp_all add: expand_row_def expand_pixel_def)

lemma decode_rows_length:
  "decode_rows channels w inflated y n srcOffset prevRow = Inr out \<Longrightarrow> length out = n * (w * 4)"
  by (induction channels w inflated y n srcOffset prevRow arbitrary: out rule: decode_rows.induct)
     (auto simp: Let_def split: sum.splits)

lemma decodePng_length: "decodePng inflateSync buf = Inr img \<Longrightarrow> length (rgba img) = width img * height img * 4"
  by (auto simp: decodePng_def Let_def dest!: decode_rows_length split: if_splits sum.splits option.splits)

section \<open>The encoder of the PNG specification\<close>

text \<open>The filters as the specification states them: the average in unsigned arithmetic, and the Paeth
  predictor as the first of the left, upper and upper left byte nearest to \<open>left + up - upLeft\<close>.\<close>

definition spec_predictor :: "nat \<Rightarrow> byte \<Rightarrow> byte \<Rightarrow> byte \<Rightarrow> byte" where
  "spec_predictor f left up upLeft =
     (if f = 1 then left else if f = 2 then up
      else if f = 3 then of_nat ((unat left + unat up) div 2)
      else if f = 4 then
        arg_min_list (\<lambda>v. \<bar>int (unat left) + int (unat up) - int (unat upLeft) - int (unat v)\<bar>) [left, up, upLeft]
      else 0)"

definition filter_bytes :: "nat \<Rightarrow> nat \<Rightarrow> byte list \<Rightarrow> byte list \<Rightarrow> byte list" where
  "filter_bytes channels f prevRow row =
     map (\<lambda>x. row ! x - spec_predictor f (left_of channels row x) (prevRow ! x) (left_of channels prevRow x))
         [0..<length row]"

fun encode_rows :: "nat \<Rightarrow> byte list \<Rightarrow> (nat \<times> byte list) list \<Rightarrow> byte list" where
  "encode_rows channels prevRow [] = []"
| "encode_rows channels prevRow ((f, row) # rows) =
     of_nat f # filter_bytes channels f prevRow row @ encode_rows channels row rows"

definition u32be :: "nat \<Rightarrow> byte list" where
  "u32be n = [of_nat (n div 2 ^ 24), of_nat (n div 2 ^ 16), of_nat (n div 2 ^ 8), of_nat n]"

definition ascii_bytes :: "jstr \<Rightarrow> byte list" where
  "ascii_bytes s = map (\<lambda>c. of_nat (of_char c)) s"

definition png_chunk :: "jstr \<Rightarrow> byte list \<Rightarrow> byte list \<Rightarrow> byte list" where
  "png_chunk ty data crc = u32be (length data) @ ascii_bytes ty @ data @ crc"

definition ihdr_data :: "nat \<Rightarrow> nat \<Rightarrow> nat \<Rightarrow> byte list" where
  "ihdr_data w h color = u32be w @ u32be h @ [8, of_nat color, 0, 0, 0]"

definition idat_chunks :: "(byte list \<times> byte list) list \<Rightarrow> byte list" where
  "idat_chunks parts = concat (map (\<lambda>(d, crc). png_chunk ''IDAT'' d crc) parts)"

definition png_file :: "nat \<Rightarrow> nat \<Rightarrow> nat \<Rightarrow> (byte list \<times> byte list) list \<Rightarrow> byte list \<Rightarrow> byte list \<Rightarrow> byte list" where
  "png_file w h color parts crc1 crc2 =
     PNG_MAGIC @ png_chunk ''IHDR'' (ihdr_data w h color) crc1 @ idat_chunks parts @ png_chunk ''IEND'' [] crc2"

lemma paeth_nearest:
  "word_of_int (paeth (uint a) (uint b) (uint c)) = spec_predictor 4 a b c"
  by (simp add: spec_predictor_def paeth_def Let_def)

lemma predictor_spec:
  assumes "f \<le> 4"
  shows "predictor f a b c = Some (spec_predictor f a b c)"
proof -
  have "int ((unat a + unat b) div 2) = (uint a + uint b) div 2" by (simp add: zdiv_int)
  then have avg: "word_of_int ((uint a + uint b) div 2) = (of_nat ((unat a + unat b) div 2) :: byte)"
    by (metis of_int_of_nat_eq)
  from assms consider "f = 0" | "f = 1" | "f = 2" | "f = 3" | "f = 4" by linarith
  then show ?thesis
    by cases (simp_all add: predictor_def avg paeth_nearest, simp_all add: spec_predictor_def)
qed

lemma filter_type_byte: "f \<le> 4 \<Longrightarrow> unat (of_nat f :: byte) = f"
  by (simp add: unat_of_nat)

lemma length_filter_bytes [simp]: "length (filter_bytes channels f prevRow row) = length row"
  by (simp add: filter_bytes_def)

lemma left_of_take: "0 < channels \<Longrightarrow> n < length row \<Longrightarrow> left_of channels (take n row) n = left_of channels row n"
  by (simp add: left_of_def)

text \<open>Unfiltering inverts filtering, from any position of the line on.\<close>

lemma unfilter_filter_from:
  assumes "0 < channels" and "f \<le> 4" and "n \<le> length row"
  shows "unfilter_row channels y (Some (of_nat f)) prevRow
           (map Some (drop n (filter_bytes channels f prevRow row))) (take n row) = Inr row"
  using assms(3)
proof (induction "length row - n" arbitrary: n)
  case 0
  then show ?case by simp
next
  case (Suc k)
  then have n: "n < length row" by simp
  obtain q where q: "predictor f (left_of channels row n) (prevRow ! n) (left_of channels prevRow n) = Some q"
    and sq: "spec_predictor f (left_of channels row n) (prevRow ! n) (left_of channels prevRow n) = q"
    using predictor_spec [OF assms(2)] by blast
  let ?fb = "filter_bytes channels f prevRow row"
  have nth: "?fb ! n = row ! n - q" using n sq by (simp add: filter_bytes_def)
  have "drop n ?fb = ?fb ! n # drop (Suc n) ?fb" using n by (simp add: Cons_nth_drop_Suc)
  moreover have "unfilter_byte (Some (of_nat f)) (Some (row ! n - q)) (left_of channels (take n row) n)
      (prevRow ! n) (left_of channels prevRow n) = Some (row ! n)"
    using q n assms(1,2) by (simp add: unfilter_byte_def filter_type_byte left_of_take)
  ultimately have "unfilter_row channels y (Some (of_nat f)) prevRow (map Some (drop n ?fb)) (take n row)
      = unfilter_row channels y (Some (of_nat f)) prevRow (map Some (drop (Suc n) ?fb)) (take n row @ [row ! n])"
    using n nth by simp
  also have "take n row @ [row ! n] = take (Suc n) row" using n by (simp add: take_Suc_conv_app_nth)
  also have "unfilter_row channels y (Some (of_nat f)) prevRow (map Some (drop (Suc n) ?fb)) (take (Suc n) row) = Inr row"
    using Suc n by (intro Suc.hyps(1)) auto
  finally show ?case .
qed

lemma unfilter_filter:
  "0 < channels \<Longrightarrow> f \<le> 4 \<Longrightarrow>
   unfilter_row channels y (Some (of_nat f)) prevRow (map Some (filter_bytes channels f prevRow row)) [] = Inr row"
  using unfilter_filter_from [of channels f 0 row y prevRow] by simp

lemma byte_at_append: "byte_at (pre @ x # post) (length pre) = Some x"
  by (simp add: byte_at_def)

lemma map_byte_at:
  "map (\<lambda>x. byte_at (pre @ xs @ post) (length pre + x)) [0..<length xs] = map Some xs"
  by (rule nth_equalityI) (auto simp: byte_at_def nth_append)

lemma decode_encode_rows:
  assumes "0 < channels" and "\<And>f row. (f, row) \<in> set rows \<Longrightarrow> f \<le> 4 \<and> length row = w * channels"
  shows "decode_rows channels w (pre @ encode_rows channels prevRow rows) y (length rows) (length pre) prevRow
       = Inr (concat (map (\<lambda>(f, row). expand_row channels w row) rows))"
  using assms(2)
proof (induction rows arbitrary: pre prevRow y)
  case Nil
  then show ?case by simp
next
  case (Cons fr rows)
  obtain f row where fr: "fr = (f, row)" by force
  with Cons.prems have f: "f \<le> 4" and len: "length row = w * channels" by auto
  let ?fb = "filter_bytes channels f prevRow row"
  let ?buf = "pre @ of_nat f # ?fb @ encode_rows channels row rows"
  have "map (\<lambda>x. byte_at ?buf (length pre + 1 + x)) [0..<w * channels] = map Some ?fb"
    using map_byte_at [of "pre @ [of_nat f]" ?fb "encode_rows channels row rows"] len by simp
  moreover have "decode_rows channels w ?buf (Suc y) (length rows) (length pre + 1 + w * channels) row
      = Inr (concat (map (\<lambda>(f, row). expand_row channels w row) rows))"
  proof -
    have "\<And>f row. (f, row) \<in> set rows \<Longrightarrow> f \<le> 4 \<and> length row = w * channels"
      by (rule Cons.prems) simp
    from Cons.IH [OF this, of "pre @ of_nat f # ?fb" row "Suc y"] show ?thesis using len by simp
  qed
  ultimately show ?case
    using unfilter_filter [OF assms(1) f] by (simp add: fr byte_at_append Let_def)
qed

section \<open>Reading an encoded file back\<close>

lemma unat_byte: "unat (of_nat n :: byte) = n mod 256"
  by (simp add: unat_of_nat)

lemma u32be_digits:
  fixes n :: nat
  shows "n div 16777216 * 16777216 + n div 65536 mod 256 * 65536 + n div 256 mod 256 * 256 + n mod 256 = n"
proof -
  define q r where "q = n div 256" and "r = n mod 256"
  define q2 r2 where "q2 = q div 256" and "r2 = q mod 256"
  define q3 r3 where "q3 = q2 div 256" and "r3 = q2 mod 256"
  have n: "n = q * 256 + r" "q = q2 * 256 + r2" "q2 = q3 * 256 + r3"
    by (simp_all add: q_def r_def q2_def r2_def q3_def r3_def)
  have "n div 65536 = q2" "n div 16777216 = q3"
    by (simp_all add: q_def q2_def q3_def flip: div_mult2_eq)
  moreover have "n mod 256 = r" "n div 256 = q" "q mod 256 = r2" "q2 mod 256 = r3"
    by (simp_all add: q_def r_def r2_def r3_def)
  moreover have "q3 * 16777216 + r3 * 65536 + r2 * 256 + r = n" using n by linarith
  ultimately show ?thesis by (simp only:)
qed

lemma read_u32be:
  assumes "n < 2 ^ 32"
  shows "readUInt32BE (pre @ u32be n @ post) (length pre) = Inr n"
proof -
  have "n div 16777216 mod 256 = n div 16777216" using assms by simp
  then show ?thesis
    using u32be_digits [of n] by (simp add: readUInt32BE_def u32be_def nth_append unat_byte)
qed

lemma ascii_slice_bytes:
  assumes "list_all (\<lambda>c. of_char c < (128 :: nat)) ty" and "length ty = 4"
  shows "ascii_slice (pre @ ascii_bytes ty @ post) (length pre) (length pre + 4) = ty"
proof -
  have "char_of (unat ((of_nat (of_char c) :: byte) AND 0x7f)) = c" if "of_char c < (128 :: nat)" for c
  proof -
    have "(of_nat (of_char c) :: byte) AND 0x7f = take_bit 7 (of_nat (of_char c))"
      by (simp add: take_bit_eq_mask mask_eq_decr_exp)
    also have "\<dots> = of_nat (take_bit 7 (of_char c))" by (simp add: take_bit_of_nat)
    also have "take_bit 7 (of_char c) = (of_char c :: nat)" using that by (simp add: take_bit_nat_eq_self_iff)
    finally show ?thesis using that by (simp add: unat_byte)
  qed
  with assms(1) have "map (\<lambda>w. char_of (unat (w AND 0x7f))) (ascii_bytes ty) = ty"
    by (induction ty) (auto simp: ascii_bytes_def)
  moreover have "length (ascii_bytes ty) = 4" using assms(2) by (simp add: ascii_bytes_def)
  ultimately show ?thesis by (simp add: ascii_slice_def subarray_def)
qed


lemma length_u32be [simp]: "length (u32be n) = 4"
  by (simp add: u32be_def)

lemma length_ascii_bytes [simp]: "length (ascii_bytes ty) = length ty"
  by (simp add: ascii_bytes_def)

lemma subarray_append: "subarray (pre @ data @ post) (length pre) (length pre + length data) = data"
  by (simp add: subarray_def)

text \<open>One turn of the walk over a well-formed chunk.\<close>

lemma chunk_loop_chunk:
  assumes "list_all (\<lambda>c. of_char c < (128 :: nat)) ty" and "length ty = 4"
    and "length data < 2 ^ 32" and "length crc = 4"
    and buf: "buf = pre @ png_chunk ty data crc @ post"
  shows "chunk_loop buf (length pre) hdr idat =
     (if ty = ''IHDR'' then
        (case read_ihdr data of Inl e \<Rightarrow> Inl e
         | Inr hdr' \<Rightarrow> chunk_loop buf (length (pre @ png_chunk ty data crc)) hdr' idat)
      else if ty = ''IDAT'' then chunk_loop buf (length (pre @ png_chunk ty data crc)) hdr (idat @ data)
      else if ty = ''IEND'' then Inr (hdr, idat)
      else chunk_loop buf (length (pre @ png_chunk ty data crc)) hdr idat)"
proof -
  have r: "readUInt32BE buf (length pre) = Inr (length data)"
    using read_u32be [OF assms(3), of pre "ascii_bytes ty @ data @ crc @ post"] by (simp add: buf png_chunk_def)
  have t: "ascii_slice buf (length pre + 4) (length pre + 8) = ty"
    using ascii_slice_bytes [OF assms(1,2), of "pre @ u32be (length data)" "data @ crc @ post"]
    by (simp add: buf png_chunk_def add.commute)
  have d: "subarray buf (length pre + 8) (length pre + 8 + length data) = data"
    using subarray_append [of "pre @ u32be (length data) @ ascii_bytes ty" data "crc @ post"] assms(2)
    by (simp add: buf png_chunk_def add.assoc)
  have c: "length (pre @ png_chunk ty data crc) = length pre + 8 + length data + 4"
    using assms(2,4) by (simp add: png_chunk_def)
  have "length pre < length buf" by (simp add: buf png_chunk_def)
  then show ?thesis
    by (subst chunk_loop.simps) (simp only: r t d c if_True Let_def sum.case)
qed

lemma chunk_loop_idat:
  assumes "\<And>d crc. (d, crc) \<in> set parts \<Longrightarrow> length d < 2 ^ 32 \<and> length crc = 4"
  shows "chunk_loop (pre @ idat_chunks parts @ post) (length pre) hdr idat
       = chunk_loop (pre @ idat_chunks parts @ post) (length (pre @ idat_chunks parts)) hdr (idat @ concat (map fst parts))"
  using assms
proof (induction parts arbitrary: pre idat)
  case Nil
  then show ?case by (simp add: idat_chunks_def)
next
  case (Cons p parts)
  obtain d crc where p: "p = (d, crc)" by force
  with Cons.prems have "length d < 2 ^ 32" "length crc = 4" by auto
  then have "chunk_loop (pre @ idat_chunks (p # parts) @ post) (length pre) hdr idat
      = chunk_loop (pre @ idat_chunks (p # parts) @ post) (length (pre @ png_chunk ''IDAT'' d crc)) hdr (idat @ d)"
    by (subst chunk_loop_chunk [of "''IDAT''" d crc _ pre "idat_chunks parts @ post"])
       (auto simp: p idat_chunks_def)
  moreover have "\<And>d crc. (d, crc) \<in> set parts \<Longrightarrow> length d < 2 ^ 32 \<and> length crc = 4"
    by (rule Cons.prems) simp
  ultimately show ?case
    using Cons.IH [of "pre @ png_chunk ''IDAT'' d crc" "idat @ d"] by (simp add: p idat_chunks_def)
qed

lemma read_ihdr_data:
  assumes "w < 2 ^ 32" and "h < 2 ^ 32" and "color = 2 \<or> color = 6"
  shows "read_ihdr (ihdr_data w h color) = Inr \<lparr>hd_width = w, hd_height = h, bitDepth = 8, colorType = color\<rparr>"
proof -
  have "readUInt32BE (ihdr_data w h color) 0 = Inr w"
    using read_u32be [OF assms(1), of "[]"] by (simp add: ihdr_data_def)
  moreover have "readUInt32BE (ihdr_data w h color) 4 = Inr h"
    using read_u32be [OF assms(2), of "u32be w"] by (simp add: ihdr_data_def)
  moreover have "readUInt8 (ihdr_data w h color) 8 = Inr 8" "readUInt8 (ihdr_data w h color) 9 = Inr color"
    "readUInt8 (ihdr_data w h color) 12 = Inr 0"
    using assms(3) by (auto simp: readUInt8_def ihdr_data_def nth_append)
  ultimately show ?thesis using assms(3) by (simp add: read_ihdr_def)
qed

text \<open>The walk collects the header and the concatenated data of a well-formed file.\<close>

lemma chunk_loop_png_file:
  assumes "w < 2 ^ 32" and "h < 2 ^ 32" and "color = 2 \<or> color = 6"
    and "\<And>d crc. (d, crc) \<in> set parts \<Longrightarrow> length d < 2 ^ 32 \<and> length crc = 4"
    and "length crc1 = 4" and "length crc2 = 4"
  shows "chunk_loop (png_file w h color parts crc1 crc2) 8 no_header []
       = Inr (\<lparr>hd_width = w, hd_height = h, bitDepth = 8, colorType = color\<rparr>, concat (map fst parts))"
proof -
  let ?ihdr = "png_chunk ''IHDR'' (ihdr_data w h color) crc1" and ?iend = "png_chunk ''IEND'' [] crc2"
  let ?buf = "png_file w h color parts crc1 crc2"
  let ?hdr = "\<lparr>hd_width = w, hd_height = h, bitDepth = 8, colorType = color\<rparr>"
  have len: "length (ihdr_data w h color) < 2 ^ 32" by (simp add: ihdr_data_def)
  have "chunk_loop ?buf (length PNG_MAGIC) no_header [] = chunk_loop ?buf (length (PNG_MAGIC @ ?ihdr)) ?hdr []"
    using read_ihdr_data [OF assms(1,2,3)]
      chunk_loop_chunk [OF _ _ len assms(5), of "''IHDR''" ?buf PNG_MAGIC "idat_chunks parts @ ?iend"]
    by (simp add: png_file_def)
  also have "\<dots> = chunk_loop ?buf (length ((PNG_MAGIC @ ?ihdr) @ idat_chunks parts)) ?hdr (concat (map fst parts))"
    using chunk_loop_idat [OF assms(4), of parts "PNG_MAGIC @ ?ihdr" ?iend ?hdr "[]"] by (simp add: png_file_def)
  also have "\<dots> = Inr (?hdr, concat (map fst parts))"
    by (subst chunk_loop_chunk [of "''IEND''" "[]" crc2 _ _ "[]"]) (simp_all add: png_file_def assms(6))
  finally show ?thesis by (simp add: PNG_MAGIC_def eval_nat_numeral)
qed

section \<open>Properties of the decoder\<close>

text \<open>C35.
  Round trip of the decoder: a file with the PNG signature, an \<open>IHDR\<close> chunk, any split of the
  compressed stream over \<open>IDAT\<close> chunks and an \<open>IEND\<close> chunk decodes to the pixels of the scanlines it
  encodes, for both supported colour types and every choice of the five filter types per line,
  whenever \<open>inflateSync\<close> inflates the joined stream to the filtered scanlines.
\<close>

theorem decodePng_encoded_file:
  assumes "w < 2 ^ 32" and "length rows < 2 ^ 32" and "color = 2 \<or> color = 6"
    and "channels = (if color = 6 then 4 else 3)"
    and "\<And>f row. (f, row) \<in> set rows \<Longrightarrow> f \<le> 4 \<and> length row = w * channels"
    and "\<And>d crc. (d, crc) \<in> set parts \<Longrightarrow> length d < 2 ^ 32 \<and> length crc = 4"
    and "length crc1 = 4" and "length crc2 = 4"
    and "inflateSync (concat (map fst parts)) = Some (encode_rows channels (replicate (w * channels) 0) rows)"
  shows "decodePng inflateSync (png_file w (length rows) color parts crc1 crc2)
       = Inr \<lparr>width = w, height = length rows, rgba = concat (map (\<lambda>(f, row). expand_row channels w row) rows)\<rparr>"
proof -
  have "take 8 (png_file w (length rows) color parts crc1 crc2) = PNG_MAGIC"
    by (simp add: png_file_def PNG_MAGIC_def)
  moreover have "0 < channels" using assms(4) by simp
  ultimately show ?thesis
    using chunk_loop_png_file [OF assms(1,2,3,6,7,8)]
      decode_encode_rows [of channels rows w "[]" "replicate (w * channels) 0" 0] assms(4,5,9)
    by (simp add: decodePng_def Let_def)
qed

lemma encode_rows_sample:
  "encode_rows 4 (replicate 8 0) [(4, [1, 2, 3, 4, 10, 11, 12, 13]), (2, [2, 3, 4, 5, 11, 12, 13, 14])]
   = [4, 1, 2, 3, 4, 9, 9, 9, 9, 2, 1, 1, 1, 1, 1, 1, 1, 1]"
  by code_simp

lemma expand_rows_sample:
  "concat (map (\<lambda>(f, row). expand_row 4 2 row) [(4 :: nat, [1, 2, 3, 4, 10, 11, 12, 13]), (2, [2, 3, 4, 5, 11, 12, 13, 14])])
   = [1, 2, 3, 4, 10, 11, 12, 13, 2, 3, 4, 5, 11, 12, 13, 14]"
  by code_simp

lemma decodePng_encoded_file_witness:
  "decodePng Some (png_file 2 2 6 [([4, 1, 2, 3], [0, 0, 0, 0]), ([4, 9, 9, 9, 9, 2, 1, 1, 1, 1, 1, 1, 1, 1], [0, 0, 0, 0])]
     [0, 0, 0, 0] [0, 0, 0, 0])
   = Inr \<lparr>width = 2, height = 2, rgba = [1, 2, 3, 4, 10, 11, 12, 13, 2, 3, 4, 5, 11, 12, 13, 14]\<rparr>"
proof -
  let ?rows = "[(4 :: nat, [1, 2, 3, 4, 10, 11, 12, 13 :: byte]), (2, [2, 3, 4, 5, 11, 12, 13, 14])]"
  let ?parts = "[([4, 1, 2, 3], [0, 0, 0, 0]), ([4, 9, 9, 9, 9, 2, 1, 1, 1, 1, 1, 1, 1, 1], [0, 0, 0, 0])]"
  have "decodePng Some (png_file 2 (length ?rows) 6 ?parts [0, 0, 0, 0] [0, 0, 0, 0])
      = Inr \<lparr>width = 2, height = length ?rows, rgba = concat (map (\<lambda>(f, row). expand_row 4 2 row) ?rows)\<rparr>"
  proof (rule decodePng_encoded_file)
    show "Some (concat (map fst ?parts)) = Some (encode_rows 4 (replicate (2 * 4) 0) ?rows)"
      using encode_rows_sample by simp
  qed auto
  then show ?thesis unfolding expand_rows_sample by (simp flip: numeral_2_eq_2)
qed

section \<open>Properties of the comparison\<close>

lemma channel_diff_commute: "channel_diff a b i = channel_diff b a i"
  by (simp add: channel_diff_def abs_minus_commute)

lemma pixel_differs_commute: "pixel_differs pc a b = pixel_differs pc b a"
  by (rule ext) (simp add: pixel_differs_def Let_def channel_diff_commute [of b])

lemma pixel_differs_self: "\<not> js_num_less pc (Num 0) \<Longrightarrow> \<not> pixel_differs pc a a i"
  by (simp add: pixel_differs_def channel_diff_def Let_def)

lemma pixel_differs_antitone:
  "p \<le> q \<Longrightarrow> pixel_differs (Num q) a b i \<Longrightarrow> pixel_differs (Num p) a b i"
  by (auto simp: pixel_differs_def Let_def)

lemma length_filter_mono: "(\<And>x. P x \<Longrightarrow> Q x) \<Longrightarrow> length (filter P xs) \<le> length (filter Q xs)"
  by (induction xs) (auto simp: le_SucI)

text \<open>
  The pixel count of the gate is symmetric in the two images of a comparison, is at most the number
  of pixels, is zero for an image against itself when the tolerance is not negative, and can only fall
  when the tolerance rises.
\<close>

theorem diffPixels_laws:
  assumes "width a = width b" and "height a = height b" and "0 \<le> p" and "p \<le> q"
  shows "diffPixels (Num p) a b = diffPixels (Num p) b a \<and> diffPixels (Num p) a b \<le> width a * height a
    \<and> diffPixels (Num p) a a = 0 \<and> diffPixels (Num q) a b \<le> diffPixels (Num p) a b"
proof (intro conjI)
  show "diffPixels (Num p) a b = diffPixels (Num p) b a"
    using assms(1,2) by (simp add: diffPixels_def pixel_differs_commute [of _ "rgba b"])
  show "diffPixels (Num p) a b \<le> width a * height a"
    using length_filter_le [of "pixel_differs (Num p) (rgba a) (rgba b)" "[0..<width a * height a]"]
    by (simp add: diffPixels_def)
  show "diffPixels (Num p) a a = 0"
    using assms(3) by (simp add: diffPixels_def pixel_differs_self)
  show "diffPixels (Num q) a b \<le> diffPixels (Num p) a b"
    unfolding diffPixels_def by (rule length_filter_mono) (rule pixel_differs_antitone [OF assms(4)])
qed

lemma diffPixels_laws_witness:
  "diffPixels (Num 20) \<lparr>width = 1, height = 1, rgba = [9, 0, 0, 255]\<rparr> \<lparr>width = 1, height = 1, rgba = [0, 0, 0, 255]\<rparr>
   \<le> diffPixels (Num 8) \<lparr>width = 1, height = 1, rgba = [9, 0, 0, 255]\<rparr> \<lparr>width = 1, height = 1, rgba = [0, 0, 0, 255]\<rparr>
   \<and> diffPixels (Num 8) \<lparr>width = 1, height = 1, rgba = [9, 0, 0, 255]\<rparr> \<lparr>width = 1, height = 1, rgba = [0, 0, 0, 255]\<rparr> = 1"
  using diffPixels_laws [of "\<lparr>width = 1, height = 1, rgba = [9, 0, 0, 255]\<rparr>" "\<lparr>width = 1, height = 1, rgba = [0, 0, 0, 255]\<rparr>" 8 20]
  by (simp add: diffPixels_def pixel_differs_def channel_diff_def)

section \<open>Rounding of the share\<close>

lemma ilog2_less: "n < 2 ^ Suc (ilog2 n)"
proof (induction n rule: ilog2.induct)
  case (1 n)
  then show ?case by (cases "n \<le> 1") (simp_all add: ilog2.simps [of n])
qed

lemma round_even_mono: "x \<le> y \<Longrightarrow> round_even x \<le> round_even y"
proof -
  assume "x \<le> y"
  then have "\<lfloor>x\<rfloor> \<le> \<lfloor>y\<rfloor>" by (rule floor_mono)
  then consider "\<lfloor>x\<rfloor> = \<lfloor>y\<rfloor>" | "\<lfloor>x\<rfloor> + 1 \<le> \<lfloor>y\<rfloor>" by linarith
  then show ?thesis
  proof cases
    case 1
    then show ?thesis using \<open>x \<le> y\<close> by (auto simp: round_even_def Let_def)
  next
    case 2
    then show ?thesis by (auto simp: round_even_def Let_def)
  qed
qed

lemma round_even_int: "round_even (of_int k) = k"
  by (simp add: round_even_def)

lemma inverse_power_bounds:
  assumes "0 < x" "x \<le> (1 :: rat)"
  shows "1 < x * 2 ^ Suc (ilog2 (nat \<lfloor>1 / x\<rfloor>))" and "x * 2 ^ ilog2 (nat \<lfloor>1 / x\<rfloor>) \<le> 1"
proof -
  define n where "n = nat \<lfloor>1 / x\<rfloor>"
  have "1 \<le> \<lfloor>1 / x\<rfloor>" using assms by (simp add: le_floor_iff)
  then have n: "1 \<le> n" "(of_nat n :: rat) = of_int \<lfloor>1 / x\<rfloor>" by (auto simp add: n_def le_nat_iff simp del: one_le_floor)
  have "of_nat (2 ^ ilog2 n) \<le> (of_nat n :: rat)" using ilog2_le [OF n(1)] by (rule of_nat_mono)
  also have "\<dots> \<le> 1 / x" unfolding n(2) by (rule of_int_floor_le)
  finally have "2 ^ ilog2 n \<le> 1 / x" by simp
  then show "x * 2 ^ ilog2 (nat \<lfloor>1 / x\<rfloor>) \<le> 1" unfolding n_def [symmetric] using assms(1) by (simp add: field_simps)
  have "Suc n \<le> 2 ^ Suc (ilog2 n)" using ilog2_less [of n] by simp
  then have "of_nat (Suc n) \<le> (of_nat (2 ^ Suc (ilog2 n)) :: rat)" by (rule of_nat_mono)
  moreover have "1 / x < of_nat (Suc n)" using n(2) floor_correct [of "1 / x"] by simp
  ultimately have "1 / x < 2 ^ Suc (ilog2 n)" by simp
  then show "1 < x * 2 ^ Suc (ilog2 (nat \<lfloor>1 / x\<rfloor>))" unfolding n_def [symmetric] using assms(1) by (simp add: field_simps)
qed

text \<open>The rounded share is off by at most one part in \<open>2^53\<close>.\<close>

lemma double_frac_near:
  assumes "0 \<le> x" "x \<le> 1"
  shows "\<bar>double_frac x - x\<bar> \<le> x / 2 ^ 53"
proof (cases "x = 0")
  case False
  define e where "e = ilog2 (nat \<lfloor>1 / x\<rfloor>)"
  define scale :: rat where "scale = 2 ^ (53 + e)"
  have pos: "0 < scale" by (simp add: scale_def)
  have b: "1 < x * 2 ^ Suc e" unfolding e_def by (rule inverse_power_bounds) (use assms False in auto)
  have "double_frac x - x = (of_int (round_even (x * scale)) - x * scale) / scale"
    using False pos by (simp add: double_frac_def Let_def scale_def e_def diff_divide_distrib)
  then have "\<bar>double_frac x - x\<bar> = \<bar>of_int (round_even (x * scale)) - x * scale\<bar> / scale" using pos by simp
  also have "\<dots> \<le> (1 / 2) / scale" by (rule divide_right_mono [OF round_even_near]) (use pos in simp)
  also have "\<dots> = 1 / 2 ^ Suc e / 2 ^ 53" by (simp add: scale_def power_add)
  also have "\<dots> \<le> x / 2 ^ 53" using b by (intro divide_right_mono) (simp_all add: field_simps)
  finally show ?thesis .
qed (simp add: double_frac_def)

lemma double_frac_mono:
  assumes "0 \<le> x" "x \<le> y" "y \<le> 1"
  shows "double_frac x \<le> double_frac y"
proof (cases "x = 0")
  case True
  have "y / 2 ^ 53 \<le> y" using assms by (simp add: divide_le_eq)
  then show ?thesis using double_frac_near [of y] assms True by (simp add: double_frac_def abs_if split: if_splits)
next
  case False
  define d e where "d = ilog2 (nat \<lfloor>1 / x\<rfloor>)" and "e = ilog2 (nat \<lfloor>1 / y\<rfloor>)"
  have x: "0 < x" "x \<le> 1" and y: "0 < y" "y \<le> 1" using assms False by auto
  have fl: "double_frac x = of_int (round_even (x * 2 ^ (53 + d))) / 2 ^ (53 + d)"
    "double_frac y = of_int (round_even (y * 2 ^ (53 + e))) / 2 ^ (53 + e)"
    using x y by (simp_all add: double_frac_def Let_def d_def e_def)
  have bx: "x * 2 ^ d \<le> 1" "1 < x * 2 ^ Suc d" and yb: "y * 2 ^ e \<le> 1" "1 < y * 2 ^ Suc e"
    unfolding d_def e_def by (rule inverse_power_bounds [OF x] inverse_power_bounds [OF y])+
  show ?thesis
  proof (cases "d = e")
    case True
    have "round_even (x * 2 ^ (53 + e)) \<le> round_even (y * 2 ^ (53 + e))" using assms(2) by (intro round_even_mono) simp
    then show ?thesis unfolding fl True by (intro divide_right_mono) simp_all
  next
    case False
    have "x * 2 ^ (53 + d) \<le> of_int (2 ^ 53)" using bx(1) by (simp add: power_add)
    then have "round_even (x * 2 ^ (53 + d)) \<le> 2 ^ 53" using round_even_mono round_even_int by metis
    then have "double_frac x \<le> of_int (2 ^ 53) / 2 ^ (53 + d)" unfolding fl by (intro divide_right_mono) (simp_all only: of_int_le_iff, simp)
    also have "\<dots> = 1 / 2 ^ d" by (simp add: power_add)
    also have "\<dots> \<le> 1 / 2 ^ Suc e"
    proof -
      have "e < d"
      proof (rule ccontr)
        assume "\<not> e < d"
        with False have "Suc d \<le> e" by simp
        then have "(2 :: rat) ^ Suc d \<le> 2 ^ e" by (intro power_increasing) simp_all
        then have "x * 2 ^ Suc d \<le> y * 2 ^ e" using assms x by (intro mult_mono) simp_all
        then show False using bx(2) yb(1) by linarith
      qed
      then have "(2 :: rat) ^ Suc e \<le> 2 ^ d" by (intro power_increasing) simp_all
      then show ?thesis by (simp add: field_simps)
    qed
    also have "\<dots> = of_int (2 ^ 52) / 2 ^ (53 + e)" by (simp add: power_add)
    also have "\<dots> \<le> double_frac y"
    proof -
      have "of_int (2 ^ 52) \<le> y * 2 ^ (53 + e)" using yb(2) by (simp add: power_add)
      then have "2 ^ 52 \<le> round_even (y * 2 ^ (53 + e))" using round_even_mono round_even_int by metis
      then show ?thesis unfolding fl by (intro divide_right_mono) (simp_all only: of_int_le_iff, simp)
    qed
    finally show ?thesis .
  qed
qed

text \<open>What it means that two images differ at a place: one of the four channels is further apart than the
  tolerance allows.  The places are counted by their coordinates.\<close>

definition channel_at :: "decoded_image \<Rightarrow> nat \<Rightarrow> nat \<Rightarrow> nat \<Rightarrow> int" where
  "channel_at img x y k = uint (rgba img ! (4 * (y * width img + x) + k))"

definition apart :: "js_num \<Rightarrow> int \<Rightarrow> int \<Rightarrow> bool" where
  "apart tol u v \<longleftrightarrow> tol = NegInf \<or> (\<exists>p. tol = Num p \<and> p < of_int \<bar>u - v\<bar>)"

definition differing_places :: "js_num \<Rightarrow> decoded_image \<Rightarrow> decoded_image \<Rightarrow> (nat \<times> nat) set" where
  "differing_places tol a b = {(x, y). x < width a \<and> y < height a \<and> (\<exists>k < 4. apart tol (channel_at a x y k) (channel_at b x y k))}"

lemma ex_less_4: "(\<exists>k < 4. P k) \<longleftrightarrow> P 0 \<or> P 1 \<or> P 2 \<or> P (3 :: nat)"
proof -
  have "{k. k < 4} = {0, 1, 2, 3 :: nat}" by auto
  then show ?thesis by (metis (no_types, lifting) insert_iff mem_Collect_eq singletonD)
qed

lemma pixel_differs_iff:
  assumes "width a = width b"
  shows "pixel_differs tol (rgba a) (rgba b) (y * width a + x)
    \<longleftrightarrow> (\<exists>k < 4. apart tol (channel_at a x y k) (channel_at b x y k))"
proof -
  have "js_num_less tol (Num (of_int (channel_diff (rgba a) (rgba b) (i + k)))) \<longleftrightarrow> apart tol (uint (rgba a ! (i + k))) (uint (rgba b ! (i + k)))" for i k
    by (cases tol) (simp_all add: apart_def channel_diff_def)
  note over = this [of "y * width b * 4 + x * 4"]
  show ?thesis using over [of 0] over [of 1] over [of 2] over [of 3]
    by (simp add: pixel_differs_def Let_def ex_less_4 channel_at_def assms algebra_simps)
qed

lemma diffPixels_counts:
  assumes "width a = width b"
  shows "diffPixels tol a b = card (differing_places tol a b)"
proof -
  let ?f = "\<lambda>(x, y). y * width a + x"
  have in_f: "?f ` differing_places tol a b = {i. i < width a * height a \<and> pixel_differs tol (rgba a) (rgba b) i}"
  proof (intro set_eqI iffI)
    fix i
    assume "i \<in> ?f ` differing_places tol a b"
    then obtain x y where xy: "x < width a" "y < height a" "i = y * width a + x" "pixel_differs tol (rgba a) (rgba b) i"
      using pixel_differs_iff [OF assms] by (auto simp: differing_places_def)
    have "y * width a + x < Suc y * width a" using xy(1) by simp
    also have "\<dots> \<le> height a * width a" using xy(2) by (intro mult_right_mono) simp_all
    finally show "i \<in> {i. i < width a * height a \<and> pixel_differs tol (rgba a) (rgba b) i}" using xy(3,4) by (simp add: mult.commute)
  next
    fix i
    assume i: "i \<in> {i. i < width a * height a \<and> pixel_differs tol (rgba a) (rgba b) i}"
    then have "0 < width a" by (cases "width a") auto
    then have "(i mod width a, i div width a) \<in> differing_places tol a b"
      using i pixel_differs_iff [OF assms, of tol "i div width a" "i mod width a"]
      by (simp add: differing_places_def less_mult_imp_div_less mult.commute)
    then show "i \<in> ?f ` differing_places tol a b" by (rule rev_image_eqI) simp
  qed
  have "inj_on ?f (differing_places tol a b)"
  proof (rule inj_onI)
    fix p q
    assume "p \<in> differing_places tol a b" "q \<in> differing_places tol a b" "?f p = ?f q"
    then obtain x y x' y' where pq: "p = (x, y)" "q = (x', y')" "x < width a" "x' < width a" "y * width a + x = y' * width a + x'"
      by (auto simp: differing_places_def)
    have "(v * width a + u) mod width a = u \<and> (v * width a + u) div width a = v" if "u < width a" for u v
      using that by simp
    then show "p = q" using pq by metis
  qed
  then have "card (differing_places tol a b) = card {i. i < width a * height a \<and> pixel_differs tol (rgba a) (rgba b) i}"
    unfolding in_f [symmetric] by (rule card_image [symmetric])
  then show ?thesis unfolding diffPixels_def by (simp add: length_filter_conv_card cong: conj_cong)
qed

definition pixel_share :: "js_num \<Rightarrow> decoded_image \<Rightarrow> decoded_image \<Rightarrow> rat" where
  "pixel_share tol a b = of_nat (card (differing_places tol a b)) / of_nat (width a * height a)"

lemma compared_ok_iff:
  assumes "width a = width b"
  shows "js_num_less (diff_fraction (diffPixels tol a b) (width a * height a)) th
    \<longleftrightarrow> 0 < width a * height a \<and> (th = PosInf \<or> (\<exists>t. th = Num t \<and> double_frac (pixel_share tol a b) < t))"
  by (cases th) (simp_all add: diff_fraction_def pixel_share_def diffPixels_counts [OF assms])

lemma compare_images_passes:
  "exit_code (compare_images opts a b) = 0 \<longleftrightarrow> width a = width b \<and> height a = height b \<and> 0 < width a * height a
     \<and> (threshold opts = PosInf \<or> (\<exists>t. threshold opts = Num t \<and> double_frac (pixel_share (perChannel opts) a b) < t))"
proof (cases "width a = width b \<and> height a = height b")
  case True
  then show ?thesis using compared_ok_iff [of a b "perChannel opts" "threshold opts"]
    by (simp add: compare_images_def exit_code_def Let_def)
qed (auto simp: compare_images_def exit_code_def)

lemma pixel_share_bounds: "0 \<le> pixel_share tol a b \<and> pixel_share tol a b \<le> 1"
proof -
  have "card (differing_places tol a b) \<le> card ({..<width a} \<times> {..<height a})"
    by (intro card_mono) (auto simp: differing_places_def)
  then have "(of_nat (card (differing_places tol a b)) :: rat) \<le> of_nat (width a * height a)"
    by (intro of_nat_mono) (simp add: card_cartesian_product)
  then show ?thesis by (cases "width a * height a = 0") (simp_all add: pixel_share_def divide_le_eq_1 del: of_nat_mult)
qed

text \<open>C36.
  The gate reports success exactly when the arguments parse, both files decode, the two images have
  the same size and at least one pixel, and the share of the places where they differ, rounded to a double, is below
  the threshold; a place differs when any of its four channels is further apart than the tolerance.  An infinite threshold
  accepts every such pair.  A missing file, an undecodable image, a size mismatch, an empty image or
  a threshold that is no number all give a non-zero exit code.  The rounding moves the share by at most one part in
  \<open>2^53\<close>, and it never lets a share pass that is not below the number the threshold was rounded from.
\<close>

theorem gate_passes_iff:
  "(exit_code (png_main inflateSync readFile toNumber argv) = 0 \<longleftrightarrow>
     (\<exists>opts a b. parseArgs toNumber argv = Some opts
        \<and> decode_file inflateSync readFile (opt_baseline opts) = Inr a
        \<and> decode_file inflateSync readFile (opt_candidate opts) = Inr b
        \<and> width a = width b \<and> height a = height b \<and> 0 < width a * height a
        \<and> (threshold opts = PosInf
            \<or> (\<exists>t. threshold opts = Num t \<and> double_frac (pixel_share (perChannel opts) a b) < t))))
   \<and> (\<forall>tol a b. \<bar>double_frac (pixel_share tol a b) - pixel_share tol a b\<bar> \<le> pixel_share tol a b / 2 ^ 53)
   \<and> (\<nexists>tol a b t. 0 \<le> t \<and> t \<le> pixel_share tol a b \<and> double_frac (pixel_share tol a b) < double_frac t)"
proof (intro conjI allI)
  show "exit_code (png_main inflateSync readFile toNumber argv) = 0 \<longleftrightarrow>
     (\<exists>opts a b. parseArgs toNumber argv = Some opts
        \<and> decode_file inflateSync readFile (opt_baseline opts) = Inr a
        \<and> decode_file inflateSync readFile (opt_candidate opts) = Inr b
        \<and> width a = width b \<and> height a = height b \<and> 0 < width a * height a
        \<and> (threshold opts = PosInf
            \<or> (\<exists>t. threshold opts = Num t \<and> double_frac (pixel_share (perChannel opts) a b) < t)))"
    by (cases "parseArgs toNumber argv"; cases "decode_file inflateSync readFile (opt_baseline (the (parseArgs toNumber argv)))";
        cases "decode_file inflateSync readFile (opt_candidate (the (parseArgs toNumber argv)))")
      (simp_all add: png_main_def compare_images_passes, simp_all add: exit_code_def)
  show "\<bar>double_frac (pixel_share tol a b) - pixel_share tol a b\<bar> \<le> pixel_share tol a b / 2 ^ 53" for tol a b
    using double_frac_near pixel_share_bounds by blast
  show "\<nexists>tol a b t. 0 \<le> t \<and> t \<le> pixel_share tol a b \<and> double_frac (pixel_share tol a b) < double_frac t"
    using double_frac_mono pixel_share_bounds by (meson leD)
qed

end
