(* ===== verification/Fixture_Data.thy ===== *)
theory Fixture_Data
  imports Prelude
begin

text \<open>
  What the pages rely on in the data they are given, as interfaces: rows that carry their own identifier
  (React keys, selection, updates by identifier) and rows that name a row of another list.  The fixtures of
  \<open>apps/web/src/_mocks\<close>, which the gateway client answers with in mock mode, interpret them in the theories
  \<open>*_Fixtures\<close>.
\<close>

section \<open>Rows with an identifier\<close>

locale keyed_data =
  fixes key :: "'a \<Rightarrow> 'k" and xs :: "'a list"
  assumes distinct_keys: "distinct (map key xs)"
begin

lemma key_inj: "x \<in> set xs \<Longrightarrow> y \<in> set xs \<Longrightarrow> key x = key y \<Longrightarrow> x = y"
  using distinct_keys by (auto simp: distinct_map dest: inj_onD)

lemma find_own: "x \<in> set xs \<Longrightarrow> find (\<lambda>y. key y = key x) xs = Some x"
  using distinct_keys by (induction xs) (auto simp: image_iff)

end

section \<open>Rows that name a row of another list\<close>

locale resolved_refs = keyed_data key targets
  for key :: "'a \<Rightarrow> 'k" and targets :: "'a list" +
  fixes ref :: "'r \<Rightarrow> 'k" and rows :: "'r list"
  assumes refs_known: "r \<in> set rows \<Longrightarrow> ref r \<in> key ` set targets"
begin

lemma resolves: "r \<in> set rows \<Longrightarrow> \<exists>t \<in> set targets. find (\<lambda>t. key t = ref r) targets = Some t \<and> key t = ref r"
  using refs_known find_own by force

lemma resolves_unique:
  "r \<in> set rows \<Longrightarrow> t \<in> set targets \<Longrightarrow> key t = ref r \<Longrightarrow> find (\<lambda>t. key t = ref r) targets = Some t"
  using find_own by force

end

end
