(* ===== verification/Inbox_Fixtures.thy ===== *)
theory Inbox_Fixtures
  imports Inbox_Page Fixture_Data
begin

text \<open>
  The fixtures of the Inbox page (\<open>apps/web/src/_mocks/inbox.ts\<close>): twenty items with their drafts, safety notes and
  histories.
\<close>

definition inbox_i01 :: item where
  "inbox_i01 = \<lparr>item_id = ''i01'', item_status = Awaiting, item_title = ''Reply to Marcus Yi about the Riverbend purchase order'',
    item_source = SEmail, item_risk = Medium, minutesAgo = 2,
    item_summary = ''Confirms quantity and pushes pickup to Friday at 9am.'',
    item_cause = ''Marcus has been waiting 14 hours and the draft passed tone + accuracy checks.'',
    routedBy = ''Inbox triage'', unread = True,
    item_draft = Some (EmailDraft \<lparr>em_from = ''adam@eastside.co'', em_to = ''marcus@riverbend.co'', em_cc = None,
    em_subject = (''Re: Riverbend PO '' @ [CHR 0xE2, CHR 0x80, CHR 0x94] @ '' pickup window''),
    em_body = [''Hi Marcus,'',
        (''Confirmed on the 240 units. We'' @ [CHR 0x27] @ ''ll have everything palletized for a Friday 9am pickup at the Eastside dock '' @ [CHR 0xE2, CHR 0x80, CHR 0x94] @ '' your driver can ask for Sam at the gate.''),
        (''I'' @ [CHR 0x27] @ ''ve attached the updated PO and the COI you asked about. Let me know if you need anything else before Friday.''),
        ([CHR 0xE2, CHR 0x80, CHR 0x94] @ '' Adam'')]\<rparr>),
    item_safety = \<lparr>can = [''Send to known contact'', ''Attach approved PO file''],
    cannot = [''Add new recipients'', ''Change PO amount''], needsApproval = [''Any external send''],
    stopsIf = [''Recipient domain changes'', ''Attachment differs from PO record'']\<rparr>,
    item_audit = [\<lparr>at_time = ([CHR 0xE2, CHR 0x80, CHR 0x94] @ ''14h''), actor = ''Marcus Yi (riverbend.co)'',
    note_text = ''Inbound: asked about pickup window.''\<rparr>,
        \<lparr>at_time = ([CHR 0xE2, CHR 0x80, CHR 0x94] @ ''12h''), actor = ''Inbox triage'',
    note_text = ''Classified as PO follow-up (97% conf).''\<rparr>,
        \<lparr>at_time = ([CHR 0xE2, CHR 0x80, CHR 0x94] @ ''9m''), actor = ''Drafting'',
    note_text = ''Composed reply against template R-04.''\<rparr>,
        \<lparr>at_time = ([CHR 0xE2, CHR 0x80, CHR 0x94] @ ''2m''), actor = ''Tone check'',
    note_text = (''Passed '' @ [CHR 0xE2, CHR 0x80, CHR 0x94] @ '' neutral, factual.'')\<rparr>]\<rparr>"

definition inbox_i02 :: item where
  "inbox_i02 = \<lparr>item_id = ''i02'', item_status = Awaiting, item_title = ''Move customer review with Sandra to Thursday 2pm'',
    item_source = SCalendar, item_risk = Medium, minutesAgo = 11,
    item_summary = ''Both calendars are clear Thursday afternoon. Conference room A is held.'',
    item_cause = ''Customer-touching reschedules always need your approval, even when calendars align.'',
    routedBy = ''Calendar'', unread = True,
    item_draft = Some (CalendarDraft \<lparr>cal_invite = (''Quarterly review '' @ [CHR 0xE2, CHR 0x80, CHR 0x94] @ '' Sandra Lopez '' @ [CHR 0xC3, CHR 0x97] @ '' Eastside''),
    cal_when = (''Thu, May 14 '' @ [CHR 0xC2, CHR 0xB7] @ '' 2:00 '' @ [CHR 0xE2, CHR 0x80, CHR 0x93] @ '' 3:00 PM PT''),
    cal_where = (''Conference Room A '' @ [CHR 0xC2, CHR 0xB7] @ '' video link auto-attached''),
    cal_attendees = [''Adam Stern (you)'', ''Sandra Lopez (Riverbend)'', ''Priya N.'', ''Marcus Yi (Riverbend)''],
    cal_description = (''Move from Wed 11am at Sandra'' @ [CHR 0x27] @ ''s request. Agenda unchanged: Q2 utilization, renewal scope, Riverbend dock changeover.'')\<rparr>),
    item_safety = \<lparr>can = [''Move internal slots'', ''Hold a new room''],
    cannot = [''Add new attendees'', ''Move into a focus block''], needsApproval = [''Any customer reschedule''],
    stopsIf = [(''Customer hasn'' @ [CHR 0x27] @ ''t acknowledged the move'')]\<rparr>,
    item_audit = [\<lparr>at_time = ([CHR 0xE2, CHR 0x80, CHR 0x94] @ ''42m''), actor = ''Sandra Lopez'',
    note_text = ''Emailed asking to move (conflict on her side).''\<rparr>,
        \<lparr>at_time = ([CHR 0xE2, CHR 0x80, CHR 0x94] @ ''30m''), actor = ''Inbox triage'',
    note_text = ''Routed to Calendar (94% conf).''\<rparr>,
        \<lparr>at_time = ([CHR 0xE2, CHR 0x80, CHR 0x94] @ ''11m''), actor = ''Calendar'',
    note_text = ''Found common slot Thu 2pm; held Room A.''\<rparr>]\<rparr>"

definition inbox_i03 :: item where
  "inbox_i03 = \<lparr>item_id = ''i03'', item_status = Awaiting, item_title = ''Approve outbound wire instructions for Trent & Co'',
    item_source = SEmail, item_risk = High, minutesAgo = 18,
    item_summary = (''Reply to Trent'' @ [CHR 0x27] @ ''s AP team with the routing details from the signed MSA.''),
    item_cause = ''Anything touching wire instructions always needs you, even on routine sends.'',
    routedBy = ''Inbox triage'', unread = True,
    item_draft = Some (EmailDraft \<lparr>em_from = ''adam@eastside.co'', em_to = ''ap@trentandco.com'', em_cc = None,
    em_subject = ''Re: Wire instructions for PO-8821'', em_body = [''Hi Asha,'',
        ''Per the signed MSA, please use the routing details on the attached W-9 + bank letter. Routing/Account on the letter is canonical.'',
        (''If anything differs from what'' @ [CHR 0x27] @ ''s printed there, please stop and call me at the number in my signature.''),
        ([CHR 0xE2, CHR 0x80, CHR 0x94] @ '' Adam'')]\<rparr>),
    item_safety = \<lparr>can = [''Re-send attachments already on file''],
    cannot = [''Type wire details in body'', ''Change recipient domain''],
    needsApproval = [''Any wire-instruction email''],
    stopsIf = [''A new bank letter is detected'', (''Recipient hasn'' @ [CHR 0x27] @ ''t been verified by voice'')]\<rparr>,
    item_audit = [\<lparr>at_time = ([CHR 0xE2, CHR 0x80, CHR 0x94] @ ''3h''), actor = ''Asha (trentandco.com)'',
    note_text = ''Inbound: requested wire details.''\<rparr>,
        \<lparr>at_time = ([CHR 0xE2, CHR 0x80, CHR 0x94] @ ''2h''), actor = ''Inbox triage'',
    note_text = ''Classified high-risk: wire-adjacent.''\<rparr>,
        \<lparr>at_time = ([CHR 0xE2, CHR 0x80, CHR 0x94] @ ''18m''), actor = ''Drafting'',
    note_text = ''Composed safe reply pointing to canonical doc.''\<rparr>]\<rparr>"

definition inbox_i04 :: item where
  "inbox_i04 = \<lparr>item_id = ''i04'', item_status = Awaiting,
    item_title = (''Acknowledge Stripe dispute on charge_3PqQzN'' @ [CHR 0xE2, CHR 0x80, CHR 0xA6]),
    item_source = SWebhook, item_risk = Low, minutesAgo = 24,
    item_summary = ''Open the dispute, attach the proof-of-delivery PDF, submit evidence.'',
    item_cause = ''Disputes always come here so you can see the customer and amount before responding.'',
    routedBy = ''Operations'', unread = False,
    item_draft = Some (WebhookDraft \<lparr>wh_endpoint = ''POST /v1/disputes/dp_1NaC9k/close'', wh_method = POST,
    wh_fields = [(''evidence.product_description'', ''Riverbend uniform order, lot 24-118''),
        (''evidence.receipt'', ''rcpt_2KkLM (attached)''),
        (''evidence.shipping_documentation'', ''POD-24-118.pdf (attached)''),
        (''submit'', ''true'')]\<rparr>),
    item_safety = \<lparr>can = [''Attach files already in this case'', ''Submit evidence''],
    cannot = [''Issue a refund'', ''Contact the customer directly''],
    needsApproval = [''Submitting dispute evidence''],
    stopsIf = [''Stripe webhook signature fails'', ''Case status changes mid-flight'']\<rparr>,
    item_audit = [\<lparr>at_time = ([CHR 0xE2, CHR 0x80, CHR 0x94] @ ''1d''), actor = ''Stripe'',
    note_text = ''Dispute opened (reason: product_not_received).''\<rparr>,
        \<lparr>at_time = ([CHR 0xE2, CHR 0x80, CHR 0x94] @ ''28m''), actor = ''Operations'',
    note_text = ''Matched dispute to PO-24-118.''\<rparr>,
        \<lparr>at_time = ([CHR 0xE2, CHR 0x80, CHR 0x94] @ ''24m''), actor = ''Drafting'',
    note_text = ''Composed evidence bundle.''\<rparr>]\<rparr>"

definition inbox_i05 :: item where
  "inbox_i05 = \<lparr>item_id = ''i05'', item_status = Awaiting, item_title = ''Reply on ops chat about staging deploy window'',
    item_source = STelegram, item_risk = Low, minutesAgo = 31,
    item_summary = (''Confirm the deploy window for tonight (10pm'' @ [CHR 0xE2, CHR 0x80, CHR 0x93] @ ''11pm PT).''),
    item_cause = ''Cross-team scheduling reads as low-risk but should still be your call.'', routedBy = ''Operations'',
    unread = False,
    item_draft = Some (TelegramDraft \<lparr>tg_chat = (''Eastside '' @ [CHR 0xC2, CHR 0xB7] @ '' #ops''),
    tg_reply_to = (''Priya N. '' @ [CHR 0xE2, CHR 0x80, CHR 0x94] @ '' '' @ [CHR 0x27] @ ''Are we still good for staging at 10?'' @ [CHR 0x27]),
    tg_body = (''Yes '' @ [CHR 0xE2, CHR 0x80, CHR 0x94] @ '' window is 10:00'' @ [CHR 0xE2, CHR 0x80, CHR 0x93] @ ''11:00 PT tonight. I'' @ [CHR 0x27] @ ''ll hold off the digest cron until 11:15. Ping if anything in CI changes.'')\<rparr>),
    item_safety = \<lparr>can = [''Reply in approved channels'', ''Tag operator on call''], cannot = [''DM customers'', ''Send files''],
    needsApproval = [''Replies that touch deploy timing''],
    stopsIf = [''Channel becomes archived'', ''Tone check fails'']\<rparr>,
    item_audit = [\<lparr>at_time = ([CHR 0xE2, CHR 0x80, CHR 0x94] @ ''45m''), actor = ''Priya N.'',
    note_text = ''Asked about deploy window.''\<rparr>,
        \<lparr>at_time = ([CHR 0xE2, CHR 0x80, CHR 0x94] @ ''31m''), actor = ''Drafting'',
    note_text = ''Composed concise confirmation.''\<rparr>]\<rparr>"

definition inbox_i06 :: item where
  "inbox_i06 = \<lparr>item_id = ''i06'', item_status = Awaiting, item_title = ''Send weekly status to the Riverbend team'',
    item_source = SEmail, item_risk = Low, minutesAgo = 42,
    item_summary = (''Standing Monday digest '' @ [CHR 0xE2, CHR 0x80, CHR 0x94] @ '' template, recipients, send window all match.''),
    item_cause = (''It'' @ [CHR 0x27] @ ''s the regular cadence send, but the recipient list grew by one this week.''),
    routedBy = ''Drafting'', unread = False,
    item_draft = Some (EmailDraft \<lparr>em_from = ''adam@eastside.co'', em_to = ''team@riverbend.co'', em_cc = Some ''sandra@riverbend.co'',
    em_subject = (''Eastside '' @ [CHR 0xC3, CHR 0x97] @ '' Riverbend '' @ [CHR 0xE2, CHR 0x80, CHR 0x94] @ '' weekly status, May 11''),
    em_body = [''Hi all,'',
        ''Three updates this week:'',
        ''1) Dock changeover stays on track for May 22.'',
        ''2) Lot 24-118 shipped Friday; POD attached for AP.'',
        (''3) Q3 forecast looks within '' @ [CHR 0xC2, CHR 0xB1] @ ''4% of plan.''),
        (''Holler if anything'' @ [CHR 0x27] @ ''s off.''),
        ([CHR 0xE2, CHR 0x80, CHR 0x94] @ '' Adam'')]\<rparr>),
    item_safety = \<lparr>can = [''Send to addresses on the standing list''], cannot = [''Add anyone not on the standing list''],
    needsApproval = [''First send after a recipient-list change''],
    stopsIf = [''Body diverges materially from template'']\<rparr>,
    item_audit = [\<lparr>at_time = ([CHR 0xE2, CHR 0x80, CHR 0x94] @ ''2d''), actor = ''Standing rule'',
    note_text = ''Recipient list updated: +sandra@.''\<rparr>,
        \<lparr>at_time = ([CHR 0xE2, CHR 0x80, CHR 0x94] @ ''42m''), actor = ''Drafting'',
    note_text = ''Composed week-of-May-11 digest.''\<rparr>]\<rparr>"

definition inbox_i07 :: item where
  "inbox_i07 = \<lparr>item_id = ''i07'', item_status = Awaiting, item_title = ''Cancel the offsite so Q3 close stays clear'',
    item_source = SCalendar, item_risk = High, minutesAgo = 58,
    item_summary = (''Two people on close-team are on the offsite '' @ [CHR 0xE2, CHR 0x80, CHR 0x94] @ '' pulls focus.''),
    item_cause = ''Mass-cancel of an event with 14 invitees is always your call.'', routedBy = ''Calendar'',
    unread = False,
    item_draft = Some (CalendarDraft \<lparr>cal_invite = (''[CANCELLED] Q3 offsite '' @ [CHR 0xE2, CHR 0x80, CHR 0x94] @ '' Tahoe''),
    cal_when = (''Jun 23'' @ [CHR 0xE2, CHR 0x80, CHR 0x93] @ ''25 '' @ [CHR 0xC2, CHR 0xB7] @ '' all day''),
    cal_where = (''Tahoe '' @ [CHR 0xE2, CHR 0x80, CHR 0x94] @ '' Granlibakken''), cal_attendees = [''14 invitees''],
    cal_description = (''Two close-team members in attendance. Suggested: reschedule to Jul 14'' @ [CHR 0xE2, CHR 0x80, CHR 0x93] @ ''16 after Q3 close is filed.'')\<rparr>),
    item_safety = \<lparr>can = [''Send polite cancellation note''], cannot = [(''Cancel events you don'' @ [CHR 0x27] @ ''t own'')],
    needsApproval = [(''Mass cancel ('' @ [CHR 0xE2, CHR 0x89, CHR 0xA5] @ ''5 invitees)'')],
    stopsIf = [''Any invitee has booked travel'']\<rparr>,
    item_audit = [\<lparr>at_time = ([CHR 0xE2, CHR 0x80, CHR 0x94] @ ''3h''), actor = ''Calendar'',
    note_text = ''Conflict detected with Q3 close window.''\<rparr>,
        \<lparr>at_time = ([CHR 0xE2, CHR 0x80, CHR 0x94] @ ''58m''), actor = ''Calendar'',
    note_text = ''Proposed cancel + reschedule.''\<rparr>]\<rparr>"

definition inbox_i08 :: item where
  "inbox_i08 = \<lparr>item_id = ''i08'', item_status = Awaiting, item_title = ''Send NDA file to onboarding intake at Halford'',
    item_source = SEmail, item_risk = Low, minutesAgo = 76,
    item_summary = (''Halford asked for the standard mutual NDA '' @ [CHR 0xE2, CHR 0x80, CHR 0x94] @ '' file is the canonical one.''),
    item_cause = (''First send to halford.io '' @ [CHR 0xE2, CHR 0x80, CHR 0x94] @ '' domain isn'' @ [CHR 0x27] @ ''t on the standing allow-list yet.''),
    routedBy = ''Drafting'', unread = False,
    item_draft = Some (EmailDraft \<lparr>em_from = ''adam@eastside.co'', em_to = ''intake@halford.io'', em_cc = None,
    em_subject = (''Mutual NDA '' @ [CHR 0xE2, CHR 0x80, CHR 0x94] @ '' Eastside''), em_body = [''Hi team,'',
        (''Attached is our mutual NDA. Pre-signed by us. If your form requires changes, send a redline and I'' @ [CHR 0x27] @ ''ll route it.''),
        ([CHR 0xE2, CHR 0x80, CHR 0x94] @ '' Adam'')]\<rparr>),
    item_safety = \<lparr>can = [''Send canonical NDA''], cannot = [''Send pre-signed contracts other than NDA''],
    needsApproval = [''First send to a new domain''], stopsIf = [''File hash differs from canonical'']\<rparr>,
    item_audit = [\<lparr>at_time = ([CHR 0xE2, CHR 0x80, CHR 0x94] @ ''2h''), actor = ''Halford intake'',
    note_text = ''Requested NDA via webform.''\<rparr>,
        \<lparr>at_time = ([CHR 0xE2, CHR 0x80, CHR 0x94] @ ''76m''), actor = ''Drafting'',
    note_text = ''Composed standard NDA send.''\<rparr>]\<rparr>"

definition inbox_i09 :: item where
  "inbox_i09 = \<lparr>item_id = ''i09'', item_status = Drafted, item_title = ''Drafting: Q3 carbon credit purchase to Riverbend'',
    item_source = SEmail, item_risk = Medium, minutesAgo = 6,
    item_summary = (''Half-written '' @ [CHR 0xE2, CHR 0x80, CHR 0x94] @ '' pricing pulled from this morning'' @ [CHR 0x27] @ ''s Bloomberg index.''),
    item_cause = ''Pricing moved 11% overnight; the draft needs your eye before it goes to ready.'',
    routedBy = ''Drafting'', unread = True,
    item_draft = Some (EmailDraft \<lparr>em_from = ''adam@eastside.co'', em_to = ''sandra@riverbend.co'', em_cc = None,
    em_subject = (''Carbon credit allocation '' @ [CHR 0xE2, CHR 0x80, CHR 0x94] @ '' Q3''),
    em_body = [''Hi Sandra,'',
        ''Quick heads-up before the call: spot moved to $89.40 this morning, up 11% on the three-month range.'',
        (''[DRAFT '' @ [CHR 0xE2, CHR 0x80, CHR 0x94] @ '' pricing block needs your acknowledgement before I close this out.]'')]\<rparr>),
    item_safety = \<lparr>can = [''Draft in private'', ''Pull from Bloomberg index''], cannot = [''Send without you acknowledging price''],
    needsApproval = [''Any purchase email''], stopsIf = [''Price moves another 5% before send'']\<rparr>,
    item_audit = [\<lparr>at_time = ([CHR 0xE2, CHR 0x80, CHR 0x94] @ ''1h''), actor = ''Research'',
    note_text = ''Published: carbon spot +11%.''\<rparr>,
        \<lparr>at_time = ([CHR 0xE2, CHR 0x80, CHR 0x94] @ ''6m''), actor = ''Drafting'',
    note_text = ''Started reply; price block stubbed.''\<rparr>]\<rparr>"

definition inbox_i10 :: item where
  "inbox_i10 = \<lparr>item_id = ''i10'', item_status = Drafted, item_title = ''Drafting: thank-you note to Sandra Lopez'',
    item_source = SEmail, item_risk = Low, minutesAgo = 14,
    item_summary = ''Short note for the customer-review prep call yesterday.'',
    item_cause = ''Personal-tone notes are surfaced so you can sign in your own voice.'', routedBy = ''Drafting'',
    unread = False,
    item_draft = Some (EmailDraft \<lparr>em_from = ''adam@eastside.co'', em_to = ''sandra@riverbend.co'', em_cc = None, em_subject = ''Yesterday'',
    em_body = [''Sandra,'',
        ''Genuinely appreciated you walking through the inventory hand-off yesterday. The detail on the dock crew made the difference.'',
        (''[DRAFT '' @ [CHR 0xE2, CHR 0x80, CHR 0x94] @ '' add the line about her dad'' @ [CHR 0x27] @ ''s surgery? Up to you.]'')]\<rparr>),
    item_safety = \<lparr>can = [''Draft personal notes''], cannot = [''Send without you reading it''],
    needsApproval = [''Personal-tone external sends''], stopsIf = [''Tone reads as generic / templated'']\<rparr>,
    item_audit = [\<lparr>at_time = ([CHR 0xE2, CHR 0x80, CHR 0x94] @ ''1d''), actor = ''Calendar'', note_text = ''Logged the prep call.''\<rparr>,
        \<lparr>at_time = ([CHR 0xE2, CHR 0x80, CHR 0x94] @ ''14m''), actor = ''Drafting'',
    note_text = ''Composed thank-you draft.''\<rparr>]\<rparr>"

definition inbox_i11 :: item where
  "inbox_i11 = \<lparr>item_id = ''i11'', item_status = Drafted, item_title = ''Drafting: Monday all-hands re-route'',
    item_source = SCalendar, item_risk = Medium, minutesAgo = 25,
    item_summary = (''Moves all-hands to Tuesday 11am '' @ [CHR 0xE2, CHR 0x80, CHR 0x94] @ '' most attendees free, two are not.''),
    item_cause = ''All-hands moves always hit you; the conflict count is non-zero.'', routedBy = ''Calendar'',
    unread = False,
    item_draft = Some (CalendarDraft \<lparr>cal_invite = (''Eastside all-hands '' @ [CHR 0xE2, CHR 0x80, CHR 0x94] @ '' weekly''),
    cal_when = (''Tue, May 12 '' @ [CHR 0xC2, CHR 0xB7] @ '' 11:00 '' @ [CHR 0xE2, CHR 0x80, CHR 0x93] @ '' 11:45 AM PT (was Mon 10am)''),
    cal_where = ''Conference Room A + video'', cal_attendees = [''Org-wide (47)''],
    cal_description = ''Move to clear Monday for Q3 close. Two attendees have conflicts: Priya (1:1) and Sam (off-site). Optional invite or async update for both.''\<rparr>),
    item_safety = \<lparr>can = [''Move recurring all-hands once''], cannot = [''Move into focus blocks''],
    needsApproval = [''Any all-hands move''], stopsIf = [''More than 3 hard conflicts'']\<rparr>,
    item_audit = [\<lparr>at_time = ([CHR 0xE2, CHR 0x80, CHR 0x94] @ ''1h''), actor = ''Operations'',
    note_text = ''Flagged Monday close-day conflict.''\<rparr>,
        \<lparr>at_time = ([CHR 0xE2, CHR 0x80, CHR 0x94] @ ''25m''), actor = ''Calendar'',
    note_text = ''Composed re-route draft.''\<rparr>]\<rparr>"

definition inbox_i12 :: item where
  "inbox_i12 = \<lparr>item_id = ''i12'', item_status = Drafted, item_title = ''Drafting: termination notice for vendor Yates Holdings'',
    item_source = SEmail, item_risk = High, minutesAgo = 38,
    item_summary = (''Sensitive '' @ [CHR 0xE2, CHR 0x80, CHR 0x94] @ '' legal pre-reviewed phrasing, awaiting your final read.''),
    item_cause = ''All vendor terminations are sensitive enough to hold for your final word.'',
    routedBy = ''Drafting'', unread = False,
    item_draft = Some (EmailDraft \<lparr>em_from = ''adam@eastside.co'', em_to = ''ops@yatesholdings.com'', em_cc = Some ''legal@eastside.co'',
    em_subject = (''Notice of termination '' @ [CHR 0xE2, CHR 0x80, CHR 0x94] @ '' MSA dated 2023-11''),
    em_body = [''To whom it may concern,'',
        ''Per Section 12.2 of the master services agreement dated 2023-11, Eastside is terminating the MSA for cause, effective 30 days from receipt of this notice.'',
        (''[DRAFT '' @ [CHR 0xE2, CHR 0x80, CHR 0x94] @ '' legal phrasing pre-reviewed. Awaiting your final read.]'')]\<rparr>),
    item_safety = \<lparr>can = [''Compose against legal-reviewed template''], cannot = [''Send without your read''],
    needsApproval = [''Any termination notice''], stopsIf = [''Counterparty contact has changed'']\<rparr>,
    item_audit = [\<lparr>at_time = ([CHR 0xE2, CHR 0x80, CHR 0x94] @ ''2d''), actor = ''Legal'',
    note_text = ''Reviewed template; no further changes.''\<rparr>,
        \<lparr>at_time = ([CHR 0xE2, CHR 0x80, CHR 0x94] @ ''38m''), actor = ''Drafting'',
    note_text = ''Composed termination notice.''\<rparr>]\<rparr>"

definition inbox_i13 :: item where
  "inbox_i13 = \<lparr>item_id = ''i13'', item_status = Drafted, item_title = ''Drafting: end-of-day status for ops chat'',
    item_source = STelegram, item_risk = Low, minutesAgo = 47,
    item_summary = (''Auto-compiled from today'' @ [CHR 0x27] @ ''s CI / heartbeat / inbox events.''),
    item_cause = ''End-of-day status is held for a quick edit before posting.'', routedBy = ''Drafting'',
    unread = False,
    item_draft = Some (TelegramDraft \<lparr>tg_chat = (''Eastside '' @ [CHR 0xC2, CHR 0xB7] @ '' #ops''), tg_reply_to = ''(new message)'',
    tg_body = (''EOD status '' @ [CHR 0xE2, CHR 0x80, CHR 0x94] @ '' CI: green (47 builds). Heartbeat: healthy, 18/19 systems. Inbox: 3 awaiting, 0 blocked. Deploy window 10'' @ [CHR 0xE2, CHR 0x80, CHR 0x93] @ ''11pm PT. PSA: research-index rebuild finishes by 9pm.'')\<rparr>),
    item_safety = \<lparr>can = [''Post EOD status to #ops''], cannot = [''@everyone tags'', ''Repost into customer channels''],
    needsApproval = [''EOD status when blocked > 0''], stopsIf = [''Heartbeat goes red before post'']\<rparr>,
    item_audit = [\<lparr>at_time = ([CHR 0xE2, CHR 0x80, CHR 0x94] @ ''1h''), actor = ''Operations'',
    note_text = (''Compiled today'' @ [CHR 0x27] @ ''s signal bundle.'')\<rparr>,
        \<lparr>at_time = ([CHR 0xE2, CHR 0x80, CHR 0x94] @ ''47m''), actor = ''Drafting'', note_text = ''Composed status draft.''\<rparr>]\<rparr>"

definition inbox_i14 :: item where
  "inbox_i14 = \<lparr>item_id = ''i14'', item_status = Held, item_title = ''Held: defensive-toned reply to legal@oldcompany'',
    item_source = SEmail, item_risk = High, minutesAgo = 73,
    item_summary = ''Tone check flagged the original draft as defensive; isolated until you read it.'',
    item_cause = ''Two of three reviewers wanted softer language. Held so nothing went out.'',
    routedBy = ''Inbox triage'', unread = True,
    item_draft = Some (EmailDraft \<lparr>em_from = ''adam@eastside.co'', em_to = ''legal@oldcompany.com'', em_cc = None,
    em_subject = (''Re: contract amendment '' @ [CHR 0xE2, CHR 0x80, CHR 0x94] @ '' pushback''),
    em_body = [(''[Held draft '' @ [CHR 0xE2, CHR 0x80, CHR 0x94] @ '' original tone flagged. A softer rewrite is queued below.]''),
        (''Hi '' @ [CHR 0xE2, CHR 0x80, CHR 0x94]),
        (''We'' @ [CHR 0x27] @ ''re not in a position to accept the indemnification language as written; the scope reads broader than the underlying engagement. Happy to walk through what we can sign.''),
        ([CHR 0xE2, CHR 0x80, CHR 0x94] @ '' Adam'')]\<rparr>),
    item_safety = \<lparr>can = [''Hold a draft until operator reads it''], cannot = [''Send a draft that failed tone check''],
    needsApproval = [''Releasing a held draft''], stopsIf = [''Tone check still fails on re-write'']\<rparr>,
    item_audit = [\<lparr>at_time = ([CHR 0xE2, CHR 0x80, CHR 0x94] @ ''4h''), actor = ''oldcompany.com'',
    note_text = ''Inbound: contract amendment.''\<rparr>,
        \<lparr>at_time = ([CHR 0xE2, CHR 0x80, CHR 0x94] @ ''2h''), actor = ''Inbox triage'',
    note_text = ''Composed first reply.''\<rparr>,
        \<lparr>at_time = ([CHR 0xE2, CHR 0x80, CHR 0x94] @ ''73m''), actor = ''Tone check'',
    note_text = ''Flagged as defensive (score 0.34).''\<rparr>,
        \<lparr>at_time = ([CHR 0xE2, CHR 0x80, CHR 0x94] @ ''73m''), actor = ''Inbox triage'',
    note_text = ''Held draft for your review.''\<rparr>]\<rparr>"

definition inbox_i15 :: item where
  "inbox_i15 = \<lparr>item_id = ''i15'', item_status = Held, item_title = ''Held: NDA forward to external counsel (not on allow-list)'',
    item_source = SEmail, item_risk = High, minutesAgo = 124,
    item_summary = ''Drafted forward of confidential NDA; recipient not on allow-list.'',
    item_cause = (''External counsel ben@hartlaw.com isn'' @ [CHR 0x27] @ ''t on this workspace'' @ [CHR 0x27] @ ''s allow-list yet.''),
    routedBy = ''Drafting'', unread = False,
    item_draft = Some (EmailDraft \<lparr>em_from = ''adam@eastside.co'', em_to = ''ben@hartlaw.com'', em_cc = None,
    em_subject = (''FYI '' @ [CHR 0xE2, CHR 0x80, CHR 0x94] @ '' NDA from Riverbend''), em_body = [''Ben,'',
        (''FYI '' @ [CHR 0xE2, CHR 0x80, CHR 0x94] @ '' Riverbend'' @ [CHR 0x27] @ ''s signed NDA attached. No action needed unless you spot something.''),
        (''[Held '' @ [CHR 0xE2, CHR 0x80, CHR 0x94] @ '' hartlaw.com is not on this workspace'' @ [CHR 0x27] @ ''s allow-list.]'')]\<rparr>),
    item_safety = \<lparr>can = [''Forward to allow-listed counsel''], cannot = [''Forward to non-allow-listed recipients''],
    needsApproval = [''Adding a new recipient to allow-list''], stopsIf = [''Recipient is on a deny-list'']\<rparr>,
    item_audit = [\<lparr>at_time = ([CHR 0xE2, CHR 0x80, CHR 0x94] @ ''5h''), actor = ''Drafting'', note_text = ''Composed forward.''\<rparr>,
        \<lparr>at_time = ([CHR 0xE2, CHR 0x80, CHR 0x94] @ ''2h''), actor = ''Policy'',
    note_text = ''Held: recipient not allow-listed.''\<rparr>]\<rparr>"

definition inbox_i16 :: item where
  "inbox_i16 = \<lparr>item_id = ''i16'', item_status = Held, item_title = ''Held: unusual $812 purchase to Yates Holdings'',
    item_source = SWebhook, item_risk = High, minutesAgo = 168,
    item_summary = ''Purchasing tried to submit a PO; vendor has never appeared here before.'',
    item_cause = ''First-time vendors get held until you confirm the supplier is real.'', routedBy = ''Purchasing'',
    unread = False,
    item_draft = Some (WebhookDraft \<lparr>wh_endpoint = ''POST /v1/po/submit'', wh_method = POST, wh_fields = [(''vendor'', ''Yates Holdings (NEW)''),
        (''amount_usd'', ''812.00''),
        (''category'', ''Maintenance''),
        (''memo'', ''Pump replacement, lot 24-099'')]\<rparr>),
    item_safety = \<lparr>can = [''Submit POs to known vendors''], cannot = [''Submit POs to unverified vendors''],
    needsApproval = [''First PO to any new vendor''], stopsIf = [''Vendor fails fraud check'']\<rparr>,
    item_audit = [\<lparr>at_time = ([CHR 0xE2, CHR 0x80, CHR 0x94] @ ''3h''), actor = ''Purchasing'',
    note_text = ''Composed PO from invoice.''\<rparr>,
        \<lparr>at_time = ([CHR 0xE2, CHR 0x80, CHR 0x94] @ ''2h''), actor = ''Policy'',
    note_text = ''Held: new payee, never seen here.''\<rparr>]\<rparr>"

definition inbox_i17 :: item where
  "inbox_i17 = \<lparr>item_id = ''i17'', item_status = Done,
    item_title = (''Sent: weekly status to Riverbend (last Monday'' @ [CHR 0x27] @ ''s cadence)''),
    item_source = SEmail, item_risk = Low, minutesAgo = 244,
    item_summary = ''Standing Monday digest; sent inside the cadence rule.'',
    item_cause = (''Recurring send '' @ [CHR 0xE2, CHR 0x80, CHR 0x94] @ '' would not be in your inbox if anything had drifted.''),
    routedBy = ''Drafting'', unread = False,
    item_draft = Some (EmailDraft \<lparr>em_from = ''adam@eastside.co'', em_to = ''team@riverbend.co'', em_cc = None,
    em_subject = (''Eastside '' @ [CHR 0xC3, CHR 0x97] @ '' Riverbend '' @ [CHR 0xE2, CHR 0x80, CHR 0x94] @ '' weekly status, May 4''),
    em_body = [(''(sent '' @ [CHR 0xE2, CHR 0x80, CHR 0x94] @ '' full message archived in Drafting/Sent)'')]\<rparr>),
    item_safety = \<lparr>can = [], cannot = [], needsApproval = [], stopsIf = []\<rparr>,
    item_audit = [\<lparr>at_time = ([CHR 0xE2, CHR 0x80, CHR 0x94] @ ''4h''), actor = ''Drafting'',
    note_text = ''Sent under standing rule R-04.''\<rparr>,
        \<lparr>at_time = ([CHR 0xE2, CHR 0x80, CHR 0x94] @ ''4h''), actor = ''Outbound mail'',
    note_text = ''Delivered to 6 recipients.''\<rparr>]\<rparr>"

definition inbox_i18 :: item where
  "inbox_i18 = \<lparr>item_id = ''i18'', item_status = Done, item_title = ''Booked: Friday morning focus block'',
    item_source = SCalendar, item_risk = Low, minutesAgo = 252,
    item_summary = ''Two-hour focus block; calendar was clear.'',
    item_cause = ''You asked for a weekly block and Friday was open.'', routedBy = ''Calendar'', unread = False,
    item_draft = Some (CalendarDraft \<lparr>cal_invite = (''Focus block '' @ [CHR 0xE2, CHR 0x80, CHR 0x94] @ '' strategy''),
    cal_when = (''Fri '' @ [CHR 0xC2, CHR 0xB7] @ '' 9:00 '' @ [CHR 0xE2, CHR 0x80, CHR 0x93] @ '' 11:00 AM PT''),
    cal_where = ''(blocked, no room)'', cal_attendees = [''Adam Stern (you)''],
    cal_description = ''Recurring weekly focus block; calendar self-managed.''\<rparr>),
    item_safety = \<lparr>can = [], cannot = [], needsApproval = [], stopsIf = []\<rparr>,
    item_audit = [\<lparr>at_time = ([CHR 0xE2, CHR 0x80, CHR 0x94] @ ''4h''), actor = ''Calendar'',
    note_text = ''Booked focus block on own calendar.''\<rparr>]\<rparr>"

definition inbox_i19 :: item where
  "inbox_i19 = \<lparr>item_id = ''i19'', item_status = Done, item_title = ''Filed: Stagecoach Coffee receipt under Travel'',
    item_source = SWebhook, item_risk = Low, minutesAgo = 270,
    item_summary = ''$14.20 receipt matched a travel-tagged calendar event.'',
    item_cause = ''Auto-categorized under your standing $200/expense rule.'', routedBy = ''Drafting'', unread = False,
    item_draft = Some (WebhookDraft \<lparr>wh_endpoint = ''POST /v1/expenses'', wh_method = POST, wh_fields = [(''category'', ''Travel''),
        (''amount_usd'', ''14.20''),
        (''receipt'', ''rcpt_2KkLM.pdf'')]\<rparr>),
    item_safety = \<lparr>can = [], cannot = [], needsApproval = [], stopsIf = []\<rparr>,
    item_audit = [\<lparr>at_time = ([CHR 0xE2, CHR 0x80, CHR 0x94] @ ''5h''), actor = ''Drafting'',
    note_text = ''Filed under Travel ($14.20).''\<rparr>]\<rparr>"

definition inbox_i20 :: item where
  "inbox_i20 = \<lparr>item_id = ''i20'', item_status = Done, item_title = ''Sent: reply to operations weekly digest ping'',
    item_source = STelegram, item_risk = Low, minutesAgo = 312,
    item_summary = (''Quick ack to Priya'' @ [CHR 0x27] @ ''s weekly digest question.''),
    item_cause = ''Single-line internal acks under the standing reply rule.'', routedBy = ''Drafting'', unread = False,
    item_draft = Some (TelegramDraft \<lparr>tg_chat = (''Eastside '' @ [CHR 0xC2, CHR 0xB7] @ '' #ops''),
    tg_reply_to = (''Priya N. '' @ [CHR 0xE2, CHR 0x80, CHR 0x94] @ '' '' @ [CHR 0x27] @ ''digest still goes 5pm?'' @ [CHR 0x27]),
    tg_body = (''yep '' @ [CHR 0xE2, CHR 0x80, CHR 0x94] @ '' same time.'')\<rparr>),
    item_safety = \<lparr>can = [], cannot = [], needsApproval = [], stopsIf = []\<rparr>,
    item_audit = [\<lparr>at_time = ([CHR 0xE2, CHR 0x80, CHR 0x94] @ ''5h''), actor = ''Drafting'',
    note_text = ''Replied in #ops under standing rule.''\<rparr>]\<rparr>"

definition mockInboxItems :: "item list" where
  "mockInboxItems =
    [inbox_i01, inbox_i02, inbox_i03, inbox_i04, inbox_i05, inbox_i06, inbox_i07, inbox_i08, inbox_i09,
     inbox_i10, inbox_i11, inbox_i12, inbox_i13, inbox_i14, inbox_i15, inbox_i16, inbox_i17, inbox_i18,
     inbox_i19, inbox_i20]"

section \<open>Identifiers\<close>

lemmas item_defs =
  inbox_i01_def inbox_i02_def inbox_i03_def inbox_i04_def inbox_i05_def inbox_i06_def inbox_i07_def
  inbox_i08_def inbox_i09_def inbox_i10_def inbox_i11_def inbox_i12_def inbox_i13_def inbox_i14_def
  inbox_i15_def inbox_i16_def inbox_i17_def inbox_i18_def inbox_i19_def inbox_i20_def mockInboxItems_def

lemma inbox_ids: "map item_id mockInboxItems = map (\<lambda>n. CHR ''i'' # nat_str (n div 10) @ nat_str (n mod 10)) [1..<21]"
  by (simp only: item_defs list.map item.select_convs) code_simp

interpretation item_data: keyed_data item_id mockInboxItems
  by unfold_locales (simp only: inbox_ids, code_simp)

section \<open>The items are consistent\<close>

text \<open>A draft is one for the channel of its item, and every item has a history.\<close>

primrec draft_source :: "draft \<Rightarrow> source" where
  "draft_source (EmailDraft d) = SEmail"
| "draft_source (CalendarDraft d) = SCalendar"
| "draft_source (WebhookDraft d) = SWebhook"
| "draft_source (TelegramDraft d) = STelegram"

lemma drafts_fit_sources:
  "list_all (\<lambda>(d, src). d = Some src) (map (\<lambda>i. (map_option draft_source (item_draft i), item_source i)) mockInboxItems)"
  by (simp only: item_defs list.map item.select_convs option.map draft_source.simps) simp

lemma items_have_history: "list_all (\<lambda>a. a \<noteq> []) (map item_audit mockInboxItems)"
  by (simp only: item_defs list.map item.select_convs list.pred_inject) simp

lemma fixture_statuses:
  "map (\<lambda>st. count_list (map item_status mockInboxItems) st) [Awaiting, Drafted, Held, Done] = [8, 5, 3, 4]"
  by (simp only: item_defs list.map item.select_convs) code_simp

text \<open>The items stand in the order of their statuses, and within a status the newest comes first.\<close>

lemma fixture_order:
  "sorted_wrt (\<lambda>(s, m) (s', m'). s = s' \<longrightarrow> m \<le> m') (map (\<lambda>i. (item_status i, minutesAgo i)) mockInboxItems)"
  by (simp only: item_defs list.map item.select_convs) code_simp

end
