(* ===== verification/Home_Fixtures.thy ===== *)
theory Home_Fixtures
  imports Home_Page Fixture_Data
begin

text \<open>
  The fixtures of the Home page (\<open>apps/web/src/_mocks/home.ts\<close>) and the parts of the page that show nothing else:
  the heartbeat card, the two safety cards, the team of a row, the history of a team and the sections of the
  drawer (\<open>apps/web/src/pages/v2/Home.tsx\<close>).  The number of approvals is printed in the user's locale by a
  parameter.
\<close>

section \<open>Wire types\<close>

datatype home_heartbeat_status = HhHealthy | HhDegraded | HhDown

record degraded_system =
  dg_name :: jstr
  dg_reason :: jstr

record heartbeat_state =
  hh_status :: home_heartbeat_status
  hh_systemsGreen :: nat
  hh_systemsTotal :: nat
  hh_oneDegraded :: degraded_system

record home_workspace =
  wi_name :: jstr
  wi_initials :: jstr
  wi_region :: jstr
  wi_uptimeHours :: nat
  wi_uptimeStreak :: jstr
  wi_lastSync :: jstr

datatype safety_layer_state = HlOk | HlWatching | HlAlerting

record safety_layer =
  hl_id :: nat
  hl_name :: jstr
  hl_state :: safety_layer_state
  hl_note :: jstr

record home_safety =
  hy_posture :: jstr
  hy_layers :: "safety_layer list"
  hy_can :: "jstr list"
  hy_cannot :: "jstr list"
  hy_needsApproval :: "jstr list"
  hy_stopsIf :: "jstr list"

record home_finding =
  hf_id :: jstr
  hf_title :: jstr
  hf_source :: jstr
  hf_confidence :: rat
  hf_freshness :: jstr
  hf_summary :: jstr

section \<open>The records\<close>

definition mockWorkspace :: "home_workspace" where
  "mockWorkspace = \<lparr>wi_name = ''Eastside Production'', wi_initials = ''EP'', wi_region = ''us-east-1'', wi_uptimeHours = 412,
    wi_uptimeStreak = ''17 days'', wi_lastSync = ''37 seconds ago''\<rparr>"

definition mockHeartbeat :: "heartbeat_state" where
  "mockHeartbeat = \<lparr>hh_status = HhHealthy, hh_systemsGreen = 18, hh_systemsTotal = 19,
    hh_oneDegraded = \<lparr>dg_name = ''Research index'',
    dg_reason = (''Re-embedding 2,140 documents '' @ [CHR 0xE2, CHR 0x80, CHR 0x94] @ '' 8 min remaining.'')\<rparr>\<rparr>"

definition mockTeams :: "team list" where
  "mockTeams =
   [\<lparr>team_id = ''inbox-triage'', team_name = ''Inbox triage'', team_color = HAccent, team_members = 3,
    team_description = ''Sorts mail, drafts replies, escalates the rest.''\<rparr>,
    \<lparr>team_id = ''calendar'', team_name = ''Calendar'', team_color = HRecovered, team_members = 2,
    team_description = ''Schedules, reschedules, and protects focus blocks.''\<rparr>,
    \<lparr>team_id = ''purchasing'', team_name = ''Purchasing'', team_color = HWarning, team_members = 4,
    team_description = ''Drafts orders against the approved vendor list.''\<rparr>,
    \<lparr>team_id = ''research'', team_name = ''Research'', team_color = HQuarantined, team_members = 5,
    team_description = ''Pulls papers, summarizes, tracks freshness.''\<rparr>,
    \<lparr>team_id = ''ops'', team_name = ''Operations'', team_color = HNeutral, team_members = 3,
    team_description = ''Monitors systems and self-heals routine breakage.''\<rparr>,
    \<lparr>team_id = ''drafts'', team_name = ''Drafting'', team_color = HSafe, team_members = 2,
    team_description = ''Writes first-pass docs from briefs.''\<rparr>]"

text \<open>The history of a team is an object keyed by the team's identifier.\<close>

definition mockTrustHistory :: "(jstr \<times> nat list) list" where
  "mockTrustHistory = [(''inbox-triage'', [9, 9, 9, 9, 9, 8, 9, 9, 9, 9, 9, 9, 9, 9, 9, 9, 9, 9, 9, 9, 9, 9, 9, 9]),
     (''calendar'', [9, 9, 9, 9, 9, 9, 9, 9, 8, 9, 9, 9, 9, 9, 9, 9, 9, 9, 9, 9, 9, 9, 9, 9]),
     (''purchasing'', [9, 9, 9, 8, 9, 9, 9, 9, 9, 9, 9, 9, 9, 9, 7, 9, 9, 9, 9, 9, 9, 9, 9, 9]),
     (''research'', [9, 9, 9, 9, 9, 9, 9, 9, 9, 9, 9, 9, 9, 9, 9, 9, 9, 8, 9, 9, 9, 9, 9, 9]),
     (''ops'', [9, 9, 9, 9, 9, 9, 9, 9, 9, 5, 9, 9, 9, 9, 9, 9, 9, 9, 9, 9, 9, 9, 9, 9]),
     (''drafts'', [9, 9, 9, 9, 9, 9, 9, 9, 9, 9, 9, 9, 9, 9, 9, 9, 9, 9, 9, 9, 9, 9, 9, 9])]"

definition mockSafety :: "home_safety" where
  "mockSafety = \<lparr>hy_posture = ''active'',
    hy_layers = [\<lparr>hl_id = 1, hl_name = ''Identity'', hl_state = HlOk, hl_note = ''Operator signed in 14m ago''\<rparr>,
        \<lparr>hl_id = 2, hl_name = ''Workspace'', hl_state = HlOk, hl_note = ''Production rules in effect''\<rparr>,
        \<lparr>hl_id = 3, hl_name = ''Team'', hl_state = HlOk, hl_note = ''6 teams within charter''\<rparr>,
        \<lparr>hl_id = 4, hl_name = ''Action'', hl_state = HlWatching, hl_note = ''1 high-risk action awaiting approval''\<rparr>,
        \<lparr>hl_id = 5, hl_name = ''Outcome'', hl_state = HlOk, hl_note = ''All outcomes verified''\<rparr>],
    hy_can = [''Read mail, calendar, and shared drives'', ''Draft replies (held for review)'', ''Reschedule internal meetings'', ''File expense receipts under $200''],
    hy_cannot = [''Send external email without approval'', ''Spend over $200 without approval'', ''Modify finance records'', ''Touch anything labeled Personal''],
    hy_needsApproval = [''Any external send'', ''Any purchase'', ''Any calendar change involving a customer''],
    hy_stopsIf = [''Two failures in a row on the same action'', ''Cause text would be missing or unclear'', ''Heartbeat goes red'']\<rparr>"

definition mockResearchFindings :: "home_finding list" where
  "mockResearchFindings =
   [\<lparr>hf_id = ''rf-1'', hf_title = ''Q3 carbon credit pricing shifted 11% upward'',
    hf_source = ''Bloomberg Carbon Index'', hf_confidence = 91 / 100, hf_freshness = ''2 hours ago'',
    hf_summary = ''Spot prices closed at $89.40, breaking the three-month range. Likely impact on the Riverbend offset purchase queued for next week.''\<rparr>,
    \<lparr>hf_id = ''rf-2'', hf_title = ''Outlook API rate limit lowered for legacy tenants'',
    hf_source = ''Microsoft 365 release notes'', hf_confidence = 21 / 25, hf_freshness = ''yesterday'',
    hf_summary = ''Calls per minute drop from 240 to 180. Inbox triage already adjusted polling cadence; no operator action needed.''\<rparr>,
    \<lparr>hf_id = ''rf-3'', hf_title = ''Three vendors flagged in updated supplier risk feed'',
    hf_source = ''Dun & Bradstreet weekly'', hf_confidence = 77 / 100, hf_freshness = ''5 hours ago'',
    hf_summary = ''Northgate Logistics moved to medium risk. Purchasing paused drafts against this vendor until you confirm.''\<rparr>]"

definition home_e01 :: event_item where
  "home_e01 = \<lparr>ei_id = ''e01'', ei_status = Proposed,
    ei_title = ''Send response to Marcus Yi about the Riverbend purchase order'', ei_teamId = ''inbox-triage'',
    ei_permission = ''send external email'', ei_permissionScope = HBroad, ei_risk = HMedium, ei_minutesAgo = 2,
    ei_cause = None, ei_why = ''Marcus has waited 14 hours and the draft passed the tone and accuracy check.'',
    ei_target = Some ''marcus@riverbend.co'', ei_approvals = Some 47\<rparr>"

definition home_e02 :: event_item where
  "home_e02 = \<lparr>ei_id = ''e02'', ei_status = Taken, ei_title = ''Moved 9 newsletters to the digest folder'',
    ei_teamId = ''inbox-triage'', ei_permission = ''organize inbox'', ei_permissionScope = HScoped, ei_risk = HLow,
    ei_minutesAgo = 4, ei_cause = None, ei_why = ''Sender domains match your approved newsletter list.'',
    ei_target = None, ei_approvals = Some 1840\<rparr>"

definition home_e03 :: event_item where
  "home_e03 = \<lparr>ei_id = ''e03'', ei_status = Blocked, ei_title = ''Wire $4,200 to a new vendor on the Riverbend invoice'',
    ei_teamId = ''purchasing'', ei_permission = ''initiate transfer'', ei_permissionScope = HRestricted,
    ei_risk = HHigh, ei_minutesAgo = 6, ei_cause = Some ''Wires to new vendors always need your approval.'',
    ei_why = (''Safety rule '' @ [CHR 0x27] @ ''Money '' @ [CHR 0xE2, CHR 0x80, CHR 0x94] @ '' new payee'' @ [CHR 0x27] @ '' caught it before the action ran.''),
    ei_target = Some ''Riverbend Logistics LLC'', ei_approvals = Some 0\<rparr>"

definition home_e04 :: event_item where
  "home_e04 = \<lparr>ei_id = ''e04'', ei_status = Healed, ei_title = ''Reconnected the research index after a 90-second outage'',
    ei_teamId = ''ops'', ei_permission = ''restart service'', ei_permissionScope = HScoped, ei_risk = HLow,
    ei_minutesAgo = 8, ei_cause = None, ei_why = ''Auto-heal rule matched the failure signature in 12 seconds.'',
    ei_target = Some ''research-index/primary'', ei_approvals = Some 124\<rparr>"

definition home_e05 :: event_item where
  "home_e05 = \<lparr>ei_id = ''e05'', ei_status = Proposed,
    ei_title = (''Move tomorrow'' @ [CHR 0x27] @ ''s 11am with Sandra to Thursday at 2pm''), ei_teamId = ''calendar'',
    ei_permission = ''modify customer meeting'', ei_permissionScope = HBroad, ei_risk = HMedium, ei_minutesAgo = 11,
    ei_cause = None, ei_why = ''Sandra emailed asking to move and both calendars are clear Thursday afternoon.'',
    ei_target = Some (''Sandra Lopez '' @ [CHR 0xC2, CHR 0xB7] @ '' Riverbend''), ei_approvals = Some 23\<rparr>"

definition home_e06 :: event_item where
  "home_e06 = \<lparr>ei_id = ''e06'', ei_status = ResearchUpdate,
    ei_title = (''Carbon credit pricing rose 11% '' @ [CHR 0xE2, CHR 0x80, CHR 0x94] @ '' affects queued purchase''),
    ei_teamId = ''research'', ei_permission = ''publish finding'', ei_permissionScope = HScoped, ei_risk = HLow,
    ei_minutesAgo = 17, ei_cause = None,
    ei_why = ''Bloomberg index closed outside the 3-month range; queued purchase flagged.'', ei_target = None,
    ei_approvals = None\<rparr>"

definition home_e07 :: event_item where
  "home_e07 = \<lparr>ei_id = ''e07'', ei_status = Taken, ei_title = ''Filed receipt from Stagecoach Coffee ($14.20) under Travel'',
    ei_teamId = ''drafts'', ei_permission = ''file expense'', ei_permissionScope = HScoped, ei_risk = HLow,
    ei_minutesAgo = 22, ei_cause = None,
    ei_why = (''Receipt matched a calendar event with the '' @ [CHR 0x27] @ ''travel'' @ [CHR 0x27] @ '' tag.''),
    ei_target = None, ei_approvals = Some 312\<rparr>"

definition home_e08 :: event_item where
  "home_e08 = \<lparr>ei_id = ''e08'', ei_status = Quarantined, ei_title = ''Draft reply to legal@oldcompany.com held for review'',
    ei_teamId = ''inbox-triage'', ei_permission = ''send external email'', ei_permissionScope = HBroad,
    ei_risk = HHigh, ei_minutesAgo = 28,
    ei_cause = Some ''Tone-check flagged the draft as defensive; held until you read it.'',
    ei_why = ''Two of three reviewers wanted softer language. Draft is in your inbox.'', ei_target = None,
    ei_approvals = Some 0\<rparr>"

definition home_e09 :: event_item where
  "home_e09 = \<lparr>ei_id = ''e09'', ei_status = SquadHandoff, ei_title = ''Inbox triage handed the Riverbend thread to Purchasing'',
    ei_teamId = ''inbox-triage'', ei_permission = ''route work'', ei_permissionScope = HScoped, ei_risk = HLow,
    ei_minutesAgo = 33, ei_cause = None,
    ei_why = (''Thread crossed the '' @ [CHR 0x27] @ ''purchase order'' @ [CHR 0x27] @ '' classifier with 94% confidence.''),
    ei_target = None, ei_approvals = None\<rparr>"

definition home_e10 :: event_item where
  "home_e10 = \<lparr>ei_id = ''e10'', ei_status = Taken, ei_title = ''Booked focus block on Friday morning'', ei_teamId = ''calendar'',
    ei_permission = ''modify own calendar'', ei_permissionScope = HScoped, ei_risk = HLow, ei_minutesAgo = 41,
    ei_cause = None, ei_why = ''You wanted a 2-hour block once a week and Friday was free.'', ei_target = None,
    ei_approvals = Some 58\<rparr>"

definition home_e11 :: event_item where
  "home_e11 = \<lparr>ei_id = ''e11'', ei_status = Blocked, ei_title = ''Forward customer NDA to external counsel'',
    ei_teamId = ''drafts'', ei_permission = ''share confidential doc'', ei_permissionScope = HRestricted,
    ei_risk = HHigh, ei_minutesAgo = 52,
    ei_cause = Some (''External counsel isn'' @ [CHR 0x27] @ ''t on this workspace'' @ [CHR 0x27] @ ''s allow-list.''),
    ei_why = (''Safety rule '' @ [CHR 0x27] @ ''Confidential '' @ [CHR 0xE2, CHR 0x80, CHR 0x94] @ '' external'' @ [CHR 0x27] @ '' requires you to add the recipient first.''),
    ei_target = Some ''ben@hartlaw.com'', ei_approvals = Some 0\<rparr>"

definition home_e12 :: event_item where
  "home_e12 = \<lparr>ei_id = ''e12'', ei_status = Healed, ei_title = ''Retried the failed weekly digest send'', ei_teamId = ''ops'',
    ei_permission = ''retry job'', ei_permissionScope = HScoped, ei_risk = HLow, ei_minutesAgo = 64, ei_cause = None,
    ei_why = ''First attempt timed out; second attempt succeeded in 4 seconds.'', ei_target = Some ''digest@eastside'',
    ei_approvals = Some 89\<rparr>"

definition home_e13 :: event_item where
  "home_e13 = \<lparr>ei_id = ''e13'', ei_status = Proposed, ei_title = ''Order 3 boxes of letterhead from the approved vendor'',
    ei_teamId = ''purchasing'', ei_permission = ''submit PO'', ei_permissionScope = HScoped, ei_risk = HMedium,
    ei_minutesAgo = 78, ei_cause = None,
    ei_why = ''Stock is below the 2-week threshold and the vendor is on the standing list.'',
    ei_target = Some (''Stationer'' @ [CHR 0x27] @ ''s Direct''), ei_approvals = Some 12\<rparr>"

definition home_e14 :: event_item where
  "home_e14 = \<lparr>ei_id = ''e14'', ei_status = ResearchUpdate,
    ei_title = ''Microsoft lowered Outlook polling limits for legacy tenants'', ei_teamId = ''research'',
    ei_permission = ''publish finding'', ei_permissionScope = HScoped, ei_risk = HLow, ei_minutesAgo = 92,
    ei_cause = None, ei_why = ''Release notes detected; Inbox triage adjusted polling on its own.'', ei_target = None,
    ei_approvals = None\<rparr>"

definition home_e15 :: event_item where
  "home_e15 = \<lparr>ei_id = ''e15'', ei_status = Taken, ei_title = ''Summarized the 47-page vendor risk PDF into a 1-page brief'',
    ei_teamId = ''drafts'', ei_permission = ''read shared drive'', ei_permissionScope = HScoped, ei_risk = HLow,
    ei_minutesAgo = 110, ei_cause = None, ei_why = ''You asked for one of these before each procurement meeting.'',
    ei_target = None, ei_approvals = Some 38\<rparr>"

definition home_e16 :: event_item where
  "home_e16 = \<lparr>ei_id = ''e16'', ei_status = Quarantined, ei_title = ''Unrecognized purchasing pattern: $812 to Yates Holdings'',
    ei_teamId = ''purchasing'', ei_permission = ''submit PO'', ei_permissionScope = HBroad, ei_risk = HHigh,
    ei_minutesAgo = 134, ei_cause = Some ''Yates Holdings has never appeared in this workspace before.'',
    ei_why = (''Safety rule '' @ [CHR 0x27] @ ''Money '' @ [CHR 0xE2, CHR 0x80, CHR 0x94] @ '' new payee'' @ [CHR 0x27] @ '' isolated the draft. Nothing left this workspace.''),
    ei_target = Some ''Yates Holdings'', ei_approvals = Some 0\<rparr>"

definition home_e17 :: event_item where
  "home_e17 = \<lparr>ei_id = ''e17'', ei_status = Taken, ei_title = ''Sent the standing Monday status to the Riverbend team'',
    ei_teamId = ''drafts'', ei_permission = ''send external email'', ei_permissionScope = HBroad, ei_risk = HMedium,
    ei_minutesAgo = 161, ei_cause = None,
    ei_why = ''Template, recipients, and send window all matched the standing rule.'',
    ei_target = Some ''team@riverbend.co'', ei_approvals = Some 41\<rparr>"

definition home_e18 :: event_item where
  "home_e18 = \<lparr>ei_id = ''e18'', ei_status = Healed, ei_title = ''Re-authenticated the calendar connection'', ei_teamId = ''ops'',
    ei_permission = ''refresh credentials'', ei_permissionScope = HScoped, ei_risk = HLow, ei_minutesAgo = 184,
    ei_cause = None, ei_why = ''Token expired; refresh succeeded automatically.'', ei_target = None,
    ei_approvals = Some 412\<rparr>"

definition home_e19 :: event_item where
  "home_e19 = \<lparr>ei_id = ''e19'', ei_status = SquadHandoff, ei_title = ''Operations passed an HR question to your queue'',
    ei_teamId = ''ops'', ei_permission = ''route work'', ei_permissionScope = HScoped, ei_risk = HLow,
    ei_minutesAgo = 210, ei_cause = None,
    ei_why = (''HR topics aren'' @ [CHR 0x27] @ ''t in any team'' @ [CHR 0x27] @ ''s charter; routed to you.''),
    ei_target = None, ei_approvals = None\<rparr>"

definition home_e20 :: event_item where
  "home_e20 = \<lparr>ei_id = ''e20'', ei_status = Taken, ei_title = ''Replied to 4 routine vendor confirmations'',
    ei_teamId = ''inbox-triage'', ei_permission = ''send external email'', ei_permissionScope = HScoped,
    ei_risk = HLow, ei_minutesAgo = 232, ei_cause = None,
    ei_why = ''All four matched a template you approved 47 times before.'', ei_target = Some ''4 vendors'',
    ei_approvals = Some 47\<rparr>"

definition mockInitialEvents :: "event_item list" where
  "mockInitialEvents =
    [home_e01, home_e02, home_e03, home_e04, home_e05, home_e06, home_e07, home_e08, home_e09, home_e10,
     home_e11, home_e12, home_e13, home_e14, home_e15, home_e16, home_e17, home_e18, home_e19, home_e20]"

section \<open>The cards that show only fixtures\<close>

definition heartbeat_headline :: "heartbeat_state \<Rightarrow> jstr" where
  "heartbeat_headline h = (if hh_status h = HhHealthy then ''Everything is running normally'' else ''One system is recovering'')"

text \<open>Label, value, tone and hint; \<open>replace\<close> with a string removes its first occurrence, which \<open>drop_first\<close> does.\<close>

fun drop_first :: "jstr \<Rightarrow> jstr \<Rightarrow> jstr" where
  "drop_first pat [] = []"
| "drop_first pat (c # s) = (if js_startsWith (c # s) pat then drop (length pat) (c # s) else c # drop_first pat s)"

definition heartbeat_stats :: "heartbeat_state \<Rightarrow> home_workspace \<Rightarrow> (jstr \<times> jstr \<times> home_tone \<times> jstr) list" where
  "heartbeat_stats h w =
     [(''Systems'', nat_str (hh_systemsGreen h) @ ''/'' @ nat_str (hh_systemsTotal h),
       (if hh_systemsGreen h = hh_systemsTotal h then HSafe else HWarning), ''green / total''),
      (''Uptime'', wi_uptimeStreak w, HNeutral, nat_str (wi_uptimeHours w) @ ''h streak''),
      (''Last sync'', drop_first '' ago'' (wi_lastSync w), HNeutral, ''ago'')]"

definition degraded_note :: "heartbeat_state \<Rightarrow> degraded_system option" where
  "degraded_note h = (if hh_status h = HhHealthy then None else Some (hh_oneDegraded h))"

definition home_safety_sections :: "home_safety \<Rightarrow> (jstr \<times> jstr list \<times> home_tone) list" where
  "home_safety_sections y =
     [(''Can'', hy_can y, HSafe), (''Needs approval'', hy_needsApproval y, HWarning),
      (''Cannot'', hy_cannot y, HBlocked), (''Stops if'', hy_stopsIf y, HQuarantined)]"

text \<open>A row of the policy card: number, name, note, and whether it is marked as watching.\<close>

definition home_policy_rows :: "home_safety \<Rightarrow> (nat \<times> jstr \<times> jstr \<times> bool) list" where
  "home_policy_rows y = map (\<lambda>l. (hl_id l, hl_name l, hl_note l, hl_state l = HlWatching)) (hy_layers y)"

definition event_team :: "event_item \<Rightarrow> team option" where
  "event_team e = find (\<lambda>t. team_id t = ei_teamId e) mockTeams"

definition team_history :: "team \<Rightarrow> nat list" where
  "team_history t = (case map_of mockTrustHistory (team_id t) of None \<Rightarrow> [] | Some h \<Rightarrow> h)"

primrec home_scope_value :: "home_scope \<Rightarrow> jstr" where
  "home_scope_value HScoped = ''scoped''"
| "home_scope_value HBroad = ''broad''"
| "home_scope_value HRestricted = ''restricted''"

primrec home_risk_badge :: "home_risk \<Rightarrow> jstr" where
  "home_risk_badge HLow = ''low risk''"
| "home_risk_badge HMedium = ''med risk''"
| "home_risk_badge HHigh = ''high risk''"

definition approvals_text :: "(int \<Rightarrow> jstr) \<Rightarrow> int option \<Rightarrow> jstr list" where
  "approvals_text loc a = (case a of None \<Rightarrow> []
     | Some n \<Rightarrow> (if 0 < n then [''Approved '' @ loc n @ [CHR 0xC3, CHR 0x97] @ '' before in this workspace.'']
                  else if n = 0 then [''First time this exact action has come up.''] else []))"

text \<open>The sections of the drawer, in order; a section with an empty text is left out.\<close>

definition why_sections :: "(int \<Rightarrow> jstr) \<Rightarrow> event_item \<Rightarrow> (jstr \<times> jstr list) list" where
  "why_sections loc e =
     (case ei_cause e of None \<Rightarrow> [] | Some c \<Rightarrow> if c = [] then [] else [(''Cause'', [c])])
     @ [(''Reason'', [ei_why e]), (''Permission used'', 
        [ei_permission e, home_scope_value (ei_permissionScope e), home_risk_badge (ei_risk e)] @ approvals_text loc (ei_approvals e))]
     @ (case ei_target e of None \<Rightarrow> [] | Some t \<Rightarrow> if t = [] then [] else [(''Target'', [t])])
     @ [(''What happens next'', nextStepsFor (ei_status e))]"

section \<open>Identifiers and references\<close>

lemmas event_defs =
  home_e01_def home_e02_def home_e03_def home_e04_def home_e05_def home_e06_def home_e07_def home_e08_def
  home_e09_def home_e10_def home_e11_def home_e12_def home_e13_def home_e14_def home_e15_def home_e16_def
  home_e17_def home_e18_def home_e19_def home_e20_def mockInitialEvents_def

lemma event_ids: "map ei_id mockInitialEvents = map (\<lambda>n. CHR ''e'' # nat_str (n div 10) @ nat_str (n mod 10)) [1..<21]"
  by (simp only: event_defs list.map event_item.select_convs) code_simp

lemma team_ids: "map team_id mockTeams = [''inbox-triage'', ''calendar'', ''purchasing'', ''research'', ''ops'', ''drafts'']"
  by (simp only: mockTeams_def list.map team.select_convs)

lemma events_name_teams: "list_all (\<lambda>i. i \<in> set (map team_id mockTeams)) (map ei_teamId mockInitialEvents)"
  by (simp only: event_defs mockTeams_def list.map event_item.select_convs team.select_convs) code_simp

interpretation event_data: keyed_data ei_id mockInitialEvents
  by unfold_locales (simp only: event_ids, code_simp)

interpretation team_data: resolved_refs team_id mockTeams ei_teamId mockInitialEvents
proof
  show "distinct (map team_id mockTeams)" by (simp add: team_ids)
  show "ei_teamId e \<in> team_id ` set mockTeams" if "e \<in> set mockInitialEvents" for e
    using events_name_teams that by (auto simp: list_all_iff)
qed

text \<open>Every team has its history of twenty-four hours.\<close>

lemma team_histories:
  "map fst mockTrustHistory = map team_id mockTeams \<and> list_all (\<lambda>h. length h = 24 \<and> list_all (\<lambda>v. v \<le> 9) h) (map snd mockTrustHistory)"
  unfolding team_ids by (simp add: mockTrustHistory_def)

section \<open>Every blocked event has its cause\<close>

definition explained :: "event_item \<Rightarrow> bool" where
  "explained e \<longleftrightarrow> (ei_status e = Blocked \<or> ei_status e = Quarantined \<longrightarrow> isCaused e)"

lemma explained_decisions [simp]: "explained (approve_event e)" "explained (deny_event e)"
  by (simp_all add: explained_def isCaused_def approve_event_def deny_event_def)

lemma explained_fixtures: "list_all explained mockInitialEvents"
proof -
  have "list_all (\<lambda>(st, c). st = Blocked \<or> st = Quarantined \<longrightarrow> c \<noteq> None \<and> c \<noteq> Some [])
      (map (\<lambda>e. (ei_status e, ei_cause e)) mockInitialEvents)"
    by (simp only: event_defs list.map event_item.select_convs) code_simp
  then show ?thesis by (auto simp: list_all_iff explained_def isCaused_def)
qed

definition events_explained :: "home_page \<Rightarrow> bool" where
  "events_explained s \<longleftrightarrow> list_all explained (events s) \<and> (case drawerEvent s of None \<Rightarrow> True | Some e \<Rightarrow> explained e)"

lemma explained_update: "list_all explained es \<Longrightarrow> (\<And>e. explained (f e)) \<Longrightarrow> list_all explained (update_by ei_id i f es)"
  by (auto simp: update_by_def list_all_iff)

lemma explained_exec:
  assumes "list_all explained ini" "events_explained s" "home_enabled ev s" "\<And>its. ev = LoadedEvents its \<Longrightarrow> list_all explained its"
  shows "events_explained (home_exec ini ev s)"
  using assms
  by (cases ev) (auto simp: events_explained_def onApprove_def onDeny_def load_effect_def filteredEvents_def explained_update
      list_all_iff [of explained "events s"] split: option.splits)

lemma explained_run:
  assumes "home_run ini evs s = Some s'" "list_all explained ini" "events_explained s"
    and "\<And>its. LoadedEvents its \<in> set evs \<Longrightarrow> list_all explained its"
  shows "events_explained s'"
  using assms
proof (induction ini evs s rule: home_run.induct)
  case (2 ini ev evs s)
  then have "home_enabled ev s" by (simp split: if_splits)
  moreover have "events_explained (home_exec ini ev s)"
    using "2.prems" calculation by (intro explained_exec) auto
  ultimately show ?case using "2.IH" "2.prems" by auto
qed simp

text \<open>C20. "Every blocked or quarantined event includes the cause", as the timeline says: on the fixtures of the Home page,
  after any run of approvals, denials, resets and reloads with events that have their causes, each blocked or
  quarantined event of the timeline, and the one in the drawer, has a non-empty cause, and it is the first
  thing the drawer shows.
\<close>

theorem blocked_events_explained:
  assumes "home_run mockInitialEvents evs (home_init mockInitialEvents) = Some s"
    and "\<And>its. LoadedEvents its \<in> set evs \<Longrightarrow> list_all explained its"
    and "e \<in> set (events s) \<or> drawerEvent s = Some e" and "ei_status e = Blocked \<or> ei_status e = Quarantined"
  shows "\<exists>c. c \<noteq> [] \<and> ei_cause e = Some c \<and> hd (why_sections loc e) = (''Cause'', [c])"
proof -
  have "events_explained s"
    using explained_run [OF assms(1) explained_fixtures] explained_fixtures assms(2)
    by (simp add: events_explained_def home_init_def)
  then have "isCaused e" using assms(3,4) by (auto simp: events_explained_def explained_def list_all_iff)
  then show ?thesis by (auto simp: isCaused_def why_sections_def)
qed

lemma blocked_events_explained_witness:
  "\<exists>s. home_run mockInitialEvents [DenyRow home_e01, OpenDrawer home_e03] (home_init mockInitialEvents) = Some s
     \<and> drawerEvent s = Some home_e03 \<and> (\<exists>c. c \<noteq> [] \<and> ei_cause home_e03 = Some c)"
proof -
  have st: "ei_status home_e01 = Proposed" "ei_status home_e03 = Blocked" "ei_id home_e01 \<noteq> ei_id home_e03"
    by (simp_all only: home_e01_def home_e03_def event_item.select_convs) simp_all
  let ?s = "home_exec mockInitialEvents (OpenDrawer home_e03) (home_exec mockInitialEvents (DenyRow home_e01) (home_init mockInitialEvents))"
  have "home_e03 \<in> set (update_by ei_id (ei_id home_e01) deny_event mockInitialEvents)"
    using update_by_mem [of home_e03 mockInitialEvents ei_id "ei_id home_e01" deny_event] st(3) by (simp add: mockInitialEvents_def)
  then have run: "home_run mockInitialEvents [DenyRow home_e01, OpenDrawer home_e03] (home_init mockInitialEvents) = Some ?s"
    using st by (simp add: filteredEvents_def home_init_def onDeny_def) (simp add: mockInitialEvents_def)
  then show ?thesis
    using blocked_events_explained [OF run, of home_e03] st by (auto simp: home_init_def onDeny_def)
qed

text \<open>The heartbeat of the fixtures contradicts itself: it is healthy, so the card says that everything runs normally
  and keeps the degraded system to itself, while one of nineteen systems is not green.  Likewise the policy card is
  titled "Five layers, all active" and marks one of them.\<close>

lemma heartbeat_hides_degraded:
  "heartbeat_headline mockHeartbeat = ''Everything is running normally'' \<and> degraded_note mockHeartbeat = None
   \<and> hh_systemsGreen mockHeartbeat < hh_systemsTotal mockHeartbeat
   \<and> map (\<lambda>(i, nm, nt, w). w) (home_policy_rows mockSafety) = [False, False, False, True, False]"
  by (simp add: heartbeat_headline_def degraded_note_def mockHeartbeat_def home_policy_rows_def mockSafety_def)

end
