(* ===== verification/Health_Fixtures.thy ===== *)
theory Health_Fixtures
  imports Health_Page Fixture_Data
begin

text \<open>
  The fixtures of the Health page (\<open>apps/web/src/_mocks/health.ts\<close>): fourteen components, eight events of the
  self-healing log and three warnings.
\<close>

section \<open>Components\<close>

definition mockComponents :: "health_component list" where
  "mockComponents =
   [\<lparr>hc_id = ''c-gateway'', hc_name = ''Gateway'', hc_category = Core, hc_state = Healthy,
    hc_lastHeartbeat = ''8s ago'', hc_uptimeDays = 47, hc_activity = ''Routing 142 req/min, p95 41ms'',
    hc_detail = None, hc_etaMinutes = None\<rparr>,
    \<lparr>hc_id = ''c-runtime'', hc_name = ''Runtime daemon'', hc_category = Core, hc_state = Healthy,
    hc_lastHeartbeat = ''10s ago'', hc_uptimeDays = 47, hc_activity = ''12 jobs running, queue depth 3'',
    hc_detail = None, hc_etaMinutes = None\<rparr>,
    \<lparr>hc_id = ''c-sandbox'', hc_name = ''Sandbox'', hc_category = Core, hc_state = Healthy,
    hc_lastHeartbeat = ''11s ago'', hc_uptimeDays = 21, hc_activity = ''4 sandboxes warm'', hc_detail = None,
    hc_etaMinutes = None\<rparr>,
    \<lparr>hc_id = ''c-memory'', hc_name = ''Memory store'', hc_category = Core, hc_state = Recovering,
    hc_lastHeartbeat = ''9s ago'', hc_uptimeDays = 0,
    hc_activity = (''Re-embedding 2,140 docs '' @ [CHR 0xE2, CHR 0x80, CHR 0x94] @ '' 8 min remaining''),
    hc_detail = Some ''A scheduled embedding-model upgrade is in progress. Reads continue from the warm cache; writes are queued and will drain when re-embed finishes. No action needed.'',
    hc_etaMinutes = Some 8\<rparr>,
    \<lparr>hc_id = ''c-events'', hc_name = ''Event store'', hc_category = Core, hc_state = Healthy,
    hc_lastHeartbeat = ''5s ago'', hc_uptimeDays = 62, hc_activity = ''Append rate 38/s, retention 90d'',
    hc_detail = None, hc_etaMinutes = None\<rparr>,
    \<lparr>hc_id = ''c-telegram'', hc_name = ''Telegram connector'', hc_category = Connector, hc_state = QuarantinedState,
    hc_lastHeartbeat = ''1h ago'', hc_uptimeDays = 0,
    hc_activity = (''Isolated '' @ [CHR 0xE2, CHR 0x80, CHR 0x94] @ '' auth token rotated upstream''),
    hc_detail = Some (''Telegram desktop client 5.1.4 invalidated the long-lived bot session on May 9 14:02 PT. Outbound messages are queued (4 pending). The connector has been quarantined so it can'' @ [CHR 0x27] @ ''t retry against a dead session. Re-authorize when you'' @ [CHR 0x27] @ ''re ready.''),
    hc_etaMinutes = None\<rparr>,
    \<lparr>hc_id = ''c-email'', hc_name = ''Email connector'', hc_category = Connector, hc_state = Healthy,
    hc_lastHeartbeat = ''14s ago'', hc_uptimeDays = 47, hc_activity = ''118 messages last hour'', hc_detail = None,
    hc_etaMinutes = None\<rparr>,
    \<lparr>hc_id = ''c-webhook'', hc_name = ''Webhook connector'', hc_category = Connector, hc_state = Healthy,
    hc_lastHeartbeat = ''6s ago'', hc_uptimeDays = 19, hc_activity = ''11 receivers active, 0 retries'',
    hc_detail = None, hc_etaMinutes = None\<rparr>,
    \<lparr>hc_id = ''c-cal'', hc_name = ''Calendar connector'', hc_category = Connector, hc_state = Healthy,
    hc_lastHeartbeat = ''22s ago'', hc_uptimeDays = 47, hc_activity = ''Synced 3 calendars'', hc_detail = None,
    hc_etaMinutes = None\<rparr>,
    \<lparr>hc_id = ''c-inbox'', hc_name = ''Inbox team'', hc_category = Team, hc_state = Healthy,
    hc_lastHeartbeat = ''11s ago'', hc_uptimeDays = 12, hc_activity = ''Triaged 26 messages this hour'',
    hc_detail = None, hc_etaMinutes = None\<rparr>,
    \<lparr>hc_id = ''c-cal-team'', hc_name = ''Calendar team'', hc_category = Team, hc_state = Healthy,
    hc_lastHeartbeat = ''16s ago'', hc_uptimeDays = 12, hc_activity = ''3 events drafted, 2 awaiting your review'',
    hc_detail = None, hc_etaMinutes = None\<rparr>,
    \<lparr>hc_id = ''c-research'', hc_name = ''Research team'', hc_category = Team, hc_state = Healthy,
    hc_lastHeartbeat = ''12s ago'', hc_uptimeDays = 8, hc_activity = ''Watching 47 sources'', hc_detail = None,
    hc_etaMinutes = None\<rparr>,
    \<lparr>hc_id = ''c-ops'', hc_name = ''Operations team'', hc_category = Team, hc_state = Attention,
    hc_lastHeartbeat = ''20s ago'', hc_uptimeDays = 0, hc_activity = ''Awaiting your decision on PO-26-118'',
    hc_detail = Some (''Operations needs your sign-off on a $640 standing-order PO that drifted above the $50 auto-approve threshold. The team paused itself to wait for you '' @ [CHR 0xE2, CHR 0x80, CHR 0x94] @ '' nothing else is blocked.''),
    hc_etaMinutes = None\<rparr>,
    \<lparr>hc_id = ''c-draft'', hc_name = ''Drafting team'', hc_category = Team, hc_state = Healthy,
    hc_lastHeartbeat = ''9s ago'', hc_uptimeDays = 12, hc_activity = ''5 drafts queued for review'', hc_detail = None,
    hc_etaMinutes = None\<rparr>]"

section \<open>Self-healing log\<close>

definition health_h01 :: heal_event where
  "health_h01 = \<lparr>he_id = ''h01'', he_when = ''23m ago'', he_whenIso = ''11:32 PT'', he_component = ''Webhook connector'',
    he_componentId = ''c-webhook'', he_what = ''Recovered from a slow downstream receiver'',
    he_story = \<lparr>hs_checked = (''p95 latency on receiver '' @ [CHR 0x60] @ ''slack/ops-bot'' @ [CHR 0x60] @ '' exceeded 4s for 3 consecutive checks.''),
    hs_changed = (''Switched the receiver to the back-off queue and reduced concurrency from 4 '' @ [CHR 0xE2, CHR 0x86, CHR 0x92] @ '' 1.''),
    hs_outcome = ''p95 returned to 380ms within 90 seconds; queue drained without retries.'', hs_followup = None\<rparr>,
    he_durationSec = 96\<rparr>"

definition health_h02 :: heal_event where
  "health_h02 = \<lparr>he_id = ''h02'', he_when = ''2h ago'', he_whenIso = ''09:55 PT'', he_component = ''Email connector'',
    he_componentId = ''c-email'', he_what = ''Reconnected after a transient IMAP IDLE drop'',
    he_story = \<lparr>hs_checked = ''IMAP IDLE socket closed without notice; no new messages for 4 minutes.'',
    hs_changed = ''Restarted the IDLE session against the secondary endpoint.'',
    hs_outcome = ''Stream resumed; backfill caught 3 messages that arrived during the gap.'',
    hs_followup = Some (''Same drop pattern seen 3'' @ [CHR 0xC3, CHR 0x97] @ '' this month '' @ [CHR 0xE2, CHR 0x80, CHR 0x94] @ '' rule will be reviewed Friday.'')\<rparr>,
    he_durationSec = 240\<rparr>"

definition health_h03 :: heal_event where
  "health_h03 = \<lparr>he_id = ''h03'', he_when = ''5h ago'', he_whenIso = ''06:48 PT'', he_component = ''Memory store'',
    he_componentId = ''c-memory'', he_what = ''Dropped a stale embedding-cache shard'',
    he_story = \<lparr>hs_checked = ''Cache hit-rate on shard 7 had fallen to 4% over 24h.'',
    hs_changed = ''Evicted shard 7 and rebuilt it from cold storage.'',
    hs_outcome = ''Hit-rate climbed to 81% within 20 minutes; no read failures during rebuild.'', hs_followup = None\<rparr>,
    he_durationSec = 1200\<rparr>"

definition health_h04 :: heal_event where
  "health_h04 = \<lparr>he_id = ''h04'', he_when = ''9h ago'', he_whenIso = ''02:32 PT'', he_component = ''Event store'',
    he_componentId = ''c-events'', he_what = ''Rode out an S3 throttling window'',
    he_story = \<lparr>hs_checked = ''Append latency p95 jumped to 1.8s between 02:14 and 02:32 PT.'',
    hs_changed = ''Held writes in the local buffer and replayed when throttling cleared.'',
    hs_outcome = ''All 412 appends delivered, in-order, with no operator action needed.'',
    hs_followup = Some ''Cloud-provider status confirmed regional throttling.''\<rparr>, he_durationSec = 1080\<rparr>"

definition health_h05 :: heal_event where
  "health_h05 = \<lparr>he_id = ''h05'', he_when = ''13h ago'', he_whenIso = ''22:14 PT (May 11)'', he_component = ''Runtime daemon'',
    he_componentId = ''c-runtime'', he_what = ''Restarted a worker stuck on a long-running job'',
    he_story = \<lparr>hs_checked = (''Worker '' @ [CHR 0x60] @ ''runtime-w3'' @ [CHR 0x60] @ '' had not heartbeated for 7 minutes.''),
    hs_changed = ''Killed worker, redrained its queue to siblings, restarted the worker.'',
    hs_outcome = ''Queue cleared in 4 minutes; no jobs lost.'', hs_followup = None\<rparr>, he_durationSec = 240\<rparr>"

definition health_h06 :: heal_event where
  "health_h06 = \<lparr>he_id = ''h06'', he_when = ''yesterday'', he_whenIso = ''May 11 16:01 PT'', he_component = ''Gateway'',
    he_componentId = ''c-gateway'', he_what = ''Failed over to the backup auth provider'',
    he_story = \<lparr>hs_checked = ''Primary auth provider returned 502 on 8/10 probes in 60s.'',
    hs_changed = ''Switched to backup provider and held the route there for 15 minutes.'',
    hs_outcome = ''All sessions stayed valid; primary recovered after 11 minutes and we re-pinned.'',
    hs_followup = Some (''Rule will be reviewed Friday '' @ [CHR 0xE2, CHR 0x80, CHR 0x94] @ '' failover triggered twice this week.'')\<rparr>,
    he_durationSec = 660\<rparr>"

definition health_h07 :: heal_event where
  "health_h07 = \<lparr>he_id = ''h07'', he_when = ''yesterday'', he_whenIso = ''May 11 11:09 PT'', he_component = ''Drafting team'',
    he_componentId = ''c-draft'', he_what = ''Throttled itself when model latency spiked'',
    he_story = \<lparr>hs_checked = ''Draft generation p95 rose from 1.4s to 9.2s for 4 minutes.'',
    hs_changed = (''Dropped concurrency 8 '' @ [CHR 0xE2, CHR 0x86, CHR 0x92] @ '' 2 and switched to the cheaper drafting model.''),
    hs_outcome = ''Latency returned to 1.5s; quality regression on 0 of 7 drafts checked.'', hs_followup = None\<rparr>,
    he_durationSec = 360\<rparr>"

definition health_h08 :: heal_event where
  "health_h08 = \<lparr>he_id = ''h08'', he_when = ''2d ago'', he_whenIso = ''May 10 04:17 PT'', he_component = ''Sandbox'',
    he_componentId = ''c-sandbox'', he_what = ''Rotated a sandbox with a leaking file descriptor'',
    he_story = \<lparr>hs_checked = (''Sandbox '' @ [CHR 0x60] @ ''sbx-118'' @ [CHR 0x60] @ '' held 1,920 open fds, growing 3/min.''),
    hs_changed = ''Drained sessions, recycled the sandbox, restarted with a clean baseline.'',
    hs_outcome = ''fd count back to 184 (nominal). No user-facing impact.'', hs_followup = None\<rparr>,
    he_durationSec = 540\<rparr>"

definition mockHealEvents :: "heal_event list" where
  "mockHealEvents =
    [health_h01, health_h02, health_h03, health_h04, health_h05, health_h06, health_h07, health_h08]"

section \<open>Warnings\<close>

definition health_p01 :: predictive_warning where
  "health_p01 = \<lparr>pw_id = ''p01'', pw_component = ''Email connector'', pw_componentId = ''c-email'',
    pw_signal = ''IMAP IDLE drops recurring on a weekly cadence'',
    pw_why = ''Three IDLE drops this month, each followed by a successful self-heal. Pattern matches a known network-path quirk; reliability is trending below the 99.9% objective.'',
    pw_errorBudgetUsedPct = 72, pw_windowDays = 30,
    pw_trend = [47 / 50, 19 / 20, 47 / 50, 93 / 100, 93 / 100, 23 / 25, 93 / 100, 93 / 100, 91 / 100, 91 / 100, 23 / 25, 9 / 10, 9 / 10, 9 / 10, 89 / 100, 89 / 100, 22 / 25, 22 / 25, 87 / 100, 87 / 100, 87 / 100, 43 / 50, 17 / 20, 17 / 20, 21 / 25, 83 / 100, 83 / 100, 41 / 50, 81 / 100, 4 / 5],
    pw_suggestedAction = PauseIt\<rparr>"

definition health_p02 :: predictive_warning where
  "health_p02 = \<lparr>pw_id = ''p02'', pw_component = ''Telegram connector'', pw_componentId = ''c-telegram'',
    pw_signal = (''Already quarantined '' @ [CHR 0xE2, CHR 0x80, CHR 0x94] @ '' recommend keeping it paused until re-auth''),
    pw_why = ''Long-lived bot session was invalidated by an upstream client change. The connector quarantined itself; predictive monitor recommends staying paused to avoid retry churn.'',
    pw_errorBudgetUsedPct = 100, pw_windowDays = 7,
    pw_trend = [9 / 10, 23 / 25, 91 / 100, 23 / 25, 93 / 100, 23 / 25, 93 / 100, 47 / 50, 47 / 50, 93 / 100, 9 / 10, 43 / 50, 39 / 50, 7 / 10, 3 / 5, 1 / 2, 21 / 50, 8 / 25, 11 / 50, 3 / 20, 1 / 10, 1 / 20, 1 / 50, 0, 0, 0, 0, 0, 0, 0],
    pw_suggestedAction = KeepPaused\<rparr>"

definition health_p03 :: predictive_warning where
  "health_p03 = \<lparr>pw_id = ''p03'', pw_component = ''Operations team'', pw_componentId = ''c-ops'',
    pw_signal = (''Decision queue is growing faster than it'' @ [CHR 0x27] @ ''s draining''),
    pw_why = ''Six new approvals landed in the last 24h; you reviewed two. If the trend holds for another week, Operations will start deferring drafts.'',
    pw_errorBudgetUsedPct = 41, pw_windowDays = 14,
    pw_trend = [99 / 100, 99 / 100, 49 / 50, 49 / 50, 49 / 50, 97 / 100, 97 / 100, 24 / 25, 24 / 25, 19 / 20, 19 / 20, 47 / 50, 93 / 100, 23 / 25, 91 / 100, 9 / 10, 22 / 25, 43 / 50, 21 / 25, 41 / 50, 4 / 5, 39 / 50, 19 / 25, 37 / 50, 18 / 25, 7 / 10, 17 / 25, 33 / 50, 16 / 25, 31 / 50],
    pw_suggestedAction = ShowGraph\<rparr>"

definition mockPredictive :: "predictive_warning list" where
  "mockPredictive =
    [health_p01, health_p02, health_p03]"

text \<open>\<open>api.v2.health.getMock\<close>.\<close>

definition health_mock :: health_data where
  "health_mock = \<lparr>hd_components = mockComponents, hd_healEvents = mockHealEvents, hd_predictive = mockPredictive\<rparr>"

section \<open>Identifiers and references\<close>

lemmas heal_defs =
  health_h01_def health_h02_def health_h03_def health_h04_def health_h05_def health_h06_def health_h07_def
  health_h08_def mockHealEvents_def

lemmas warning_defs = health_p01_def health_p02_def health_p03_def mockPredictive_def

lemma component_ids:
  "map hc_id mockComponents = [''c-gateway'', ''c-runtime'', ''c-sandbox'', ''c-memory'', ''c-events'', ''c-telegram'', ''c-email'',
     ''c-webhook'', ''c-cal'', ''c-inbox'', ''c-cal-team'', ''c-research'', ''c-ops'', ''c-draft'']"
  by (simp only: mockComponents_def list.map health_component.select_convs)

text \<open>An event or a warning names its component twice, by identifier and by name; the two agree.\<close>

definition names_component :: "jstr \<times> jstr \<Rightarrow> bool" where
  "names_component r \<longleftrightarrow> map_of (map (\<lambda>c. (hc_id c, hc_name c)) mockComponents) (fst r) = Some (snd r)"

lemma names_component_iff: "names_component (i, n) \<Longrightarrow> \<exists>c \<in> set mockComponents. hc_id c = i \<and> hc_name c = n"
  unfolding names_component_def by (fastforce dest!: map_of_SomeD)

lemma names_agree:
  "list_all names_component (map (\<lambda>e. (he_componentId e, he_component e)) mockHealEvents)"
  "list_all names_component (map (\<lambda>w. (pw_componentId w, pw_component w)) mockPredictive)"
  unfolding names_component_def
  by (simp only: heal_defs warning_defs mockComponents_def list.map health_component.select_convs heal_event.select_convs
      predictive_warning.select_convs, code_simp)+

lemma component_of_event:
  "e \<in> set mockHealEvents \<Longrightarrow> \<exists>c \<in> set mockComponents. hc_id c = he_componentId e \<and> hc_name c = he_component e"
  using names_agree(1) by (auto simp: list_all_iff dest!: names_component_iff)

lemma component_of_warning:
  "w \<in> set mockPredictive \<Longrightarrow> \<exists>c \<in> set mockComponents. hc_id c = pw_componentId w \<and> hc_name c = pw_component w"
  using names_agree(2) by (auto simp: list_all_iff dest!: names_component_iff)

lemma component_ids_distinct: "distinct (map hc_id mockComponents)"
  by (simp only: component_ids) code_simp

interpretation heal_refs: resolved_refs hc_id mockComponents he_componentId mockHealEvents
  by unfold_locales (use component_ids_distinct component_of_event in force)+

interpretation warning_refs: resolved_refs hc_id mockComponents pw_componentId mockPredictive
  by unfold_locales (use component_ids_distinct component_of_warning in force)+

interpretation heal_data: keyed_data he_id mockHealEvents
  by unfold_locales (simp only: heal_defs list.map heal_event.select_convs, code_simp)

interpretation warning_data: keyed_data pw_id mockPredictive
  by unfold_locales (simp only: warning_defs list.map predictive_warning.select_convs, code_simp)

section \<open>The page on its fixtures\<close>

text \<open>The headline is that of the quarantined connector; it speaks of one component, and there is one.\<close>

lemma fixture_states:
  "map (\<lambda>st. count_list (map hc_state mockComponents) st) [Healthy, Recovering, Attention, PausedState, QuarantinedState] = [11, 1, 1, 0, 1]"
  by (simp only: mockComponents_def list.map health_component.select_convs) code_simp

lemma fixture_headline: "overall mockComponents = QuarantinedState \<and> grid_count QuarantinedState mockComponents = 1"
proof -
  have "count_list (map hc_state mockComponents) QuarantinedState = 1" using fixture_states by simp
  then have n: "grid_count QuarantinedState mockComponents = 1"
    by (simp add: grid_count_def count_list_eq_length_filter filter_map comp_def eq_commute)
  then have "list_ex (\<lambda>c. hc_state c = QuarantinedState) mockComponents"
    by (auto simp: grid_count_def list_ex_iff filter_empty_conv dest!: arg_cong [where f = "\<lambda>n. n = 0"])
  then show ?thesis using n by (simp add: overall_def)
qed

lemma fixture_trends: "list_all (list_all (\<lambda>p. 0 \<le> p \<and> p \<le> 1)) (map pw_trend mockPredictive)"
  by (simp only: warning_defs list.map predictive_warning.select_convs) simp

lemma fixture_sparks_in_box:
  "w \<in> set mockPredictive \<Longrightarrow> list_all (\<lambda>(x, y). 0 \<le> x \<and> x \<le> spark_w \<and> 2 \<le> y \<and> y \<le> spark_h - 2) (spark_points (pw_trend w))"
  using spark_in_box [of "pw_trend w"] fixture_trends by (auto simp: list_all_iff)

end
