(* ===== verification/Security_Fixtures.thy ===== *)
theory Security_Fixtures
  imports Security_Page Fixture_Data
begin

text \<open>
  The fixtures of the Security page (\<open>apps/web/src/_mocks/security.ts\<close>): five layers, eight policies and
  twenty-five entries of the audit log.
\<close>

section \<open>Layers\<close>

definition mockLayers :: "sec_layer list" where
  "mockLayers =
   [\<lparr>sl_id = 1, sl_name = ''Identity'', sl_state = LOk,
    sl_blurb = (''Who is asking '' @ [CHR 0xE2, CHR 0x80, CHR 0x94] @ '' operator, team, or external sender '' @ [CHR 0xE2, CHR 0x80, CHR 0x94] @ '' and whether their session is current.''),
    sl_governs = 47, sl_examples = [''Session valid, MFA satisfied'', ''Sender domain on the allowlist'']\<rparr>,
    \<lparr>sl_id = 2, sl_name = ''Workspace'', sl_state = LOk,
    sl_blurb = ''Workspace-wide guardrails: quiet hours, data residency, environment (sandbox vs production).'',
    sl_governs = 31,
    sl_examples = [(''Quiet hours 23:00'' @ [CHR 0xE2, CHR 0x80, CHR 0x93] @ ''06:00 PT''), ''Data residency: US-only'']\<rparr>,
    \<lparr>sl_id = 3, sl_name = ''Team'', sl_state = LWatching,
    sl_blurb = ''Per-team limits on what an assistant team can do without you. Inbox can draft; Operations needs sign-off above $50.'',
    sl_governs = 18, sl_examples = [''Operations auto-approve cap $50'', ''Inbox: drafts only, no sends'']\<rparr>,
    \<lparr>sl_id = 4, sl_name = ''Action'', sl_state = LOk,
    sl_blurb = ''Per-action checks: tools required, allowed APIs, side effects, rate limits.'', sl_governs = 64,
    sl_examples = [''Wire transfers: restricted'', ''External email send: scoped per thread'']\<rparr>,
    \<lparr>sl_id = 5, sl_name = ''Outcome'', sl_state = LOk,
    sl_blurb = ''Post-hoc checks on what changed. Bad outcomes trigger rollback and quarantine.'', sl_governs = 22,
    sl_examples = [''Diff size limit on docs'', ''Auto-rollback on PII leak'']\<rparr>]"

section \<open>Policies\<close>

definition security_pol_01 :: sec_policy where
  "security_pol_01 = \<lparr>sp_id = ''pol-01'',
    sp_name = (''Standing-order purchases '' @ [CHR 0xE2, CHR 0x89, CHR 0xA4] @ '' $50 auto-approve''),
    sp_purpose = ''Lets routine purchases under $50 go through without your sign-off.'', sp_state = PActive,
    sp_layer = 3,
    sp_ruleText = (''when action == '' @ [CHR 0x27] @ ''purchase.create'' @ [CHR 0x27] @ '' and amount.usd <= 50 and vendor.in standing_orders'' @ [CHR 0x0A] @ ''  then allow with audit''),
    sp_triggeredLast30d = 18, sp_history = [\<lparr>ph_when = ''May 5, 2026'',
    ph_what = (''Threshold raised from $40 '' @ [CHR 0xE2, CHR 0x86, CHR 0x92] @ '' $50 (you)'')\<rparr>, \<lparr>ph_when = ''Mar 10, 2026'', ph_what = ''Policy created''\<rparr>],
    sp_relatedAuditIds = [''a04'']\<rparr>"

definition security_pol_02 :: sec_policy where
  "security_pol_02 = \<lparr>sp_id = ''pol-02'', sp_name = ''Quiet hours: drafts only, no sends'',
    sp_purpose = ''Pauses outbound sends between 11pm and 6am PT. Drafts continue.'', sp_state = PActive, sp_layer = 2,
    sp_ruleText = (''when local_time.in 23:00..06:00'' @ [CHR 0x0A] @ ''  then block '' @ [CHR 0x27] @ ''send.external'' @ [CHR 0x27] @ '' and allow '' @ [CHR 0x27] @ ''draft.create'' @ [CHR 0x27]),
    sp_triggeredLast30d = 7, sp_history = [\<lparr>ph_when = ''Mar 18, 2026'', ph_what = ''Policy created''\<rparr>],
    sp_relatedAuditIds = [''a02'', ''a17'']\<rparr>"

definition security_pol_03 :: sec_policy where
  "security_pol_03 = \<lparr>sp_id = ''pol-03'', sp_name = ''Wire transfers require restricted scope'',
    sp_purpose = ''Any wire transfer must be initiated by you and use a restricted-scope token.'', sp_state = PActive,
    sp_layer = 4,
    sp_ruleText = (''when action == '' @ [CHR 0x27] @ ''wire.transfer'' @ [CHR 0x27, CHR 0x0A] @ ''  then require token.scope == '' @ [CHR 0x27] @ ''restricted'' @ [CHR 0x27, CHR 0x0A] @ ''   and require initiator == '' @ [CHR 0x27] @ ''operator'' @ [CHR 0x27]),
    sp_triggeredLast30d = 2,
    sp_history = [\<lparr>ph_when = ''Feb 2, 2026'', ph_what = ''Tightened: now requires operator initiation''\<rparr>, \<lparr>ph_when = ''Jan 5, 2026'', ph_what = ''Policy created''\<rparr>],
    sp_relatedAuditIds = [''a09'', ''a23'']\<rparr>"

definition security_pol_04 :: sec_policy where
  "security_pol_04 = \<lparr>sp_id = ''pol-04'', sp_name = ''External email: scoped per thread'',
    sp_purpose = ''Drafting team can reply within an existing thread but cannot start a new external thread without you.'',
    sp_state = PActive, sp_layer = 4,
    sp_ruleText = (''when action == '' @ [CHR 0x27] @ ''email.send.external'' @ [CHR 0x27, CHR 0x0A] @ ''  then require thread.parent_id != null''),
    sp_triggeredLast30d = 5, sp_history = [\<lparr>ph_when = ''Apr 14, 2026'', ph_what = ''Policy created''\<rparr>],
    sp_relatedAuditIds = [''a07'', ''a11'']\<rparr>"

definition security_pol_05 :: sec_policy where
  "security_pol_05 = \<lparr>sp_id = ''pol-05'', sp_name = ''Diff-size cap on docs (Outcome)'',
    sp_purpose = ''Auto-rolls back any document edit that changes more than 40% in a single revision.'',
    sp_state = PUnderReview, sp_layer = 5,
    sp_ruleText = (''when action == '' @ [CHR 0x27] @ ''doc.edit'' @ [CHR 0x27] @ '' and diff.pct > 0.40'' @ [CHR 0x0A] @ ''  then rollback and quarantine''),
    sp_triggeredLast30d = 3, sp_history = [\<lparr>ph_when = ''May 9, 2026'',
    ph_what = (''Marked under-review '' @ [CHR 0xE2, CHR 0x80, CHR 0x94] @ '' 3 false positives this month'')\<rparr>, \<lparr>ph_when = ''Jan 22, 2026'', ph_what = ''Policy created''\<rparr>],
    sp_relatedAuditIds = [''a13'']\<rparr>"

definition security_pol_06 :: sec_policy where
  "security_pol_06 = \<lparr>sp_id = ''pol-06'', sp_name = ''Known-sender allowlist'',
    sp_purpose = ''Auto-archive triage-only mail from 14 known senders.'', sp_state = PActive, sp_layer = 1,
    sp_ruleText = (''when email.from.in known_senders'' @ [CHR 0x0A] @ ''  then route '' @ [CHR 0x27] @ ''triage.archive'' @ [CHR 0x27]),
    sp_triggeredLast30d = 142, sp_history = [\<lparr>ph_when = ''Feb 1, 2026'', ph_what = ''Policy created''\<rparr>],
    sp_relatedAuditIds = []\<rparr>"

definition security_pol_07 :: sec_policy where
  "security_pol_07 = \<lparr>sp_id = ''pol-07'', sp_name = (''PII leak detector '' @ [CHR 0xE2, CHR 0x86, CHR 0x92] @ '' quarantine''),
    sp_purpose = ''Quarantines any draft containing apparent SSN or full credit-card numbers.'', sp_state = PActive,
    sp_layer = 5,
    sp_ruleText = (''when draft.contains(pii.ssn | pii.cc)'' @ [CHR 0x0A] @ ''  then quarantine and notify''),
    sp_triggeredLast30d = 1, sp_history = [\<lparr>ph_when = ''Dec 1, 2025'', ph_what = ''Policy created''\<rparr>],
    sp_relatedAuditIds = [''a15'']\<rparr>"

definition security_pol_08 :: sec_policy where
  "security_pol_08 = \<lparr>sp_id = ''pol-08'',
    sp_name = (''Telegram connector '' @ [CHR 0xE2, CHR 0x80, CHR 0x94] @ '' paused while re-auth pending''),
    sp_purpose = ''Holds outbound Telegram sends until the bot session is re-authorized.'', sp_state = PPaused,
    sp_layer = 4,
    sp_ruleText = (''when connector.telegram.session.invalid'' @ [CHR 0x0A] @ ''  then pause connector.telegram.outbound''),
    sp_triggeredLast30d = 4,
    sp_history = [\<lparr>ph_when = ''yesterday'', ph_what = ''Auto-paused after upstream session invalidation''\<rparr>, \<lparr>ph_when = ''Nov 12, 2025'', ph_what = ''Policy created''\<rparr>],
    sp_relatedAuditIds = [''a01'', ''a08'']\<rparr>"

definition mockPoliciesInitial :: "sec_policy list" where
  "mockPoliciesInitial =
    [security_pol_01, security_pol_02, security_pol_03, security_pol_04, security_pol_05, security_pol_06,
     security_pol_07, security_pol_08]"

section \<open>Audit log\<close>

definition security_a01 :: audit_entry where
  "security_a01 = \<lparr>ae_id = ''a01'', ae_when = ''1h ago'', ae_whenIso = ''11:02 PT'', ae_kind = KQuarantined,
    ae_title = ''Telegram outbound batch held'',
    ae_cause = ''Bot session was invalidated upstream and outbound retries would have hit a dead endpoint.'',
    ae_permission = ''connector.telegram.send'', ae_scope = SScoped, ae_layer = 4, ae_ruleId = ''pol-08'',
    ae_ruleName = (''Telegram connector '' @ [CHR 0xE2, CHR 0x80, CHR 0x94] @ '' paused while re-auth pending''),
    ae_deniedBy = BySystem,
    ae_details = ''4 messages currently queued. The connector quarantined itself and will resume when you re-authorize.''\<rparr>"

definition security_a02 :: audit_entry where
  "security_a02 = \<lparr>ae_id = ''a02'', ae_when = ''2h ago'', ae_whenIso = ''10:14 PT'', ae_kind = KBlocked,
    ae_title = ''Drafting team tried to send during quiet hours'',
    ae_cause = (''Local time was inside the configured quiet-hours window (23:00'' @ [CHR 0xE2, CHR 0x80, CHR 0x93] @ ''06:00 PT) and the policy allows drafts but blocks sends.''),
    ae_permission = ''email.send.external'', ae_scope = SScoped, ae_layer = 2, ae_ruleId = ''pol-02'',
    ae_ruleName = ''Quiet hours: drafts only, no sends'', ae_deniedBy = BySystem,
    ae_details = ''The draft is preserved and queued for 06:01 PT delivery.''\<rparr>"

definition security_a03 :: audit_entry where
  "security_a03 = \<lparr>ae_id = ''a03'', ae_when = ''3h ago'', ae_whenIso = ''08:48 PT'', ae_kind = KBlocked,
    ae_title = ''You denied an auto-approve on a $612 standing order'',
    ae_cause = ''Amount was above the $50 auto-approve cap and you reviewed it manually.'',
    ae_permission = ''purchase.create'', ae_scope = SScoped, ae_layer = 3, ae_ruleId = ''pol-01'',
    ae_ruleName = (''Standing-order purchases '' @ [CHR 0xE2, CHR 0x89, CHR 0xA4] @ '' $50 auto-approve''),
    ae_deniedBy = ByYou,
    ae_details = (''Order PO-26-118 routed to your inbox; you marked it '' @ [CHR 0x27] @ ''review next week'' @ [CHR 0x27] @ ''.'')\<rparr>"

definition security_a04 :: audit_entry where
  "security_a04 = \<lparr>ae_id = ''a04'', ae_when = ''5h ago'', ae_whenIso = ''06:48 PT'', ae_kind = KBlocked,
    ae_title = ''Auto-approve denied: vendor not on standing-orders list'',
    ae_cause = (''Vendor '' @ [CHR 0x27] @ ''Brisbane Imports'' @ [CHR 0x27] @ '' is not in the standing-orders list, so the auto-approve rule did not apply.''),
    ae_permission = ''purchase.create'', ae_scope = SScoped, ae_layer = 3, ae_ruleId = ''pol-01'',
    ae_ruleName = (''Standing-order purchases '' @ [CHR 0xE2, CHR 0x89, CHR 0xA4] @ '' $50 auto-approve''),
    ae_deniedBy = BySystem, ae_details = ''Routed to your inbox for one-tap approval.''\<rparr>"

definition security_a05 :: audit_entry where
  "security_a05 = \<lparr>ae_id = ''a05'', ae_when = ''yesterday'', ae_whenIso = ''May 11 21:02 PT'', ae_kind = KBlocked,
    ae_title = ''Webhook receiver throttled by policy'',
    ae_cause = ''Receiver p95 exceeded 4s for 3 consecutive checks; the rate-limit policy reduced concurrency.'',
    ae_permission = ''webhook.send'', ae_scope = SBroad, ae_layer = 4, ae_ruleId = ''pol-04'',
    ae_ruleName = ''External email: scoped per thread'', ae_deniedBy = BySystem,
    ae_details = (''Concurrency dropped 4 '' @ [CHR 0xE2, CHR 0x86, CHR 0x92] @ '' 1 for 90 seconds; receiver recovered without operator action.'')\<rparr>"

definition security_a06 :: audit_entry where
  "security_a06 = \<lparr>ae_id = ''a06'', ae_when = ''yesterday'', ae_whenIso = ''May 11 16:01 PT'', ae_kind = KBlocked,
    ae_title = ''Auth probe failed: failed over to backup provider'',
    ae_cause = ''Primary auth provider returned 502 on 8/10 probes within 60 seconds.'',
    ae_permission = ''identity.session.refresh'', ae_scope = SRestricted, ae_layer = 1, ae_ruleId = ''pol-06'',
    ae_ruleName = ''Known-sender allowlist'', ae_deniedBy = BySystem,
    ae_details = ''Failover lasted 11 minutes; primary recovered and we re-pinned.''\<rparr>"

definition security_a07 :: audit_entry where
  "security_a07 = \<lparr>ae_id = ''a07'', ae_when = ''yesterday'', ae_whenIso = ''May 11 15:18 PT'', ae_kind = KBlocked,
    ae_title = ''Drafting team tried to start a new external thread'',
    ae_cause = ''Action lacked a parent thread id; per policy, the team can reply within threads but not start new ones.'',
    ae_permission = ''email.send.external'', ae_scope = SScoped, ae_layer = 4, ae_ruleId = ''pol-04'',
    ae_ruleName = ''External email: scoped per thread'', ae_deniedBy = BySystem,
    ae_details = ''Draft saved for your review at /inbox.''\<rparr>"

definition security_a08 :: audit_entry where
  "security_a08 = \<lparr>ae_id = ''a08'', ae_when = ''yesterday'', ae_whenIso = ''May 11 14:02 PT'', ae_kind = KQuarantined,
    ae_title = ''Telegram session quarantined after upstream change'',
    ae_cause = ''Upstream client 5.1.4 invalidated the long-lived bot session, so the connector quarantined itself.'',
    ae_permission = ''connector.telegram.session'', ae_scope = SRestricted, ae_layer = 4, ae_ruleId = ''pol-08'',
    ae_ruleName = (''Telegram connector '' @ [CHR 0xE2, CHR 0x80, CHR 0x94] @ '' paused while re-auth pending''),
    ae_deniedBy = BySystem, ae_details = ''Quarantine prevents retry churn until you re-authorize.''\<rparr>"

definition security_a09 :: audit_entry where
  "security_a09 = \<lparr>ae_id = ''a09'', ae_when = ''2d ago'', ae_whenIso = ''May 10 10:32 PT'', ae_kind = KBlocked,
    ae_title = ''You denied a wire transfer initiated by a recipe'',
    ae_cause = ''Wire transfers require operator initiation; the recipe attempted to act on your behalf.'',
    ae_permission = ''wire.transfer'', ae_scope = SRestricted, ae_layer = 4, ae_ruleId = ''pol-03'',
    ae_ruleName = ''Wire transfers require restricted scope'', ae_deniedBy = ByYou,
    ae_details = ''The recipe is paused pending your review.''\<rparr>"

definition security_a10 :: audit_entry where
  "security_a10 = \<lparr>ae_id = ''a10'', ae_when = ''2d ago'', ae_whenIso = ''May 10 09:11 PT'', ae_kind = KBlocked,
    ae_title = ''Sender domain not on allowlist'',
    ae_cause = ''Inbound mail came from a domain that does not match any allowlisted sender pattern.'',
    ae_permission = ''identity.sender.verify'', ae_scope = SScoped, ae_layer = 1, ae_ruleId = ''pol-06'',
    ae_ruleName = ''Known-sender allowlist'', ae_deniedBy = BySystem,
    ae_details = ''Routed to triage for your manual review.''\<rparr>"

definition security_a11 :: audit_entry where
  "security_a11 = \<lparr>ae_id = ''a11'', ae_when = ''2d ago'', ae_whenIso = ''May 10 08:02 PT'', ae_kind = KBlocked,
    ae_title = ''New thread denied: lacking parent'',
    ae_cause = ''External-email policy requires a parent thread id and one was not present.'',
    ae_permission = ''email.send.external'', ae_scope = SScoped, ae_layer = 4, ae_ruleId = ''pol-04'',
    ae_ruleName = ''External email: scoped per thread'', ae_deniedBy = BySystem,
    ae_details = ''Operator can override; draft preserved.''\<rparr>"

definition security_a12 :: audit_entry where
  "security_a12 = \<lparr>ae_id = ''a12'', ae_when = ''3d ago'', ae_whenIso = ''May 9 19:48 PT'', ae_kind = KQuarantined,
    ae_title = ''Document revision quarantined: 62% diff'',
    ae_cause = ''A single revision changed 62% of the document, which exceeds the diff-size cap.'',
    ae_permission = ''doc.edit'', ae_scope = SBroad, ae_layer = 5, ae_ruleId = ''pol-05'',
    ae_ruleName = ''Diff-size cap on docs (Outcome)'', ae_deniedBy = BySystem,
    ae_details = ''Auto-rollback restored the previous revision; quarantined copy held in review.''\<rparr>"

definition security_a13 :: audit_entry where
  "security_a13 = \<lparr>ae_id = ''a13'', ae_when = ''3d ago'', ae_whenIso = ''May 9 14:22 PT'', ae_kind = KQuarantined,
    ae_title = ''Outcome check rolled back doc edit (false positive flagged)'',
    ae_cause = ''Diff exceeded the policy threshold, though human review later marked the edit safe.'',
    ae_permission = ''doc.edit'', ae_scope = SBroad, ae_layer = 5, ae_ruleId = ''pol-05'',
    ae_ruleName = ''Diff-size cap on docs (Outcome)'', ae_deniedBy = BySystem,
    ae_details = (''Marked false positive '' @ [CHR 0xE2, CHR 0x80, CHR 0x94] @ '' contributes to the policy'' @ [CHR 0x27] @ ''s under-review status.'')\<rparr>"

definition security_a14 :: audit_entry where
  "security_a14 = \<lparr>ae_id = ''a14'', ae_when = ''4d ago'', ae_whenIso = ''May 8 16:18 PT'', ae_kind = KBlocked,
    ae_title = ''Auto-approve denied: amount $54 exceeded cap'',
    ae_cause = ''Amount of $54 was $4 above the standing-order auto-approve threshold.'',
    ae_permission = ''purchase.create'', ae_scope = SScoped, ae_layer = 3, ae_ruleId = ''pol-01'',
    ae_ruleName = (''Standing-order purchases '' @ [CHR 0xE2, CHR 0x89, CHR 0xA4] @ '' $50 auto-approve''),
    ae_deniedBy = BySystem, ae_details = ''Routed for one-tap approval; you approved 14 minutes later.''\<rparr>"

definition security_a15 :: audit_entry where
  "security_a15 = \<lparr>ae_id = ''a15'', ae_when = ''5d ago'', ae_whenIso = ''May 7 11:05 PT'', ae_kind = KQuarantined,
    ae_title = ''Draft quarantined: matched PII pattern'',
    ae_cause = ''Draft contained a 9-digit sequence that matched a US SSN pattern.'', ae_permission = ''draft.send'',
    ae_scope = SRestricted, ae_layer = 5, ae_ruleId = ''pol-07'',
    ae_ruleName = (''PII leak detector '' @ [CHR 0xE2, CHR 0x86, CHR 0x92] @ '' quarantine''), ae_deniedBy = BySystem,
    ae_details = ''Marked false positive after review (sequence was an order number); rule kept as-is.''\<rparr>"

definition security_a16 :: audit_entry where
  "security_a16 = \<lparr>ae_id = ''a16'', ae_when = ''6d ago'', ae_whenIso = ''May 6 09:38 PT'', ae_kind = KBlocked,
    ae_title = ''Data-residency policy blocked outbound transfer'',
    ae_cause = ''Destination region was outside the US, which violates the workspace residency rule.'',
    ae_permission = ''data.export.external'', ae_scope = SRestricted, ae_layer = 2, ae_ruleId = ''pol-02'',
    ae_ruleName = ''Quiet hours: drafts only, no sends'', ae_deniedBy = BySystem,
    ae_details = ''Destination overridden by the operator after review.''\<rparr>"

definition security_a17 :: audit_entry where
  "security_a17 = \<lparr>ae_id = ''a17'', ae_when = ''7d ago'', ae_whenIso = ''May 5 23:48 PT'', ae_kind = KBlocked,
    ae_title = ''Send blocked: quiet hours'',
    ae_cause = ''Time was 23:48 PT, within the configured quiet-hours window.'',
    ae_permission = ''email.send.external'', ae_scope = SScoped, ae_layer = 2, ae_ruleId = ''pol-02'',
    ae_ruleName = ''Quiet hours: drafts only, no sends'', ae_deniedBy = BySystem,
    ae_details = ''Draft preserved; queued for 06:01 delivery.''\<rparr>"

definition security_a18 :: audit_entry where
  "security_a18 = \<lparr>ae_id = ''a18'', ae_when = ''8d ago'', ae_whenIso = ''May 4 14:11 PT'', ae_kind = KBlocked,
    ae_title = ''You denied a calendar override for an executive 1:1'',
    ae_cause = (''The recipe tried to move a meeting flagged '' @ [CHR 0x27] @ ''do not move'' @ [CHR 0x27] @ ''; you reviewed and denied.''),
    ae_permission = ''calendar.event.move'', ae_scope = SBroad, ae_layer = 3, ae_ruleId = ''pol-01'',
    ae_ruleName = (''Standing-order purchases '' @ [CHR 0xE2, CHR 0x89, CHR 0xA4] @ '' $50 auto-approve''),
    ae_deniedBy = ByYou, ae_details = ''Recipe paused; rule will be reviewed Friday.''\<rparr>"

definition security_a19 :: audit_entry where
  "security_a19 = \<lparr>ae_id = ''a19'', ae_when = ''9d ago'', ae_whenIso = ''May 3 17:00 PT'', ae_kind = KBlocked,
    ae_title = ''Inbox tried to send (drafts-only policy)'',
    ae_cause = ''Inbox team has draft-only scope and cannot send externally.'',
    ae_permission = ''email.send.external'', ae_scope = SScoped, ae_layer = 3, ae_ruleId = ''pol-04'',
    ae_ruleName = ''External email: scoped per thread'', ae_deniedBy = BySystem,
    ae_details = ''Draft routed to /inbox for your review.''\<rparr>"

definition security_a20 :: audit_entry where
  "security_a20 = \<lparr>ae_id = ''a20'', ae_when = ''10d ago'', ae_whenIso = ''May 2 12:34 PT'', ae_kind = KQuarantined,
    ae_title = ''Outbound link in draft pointed to a flagged domain'',
    ae_cause = ''A linked domain matched the reputation blocklist; draft was held pending operator review.'',
    ae_permission = ''email.send.external'', ae_scope = SScoped, ae_layer = 5, ae_ruleId = ''pol-07'',
    ae_ruleName = (''PII leak detector '' @ [CHR 0xE2, CHR 0x86, CHR 0x92] @ '' quarantine''), ae_deniedBy = BySystem,
    ae_details = ''You released the draft after confirming the domain.''\<rparr>"

definition security_a21 :: audit_entry where
  "security_a21 = \<lparr>ae_id = ''a21'', ae_when = ''12d ago'', ae_whenIso = ''Apr 30 09:22 PT'', ae_kind = KBlocked,
    ae_title = ''Broad-scope token rejected for restricted action'',
    ae_cause = ''Action required a restricted-scope token; only a broad-scope token was offered.'',
    ae_permission = ''wire.transfer'', ae_scope = SRestricted, ae_layer = 4, ae_ruleId = ''pol-03'',
    ae_ruleName = ''Wire transfers require restricted scope'', ae_deniedBy = BySystem,
    ae_details = ''Recipe paused. You can grant a restricted token from Settings.''\<rparr>"

definition security_a22 :: audit_entry where
  "security_a22 = \<lparr>ae_id = ''a22'', ae_when = ''14d ago'', ae_whenIso = ''Apr 28 16:02 PT'', ae_kind = KBlocked,
    ae_title = ''You denied an attachment auto-share'',
    ae_cause = ''Attachment looked sensitive; you held the share for manual review.'',
    ae_permission = ''doc.share.external'', ae_scope = SScoped, ae_layer = 4, ae_ruleId = ''pol-04'',
    ae_ruleName = ''External email: scoped per thread'', ae_deniedBy = ByYou,
    ae_details = ''Marked for redaction; later shared with PII removed.''\<rparr>"

definition security_a23 :: audit_entry where
  "security_a23 = \<lparr>ae_id = ''a23'', ae_when = ''15d ago'', ae_whenIso = ''Apr 27 11:00 PT'', ae_kind = KBlocked,
    ae_title = ''Wire transfer blocked: not operator-initiated'',
    ae_cause = ''Wire transfers require operator initiation; the request came from an internal recipe.'',
    ae_permission = ''wire.transfer'', ae_scope = SRestricted, ae_layer = 4, ae_ruleId = ''pol-03'',
    ae_ruleName = ''Wire transfers require restricted scope'', ae_deniedBy = BySystem,
    ae_details = ''Recipe paused; operator review pending.''\<rparr>"

definition security_a24 :: audit_entry where
  "security_a24 = \<lparr>ae_id = ''a24'', ae_when = ''21d ago'', ae_whenIso = ''Apr 21 13:48 PT'', ae_kind = KQuarantined,
    ae_title = ''Outcome rollback: doc edit changed unrelated section'',
    ae_cause = (''Edit touched a section outside the requested scope, which exceeded the action'' @ [CHR 0x27] @ ''s permission.''),
    ae_permission = ''doc.edit'', ae_scope = SBroad, ae_layer = 5, ae_ruleId = ''pol-05'',
    ae_ruleName = ''Diff-size cap on docs (Outcome)'', ae_deniedBy = BySystem,
    ae_details = ''Quarantined copy retained 30 days; revert was clean.''\<rparr>"

definition security_a25 :: audit_entry where
  "security_a25 = \<lparr>ae_id = ''a25'', ae_when = ''28d ago'', ae_whenIso = ''Apr 14 08:11 PT'', ae_kind = KBlocked,
    ae_title = ''Connector access denied: token expired'',
    ae_cause = ''OAuth refresh token had expired and no operator session was active to re-issue.'',
    ae_permission = ''connector.calendar.read'', ae_scope = SScoped, ae_layer = 1, ae_ruleId = ''pol-06'',
    ae_ruleName = ''Known-sender allowlist'', ae_deniedBy = BySystem,
    ae_details = ''Resolved after you re-authenticated the connector.''\<rparr>"

definition mockAudit :: "audit_entry list" where
  "mockAudit =
    [security_a01, security_a02, security_a03, security_a04, security_a05, security_a06, security_a07,
     security_a08, security_a09, security_a10, security_a11, security_a12, security_a13, security_a14,
     security_a15, security_a16, security_a17, security_a18, security_a19, security_a20, security_a21,
     security_a22, security_a23, security_a24, security_a25]"

section \<open>Identifiers and references\<close>

lemmas policy_defs =
  security_pol_01_def security_pol_02_def security_pol_03_def security_pol_04_def security_pol_05_def
  security_pol_06_def security_pol_07_def security_pol_08_def mockPoliciesInitial_def

lemmas entry_defs =
  security_a01_def security_a02_def security_a03_def security_a04_def security_a05_def security_a06_def
  security_a07_def security_a08_def security_a09_def security_a10_def security_a11_def security_a12_def
  security_a13_def security_a14_def security_a15_def security_a16_def security_a17_def security_a18_def
  security_a19_def security_a20_def security_a21_def security_a22_def security_a23_def security_a24_def
  security_a25_def mockAudit_def

lemma policy_ids: "map sp_id mockPoliciesInitial = [''pol-01'', ''pol-02'', ''pol-03'', ''pol-04'', ''pol-05'', ''pol-06'', ''pol-07'', ''pol-08'']"
  by (simp only: policy_defs list.map sec_policy.select_convs)

lemma entry_ids: "map ae_id mockAudit = map (\<lambda>n. CHR ''a'' # nat_str (n div 10) @ nat_str (n mod 10)) [1..<26]"
  by (simp only: entry_defs list.map audit_entry.select_convs) code_simp

lemma entry_names_policy:
  "list_all (\<lambda>(i, n). map_of (map (\<lambda>p. (sp_id p, sp_name p)) mockPoliciesInitial) i = Some n)
     (map (\<lambda>e. (ae_ruleId e, ae_ruleName e)) mockAudit)"
  by (simp only: policy_defs entry_defs list.map sec_policy.select_convs audit_entry.select_convs) code_simp

lemma rule_of_entry:
  assumes "e \<in> set mockAudit"
  shows "\<exists>p \<in> set mockPoliciesInitial. sp_id p = ae_ruleId e \<and> sp_name p = ae_ruleName e"
proof -
  have "map_of (map (\<lambda>p. (sp_id p, sp_name p)) mockPoliciesInitial) (ae_ruleId e) = Some (ae_ruleName e)"
    using entry_names_policy assms by (auto simp: list_all_iff)
  then show ?thesis by (fastforce dest!: map_of_SomeD)
qed

interpretation policy_data: resolved_refs sp_id mockPoliciesInitial ae_ruleId mockAudit
proof
  show "distinct (map sp_id mockPoliciesInitial)" by (simp add: policy_ids)
  show "ae_ruleId e \<in> sp_id ` set mockPoliciesInitial" if "e \<in> set mockAudit" for e
    using rule_of_entry [OF that] by force
qed

interpretation entry_data: keyed_data ae_id mockAudit
  by unfold_locales (simp only: entry_ids, code_simp)

section \<open>The page on its fixtures\<close>

lemma audit_fixed: "sec_audit (fold security_exec evs s) = sec_audit s"
proof (induction evs arbitrary: s)
  case (Cons ev evs)
  have "sec_audit (security_exec ev s) = sec_audit s"
    by (cases ev) (auto simp: handleOpenRule_def handleOpenPolicy_def close_drawer_def show_policy_def handlePause_def Let_def
        split: option.splits)
  then show ?case by (simp add: Cons.IH)
qed simp

lemma opens_policy:
  assumes "find (\<lambda>p. sp_id p = i) (policies s) = Some p"
  shows "opened_policy (handleOpenRule i s) = Some p \<and> drawer (handleOpenRule i s) \<noteq> None"
  using assms by (auto simp: handleOpenRule_def show_policy_def opened_policy_def Let_def split: option.splits prod.splits)

text \<open>C23. No link of the audit log is dead in mock mode: whatever was clicked on the Security page before, the rule
  of every entry of its fixtures is found when the operator opens it, it is the rule the entry names, the
  drawer is there, and the drawer counts the entry among the related ones.
\<close>

theorem rule_links_open:
  assumes "e \<in> set mockAudit" and "s = fold security_exec evs (security_init mockLayers mockAudit mockPoliciesInitial)"
  shows "\<exists>p. opened_policy (handleOpenRule (ae_ruleId e) s) = Some p \<and> sp_id p = ae_ruleId e \<and> sp_name p = ae_ruleName e
    \<and> drawer (handleOpenRule (ae_ruleId e) s) \<noteq> None \<and> e \<in> set (related s p)"
proof -
  obtain q where q: "q \<in> set mockPoliciesInitial" "sp_id q = ae_ruleId e" "sp_name q = ae_ruleName e"
    using rule_of_entry [OF assms(1)] by blast
  let ?p = "(pause_policy ^^ clicks security_exec pause_target (ae_ruleId e) evs (security_init mockLayers mockAudit mockPoliciesInitial)) q"
  have "find (\<lambda>p. sp_id p = ae_ruleId e) (policies s) = Some ?p"
    using policy_clicks.find_run [of "ae_ruleId e" evs] policy_data.resolves_unique [OF assms(1) q(1,2)]
    by (simp add: assms(2) security_init_def)
  moreover have "sp_id ?p = ae_ruleId e \<and> sp_name ?p = ae_ruleName e" using q by (simp add: pause_pow)
  moreover have "sec_audit s = mockAudit" by (simp add: assms(2) audit_fixed security_init_def)
  ultimately show ?thesis using opens_policy assms(1) by (auto simp: related_def)
qed

lemma rule_links_open_witness:
  "\<exists>p. opened_policy (handleOpenRule (ae_ruleId security_a19)
       (fold security_exec [PauseClick ''pol-04'', PickAudit Af24h] (security_init mockLayers mockAudit mockPoliciesInitial))) = Some p
     \<and> sp_name p = ae_ruleName security_a19"
proof -
  have "security_a19 \<in> set mockAudit" by (simp add: mockAudit_def)
  from rule_links_open [OF this refl, of "[PauseClick ''pol-04'', PickAudit Af24h]"] show ?thesis by blast
qed

section \<open>The drawer and the page behind it\<close>

lemma security_inv_fixtures: "security_inv (security_init mockLayers mockAudit mockPoliciesInitial)"
proof -
  have "ae_ruleId ` set mockAudit \<subseteq> sp_id ` set mockPoliciesInitial"
  proof
    fix i assume "i \<in> ae_ruleId ` set mockAudit"
    then obtain e where "e \<in> set mockAudit" "i = ae_ruleId e" by blast
    with rule_of_entry [of e] show "i \<in> sp_id ` set mockPoliciesInitial" by force
  qed
  then show ?thesis by (simp add: security_inv_def security_init_def)
qed

text \<open>C11. The Security page never freezes in mock mode.  Whatever is clicked, typed and pressed, the document is kept from
  scrolling exactly while the drawer is on the page, and exactly then there is one listener for the Escape key;
  pressing it takes the drawer away and lets the page scroll again.  A page that is left leaves neither the
  style nor the listener behind.
\<close>

theorem security_page_never_frozen:
  assumes "security_drawer_run vs (security_init mockLayers mockAudit mockPoliciesInitial) = Some s"
  shows "overflow (da_doc s) = (if opened_policy (da_page s) \<noteq> None then ''hidden'' else [])
    \<and> length (key_listeners (da_doc s)) = (if opened_policy (da_page s) \<noteq> None then 1 else 0)
    \<and> opened_policy (da_page (security_press ''Escape'' s)) = None \<and> overflow (da_doc (security_press ''Escape'' s)) = []
    \<and> overflow (drawer_leave s) = [] \<and> key_listeners (drawer_leave s) = []"
  using security_drawer.locked_while_shown [OF assms security_inv_fixtures] unfolding not_not .

lemma security_page_never_frozen_witness:
  "\<exists>s. security_drawer_run [Do (EditClick ''pol-04'')] (security_init mockLayers mockAudit mockPoliciesInitial) = Some s
     \<and> opened_policy (da_page s) \<noteq> None \<and> overflow (da_doc s) = ''hidden''
     \<and> opened_policy (da_page (security_press ''Escape'' s)) = None \<and> overflow (da_doc (security_press ''Escape'' s)) = []"
proof -
  let ?p = "security_init mockLayers mockAudit mockPoliciesInitial"
  have "list_ex (\<lambda>i. i = ''pol-04'') (map sp_id mockPoliciesInitial)" unfolding policy_ids by code_simp
  then have i: "''pol-04'' \<in> sp_id ` set mockPoliciesInitial" by (auto simp: list_ex_iff)
  then have "security_drawer_run [Do (EditClick ''pol-04'')] ?p \<noteq> None"
    by (auto simp: drawer_run_def drawer_init_def drawer_commit_def security_init_def split: prod.splits)
  then obtain s where s: "security_drawer_run [Do (EditClick ''pol-04'')] ?p = Some s" by blast
  then have "opened_policy (da_page s) = opened_policy (security_exec (EditClick ''pol-04'') ?p)"
    by (auto simp: drawer_run_def drawer_init_def drawer_commit_def security_init_def split: prod.splits if_splits)
  also have "\<dots> \<noteq> None" unfolding opened_policy_iff using i by (simp add: handleOpenPolicy_def security_init_def)
  finally have o: "opened_policy (da_page s) \<noteq> None" .
  with s security_page_never_frozen [OF s] show ?thesis by (intro exI [of _ s]) simp
qed

text \<open>Two inconsistencies of the fixtures.  One entry carries another layer than its rule, and the page prints both;
  and for two rules the drawer announces more related entries than triggers, although every entry is younger
  than the thirty days the triggers are counted over.\<close>

lemma layers_disagree:
  "filter (\<lambda>(a, i, l). map_of (map (\<lambda>p. (sp_id p, sp_layer p)) mockPoliciesInitial) i \<noteq> Some l)
     (map (\<lambda>e. (ae_id e, ae_ruleId e, ae_layer e)) mockAudit) = [(''a19'', ''pol-04'', 3)]"
  by (simp only: policy_defs entry_defs list.map sec_policy.select_convs audit_entry.select_convs) code_simp

lemma more_entries_than_triggers:
  "map fst (filter (\<lambda>(i, n). n < count_list (map ae_ruleId mockAudit) i)
     (map (\<lambda>p. (sp_id p, sp_triggeredLast30d p)) mockPoliciesInitial)) = [''pol-03'', ''pol-07'']
   \<and> list_all (\<lambda>w. within_hours (24 * 30) w) (map ae_when mockAudit)"
  by (simp only: policy_defs entry_defs list.map sec_policy.select_convs audit_entry.select_convs) code_simp

end
