(* ===== verification/Settings_Fixtures.thy ===== *)
theory Settings_Fixtures
  imports Settings_Page Fixture_Data
begin

text \<open>
  The fixtures of the Settings page (\<open>apps/web/src/_mocks/settings.ts\<close>) and the object the client makes of them.
\<close>

definition mockOperator :: "settings_operator" where
  "mockOperator = \<lparr>op_name = ''Mira Okafor'', op_email = ''mira@okafor.studio'', op_role = ''Workspace owner'',
    op_signIn = (''Passkey '' @ [CHR 0xC2, CHR 0xB7] @ '' iCloud Keychain''), op_avatar = ''MO''\<rparr>"

definition mockWorkspace :: "settings_workspace" where
  "mockWorkspace = \<lparr>ws_name = ''Okafor Studio'', ws_region = ''US-West (Oregon)'',
    ws_plan = (''Solo '' @ [CHR 0xC2, CHR 0xB7] @ '' Beta''), ws_createdOn = ''Aug 14, 2025''\<rparr>"

definition mockSessions :: "session list" where
  "mockSessions =
   [\<lparr>ss_id = ''s1'', ss_device = (''MacBook Pro '' @ [CHR 0xC2, CHR 0xB7] @ '' Safari 18.4''),
    ss_where = ''Portland, OR'', ss_when = ''now'', ss_current = True\<rparr>,
    \<lparr>ss_id = ''s2'', ss_device = (''iPhone 16 '' @ [CHR 0xC2, CHR 0xB7] @ '' IronGolem iOS''),
    ss_where = ''Portland, OR'', ss_when = ''12m ago'', ss_current = False\<rparr>,
    \<lparr>ss_id = ''s3'', ss_device = (''MacBook Pro '' @ [CHR 0xC2, CHR 0xB7] @ '' Chrome 132''),
    ss_where = ''Portland, OR'', ss_when = ''3h ago'', ss_current = False\<rparr>,
    \<lparr>ss_id = ''s4'', ss_device = (''iPad '' @ [CHR 0xC2, CHR 0xB7] @ '' Safari 18.3''), ss_where = ''Cannon Beach, OR'',
    ss_when = ''2d ago'', ss_current = False\<rparr>,
    \<lparr>ss_id = ''s5'', ss_device = (''MacBook Pro '' @ [CHR 0xC2, CHR 0xB7] @ '' Safari 18.4''), ss_where = ''Bend, OR'',
    ss_when = ''9d ago'', ss_current = False\<rparr>]"

definition mockConnectors :: "connector list" where
  "mockConnectors =
   [\<lparr>cn_id = ''email'', cn_name = ''Email (IMAP)'', cn_glyph = ''@'', cn_tint = TnAccent, cn_state = CsConnected,
    cn_scope = ScScoped, cn_lastSync = ''2m ago'',
    cn_can = [''Read incoming mail'', ''Draft replies in your tone'', ''Apply labels and archive''],
    cn_cannot = [''Send without your approval'', (''Read mail in '' @ [CHR 0x27] @ ''private'' @ [CHR 0x27] @ '' label''), ''Delete mail permanently''],
    cn_note = None\<rparr>,
    \<lparr>cn_id = ''telegram'', cn_name = ''Telegram'', cn_glyph = ''Tg'', cn_tint = TnWarning, cn_state = CsNeedsAuth,
    cn_scope = ScScoped, cn_lastSync = (''yesterday '' @ [CHR 0xC2, CHR 0xB7] @ '' session invalidated''),
    cn_can = [''Receive messages in 3 channels'', ''Post drafts for your review''],
    cn_cannot = [''Add or remove channel members'', ''Forward outside the workspace''],
    cn_note = Some ''Upstream client 5.1.4 invalidated the bot session.''\<rparr>,
    \<lparr>cn_id = ''webhook'', cn_name = ''Webhook receiver'', cn_glyph = ''Wh'', cn_tint = TnNeutral, cn_state = CsDisabled,
    cn_scope = ScBroad, cn_lastSync = ''12d ago'', cn_can = [''Accept inbound JSON payloads from known senders''],
    cn_cannot = [''Initiate outbound calls'', ''Bypass rate limits'', ''Persist payloads beyond 30 days''],
    cn_note = None\<rparr>,
    \<lparr>cn_id = ''discord'', cn_name = ''Discord'', cn_glyph = ''Ds'', cn_tint = TnQuarantined, cn_state = CsDeferred,
    cn_scope = ScScoped, cn_lastSync = [CHR 0xE2, CHR 0x80, CHR 0x94], cn_can = [], cn_cannot = [], cn_note = None\<rparr>,
    \<lparr>cn_id = ''slack'', cn_name = ''Slack'', cn_glyph = ''Sk'', cn_tint = TnQuarantined, cn_state = CsDeferred,
    cn_scope = ScScoped, cn_lastSync = [CHR 0xE2, CHR 0x80, CHR 0x94], cn_can = [], cn_cannot = [], cn_note = None\<rparr>,
    \<lparr>cn_id = ''whatsapp'', cn_name = ''WhatsApp'', cn_glyph = ''Wa'', cn_tint = TnQuarantined, cn_state = CsDeferred,
    cn_scope = ScScoped, cn_lastSync = [CHR 0xE2, CHR 0x80, CHR 0x94], cn_can = [], cn_cannot = [], cn_note = None\<rparr>,
    \<lparr>cn_id = ''feishu'', cn_name = ''Feishu'', cn_glyph = ''Fs'', cn_tint = TnQuarantined, cn_state = CsDeferred,
    cn_scope = ScScoped, cn_lastSync = [CHR 0xE2, CHR 0x80, CHR 0x94], cn_can = [], cn_cannot = [], cn_note = None\<rparr>,
    \<lparr>cn_id = ''browser'', cn_name = ''Browser'', cn_glyph = ''Br'', cn_tint = TnQuarantined, cn_state = CsDeferred,
    cn_scope = ScBroad, cn_lastSync = [CHR 0xE2, CHR 0x80, CHR 0x94], cn_can = [], cn_cannot = [], cn_note = None\<rparr>,
    \<lparr>cn_id = ''fs'', cn_name = ''Filesystem'', cn_glyph = ''Fs'', cn_tint = TnQuarantined, cn_state = CsDeferred,
    cn_scope = ScRestricted, cn_lastSync = [CHR 0xE2, CHR 0x80, CHR 0x94], cn_can = [], cn_cannot = [], cn_note = None\<rparr>]"

definition mockModes :: "mode_card list" where
  "mockModes =
   [\<lparr>mo_id = DmSolo, mo_name = ''Solo'', mo_tagline = ''SQLite, local to your device.'',
    mo_changes = \<lparr>mc_dataLocation = ''Stays on this laptop in ~/Library/IronGolem.'',
    mc_sharing = ''Only you. No external surface.'', mc_security = ''Device-bound passkey, no inbound network.''\<rparr>,
    mo_bullets = [''~250 MB on disk'', ''Encrypted at rest'', ''Offline-capable'']\<rparr>,
    \<lparr>mo_id = DmHousehold, mo_name = ''Household'', mo_tagline = ''Shared SQLite for up to 6 operators.'',
    mo_changes = \<lparr>mc_dataLocation = (''On a designated '' @ [CHR 0x27] @ ''host'' @ [CHR 0x27] @ '' device; replicated to housemates over local network.''),
    mc_sharing = ''Selected housemates see shared inboxes and recipes; private items stay private.'',
    mc_security = ''Per-operator passkeys, shared workspace token, household-only sync.''\<rparr>,
    mo_bullets = [''LAN sync only'', ''Per-room scope'', ''Recipe inheritance'']\<rparr>,
    \<lparr>mo_id = DmTeam, mo_name = ''Team'', mo_tagline = ''PostgreSQL, multi-tenant.'',
    mo_changes = \<lparr>mc_dataLocation = ''Managed Postgres in your selected region.'',
    mc_sharing = ''Org admin controls who sees what; role-based access.'',
    mc_security = ''SSO + audit trail + per-tenant encryption keys.''\<rparr>,
    mo_bullets = [''Up to 200 operators'', ''SOC 2 ready'', ''External audit feed'']\<rparr>]"

definition mockRecipeRequests :: "recipe_request list" where
  "mockRecipeRequests =
   [\<lparr>rq_id = ''r1'', rq_title = ''Renew domain registrations 30 days early'',
    rq_one = ''Catch lapses before any registrar surprise.'', rq_votes = 41, rq_mine = True, rq_status = RqInReview\<rparr>,
    \<lparr>rq_id = ''r2'', rq_title = ''Summarize my standing weekly meetings'',
    rq_one = ''One paragraph per meeting with action items.'', rq_votes = 36, rq_mine = False, rq_status = RqOpen\<rparr>,
    \<lparr>rq_id = ''r3'', rq_title = ''Reconcile bank export with invoices'',
    rq_one = ''Match Plaid statements to outstanding invoices.'', rq_votes = 29, rq_mine = False, rq_status = RqOpen\<rparr>,
    \<lparr>rq_id = ''r4'', rq_title = ''Watch for SSL cert expiry on 4 domains'',
    rq_one = ''Open a draft renewal 21 days before expiry.'', rq_votes = 22, rq_mine = True, rq_status = RqShipped\<rparr>,
    \<lparr>rq_id = ''r5'', rq_title = ''Triage Discord mentions while focused'',
    rq_one = ''Hold non-urgent pings until focus mode ends.'', rq_votes = 17, rq_mine = False, rq_status = RqOpen\<rparr>]"

text \<open>\<open>api.v2.settings.getMock\<close>.\<close>

definition settings_fixture :: settings_mock where
  "settings_fixture =
     \<lparr>sm_operator = mockOperator, sm_workspace = mockWorkspace, sm_sessions = mockSessions, sm_connectors = mockConnectors,
      sm_modes = mockModes, sm_recipeRequests = mockRecipeRequests\<rparr>"

section \<open>Identifiers\<close>

lemma mode_ids: "map mo_id mockModes = [DmSolo, DmHousehold, DmTeam]"
  by (simp only: mockModes_def list.map mode_card.select_convs)

interpretation session_data: keyed_data ss_id mockSessions
  by unfold_locales (simp only: mockSessions_def list.map session.select_convs, code_simp)

interpretation connector_data: keyed_data cn_id mockConnectors
  by unfold_locales (simp only: mockConnectors_def list.map connector.select_convs, code_simp)

interpretation mode_data: keyed_data mo_id mockModes
  by unfold_locales (simp add: mode_ids)

interpretation request_data: keyed_data rq_id mockRecipeRequests
  by unfold_locales (simp only: mockRecipeRequests_def list.map recipe_request.select_convs, code_simp)

section \<open>The page on its fixtures\<close>

text \<open>Every deployment mode has its card, so the current mode and every switch find one, whatever the page did.\<close>

lemma every_mode_has_card: "\<exists>c \<in> set mockModes. find_mode settings_fixture d = Some c \<and> mo_id c = d"
proof -
  have "d \<in> set (map mo_id mockModes)" unfolding mode_ids by (cases d) simp_all
  then obtain c where "c \<in> set mockModes" "mo_id c = d" by auto
  then show ?thesis using mode_data.find_own by (fastforce simp: find_mode_def settings_fixture_def)
qed

lemma current_mode_shown: "current settings_fixture s \<noteq> None"
  using every_mode_has_card [of "sg_deployment s"] by (auto simp: current_def)

text \<open>Exactly one session is the current one, and no request counts fewer votes than the operator's own.\<close>

lemma one_current_session: "count_list (map ss_current mockSessions) True = 1"
  by (simp add: mockSessions_def)

lemma own_votes_counted: "list_all (\<lambda>(v, m). (if m then 1 else 0) \<le> v) (map (\<lambda>r. (rq_votes r, rq_mine r)) mockRecipeRequests)"
  by (simp add: mockRecipeRequests_def)

text \<open>A deferred connector promises nothing yet; every other one says what it can and cannot do.\<close>

lemma connector_promises:
  "list_all (\<lambda>(st, c, n). (st = CsDeferred) = (c = []) \<and> (st = CsDeferred) = (n = []))
     (map (\<lambda>c. (cn_state c, cn_can c, cn_cannot c)) mockConnectors)"
  by (simp only: mockConnectors_def list.map connector.select_convs) code_simp

end
