(* ===== verification/Memory_Fixtures.thy ===== *)
theory Memory_Fixtures
  imports Memory_Page Fixture_Data
begin

text \<open>
  The fixtures of the Memory page (\<open>apps/web/src/_mocks/memory.ts\<close>): twenty-two facts with their evidence.
\<close>

definition memory_m01 :: memory_item where
  "memory_m01 = \<lparr>mi_id = ''m01'', mi_subject = People,
    mi_subjectLabel = (''Sarah Lopez '' @ [CHR 0xE2, CHR 0x80, CHR 0x94] @ '' calendar''),
    mi_fact = ''Prefers Thursday afternoons for status meetings; declines anything before 10am.'', mi_confidence = 94,
    mi_lastTouchedHours = 2, mi_lastTouchedLabel = ''Verified 2h ago'', mi_verified = True,
    mi_evidence = [\<lparr>ev_id = ''e01a'', ev_when = ''2h ago'', ev_source = ''Calendar history'', ev_ref = ''calendar/sarah-lopez'',
    ev_snippet = ''Declined 09:30 invite, suggested Thursday 14:00.''\<rparr>,
        \<lparr>ev_id = ''e01b'', ev_when = ''1w ago'', ev_source = ''Calendar history'', ev_ref = ''calendar/sarah-lopez'',
    ev_snippet = (''Three of last four 1:1s held Thursday 14:00'' @ [CHR 0xE2, CHR 0x80, CHR 0x93] @ ''14:30.'')\<rparr>,
        \<lparr>ev_id = ''e01c'', ev_when = ''3w ago'', ev_source = ''Direct statement'', ev_ref = ''thread/2026-04-18'',
    ev_snippet = ([CHR 0x22] @ ''Mornings are blocked for deep work, Thursdays are easiest.'' @ [CHR 0x22])\<rparr>],
    mi_tags = [''scheduling'', ''exec'']\<rparr>"

definition memory_m02 :: memory_item where
  "memory_m02 = \<lparr>mi_id = ''m02'', mi_subject = Accounts,
    mi_subjectLabel = (''Riverbend Co '' @ [CHR 0xE2, CHR 0x80, CHR 0x94] @ '' MSA''),
    mi_fact = ''Master services agreement renews on Aug 14, 2026. Renewal owner is Priya Shah.'', mi_confidence = 99,
    mi_lastTouchedHours = 6, mi_lastTouchedLabel = ''Verified 6h ago'', mi_verified = True,
    mi_evidence = [\<lparr>ev_id = ''e02a'', ev_when = ''6h ago'', ev_source = ''Contracts vault'', ev_ref = ''contracts/riverbend/msa-v3'',
    ev_snippet = ''Renewal date field reads 2026-08-14.''\<rparr>,
        \<lparr>ev_id = ''e02b'', ev_when = ''1m ago'', ev_source = ''Email thread'', ev_ref = ''thread/priya-msa'',
    ev_snippet = ''Priya confirmed she owns the renewal cycle.''\<rparr>], mi_tags = [''contracts'']\<rparr>"

definition memory_m03 :: memory_item where
  "memory_m03 = \<lparr>mi_id = ''m03'', mi_subject = Preferences,
    mi_subjectLabel = (''You '' @ [CHR 0xE2, CHR 0x80, CHR 0x94] @ '' drafting tone''),
    mi_fact = ''You prefer short, plain-English replies. No greetings, no sign-offs in internal threads.'',
    mi_confidence = 91, mi_lastTouchedHours = 5, mi_lastTouchedLabel = ''Verified 5h ago'', mi_verified = True,
    mi_evidence = [\<lparr>ev_id = ''e03a'', ev_when = ''5h ago'', ev_source = ''Edit history'', ev_ref = ''edits/draft-114'',
    ev_snippet = (''You removed '' @ [CHR 0x22] @ ''Hi team,'' @ [CHR 0x22] @ '' and '' @ [CHR 0x22] @ ''Thanks,'' @ [CHR 0x22] @ '' before sending.'')\<rparr>,
        \<lparr>ev_id = ''e03b'', ev_when = ''4d ago'', ev_source = ''Edit history'', ev_ref = ''edits/draft-098'',
    ev_snippet = ''You shortened a 3-paragraph draft to 4 lines.''\<rparr>,
        \<lparr>ev_id = ''e03c'', ev_when = ''3w ago'', ev_source = ''Edit history'', ev_ref = ''edits/draft-072'',
    ev_snippet = ''Same pattern: removed openers, kept first sentence.''\<rparr>],
    mi_tags = [''voice'', ''writing'']\<rparr>"

definition memory_m04 :: memory_item where
  "memory_m04 = \<lparr>mi_id = ''m04'', mi_subject = Patterns,
    mi_subjectLabel = (''Weekly '' @ [CHR 0xE2, CHR 0x80, CHR 0x94] @ '' invoice batch''),
    mi_fact = ''On Fridays around 3pm you process the supplier invoice batch end-to-end.'', mi_confidence = 87,
    mi_lastTouchedHours = 26, mi_lastTouchedLabel = ''Last seen yesterday'', mi_verified = False,
    mi_evidence = [\<lparr>ev_id = ''e04a'', ev_when = ''yesterday'', ev_source = ''Activity log'', ev_ref = ''log/2026-05-09'',
    ev_snippet = (''Approved 7 invoices in a single 22-minute session, 15:02'' @ [CHR 0xE2, CHR 0x80, CHR 0x93] @ ''15:24.'')\<rparr>,
        \<lparr>ev_id = ''e04b'', ev_when = ''1w ago'', ev_source = ''Activity log'', ev_ref = ''log/2026-05-02'',
    ev_snippet = ''Same shape: Friday afternoon batch, similar duration.''\<rparr>,
        \<lparr>ev_id = ''e04c'', ev_when = ''5w ago'', ev_source = ''Activity log'', ev_ref = ''log/2026-04-04'',
    ev_snippet = ''Cadence first detected; 4 of last 6 weeks match.''\<rparr>], mi_tags = [''recurring'', ''ap'']\<rparr>"

definition memory_m05 :: memory_item where
  "memory_m05 = \<lparr>mi_id = ''m05'', mi_subject = People,
    mi_subjectLabel = (''Marcus Hill '' @ [CHR 0xE2, CHR 0x80, CHR 0x94] @ '' drafting voice''),
    mi_fact = (''Marcus'' @ [CHR 0x27] @ ''s review notes use clipped declaratives; he edits out hedges like '' @ [CHR 0x22] @ ''might'' @ [CHR 0x22] @ '' and '' @ [CHR 0x22] @ ''perhaps'' @ [CHR 0x22] @ ''.''),
    mi_confidence = 82, mi_lastTouchedHours = 11, mi_lastTouchedLabel = ''Verified 11h ago'', mi_verified = True,
    mi_evidence = [\<lparr>ev_id = ''e05a'', ev_when = ''11h ago'', ev_source = ''Edit history'', ev_ref = ''edits/draft-122'',
    ev_snippet = (''Replaced '' @ [CHR 0x22] @ ''might be worth considering'' @ [CHR 0x22] @ '' '' @ [CHR 0xE2, CHR 0x86, CHR 0x92] @ '' '' @ [CHR 0x22] @ ''consider'' @ [CHR 0x22] @ ''.'')\<rparr>,
        \<lparr>ev_id = ''e05b'', ev_when = ''5d ago'', ev_source = ''Edit history'', ev_ref = ''edits/draft-101'',
    ev_snippet = (''Replaced '' @ [CHR 0x22] @ ''perhaps'' @ [CHR 0x22] @ '' '' @ [CHR 0xE2, CHR 0x86, CHR 0x92] @ '' cut entirely.'')\<rparr>],
    mi_tags = [''voice'']\<rparr>"

definition memory_m06 :: memory_item where
  "memory_m06 = \<lparr>mi_id = ''m06'', mi_subject = Accounts,
    mi_subjectLabel = (''Halford '' @ [CHR 0xE2, CHR 0x80, CHR 0x94] @ '' pump supplier''),
    mi_fact = ''Halford ships maintenance pumps; PO-24-099 references lot 24-118 currently under recall.'',
    mi_confidence = 96, mi_lastTouchedHours = 30, mi_lastTouchedLabel = ''Verified yesterday'', mi_verified = True,
    mi_evidence = [\<lparr>ev_id = ''e06a'', ev_when = ''yesterday'', ev_source = ''Recall feed'', ev_ref = ''halford.io/recall/2024-118'',
    ev_snippet = ''Lot 24-118 listed for replacement.''\<rparr>,
        \<lparr>ev_id = ''e06b'', ev_when = ''1m ago'', ev_source = ''Workspace PO history'', ev_ref = ''po/24-099'',
    ev_snippet = ''PO references lot 24-118, qty 2.''\<rparr>], mi_tags = [''purchasing'', ''alert'']\<rparr>"

definition memory_m07 :: memory_item where
  "memory_m07 = \<lparr>mi_id = ''m07'', mi_subject = Preferences,
    mi_subjectLabel = (''You '' @ [CHR 0xE2, CHR 0x80, CHR 0x94] @ '' approval threshold''),
    mi_fact = ''You approve standing-order purchases under $50 without further review.'', mi_confidence = 88,
    mi_lastTouchedHours = 70, mi_lastTouchedLabel = ''Verified 3d ago'', mi_verified = True,
    mi_evidence = [\<lparr>ev_id = ''e07a'', ev_when = ''3d ago'', ev_source = ''Approval log'', ev_ref = ''approvals/may-2026'',
    ev_snippet = ''12 approvals at $42 or less in last 30 days, all single-tap.''\<rparr>,
        \<lparr>ev_id = ''e07b'', ev_when = ''8d ago'', ev_source = ''Direct statement'', ev_ref = ''thread/2026-05-02'',
    ev_snippet = ([CHR 0x22] @ ''Under fifty is fine, just approve.'' @ [CHR 0x22])\<rparr>],
    mi_tags = [''purchasing'']\<rparr>"

definition memory_m08 :: memory_item where
  "memory_m08 = \<lparr>mi_id = ''m08'', mi_subject = Patterns,
    mi_subjectLabel = (''Monthly '' @ [CHR 0xE2, CHR 0x80, CHR 0x94] @ '' board update''),
    mi_fact = ''First Monday of each month you draft the board update between 6pm and 8pm PT.'', mi_confidence = 84,
    mi_lastTouchedHours = 216, mi_lastTouchedLabel = ''Last seen 9d ago'', mi_verified = False,
    mi_evidence = [\<lparr>ev_id = ''e08a'', ev_when = ''9d ago'', ev_source = ''Activity log'', ev_ref = ''log/2026-05-02'',
    ev_snippet = (''Drafting session 18:14'' @ [CHR 0xE2, CHR 0x80, CHR 0x93] @ ''19:48 PT.'')\<rparr>,
        \<lparr>ev_id = ''e08b'', ev_when = ''1m ago'', ev_source = ''Activity log'', ev_ref = ''log/2026-04-07'',
    ev_snippet = ''Same window; matching doc title pattern.''\<rparr>,
        \<lparr>ev_id = ''e08c'', ev_when = ''2m ago'', ev_source = ''Activity log'', ev_ref = ''log/2026-03-03'',
    ev_snippet = ''Cadence confirmed across 3 cycles.''\<rparr>], mi_tags = [''recurring'', ''drafting'']\<rparr>"

definition memory_m09 :: memory_item where
  "memory_m09 = \<lparr>mi_id = ''m09'', mi_subject = People,
    mi_subjectLabel = (''Dev Patel '' @ [CHR 0xE2, CHR 0x80, CHR 0x94] @ '' escalation contact''),
    mi_fact = ''Dev is the on-call escalation for ops-bot incidents after 6pm PT weekdays.'', mi_confidence = 76,
    mi_lastTouchedHours = 408, mi_lastTouchedLabel = ''Last seen 17d ago'', mi_verified = False,
    mi_evidence = [\<lparr>ev_id = ''e09a'', ev_when = ''17d ago'', ev_source = ''Email thread'', ev_ref = ''thread/2026-04-24'',
    ev_snippet = ([CHR 0x22] @ ''Dev'' @ [CHR 0x27] @ ''s got it after 6 weekdays.'' @ [CHR 0x22])\<rparr>,
        \<lparr>ev_id = ''e09b'', ev_when = ''5w ago'', ev_source = ''Pager log'', ev_ref = ''pager/2026-04-08'',
    ev_snippet = ''Dev acked at 19:22.''\<rparr>], mi_tags = [''on-call'']\<rparr>"

definition memory_m10 :: memory_item where
  "memory_m10 = \<lparr>mi_id = ''m10'', mi_subject = People,
    mi_subjectLabel = (''Olivia Chen '' @ [CHR 0xE2, CHR 0x80, CHR 0x94] @ '' comms cadence''),
    mi_fact = ''Olivia replies within an hour during US-East business hours; expect 12-24h elsewhere.'',
    mi_confidence = 72, mi_lastTouchedHours = 288, mi_lastTouchedLabel = ''Last seen 12d ago'', mi_verified = False,
    mi_evidence = [\<lparr>ev_id = ''e10a'', ev_when = ''12d ago'', ev_source = ''Reply latency log'', ev_ref = ''metrics/olivia.reply'',
    ev_snippet = ''Median reply 47m within ET business window; 18h overnight.''\<rparr>],
    mi_tags = [''responsiveness'']\<rparr>"

definition memory_m11 :: memory_item where
  "memory_m11 = \<lparr>mi_id = ''m11'', mi_subject = Accounts,
    mi_subjectLabel = (''Trent & Co '' @ [CHR 0xE2, CHR 0x80, CHR 0x94] @ '' billing''),
    mi_fact = ''Trent & Co bills NET-30 by wire; preferred payment day is the 20th of the month.'', mi_confidence = 89,
    mi_lastTouchedHours = 144, mi_lastTouchedLabel = ''Verified 6d ago'', mi_verified = True,
    mi_evidence = [\<lparr>ev_id = ''e11a'', ev_when = ''6d ago'', ev_source = ''Invoice history'', ev_ref = ''invoices/trent'',
    ev_snippet = ''12/12 invoices last year paid on or before the 20th.''\<rparr>,
        \<lparr>ev_id = ''e11b'', ev_when = ''3m ago'', ev_source = ''Direct statement'', ev_ref = ''thread/2026-02-10'',
    ev_snippet = ([CHR 0x22] @ ''Around the 20th works best on our end.'' @ [CHR 0x22])\<rparr>],
    mi_tags = [''ap'']\<rparr>"

definition memory_m12 :: memory_item where
  "memory_m12 = \<lparr>mi_id = ''m12'', mi_subject = Preferences,
    mi_subjectLabel = (''You '' @ [CHR 0xE2, CHR 0x80, CHR 0x94] @ '' notification style''),
    mi_fact = ''You want one daily digest at 8am PT; no per-event push notifications.'', mi_confidence = 96,
    mi_lastTouchedHours = 4, mi_lastTouchedLabel = ''Verified 4h ago'', mi_verified = True,
    mi_evidence = [\<lparr>ev_id = ''e12a'', ev_when = ''4h ago'', ev_source = ''Settings'', ev_ref = ''settings/notifications'',
    ev_snippet = ''Per-event push disabled; daily digest enabled at 08:00 PT.''\<rparr>,
        \<lparr>ev_id = ''e12b'', ev_when = ''2m ago'', ev_source = ''Direct statement'', ev_ref = ''thread/2026-03-15'',
    ev_snippet = ([CHR 0x22] @ ''Stop pinging me '' @ [CHR 0xE2, CHR 0x80, CHR 0x94] @ '' just send one digest in the morning.'' @ [CHR 0x22])\<rparr>],
    mi_tags = [''notifications'']\<rparr>"

definition memory_m13 :: memory_item where
  "memory_m13 = \<lparr>mi_id = ''m13'', mi_subject = Patterns,
    mi_subjectLabel = (''Inbox '' @ [CHR 0xE2, CHR 0x80, CHR 0x94] @ '' known senders auto-triage''),
    mi_fact = ''Mail from 14 known senders is auto-archived after triage with no draft reply required.'',
    mi_confidence = 80, mi_lastTouchedHours = 48, mi_lastTouchedLabel = ''Verified 2d ago'', mi_verified = True,
    mi_evidence = [\<lparr>ev_id = ''e13a'', ev_when = ''2d ago'', ev_source = ''Triage log'', ev_ref = ''triage/known-senders'',
    ev_snippet = ''14 senders auto-archived in trailing 7 days; 0 user reversals.''\<rparr>],
    mi_tags = [''inbox'', ''automation'']\<rparr>"

definition memory_m14 :: memory_item where
  "memory_m14 = \<lparr>mi_id = ''m14'', mi_subject = Patterns,
    mi_subjectLabel = (''Research '' @ [CHR 0xE2, CHR 0x80, CHR 0x94] @ '' pricing watch cadence''),
    mi_fact = ''You read the pricing-watch digest within 2 hours of it landing on weekdays.'', mi_confidence = 68,
    mi_lastTouchedHours = 840, mi_lastTouchedLabel = ''Last seen 35d ago'', mi_verified = False,
    mi_evidence = [\<lparr>ev_id = ''e14a'', ev_when = ''35d ago'', ev_source = ''Read log'', ev_ref = ''metrics/pricing-watch.read'',
    ev_snippet = ''Open within 2h on 11 of last 14 weekdays; pattern weakening.''\<rparr>],
    mi_tags = [''research'', ''stale'']\<rparr>"

definition memory_m15 :: memory_item where
  "memory_m15 = \<lparr>mi_id = ''m15'', mi_subject = People,
    mi_subjectLabel = (''Sarah Lopez '' @ [CHR 0xE2, CHR 0x80, CHR 0x94] @ '' direct statement preference''),
    mi_fact = (''Sarah dislikes being CC'' @ [CHR 0x27] @ ''d on FYI threads; she prefers a 5pm-Friday weekly summary instead.''),
    mi_confidence = 90, mi_lastTouchedHours = 96, mi_lastTouchedLabel = ''Verified 4d ago'', mi_verified = True,
    mi_evidence = [\<lparr>ev_id = ''e15a'', ev_when = ''4d ago'', ev_source = ''Direct statement'', ev_ref = ''thread/2026-05-07'',
    ev_snippet = ([CHR 0x22] @ ''Drop me from FYI threads, just send the Friday roll-up.'' @ [CHR 0x22])\<rparr>],
    mi_tags = [''exec'', ''comms'']\<rparr>"

definition memory_m16 :: memory_item where
  "memory_m16 = \<lparr>mi_id = ''m16'', mi_subject = Accounts,
    mi_subjectLabel = (''Yates Holdings '' @ [CHR 0xE2, CHR 0x80, CHR 0x94] @ '' banking''),
    mi_fact = ''Yates Holdings updated bank routing on May 10, 2026; old routing on file is stale.'',
    mi_confidence = 86, mi_lastTouchedHours = 26, mi_lastTouchedLabel = ''Verified yesterday'', mi_verified = True,
    mi_evidence = [\<lparr>ev_id = ''e16a'', ev_when = ''yesterday'', ev_source = ''IRS public filings'', ev_ref = ''irs.gov/filings/yates'',
    ev_snippet = ''W-9 amendment filed; new routing reported.''\<rparr>,
        \<lparr>ev_id = ''e16b'', ev_when = ''yesterday'', ev_source = ''Vendor email'', ev_ref = ''ops@yatesholdings.com'',
    ev_snippet = ([CHR 0x22] @ ''Please update payment details to attached.'' @ [CHR 0x22])\<rparr>],
    mi_tags = [''alert'', ''ap'']\<rparr>"

definition memory_m17 :: memory_item where
  "memory_m17 = \<lparr>mi_id = ''m17'', mi_subject = Preferences,
    mi_subjectLabel = (''You '' @ [CHR 0xE2, CHR 0x80, CHR 0x94] @ '' quiet hours''),
    mi_fact = (''You don'' @ [CHR 0x27] @ ''t want assistant actions executed between 11pm and 6am PT (drafts okay; sends not).''),
    mi_confidence = 93, mi_lastTouchedHours = 120, mi_lastTouchedLabel = ''Verified 5d ago'', mi_verified = True,
    mi_evidence = [\<lparr>ev_id = ''e17a'', ev_when = ''5d ago'', ev_source = ''Settings'', ev_ref = ''settings/quiet-hours'',
    ev_snippet = (''Quiet hours configured 23:00'' @ [CHR 0xE2, CHR 0x80, CHR 0x93] @ ''06:00 PT, drafts only.'')\<rparr>,
        \<lparr>ev_id = ''e17b'', ev_when = ''2m ago'', ev_source = ''Direct statement'', ev_ref = ''thread/2026-03-18'',
    ev_snippet = ([CHR 0x22] @ ''Hold sends overnight, drafts are fine.'' @ [CHR 0x22])\<rparr>],
    mi_tags = [''policy'']\<rparr>"

definition memory_m18 :: memory_item where
  "memory_m18 = \<lparr>mi_id = ''m18'', mi_subject = Patterns,
    mi_subjectLabel = (''Calendar '' @ [CHR 0xE2, CHR 0x80, CHR 0x94] @ '' 3pm context-switch slump''),
    mi_fact = (''Between 3pm and 4pm PT you'' @ [CHR 0x27] @ ''re 3'' @ [CHR 0xC3, CHR 0x97] @ '' more likely to defer decisions to '' @ [CHR 0x22] @ ''tomorrow'' @ [CHR 0x22] @ ''.''),
    mi_confidence = 64, mi_lastTouchedHours = 984, mi_lastTouchedLabel = ''Last seen 41d ago'', mi_verified = False,
    mi_evidence = [\<lparr>ev_id = ''e18a'', ev_when = ''41d ago'', ev_source = ''Decision log'', ev_ref = ''metrics/defer.rate'',
    ev_snippet = (''Defer rate 3.1'' @ [CHR 0xC3, CHR 0x97] @ '' baseline in the 15:00'' @ [CHR 0xE2, CHR 0x80, CHR 0x93] @ ''16:00 window over 90 days.'')\<rparr>],
    mi_tags = [''energy'', ''low-confidence'']\<rparr>"

definition memory_m19 :: memory_item where
  "memory_m19 = \<lparr>mi_id = ''m19'', mi_subject = People,
    mi_subjectLabel = (''Priya Shah '' @ [CHR 0xE2, CHR 0x80, CHR 0x94] @ '' review style''),
    mi_fact = ''Priya reviews drafts in batches every Tuesday and Friday morning.'', mi_confidence = 78,
    mi_lastTouchedHours = 192, mi_lastTouchedLabel = ''Verified 8d ago'', mi_verified = True,
    mi_evidence = [\<lparr>ev_id = ''e19a'', ev_when = ''8d ago'', ev_source = ''Review log'', ev_ref = ''reviews/priya'',
    ev_snippet = (''11/12 last reviews landed Tue/Fri 09:00'' @ [CHR 0xE2, CHR 0x80, CHR 0x93] @ ''10:30.'')\<rparr>,
        \<lparr>ev_id = ''e19b'', ev_when = ''1m ago'', ev_source = ''Direct statement'', ev_ref = ''thread/2026-04-10'',
    ev_snippet = ([CHR 0x22] @ ''I batch reviews Tuesdays and Fridays.'' @ [CHR 0x22])\<rparr>],
    mi_tags = [''cadence'']\<rparr>"

definition memory_m20 :: memory_item where
  "memory_m20 = \<lparr>mi_id = ''m20'', mi_subject = Accounts,
    mi_subjectLabel = (''Atlas Logistics '' @ [CHR 0xE2, CHR 0x80, CHR 0x94] @ '' risk profile''),
    mi_fact = ''Atlas Logistics flagged as elevated counterparty risk pending Q2 covenant disclosure.'',
    mi_confidence = 67, mi_lastTouchedHours = 768, mi_lastTouchedLabel = ''Last seen 32d ago'', mi_verified = False,
    mi_evidence = [\<lparr>ev_id = ''e20a'', ev_when = ''32d ago'', ev_source = ''Analyst note'', ev_ref = ''moodys.com/notes/atlas-2026'',
    ev_snippet = ''Watchlist with negative implication; awaiting Q2 detail.''\<rparr>],
    mi_tags = [''risk'', ''stale'']\<rparr>"

definition memory_m21 :: memory_item where
  "memory_m21 = \<lparr>mi_id = ''m21'', mi_subject = Preferences,
    mi_subjectLabel = (''You '' @ [CHR 0xE2, CHR 0x80, CHR 0x94] @ '' language''),
    mi_fact = ''English (US) only for outbound communications; never auto-translate to other languages.'',
    mi_confidence = 98, mi_lastTouchedHours = 72, mi_lastTouchedLabel = ''Verified 3d ago'', mi_verified = True,
    mi_evidence = [\<lparr>ev_id = ''e21a'', ev_when = ''3d ago'', ev_source = ''Settings'', ev_ref = ''settings/locale'',
    ev_snippet = ''outboundLocale = en-US, autoTranslate = false.''\<rparr>], mi_tags = [''voice'']\<rparr>"

definition memory_m22 :: memory_item where
  "memory_m22 = \<lparr>mi_id = ''m22'', mi_subject = Patterns,
    mi_subjectLabel = (''Drafts '' @ [CHR 0xE2, CHR 0x80, CHR 0x94] @ '' re-edit ratio''),
    mi_fact = ''Drafts you accept on first pass: 38%. Drafts you accept after one edit: 47%. Two edits: 12%.'',
    mi_confidence = 75, mi_lastTouchedHours = 168, mi_lastTouchedLabel = ''Verified 7d ago'', mi_verified = True,
    mi_evidence = [\<lparr>ev_id = ''e22a'', ev_when = ''7d ago'', ev_source = ''Edit log'', ev_ref = ''metrics/draft.edits'',
    ev_snippet = (''Over 412 drafts in trailing 60 days; distribution stable '' @ [CHR 0xC2, CHR 0xB1] @ ''2pp.'')\<rparr>],
    mi_tags = [''drafting'', ''metric'']\<rparr>"

definition mockMemory :: "memory_item list" where
  "mockMemory =
    [memory_m01, memory_m02, memory_m03, memory_m04, memory_m05, memory_m06, memory_m07, memory_m08, memory_m09,
     memory_m10, memory_m11, memory_m12, memory_m13, memory_m14, memory_m15, memory_m16, memory_m17, memory_m18,
     memory_m19, memory_m20, memory_m21, memory_m22]"

section \<open>Identifiers\<close>

lemmas fact_defs =
  memory_m01_def memory_m02_def memory_m03_def memory_m04_def memory_m05_def memory_m06_def memory_m07_def
  memory_m08_def memory_m09_def memory_m10_def memory_m11_def memory_m12_def memory_m13_def memory_m14_def
  memory_m15_def memory_m16_def memory_m17_def memory_m18_def memory_m19_def memory_m20_def memory_m21_def
  memory_m22_def mockMemory_def

lemma fact_ids: "map mi_id mockMemory = map (\<lambda>n. CHR ''m'' # nat_str (n div 10) @ nat_str (n mod 10)) [1..<23]"
  by (simp only: fact_defs list.map memory_item.select_convs) code_simp

interpretation fact_data: keyed_data mi_id mockMemory
  by unfold_locales (simp only: fact_ids, code_simp)

interpretation evidence_data: keyed_data ev_id "concat (map mi_evidence mockMemory)"
  by unfold_locales (simp only: fact_defs list.map concat.simps append.simps append_Nil2 memory_item.select_convs evidence.select_convs, code_simp)

section \<open>The page on its fixtures\<close>

lemma fact_hours: "map mi_lastTouchedHours mockMemory
  = [2, 6, 5, 26, 11, 30, 70, 216, 408, 288, 144, 4, 48, 840, 96, 26, 120, 984, 192, 768, 72, 168]"
  by (simp only: fact_defs list.map memory_item.select_convs)

text \<open>Each fact has evidence, its confidence is a percentage, and a fact that is to be verified again is one that was not
  verified and is at most seventy per cent sure.\<close>

lemma facts_have_evidence:
  "list_all (\<lambda>(n, c). 0 < n \<and> 0 \<le> c \<and> c \<le> 100) (map (\<lambda>m. (length (mi_evidence m), mi_confidence m)) mockMemory)"
  by (simp only: fact_defs list.map memory_item.select_convs) simp

lemma stale_facts_unsure:
  "list_all (\<lambda>(h, v, c). STALE_HOURS < h \<longrightarrow> \<not> v \<and> c \<le> 70) (map (\<lambda>m. (mi_lastTouchedHours m, mi_verified m, mi_confidence m)) mockMemory)"
  by (simp only: fact_defs list.map memory_item.select_convs) (simp add: STALE_HOURS_def)

text \<open>Whatever was forgotten and restored, the page holds or remembers exactly the fixtures' facts.\<close>

lemma fixtures_conserved:
  assumes "page_run memory_enabled memory_exec evs (memory_init mockMemory) = Some s"
  shows "mset (allItems s) + mset (forgotten s) = mset mockMemory"
proof -
  have "memory_inv mockMemory t" if "page_run memory_enabled memory_exec evs u = Some t" "memory_inv mockMemory u" for u t
    using that by (induction evs arbitrary: u) (auto intro: memory_inv_step [OF fact_data.distinct_keys] split: if_splits)
  moreover have "memory_inv mockMemory (memory_init mockMemory)" by (simp add: memory_inv_def memory_init_def)
  ultimately show ?thesis using assms by (auto simp: memory_inv_def)
qed

end
