(* ===== verification/Research_Fixtures.thy ===== *)
theory Research_Fixtures
  imports Research_Page Fixture_Data
begin

text \<open>
  The fixtures of the Research page (\<open>apps/web/src/_mocks/research.ts\<close>): fourteen findings with their sources, and
  the two numbers of the header.
\<close>

definition mockQuietlyArchivedToday :: "nat" where
  "mockQuietlyArchivedToday = 1284"

definition mockSourcesMonitored :: "nat" where
  "mockSourcesMonitored = 47"

definition research_f01 :: research_finding where
  "research_f01 = \<lparr>rf_id = ''f01'', rf_title = ''Carbon credit spot price up 11% overnight, broadest move in three months'',
    rf_summary = ''Two of three approved price sources show carbon spot at $89.40 this morning, an 11% jump on the three-month range. The move is concentrated in N-American voluntary credits; compliance markets are flat. Your Q3 Riverbend purchase draft references the old price.'',
    rf_topic = TPricing, rf_impact = ImHigh, rf_confidence = 92, rf_freshness = ''2h ago'', rf_freshnessMinutes = 120,
    rf_primarySource = ''bloomberg.terminal/cc.spot'',
    rf_sources = [\<lparr>so_id = ''s01a'', so_name = ''Bloomberg carbon spot'', so_url = ''bloomberg.terminal/cc.spot'', so_kind = SkIndex,
    so_publishedAt = ''2h ago'',
    so_snippet = ''Voluntary carbon spot closes $89.40, +11.2% on 90-day MA. North-American basket leads gains; compliance basket -0.3%.'',
    so_agreement = Agrees\<rparr>,
        \<lparr>so_id = ''s01b'', so_name = ''S&P Platts CCM'', so_url = ''spglobal.com/ccm/daily'', so_kind = SkIndex,
    so_publishedAt = ''3h ago'',
    so_snippet = ''CCM index +10.8%, with NA-VCS posting strongest single-session gain since February.'',
    so_agreement = Agrees\<rparr>,
        \<lparr>so_id = ''s01c'', so_name = ''Reuters commodities desk'', so_url = ''reuters.com/markets/commodities'',
    so_kind = SkReleaseNotes, so_publishedAt = ''4h ago'',
    so_snippet = (''Bid-ask spread widened materially overnight; one regional desk reports paper at $84.10 '' @ [CHR 0xE2, CHR 0x80, CHR 0x94] @ '' below other prints.''),
    so_agreement = Conflicts\<rparr>], rf_contradictionCount = 1,
    rf_classifier = \<lparr>ct_name = ''PriceMoveDetector v3'',
    ct_rule = (''Move '' @ [CHR 0xE2, CHR 0x89, CHR 0xA5] @ ''5% on '' @ [CHR 0xE2, CHR 0x89, CHR 0xA5] @ ''2 approved sources within 6h window''),
    ct_confidence = 23 / 25\<rparr>, rf_suggestedAction = ApplyFinding, rf_featured = Some True\<rparr>"

definition research_f02 :: research_finding where
  "research_f02 = \<lparr>rf_id = ''f02'', rf_title = ''Stripe deprecating legacy webhook payload format on Aug 1'',
    rf_summary = (''Stripe published a deprecation notice for the v1 webhook payload format used by your dispute-evidence pipeline. The v2 format adds a signature header and renames three fields. Your '' @ [CHR 0x60] @ ''acknowledge Stripe disputes'' @ [CHR 0x60] @ '' recipe will need its handler updated before August.''),
    rf_topic = TApi, rf_impact = ImHigh, rf_confidence = 96, rf_freshness = ''5h ago'', rf_freshnessMinutes = 300,
    rf_primarySource = ''stripe.com/changelog/2026-05'',
    rf_sources = [\<lparr>so_id = ''s02a'', so_name = ''Stripe changelog'', so_url = ''stripe.com/changelog/2026-05'',
    so_kind = SkReleaseNotes, so_publishedAt = ''5h ago'',
    so_snippet = ''v1 webhook payload is deprecated effective Aug 1, 2026. Endpoints not migrated will continue to receive payloads but headers will be downgraded.'',
    so_agreement = Agrees\<rparr>,
        \<lparr>so_id = ''s02b'', so_name = ''Stripe developer mailing list'', so_url = ''groups.stripe.com/devs'',
    so_kind = SkAlert, so_publishedAt = ''5h ago'',
    so_snippet = ''Direct notice to integrators using v1 payloads on the dispute.* and charge.dispute.* topics. Migration guide linked.'',
    so_agreement = Agrees\<rparr>], rf_contradictionCount = 0,
    rf_classifier = \<lparr>ct_name = ''ChangelogWatcher v2'', ct_rule = ''Deprecation keyword + endpoint in active recipe permission list'',
    ct_confidence = 24 / 25\<rparr>, rf_suggestedAction = ApplyFinding, rf_featured = None\<rparr>"

definition research_f03 :: research_finding where
  "research_f03 = \<lparr>rf_id = ''f03'', rf_title = ''Yates Holdings filed an updated W-9; bank routing has changed'',
    rf_summary = ''Yates Holdings, a vendor on your standing-purchase list, filed a new W-9 with a different routing number than the one on record. The change is not yet reflected in your vendor table. Any auto-approved standing-order PO would still use the old routing.'',
    rf_topic = TSupplier, rf_impact = ImHigh, rf_confidence = 88, rf_freshness = ''yesterday'',
    rf_freshnessMinutes = 1560, rf_primarySource = ''irs.gov/filings/yates-holdings'',
    rf_sources = [\<lparr>so_id = ''s03a'', so_name = ''IRS public filings'', so_url = ''irs.gov/filings/yates-holdings'',
    so_kind = SkFiling, so_publishedAt = ''yesterday'',
    so_snippet = ''W-9 amendment filed 2026-05-10. Address unchanged; bank routing updated.'', so_agreement = Agrees\<rparr>,
        \<lparr>so_id = ''s03b'', so_name = ''Yates AP team email'', so_url = ''ops@yatesholdings.com'', so_kind = SkAlert,
    so_publishedAt = ''yesterday'',
    so_snippet = (''FYI '' @ [CHR 0xE2, CHR 0x80, CHR 0x94] @ '' please update payment details. New routing/account on the attached letter.''),
    so_agreement = Agrees\<rparr>,
        \<lparr>so_id = ''s03c'', so_name = ''Workspace vendor table'', so_url = ''internal://vendors/yates'', so_kind = SkFiling,
    so_publishedAt = ''12d ago'',
    so_snippet = ''Routing on file: 121-000-358 (Bank of the West). Last verified 12 days ago.'',
    so_agreement = Conflicts\<rparr>], rf_contradictionCount = 1,
    rf_classifier = \<lparr>ct_name = ''VendorBankChange v1'', ct_rule = ''External W-9 routing differs from internal vendor table'',
    ct_confidence = 22 / 25\<rparr>, rf_suggestedAction = ApplyFinding, rf_featured = None\<rparr>"

definition research_f04 :: research_finding where
  "research_f04 = \<lparr>rf_id = ''f04'', rf_title = ''OpenAI lowered pricing on the model your drafting pipeline uses'',
    rf_summary = ''The model your drafting recipes route through dropped 35% in input price and 20% in output price, effective immediately. No quality or rate-limit changes were announced. Your monthly drafting spend would drop roughly $84/month at current volume.'',
    rf_topic = TPricing, rf_impact = ImMedium, rf_confidence = 94, rf_freshness = ''8h ago'',
    rf_freshnessMinutes = 480, rf_primarySource = ''openai.com/pricing'',
    rf_sources = [\<lparr>so_id = ''s04a'', so_name = ''OpenAI pricing page'', so_url = ''openai.com/pricing'', so_kind = SkReleaseNotes,
    so_publishedAt = ''8h ago'',
    so_snippet = (''Input pricing reduced from $0.20 '' @ [CHR 0xE2, CHR 0x86, CHR 0x92] @ '' $0.13 per 1M tokens. Output pricing reduced from $0.80 '' @ [CHR 0xE2, CHR 0x86, CHR 0x92] @ '' $0.64 per 1M tokens.''),
    so_agreement = Agrees\<rparr>,
        \<lparr>so_id = ''s04b'', so_name = ''OpenAI blog'', so_url = ''openai.com/blog/pricing-may-2026'', so_kind = SkBlog,
    so_publishedAt = ''8h ago'',
    so_snippet = ''Effective immediately across all standard tiers. Enterprise contracts unaffected.'',
    so_agreement = Agrees\<rparr>], rf_contradictionCount = 0,
    rf_classifier = \<lparr>ct_name = ''PricingWatch v4'',
    ct_rule = (''Vendor in active recipe list has pricing delta '' @ [CHR 0xE2, CHR 0x89, CHR 0xA5] @ ''10%''),
    ct_confidence = 47 / 50\<rparr>, rf_suggestedAction = MarkReviewed, rf_featured = None\<rparr>"

definition research_f05 :: research_finding where
  "research_f05 = \<lparr>rf_id = ''f05'', rf_title = ''Pump-supplier Halford issued a recall on lot 24-118 maintenance pumps'',
    rf_summary = ''Halford notified affected accounts that pumps shipped under lot 24-118 may have a sealing defect. Your maintenance PO from April referenced lot 24-118. The recall offers replacement at no cost; nothing on your side is overdue yet.'',
    rf_topic = TSupplier, rf_impact = ImHigh, rf_confidence = 90, rf_freshness = ''yesterday'',
    rf_freshnessMinutes = 1800, rf_primarySource = ''halford.io/recall/2024-118'',
    rf_sources = [\<lparr>so_id = ''s05a'', so_name = ''Halford recall notice'', so_url = ''halford.io/recall/2024-118'', so_kind = SkAlert,
    so_publishedAt = ''yesterday'',
    so_snippet = ''Lot 24-118 may exhibit premature seal failure under continuous duty. Replacement available through standard RMA.'',
    so_agreement = Agrees\<rparr>,
        \<lparr>so_id = ''s05b'', so_name = ''Workspace PO history'', so_url = ''internal://purchasing/po'', so_kind = SkFiling,
    so_publishedAt = ''1mo ago'', so_snippet = ''PO-24-099 references lot 24-118, pump replacement, qty 2.'',
    so_agreement = Agrees\<rparr>], rf_contradictionCount = 0,
    rf_classifier = \<lparr>ct_name = ''RecallWatcher v2'', ct_rule = ''Supplier recall lot ID matches internal PO record'',
    ct_confidence = 9 / 10\<rparr>, rf_suggestedAction = ApplyFinding, rf_featured = None\<rparr>"

definition research_f06 :: research_finding where
  "research_f06 = \<lparr>rf_id = ''f06'',
    rf_title = (''Lithium spot off 4% on stronger inventory data '' @ [CHR 0xE2, CHR 0x80, CHR 0x94] @ '' directional, not material''),
    rf_summary = ''Three approved price sources show lithium carbonate spot down 4% on the week, attributed to looser Q2 inventory reports out of Chile. The move is below your 5% material-change threshold; logged here as directional context only.'',
    rf_topic = TPricing, rf_impact = ImLow, rf_confidence = 79, rf_freshness = ''5h ago'', rf_freshnessMinutes = 300,
    rf_primarySource = ''spglobal.com/lithium'',
    rf_sources = [\<lparr>so_id = ''s06a'', so_name = ''S&P Platts lithium daily'', so_url = ''spglobal.com/lithium'', so_kind = SkIndex,
    so_publishedAt = ''5h ago'', so_snippet = ''Spot lithium carbonate -3.9% on the week.'', so_agreement = Agrees\<rparr>,
        \<lparr>so_id = ''s06b'', so_name = ''Bloomberg metals'', so_url = ''bloomberg.terminal/metals.li'', so_kind = SkIndex,
    so_publishedAt = ''6h ago'',
    so_snippet = ''Lithium carbonate prints -4.1%, in line with broader battery-metals weakness.'',
    so_agreement = Agrees\<rparr>,
        \<lparr>so_id = ''s06c'', so_name = ''Fastmarkets'', so_url = ''fastmarkets.com/lithium'', so_kind = SkIndex,
    so_publishedAt = ''7h ago'', so_snippet = ''Index move -4.0%, attributed to looser Chile Q2 inventories.'',
    so_agreement = Agrees\<rparr>], rf_contradictionCount = 0,
    rf_classifier = \<lparr>ct_name = ''PriceMoveDetector v3'',
    ct_rule = (''Move <5% on watched index '' @ [CHR 0xE2, CHR 0x80, CHR 0x94] @ '' directional log only''),
    ct_confidence = 79 / 100\<rparr>, rf_suggestedAction = MarkReviewed, rf_featured = None\<rparr>"

definition research_f07 :: research_finding where
  "research_f07 = \<lparr>rf_id = ''f07'',
    rf_title = (''EU AI Act enforcement guidance for SMEs published '' @ [CHR 0xE2, CHR 0x80, CHR 0x94] @ '' actionable in Q4''),
    rf_summary = ''The EU Commission released SME-specific enforcement guidance for the AI Act. Operator-in-the-loop systems (like this workspace) are explicitly carved out of the high-risk classification. Your existing safety posture appears compliant.'',
    rf_topic = TIndustry, rf_impact = ImMedium, rf_confidence = 86, rf_freshness = ''yesterday'',
    rf_freshnessMinutes = 1320, rf_primarySource = ''ec.europa.eu/ai-act/sme'',
    rf_sources = [\<lparr>so_id = ''s07a'', so_name = ''EU Commission release'', so_url = ''ec.europa.eu/ai-act/sme'',
    so_kind = SkReleaseNotes, so_publishedAt = ''yesterday'',
    so_snippet = ''Operator-in-the-loop systems with auditable safety layers are not classified as high-risk under Annex III.'',
    so_agreement = Agrees\<rparr>,
        \<lparr>so_id = ''s07b'', so_name = ''Hartlaw client memo'', so_url = ''hartlaw.com/memos/2026-05-eu-ai-sme'',
    so_kind = SkDigest, so_publishedAt = ''12h ago'',
    so_snippet = ''Workspaces matching the operator-loop pattern (drafts surface for approval) likely qualify for the SME carve-out.'',
    so_agreement = Agrees\<rparr>], rf_contradictionCount = 0,
    rf_classifier = \<lparr>ct_name = ''RegulatoryDigest v2'', ct_rule = ''Jurisdiction match + SME + AI Act keyword cluster'',
    ct_confidence = 43 / 50\<rparr>, rf_suggestedAction = MarkReviewed, rf_featured = None\<rparr>"

definition research_f08 :: research_finding where
  "research_f08 = \<lparr>rf_id = ''f08'', rf_title = ''Telegram desktop client introduced a breaking change in chat-bot auth'',
    rf_summary = ''Telegram pushed a desktop client change on May 9 that breaks the long-lived bot session your ops channel notifier uses. Re-auth is required; messages are queueing locally and will retry once auth is refreshed.'',
    rf_topic = TApi, rf_impact = ImMedium, rf_confidence = 81, rf_freshness = ''yesterday'',
    rf_freshnessMinutes = 1080, rf_primarySource = ''telegram.org/changelog/desktop'',
    rf_sources = [\<lparr>so_id = ''s08a'', so_name = ''Telegram changelog'', so_url = ''telegram.org/changelog/desktop'',
    so_kind = SkReleaseNotes, so_publishedAt = ''yesterday'',
    so_snippet = ''Desktop client 5.1.4 changes long-lived bot session handling; sessions must be re-authorized.'',
    so_agreement = Agrees\<rparr>,
        \<lparr>so_id = ''s08b'', so_name = ''Workspace ops bot logs'', so_url = ''internal://logs/ops-bot'', so_kind = SkFiling,
    so_publishedAt = ''yesterday'',
    so_snippet = ''Auth failures observed since May 9 14:02 PT; 4 queued messages pending retry.'',
    so_agreement = Agrees\<rparr>,
        \<lparr>so_id = ''s08c'', so_name = ''Independent dev forum'', so_url = ''telegram-dev.forum/sessions'', so_kind = SkBlog,
    so_publishedAt = ''12h ago'',
    so_snippet = ''Multiple operators reporting auth failures; Telegram acknowledged in support thread.'',
    so_agreement = AgNeutral\<rparr>], rf_contradictionCount = 0,
    rf_classifier = \<lparr>ct_name = ''ChangelogWatcher v2'', ct_rule = ''Vendor changelog mentions endpoint used by active recipe'',
    ct_confidence = 81 / 100\<rparr>, rf_suggestedAction = DiscussStandup, rf_featured = None\<rparr>"

definition research_f09 :: research_finding where
  "research_f09 = \<lparr>rf_id = ''f09'',
    rf_title = ''Riverbend filed a procurement RFP with stated scope similar to your existing contract'',
    rf_summary = ''Public procurement records show Riverbend opened an RFP for FY27 sourcing with line items overlapping your current MSA scope. This could indicate competitive re-bid; it could also be routine. Your renewal window opens in 11 weeks.'',
    rf_topic = TIndustry, rf_impact = ImHigh, rf_confidence = 73, rf_freshness = ''10h ago'',
    rf_freshnessMinutes = 600, rf_primarySource = ''sam.gov/rfps/riverbend-fy27'',
    rf_sources = [\<lparr>so_id = ''s09a'', so_name = ''SAM.gov RFP filing'', so_url = ''sam.gov/rfps/riverbend-fy27'', so_kind = SkFiling,
    so_publishedAt = ''10h ago'',
    so_snippet = ''RFP-FY27-118 opened. Scope: dock-side uniforms, lot tracking, weekly cadence. Award date Aug 14.'',
    so_agreement = Agrees\<rparr>,
        \<lparr>so_id = ''s09b'', so_name = ''Riverbend procurement page'', so_url = ''riverbend.co/procurement'',
    so_kind = SkReleaseNotes, so_publishedAt = ''12h ago'',
    so_snippet = ''Routine FY27 procurement cycle; no incumbent prejudice. Incumbents are encouraged to respond.'',
    so_agreement = AgNeutral\<rparr>,
        \<lparr>so_id = ''s09c'', so_name = ''Industry analyst note'', so_url = ''industrybeat.com/riverbend-rfp'',
    so_kind = SkBlog, so_publishedAt = ''8h ago'',
    so_snippet = ''Some uncertainty whether this is a true re-bid or routine compliance. Incumbent advantage looks intact.'',
    so_agreement = AgNeutral\<rparr>], rf_contradictionCount = 0,
    rf_classifier = \<lparr>ct_name = ''RFPWatcher v1'', ct_rule = ''Customer name + scope keyword overlap with existing MSA'',
    ct_confidence = 73 / 100\<rparr>, rf_suggestedAction = DiscussStandup, rf_featured = None\<rparr>"

definition research_f10 :: research_finding where
  "research_f10 = \<lparr>rf_id = ''f10'', rf_title = ''Bloomberg and Reuters disagree on natural gas Henry Hub print'',
    rf_summary = ''Two of your three approved energy-pricing sources reported diverging prints for Henry Hub close: Bloomberg $2.84, Reuters $2.71. S&P Platts is offline for maintenance. Material to your facility utility forecast if confirmed.'',
    rf_topic = TPricing, rf_impact = ImMedium, rf_confidence = 64, rf_freshness = ''4h ago'',
    rf_freshnessMinutes = 240, rf_primarySource = ''bloomberg.terminal/ng.hh'',
    rf_sources = [\<lparr>so_id = ''s10a'', so_name = ''Bloomberg natural gas'', so_url = ''bloomberg.terminal/ng.hh'', so_kind = SkIndex,
    so_publishedAt = ''4h ago'', so_snippet = ''Henry Hub close: $2.84/MMBtu, +1.1% on session.'',
    so_agreement = Agrees\<rparr>,
        \<lparr>so_id = ''s10b'', so_name = ''Reuters energy desk'', so_url = ''reuters.com/markets/energy'',
    so_kind = SkReleaseNotes, so_publishedAt = ''5h ago'',
    so_snippet = ''Henry Hub close prints $2.71/MMBtu, -3.5% on session.'', so_agreement = Conflicts\<rparr>,
        \<lparr>so_id = ''s10c'', so_name = ''S&P Platts (offline)'', so_url = ''spglobal.com/platts/ng'', so_kind = SkIndex,
    so_publishedAt = [CHR 0xE2, CHR 0x80, CHR 0x94], so_snippet = ''Source offline for scheduled maintenance.'',
    so_agreement = AgNeutral\<rparr>], rf_contradictionCount = 1,
    rf_classifier = \<lparr>ct_name = ''PriceMoveDetector v3'', ct_rule = ''Source disagreement >5% between approved sources'',
    ct_confidence = 16 / 25\<rparr>, rf_suggestedAction = DiscussStandup, rf_featured = None\<rparr>"

definition research_f11 :: research_finding where
  "research_f11 = \<lparr>rf_id = ''f11'',
    rf_title = (''New paper: operator-in-the-loop AI systems show 4'' @ [CHR 0xC3, CHR 0x97] @ '' lower error rates''),
    rf_summary = (''A NeurIPS preprint compared operator-in-the-loop systems to fully autonomous agents across 12 production deployments. Loop systems showed 4'' @ [CHR 0xC3, CHR 0x97] @ '' lower irrecoverable error rates with only marginal latency cost. Aligns with this workspace'' @ [CHR 0x27] @ ''s safety posture.''),
    rf_topic = TIndustry, rf_impact = ImLow, rf_confidence = 82, rf_freshness = ''3d ago'', rf_freshnessMinutes = 4320,
    rf_primarySource = ''arxiv.org/abs/2604.0118'',
    rf_sources = [\<lparr>so_id = ''s11a'', so_name = ''ArXiv preprint'', so_url = ''arxiv.org/abs/2604.0118'', so_kind = SkPaper,
    so_publishedAt = ''3d ago'',
    so_snippet = (''Operator-loop systems exhibit 4.1'' @ [CHR 0xC3, CHR 0x97] @ '' lower irrecoverable error rate (n=412 incidents across 12 deployments).''),
    so_agreement = Agrees\<rparr>,
        \<lparr>so_id = ''s11b'', so_name = ''PaperDigest weekly'', so_url = ''paperdigest.com/2026-w19'', so_kind = SkDigest,
    so_publishedAt = ''2d ago'',
    so_snippet = ''Featured paper of the week; methodology is sound but sample size is modest.'',
    so_agreement = AgNeutral\<rparr>], rf_contradictionCount = 0,
    rf_classifier = \<lparr>ct_name = ''PaperWatch v1'',
    ct_rule = (''Paper matches workspace topic cluster + '' @ [CHR 0xE2, CHR 0x89, CHR 0xA5] @ ''1 trusted digest highlight''),
    ct_confidence = 41 / 50\<rparr>, rf_suggestedAction = MarkReviewed, rf_featured = None\<rparr>"

definition research_f12 :: research_finding where
  "research_f12 = \<lparr>rf_id = ''f12'', rf_title = ''Slack will charge for active webhook senders starting Q3'',
    rf_summary = (''Slack'' @ [CHR 0x27] @ ''s Q3 pricing update introduces a per-message fee for high-volume webhook senders. Your ops-bot sits at 12% of the proposed threshold today; expansion to a second channel could put it over. No immediate cost impact this quarter.''),
    rf_topic = TPricing, rf_impact = ImLow, rf_confidence = 71, rf_freshness = ''yesterday'',
    rf_freshnessMinutes = 1680, rf_primarySource = ''slack.com/pricing-update-q3'',
    rf_sources = [\<lparr>so_id = ''s12a'', so_name = ''Slack pricing page'', so_url = ''slack.com/pricing-update-q3'',
    so_kind = SkReleaseNotes, so_publishedAt = ''yesterday'',
    so_snippet = ''Webhook senders above 10k messages/month will incur a $0.0008/message fee starting Q3.'',
    so_agreement = Agrees\<rparr>,
        \<lparr>so_id = ''s12b'', so_name = ''Workspace usage report'', so_url = ''internal://usage/ops-bot'', so_kind = SkFiling,
    so_publishedAt = ''yesterday'',
    so_snippet = (''Ops-bot 30-day average: 1,212 messages/month '' @ [CHR 0xE2, CHR 0x80, CHR 0x94] @ '' about 12% of the new threshold.''),
    so_agreement = Agrees\<rparr>], rf_contradictionCount = 0,
    rf_classifier = \<lparr>ct_name = ''PricingWatch v4'', ct_rule = ''Vendor pricing change + workspace usage above 10%'',
    ct_confidence = 71 / 100\<rparr>, rf_suggestedAction = MarkReviewed, rf_featured = None\<rparr>"

definition research_f13 :: research_finding where
  "research_f13 = \<lparr>rf_id = ''f13'', rf_title = ''Two analysts disagree on Trent & Co liquidity outlook'',
    rf_summary = (''Trent & Co, a current customer with outstanding wire instructions, drew divergent analyst notes today. Moody'' @ [CHR 0x27] @ ''s flagged a covenant-watch event; Fitch issued an affirm with stable outlook. Worth surfacing '' @ [CHR 0xE2, CHR 0x80, CHR 0x94] @ '' your AP team has open exposure.''),
    rf_topic = TSupplier, rf_impact = ImMedium, rf_confidence = 68, rf_freshness = ''6h ago'',
    rf_freshnessMinutes = 360, rf_primarySource = ''moodys.com/notes/trentco-2026'',
    rf_sources = [\<lparr>so_id = ''s13a'', so_name = (''Moody'' @ [CHR 0x27] @ ''s analyst note''),
    so_url = ''moodys.com/notes/trentco-2026'', so_kind = SkAlert, so_publishedAt = ''6h ago'',
    so_snippet = ''Covenant-watch event triggered by Q1 leverage drift. Watchlist with negative implication.'',
    so_agreement = Agrees\<rparr>,
        \<lparr>so_id = ''s13b'', so_name = ''Fitch analyst note'', so_url = ''fitchratings.com/notes/trentco'', so_kind = SkAlert,
    so_publishedAt = ''7h ago'',
    so_snippet = ''Affirms BBB- with stable outlook. Covenant headroom remains adequate per Q1 disclosures.'',
    so_agreement = Conflicts\<rparr>], rf_contradictionCount = 1,
    rf_classifier = \<lparr>ct_name = ''CounterpartyMonitor v2'',
    ct_rule = ''Two trusted analysts diverge on the same counterparty within 24h'', ct_confidence = 17 / 25\<rparr>,
    rf_suggestedAction = DiscussStandup, rf_featured = None\<rparr>"

definition research_f14 :: research_finding where
  "research_f14 = \<lparr>rf_id = ''f14'', rf_title = ''Internal: heartbeat dropped one system for 18 minutes last night'',
    rf_summary = ''Workspace heartbeat showed 18/19 systems green between 02:14 and 02:32 PT last night. The degraded system was the cold-storage roller; logs indicate a transient S3 throttle. Self-healed without operator intervention.'',
    rf_topic = TInternal, rf_impact = ImLow, rf_confidence = 97, rf_freshness = ''10h ago'', rf_freshnessMinutes = 600,
    rf_primarySource = ''internal://heartbeat/log'',
    rf_sources = [\<lparr>so_id = ''s14a'', so_name = ''Heartbeat history'', so_url = ''internal://heartbeat/log'', so_kind = SkFiling,
    so_publishedAt = ''10h ago'',
    so_snippet = (''System '' @ [CHR 0x27] @ ''cold-storage roller'' @ [CHR 0x27] @ '' degraded 02:14'' @ [CHR 0xE2, CHR 0x80, CHR 0x93] @ ''02:32 PT. Recovered without operator action.''),
    so_agreement = Agrees\<rparr>,
        \<lparr>so_id = ''s14b'', so_name = ''Cloud provider status'', so_url = ''status.cloud-provider.com'', so_kind = SkAlert,
    so_publishedAt = ''10h ago'',
    so_snippet = ''S3 partial throttling observed in us-west-2 between 09:00 and 09:35 UTC.'', so_agreement = Agrees\<rparr>],
    rf_contradictionCount = 0,
    rf_classifier = \<lparr>ct_name = ''InternalHealthDigest v1'', ct_rule = ''Heartbeat dip with external corroboration'',
    ct_confidence = 97 / 100\<rparr>, rf_suggestedAction = MarkReviewed, rf_featured = None\<rparr>"

definition mockFindings :: "research_finding list" where
  "mockFindings =
    [research_f01, research_f02, research_f03, research_f04, research_f05, research_f06, research_f07,
     research_f08, research_f09, research_f10, research_f11, research_f12, research_f13, research_f14]"

section \<open>Identifiers\<close>

lemmas finding_defs =
  research_f01_def research_f02_def research_f03_def research_f04_def research_f05_def research_f06_def
  research_f07_def research_f08_def research_f09_def research_f10_def research_f11_def research_f12_def
  research_f13_def research_f14_def mockFindings_def

lemma finding_ids: "map rf_id mockFindings = map (\<lambda>n. CHR ''f'' # nat_str (n div 10) @ nat_str (n mod 10)) [1..<15]"
  by (simp only: finding_defs list.map research_finding.select_convs) code_simp

interpretation finding_data: keyed_data rf_id mockFindings
  by unfold_locales (simp only: finding_ids, code_simp)

section \<open>The findings are consistent\<close>

text \<open>The number of contradictions of a finding is the number of its sources that conflict; its primary source is one
  of its sources; the confidence of its classifier is its own.\<close>

definition finding_consistent :: "research_finding \<Rightarrow> bool" where
  "finding_consistent f \<longleftrightarrow> rf_contradictionCount f = count_list (map so_agreement (rf_sources f)) Conflicts
     \<and> rf_primarySource f \<in> set (map so_url (rf_sources f))
     \<and> rf_confidence f = 100 * ct_confidence (rf_classifier f)"

lemma contradictions_counted:
  "list_all (\<lambda>(n, ags). n = count_list ags Conflicts) (map (\<lambda>f. (rf_contradictionCount f, map so_agreement (rf_sources f))) mockFindings)"
  by (simp only: finding_defs list.map research_finding.select_convs source_snippet.select_convs) code_simp

lemma primary_sources_listed:
  "list_all (\<lambda>(u, us). u \<in> set us) (map (\<lambda>f. (rf_primarySource f, map so_url (rf_sources f))) mockFindings)"
  by (simp only: finding_defs list.map research_finding.select_convs source_snippet.select_convs) code_simp

lemma classifier_confidences:
  "list_all (\<lambda>(c, k). c = 100 * k) (map (\<lambda>f. (rf_confidence f, ct_confidence (rf_classifier f))) mockFindings)"
  by (simp only: finding_defs list.map research_finding.select_convs classifier_trace.select_convs) simp

lemma findings_consistent: "list_all finding_consistent mockFindings"
  using contradictions_counted primary_sources_listed classifier_confidences
  by (simp add: list_all_iff finding_consistent_def)

section \<open>The page on its fixtures\<close>

lemma fixture_ranks:
  "map (\<lambda>f. (rf_impact f, rf_freshnessMinutes f, rf_featured f)) mockFindings
   = [(ImHigh, 120, Some True), (ImHigh, 300, None), (ImHigh, 1560, None), (ImMedium, 480, None), (ImHigh, 1800, None),
      (ImLow, 300, None), (ImMedium, 1320, None), (ImMedium, 1080, None), (ImHigh, 600, None), (ImMedium, 240, None),
      (ImLow, 4320, None), (ImLow, 1680, None), (ImMedium, 360, None), (ImLow, 600, None)]"
  by (simp only: finding_defs list.map research_finding.select_convs)

text \<open>The page does not read the flag \<open>featured\<close> of a finding, yet the finding it features is the one that has it.\<close>

lemma features_the_flagged:
  assumes "rs_findings s = mockFindings" shows "\<exists>f. featured s = Some f \<and> rf_featured f = Some True"
proof -
  have "mset (js_sort featured_cmp mockFindings) \<noteq> {#}" by (simp add: sort_simps mockFindings_def)
  then obtain f where f: "featured s = Some f"
    using assms by (cases "js_sort featured_cmp mockFindings") (auto simp: featured_def)
  have "f \<in> set mockFindings" using featured_best(1) [OF f] assms by simp
  moreover have "impactRank (rf_impact research_f01) < impactRank (rf_impact f)
      \<or> impactRank (rf_impact research_f01) = impactRank (rf_impact f) \<and> rf_freshnessMinutes f \<le> rf_freshnessMinutes research_f01"
    using featured_best(2) [OF f, of research_f01] assms by (simp add: mockFindings_def)
  moreover have "rf_impact research_f01 = ImHigh" "rf_freshnessMinutes research_f01 = 120"
    by (simp_all only: research_f01_def research_finding.select_convs)
  ultimately have "f \<in> set mockFindings" "rf_impact f = ImHigh" "rf_freshnessMinutes f \<le> 120"
    by (cases "rf_impact f"; simp)+
  then have "(ImHigh, rf_freshnessMinutes f, rf_featured f) \<in> set (map (\<lambda>f. (rf_impact f, rf_freshnessMinutes f, rf_featured f)) mockFindings)"
    by force
  then show ?thesis unfolding fixture_ranks using f \<open>rf_freshnessMinutes f \<le> 120\<close> by auto
qed

section \<open>The drawer and the page behind it\<close>

lemma research_inv_fixtures: "research_inv (research_init mockFindings)"
proof -
  have "[] \<notin> set (map rf_id mockFindings)" unfolding finding_ids by auto
  then show ?thesis by (simp add: research_inv_def research_init_def)
qed

lemmas research_never_frozen = research_drawer.locked_while_shown [OF _ research_inv_fixtures]

end
