(* ===== verification/Audit_Fixtures.thy ===== *)
theory Audit_Fixtures
  imports Audit_Page Fixture_Data
begin

text \<open>
  The fixtures of the Audit page (\<open>apps/web/src/_mocks/audit.ts\<close>).
\<close>

definition audit_now :: jstr where
  "audit_now = ''2026-05-19T14:00:00Z''"

definition mockAuditFindings :: "audit_finding list" where
  "mockAuditFindings =
   [\<lparr>af_id = ''f-001'', af_probe_id = ''trust_model'', af_severity = SevInfo,
    af_reason = ''HMAC secret loaded, trust foundation intact'',
    af_evidence = Some [(''env_var'', JStr ''IRONGOLEM_HMAC_SECRET''), (''secret_bytes'', JNum 64)],
    af_timestamp = audit_now, af_stored_at = audit_now\<rparr>,
    \<lparr>af_id = ''f-002'', af_probe_id = ''connector_health_drift'', af_severity = SevWarning,
    af_reason = ''1 of 3 connectors failed environment readiness'',
    af_evidence = Some [(''failing'', JArr [JObj [(''type'', JStr ''email''), (''label'', JStr ''Email (IMAP/SMTP)''), (''required_env'', JArr [JStr ''IRONGOLEM_EMAIL_IMAP_HOST''])]]), (''passing'', JArr [JStr ''telegram'', JStr ''webhook'']), (''total'', JNum 3)],
    af_timestamp = audit_now, af_stored_at = audit_now\<rparr>,
    \<lparr>af_id = ''f-003'', af_probe_id = ''channel_dm_policy'', af_severity = SevInfo,
    af_reason = ''all channel policy rules resolve to registered connectors'',
    af_evidence = Some [(''total_rules'', JNum 0), (''known_connectors'', JArr [JStr ''telegram'', JStr ''email'', JStr ''webhook''])],
    af_timestamp = audit_now, af_stored_at = audit_now\<rparr>,
    \<lparr>af_id = ''f-004'', af_probe_id = ''workspace_skill_escape'', af_severity = SevInfo,
    af_reason = (''no skill system in v0.3 '' @ [CHR 0xE2, CHR 0x80, CHR 0x94] @ '' probe passes vacuously''),
    af_evidence = Some [(''skill_system_present'', JBool False), (''v03_status'', JStr ''placeholder'')],
    af_timestamp = audit_now, af_stored_at = audit_now\<rparr>]"

lemma audit_ids: "map af_id mockAuditFindings = [''f-001'', ''f-002'', ''f-003'', ''f-004'']"
  by (simp only: mockAuditFindings_def list.map audit_finding.select_convs)

interpretation audit_data: keyed_data af_id mockAuditFindings
  by unfold_locales (simp add: audit_ids)

text \<open>Each of the four probes has reported once, under a name the page has a label for; one finding is a warning and
  none is critical; each has evidence to show.\<close>

lemma probes_labelled:
  "distinct (map af_probe_id mockAuditFindings) \<and> set (map af_probe_id mockAuditFindings) = fst ` set PROBE_LABEL"
  by (simp only: mockAuditFindings_def list.map audit_finding.select_convs) (auto simp: PROBE_LABEL_def)

lemma fixture_severities:
  "map (\<lambda>v. audit_page_counts mockAuditFindings v) [None, Some SevInfo, Some SevWarning, Some SevCritical] = [4, 3, 1, 0]"
  by (simp add: mockAuditFindings_def audit_page_counts_def count_where_def)

lemma fixture_evidence: "list_all (\<lambda>f. evidence_button b f \<noteq> None) mockAuditFindings"
  by (simp add: mockAuditFindings_def evidence_button_def evidenceEntries_def)

end
