(* ===== verification/Commitments_Fixtures.thy ===== *)
theory Commitments_Fixtures
  imports Commitments_Page Fixture_Data
begin

text \<open>
  The fixtures of the Commitments page (\<open>apps/web/src/_mocks/commitments.ts\<close>).  \<open>Date.parse\<close> of the frozen time is
  the number of milliseconds since 1970.
\<close>

definition commitments_now :: int where
  "commitments_now = 1779199200000"

definition mock_hour :: int where
  "mock_hour = 60 * 60 * 1000"

definition mock_minute :: int where
  "mock_minute = 60 * 1000"

definition mock_day :: int where
  "mock_day = 24 * mock_hour"

text \<open>Counting the frozen time: the days from 1970 to the end of 2025 with its fourteen leap days, the days of
  January to April, eighteen days of May and fourteen hours.\<close>

lemma commitments_now_days:
  "commitments_now = ((56 * 365 + 14) + (31 + 28 + 31 + 30) + 18) * mock_day + 14 * mock_hour"
  by (simp add: commitments_now_def mock_day_def mock_hour_def)

definition mockCommitments :: "commitment list" where
  "mockCommitments =
   [\<lparr>cm_id = ''c-001'', cm_workspace_id = ''00000000-0000-0000-0000-000000000000'', cm_tenant_id = ''default'',
    cm_kind = EventCheckIn, cm_sensitivity = Routine, cm_status = Pending,
    cm_reason = ''user mentioned a relative time window'', cm_suggested_text = ''Reminder: in 2 hours'',
    cm_dedupe_key = ''abc123'', cm_confidence = 17 / 20,
    cm_due_window = \<lparr>earliest_ms = commitments_now + 110 * mock_minute, latest_ms = commitments_now + 130 * mock_minute,
    timezone = None\<rparr>, cm_connector_id = Some ''telegram'', cm_channel_id = Some ''chat-42'',
    cm_user_id = None, cm_source_event_id = None, cm_created_at_ms = commitments_now - 5 * mock_minute,
    cm_updated_at_ms = commitments_now - 5 * mock_minute, cm_sent_at_ms = None, cm_dismissed_at_ms = None,
    cm_snoozed_until_ms = None, cm_expired_at_ms = None, cm_attempts = 0\<rparr>,
    \<lparr>cm_id = ''c-002'', cm_workspace_id = ''00000000-0000-0000-0000-000000000000'', cm_tenant_id = ''default'',
    cm_kind = CareCheckIn, cm_sensitivity = Care, cm_status = Pending,
    cm_reason = ''assistant promised to check in on wellbeing'',
    cm_suggested_text = (''Just checking in '' @ [CHR 0xE2, CHR 0x80, CHR 0x94] @ '' how are you feeling today?''),
    cm_dedupe_key = ''def456'', cm_confidence = 9 / 10,
    cm_due_window = \<lparr>earliest_ms = commitments_now + 1 * mock_day, latest_ms = commitments_now + 1 * mock_day + 2 * mock_hour,
    timezone = None\<rparr>, cm_connector_id = Some ''telegram'', cm_channel_id = Some ''chat-42'',
    cm_user_id = None, cm_source_event_id = None, cm_created_at_ms = commitments_now - 2 * mock_hour,
    cm_updated_at_ms = commitments_now - 2 * mock_hour, cm_sent_at_ms = None, cm_dismissed_at_ms = None,
    cm_snoozed_until_ms = None, cm_expired_at_ms = None, cm_attempts = 0\<rparr>,
    \<lparr>cm_id = ''c-003'', cm_workspace_id = ''00000000-0000-0000-0000-000000000000'', cm_tenant_id = ''default'',
    cm_kind = DeadlineCheck, cm_sensitivity = Personal, cm_status = Sent, cm_reason = ''tax filing deadline reminder'',
    cm_suggested_text = ''Reminder: tax filing deadline is in 24 hours.'', cm_dedupe_key = ''ghi789'',
    cm_confidence = 19 / 20,
    cm_due_window = \<lparr>earliest_ms = commitments_now - 30 * mock_minute, latest_ms = commitments_now + 30 * mock_minute, timezone = None\<rparr>,
    cm_connector_id = Some ''telegram'', cm_channel_id = Some ''chat-42'', cm_user_id = None,
    cm_source_event_id = None, cm_created_at_ms = commitments_now - 4 * mock_day,
    cm_updated_at_ms = commitments_now - 10 * mock_minute, cm_sent_at_ms = Some (commitments_now - 10 * mock_minute),
    cm_dismissed_at_ms = None, cm_snoozed_until_ms = None, cm_expired_at_ms = None, cm_attempts = 1\<rparr>,
    \<lparr>cm_id = ''c-004'', cm_workspace_id = ''00000000-0000-0000-0000-000000000000'', cm_tenant_id = ''default'',
    cm_kind = OpenLoop, cm_sensitivity = Routine, cm_status = Dismissed,
    cm_reason = ''open-loop follow-up on contract review'',
    cm_suggested_text = ''Following up on the contract review'', cm_dedupe_key = ''jkl012'', cm_confidence = 13 / 20,
    cm_due_window = \<lparr>earliest_ms = commitments_now - 5 * mock_hour, latest_ms = commitments_now - 1 * mock_hour, timezone = None\<rparr>,
    cm_connector_id = Some ''telegram'', cm_channel_id = Some ''chat-42'', cm_user_id = None,
    cm_source_event_id = None, cm_created_at_ms = commitments_now - 3 * mock_day,
    cm_updated_at_ms = commitments_now - 1 * mock_day, cm_sent_at_ms = None,
    cm_dismissed_at_ms = Some (commitments_now - 1 * mock_day), cm_snoozed_until_ms = None, cm_expired_at_ms = None,
    cm_attempts = 0\<rparr>]"

lemma commitment_ids: "map cm_id mockCommitments = [''c-001'', ''c-002'', ''c-003'', ''c-004'']"
  by (simp only: mockCommitments_def list.map commitment.select_convs)

interpretation commitment_data: keyed_data cm_id mockCommitments
  by unfold_locales (simp add: commitment_ids)

lemmas mock_times = commitments_now_def mock_hour_def mock_minute_def mock_day_def

text \<open>The records are in order: a window does not end before it begins, nothing was updated before it was created, and
  the time of sending or dismissal is there exactly for the status that has it and is the time of the last update.\<close>

lemma windows_ordered:
  "list_all (\<lambda>c. earliest_ms (cm_due_window c) \<le> latest_ms (cm_due_window c) \<and> cm_created_at_ms c \<le> cm_updated_at_ms c
     \<and> cm_updated_at_ms c < commitments_now) mockCommitments"
  by (simp add: mockCommitments_def mock_times)

lemma outcome_times:
  "list_all (\<lambda>c. cm_sent_at_ms c = (if cm_status c = Sent then Some (cm_updated_at_ms c) else None)
     \<and> cm_dismissed_at_ms c = (if cm_status c = Dismissed then Some (cm_updated_at_ms c) else None)
     \<and> cm_snoozed_until_ms c = None \<and> cm_expired_at_ms c = None) mockCommitments"
  by (simp add: mockCommitments_def)

lemma fixture_actions: "map canAct mockCommitments = [True, True, False, False]"
  by (simp add: mockCommitments_def canAct_def)

end
