(* ===== verification/Recipes_Fixtures.thy ===== *)
theory Recipes_Fixtures
  imports Recipes_Page Fixture_Data
begin

text \<open>
  The fixtures of the Recipes page (\<open>apps/web/src/_mocks/recipes.ts\<close>): fifteen recipes over the five layers of
  \<open>Recipes_Page\<close>.
\<close>

definition recipes_r01 :: recipe where
  "recipes_r01 = \<lparr>rcp_id = ''r01'', rcp_name = ''Triage inbox while I sleep'',
    rcp_purpose = ''Classify incoming mail and surface only the messages that need you in the morning.'',
    rcp_category = CatInbox, rcp_status = Active, rcp_risk = RLow, rcp_lastRun = Some ''12m ago'',
    rcp_schedule = ''Every 10 minutes'', rcp_cron = ''*/10 * * * *'',
    rcp_fallback = ''If classification confidence drops below 0.7, the message is left untouched in the inbox.'',
    rcp_retry = ''Retries twice with exponential backoff; on third failure logs and pauses for the window.'',
    rcp_permissions = [\<lparr>perm_key = ''mail.read'', perm_label = ''Read incoming mail'', perm_scope = Broad, perm_approvals = Some 4112\<rparr>,
        \<lparr>perm_key = ''mail.label.write'', perm_label = ''Apply labels to messages'', perm_scope = Scoped,
    perm_approvals = Some 3801\<rparr>,
        \<lparr>perm_key = ''inbox.route'', perm_label = ''Route to operator inbox'', perm_scope = Scoped,
    perm_approvals = Some 1240\<rparr>],
    rcp_safety = \<lparr>rs_can = [''Read every inbound mail to classify it'', (''Apply labels like '' @ [CHR 0x27] @ ''follow-up'' @ [CHR 0x27] @ '', '' @ [CHR 0x27] @ ''fyi'' @ [CHR 0x27] @ '', '' @ [CHR 0x27] @ ''newsletter'' @ [CHR 0x27]), ''Route classified items to the operator inbox''],
    rs_cannot = [''Send mail on your behalf'', ''Open attachments or click links'', ''Forward messages outside the workspace''],
    rs_needsApproval = [''First classification of a brand-new domain'', ''Any message touching wire instructions or contracts''],
    rs_stopsIf = [''Classification confidence drops below 0.7'', ''An inbound domain is added to the deny-list'']\<rparr>,
    rcp_policy = policy [],
    rcp_recentRuns = [\<lparr>run_at = ''12m ago'', run_outcome = Completed, run_note = ''Classified 14 messages, routed 2 to inbox.''\<rparr>,
        \<lparr>run_at = ''22m ago'', run_outcome = Completed, run_note = ''Classified 8 messages, routed 0.''\<rparr>,
        \<lparr>run_at = ''32m ago'', run_outcome = Skipped, run_note = ''Mailbox empty; nothing to do.''\<rparr>,
        \<lparr>run_at = ''42m ago'', run_outcome = Approved,
    run_note = (''Held one PO classification; you approved '' @ [CHR 0x27] @ ''follow-up'' @ [CHR 0x27] @ ''.'')\<rparr>,
        \<lparr>run_at = ''52m ago'', run_outcome = Completed, run_note = ''Classified 6 messages.''\<rparr>,
        \<lparr>run_at = ''1h ago'', run_outcome = Completed, run_note = ''Classified 11 messages, routed 1.''\<rparr>,
        \<lparr>run_at = ''1h 10m ago'', run_outcome = Completed, run_note = ''Classified 5 messages.''\<rparr>,
        \<lparr>run_at = ''1h 20m ago'', run_outcome = HeldRun,
    run_note = (''New domain hartlaw.com '' @ [CHR 0xE2, CHR 0x80, CHR 0x94] @ '' held for your call.'')\<rparr>,
        \<lparr>run_at = ''1h 30m ago'', run_outcome = Completed, run_note = ''Classified 9 messages.''\<rparr>,
        \<lparr>run_at = ''1h 40m ago'', run_outcome = Completed, run_note = ''Classified 4 messages.''\<rparr>]\<rparr>"

definition recipes_r02 :: recipe where
  "recipes_r02 = \<lparr>rcp_id = ''r02'', rcp_name = ''Draft replies to known senders'',
    rcp_purpose = (''Compose a tone-checked draft for any message from a contact you'' @ [CHR 0x27] @ ''ve replied to before '' @ [CHR 0xE2, CHR 0x80, CHR 0x94] @ '' hold for your read.''),
    rcp_category = CatInbox, rcp_status = Active, rcp_risk = RMedium, rcp_lastRun = Some ''7m ago'',
    rcp_schedule = ''On every inbound mail from a known sender'',
    rcp_cron = ''trigger: mail.inbound { sender.known: true }'',
    rcp_fallback = ''If tone check fails, draft is held in your inbox with the flag inline; nothing is sent.'',
    rcp_retry = (''No retry '' @ [CHR 0xE2, CHR 0x80, CHR 0x94] @ '' drafts are one-shot. Operator can re-run from the inbox row.''),
    rcp_permissions = [\<lparr>perm_key = ''mail.read'', perm_label = ''Read the inbound message'', perm_scope = Scoped,
    perm_approvals = Some 2204\<rparr>,
        \<lparr>perm_key = ''drafts.write'', perm_label = ''Compose a draft reply'', perm_scope = Scoped,
    perm_approvals = Some 2196\<rparr>,
        \<lparr>perm_key = ''contacts.read.known'', perm_label = ''Read known-contact list'', perm_scope = Scoped,
    perm_approvals = Some 2196\<rparr>],
    rcp_safety = \<lparr>rs_can = [(''Compose drafts to senders you'' @ [CHR 0x27] @ ''ve replied to '' @ [CHR 0xE2, CHR 0x89, CHR 0xA5] @ ''3 times''), ''Pull prior thread context for tone matching'', ''Hold drafts for your read before any send''],
    rs_cannot = [''Send anything without your explicit approval'', ''Compose drafts to first-time senders'', ''Attach files not already in the thread''],
    rs_needsApproval = [''Every outbound send (always, no exceptions)'', ''Any draft that fails the tone check on first pass''],
    rs_stopsIf = [''Sender drops off the known-contact list'', ''Tone check fails twice in a row on the same thread'']\<rparr>,
    rcp_policy = policy [3], rcp_recentRuns = [\<lparr>run_at = ''7m ago'', run_outcome = Approved,
    run_note = (''Reply drafted to Marcus Yi '' @ [CHR 0xE2, CHR 0x80, CHR 0x94] @ '' you approved and sent.'')\<rparr>,
        \<lparr>run_at = ''31m ago'', run_outcome = HeldRun,
    run_note = (''Tone check flagged '' @ [CHR 0x27] @ ''defensive'' @ [CHR 0x27] @ ''; held for your read.'')\<rparr>,
        \<lparr>run_at = ''44m ago'', run_outcome = Approved,
    run_note = (''Reply drafted to Sandra Lopez '' @ [CHR 0xE2, CHR 0x80, CHR 0x94] @ '' you approved.'')\<rparr>,
        \<lparr>run_at = ''1h 14m ago'', run_outcome = Approved,
    run_note = (''Reply drafted to Asha (Trent & Co) '' @ [CHR 0xE2, CHR 0x80, CHR 0x94] @ '' you approved.'')\<rparr>,
        \<lparr>run_at = ''2h ago'', run_outcome = Skipped, run_note = ''Inbound from new domain; not eligible.''\<rparr>,
        \<lparr>run_at = ''3h ago'', run_outcome = Approved,
    run_note = (''Reply drafted to team@riverbend '' @ [CHR 0xE2, CHR 0x80, CHR 0x94] @ '' sent.'')\<rparr>,
        \<lparr>run_at = ''yesterday'', run_outcome = Approved,
    run_note = (''Reply drafted to Halford intake '' @ [CHR 0xE2, CHR 0x80, CHR 0x94] @ '' sent.'')\<rparr>,
        \<lparr>run_at = ''yesterday'', run_outcome = Denied,
    run_note = (''You declined '' @ [CHR 0xE2, CHR 0x80, CHR 0x94] @ '' sent a manual reply instead.'')\<rparr>]\<rparr>"

definition recipes_r03 :: recipe where
  "recipes_r03 = \<lparr>rcp_id = ''r03'', rcp_name = ''Auto-archive newsletters older than 30 days'',
    rcp_purpose = (''Quietly archive newsletter mail you haven'' @ [CHR 0x27] @ ''t opened in a month '' @ [CHR 0xE2, CHR 0x80, CHR 0x94] @ '' never touches anything else.''),
    rcp_category = CatInbox, rcp_status = Paused, rcp_risk = RLow, rcp_lastRun = Some ''3d ago'',
    rcp_schedule = ''Daily at 6:00 AM PT'', rcp_cron = ''0 6 * * *'',
    rcp_fallback = (''If a candidate message is younger than 30d, it'' @ [CHR 0x27] @ ''s left alone.''),
    rcp_retry = ''Retries once at 6:15 AM PT on failure.'',
    rcp_permissions = [\<lparr>perm_key = ''mail.read.labeled'', perm_label = (''Read mail labeled '' @ [CHR 0x27] @ ''newsletter'' @ [CHR 0x27]),
    perm_scope = Scoped, perm_approvals = Some 96\<rparr>,
        \<lparr>perm_key = ''mail.archive'', perm_label = ''Move messages to Archive'', perm_scope = Scoped,
    perm_approvals = Some 96\<rparr>],
    rcp_safety = \<lparr>rs_can = [(''Move messages labeled '' @ [CHR 0x27] @ ''newsletter'' @ [CHR 0x27] @ '' to Archive''), (''Skip anything you'' @ [CHR 0x27] @ ''ve opened or replied to'')],
    rs_cannot = [''Delete messages permanently'', (''Touch mail not labeled '' @ [CHR 0x27] @ ''newsletter'' @ [CHR 0x27]), ''Read message bodies (header + label only)''],
    rs_needsApproval = [''Bulk archive batches larger than 50 messages''],
    rs_stopsIf = [''More than 5% of archives are recalled within 24h'']\<rparr>, rcp_policy = policy [],
    rcp_recentRuns = [\<lparr>run_at = ''3d ago'', run_outcome = Completed, run_note = ''Archived 18 newsletters.''\<rparr>,
        \<lparr>run_at = ''4d ago'', run_outcome = Completed, run_note = ''Archived 22 newsletters.''\<rparr>,
        \<lparr>run_at = ''5d ago'', run_outcome = Completed, run_note = ''Archived 15 newsletters.''\<rparr>]\<rparr>"

definition recipes_r04 :: recipe where
  "recipes_r04 = \<lparr>rcp_id = ''r04'', rcp_name = ''Hold Friday-morning focus blocks'',
    rcp_purpose = ''Book a recurring two-hour focus block on Fridays whenever the calendar is clear.'',
    rcp_category = CatCalendar, rcp_status = Active, rcp_risk = RLow, rcp_lastRun = Some ''yesterday'',
    rcp_schedule = ''Every Thursday at 5:00 PM PT (for Friday)'', rcp_cron = ''0 17 * * 4'',
    rcp_fallback = ''If Friday morning has any meeting, the block is skipped that week.'',
    rcp_retry = (''No retry '' @ [CHR 0xE2, CHR 0x80, CHR 0x94] @ '' single attempt per week.''),
    rcp_permissions = [\<lparr>perm_key = ''calendar.read'', perm_label = ''Read your calendar'', perm_scope = Scoped, perm_approvals = Some 312\<rparr>,
        \<lparr>perm_key = ''calendar.write'', perm_label = ''Create events on your own calendar'', perm_scope = Scoped,
    perm_approvals = Some 312\<rparr>],
    rcp_safety = \<lparr>rs_can = [(''Block 9'' @ [CHR 0xE2, CHR 0x80, CHR 0x93] @ ''11 AM on your own calendar''), ''Title the block consistently for visibility''],
    rs_cannot = [''Invite anyone else'', ''Move existing events out of the way'', ''Book recurring blocks anywhere except your own calendar''],
    rs_needsApproval = [''Any change to the block window or cadence''],
    rs_stopsIf = [''Friday morning already has a customer-facing meeting'']\<rparr>, rcp_policy = policy [],
    rcp_recentRuns = [\<lparr>run_at = ''yesterday'', run_outcome = Completed,
    run_note = (''Booked focus block for Friday 9'' @ [CHR 0xE2, CHR 0x80, CHR 0x93] @ ''11 AM PT.'')\<rparr>,
        \<lparr>run_at = ''8d ago'', run_outcome = Completed, run_note = ''Booked focus block.''\<rparr>,
        \<lparr>run_at = ''15d ago'', run_outcome = Skipped,
    run_note = (''Conflict '' @ [CHR 0xE2, CHR 0x80, CHR 0x94] @ '' customer review at 10 AM.'')\<rparr>,
        \<lparr>run_at = ''22d ago'', run_outcome = Completed, run_note = ''Booked focus block.''\<rparr>]\<rparr>"

definition recipes_r05 :: recipe where
  "recipes_r05 = \<lparr>rcp_id = ''r05'', rcp_name = ''Reschedule internal 1:1s on conflict'',
    rcp_purpose = ''When an internal 1:1 collides with a new commitment, propose a clean slot and route the move for approval.'',
    rcp_category = CatCalendar, rcp_status = New, rcp_risk = RMedium, rcp_lastRun = None,
    rcp_schedule = ''On any new event that conflicts with a 1:1'',
    rcp_cron = (''trigger: calendar.conflict { event.type: '' @ [CHR 0x27] @ ''1on1'' @ [CHR 0x27] @ '', participants.internal: true }''),
    rcp_fallback = ''If no common slot is found within 14 days, the conflict is surfaced to your inbox.'',
    rcp_retry = ''Re-runs every 4 hours until resolved or 7 days elapse.'',
    rcp_permissions = [\<lparr>perm_key = ''calendar.read.org'',
    perm_label = (''Read internal teammates'' @ [CHR 0x27] @ '' calendars (free/busy)''), perm_scope = Broad,
    perm_approvals = Some 0\<rparr>,
        \<lparr>perm_key = ''calendar.propose'', perm_label = ''Propose calendar changes'', perm_scope = Scoped,
    perm_approvals = Some 0\<rparr>,
        \<lparr>perm_key = ''inbox.route'', perm_label = ''Route reschedule to operator inbox'', perm_scope = Scoped,
    perm_approvals = Some 1240\<rparr>],
    rcp_safety = \<lparr>rs_can = [''Read free/busy for internal teammates'', ''Hold a tentative slot on both calendars'', ''Route the proposed move to your inbox''],
    rs_cannot = [''Move customer-facing meetings'', ''Send a calendar update without your approval'', ''Read meeting titles or descriptions on external calendars''],
    rs_needsApproval = [''Every reschedule send (no auto-moves on first run)''],
    rs_stopsIf = [''Either participant is in a declared focus week'', ''The new slot lands inside a focus block'']\<rparr>,
    rcp_policy = policy [5], rcp_recentRuns = []\<rparr>"

definition recipes_r06 :: recipe where
  "recipes_r06 = \<lparr>rcp_id = ''r06'', rcp_name = ''Decline meetings without an agenda'',
    rcp_purpose = ''Auto-reply with a soft decline to incoming invites that arrive without an agenda field.'',
    rcp_category = CatCalendar, rcp_status = Paused, rcp_risk = RMedium, rcp_lastRun = Some ''6d ago'',
    rcp_schedule = ''On every inbound invite'', rcp_cron = ''trigger: calendar.invite.received'',
    rcp_fallback = ''If the invite has an agenda field of any length, no action.'',
    rcp_retry = (''No retry '' @ [CHR 0xE2, CHR 0x80, CHR 0x94] @ '' single response per invite.''),
    rcp_permissions = [\<lparr>perm_key = ''calendar.read.invite'', perm_label = ''Read inbound invites'', perm_scope = Scoped,
    perm_approvals = Some 88\<rparr>,
        \<lparr>perm_key = ''mail.send.invite'', perm_label = ''Reply to invite organizers'', perm_scope = Scoped,
    perm_approvals = Some 88\<rparr>],
    rcp_safety = \<lparr>rs_can = [''Decline invites missing an agenda field'', ''Send a templated polite-decline reply''],
    rs_cannot = [''Decline invites from your direct reports or your manager'', (''Decline invites tagged '' @ [CHR 0x27] @ ''customer'' @ [CHR 0x27])],
    rs_needsApproval = [(''Declining anyone you'' @ [CHR 0x27] @ ''ve met with in the last 14 days'')],
    rs_stopsIf = [''More than 3 declines happen in a single hour'']\<rparr>, rcp_policy = policy [],
    rcp_recentRuns = [\<lparr>run_at = ''6d ago'', run_outcome = Completed,
    run_note = (''Declined 1 invite (no agenda) '' @ [CHR 0xE2, CHR 0x80, CHR 0x94] @ '' recruiter outreach.'')\<rparr>,
        \<lparr>run_at = ''8d ago'', run_outcome = Approved,
    run_note = (''Routed for your call '' @ [CHR 0xE2, CHR 0x80, CHR 0x94] @ '' invite was from a board member.'')\<rparr>]\<rparr>"

definition recipes_r07 :: recipe where
  "recipes_r07 = \<lparr>rcp_id = ''r07'', rcp_name = ''Approve standing-order purchases under $50'',
    rcp_purpose = ''Auto-approve recurring purchases from your standing-order list when the amount is below $50.'',
    rcp_category = CatPurchasing, rcp_status = Active, rcp_risk = RMedium, rcp_lastRun = Some ''2h ago'',
    rcp_schedule = ''On every standing-order PO event'', rcp_cron = ''trigger: purchasing.po.standing'',
    rcp_fallback = ''If the amount is at or above $50, the PO is routed to your inbox.'',
    rcp_retry = ''Retries once after 5 minutes if vendor API times out.'',
    rcp_permissions = [\<lparr>perm_key = ''purchasing.po.read'', perm_label = ''Read submitted POs'', perm_scope = Scoped,
    perm_approvals = Some 1844\<rparr>,
        \<lparr>perm_key = ''purchasing.po.approve'', perm_label = ''Approve POs on the standing list'', perm_scope = Scoped,
    perm_approvals = Some 1820\<rparr>],
    rcp_safety = \<lparr>rs_can = [''Approve POs to vendors on your standing list'', ''Apply your stored payment method''],
    rs_cannot = [''Approve POs to new or one-off vendors'', (''Approve POs '' @ [CHR 0xE2, CHR 0x89, CHR 0xA5] @ '' $50''), ''Change vendor bank details under any circumstance''],
    rs_needsApproval = [''Any PO at or above $50'', ''Any first-of-month PO regardless of amount''],
    rs_stopsIf = [''Vendor fraud score rises above 0.2'', ''Three POs to one vendor inside a 24h window'']\<rparr>,
    rcp_policy = policy [],
    rcp_recentRuns = [\<lparr>run_at = ''2h ago'', run_outcome = Completed, run_note = ''Approved $14.20 to Stagecoach Coffee (Travel).''\<rparr>,
        \<lparr>run_at = ''yesterday'', run_outcome = Completed, run_note = ''Approved $32.00 to OfficePantry (Snacks).''\<rparr>,
        \<lparr>run_at = ''2d ago'', run_outcome = HeldRun,
    run_note = (''Held $812 to Yates Holdings '' @ [CHR 0xE2, CHR 0x80, CHR 0x94] @ '' above threshold.'')\<rparr>,
        \<lparr>run_at = ''2d ago'', run_outcome = Completed, run_note = ''Approved $9.99 to Notion (Software).''\<rparr>,
        \<lparr>run_at = ''3d ago'', run_outcome = Completed, run_note = ''Approved $41.60 to Caltrain (Travel).''\<rparr>,
        \<lparr>run_at = ''4d ago'', run_outcome = Skipped,
    run_note = (''Vendor not on standing list '' @ [CHR 0xE2, CHR 0x80, CHR 0x94] @ '' routed to inbox.'')\<rparr>]\<rparr>"

definition recipes_r08 :: recipe where
  "recipes_r08 = \<lparr>rcp_id = ''r08'', rcp_name = ''Re-order office supplies on low stock'',
    rcp_purpose = ''When tracked supplies fall below 20% of par level, draft a PO to the preferred vendor.'',
    rcp_category = CatPurchasing, rcp_status = New, rcp_risk = RLow, rcp_lastRun = None,
    rcp_schedule = ''Daily at 7:00 AM PT'', rcp_cron = ''0 7 * * *'',
    rcp_fallback = ''If a candidate item is above 20%, no PO is drafted.'',
    rcp_retry = (''No retry '' @ [CHR 0xE2, CHR 0x80, CHR 0x94] @ '' checked once per day.''),
    rcp_permissions = [\<lparr>perm_key = ''inventory.read'', perm_label = ''Read inventory levels'', perm_scope = Scoped,
    perm_approvals = Some 0\<rparr>,
        \<lparr>perm_key = ''purchasing.po.draft'', perm_label = ''Draft (not submit) POs'', perm_scope = Scoped,
    perm_approvals = Some 0\<rparr>,
        \<lparr>perm_key = ''inbox.route'', perm_label = ''Route to operator inbox'', perm_scope = Scoped,
    perm_approvals = Some 1240\<rparr>],
    rcp_safety = \<lparr>rs_can = [''Draft POs for tracked items below par'', ''Use the preferred vendor on file for each item''],
    rs_cannot = [''Submit POs without your approval'', ''Change preferred vendors'', ''Re-order non-tracked items''],
    rs_needsApproval = [''Every PO draft (always)''], rs_stopsIf = [''Total drafted POs in one day exceed $400'']\<rparr>,
    rcp_policy = policy [5], rcp_recentRuns = []\<rparr>"

definition recipes_r09 :: recipe where
  "recipes_r09 = \<lparr>rcp_id = ''r09'', rcp_name = ''Daily competitor pricing scan'',
    rcp_purpose = ''Walk the competitor price index every morning and post material moves (>5%) to the research feed.'',
    rcp_category = CatResearch, rcp_status = Active, rcp_risk = RLow, rcp_lastRun = Some ''this morning'',
    rcp_schedule = ''Daily at 8:30 AM PT'', rcp_cron = ''30 8 * * *'',
    rcp_fallback = ''If a price source returns stale data (>24h), the source is skipped and noted.'',
    rcp_retry = ''Retries up to 3 times with 2-minute backoff per source.'',
    rcp_permissions = [\<lparr>perm_key = ''research.read.sources'', perm_label = ''Read approved price sources'', perm_scope = Scoped,
    perm_approvals = Some 612\<rparr>,
        \<lparr>perm_key = ''research.feed.write'', perm_label = ''Post to the research feed'', perm_scope = Scoped,
    perm_approvals = Some 612\<rparr>],
    rcp_safety = \<lparr>rs_can = [''Pull from approved price sources only'', ''Post moves of 5% or greater to the research feed''],
    rs_cannot = [''Add new sources without your approval'', ''Trade, hedge, or execute on any signal'', ''Send research outside the workspace''],
    rs_needsApproval = [''Adding a new price source'', (''Any move flagged as '' @ [CHR 0x27] @ ''unusual'' @ [CHR 0x27] @ '' by the variance check'')],
    rs_stopsIf = [''More than 2 sources return stale data on the same run'']\<rparr>, rcp_policy = policy [],
    rcp_recentRuns = [\<lparr>run_at = ''this morning'', run_outcome = Completed,
    run_note = ''Scanned 11 sources, posted 2 moves (carbon, lithium).''\<rparr>,
        \<lparr>run_at = ''yesterday'', run_outcome = Completed, run_note = ''Scanned 11 sources, posted 0 moves.''\<rparr>,
        \<lparr>run_at = ''2d ago'', run_outcome = HeldRun, run_note = ''Variance check flagged carbon +18%; routed for review.''\<rparr>,
        \<lparr>run_at = ''3d ago'', run_outcome = Completed, run_note = ''Scanned 11 sources, posted 1 move (nickel).''\<rparr>,
        \<lparr>run_at = ''4d ago'', run_outcome = Completed, run_note = ''Scanned 11 sources, posted 0 moves.''\<rparr>]\<rparr>"

definition recipes_r10 :: recipe where
  "recipes_r10 = \<lparr>rcp_id = ''r10'', rcp_name = ''Weekly carbon credit market digest'',
    rcp_purpose = (''Compile a one-page Monday digest summarizing the week'' @ [CHR 0x27] @ ''s carbon credit market activity.''),
    rcp_category = CatResearch, rcp_status = Paused, rcp_risk = RLow, rcp_lastRun = Some ''12d ago'',
    rcp_schedule = ''Mondays at 7:00 AM PT'', rcp_cron = ''0 7 * * 1'',
    rcp_fallback = ''If fewer than 3 sources reported, the digest is held with a note.'',
    rcp_retry = ''Retries once at 7:30 AM PT if a source is unavailable.'',
    rcp_permissions = [\<lparr>perm_key = ''research.read.sources'', perm_label = ''Read approved sources'', perm_scope = Scoped,
    perm_approvals = Some 18\<rparr>,
        \<lparr>perm_key = ''drafts.write'', perm_label = ''Draft digest in your inbox'', perm_scope = Scoped,
    perm_approvals = Some 18\<rparr>],
    rcp_safety = \<lparr>rs_can = [(''Compile a digest from sources you'' @ [CHR 0x27] @ ''ve approved''), ''Draft the digest into your inbox for review''],
    rs_cannot = [''Send the digest outside the workspace'', ''Pull from sources not on the approved list''],
    rs_needsApproval = [''Every digest send''], rs_stopsIf = [''Fewer than 3 approved sources are available'']\<rparr>,
    rcp_policy = policy [],
    rcp_recentRuns = [\<lparr>run_at = ''12d ago'', run_outcome = Approved, run_note = ''Digest drafted, you reviewed and sent.''\<rparr>,
        \<lparr>run_at = ''19d ago'', run_outcome = Approved, run_note = ''Digest drafted, you reviewed and sent.''\<rparr>]\<rparr>"

definition recipes_r11 :: recipe where
  "recipes_r11 = \<lparr>rcp_id = ''r11'', rcp_name = ''File expense receipts under $200'',
    rcp_purpose = ''Auto-file inbound receipts under the matching travel or category tag when below $200.'',
    rcp_category = CatOperations, rcp_status = Active, rcp_risk = RLow, rcp_lastRun = Some ''26m ago'',
    rcp_schedule = ''On every inbound receipt webhook'', rcp_cron = ''trigger: webhook.receipt.received'',
    rcp_fallback = (''If a receipt is '' @ [CHR 0xE2, CHR 0x89, CHR 0xA5] @ '' $200, it'' @ [CHR 0x27] @ ''s routed to your inbox unfiled.''),
    rcp_retry = ''Retries twice on storage failure with 30s backoff.'',
    rcp_permissions = [\<lparr>perm_key = ''expenses.write.scoped'', perm_label = ''File receipts under tracked categories'', perm_scope = Scoped,
    perm_approvals = Some 944\<rparr>,
        \<lparr>perm_key = ''storage.attach'', perm_label = ''Attach receipt PDFs to filings'', perm_scope = Scoped,
    perm_approvals = Some 944\<rparr>],
    rcp_safety = \<lparr>rs_can = [''File receipts under existing categories'', ''Match receipts to travel-tagged calendar events''],
    rs_cannot = [''Reimburse anything to a bank account'', (''File receipts '' @ [CHR 0xE2, CHR 0x89, CHR 0xA5] @ '' $200''), ''Create new expense categories''],
    rs_needsApproval = [''Any receipt at or above $200'', ''Any receipt with no matching category''],
    rs_stopsIf = [(''Two receipts in a row from the same merchant '' @ [CHR 0xE2, CHR 0x89, CHR 0xA5] @ '' $50'')]\<rparr>,
    rcp_policy = policy [],
    rcp_recentRuns = [\<lparr>run_at = ''26m ago'', run_outcome = Completed, run_note = ''Filed $14.20 to Travel.''\<rparr>,
        \<lparr>run_at = ''2h ago'', run_outcome = Completed, run_note = ''Filed $41.60 to Travel.''\<rparr>,
        \<lparr>run_at = ''yesterday'', run_outcome = HeldRun,
    run_note = (''Receipt $228 '' @ [CHR 0xE2, CHR 0x80, CHR 0x94] @ '' above threshold, routed.'')\<rparr>,
        \<lparr>run_at = ''yesterday'', run_outcome = Completed, run_note = ''Filed $9.99 to Software.''\<rparr>,
        \<lparr>run_at = ''2d ago'', run_outcome = Completed, run_note = ''Filed $32.00 to Snacks.''\<rparr>]\<rparr>"

definition recipes_r12 :: recipe where
  "recipes_r12 = \<lparr>rcp_id = ''r12'', rcp_name = ''Acknowledge Stripe disputes within SLA'',
    rcp_purpose = ''When a Stripe dispute opens, attach the matching proof-of-delivery and route the bundle for your approval.'',
    rcp_category = CatOperations, rcp_status = New, rcp_risk = RHigh, rcp_lastRun = None,
    rcp_schedule = ''On every Stripe dispute webhook'', rcp_cron = ''trigger: webhook.stripe.dispute.created'',
    rcp_fallback = ''If no proof-of-delivery is found, the dispute is routed to your inbox with the gap flagged.'',
    rcp_retry = ''Retries every 30 minutes until the SLA window closes (24h).'',
    rcp_permissions = [\<lparr>perm_key = ''stripe.read.dispute'', perm_label = ''Read open Stripe disputes'', perm_scope = Scoped,
    perm_approvals = Some 0\<rparr>,
        \<lparr>perm_key = ''storage.read.proof'', perm_label = ''Read proof-of-delivery files'', perm_scope = Scoped,
    perm_approvals = Some 0\<rparr>,
        \<lparr>perm_key = ''stripe.evidence.draft'', perm_label = ''Draft (not submit) evidence'', perm_scope = Scoped,
    perm_approvals = Some 0\<rparr>,
        \<lparr>perm_key = ''inbox.route'', perm_label = ''Route bundle for operator approval'', perm_scope = Scoped,
    perm_approvals = Some 1240\<rparr>],
    rcp_safety = \<lparr>rs_can = [''Read open disputes and their case metadata'', ''Pull matching proof-of-delivery from storage'', ''Draft an evidence bundle for your review''],
    rs_cannot = [''Submit evidence to Stripe without your approval'', ''Issue refunds or close disputes directly'', ''Contact the disputing customer''],
    rs_needsApproval = [''Every evidence submission (always)''],
    rs_stopsIf = [''Stripe webhook signature fails verification'', ''Case status changes between bundle and submit'']\<rparr>,
    rcp_policy = policy [5], rcp_recentRuns = []\<rparr>"

definition recipes_r13 :: recipe where
  "recipes_r13 = \<lparr>rcp_id = ''r13'', rcp_name = ''Roll deploy logs to cold storage nightly'',
    rcp_purpose = (''Move yesterday'' @ [CHR 0x27] @ ''s CI deploy logs into cold storage and prune anything older than 90 days.''),
    rcp_category = CatOperations, rcp_status = Active, rcp_risk = RLow, rcp_lastRun = Some ''last night'',
    rcp_schedule = ''Daily at 2:00 AM PT'', rcp_cron = ''0 2 * * *'',
    rcp_fallback = ''If cold storage is unreachable, hot logs are kept; nothing is pruned.'',
    rcp_retry = ''Retries every 30 minutes for up to 6 hours.'',
    rcp_permissions = [\<lparr>perm_key = ''logs.read.deploy'', perm_label = ''Read CI deploy logs'', perm_scope = Scoped,
    perm_approvals = Some 240\<rparr>,
        \<lparr>perm_key = ''storage.write.cold'', perm_label = ''Write to cold storage'', perm_scope = Scoped,
    perm_approvals = Some 240\<rparr>,
        \<lparr>perm_key = ''logs.prune'', perm_label = ''Prune logs older than 90d'', perm_scope = Scoped,
    perm_approvals = Some 240\<rparr>],
    rcp_safety = \<lparr>rs_can = [''Move deploy logs from hot to cold storage'', ''Prune logs older than 90 days''],
    rs_cannot = [''Read application or customer data logs'', ''Prune anything younger than 90 days''],
    rs_needsApproval = [''Any retention-policy change''], rs_stopsIf = [''Hot storage drops below 10% free space'']\<rparr>,
    rcp_policy = policy [],
    rcp_recentRuns = [\<lparr>run_at = ''last night'', run_outcome = Completed, run_note = ''Moved 47 log files, pruned 12 over 90d.''\<rparr>,
        \<lparr>run_at = ''2d ago'', run_outcome = Completed, run_note = ''Moved 51 log files, pruned 9 over 90d.''\<rparr>,
        \<lparr>run_at = ''3d ago'', run_outcome = Completed, run_note = ''Moved 44 log files, pruned 14 over 90d.''\<rparr>]\<rparr>"

definition recipes_r14 :: recipe where
  "recipes_r14 = \<lparr>rcp_id = ''r14'', rcp_name = ''Compose Monday status digest'',
    rcp_purpose = (''Pull last week'' @ [CHR 0x27] @ ''s signals and draft the Monday digest into your inbox by 7 AM '' @ [CHR 0xE2, CHR 0x80, CHR 0x94] @ '' never sends.''),
    rcp_category = CatDrafting, rcp_status = Active, rcp_risk = RLow, rcp_lastRun = Some ''last Monday'',
    rcp_schedule = ''Mondays at 6:30 AM PT'', rcp_cron = ''30 6 * * 1'',
    rcp_fallback = (''If signal sources are unavailable, the digest is drafted with what'' @ [CHR 0x27] @ ''s available + a gap note.''),
    rcp_retry = ''Retries once at 6:45 AM PT.'',
    rcp_permissions = [\<lparr>perm_key = ''signals.read'', perm_label = ''Read internal signal sources'', perm_scope = Scoped,
    perm_approvals = Some 412\<rparr>,
        \<lparr>perm_key = ''drafts.write'', perm_label = ''Draft digest in your inbox'', perm_scope = Scoped,
    perm_approvals = Some 412\<rparr>],
    rcp_safety = \<lparr>rs_can = [''Read internal signal sources (CI, heartbeat, inbox stats)'', ''Draft the digest into your inbox''],
    rs_cannot = [''Send the digest outside the workspace'', ''Read customer-facing data sources''],
    rs_needsApproval = [''Every send of the digest''],
    rs_stopsIf = [''Body of the draft diverges materially from the template'']\<rparr>, rcp_policy = policy [],
    rcp_recentRuns = [\<lparr>run_at = ''last Monday'', run_outcome = Approved, run_note = ''Digest drafted, you reviewed and sent at 8:12 AM.''\<rparr>,
        \<lparr>run_at = ''8d ago'', run_outcome = Approved, run_note = ''Digest drafted, you reviewed and sent at 8:04 AM.''\<rparr>,
        \<lparr>run_at = ''15d ago'', run_outcome = Approved, run_note = ''Digest drafted, you reviewed and sent at 7:58 AM.''\<rparr>]\<rparr>"

definition recipes_r15 :: recipe where
  "recipes_r15 = \<lparr>rcp_id = ''r15'', rcp_name = ''Draft thank-you notes after customer calls'',
    rcp_purpose = ''After any customer-tagged calendar event ends, draft a one-paragraph thank-you in your voice.'',
    rcp_category = CatDrafting, rcp_status = Paused, rcp_risk = RLow, rcp_lastRun = Some ''9d ago'',
    rcp_schedule = (''30 minutes after any '' @ [CHR 0x27] @ ''customer'' @ [CHR 0x27] @ '' calendar event ends''),
    rcp_cron = (''trigger: calendar.event.ended { tag: '' @ [CHR 0x27] @ ''customer'' @ [CHR 0x27] @ '' }''),
    rcp_fallback = ''If the call ran less than 10 minutes, no draft is composed.'',
    rcp_retry = (''No retry '' @ [CHR 0xE2, CHR 0x80, CHR 0x94] @ '' single attempt per event.''),
    rcp_permissions = [\<lparr>perm_key = ''calendar.read.customer'', perm_label = ''Read customer-tagged events'', perm_scope = Scoped,
    perm_approvals = Some 64\<rparr>,
        \<lparr>perm_key = ''drafts.write'', perm_label = ''Draft thank-you in inbox'', perm_scope = Scoped,
    perm_approvals = Some 412\<rparr>],
    rcp_safety = \<lparr>rs_can = [''Draft a personal-tone thank-you note in your inbox'', ''Pull context only from the calendar event title and your notes''],
    rs_cannot = [''Send anything without your read'', (''Reference internal notes you'' @ [CHR 0x27] @ ''ve marked private'')],
    rs_needsApproval = [''Every send''], rs_stopsIf = [''Tone check reads as templated or generic'']\<rparr>,
    rcp_policy = policy [], rcp_recentRuns = [\<lparr>run_at = ''9d ago'', run_outcome = Approved,
    run_note = (''Thank-you to Sandra Lopez '' @ [CHR 0xE2, CHR 0x80, CHR 0x94] @ '' you edited two lines and sent.'')\<rparr>,
        \<lparr>run_at = ''16d ago'', run_outcome = Skipped, run_note = ''Call was 6 minutes; under threshold.''\<rparr>,
        \<lparr>run_at = ''23d ago'', run_outcome = Approved,
    run_note = (''Thank-you to Marcus Yi '' @ [CHR 0xE2, CHR 0x80, CHR 0x94] @ '' sent as-drafted.'')\<rparr>]\<rparr>"

definition mockRecipes :: "recipe list" where
  "mockRecipes =
    [recipes_r01, recipes_r02, recipes_r03, recipes_r04, recipes_r05, recipes_r06, recipes_r07, recipes_r08,
     recipes_r09, recipes_r10, recipes_r11, recipes_r12, recipes_r13, recipes_r14, recipes_r15]"

section \<open>Identifiers\<close>

lemmas recipe_defs =
  recipes_r01_def recipes_r02_def recipes_r03_def recipes_r04_def recipes_r05_def recipes_r06_def
  recipes_r07_def recipes_r08_def recipes_r09_def recipes_r10_def recipes_r11_def recipes_r12_def
  recipes_r13_def recipes_r14_def recipes_r15_def mockRecipes_def

lemma recipe_ids: "map rcp_id mockRecipes = map (\<lambda>n. CHR ''r'' # nat_str (n div 10) @ nat_str (n mod 10)) [1..<16]"
  by (simp only: recipe_defs list.map recipe.select_convs) code_simp

interpretation recipe_data: keyed_data rcp_id mockRecipes
  by unfold_locales (simp only: recipe_ids, code_simp)

lemma permission_keys_distinct: "list_all distinct (map (\<lambda>r. map perm_key (rcp_permissions r)) mockRecipes)"
  by (simp only: recipe_defs list.map recipe.select_convs recipe_permission.select_convs) code_simp

section \<open>The page on its fixtures\<close>

text \<open>What a card says of the last run is what its history begins with, and a recipe has never run exactly when it is
  new.\<close>

lemma last_runs:
  "list_all (\<lambda>(l, st, runs). l = (case runs of [] \<Rightarrow> None | a # _ \<Rightarrow> Some a) \<and> (l = None) = (st = New) \<and> length runs \<le> 10)
     (map (\<lambda>r. (rcp_lastRun r, rcp_status r, map run_at (rcp_recentRuns r))) mockRecipes)"
  by (simp only: recipe_defs list.map recipe.select_convs run_event.select_convs) code_simp

text \<open>So the history shown is complete.\<close>

lemma history_complete: "r \<in> set mockRecipes \<Longrightarrow> shown_runs r = rcp_recentRuns r"
  using last_runs by (auto simp: list_all_iff shown_runs_def)

text \<open>Every recipe is under the five layers, whichever of them are watching; of the fixtures at least four are active
  for each, and each can do something, cannot do something, and has a condition that stops it.\<close>

lemma policy_layers: "map rl_id (policy w) = [1, 2, 3, 4, 5] \<and> map rl_name (policy w) = map fst mockFiveLayers"
  by (simp add: policy_def mockFiveLayers_def upt_rec)

lemma fixture_layers:
  "list_all (\<lambda>ls. 4 \<le> active_layers ls) (map rcp_policy mockRecipes)"
  by (simp only: recipe_defs list.map recipe.select_convs) (simp add: policy_def mockFiveLayers_def upt_rec active_layers_def)

lemma fixture_safety:
  "list_all (\<lambda>s. rs_can s \<noteq> [] \<and> rs_cannot s \<noteq> [] \<and> rs_stopsIf s \<noteq> []) (map rcp_safety mockRecipes)"
  by (simp only: recipe_defs list.map recipe.select_convs recipe_safety.select_convs list.pred_inject) simp

section \<open>The drawer and the page behind it\<close>

lemma recipes_inv_fixtures: "recipes_inv (recipes_init mockRecipes)"
proof -
  have "[] \<notin> set (map rcp_id mockRecipes)" unfolding recipe_ids by auto
  then show ?thesis by (simp add: recipes_inv_def recipes_init_def)
qed

lemmas recipes_never_frozen = recipes_drawer.locked_while_shown [OF _ recipes_inv_fixtures]

end
