(* ===== verification/Wired_Page.thy ===== *)
theory Wired_Page
  imports Route_Data Api_Client
begin

text \<open>
  A v2 page together with the gateway client (\<open>apps/web/src/lib/api.ts\<close>) and the network.  An event of the page may
  call operations of the client; in a real route each call puts a request on the wire at once, and what the
  network makes of it arrives later, in any order, through the client's handling of responses.  In a mock route
  nothing is sent and the fixture is the answer.

  A page provides the operations its events call (\<open>calls\<close>), the event that an answer becomes (\<open>deliver\<close>) and the
  calls it is waiting for (\<open>awaits\<close>); the locale \<open>wired_page\<close> shows what is on the wire after any run.
\<close>

section \<open>One call\<close>

text \<open>What a call sends, and what it gives once the outcome is known.\<close>

definition send_op :: "vite_env \<Rightarrow> (v2_route \<Rightarrow> json) \<Rightarrow> api_config \<Rightarrow> v2_op \<Rightarrow> http_request list \<Rightarrow> http_request list" where
  "send_op env mock c op w = snd (v2_call env mock c (recorder (NetworkFailure [])) op w)"

definition answer_of :: "vite_env \<Rightarrow> (v2_route \<Rightarrow> json) \<Rightarrow> api_config \<Rightarrow> v2_op \<Rightarrow> fetch_outcome \<Rightarrow> api_failure + json option" where
  "answer_of env mock c op oc = fst (v2_call env mock c (recorder oc) op [])"

text \<open>The interface of the gateway, operation by operation: method, path and body.\<close>

primrec op_interface :: "v2_op \<Rightarrow> jstr \<times> jstr \<times> json option" where
  "op_interface HomeLoad = (''GET'', ''/home'', None)"
| "op_interface InboxList = (''GET'', ''/inbox'', None)"
| "op_interface RecipesV2List = (''GET'', ''/v2/recipes'', None)"
| "op_interface ResearchLoad = (''GET'', ''/v2/research'', None)"
| "op_interface MemoryV2List = (''GET'', ''/v2/memory'', None)"
| "op_interface HealthLoad = (''GET'', ''/health/status'', None)"
| "op_interface SecurityLoad = (''GET'', ''/v2/security'', None)"
| "op_interface SettingsLoad = (''GET'', ''/v2/settings'', None)"
| "op_interface CommitmentsList = (''GET'', ''/v2/commitments'', None)"
| "op_interface (CommitmentsDismiss i) = (''POST'', ''/v2/commitments/'' @ i @ ''/dismiss'', Some (JObj []))"
| "op_interface (CommitmentsSnooze i t) = (''POST'', ''/v2/commitments/'' @ i @ ''/snooze'', Some (JObj [(''until_ms'', JNum t)]))"
| "op_interface AuditFindings = (''GET'', ''/v2/audit/findings'', None)"

definition op_request :: "api_config \<Rightarrow> v2_op \<Rightarrow> http_request" where
  "op_request c op = (case op_interface op of (meth, path, body) \<Rightarrow> build_request c meth path body)"

lemma send_op_request:
  "send_op env mock c op w = (if isRealForRoute env (op_route op) then w @ [op_request c op] else w)"
  by (cases op) (simp_all add: send_op_def op_request_def api_get_def api_post_def request_recorded)

lemma op_request_carries: "carries_config c (op_request c op)"
  by (cases op) (simp_all add: op_request_def build_request_carries)

lemma op_request_method: "req_method (op_request c op) = fst (op_interface op)"
  by (cases op) (simp_all add: op_request_def build_request_def)

lemma answer_mock: "\<not> isRealForRoute env (op_route op) \<Longrightarrow> answer_of env mock c op oc = Inr (mock_result mock op)"
  by (simp add: answer_of_def mock_mode_never_fetches)

section \<open>The page on the wire\<close>

record 'p wired =
  wi_page :: 'p
  wi_sent :: "http_request list"

datatype 'v wired_event = Ui 'v | Answer v2_op nat fetch_outcome

definition wired_init :: "'p \<Rightarrow> 'p wired" where
  "wired_init p = \<lparr>wi_page = p, wi_sent = []\<rparr>"

definition delivered_event ::
  "vite_env \<Rightarrow> (v2_route \<Rightarrow> json) \<Rightarrow> api_config \<Rightarrow> (v2_op \<Rightarrow> nat \<Rightarrow> api_failure + json option \<Rightarrow> 'v) \<Rightarrow> 'v wired_event \<Rightarrow> 'v" where
  "delivered_event env mock c deliver v = (case v of Ui u \<Rightarrow> u | Answer op n oc \<Rightarrow> deliver op n (answer_of env mock c op oc))"

text \<open>The user and the application make the events that are their own; an answer comes to a call that waits.\<close>

definition wired_enabled ::
  "('v \<Rightarrow> bool) \<Rightarrow> ('v \<Rightarrow> 'p \<Rightarrow> bool) \<Rightarrow> (v2_op \<Rightarrow> nat \<Rightarrow> 'p \<Rightarrow> bool) \<Rightarrow> 'v wired_event \<Rightarrow> 'p wired \<Rightarrow> bool" where
  "wired_enabled own en awaits v s =
     (case v of Ui u \<Rightarrow> own u \<and> en u (wi_page s) | Answer op n oc \<Rightarrow> awaits op n (wi_page s))"

definition wired_exec ::
  "vite_env \<Rightarrow> (v2_route \<Rightarrow> json) \<Rightarrow> api_config \<Rightarrow> ('v \<Rightarrow> v2_op list) \<Rightarrow> ('v \<Rightarrow> 'p \<Rightarrow> 'p)
   \<Rightarrow> (v2_op \<Rightarrow> nat \<Rightarrow> api_failure + json option \<Rightarrow> 'v) \<Rightarrow> 'v wired_event \<Rightarrow> 'p wired \<Rightarrow> 'p wired" where
  "wired_exec env mock c calls ex deliver v s =
     (let u = delivered_event env mock c deliver v
      in s\<lparr>wi_page := ex u (wi_page s), wi_sent := fold (send_op env mock c) (calls u) (wi_sent s)\<rparr>)"

definition called :: "('v \<Rightarrow> v2_op list) \<Rightarrow> 'v list \<Rightarrow> v2_op list" where
  "called calls us = concat (map calls us)"

locale wired_page =
  fixes route :: v2_route and own :: "'v \<Rightarrow> bool" and en :: "'v \<Rightarrow> 'p \<Rightarrow> bool" and ex :: "'v \<Rightarrow> 'p \<Rightarrow> 'p"
    and calls :: "'v \<Rightarrow> v2_op list" and deliver :: "v2_op \<Rightarrow> nat \<Rightarrow> api_failure + json option \<Rightarrow> 'v"
    and awaits :: "v2_op \<Rightarrow> nat \<Rightarrow> 'p \<Rightarrow> bool"
  assumes calls_route: "op \<in> set (calls u) \<Longrightarrow> op_route op = route"
    and awaits_enabled: "awaits op n p \<Longrightarrow> en (deliver op n r) p"
begin

abbreviation "wrun env mock c \<equiv> page_run (wired_enabled own en awaits) (wired_exec env mock c calls ex deliver)"

abbreviation "events env mock c \<equiv> map (delivered_event env mock c deliver)"

lemma sends:
  "set ops \<subseteq> {op. op_route op = route} \<Longrightarrow>
   fold (send_op env mock c) ops w = (if isRealForRoute env route then w @ map (op_request c) ops else w)"
  by (induction ops arbitrary: w) (auto simp: send_op_request)

text \<open>The page does what it does alone, given the answers; and the wire holds the calls of a real route, in their
  order and nothing else.\<close>

lemma enabled_event: "wired_enabled own en awaits v s \<Longrightarrow> en (delivered_event env mock c deliver v) (wi_page s)"
  by (auto simp: wired_enabled_def delivered_event_def awaits_enabled split: wired_event.splits)

lemma projection:
  "wrun env mock c vs s = Some s' \<Longrightarrow> page_run en ex (events env mock c vs) (wi_page s) = Some (wi_page s')"
proof (induction vs arbitrary: s)
  case (Cons v vs)
  then have "wired_enabled own en awaits v s" "wrun env mock c vs (wired_exec env mock c calls ex deliver v s) = Some s'"
    by (auto split: if_splits)
  then show ?case using Cons.IH enabled_event by (fastforce simp: wired_exec_def Let_def)
qed simp

lemma on_the_wire:
  assumes "wrun env mock c vs s = Some s'"
  shows "wi_sent s' = wi_sent s @ (if isRealForRoute env route then map (op_request c) (called calls (events env mock c vs)) else [])"
  using assms
proof (induction vs arbitrary: s)
  case (Cons v vs)
  let ?u = "delivered_event env mock c deliver v"
  have "set (calls ?u) \<subseteq> {op. op_route op = route}" using calls_route by blast
  then have "wi_sent (wired_exec env mock c calls ex deliver v s)
      = wi_sent s @ (if isRealForRoute env route then map (op_request c) (calls ?u) else [])"
    by (simp add: wired_exec_def Let_def sends)
  with Cons show ?case by (auto simp: called_def split: if_splits)
qed (simp add: called_def)

lemma sent_carry:
  assumes "wrun env mock c vs (wired_init p) = Some s" "q \<in> set (wi_sent s)"
  shows "carries_config c q"
  using assms on_the_wire [OF assms(1)] by (auto simp: wired_init_def op_request_carries split: if_splits)

end

text \<open>The loader runs when the envelope is mounted, when its dependencies change and when it is asked to reload.\<close>

fun route_calls :: "v2_op \<Rightarrow> ('a, 'e) rd_event \<Rightarrow> v2_op list" where
  "route_calls load Mount = [load]"
| "route_calls load DepsChanged = [load]"
| "route_calls load Reload = [load]"
| "route_calls load _ = []"

lemma route_calls_only: "set (route_calls load ev) \<subseteq> {load}"
  by (cases ev) auto

definition starts_route :: "('a, 'e) rd_event \<Rightarrow> bool" where
  "starts_route ev \<longleftrightarrow> (case ev of Mount \<Rightarrow> True | DepsChanged \<Rightarrow> True | Reload \<Rightarrow> True | _ \<Rightarrow> False)"

lemma route_calls_starts: "route_calls load ev = (if starts_route ev then [load] else [])"
  by (cases ev) (simp_all add: starts_route_def)

text \<open>A page that only ever loads puts nothing else on the wire: one request each time its loader runs.\<close>

locale reading_page = wired_page "op_route load" own en ex calls deliver awaits
  for load :: v2_op and own :: "'v \<Rightarrow> bool" and en :: "'v \<Rightarrow> 'p \<Rightarrow> bool" and ex :: "'v \<Rightarrow> 'p \<Rightarrow> 'p"
    and calls :: "'v \<Rightarrow> v2_op list" and deliver :: "v2_op \<Rightarrow> nat \<Rightarrow> api_failure + json option \<Rightarrow> 'v"
    and awaits :: "v2_op \<Rightarrow> nat \<Rightarrow> 'p \<Rightarrow> bool" +
  fixes starts :: "'v \<Rightarrow> bool"
  assumes calls_load: "calls u = (if starts u then [load] else [])"
    and answers_start_nothing: "\<not> starts (deliver op n r)"
begin

lemma only_reads:
  assumes "wrun env mock c vs (wired_init p) = Some s"
  shows "wi_sent s = (if isRealForRoute env (op_route load)
    then replicate (length (filter (\<lambda>v. case v of Ui u \<Rightarrow> starts u | _ \<Rightarrow> False) vs)) (op_request c load) else [])"
proof -
  have "calls (delivered_event env mock c deliver v) = (if (case v of Ui u \<Rightarrow> starts u | _ \<Rightarrow> False) then [load] else [])" for v
    by (cases v) (simp_all add: delivered_event_def calls_load answers_start_nothing)
  then have "called calls (events env mock c vs) = replicate (length (filter (\<lambda>v. case v of Ui u \<Rightarrow> starts u | _ \<Rightarrow> False) vs)) load"
    by (induction vs) (simp_all add: called_def)
  then show ?thesis using on_the_wire [OF assms] by (simp add: wired_init_def)
qed

end

end
