(* ===== verification/Commitments_Wire.thy ===== *)
theory Commitments_Wire
  imports Wired_Page Commitments_Page
begin

text \<open>
  The Commitments page with the client and the network.  It hands \<open>useRouteData\<close> the fixture as first data and a loader
  that calls the client; its buttons call the client, too, and when such a call has settled, well or not, the page
  asks for the list again.  What the JSON of an answer is as a list of records (\<open>decode\<close>, a type assertion in the
  code) is a parameter.
\<close>

section \<open>The calls of the page\<close>

fun commitments_calls :: "commitments_event \<Rightarrow> v2_op list" where
  "commitments_calls (Route ev) = route_calls CommitmentsList ev"
| "commitments_calls (PickFilter f) = []"
| "commitments_calls (DismissClick i) = [CommitmentsDismiss i]"
| "commitments_calls (SnoozeClick now i) = [CommitmentsSnooze i (now + 4 * 60 * 60 * 1000)]"
| "commitments_calls (Settled k) = [CommitmentsList]"

fun commitments_own :: "commitments_event \<Rightarrow> bool" where
  "commitments_own (Route (Resolved n v)) = False"
| "commitments_own (Route (Rejected n e)) = False"
| "commitments_own (Settled k) = False"
| "commitments_own _ = True"

definition commitments_deliver ::
  "(json option \<Rightarrow> commitment list) \<Rightarrow> v2_op \<Rightarrow> nat \<Rightarrow> api_failure + json option \<Rightarrow> commitments_event" where
  "commitments_deliver decode op n r =
     (if op = CommitmentsList then Route (case r of Inr v \<Rightarrow> Resolved n (decode v) | Inl e \<Rightarrow> Rejected n e) else Settled n)"

definition commitments_awaits :: "v2_op \<Rightarrow> nat \<Rightarrow> commitments_page \<Rightarrow> bool" where
  "commitments_awaits op n s =
     (if op = CommitmentsList then n \<in> set (pending (cload s)) else n < length (in_flight s) \<and> in_flight s ! n = op)"

interpretation commitments_wire: wired_page RCommitments commitments_own commitments_enabled commitments_exec commitments_calls
  "commitments_deliver decode" commitments_awaits for decode
proof
  show "op_route op = RCommitments" if "op \<in> set (commitments_calls u)" for op u
    using that by (cases u) (auto dest: subsetD [OF route_calls_only])
  show "commitments_enabled (commitments_deliver decode op n r) p" if "commitments_awaits op n p" for op n p r
    using that by (auto simp: commitments_awaits_def commitments_deliver_def split: if_splits sum.splits)
qed

text \<open>The calls the model of the page keeps track of are those it makes: a click adds its call to those under way, and the
  loader is called exactly when the envelope starts a new request.\<close>

lemma calls_tracked:
  "commitments_own u \<Longrightarrow> in_flight (commitments_exec u p) = in_flight p @ filter (\<lambda>op. op \<noteq> CommitmentsList) (commitments_calls u)"
  "length (filter (\<lambda>op. op = CommitmentsList) (commitments_calls u))
     = length (filter (\<lambda>n. invocationRef (cload p) < n) (pending (cload (commitments_exec u p))))"
  if "rd_inv (cload p)"
proof -
  show "commitments_own u \<Longrightarrow> in_flight (commitments_exec u p) = in_flight p @ filter (\<lambda>op. op \<noteq> CommitmentsList) (commitments_calls u)"
    using route_calls_only [of CommitmentsList] by (cases u) (auto simp: start_dismiss_def start_snooze_def Let_def filter_empty_conv)
  have old: "filter (\<lambda>n. invocationRef (cload p) < n) (pending (cload p)) = []"
    using that by (auto simp: rd_inv_def filter_empty_conv)
  have gone: "filter (\<lambda>n. invocationRef (cload p) < n) (remove1 k (pending (cload p))) = []" for k
    using old by (metis filter_empty_conv notin_set_remove1)
  show "length (filter (\<lambda>op. op = CommitmentsList) (commitments_calls u))
     = length (filter (\<lambda>n. invocationRef (cload p) < n) (pending (cload (commitments_exec u p))))"
  proof (cases u)
    case (Route ev)
    then show ?thesis using old gone by (cases ev) (simp_all add: rd_op_defs)
  qed (use old in \<open>simp_all add: start_dismiss_def start_snooze_def finish_action_def run_def Let_def\<close>)
qed

text \<open>What the user asked for, in order.\<close>

definition user_actions :: "commitments_event wired_event list \<Rightarrow> v2_op list" where
  "user_actions vs = concat (map (\<lambda>v. case v of Ui (DismissClick i) \<Rightarrow> [CommitmentsDismiss i]
     | Ui (SnoozeClick now i) \<Rightarrow> [CommitmentsSnooze i (now + 4 * 60 * 60 * 1000)] | _ \<Rightarrow> []) vs)"

lemma user_actions_Cons: "user_actions (v # vs) = user_actions [v] @ user_actions vs"
  by (simp only: user_actions_def list.map concat.simps append_Nil2)

lemma posts_of_events:
  "filter (\<lambda>q. req_method q = ''POST'') (map (op_request c) (called commitments_calls (map (delivered_event env mock c (commitments_deliver decode)) vs)))
   = map (op_request c) (user_actions vs)" if "list_all (\<lambda>v. \<forall>u. v = Ui u \<longrightarrow> commitments_own u) vs"
  using that
proof (induction vs)
  case (Cons v vs)
  have load: "filter (\<lambda>q. req_method q = ''POST'') (map (op_request c) (route_calls CommitmentsList ev)) = []" for ev :: "('x, 'y) rd_event"
    using route_calls_only [of CommitmentsList ev] by (auto simp: filter_empty_conv op_request_method)
  have "filter (\<lambda>q. req_method q = ''POST'') (map (op_request c) (commitments_calls (delivered_event env mock c (commitments_deliver decode) v)))
      = map (op_request c) (user_actions [v])"
  proof (cases v)
    case (Ui u)
    then show ?thesis using Cons.prems load by (cases u) (simp_all add: delivered_event_def user_actions_def op_request_method)
  next
    case (Answer op n oc)
    then show ?thesis
      by (simp add: delivered_event_def user_actions_def op_request_method commitments_deliver_def split: sum.split)
  qed
  with Cons show ?case by (simp add: called_def user_actions_Cons [of v vs])
qed (simp add: called_def user_actions_def)

definition commitments_wired ::
  "vite_env \<Rightarrow> (v2_route \<Rightarrow> json) \<Rightarrow> api_config \<Rightarrow> (json option \<Rightarrow> commitment list) \<Rightarrow> commitments_event wired_event list
   \<Rightarrow> commitments_page wired option" where
  "commitments_wired env mock c decode vs =
     page_run (wired_enabled commitments_own commitments_enabled commitments_awaits)
       (wired_exec env mock c commitments_calls commitments_exec (commitments_deliver decode)) vs
       (wired_init (commitments_init (Some (decode (Some (mock RCommitments))))))"

lemma run_own:
  "page_run (wired_enabled own en awaits) ex vs s = Some s' \<Longrightarrow> list_all (\<lambda>v. \<forall>u. v = Ui u \<longrightarrow> own u) vs"
  by (induction vs arbitrary: s) (auto simp: wired_enabled_def split: if_splits)

text \<open>In mock mode the page shows the fixture, whatever is clicked.\<close>

definition shows_fixture :: "commitment list \<Rightarrow> commitments_page wired \<Rightarrow> bool" where
  "shows_fixture fx s \<longleftrightarrow> rd_data (cload (wi_page s)) = Some fx \<and> rd_status (cload (wi_page s)) = Ok"

lemma mock_step:
  assumes "\<not> isRealForRoute env RCommitments" "shows_fixture (decode (Some (mock RCommitments))) s"
    and "wired_enabled commitments_own commitments_enabled commitments_awaits v s"
  shows "shows_fixture (decode (Some (mock RCommitments)))
    (wired_exec env mock c commitments_calls commitments_exec (commitments_deliver decode) v s)"
proof (cases v)
  case (Ui u)
  then have "commitments_own u" using assms(3) by (simp add: wired_enabled_def)
  then show ?thesis using Ui assms(2)
    by (induction u rule: commitments_own.induct)
      (auto simp: wired_exec_def delivered_event_def shows_fixture_def rd_op_defs start_dismiss_def start_snooze_def finish_action_def)
next
  case (Answer op n oc)
  have "answer_of env mock c CommitmentsList oc = Inr (Some (mock RCommitments))"
    using assms(1) by (simp add: answer_mock mock_result_def)
  then show ?thesis using Answer assms(2)
    by (auto simp: wired_exec_def delivered_event_def shows_fixture_def commitments_deliver_def rd_op_defs finish_action_def Let_def)
qed

text \<open>What the page holds came from somewhere: it is the fixture or the list of an answer that has arrived.\<close>

definition came_from ::
  "vite_env \<Rightarrow> (v2_route \<Rightarrow> json) \<Rightarrow> api_config \<Rightarrow> (json option \<Rightarrow> commitment list) \<Rightarrow> commitments_event wired_event list
   \<Rightarrow> commitment list \<Rightarrow> bool" where
  "came_from env mock c decode us d \<longleftrightarrow> d = decode (Some (mock RCommitments))
     \<or> (\<exists>n oc v. Answer CommitmentsList n oc \<in> set us \<and> answer_of env mock c CommitmentsList oc = Inr v \<and> d = decode v)"

lemma exec_data:
  assumes "wired_enabled commitments_own commitments_enabled commitments_awaits v s"
    and "rd_data (cload (wi_page (wired_exec env mock c commitments_calls commitments_exec (commitments_deliver decode) v s))) = Some d"
  shows "rd_data (cload (wi_page s)) = Some d
    \<or> (\<exists>n oc w. v = Answer CommitmentsList n oc \<and> answer_of env mock c CommitmentsList oc = Inr w \<and> d = decode w)"
proof (cases v)
  case (Ui u)
  then have "commitments_own u" using assms(1) by (simp add: wired_enabled_def)
  then show ?thesis using assms(2) Ui
    by (induction u rule: commitments_own.induct)
      (auto simp: wired_exec_def delivered_event_def rd_op_defs start_dismiss_def start_snooze_def finish_action_def)
next
  case (Answer op n oc)
  then show ?thesis using assms(2)
    by (auto simp: wired_exec_def delivered_event_def commitments_deliver_def rd_op_defs finish_action_def Let_def
        split: if_splits sum.splits)
qed

lemma data_came_from:
  "commitments_wired env mock c decode us = Some r \<Longrightarrow> rd_data (cload (wi_page r)) = Some d \<Longrightarrow> came_from env mock c decode us d"
proof (induction us arbitrary: r d rule: rev_induct)
  case Nil
  then show ?case by (auto simp: commitments_wired_def wired_init_def commitments_init_def rd_init_def came_from_def)
next
  case (snoc v us)
  then obtain q where q: "commitments_wired env mock c decode us = Some q"
      "wired_enabled commitments_own commitments_enabled commitments_awaits v q"
      "r = wired_exec env mock c commitments_calls commitments_exec (commitments_deliver decode) v q"
    by (auto simp: commitments_wired_def page_run_append split: bind_splits if_splits)
  have grow: "came_from env mock c decode us d \<Longrightarrow> came_from env mock c decode (us @ [v]) d"
    by (auto simp: came_from_def)
  from exec_data [OF q(2) snoc.prems(2) [unfolded q(3)]] show ?case
  proof (elim disjE exE conjE)
    assume "rd_data (cload (wi_page q)) = Some d"
    then show ?thesis using snoc.IH [OF q(1)] grow by blast
  next
    fix n oc w
    assume "v = Answer CommitmentsList n oc" "answer_of env mock c CommitmentsList oc = Inr w" "d = decode w"
    then show ?thesis unfolding came_from_def by auto
  qed
qed

lemma live_card:
  assumes "button_live i p"
  shows "\<exists>d x. rd_data (cload p) = Some d \<and> x \<in> set d \<and> cm_id x = i \<and> cm_status x = Pending"
  using assms
  by (auto simp: button_live_def page_view_def visible_commitments_def canAct_def list_ex_iff
      split: if_splits option.splits commitment_filter.splits)

text \<open>C8.
  What the Commitments page puts on the wire.  In a real route the requests that change something are exactly the
  user's clicks on Dismiss and Snooze, each once and in their order, with the identifier of the card and a time four
  hours ahead; every other request asks for the list, and all of them carry the configured credentials.  Whatever
  is dismissed or snoozed was pending when the page learned of it: in the fixture the page starts with, or in
  an answer that had arrived before the click.  In a mock route nothing is ever sent, and the page shows the fixture.
\<close>

theorem commitments_over_the_wire:
  assumes "commitments_wired env mock c decode vs = Some s"
  shows "(if isRealForRoute env RCommitments
      then filter (\<lambda>q. req_method q = ''POST'') (wi_sent s) = map (op_request c) (user_actions vs)
        \<and> (\<forall>q\<in>set (wi_sent s). carries_config c q \<and> (req_method q \<noteq> ''POST'' \<longrightarrow> q = op_request c CommitmentsList))
      else wi_sent s = []
        \<and> page_view (wi_page s) = ListView (visible_commitments (cfilter (wi_page s)) (decode (Some (mock RCommitments)))))
    \<and> (\<forall>us u i now ws. vs = us @ Ui u # ws \<and> (u = DismissClick i \<or> u = SnoozeClick now i) \<longrightarrow>
         (\<exists>d x. came_from env mock c decode us d \<and> x \<in> set d \<and> cm_id x = i \<and> cm_status x = Pending))"
proof (intro conjI allI impI)
  note run = assms [unfolded commitments_wired_def]
  let ?us = "map (delivered_event env mock c (commitments_deliver decode)) vs"
  have sent: "wi_sent s = (if isRealForRoute env RCommitments then map (op_request c) (called commitments_calls ?us) else [])"
    using commitments_wire.on_the_wire [OF run] by (simp add: wired_init_def)
  have other: "op = CommitmentsList" if "op \<in> set (commitments_calls u)" "fst (op_interface op) \<noteq> ''POST''" for op u
    using that by (cases u) (auto dest: subsetD [OF route_calls_only])
  show "if isRealForRoute env RCommitments
      then filter (\<lambda>q. req_method q = ''POST'') (wi_sent s) = map (op_request c) (user_actions vs)
        \<and> (\<forall>q\<in>set (wi_sent s). carries_config c q \<and> (req_method q \<noteq> ''POST'' \<longrightarrow> q = op_request c CommitmentsList))
      else wi_sent s = []
        \<and> page_view (wi_page s) = ListView (visible_commitments (cfilter (wi_page s)) (decode (Some (mock RCommitments))))"
  proof (cases "isRealForRoute env RCommitments")
    case True
    have "\<forall>q\<in>set (wi_sent s). req_method q \<noteq> ''POST'' \<longrightarrow> q = op_request c CommitmentsList"
      using other by (auto simp: sent True called_def op_request_method)
    then show ?thesis using True commitments_wire.sent_carry [OF run] posts_of_events [OF run_own [OF run]] by (simp add: sent)
  next
    case False
    let ?fx = "decode (Some (mock RCommitments))"
    have "shows_fixture ?fx (wired_init (commitments_init (Some ?fx)))"
      by (simp add: shows_fixture_def wired_init_def commitments_init_def rd_init_def)
    then have "shows_fixture ?fx s"
      using page_run_invariant [OF run, of "shows_fixture ?fx"] mock_step [OF False, where decode = decode] by blast
    then show ?thesis using False sent by (simp add: shows_fixture_def page_view_def)
  qed
next
  fix us u i now ws
  assume "vs = us @ Ui u # ws \<and> (u = DismissClick i \<or> u = SnoozeClick now i)"
  then obtain r where r: "commitments_wired env mock c decode us = Some r" "button_live i (wi_page r)"
    using assms by (auto simp: commitments_wired_def page_run_append wired_enabled_def split: bind_splits if_splits)
  from live_card [OF r(2)] data_came_from [OF r(1)]
  show "\<exists>d x. came_from env mock c decode us d \<and> x \<in> set d \<and> cm_id x = i \<and> cm_status x = Pending" by blast
qed

definition demo_env :: vite_env where
  "demo_env = [''VITE_API_MODE'' \<mapsto> ''real'']"

lemma commitments_over_the_wire_witness:
  "\<exists>s. commitments_wired demo_env (\<lambda>r. JNull) initial_config (\<lambda>v. [demo_commitment ''a'']) [Ui (Route Mount), Ui (DismissClick ''a'')] = Some s
     \<and> filter (\<lambda>q. req_method q = ''POST'') (wi_sent s) = [op_request initial_config (CommitmentsDismiss ''a'')]
     \<and> (\<forall>q\<in>set (wi_sent s). carries_config initial_config q)"
proof -
  let ?vs = "[Ui (Route Mount), Ui (DismissClick ''a'')]"
  have real: "isRealForRoute demo_env RCommitments" by (simp add: demo_env_def isRealForRoute_def mode_var_def)
  have "commitments_wired demo_env (\<lambda>r. JNull) initial_config (\<lambda>v. [demo_commitment ''a'']) ?vs \<noteq> None"
    by (simp add: commitments_wired_def wired_enabled_def wired_exec_def delivered_event_def wired_init_def commitments_init_def rd_init_def
        button_live_def page_view_def visible_commitments_def canAct_def demo_commitment_def rd_op_defs)
  then obtain s where s: "commitments_wired demo_env (\<lambda>r. JNull) initial_config (\<lambda>v. [demo_commitment ''a'']) ?vs = Some s" by blast
  then show ?thesis using commitments_over_the_wire [OF s] real by (auto simp: user_actions_def)
qed

text \<open>Until the gateway has answered, the page shows the fixture in a real route, too, with live buttons: a click sends
  the gateway the identifier of a record that is none of its own.\<close>

lemma fixture_buttons_live:
  assumes "isRealForRoute env RCommitments" "x \<in> set (decode (Some (mock RCommitments)))" "canAct x"
  shows "\<exists>s. commitments_wired env mock c decode [Ui (Route Mount), Ui (DismissClick (cm_id x))] = Some s
    \<and> wi_sent s = [op_request c CommitmentsList, op_request c (CommitmentsDismiss (cm_id x))]"
  using assms
  by (auto simp: commitments_wired_def wired_enabled_def wired_exec_def delivered_event_def wired_init_def commitments_init_def rd_init_def
      button_live_def page_view_def visible_commitments_def rd_op_defs list_ex_iff send_op_request)




end
