(* ===== verification/Reading_Pages.thy ===== *)
theory Reading_Pages
  imports Wired_Page Routed_Page Audit_Page Inbox_Page Home_Page Health_Page
begin

text \<open>
  The Audit, Inbox, Home and Health page with the client and the network.  They call the client from their loader
  only; what follows is that the decisions a user makes on them are never sent.
\<close>

section \<open>Audit\<close>

fun audit_calls :: "audit_event \<Rightarrow> v2_op list" where
  "audit_calls (Envelope ev) = route_calls AuditFindings ev"
| "audit_calls _ = []"

fun audit_own :: "audit_event \<Rightarrow> bool" where
  "audit_own (Envelope (Resolved n v)) = False"
| "audit_own (Envelope (Rejected n e)) = False"
| "audit_own _ = True"

definition audit_deliver :: "(json option \<Rightarrow> audit_finding list) \<Rightarrow> v2_op \<Rightarrow> nat \<Rightarrow> api_failure + json option \<Rightarrow> audit_event" where
  "audit_deliver decode op n r = Envelope (case r of Inr v \<Rightarrow> Resolved n (decode v) | Inl e \<Rightarrow> Rejected n e)"

definition audit_awaits :: "v2_op \<Rightarrow> nat \<Rightarrow> audit_page \<Rightarrow> bool" where
  "audit_awaits op n s \<longleftrightarrow> op = AuditFindings \<and> n \<in> set (pending (aload s))"

fun audit_starts :: "audit_event \<Rightarrow> bool" where
  "audit_starts (Envelope ev) = starts_route ev"
| "audit_starts _ = False"

interpretation audit_wire: reading_page AuditFindings audit_own audit_enabled audit_exec audit_calls "audit_deliver decode" audit_awaits
  audit_starts for decode
proof
  show "op_route op = op_route AuditFindings" if "op \<in> set (audit_calls u)" for op u
    using that by (cases u) (auto simp: route_calls_starts split: if_splits)
  show "audit_enabled (audit_deliver decode op n r) p" if "audit_awaits op n p" for op n p r
    using that by (auto simp: audit_awaits_def audit_deliver_def split: sum.splits)
  show "audit_calls u = (if audit_starts u then [AuditFindings] else [])" for u by (cases u) (simp_all add: route_calls_starts)
  show "\<not> audit_starts (audit_deliver decode op n r)" for op n r by (simp add: audit_deliver_def starts_route_def split: sum.split)
qed

section \<open>Inbox, Home and Health\<close>

text \<open>The pages that copy what arrives.  \<open>decode\<close> also gives the array its identity: a new one for each answer of the
  gateway.\<close>

fun routed_calls :: "v2_op \<Rightarrow> ('a, 'e, 'v) routed_event \<Rightarrow> v2_op list" where
  "routed_calls load (RouteEv ev) = route_calls load ev"
| "routed_calls load (PageEv v) = []"

fun routed_own :: "('a, 'e, 'v) routed_event \<Rightarrow> bool" where
  "routed_own (RouteEv (Resolved n v)) = False"
| "routed_own (RouteEv (Rejected n e)) = False"
| "routed_own _ = True"

definition routed_deliver ::
  "(nat \<Rightarrow> json option \<Rightarrow> nat \<times> 'a) \<Rightarrow> v2_op \<Rightarrow> nat \<Rightarrow> api_failure + json option \<Rightarrow> ('a, api_failure, 'v) routed_event" where
  "routed_deliver decode op n r = RouteEv (case r of Inr v \<Rightarrow> Resolved n (decode n v) | Inl e \<Rightarrow> Rejected n e)"

definition routed_awaits :: "v2_op \<Rightarrow> v2_op \<Rightarrow> nat \<Rightarrow> ('a, 'e, 'p) routed \<Rightarrow> bool" where
  "routed_awaits load op n s \<longleftrightarrow> op = load \<and> n \<in> set (pending (rload s))"

fun routed_starts :: "('a, 'e, 'v) routed_event \<Rightarrow> bool" where
  "routed_starts (RouteEv ev) = starts_route ev"
| "routed_starts (PageEv v) = False"

interpretation routed_wire: reading_page load routed_own "routed_enabled anytime en" "routed_exec on_load ex" "routed_calls load"
  "routed_deliver decode" "routed_awaits load" routed_starts for load anytime en on_load ex decode
proof
  show "op_route op = op_route load" if "op \<in> set (routed_calls load u)" for op and u :: "('x, 'y, 'z) routed_event"
    using that by (cases u) (auto simp: route_calls_starts split: if_splits)
  show "routed_enabled anytime en (routed_deliver decode op n r) p" if "routed_awaits load op n p" for op n p r
    using that by (auto simp: routed_awaits_def routed_deliver_def split: sum.splits)
  show "routed_calls load u = (if routed_starts u then [load] else [])" for u :: "('x, 'y, 'z) routed_event"
    by (cases u) (simp_all add: route_calls_starts)
  show "\<not> routed_starts (routed_deliver decode op n r)" for op n r by (simp add: routed_deliver_def starts_route_def split: sum.split)
qed

text \<open>The three pages; \<open>wired\<close> is the machine of a routed page on the wire.\<close>

abbreviation "routed_wired load anytime en on_load ex decode env mock c vs p \<equiv>
  page_run (wired_enabled routed_own (routed_enabled anytime en) (routed_awaits load))
    (wired_exec env mock c (routed_calls load) (routed_exec on_load ex) (routed_deliver decode)) vs (wired_init p)"

lemma routed_run_page_run: "routed_run anytime en on_load ex evs s = page_run (routed_enabled anytime en) (routed_exec on_load ex) evs s"
  by (induction evs arbitrary: s) simp_all

lemma routed_wired_reads:
  assumes "routed_wired load anytime en on_load ex decode env mock c vs p = Some s"
  shows "routed_run anytime en on_load ex (map (delivered_event env mock c (routed_deliver decode)) vs) p = Some (wi_page s)
    \<and> set (wi_sent s) \<subseteq> {op_request c load} \<and> (\<not> isRealForRoute env (op_route load) \<longrightarrow> wi_sent s = [])
    \<and> length (wi_sent s) \<le> length (filter (\<lambda>v. case v of Ui u \<Rightarrow> routed_starts u | _ \<Rightarrow> False) vs)"
  using routed_wire.projection [OF assms] routed_wire.only_reads [OF assms]
  by (auto simp: routed_run_page_run wired_init_def)

text \<open>Whatever the user decides on the Inbox or the Home page or asks for on the Health page, the gateway is never told:
  in any run the page is on the wire what it is alone, and every request is one for its data.\<close>

definition inbox_wired ::
  "(nat \<Rightarrow> json option \<Rightarrow> nat \<times> item list) \<Rightarrow> vite_env \<Rightarrow> (v2_route \<Rightarrow> json) \<Rightarrow> api_config
   \<Rightarrow> (item list, api_failure, inbox_event) routed_event wired_event list
   \<Rightarrow> (item list, api_failure, inbox_state) routed \<Rightarrow> (item list, api_failure, inbox_state) routed wired option" where
  "inbox_wired = routed_wired InboxList (\<lambda>v. v = inbox_event.ToastTimeout) (\<lambda>v p. \<not> is_load v \<and> inbox_enabled v p)
     (\<lambda>its. inbox_exec (Loaded its)) inbox_exec"

lemma inbox_decisions_never_sent:
  "inbox_wired decode env mock c vs p = Some s \<Longrightarrow>
   inbox_route_run (map (delivered_event env mock c (routed_deliver decode)) vs) p = Some (wi_page s)
   \<and> set (wi_sent s) \<subseteq> {op_request c InboxList} \<and> (\<not> isRealForRoute env RInbox \<longrightarrow> wi_sent s = [])"
  using routed_wired_reads [where load = InboxList] unfolding inbox_wired_def inbox_route_run_def by fastforce

definition home_wired ::
  "event_item list \<Rightarrow> (nat \<Rightarrow> json option \<Rightarrow> nat \<times> event_item list) \<Rightarrow> vite_env \<Rightarrow> (v2_route \<Rightarrow> json) \<Rightarrow> api_config
   \<Rightarrow> (event_item list, api_failure, home_event) routed_event wired_event list
   \<Rightarrow> (event_item list, api_failure, home_page) routed \<Rightarrow> (event_item list, api_failure, home_page) routed wired option" where
  "home_wired ini = routed_wired HomeLoad home_anytime (\<lambda>v p. \<not> home_is_load v \<and> home_enabled v p)
     (\<lambda>its. home_exec ini (LoadedEvents its)) (home_exec ini)"

lemma home_decisions_never_sent:
  "home_wired ini decode env mock c vs p = Some s \<Longrightarrow>
   home_route_run ini (map (delivered_event env mock c (routed_deliver decode)) vs) p = Some (wi_page s)
   \<and> set (wi_sent s) \<subseteq> {op_request c HomeLoad} \<and> (\<not> isRealForRoute env RHome \<longrightarrow> wi_sent s = [])"
  using routed_wired_reads [where load = HomeLoad] unfolding home_wired_def home_route_run_def by fastforce

definition health_wired ::
  "(nat \<Rightarrow> json option \<Rightarrow> nat \<times> health_data) \<Rightarrow> vite_env \<Rightarrow> (v2_route \<Rightarrow> json) \<Rightarrow> api_config
   \<Rightarrow> (health_data, api_failure, health_event) routed_event wired_event list
   \<Rightarrow> (health_data, api_failure, health_page) routed \<Rightarrow> (health_data, api_failure, health_page) routed wired option" where
  "health_wired = routed_wired HealthLoad (\<lambda>v. v = health_event.ToastGone) (\<lambda>v p. \<not> health_is_load v \<and> health_enabled v p)
     (\<lambda>d. health_exec (LoadedHealth d)) health_exec"

lemma health_requests_never_sent:
  "health_wired decode env mock c vs p = Some s \<Longrightarrow>
   health_route_run (map (delivered_event env mock c (routed_deliver decode)) vs) p = Some (wi_page s)
   \<and> set (wi_sent s) \<subseteq> {op_request c HealthLoad} \<and> (\<not> isRealForRoute env RHealth \<longrightarrow> wi_sent s = [])"
  using routed_wired_reads [where load = HealthLoad] unfolding health_wired_def health_route_run_def by fastforce

end
