(* ===== verification/Spec2Isabelle.thy ===== *)
theory Spec2Isabelle
  imports Admin_Console Legacy_Pages Legacy_Memory App_Shell Ui_Components Design_Audit Security_Page Health_Page Settings_Page Memory_Page Research_Page Audit_Page
    Plugin_Registry Plugin_Hooks Plugin_Sandbox Schema_Types Route_Data Api_Client Routed_Page Inbox_Page
    Commitments_Page Recipes_Page Home_Page I18n Design_Tokens Png_Diff
    Inbox_Fixtures Home_Fixtures Health_Fixtures Security_Fixtures Settings_Fixtures Memory_Fixtures Research_Fixtures
    Audit_Fixtures Commitments_Fixtures Recipes_Fixtures Commitments_Wire Reading_Pages
begin

text \<open>
  Verification of the TypeScript layer of IronGolem OS.

  IronGolem OS is an assistant platform: a Rust runtime and Go services act on a user's behalf, and a
  TypeScript layer holds the shared schema, the plugin SDK, the web application and the tooling that
  guards its looks.  This development models the TypeScript layer.  Everything it calls across the
  network, in the file system or in a plugin is a parameter of the model.

  \<^bold>\<open>The program's parts and how they interact\<close>

  \<^item> A plugin comes with a manifest.  \<open>PluginRegistry.register\<close> validates it, asks the workspace policy
    for the permissions and keeps a record and an instance; \<open>activate\<close> and \<open>deactivate\<close> run plugin code
    that may throw, and are suspended while it runs.  Plugins add hooks to a \<open>HookManager\<close>, which runs
    them by priority and lets a \<open>before_action\<close> hook stop an action.  Sandboxes execute plugin actions.
  \<^item> With the v2 flag off the web application shows its earlier pages, which call the client directly; the admin
    console is a second application over constant records.
  \<^item> A page of the web application asks the gateway client (\<open>lib/api.ts\<close>) for its data through
    \<open>useRouteData\<close> (\<open>lib/route-data.ts\<close>).  The client answers from a fixture or sends a request,
    route by route.  Inbox, Home and Health copy what arrives into their own state; Commitments and
    Audit show the envelope's data and reload it; Recipes, Security, Settings, Memory and Research work
    on their fixtures.
  \<^item> Texts come from the translation engine (\<open>packages/i18n\<close>), colours and sizes from the design
    tokens, which the Tailwind bridge and a dump script turn into CSS.  \<open>scripts/png-diff.ts\<close> is the
    gate that compares screenshots, \<open>scripts/design-component-audit.ts\<close> the one that reads the pages handed
    over by designers and reports what does not fit the code base.

  \<^bold>\<open>Theories\<close> (paths under \<open>src/\<close>)

  \<^item> \<open>Prelude\<close>: the JavaScript that the sources use, as executable functions: strings, insertion-ordered
    maps (locale \<open>js_map\<close>), stable sorting with a comparison function (locale \<open>js_comparator\<close>), list
    updates by key (locale \<open>keyed_update\<close>, extended by \<open>click_updates\<close> to pages whose buttons make such
    updates), lists split into categories (locale \<open>category_filter\<close>), and guarded runs with the last event
    that brought a fact about.  \<open>Js_Number\<close>: numbers as rationals, rounding, comparison by subtraction.
    \<open>Js_Double\<close>: the doubles behind printed decimals and the share of the screenshot gate.
    \<open>Js_Regex\<close>: regular expressions as the sources use them, a backtracking matcher, its agreement
    with a declarative match relation, and the sets of texts that patterns without anchors mean.
  \<^item> \<open>Schema_Plugins\<close> (\<open>packages/schema/src/plugins.ts\<close>), \<open>Plugin_Types\<close> (\<open>plugin-sdk/src/types.ts\<close>),
    \<open>Plugin_Registry\<close> (\<open>registry.ts\<close>), \<open>Plugin_Hooks\<close> (\<open>hooks.ts\<close>), \<open>Plugin_Sandbox\<close> (\<open>sandbox.ts\<close>).
    The registry is a record of two maps; the asynchronous operations are split at their \<open>await\<close>, so
    that a run is any interleaving of the parts.  A policy checker is a locale, interpreted on both
    checkers of the source; so is a sandbox.  Shown: whatever the host does, only granted permissions
    are ever listed, the two maps agree, state, times and errors of a record agree, an overtaken activation
    does not touch the new record; the hook list is the stable priority order of the log of live
    registrations, an abort ends a run, observers cannot change it, and the loop that splices in place
    removes exactly one plugin's hooks.
  \<^item> \<open>Schema_Types\<close> (\<open>packages/schema/src/{events,hooks,models,policy,provider}.ts\<close>): the closed
    unions with their wire values, which the locale \<open>wire_enum\<close> shows to be codes without
    collisions, labels, the interfaces as records, and the functions of the modules.
  \<^item> \<open>Route_Data\<close> (\<open>apps/web/src/lib/route-data.ts\<close>): the hook as a state machine whose events are the
    turns of the event loop.  Shown: stale responses never win, the envelope is consistent, data once
    shown is not lost.
  \<^item> \<open>Api_Client\<close> (\<open>apps/web/src/lib/api.ts\<close>): configuration, request and error handling, every
    endpoint, the per-route mock switch and the v2 operations.  \<open>fetch\<close> is a parameter over a world.
    Shown: which requests carry which credentials, that mock mode never sends, that paths can be read
    back, and what each response becomes.
  \<^item> \<open>Routed_Page\<close>: any page with its own state composed with the envelope, as \<open>Inbox.tsx\<close> and \<open>Home.tsx\<close>
    compose them.  The locale \<open>routed_page\<close> shows that the composition does only what the page alone
    can do, and that only the seed and accepted responses are copied; the page is the reader of a story, told without
    the hook, of which answers reached it (\<open>told\<close>); \<open>mirrored_page\<close> extends it to pages
    that hold nothing but what was copied.
  \<^item> \<open>Inbox_Page\<close>, \<open>Home_Page\<close>, \<open>Commitments_Page\<close>, \<open>Recipes_Page\<close> (\<open>apps/web/src/pages/v2/*.tsx\<close> with
    the wire types of \<open>_mocks/*.ts\<close>): reducers, derived lists and counters, handlers and effects.  A
    page's guard \<open>*_enabled\<close> is the condition under which the markup offers the control.  Shown: an
    item's history only grows and decisions are final, editing cannot redirect a draft, the selection
    is always valid, lists and counters agree, what is shown after an action is fresh, and activation
    depends on the user's own toggles only.
  \<^item> \<open>Security_Page\<close>, \<open>Health_Page\<close>, \<open>Settings_Page\<close>, \<open>Memory_Page\<close>, \<open>Research_Page\<close>, \<open>Audit_Page\<close> (the same
    directories): shown are that policies change by their own pause clicks only, that the overall health
    is the worst of the components and spark lines stay in their box, that a workspace is never scheduled
    for deletion without its name typed and a deployment mode never switched without being confirmed,
    that votes count once, that all states of the Settings page are well-formed, that forgetting
    facts destroys none, what the research cards are, and that the Audit page recovers from failures.
  \<^item> \<open>React_Effects\<close>: when \<open>useEffect\<close> runs an effect and its clean-up, the contract of a careful effect (locale
    \<open>effect_contract\<close>), the timers of the browser, and the confirmations that go away after a while.  A page with its
    timers is a machine whose events are clicks, time that passes and timers that fire, late perhaps but never
    early; the locale \<open>timed_toast\<close>, interpreted for eight pages, shows that it refines a page that notes since when
    a confirmation is shown.  \<open>Drawer_Effects\<close>: the style of the document and the listeners of the window; the
    locale \<open>drawer_page\<close>, which extends \<open>effect_contract\<close> and is interpreted for Recipes, Research and Security,
    shows that the page scrolls again whenever its drawer is gone and that Escape closes it, provided that the
    condition for locking and the condition for the drawer agree.  They do on the fixtures; a rule that is not
    in the library of policies freezes the Security page (\<open>unknown_rule_freezes\<close>).
  \<^item> \<open>Wired_Page\<close>: a page together with the client and the network.  An event of the page calls operations of the client;
    in a real route each puts its request on the wire, and its outcome arrives later, in any order, through the
    client's handling of responses.  The locale \<open>wired_page\<close> shows that the page does what it does alone, given the
    answers, and what is on the wire; \<open>reading_page\<close> extends it to pages that only load.  \<open>Commitments_Wire\<close>: the
    requests are the user's clicks, and an action ends with what the gateway says.  \<open>Reading_Pages\<close>: Audit, Inbox,
    Home and Health send nothing but requests for their data, whatever the user decides on them.
  \<^item> \<open>Fixture_Data\<close>: the interfaces \<open>keyed_data\<close> (rows with their own identifier) and \<open>resolved_refs\<close>, which extends
    it to rows that name a row of another list.  \<open>Inbox_Fixtures\<close>, \<open>Home_Fixtures\<close>, \<open>Health_Fixtures\<close>,
    \<open>Security_Fixtures\<close>, \<open>Settings_Fixtures\<close>, \<open>Memory_Fixtures\<close>, \<open>Research_Fixtures\<close>, \<open>Audit_Fixtures\<close>,
    \<open>Commitments_Fixtures\<close>, \<open>Recipes_Fixtures\<close> (\<open>apps/web/src/_mocks/*.ts\<close>) hold the records the client answers with
    in mock mode and interpret them; \<open>Home_Fixtures\<close> also holds the cards of the Home page that show nothing
    else.  Shown: identifiers are distinct and references resolve, every blocked event of the Home page has its
    cause whatever the user does, no link of the audit log is dead, counts and labels of the records agree, and
    where they do not.
  \<^item> \<open>I18n_Locales\<close>, \<open>I18n\<close> (\<open>packages/i18n/src\<close>): the three tables entry by entry, lookup with its
    fallback chain, interpolation, providers.  Shown: all translations exist and fill all placeholders
    in every locale, and providers do not disturb each other.
  \<^item> \<open>Design_Tokens\<close> (\<open>packages/design-tokens/src\<close>, \<open>scripts/dump-tokens-css.ts\<close>): the palettes and scales,
    the generated custom properties, the Tailwind bridge and the dump.
  \<^item> \<open>Png_Diff\<close> (\<open>scripts/png-diff.ts\<close>): chunk walk, unfiltering over bytes at their width, pixel
    difference, the share rounded as a double division rounds it, and exit code.  Decompression is a parameter.
    Shown: decoding inverts encoding for every filter choice, laws of the difference, and when the gate passes, by
    the places at which any channel differs.
  \<^item> \<open>App_Shell\<close> (\<open>App.tsx\<close>, \<open>pages/v2/registry.tsx\<close>, \<open>components/RouteErrorBoundary.tsx\<close>,
    \<open>components/RouteError.tsx\<close>, \<open>WorkspaceTopbar.tsx\<close>): the registry with its boundaries as data, which page a location
    shows, and the error boundary.  The router is a parameter.  What React does is modelled as far as the shell relies
    on it: an exception goes to the nearest boundary around the page, and leaves the tree when there is none or when the
    boundary renders its children again; another component is mounted afresh.  Shown: a crash stays on its page.
  \<^item> \<open>Ui_Components\<close> (\<open>packages/ui/src/components\<close>): what the shared components compute, over the types of
    \<open>Schema_Types\<close>.  Shown: the policy card has all layers with the last decision of each, the timeline
    and the printed times lose nothing.
  \<^item> \<open>Await_Page\<close>: the machine of a page that loads once, sends calls from its buttons and goes on when they
    settle, in any order, until it is unmounted.  The locale \<open>loaded_page\<close> shows that its content is what was
    loaded, changed by the answers in the order they settled, and that clicks and calls correspond.
    \<open>Legacy_Pages\<close>, \<open>Legacy_Memory\<close> (\<open>apps/web/src/pages/*.tsx\<close>, shown while the v2 flag is off) interpret it for
    seven pages.  Shown: which approvals the Inbox shows and that every decision comes from a click on its card,
    that a recipe card shows the last answer, that the memory graph joins related entries once, inside its
    drawing and on different places.
  \<^item> \<open>Admin_Console\<close> (\<open>apps/admin-console/src\<close>): the eight pages with the records they hold.  The locale
    \<open>row_selection\<close>, interpreted for four tables, shows that the panel belongs to the marked row.  Shown: the
    options of a filter split the table, bars and printed durations of traces, the completeness of the policy
    tables and the separation of duties in the permission matrix.
  \<^item> \<open>Design_Audit\<close> (\<open>scripts/design-component-audit.ts\<close>): the nine rules with their regular expressions, the
    sorted and grouped report, and the main program over a file system that is an argument.  Shown: the
    rules report exactly the lines that meet their conditions, every run ends, and the lines of a written report
    are exactly the findings of the files, blockers first.
  \<^item> This theory: the properties of pages together with their envelopes.

  \<^bold>\<open>Conventions.\<close>  A struct is a record, a union a datatype, a thrown error a value of a sum or option
  type.  An \<open>await\<close> splits an operation, and runs are lists of events checked by an executable guard, or
  an inductive reachability relation.  Loops are total functions: the chunk walk of a PNG file ends
  because its offset grows (a measure on the bytes left), and the tokeniser that
  specifies interpolation runs for as many steps as the text has characters, which is enough because
  each step consumes one.  The loop that collects the matches of a regular expression has fuel of one more
  than the length of the text, which is enough because every pattern of the audit consumes a character; its
  correctness theorem shows that no match is missed, so no theorem depends on a step bound.  Times and scores that JavaScript keeps as doubles are whole
  numbers or exact rationals; where the rounding decides (printed durations, the share of the screenshot gate) it is modelled.  Records \<open>demo_*\<close> are the concrete inputs of the witnesses.

  \<^bold>\<open>Not modelled.\<close>  Markup, class names and icons; placeholders and skeletons; printing of dates in the user's locale; the
  order in which effects of one render run, and effects that are overtaken by an event; the
  design exports under \<open>apps/web/src/_design-inbox\<close>, prototypes that no module imports, kept in several copies, and that
  the v2 pages replace; the Go services, the Rust runtime, the connectors and deployment, which are outside the TypeScript
  layer.
\<close>

section \<open>Pages and their envelopes\<close>

text \<open>C9.
  The Inbox with its data envelope, over any interleaving of user actions, responses, failures and retries, is a
  reader of what the envelope accepts: its state is that of the page alone after the user's own actions and one
  load for each of these, in the order they happened: the page is mounted and the last answer was no failure, with
  the data it has; an answer is accepted that is another array or follows a failure, with that answer.  Failures,
  retries, unmounting, overtaken answers and an answer that is the array the page has change nothing.
\<close>

theorem inbox_with_envelope:
  assumes "inbox_route_run evs (inbox_route_init ref mock) = Some s"
  shows "inbox_run (told Loaded ref mock False (story_of evs (rd_init (Some (ref, mock))))) (after_render (inbox_init mock))
    = Some (rpage s)"
proof -
  have init: "rload (inbox_route_init ref mock) = rd_init (Some (ref, mock))"
    "rpage (inbox_route_init ref mock) = after_render (inbox_init mock)"
    by (simp_all add: inbox_route_init_def routed_init_def)
  have "page_events Loaded evs (rd_init (Some (ref, mock))) = told Loaded ref mock False (story_of evs (rd_init (Some (ref, mock))))"
    using told_page_events [of "rd_init (Some (ref, mock))" ref mock Loaded evs] by (simp add: rd_init_def)
  then show ?thesis using inbox_route_projects [OF assms] by (simp add: init)
qed

text \<open>A user snoozes, the first load fails, the retry answers and the user approves what it brought.\<close>

definition demo_visit :: "(item list, jstr, inbox_event) routed_event list" where
  "demo_visit =
     [RouteEv Mount, PageEv inbox_event.SnoozeClick, RouteEv (Rejected 1 ''down''), RouteEv Reload,
      RouteEv (Resolved 2 (7, [demo_item ''b'' ''bob''])), PageEv ApproveClick]"

definition demo_visited :: "(item list, jstr, inbox_state) routed" where
  "demo_visited = the (inbox_route_run demo_visit (inbox_route_init 0 [demo_item ''a'' ''ann'']))"

lemma inbox_with_envelope_witness:
  "inbox_run [Loaded [demo_item ''a'' ''ann''], inbox_event.SnoozeClick, Loaded [demo_item ''b'' ''bob''], ApproveClick]
     (after_render (inbox_init [demo_item ''a'' ''ann''])) = Some (rpage demo_visited)"
proof -
  have "inbox_route_run demo_visit (inbox_route_init 0 [demo_item ''a'' ''ann'']) \<noteq> None" by code_simp
  then have "inbox_route_run demo_visit (inbox_route_init 0 [demo_item ''a'' ''ann'']) = Some demo_visited"
    by (simp add: demo_visited_def)
  moreover have "told Loaded 0 [demo_item ''a'' ''ann''] False (story_of demo_visit (rd_init (Some (0, [demo_item ''a'' ''ann'']))))
    = [Loaded [demo_item ''a'' ''ann''], inbox_event.SnoozeClick, Loaded [demo_item ''b'' ''bob''], ApproveClick]" by code_simp
  ultimately show ?thesis using inbox_with_envelope by metis
qed

text \<open>C15.
  On the Home page nothing the user decided is lost or undone by the loader unless it brings new data:
  over any run in which every accepted response is a failure, with any number of retries and stale
  responses in between, and without a reset, each event of the timeline is as it was, or it was
  proposed and the user decided on it.
\<close>

theorem home_decisions_survive_failures:
  assumes "home_route_run ini evs s = Some s'" and "distinct (map ei_id (events (rpage s)))"
    and "RouteEv Mount \<notin> set evs" and "PageEv ResetDemo \<notin> set evs"
    and "\<forall>a \<in> set (rd_accepted (route_events evs) (rload s)). isl (snd a)"
    and "x \<in> set (events (rpage s))"
  shows "\<exists>y \<in> set (events (rpage s')). ei_id y = ei_id x
    \<and> (y = x \<or> ei_status x = Proposed \<and> (y = approve_event x \<or> y = deny_event x))"
proof -
  have "page_events LoadedEvents evs (rload s) = user_events evs"
    using no_loads [OF assms(1) [unfolded home_route_run_def] assms(3)] assms(5) by force
  moreover have "\<not> list_ex replaces (user_events evs)"
    using assms(4) home_route_user_events [OF assms(1)] by (simp add: list_ex_iff user_events_set replaces_iff) blast
  ultimately show ?thesis using decisions_run [OF assms(2) _ _ assms(6)] home_route_projects [OF assms(1)] by simp
qed

definition demo_outage :: "(event_item list, jstr, home_event) routed_event list" where
  "demo_outage = [PageEv (ApproveRow (demo_event ''a'' Proposed)), RouteEv (Rejected 1 ''down''), RouteEv Reload]"

definition demo_home :: "(event_item list, jstr, home_page) routed" where
  "demo_home = routed_exec (\<lambda>its. home_exec [] (LoadedEvents its)) (home_exec []) (RouteEv Mount)
     (routed_init 0 [demo_event ''a'' Proposed] (home_init [demo_event ''a'' Proposed]))"

lemma home_decisions_survive_failures_witness:
  "\<exists>y \<in> set (events (rpage (the (home_route_run [] demo_outage demo_home)))). ei_id y = ''a''"
proof -
  have run: "home_route_run [] demo_outage demo_home = Some (the (home_route_run [] demo_outage demo_home))"
    unfolding demo_home_def by (simp add: home_route_run_def) code_simp
  have ev: "events (rpage demo_home) = [demo_event ''a'' Proposed]" by code_simp
  have acc: "list_all (\<lambda>a. isl (snd a)) (rd_accepted (route_events demo_outage) (rload demo_home))" by code_simp
  have "\<exists>y \<in> set (events (rpage (the (home_route_run [] demo_outage demo_home)))). ei_id y = ei_id (demo_event ''a'' Proposed)
    \<and> (y = demo_event ''a'' Proposed \<or> ei_status (demo_event ''a'' Proposed) = Proposed
        \<and> (y = approve_event (demo_event ''a'' Proposed) \<or> y = deny_event (demo_event ''a'' Proposed)))"
    by (rule home_decisions_survive_failures [OF run])
      (use acc in \<open>simp_all add: ev demo_outage_def list_all_iff\<close>)
  then show ?thesis by (auto simp: demo_event_def)
qed

end
